(* ===== verification/Prelude.thy ===== *)
theory Prelude
  imports Main "HOL-Library.Monad_Syntax" "HOL-Library.Code_Target_Nat"
begin

text \<open>
  Shared vocabulary of the development: how a Rust computation ends, the standard
  library's I/O error, the named collections the component theories extend, and the
  few generic lemmas on options and lists that more than one component uses.

  A Rust function ends in one of two ways: it returns a value (\<open>Ret\<close>) or it panics
  (\<open>Panic\<close>: an index out of range, a division by zero, an arithmetic overflow in a
  build with overflow checks). \<open>Result<T, E>\<close> is the sum \<open>E + T\<close> (\<open>Inl\<close> the
  error), \<open>Option<T>\<close> is \<open>option\<close>; a function that can also panic returns an
  \<open>outcome\<close> around them. The flag \<open>oc\<close> of an operation that does unchecked
  arithmetic is the build's \<open>overflow-checks\<close> setting: \<open>True\<close> in a debug build,
  \<open>False\<close> in a release build, where the arithmetic wraps.
\<close>

section \<open>How a computation ends\<close>

datatype 'a outcome = Panic | Ret 'a

primrec obind :: "'a outcome \<Rightarrow> ('a \<Rightarrow> 'b outcome) \<Rightarrow> 'b outcome" where
  "obind Panic f = Panic"
| "obind (Ret x) f = f x"

primrec omap :: "('a \<Rightarrow> 'b) \<Rightarrow> 'a outcome \<Rightarrow> 'b outcome" where
  "omap f Panic = Panic"
| "omap f (Ret x) = Ret (f x)"

text \<open>\<open>Option::?\<close> inside a function that may panic.\<close>

definition otry :: "'a option \<Rightarrow> ('a \<Rightarrow> 'b option outcome) \<Rightarrow> 'b option outcome" where
  "otry x f = (case x of None \<Rightarrow> Ret None | Some a \<Rightarrow> f a)"

lemma otry_simps [simp]:
  "otry None f = Ret None"
  "otry (Some a) f = f a"
  by (simp_all add: otry_def)

lemma obind_eq_Ret: "obind m f = Ret y \<longleftrightarrow> (\<exists>x. m = Ret x \<and> f x = Ret y)"
  by (cases m) auto

lemma obind_cong [fundef_cong]:
  "m = m' \<Longrightarrow> (\<And>x. m' = Ret x \<Longrightarrow> f x = f' x) \<Longrightarrow> obind m f = obind m' f'"
  by (cases m') auto

lemma obind_assoc: "obind (obind m f) g = obind m (\<lambda>x. obind (f x) g)"
  by (cases m) auto

lemma omap_eq_Ret: "omap f m = Ret y \<longleftrightarrow> (\<exists>x. m = Ret x \<and> y = f x)"
  by (cases m) auto

section \<open>\<open>std::io\<close>\<close>

text \<open>\<open>io::Error\<close>: the kinds the program builds or the file system returns.\<close>

datatype io_error =
    NotFound
  | PermissionDenied string
  | UnexpectedEof string
  | OtherIo string

type_synonym 'a io_result = "io_error + 'a"

section \<open>Collections\<close>

named_theorems str_simps \<open>string operations on literals and appends\<close>
named_theorems key_simps \<open>canonical keys and identifiers\<close>
named_theorems hal_defs \<open>operations of the hardware adapters\<close>
named_theorems date_simps \<open>calendar arithmetic\<close>
named_theorems blk_simps \<open>function block state\<close>

section \<open>Generic lemmas\<close>

lemma map_option_bind_eq: "Option.bind m (\<lambda>x. Some (f x)) = map_option f m"
  by (cases m) auto

lemma bind_eq_SomeE:
  assumes "Option.bind m f = Some y"
  obtains x where "m = Some x" and "f x = Some y"
  using assms by (cases m) auto

lemma takeWhile_append_stop:
  "\<not> P x \<Longrightarrow> \<forall>y \<in> set ys. P y \<Longrightarrow> takeWhile P (ys @ x # zs) = ys"
  by (simp add: takeWhile_tail)

lemma dropWhile_append_stop:
  "\<not> P x \<Longrightarrow> \<forall>y \<in> set ys. P y \<Longrightarrow> dropWhile P (ys @ x # zs) = x # zs"
  by (induction ys) auto

lemma dropWhile_id: "(xs \<noteq> [] \<Longrightarrow> \<not> P (hd xs)) \<Longrightarrow> dropWhile P xs = xs"
  by (cases xs) auto

lemma dropWhile_idem [simp]: "dropWhile P (dropWhile P xs) = dropWhile P xs"
  by (induction xs) auto

lemma hd_dropWhile_not: "dropWhile P xs \<noteq> [] \<Longrightarrow> \<not> P (hd (dropWhile P xs))"
  by (rule hd_dropWhile)

end
