(* ===== verification/RustInt.thy ===== *)
theory RustInt
  imports Prelude "HOL-Library.Signed_Division" "HOL-Library.Word"
begin

text \<open>
  Rust's fixed-width integers. An \<open>i64\<close>, \<open>i128\<close>, \<open>u64\<close> or \<open>usize\<close> value is an
  \<open>int\<close> (\<open>nat\<close> for \<open>usize\<close>) inside its range; every operation that can leave the
  range says what it does there: \<open>checked_*\<close> returns \<open>None\<close>, \<open>*_arith\<close> panics or
  wraps with the build's overflow checks, an \<open>as\<close> cast wraps. \<open>usize\<close> has 64 bits.
  Bytes and Modbus registers are words (\<open>8 word\<close>, \<open>16 word\<close>). Division truncates
  towards zero (\<open>sdiv\<close>, \<open>smod\<close> of \<open>HOL-Library.Signed_Division\<close>).
\<close>

definition i64_min :: int where "i64_min = - 9223372036854775808"
definition i64_max :: int where "i64_max = 9223372036854775807"
definition i128_min :: int where "i128_min = - 170141183460469231731687303715884105728"
definition i128_max :: int where "i128_max = 170141183460469231731687303715884105727"
definition usize_max :: nat where "usize_max = 18446744073709551615"

definition in_i64 :: "int \<Rightarrow> bool" where
  "in_i64 n \<longleftrightarrow> i64_min \<le> n \<and> n \<le> i64_max"

definition in_i128 :: "int \<Rightarrow> bool" where
  "in_i128 n \<longleftrightarrow> i128_min \<le> n \<and> n \<le> i128_max"

text \<open>\<open>as i64\<close>, \<open>as i128\<close>, \<open>as u64\<close>/\<open>as usize\<close>: two's complement truncation.\<close>

definition wrap_i64 :: "int \<Rightarrow> int" where
  "wrap_i64 n = (n + 9223372036854775808) mod 18446744073709551616 - 9223372036854775808"

definition wrap_i128 :: "int \<Rightarrow> int" where
  "wrap_i128 n = (n + 170141183460469231731687303715884105728)
       mod 340282366920938463463374607431768211456 - 170141183460469231731687303715884105728"

definition wrap_u64 :: "int \<Rightarrow> int" where
  "wrap_u64 n = n mod 18446744073709551616"

definition wrap_usize :: "nat \<Rightarrow> nat" where
  "wrap_usize n = n mod 18446744073709551616"

definition wrap_u32 :: "int \<Rightarrow> int" where
  "wrap_u32 n = n mod 4294967296"

definition as_usize :: "int \<Rightarrow> nat" where
  "as_usize n = nat (wrap_u64 n)"

subsection \<open>Checked and unchecked arithmetic\<close>

definition checked_i64 :: "int \<Rightarrow> int option" where
  "checked_i64 n = (if in_i64 n then Some n else None)"

definition checked_i128 :: "int \<Rightarrow> int option" where
  "checked_i128 n = (if in_i128 n then Some n else None)"

definition i64_arith :: "bool \<Rightarrow> int \<Rightarrow> int outcome" where
  "i64_arith oc n = (if in_i64 n then Ret n else if oc then Panic else Ret (wrap_i64 n))"

definition i128_arith :: "bool \<Rightarrow> int \<Rightarrow> int outcome" where
  "i128_arith oc n = (if in_i128 n then Ret n else if oc then Panic else Ret (wrap_i128 n))"

definition usize_arith :: "bool \<Rightarrow> nat \<Rightarrow> nat outcome" where
  "usize_arith oc n =
     (if n \<le> usize_max then Ret n else if oc then Panic else Ret (wrap_usize n))"

text \<open>\<open>/\<close> and \<open>%\<close> panic on a zero divisor and on \<open>MIN / -1\<close> in every build.\<close>

definition i64_div :: "int \<Rightarrow> int \<Rightarrow> int outcome" where
  "i64_div a b = (if b = 0 \<or> \<not> in_i64 (a sdiv b) then Panic else Ret (a sdiv b))"

definition i64_rem :: "int \<Rightarrow> int \<Rightarrow> int outcome" where
  "i64_rem a b = (if b = 0 \<or> \<not> in_i64 (a sdiv b) then Panic else Ret (a smod b))"

definition i128_div :: "int \<Rightarrow> int \<Rightarrow> int outcome" where
  "i128_div a b = (if b = 0 \<or> \<not> in_i128 (a sdiv b) then Panic else Ret (a sdiv b))"

definition clamp :: "int \<Rightarrow> int \<Rightarrow> int \<Rightarrow> int" where
  "clamp lo hi x = (if x < lo then lo else if x > hi then hi else x)"

subsection \<open>Facts\<close>

lemmas int_bounds = in_i64_def in_i128_def i64_min_def i64_max_def i128_min_def i128_max_def

lemma in_i64_small [simp]: "in_i64 0" "in_i64 1" "in_i64 (numeral k) \<longleftrightarrow> numeral k \<le> i64_max"
  by (simp_all add: int_bounds)

lemma in_i64_wrap [simp, intro]: "in_i64 (wrap_i64 n)"
  using pos_mod_bound [of 18446744073709551616 "n + 9223372036854775808"]
    pos_mod_sign [of 18446744073709551616 "n + 9223372036854775808"]
  by (simp add: int_bounds wrap_i64_def)

lemma in_i128_wrap [simp, intro]: "in_i128 (wrap_i128 n)"
  using pos_mod_bound [of 340282366920938463463374607431768211456
        "n + 170141183460469231731687303715884105728"]
    pos_mod_sign [of 340282366920938463463374607431768211456
        "n + 170141183460469231731687303715884105728"]
  by (simp add: int_bounds wrap_i128_def)

lemma wrap_i64_id [simp]: "in_i64 n \<Longrightarrow> wrap_i64 n = n"
  by (simp add: int_bounds wrap_i64_def)

lemma wrap_i128_id [simp]: "in_i128 n \<Longrightarrow> wrap_i128 n = n"
  by (simp add: int_bounds wrap_i128_def)

lemma wrap_i64_cong: "(wrap_i64 n - n) mod 18446744073709551616 = 0"
proof -
  have "wrap_i64 n - n = - (18446744073709551616 * ((n + 9223372036854775808) div 18446744073709551616))"
    unfolding wrap_i64_def minus_mod_eq_mult_div [symmetric] by simp
  then show ?thesis by simp
qed

lemma i64_arith_Ret [simp]: "in_i64 n \<Longrightarrow> i64_arith oc n = Ret n"
  by (simp add: i64_arith_def)

lemma i64_arith_range: "i64_arith oc n = Ret m \<Longrightarrow> in_i64 m"
  by (auto simp: i64_arith_def split: if_splits)

lemma i64_arith_release [simp]: "i64_arith False n = Ret (wrap_i64 n)"
  by (simp add: i64_arith_def)

lemma i128_arith_Ret [simp]: "in_i128 n \<Longrightarrow> i128_arith oc n = Ret n"
  by (simp add: i128_arith_def)

lemma i128_arith_range: "i128_arith oc n = Ret m \<Longrightarrow> in_i128 m"
  by (auto simp: i128_arith_def split: if_splits)

lemma checked_i64_Some [simp]: "checked_i64 n = Some m \<longleftrightarrow> in_i64 n \<and> m = n"
  by (auto simp: checked_i64_def)

lemma checked_i128_Some [simp]: "checked_i128 n = Some m \<longleftrightarrow> in_i128 n \<and> m = n"
  by (auto simp: checked_i128_def)

lemma usize_arith_Ret [simp]: "n \<le> usize_max \<Longrightarrow> usize_arith oc n = Ret n"
  by (simp add: usize_arith_def)

lemma clamp_bounds: "lo \<le> hi \<Longrightarrow> lo \<le> clamp lo hi x \<and> clamp lo hi x \<le> hi"
  by (auto simp: clamp_def)

lemma clamp_id [simp]: "lo \<le> x \<Longrightarrow> x \<le> hi \<Longrightarrow> clamp lo hi x = x"
  by (auto simp: clamp_def)

lemma clamp_idem [simp]: "lo \<le> hi \<Longrightarrow> clamp lo hi (clamp lo hi x) = clamp lo hi x"
  by (auto simp: clamp_def)

lemma in_i64_smod: "in_i64 a \<Longrightarrow> in_i64 b \<Longrightarrow> b \<noteq> 0 \<Longrightarrow> in_i64 (a smod b)"
  using smod_int_range [where a = a and b = b] by (auto simp: int_bounds)

lemma in_i64_i128 [simp]: "in_i64 n \<Longrightarrow> in_i128 n"
  by (simp add: int_bounds)

end
