(* ===== verification/RustStr.thy ===== *)
theory RustStr
  imports RustInt "HOL-Library.List_Lexorder" "HOL-Library.Char_ord"
begin

text \<open>
  Rust's \<open>str\<close> and \<open>String\<close>. A string is the list of its UTF-8 bytes (a \<open>char\<close> is a
  byte, a literal such as \<open>''abc''\<close> its ASCII encoding), so \<open>len\<close> counts bytes and the
  order on strings is the byte order. \<open>chars\<close> cuts a string before every byte that is
  not a continuation byte; on valid UTF-8 its elements are the encodings of the
  string's characters. The searches for an ASCII delimiter, the ASCII case mappings and
  the integer parsers work on bytes, as in the standard library; \<open>trim\<close> works on
  characters, with Unicode's \<open>White_Space\<close>.
\<close>

section \<open>Bytes and characters\<close>

definition byte :: "char \<Rightarrow> nat" where
  "byte c = of_char c"

definition is_cont :: "char \<Rightarrow> bool" where
  "is_cont c \<longleftrightarrow> 128 \<le> byte c \<and> byte c < 192"

function chars :: "string \<Rightarrow> string list" where
  "chars [] = []"
| "chars (b # bs) = (b # takeWhile is_cont bs) # chars (dropWhile is_cont bs)"
  by pat_completeness auto
termination
  by (relation "measure length") (auto simp: le_imp_less_Suc length_dropWhile_le)

definition is_ascii_digit :: "char \<Rightarrow> bool" where
  "is_ascii_digit c \<longleftrightarrow> 48 \<le> byte c \<and> byte c \<le> 57"

definition is_ascii_upper :: "char \<Rightarrow> bool" where
  "is_ascii_upper c \<longleftrightarrow> 65 \<le> byte c \<and> byte c \<le> 90"

definition is_ascii_lower :: "char \<Rightarrow> bool" where
  "is_ascii_lower c \<longleftrightarrow> 97 \<le> byte c \<and> byte c \<le> 122"

definition is_ascii_alphabetic :: "char \<Rightarrow> bool" where
  "is_ascii_alphabetic c \<longleftrightarrow> is_ascii_upper c \<or> is_ascii_lower c"

definition is_ascii_alphanumeric :: "char \<Rightarrow> bool" where
  "is_ascii_alphanumeric c \<longleftrightarrow> is_ascii_alphabetic c \<or> is_ascii_digit c"

text \<open>The encodings of the characters with the Unicode property \<open>White_Space\<close>.\<close>

definition is_whitespace :: "string \<Rightarrow> bool" where
  "is_whitespace c \<longleftrightarrow>
     (case map byte c of
        [b] \<Rightarrow> (9 \<le> b \<and> b \<le> 13) \<or> b = 32
      | [b, d] \<Rightarrow> b = 194 \<and> (d = 133 \<or> d = 160)
      | [b, d, e] \<Rightarrow>
          (b = 225 \<and> d = 154 \<and> e = 128)
        \<or> (b = 226 \<and> d = 128 \<and> (128 \<le> e \<and> e \<le> 138 \<or> e = 168 \<or> e = 169 \<or> e = 175))
        \<or> (b = 226 \<and> d = 129 \<and> e = 159)
        \<or> (b = 227 \<and> d = 128 \<and> e = 128)
      | _ \<Rightarrow> False)"

definition upper_char :: "char \<Rightarrow> char" where
  "upper_char c = (if is_ascii_lower c then char_of (byte c - 32) else c)"

definition lower_char :: "char \<Rightarrow> char" where
  "lower_char c = (if is_ascii_upper c then char_of (byte c + 32) else c)"

definition to_ascii_uppercase :: "string \<Rightarrow> string" where
  "to_ascii_uppercase = map upper_char"

definition to_ascii_lowercase :: "string \<Rightarrow> string" where
  "to_ascii_lowercase = map lower_char"

section \<open>Trimming and cutting\<close>

definition lstrip :: "string list \<Rightarrow> string list" where
  "lstrip cs = dropWhile is_whitespace cs"

definition rstrip :: "string list \<Rightarrow> string list" where
  "rstrip cs = rev (dropWhile is_whitespace (rev cs))"

definition trim_start :: "string \<Rightarrow> string" where
  "trim_start s = concat (lstrip (chars s))"

definition trim :: "string \<Rightarrow> string" where
  "trim s = concat (rstrip (lstrip (chars s)))"

text \<open>\<open>trim_end_matches(['\\n', '\\r'])\<close>.\<close>

definition is_line_end :: "char \<Rightarrow> bool" where
  "is_line_end c \<longleftrightarrow> byte c = 10 \<or> byte c = 13"

definition trim_end_newlines :: "string \<Rightarrow> string" where
  "trim_end_newlines s = rev (dropWhile is_line_end (rev s))"

fun strip_prefix :: "string \<Rightarrow> string \<Rightarrow> string option" where
  "strip_prefix [] s = Some s"
| "strip_prefix (p # ps) [] = None"
| "strip_prefix (p # ps) (c # cs) = (if p = c then strip_prefix ps cs else None)"

definition starts_with :: "string \<Rightarrow> string \<Rightarrow> bool" where
  "starts_with s p \<longleftrightarrow> strip_prefix p s \<noteq> None"

definition ends_with :: "string \<Rightarrow> string \<Rightarrow> bool" where
  "ends_with s p \<longleftrightarrow> strip_prefix (rev p) (rev s) \<noteq> None"

text \<open>\<open>split(d)\<close>, \<open>split_once(d)\<close> for one ASCII byte, \<open>split_once(pat)\<close>, \<open>find(pat)\<close>
  for a string.\<close>

fun split_at :: "char \<Rightarrow> string \<Rightarrow> string list" where
  "split_at d [] = [[]]"
| "split_at d (c # cs) =
     (if c = d then [] # split_at d cs
      else (case split_at d cs of [] \<Rightarrow> [[c]] | p # ps \<Rightarrow> (c # p) # ps))"

fun split_once :: "char \<Rightarrow> string \<Rightarrow> (string \<times> string) option" where
  "split_once d [] = None"
| "split_once d (c # cs) =
     (if c = d then Some ([], cs)
      else map_option (\<lambda>(a, b). (c # a, b)) (split_once d cs))"

fun split_once_str :: "string \<Rightarrow> string \<Rightarrow> (string \<times> string) option" where
  "split_once_str p [] = (if p = [] then Some ([], []) else None)"
| "split_once_str p (c # cs) =
     (case strip_prefix p (c # cs) of
        Some rest \<Rightarrow> Some ([], rest)
      | None \<Rightarrow> map_option (\<lambda>(a, b). (c # a, b)) (split_once_str p cs))"

text \<open>\<open>lines()\<close>: cut at line feeds, drop a carriage return before one, no line after
  the last line feed.\<close>

fun strip_cr :: "string \<Rightarrow> string" where
  "strip_cr [] = []"
| "strip_cr [c] = (if byte c = 13 then [] else [c])"
| "strip_cr (c # cs) = c # strip_cr cs"

definition str_lines :: "string \<Rightarrow> string list" where
  "str_lines s =
     (let ps = split_at (CHR 0x0A) s
      in map strip_cr (butlast ps) @ (if last ps = [] then [] else [last ps]))"

section \<open>Integers as text\<close>

fun show_nat :: "nat \<Rightarrow> string" where
  "show_nat n =
     (if n < 10 then [char_of (48 + n)] else show_nat (n div 10) @ [char_of (48 + n mod 10)])"

declare show_nat.simps [simp del]

definition show_int :: "int \<Rightarrow> string" where
  "show_int n = (if n < 0 then CHR ''-'' # show_nat (nat (- n)) else show_nat (nat n))"

text \<open>\<open>char::to_digit\<close> for a radix up to 16.\<close>

definition to_digit :: "nat \<Rightarrow> char \<Rightarrow> nat option" where
  "to_digit radix c =
     (let d = (if is_ascii_digit c then byte c - 48
               else if 65 \<le> byte c \<and> byte c \<le> 70 then byte c - 55
               else if 97 \<le> byte c \<and> byte c \<le> 102 then byte c - 87
               else 16)
      in if d < radix then Some d else None)"

fun digits_value :: "nat \<Rightarrow> nat \<Rightarrow> string \<Rightarrow> nat option" where
  "digits_value radix acc [] = Some acc"
| "digits_value radix acc (c # cs) =
     (case to_digit radix c of
        None \<Rightarrow> None
      | Some d \<Rightarrow> digits_value radix (acc * radix + d) cs)"

definition unsigned_digits :: "nat \<Rightarrow> string \<Rightarrow> nat option" where
  "unsigned_digits radix s = (if s = [] then None else digits_value radix 0 s)"

text \<open>
  \<open>from_str_radix\<close> of an unsigned type with largest value \<open>mx\<close> (a leading \<open>+\<close> is
  accepted, a leading \<open>-\<close> is not a digit) and of a signed type with range \<open>lo..hi\<close>.
  \<open>str::parse\<close> is radix 10.
\<close>

definition from_str_radix_unsigned :: "nat \<Rightarrow> nat \<Rightarrow> string \<Rightarrow> nat option" where
  "from_str_radix_unsigned radix mx s =
     Option.bind
       (case s of [] \<Rightarrow> None
        | c # cs \<Rightarrow> if c = CHR ''+'' then unsigned_digits radix cs else unsigned_digits radix s)
       (\<lambda>n. if n \<le> mx then Some n else None)"

definition from_str_radix_signed :: "nat \<Rightarrow> int \<Rightarrow> int \<Rightarrow> string \<Rightarrow> int option" where
  "from_str_radix_signed radix lo hi s =
     Option.bind
       (case s of [] \<Rightarrow> None
        | c # cs \<Rightarrow>
            if c = CHR ''-'' then map_option (\<lambda>n. - int n) (unsigned_digits radix cs)
            else if c = CHR ''+'' then map_option int (unsigned_digits radix cs)
            else map_option int (unsigned_digits radix s))
       (\<lambda>n. if lo \<le> n \<and> n \<le> hi then Some n else None)"

definition parse_i64 :: "string \<Rightarrow> int option" where
  "parse_i64 = from_str_radix_signed 10 i64_min i64_max"

definition parse_i128 :: "string \<Rightarrow> int option" where
  "parse_i128 = from_str_radix_signed 10 i128_min i128_max"

definition parse_usize :: "string \<Rightarrow> nat option" where
  "parse_usize = from_str_radix_unsigned 10 usize_max"

definition parse_u8_dec :: "string \<Rightarrow> nat option" where
  "parse_u8_dec = from_str_radix_unsigned 10 255"

definition parse_u16_dec :: "string \<Rightarrow> nat option" where
  "parse_u16_dec = from_str_radix_unsigned 10 65535"


section \<open>Facts about bytes and characters\<close>

lemma byte_lt [simp]: "byte c < 256"
  by (simp add: byte_def)

lemma char_of_byte [simp]: "char_of (byte c) = c"
  by (simp add: byte_def)

lemma byte_char_of [simp]: "n < 256 \<Longrightarrow> byte (char_of n) = n"
  by (simp add: byte_def)

lemma byte_inject: "byte a = byte b \<longleftrightarrow> a = b"
  by (metis char_of_byte)

lemma char_of_eq_char_iff: "n < 256 \<Longrightarrow> char_of n = c \<longleftrightarrow> byte c = n"
  by auto

lemmas ascii_class_defs = is_ascii_digit_def is_ascii_upper_def is_ascii_lower_def
  is_ascii_alphabetic_def is_ascii_alphanumeric_def

lemma byte_upper_char:
  "byte (upper_char c) = (if is_ascii_lower c then byte c - 32 else byte c)"
  by (auto simp: upper_char_def is_ascii_lower_def)

lemma byte_lower_char:
  "byte (lower_char c) = (if is_ascii_upper c then byte c + 32 else byte c)"
  by (auto simp: lower_char_def is_ascii_upper_def)

lemma upper_char_idem [simp]: "upper_char (upper_char c) = upper_char c"
  by (auto simp: byte_inject [symmetric] byte_upper_char is_ascii_lower_def)

lemma is_cont_upper [simp]: "is_cont (upper_char c) = is_cont c"
  by (auto simp: is_cont_def byte_upper_char is_ascii_lower_def)

lemma upper_char_noop [simp]: "\<not> is_ascii_lower c \<Longrightarrow> upper_char c = c"
  by (simp add: upper_char_def)

lemma concat_chars [simp]: "concat (chars s) = s"
  by (induction s rule: chars.induct) auto

lemma chars_eq_Nil [simp]: "chars s = [] \<longleftrightarrow> s = []"
  by (cases s) auto

text \<open>
  The lists of characters that \<open>chars\<close> produces: non-empty pieces of one leading byte
  and continuation bytes, of which only the first can start with a continuation byte
  (in a string that is not valid UTF-8). Cutting such a list anywhere and putting the
  parts back together gives a string with exactly these characters.
\<close>

definition char_ok :: "string \<Rightarrow> bool" where
  "char_ok c \<longleftrightarrow> c \<noteq> [] \<and> (\<forall>b \<in> set (tl c). is_cont b)"

definition chars_ok :: "string list \<Rightarrow> bool" where
  "chars_ok cs \<longleftrightarrow> (\<forall>c \<in> set cs. char_ok c) \<and> (\<forall>c \<in> set (tl cs). \<not> is_cont (hd c))"

text \<open>A string that does not start inside a character, as every Rust string.\<close>

definition str_ok :: "string \<Rightarrow> bool" where
  "str_ok s \<longleftrightarrow> s = [] \<or> \<not> is_cont (hd s)"

lemma chars_concat:
  assumes "chars_ok cs"
  shows "chars (concat cs) = cs"
  using assms
proof (induction cs)
  case Nil
  then show ?case by simp
next
  case (Cons c cs)
  from Cons.prems obtain b bs where c: "c = b # bs" and bs: "\<forall>x \<in> set bs. is_cont x"
    by (cases c) (auto simp: chars_ok_def char_ok_def)
  from Cons.prems have hd: "\<forall>d \<in> set cs. char_ok d \<and> \<not> is_cont (hd d)"
    by (auto simp: chars_ok_def)
  then have cs: "chars_ok cs"
    by (cases cs) (auto simp: chars_ok_def)
  have stop: "takeWhile is_cont (bs @ concat cs) = bs \<and> dropWhile is_cont (bs @ concat cs) = concat cs"
  proof (cases cs)
    case Nil
    with bs show ?thesis by (simp add: takeWhile_eq_all_conv)
  next
    case (Cons d ds)
    with hd obtain x xs where "d = x # xs" "\<not> is_cont x"
      by (cases d) (auto simp: char_ok_def)
    with Cons bs show ?thesis
      by (simp add: takeWhile_append_stop dropWhile_append_stop)
  qed
  then show ?case
    using Cons.IH [OF cs] by (simp add: c)
qed

lemma chars_ok_chars [simp]: "chars_ok (chars s)"
proof (induction s rule: chars.induct)
  case 1
  show ?case by (simp add: chars_ok_def)
next
  case (2 b bs)
  let ?r = "dropWhile is_cont bs"
  have "\<forall>c \<in> set (chars ?r). \<not> is_cont (hd c)"
  proof (cases ?r)
    case Nil
    show ?thesis by (simp only: Nil chars.simps) simp
  next
    case (Cons x xs)
    then have "\<not> is_cont x"
      using hd_dropWhile [of is_cont bs] by simp
    with 2 Cons show ?thesis by (auto simp: chars_ok_def)
  qed
  with 2 show ?case
    by (auto simp: chars_ok_def char_ok_def dest: set_takeWhileD)
qed

lemma chars_ok_sub:
  assumes "chars_ok cs" and "cs = xs @ ys @ zs"
  shows "chars_ok ys"
  using assms by (cases xs; cases ys) (auto simp: chars_ok_def)

lemma chars_ok_take [simp]: "chars_ok cs \<Longrightarrow> chars_ok (take n cs)"
  by (rule chars_ok_sub [of cs "[]" "take n cs" "drop n cs"]) simp_all

lemma chars_ok_drop [simp]: "chars_ok cs \<Longrightarrow> chars_ok (drop n cs)"
  by (rule chars_ok_sub [of cs "take n cs" "drop n cs" "[]"]) simp_all

lemma chars_ok_append:
  "chars_ok xs \<Longrightarrow> chars_ok ys \<Longrightarrow> (ys \<noteq> [] \<Longrightarrow> \<not> is_cont (hd (hd ys))) \<Longrightarrow> chars_ok (xs @ ys)"
  by (cases xs; cases ys) (auto simp: chars_ok_def)

lemma chars_map: "(\<And>b. is_cont (f b) = is_cont b) \<Longrightarrow> chars (map f s) = map (map f) (chars s)"
  by (induction s rule: chars.induct)
    (simp_all add: takeWhile_map dropWhile_map comp_def)

lemma chars_ascii: "\<forall>c \<in> set s. \<not> is_cont c \<Longrightarrow> chars s = map (\<lambda>c. [c]) s"
proof (induction s)
  case (Cons c s)
  then have "takeWhile is_cont s = [] \<and> dropWhile is_cont s = s"
    by (cases s) auto
  with Cons show ?case by simp
qed simp

section \<open>Facts about trimming\<close>

lemma lstrip_split: "\<exists>xs. cs = xs @ lstrip cs"
  unfolding lstrip_def by (metis takeWhile_dropWhile_id)

lemma rstrip_split: "\<exists>xs. cs = rstrip cs @ xs"
  unfolding rstrip_def by (metis rev_append rev_rev_ident takeWhile_dropWhile_id)

lemma strip_split: "\<exists>xs ys. cs = xs @ rstrip (lstrip cs) @ ys"
  using lstrip_split [of cs] rstrip_split [of "lstrip cs"] by metis

lemma chars_trim: "chars (trim s) = rstrip (lstrip (chars s))"
proof -
  obtain xs ys where "chars s = xs @ rstrip (lstrip (chars s)) @ ys"
    using strip_split by blast
  with chars_ok_chars have "chars_ok (rstrip (lstrip (chars s)))"
    by (rule chars_ok_sub)
  then show ?thesis by (simp add: trim_def chars_concat)
qed

lemma rstrip_idem [simp]: "rstrip (rstrip cs) = rstrip cs"
  by (simp add: rstrip_def)

lemma lstrip_rstrip_lstrip [simp]: "lstrip (rstrip (lstrip cs)) = rstrip (lstrip cs)"
proof -
  obtain xs where xs: "lstrip cs = rstrip (lstrip cs) @ xs"
    using rstrip_split by blast
  have "rstrip (lstrip cs) \<noteq> [] \<Longrightarrow> \<not> is_whitespace (hd (rstrip (lstrip cs)))"
    using xs hd_dropWhile [of is_whitespace cs] unfolding lstrip_def
    by (metis append_is_Nil_conv hd_append2)
  then show ?thesis
    unfolding lstrip_def [of "rstrip (lstrip cs)"] by (rule dropWhile_id)
qed

lemma trim_idem [simp]: "trim (trim s) = trim s"
  by (simp add: trim_def [of "trim s"] chars_trim) (simp add: trim_def)

lemma is_whitespace_upper [simp]: "is_whitespace (map upper_char c) = is_whitespace c"
proof -
  have aux: "byte (upper_char b) = byte b"
    if "byte b \<le> 32 \<or> 128 \<le> byte b \<or> byte (upper_char b) \<le> 32 \<or> 128 \<le> byte (upper_char b)" for b
    using that by (auto simp: byte_upper_char is_ascii_lower_def split: if_splits)
  have lo: "(9 \<le> byte (upper_char b) \<and> byte (upper_char b) \<le> 13 \<or> byte (upper_char b) = 32)
      = (9 \<le> byte b \<and> byte b \<le> 13 \<or> byte b = 32)" for b
    using aux [of b] by auto
  have hi: "byte (upper_char b) = n \<longleftrightarrow> byte b = n" if "128 \<le> n" for b n
    using aux [of b] that by auto
  have rng: "(128 \<le> byte (upper_char b) \<and> byte (upper_char b) \<le> 138)
      = (128 \<le> byte b \<and> byte b \<le> 138)" for b
    using aux [of b] by auto
  consider "c = []" | a where "c = [a]" | a b where "c = [a, b]"
    | a b d where "c = [a, b, d]" | a b d e cs where "c = a # b # d # e # cs"
    by (metis list.exhaust)
  then show ?thesis
    by cases (simp_all add: is_whitespace_def hi lo rng)
qed

lemma lstrip_map_upper: "lstrip (map (map upper_char) cs) = map (map upper_char) (lstrip cs)"
  by (simp add: lstrip_def dropWhile_map comp_def)

lemma rstrip_map_upper: "rstrip (map (map upper_char) cs) = map (map upper_char) (rstrip cs)"
  by (simp add: rstrip_def rev_map dropWhile_map comp_def)

lemma trim_upper: "trim (to_ascii_uppercase s) = to_ascii_uppercase (trim s)"
  by (simp add: trim_def to_ascii_uppercase_def chars_map lstrip_map_upper rstrip_map_upper map_concat)

lemma to_ascii_uppercase_idem [simp]:
  "to_ascii_uppercase (to_ascii_uppercase s) = to_ascii_uppercase s"
  by (simp add: to_ascii_uppercase_def)

lemma set_trim: "set (trim s) \<subseteq> set s"
proof -
  obtain xs ys where "chars s = xs @ rstrip (lstrip (chars s)) @ ys"
    using strip_split by blast
  then have "s = concat xs @ trim s @ concat ys"
    unfolding trim_def by (metis concat_append concat_chars)
  then show ?thesis by (metis Un_iff set_append subsetI)
qed

text \<open>A non-empty ASCII string without white space is not trimmed.\<close>

lemma trim_noop:
  assumes "\<forall>c \<in> set s. 33 \<le> byte c \<and> byte c < 128"
  shows "trim s = s"
proof -
  have ch: "chars s = map (\<lambda>c. [c]) s"
    using assms by (intro chars_ascii) (auto simp: is_cont_def)
  have nw: "\<forall>c \<in> set (chars s). \<not> is_whitespace c"
    using assms by (auto simp: ch is_whitespace_def)
  then have "lstrip (chars s) = chars s"
    unfolding lstrip_def by (intro dropWhile_id) auto
  moreover from nw have "rstrip (chars s) = chars s"
    unfolding rstrip_def by (subst dropWhile_id) (auto simp: hd_rev)
  ultimately show ?thesis by (simp add: trim_def)
qed

end
