(* ===== verification/RustText.thy ===== *)
theory RustText
  imports RustStr
begin

text \<open>
  What the parsers and codecs of the program need of the string operations: cutting a
  string at a delimiter and joining it again, stripping a prefix, dropping the line end,
  and that parsing a printed integer gives the integer back.
\<close>

section \<open>Cutting\<close>

lemma strip_prefix_eq_Some: "strip_prefix p s = Some r \<longleftrightarrow> s = p @ r"
  by (induction p s rule: strip_prefix.induct) auto

lemma strip_prefix_append [simp]: "strip_prefix p (p @ r) = Some r"
  by (simp add: strip_prefix_eq_Some)

lemma starts_with_append [simp]: "starts_with (p @ r) p"
  by (simp add: starts_with_def)

lemma split_once_eq_Some: "split_once d s = Some (a, b) \<longleftrightarrow> s = a @ d # b \<and> d \<notin> set a"
proof (induction s arbitrary: a)
  case Nil
  show ?case by simp
next
  case (Cons c s)
  show ?case
  proof (cases "c = d")
    case True
    then show ?thesis by (cases a) auto
  next
    case False
    then show ?thesis
      by (cases a) (auto simp: Cons.IH)
  qed
qed

lemma split_once_append: "d \<notin> set a \<Longrightarrow> split_once d (a @ d # b) = Some (a, b)"
  by (simp add: split_once_eq_Some)

lemma split_once_eq_None: "split_once d s = None \<longleftrightarrow> d \<notin> set s"
  by (induction s) auto

lemma split_at_ne [simp]: "split_at d s \<noteq> []"
  by (induction s) (auto split: list.splits)

lemma split_at_append: "d \<notin> set p \<Longrightarrow> split_at d (p @ d # s) = p # split_at d s"
  by (induction p) auto

lemma split_at_noop: "d \<notin> set p \<Longrightarrow> split_at d p = [p]"
  by (induction p) auto

lemma split_at_pieces: "p \<in> set (split_at d s) \<Longrightarrow> d \<notin> set p"
  by (induction s arbitrary: p) (auto split: if_splits list.splits)

text \<open>Joining the pieces with the delimiter gives the string back.\<close>

fun join_with :: "char \<Rightarrow> string list \<Rightarrow> string" where
  "join_with d [] = []"
| "join_with d [p] = p"
| "join_with d (p # q # ps) = p @ d # join_with d (q # ps)"

lemma join_split [simp]: "join_with d (split_at d s) = s"
proof (induction s)
  case Nil
  show ?case by simp
next
  case (Cons c s)
  obtain p ps where "split_at d s = p # ps"
    by (meson split_at_ne neq_Nil_conv)
  with Cons show ?case by (cases ps) auto
qed

lemma trim_end_newlines_snoc [simp]: "is_line_end c \<Longrightarrow> trim_end_newlines (s @ [c]) = trim_end_newlines s"
  by (simp add: trim_end_newlines_def)

lemma trim_end_newlines_noop:
  "(s \<noteq> [] \<Longrightarrow> \<not> is_line_end (last s)) \<Longrightarrow> trim_end_newlines s = s"
  unfolding trim_end_newlines_def by (subst dropWhile_id) (auto simp: hd_rev)

section \<open>Integers\<close>

lemma to_digit_digit: "d < 10 \<Longrightarrow> 10 \<le> r \<Longrightarrow> to_digit r (char_of (48 + d)) = Some d"
  by (simp add: to_digit_def is_ascii_digit_def)

lemma digits_value_append:
  "digits_value r acc (s @ t) = Option.bind (digits_value r acc s) (\<lambda>a. digits_value r a t)"
  by (induction r acc s rule: digits_value.induct) (auto split: option.splits)

lemma digits_value_show_nat [simp]: "digits_value 10 0 (show_nat n) = Some n"
proof (induction n rule: show_nat.induct)
  case (1 n)
  show ?case
  proof (cases "n < 10")
    case True
    then show ?thesis
      by (subst show_nat.simps) (simp add: to_digit_digit)
  next
    case False
    then have "digits_value 10 0 (show_nat (n div 10)) = Some (n div 10)"
      by (rule "1.IH")
    with False show ?thesis
      by (subst show_nat.simps) (simp add: digits_value_append to_digit_digit)
  qed
qed

lemma show_nat_ne [simp]: "show_nat n \<noteq> []"
  by (subst show_nat.simps) simp

lemma show_nat_digits: "c \<in> set (show_nat n) \<Longrightarrow> is_ascii_digit c"
proof (induction n rule: show_nat.induct)
  case (1 n)
  show ?case
  proof (cases "n < 10")
    case True
    with "1.prems" show ?thesis
      by (subst (asm) show_nat.simps) (auto simp: is_ascii_digit_def)
  next
    case False
    with "1.prems" have "c \<in> set (show_nat (n div 10)) \<or> c = char_of (48 + n mod 10)"
      by (subst (asm) show_nat.simps) auto
    then show ?thesis
    proof
      assume "c \<in> set (show_nat (n div 10))"
      with False show ?thesis by (rule "1.IH")
    next
      assume "c = char_of (48 + n mod 10)"
      then show ?thesis by (simp add: is_ascii_digit_def)
    qed
  qed
qed

lemma show_nat_byte: "c \<in> set (show_nat n) \<Longrightarrow> 48 \<le> byte c \<and> byte c \<le> 57"
  using show_nat_digits is_ascii_digit_def by blast

lemma unsigned_digits_show_nat [simp]: "unsigned_digits 10 (show_nat n) = Some n"
  by (simp add: unsigned_digits_def)

lemma show_nat_head:
  obtains c cs where "show_nat n = c # cs" "c \<noteq> CHR ''-''" "c \<noteq> CHR ''+''"
proof -
  obtain c cs where s: "show_nat n = c # cs"
    using show_nat_ne [of n] by (meson neq_Nil_conv)
  then have "48 \<le> byte c" using show_nat_byte [of c n] by simp
  then have "c \<noteq> CHR ''-''" "c \<noteq> CHR ''+''" by (auto simp: byte_def)
  with s that show ?thesis by blast
qed

lemma from_str_radix_unsigned_show [simp]:
  assumes "n \<le> mx"
  shows "from_str_radix_unsigned 10 mx (show_nat n) = Some n"
proof -
  obtain c cs where s: "show_nat n = c # cs" "c \<noteq> CHR ''-''" "c \<noteq> CHR ''+''"
    by (rule show_nat_head)
  have u: "unsigned_digits 10 (c # cs) = Some n"
    using unsigned_digits_show_nat [of n] by (simp only: s)
  with assms s show ?thesis
    by (simp add: from_str_radix_unsigned_def)
qed

lemma from_str_radix_signed_show [simp]:
  assumes "lo \<le> n" and "n \<le> hi"
  shows "from_str_radix_signed 10 lo hi (show_int n) = Some n"
proof (cases "n < 0")
  case True
  with assms show ?thesis
    by (simp add: from_str_radix_signed_def show_int_def)
next
  case False
  obtain c cs where s: "show_nat (nat n) = c # cs" "c \<noteq> CHR ''-''" "c \<noteq> CHR ''+''"
    by (rule show_nat_head)
  have u: "unsigned_digits 10 (c # cs) = Some (nat n)"
    using unsigned_digits_show_nat [of "nat n"] by (simp only: s)
  with False assms s show ?thesis
    by (simp add: from_str_radix_signed_def show_int_def)
qed

lemma parse_i64_show [simp]: "in_i64 n \<Longrightarrow> parse_i64 (show_int n) = Some n"
  by (simp add: parse_i64_def in_i64_def)

lemma parse_i128_show [simp]: "in_i128 n \<Longrightarrow> parse_i128 (show_int n) = Some n"
  by (simp add: parse_i128_def in_i128_def)

lemma parse_usize_show [simp]: "n \<le> usize_max \<Longrightarrow> parse_usize (show_nat n) = Some n"
  by (simp add: parse_usize_def)

lemma from_str_radix_signed_range:
  "from_str_radix_signed r lo hi s = Some n \<Longrightarrow> lo \<le> n \<and> n \<le> hi"
  by (auto simp: from_str_radix_signed_def bind_eq_Some_conv split: if_splits)

lemma from_str_radix_unsigned_range: "from_str_radix_unsigned r mx s = Some n \<Longrightarrow> n \<le> mx"
  by (auto simp: from_str_radix_unsigned_def bind_eq_Some_conv split: if_splits)

lemma parse_i64_range: "parse_i64 s = Some n \<Longrightarrow> in_i64 n"
  unfolding parse_i64_def in_i64_def by (rule from_str_radix_signed_range)

lemma parse_i128_range: "parse_i128 s = Some n \<Longrightarrow> in_i128 n"
  unfolding parse_i128_def in_i128_def by (rule from_str_radix_signed_range)

lemma show_int_byte: "c \<in> set (show_int n) \<Longrightarrow> byte c = 45 \<or> (48 \<le> byte c \<and> byte c \<le> 57)"
  by (auto simp: show_int_def byte_def dest: show_nat_byte [unfolded byte_def] split: if_splits)

lemma show_int_ne [simp]: "show_int n \<noteq> []"
  by (simp add: show_int_def)

lemma trim_show_nat [simp]: "trim (show_nat n) = show_nat n"
  by (rule trim_noop) (auto dest: show_nat_byte)

lemma trim_show_int [simp]: "trim (show_int n) = show_int n"
  by (rule trim_noop) (auto dest: show_int_byte)

end
