(* ===== verification/RustF64.thy ===== *)
theory RustF64
  imports RustText Complex_Main "HOL-Library.Log_Nat"
begin

text \<open>
  Rust's \<open>f64\<close>, executable: the values of IEEE binary64 with rounding to nearest, ties
  to even. A finite value is a sign, a significand and a binary exponent; a zero keeps
  its sign and the payload of a NaN is not represented. \<open>show_f64\<close> is \<open>Display\<close>: the
  shortest decimal that reads back as the value, without an exponent. \<open>parse_f64\<close> is
  \<open>str::parse\<close>: the correctly rounded value of the decimal. The main fact is that
  parsing a displayed value gives the value back.
\<close>

datatype f64 = NaN | Inf bool | Fin bool nat int

definition f64_ok :: "f64 \<Rightarrow> bool" where
  "f64_ok x = (case x of
       NaN \<Rightarrow> True
     | Inf s \<Rightarrow> True
     | Fin s m e \<Rightarrow> m < 2 ^ 53 \<and> - 1074 \<le> e \<and> e \<le> 971 \<and> (2 ^ 52 \<le> m \<or> e = - 1074))"

section \<open>Rounding a ratio\<close>

text \<open>\<open>n / d\<close> divided by \<open>2 ^ e\<close>, as a ratio.\<close>

definition scale_num :: "int \<Rightarrow> nat \<Rightarrow> nat" where
  "scale_num e n = n * 2 ^ nat (- e)"

definition scale_den :: "int \<Rightarrow> nat \<Rightarrow> nat" where
  "scale_den e d = d * 2 ^ nat e"

definition round_half_even :: "nat \<Rightarrow> nat \<Rightarrow> nat" where
  "round_half_even n d =
     (let q = n div d; r = n mod d
      in if 2 * r > d \<or> (2 * r = d \<and> odd q) then q + 1 else q)"

text \<open>The exponent \<open>k\<close> with \<open>2 ^ k \<le> n / d < 2 ^ (k + 1)\<close>.\<close>

definition ratio_log2 :: "nat \<Rightarrow> nat \<Rightarrow> int" where
  "ratio_log2 n d =
     (let k = int (floorlog 2 n) - int (floorlog 2 d)
      in if scale_den k d \<le> scale_num k n then k else k - 1)"

definition round_ratio :: "bool \<Rightarrow> nat \<Rightarrow> nat \<Rightarrow> f64" where
  "round_ratio s n d =
     (if n = 0 then Fin s 0 (- 1074)
      else
        let e = max (- 1074) (ratio_log2 n d - 52);
            q = round_half_even (scale_num e n) (scale_den e d);
            (m, e') = (if q = 2 ^ 53 then (2 ^ 52, e + 1) else (q, e))
        in if e' > 971 then Inf s else Fin s m e')"

text \<open>\<open>as f64\<close> of an integer.\<close>

definition f64_of_int :: "int \<Rightarrow> f64" where
  "f64_of_int n = round_ratio (n < 0) (nat \<bar>n\<bar>) 1"

text \<open>\<open>as i64\<close>: towards zero, saturating, a NaN is 0.\<close>

definition fin_trunc :: "bool \<Rightarrow> nat \<Rightarrow> int \<Rightarrow> int" where
  "fin_trunc s m e =
     (let a = int (m * 2 ^ nat e div 2 ^ nat (- e)) in if s then - a else a)"

definition f64_to_int :: "int \<Rightarrow> int \<Rightarrow> f64 \<Rightarrow> int" where
  "f64_to_int lo hi x = (case x of
       NaN \<Rightarrow> 0
     | Inf s \<Rightarrow> if s then lo else hi
     | Fin s m e \<Rightarrow> clamp lo hi (fin_trunc s m e))"

definition f64_to_i64 :: "f64 \<Rightarrow> int" where
  "f64_to_i64 = f64_to_int i64_min i64_max"

definition f64_is_zero :: "f64 \<Rightarrow> bool" where
  "f64_is_zero x = (case x of Fin s m e \<Rightarrow> m = 0 | _ \<Rightarrow> False)"

section \<open>Arithmetic\<close>

text \<open>
  The operations the program applies to \<open>f64\<close>. \<open>f64_max\<close> and \<open>f64_min\<close> ignore a NaN;
  of two equal operands (the zeros) they return the second, where Rust leaves the choice
  open.
\<close>

definition fin_scaled :: "bool \<Rightarrow> nat \<Rightarrow> int \<Rightarrow> int \<Rightarrow> int" where
  "fin_scaled s m e k = (let a = int (m * 2 ^ nat (e - k)) in if s then - a else a)"

definition f64_neg :: "f64 \<Rightarrow> f64" where
  "f64_neg x = (case x of NaN \<Rightarrow> NaN | Inf s \<Rightarrow> Inf (\<not> s) | Fin s m e \<Rightarrow> Fin (\<not> s) m e)"

definition f64_abs :: "f64 \<Rightarrow> f64" where
  "f64_abs x = (case x of NaN \<Rightarrow> NaN | Inf s \<Rightarrow> Inf False | Fin s m e \<Rightarrow> Fin False m e)"

fun f64_add :: "f64 \<Rightarrow> f64 \<Rightarrow> f64" where
  "f64_add (Fin s m e) (Fin t n f) =
     (let k = min e f; c = fin_scaled s m e k + fin_scaled t n f k
      in if c = 0 then Fin (s \<and> t) 0 (- 1074)
         else round_ratio (c < 0) (nat \<bar>c\<bar> * 2 ^ nat k) (2 ^ nat (- k)))"
| "f64_add (Inf s) (Inf t) = (if s = t then Inf s else NaN)"
| "f64_add (Inf s) (Fin t n f) = Inf s"
| "f64_add (Fin s m e) (Inf t) = Inf t"
| "f64_add NaN y = NaN"
| "f64_add x NaN = NaN"

definition f64_sub :: "f64 \<Rightarrow> f64 \<Rightarrow> f64" where
  "f64_sub x y = f64_add x (f64_neg y)"

fun f64_mul :: "f64 \<Rightarrow> f64 \<Rightarrow> f64" where
  "f64_mul (Fin s m e) (Fin t n f) =
     round_ratio (s \<noteq> t) (m * n * 2 ^ nat (e + f)) (2 ^ nat (- (e + f)))"
| "f64_mul (Inf s) (Inf t) = Inf (s \<noteq> t)"
| "f64_mul (Inf s) (Fin t n f) = (if n = 0 then NaN else Inf (s \<noteq> t))"
| "f64_mul (Fin s m e) (Inf t) = (if m = 0 then NaN else Inf (s \<noteq> t))"
| "f64_mul NaN y = NaN"
| "f64_mul x NaN = NaN"

fun f64_div :: "f64 \<Rightarrow> f64 \<Rightarrow> f64" where
  "f64_div (Fin s m e) (Fin t n f) =
     (if n = 0 then (if m = 0 then NaN else Inf (s \<noteq> t))
      else round_ratio (s \<noteq> t) (m * 2 ^ nat (e - f)) (n * 2 ^ nat (f - e)))"
| "f64_div (Inf s) (Inf t) = NaN"
| "f64_div (Inf s) (Fin t n f) = Inf (s \<noteq> t)"
| "f64_div (Fin s m e) (Inf t) = Fin (s \<noteq> t) 0 (- 1074)"
| "f64_div NaN y = NaN"
| "f64_div x NaN = NaN"

fun f64_lt :: "f64 \<Rightarrow> f64 \<Rightarrow> bool" where
  "f64_lt (Fin s m e) (Fin t n f) =
     (let k = min e f in fin_scaled s m e k < fin_scaled t n f k)"
| "f64_lt (Inf s) (Inf t) = (s \<and> \<not> t)"
| "f64_lt (Inf s) (Fin t n f) = s"
| "f64_lt (Fin s m e) (Inf t) = (\<not> t)"
| "f64_lt NaN y = False"
| "f64_lt x NaN = False"

definition f64_max :: "f64 \<Rightarrow> f64 \<Rightarrow> f64" where
  "f64_max x y = (if x = NaN then y else if y = NaN then x else if f64_lt y x then x else y)"

definition f64_min :: "f64 \<Rightarrow> f64 \<Rightarrow> f64" where
  "f64_min x y = (if x = NaN then y else if y = NaN then x else if f64_lt x y then x else y)"

text \<open>The square root: the integer root of the significand scaled to at least 120 bits,
  with a sticky bit for what is cut off.\<close>

fun isqrt :: "nat \<Rightarrow> nat" where
  "isqrt n =
     (if n = 0 then 0
      else let r = 2 * isqrt (n div 4) in if (r + 1) * (r + 1) \<le> n then r + 1 else r)"

declare isqrt.simps [simp del]

definition f64_sqrt :: "f64 \<Rightarrow> f64" where
  "f64_sqrt x = (case x of
       NaN \<Rightarrow> NaN
     | Inf s \<Rightarrow> if s then NaN else Inf False
     | Fin s m e \<Rightarrow>
         if m = 0 then x
         else if s then NaN
         else
           let k = (if even e then e - 120 else e - 121);
               n = m * 2 ^ nat (e - k);
               r = isqrt n;
               c = 2 * r + (if r * r = n then 0 else 1);
               h = k div 2 - 1
           in round_ratio False (c * 2 ^ nat h) (2 ^ nat (- h)))"

section \<open>Text\<close>

definition dec_num :: "int \<Rightarrow> nat \<Rightarrow> nat" where
  "dec_num q n = n * 10 ^ nat q"

definition dec_den :: "int \<Rightarrow> nat \<Rightarrow> nat" where
  "dec_den q d = d * 10 ^ nat (- q)"

text \<open>The value of \<open>c\<close> with the decimal point moved \<open>q\<close> places to the left.\<close>

definition decimal_f64 :: "bool \<Rightarrow> nat \<Rightarrow> int \<Rightarrow> f64" where
  "decimal_f64 s c q = round_ratio s (dec_num (- q) c) (dec_den (- q) 1)"

text \<open>
  The shortest decimal: for one more digit at a time, the two neighbours of the value;
  the first that reads back as the value, the nearer one when both do. After \<open>fuel\<close>
  places the lower neighbour is the value itself.
\<close>

fun dec_search :: "f64 \<Rightarrow> bool \<Rightarrow> nat \<Rightarrow> nat \<Rightarrow> int \<Rightarrow> nat \<Rightarrow> nat \<times> int" where
  "dec_search x s n d q 0 = (dec_num q n div dec_den q d, q)"
| "dec_search x s n d q (Suc fuel) =
     (let lo = dec_num q n div dec_den q d;
          lo_ok = decimal_f64 s lo q = x;
          hi_ok = decimal_f64 s (lo + 1) q = x;
          up = 2 * (dec_num q n mod dec_den q d) \<ge> dec_den q d
      in if lo_ok \<and> (\<not> hi_ok \<or> \<not> up) then (lo, q)
         else if hi_ok then (lo + 1, q)
         else dec_search x s n d (q + 1) fuel)"

definition dec_start :: "nat \<Rightarrow> nat \<Rightarrow> int" where
  "dec_start n d =
     (if d \<le> n then - int (floorlog 10 (n div d)) else int (floorlog 10 (d div n)) - 2)"

definition shortest_decimal :: "bool \<Rightarrow> nat \<Rightarrow> int \<Rightarrow> nat \<times> int" where
  "shortest_decimal s m e =
     (let n = m * 2 ^ nat e; d = 2 ^ nat (- e); q = dec_start n d
      in dec_search (Fin s m e) s n d q (nat (max 0 (- e) - q)))"

definition show_decimal :: "nat \<Rightarrow> int \<Rightarrow> string" where
  "show_decimal c q =
     (if q \<le> 0 then show_nat (c * 10 ^ nat (- q))
      else
        let ds = show_nat c;
            ps = replicate (nat q + 1 - length ds) (CHR ''0'') @ ds;
            k = length ps - nat q
        in take k ps @ CHR ''.'' # drop k ps)"

definition show_f64 :: "f64 \<Rightarrow> string" where
  "show_f64 x = (case x of
       NaN \<Rightarrow> ''NaN''
     | Inf s \<Rightarrow> (if s then ''-inf'' else ''inf'')
     | Fin s m e \<Rightarrow>
         (if s then ''-'' else '''') @
         (if m = 0 then ''0'' else case shortest_decimal s m e of (c, q) \<Rightarrow> show_decimal c q))"

definition all_digits :: "string \<Rightarrow> bool" where
  "all_digits s \<longleftrightarrow> (\<forall>c \<in> set s. is_ascii_digit c)"

definition digits_nat :: "string \<Rightarrow> nat" where
  "digits_nat s = fold (\<lambda>c n. n * 10 + (byte c - 48)) s 0"

definition parse_exponent :: "string \<Rightarrow> int option" where
  "parse_exponent s = (case s of
       [] \<Rightarrow> Some 0
     | c # cs \<Rightarrow>
         if byte c = 101 \<or> byte c = 69 then
           (case cs of
              [] \<Rightarrow> None
            | d # ds \<Rightarrow>
                let neg = (d = CHR ''-'');
                    body = (if d = CHR ''-'' \<or> d = CHR ''+'' then ds else cs)
                in if body \<noteq> [] \<and> all_digits body
                   then Some (if neg then - int (digits_nat body) else int (digits_nat body))
                   else None)
         else None)"

definition parse_number :: "bool \<Rightarrow> string \<Rightarrow> f64 option" where
  "parse_number s body =
     (let ip = takeWhile is_ascii_digit body;
          r1 = dropWhile is_ascii_digit body;
          (fp, r2) = (case r1 of
              [] \<Rightarrow> ([], [])
            | c # cs \<Rightarrow> if c = CHR ''.'' then (takeWhile is_ascii_digit cs, dropWhile is_ascii_digit cs)
                        else ([], r1))
      in if ip = [] \<and> fp = [] then None
         else case parse_exponent r2 of
             None \<Rightarrow> None
           | Some t \<Rightarrow> Some (decimal_f64 s (digits_nat (ip @ fp)) (int (length fp) - t)))"

definition parse_f64 :: "string \<Rightarrow> f64 option" where
  "parse_f64 s = (case s of
       [] \<Rightarrow> None
     | c # cs \<Rightarrow>
         let neg = (c = CHR ''-'');
             body = (if c = CHR ''-'' \<or> c = CHR ''+'' then cs else s);
             low = to_ascii_lowercase body
         in if low = ''nan'' then Some NaN
            else if low = ''inf'' \<or> low = ''infinity'' then Some (Inf neg)
            else parse_number neg body)"


section \<open>Rounding an exact value\<close>

definition ratio :: "nat \<Rightarrow> nat \<Rightarrow> real" where
  "ratio n d = real n / real d"

lemma scale_ratio: "ratio (scale_num e n) (scale_den e d) = ratio n d * 2 powi (- e)"
  by (cases "e \<ge> 0") (auto simp: ratio_def scale_num_def scale_den_def power_int_def field_simps)

lemma dec_ratio: "ratio (dec_num q n) (dec_den q d) = ratio n d * 10 powi q"
  by (cases "q \<ge> 0") (auto simp: ratio_def dec_num_def dec_den_def power_int_def field_simps)

lemma scale_den_pos [simp]: "0 < scale_den e d \<longleftrightarrow> 0 < d"
  by (simp add: scale_den_def)

lemma dec_den_pos [simp]: "0 < dec_den q d \<longleftrightarrow> 0 < d"
  by (simp add: dec_den_def)

lemma ratio_le: "0 < d \<Longrightarrow> 0 < d' \<Longrightarrow> ratio n d \<le> ratio n' d' \<longleftrightarrow> n * d' \<le> n' * d"
  by (simp add: ratio_def divide_le_eq pos_le_divide_eq mult.commute flip: of_nat_mult)

lemma ratio_eq: "0 < d \<Longrightarrow> 0 < d' \<Longrightarrow> ratio n d = ratio n' d' \<longleftrightarrow> n * d' = n' * d"
  by (simp add: ratio_def frac_eq_eq flip: of_nat_mult)

lemma round_half_even_exact:
  assumes "0 < d" "ratio n d = real m"
  shows "round_half_even n d = m"
proof -
  from assms have "real n = real (m * d)"
    by (simp add: ratio_def field_simps)
  then have "n = m * d" by (simp only: of_nat_eq_iff)
  with assms(1) show ?thesis by (simp add: round_half_even_def)
qed

lemma floorlog_powi:
  assumes "0 < n"
  shows "2 powi (int (floorlog 2 n) - 1) \<le> real n" "real n < 2 powi int (floorlog 2 n)"
proof -
  have b: "2 ^ (floorlog 2 n - 1) \<le> n \<and> n < 2 ^ floorlog 2 n"
    by (rule floorlog_bounds) (use assms in simp_all)
  have "0 < floorlog 2 n" using assms by (subst compute_floorlog) simp
  then have e: "int (floorlog 2 n) - 1 = int (floorlog 2 n - 1)" by linarith
  have "real (2 ^ (floorlog 2 n - 1)) \<le> real n" "real n < real (2 ^ floorlog 2 n)"
    using b by (simp_all only: of_nat_le_iff of_nat_less_iff)
  then show "2 powi (int (floorlog 2 n) - 1) \<le> real n" "real n < 2 powi int (floorlog 2 n)"
    by (simp_all only: e power_int_of_nat of_nat_power of_nat_numeral)
qed

lemma ratio_log2_bounds:
  assumes "0 < n" "0 < d"
  shows "2 powi ratio_log2 n d \<le> ratio n d" "ratio n d < 2 powi (ratio_log2 n d + 1)"
proof -
  define k where "k = int (floorlog 2 n) - int (floorlog 2 d)"
  have n: "2 powi (int (floorlog 2 n) - 1) \<le> real n" "real n < 2 powi int (floorlog 2 n)"
    using floorlog_powi assms by auto
  have d: "2 powi (int (floorlog 2 d) - 1) \<le> real d" "real d < 2 powi int (floorlog 2 d)"
    using floorlog_powi assms by auto
  have "ratio n d < 2 powi int (floorlog 2 n) / 2 powi (int (floorlog 2 d) - 1)"
    unfolding ratio_def using n d assms by (intro frac_less) auto
  then have hi: "ratio n d < 2 powi (k + 1)"
    by (simp add: k_def power_int_diff power_int_add)
  have "2 powi (int (floorlog 2 n) - 1) / 2 powi int (floorlog 2 d) < ratio n d"
    unfolding ratio_def using n d assms by (intro frac_less2) auto
  then have lo: "2 powi (k - 1) < ratio n d"
    by (simp add: k_def power_int_diff)
  have c: "scale_den k d \<le> scale_num k n \<longleftrightarrow> 2 powi k \<le> ratio n d"
  proof -
    have "scale_den k d \<le> scale_num k n \<longleftrightarrow> 1 \<le> ratio (scale_num k n) (scale_den k d)"
      using assms by (simp add: ratio_def)
    also have "\<dots> \<longleftrightarrow> 2 powi k \<le> ratio n d"
      by (simp add: scale_ratio power_int_minus field_simps)
    finally show ?thesis .
  qed
  show "2 powi ratio_log2 n d \<le> ratio n d" "ratio n d < 2 powi (ratio_log2 n d + 1)"
    using hi lo c by (auto simp: ratio_log2_def Let_def k_def [symmetric] split: if_splits)
qed

lemma ratio_log2_unique:
  assumes "0 < n" "0 < d" "2 powi k \<le> ratio n d" "ratio n d < 2 powi (k + 1)"
  shows "ratio_log2 n d = k"
proof -
  have "(2::real) powi ratio_log2 n d < 2 powi (k + 1)" "(2::real) powi k < 2 powi (ratio_log2 n d + 1)"
    using ratio_log2_bounds [OF assms(1,2)] assms(3,4) by linarith+
  then have "ratio_log2 n d < k + 1" "k < ratio_log2 n d + 1"
    by (metis linorder_not_less one_le_numeral power_int_increasing)+
  then show ?thesis by simp
qed

theorem round_ratio_exact:
  assumes ok: "f64_ok (Fin s m e)" and m: "0 < m" and d: "0 < d"
    and v: "ratio n d = real m * 2 powi e"
  shows "round_ratio s n d = Fin s m e"
proof -
  have n: "0 < n"
    using v m by (cases n) (auto simp: ratio_def)
  have e: "max (- 1074) (ratio_log2 n d - 52) = e"
  proof (cases "2 ^ 52 \<le> m")
    case True
    have "real (2 ^ 52) \<le> real m" "real m < real (2 ^ 53)"
      using ok True by (auto simp only: f64_ok_def f64.case of_nat_le_iff of_nat_less_iff)
    then have "2 powi (52 + e) \<le> ratio n d" "ratio n d < 2 powi (52 + e + 1)"
      unfolding v by (simp_all add: power_int_add)
    then have "ratio_log2 n d = 52 + e"
      by (rule ratio_log2_unique [OF n d])
    with ok show ?thesis by (simp add: f64_ok_def)
  next
    case False
    then have e: "e = - 1074" using ok by (simp add: f64_ok_def)
    have "real m < real (2 ^ 52)"
      using False by (simp only: of_nat_less_iff not_le)
    then have "ratio n d < 2 powi (- 1022)"
      unfolding v e by (simp add: power_int_minus field_simps)
    moreover have "2 powi ratio_log2 n d \<le> ratio n d"
      by (rule ratio_log2_bounds [OF n d])
    ultimately have "(2::real) powi ratio_log2 n d < 2 powi (- 1022)" by linarith
    then have "ratio_log2 n d < - 1022"
      by (metis linorder_not_less one_le_numeral power_int_increasing)
    then show ?thesis by (simp add: e)
  qed
  have "ratio (scale_num e n) (scale_den e d) = real m"
    by (simp add: scale_ratio v power_int_minus)
  then have q: "round_half_even (scale_num e n) (scale_den e d) = m"
    using d by (intro round_half_even_exact) simp_all
  have "m \<noteq> 2 ^ 53" "e \<le> 971" using ok by (auto simp: f64_ok_def)
  then show ?thesis
    using n by (simp add: round_ratio_def e q)
qed

section \<open>A displayed value reads back\<close>

lemma decimal_exact:
  assumes ok: "f64_ok (Fin s m e)" and m: "0 < m" and q: "0 \<le> q" "- e \<le> q"
  shows "decimal_f64 s (dec_num q (m * 2 ^ nat e) div dec_den q (2 ^ nat (- e))) q = Fin s m e"
proof -
  let ?d = "2 ^ nat (- e) :: nat"
  let ?n = "m * 2 ^ nat e"
  have "?d dvd 2 ^ nat q"
    using q by (intro le_imp_power_dvd) simp
  also have "(2::nat) ^ nat q dvd 10 ^ nat q"
    by (intro dvd_power_same) simp
  finally have dvd: "?d dvd dec_num q ?n"
    by (simp add: dec_num_def dvd_mult)
  have d: "dec_den q ?d = ?d" using q by (simp add: dec_den_def)
  from dvd have "real (dec_num q ?n div ?d) = ratio (dec_num q ?n) (dec_den q ?d)"
    unfolding ratio_def d by (rule real_of_nat_div)
  also have "\<dots> = ratio ?n ?d * 10 powi q" by (rule dec_ratio)
  finally have c: "ratio (dec_num q ?n div dec_den q ?d) 1 = ratio ?n ?d * 10 powi q"
    by (simp add: ratio_def d)
  have v: "ratio ?n ?d = real m * 2 powi e"
    by (cases "e \<ge> 0") (auto simp: ratio_def power_int_def field_simps)
  show ?thesis
    unfolding decimal_f64_def
    by (rule round_ratio_exact [OF ok m])
      (simp_all add: dec_ratio c v power_int_minus del: One_nat_def)
qed

lemma dec_search_reads:
  assumes ok: "f64_ok (Fin s m e)" "0 < m"
  shows "0 \<le> q + int fuel \<Longrightarrow> - e \<le> q + int fuel \<Longrightarrow>
    dec_search (Fin s m e) s (m * 2 ^ nat e) (2 ^ nat (- e)) q fuel = (c, q') \<Longrightarrow>
    decimal_f64 s c q' = Fin s m e"
proof (induction fuel arbitrary: q)
  case 0
  then show ?case
    using decimal_exact [OF ok, of q] by auto
next
  case (Suc fuel)
  have IH: "dec_search (Fin s m e) s (m * 2 ^ nat e) (2 ^ nat (- e)) (q + 1) fuel = (c, q') \<Longrightarrow>
      decimal_f64 s c q' = Fin s m e"
    using Suc.prems(1,2) by (intro Suc.IH) simp_all
  from Suc.prems(3) show ?case
    by (auto simp: Let_def intro: IH split: if_splits)
qed

lemma shortest_decimal_reads:
  assumes "f64_ok (Fin s m e)" "0 < m" "shortest_decimal s m e = (c, q)"
  shows "decimal_f64 s c q = Fin s m e"
proof -
  let ?q = "dec_start (m * 2 ^ nat e) (2 ^ nat (- e))"
  have "dec_search (Fin s m e) s (m * 2 ^ nat e) (2 ^ nat (- e)) ?q (nat (max 0 (- e) - ?q)) = (c, q)"
    using assms(3) by (simp add: shortest_decimal_def Let_def)
  then show ?thesis
    by (rule dec_search_reads [OF assms(1,2), rotated 2]) linarith+
qed

lemma digits_nat_append: "digits_nat (s @ [c]) = digits_nat s * 10 + (byte c - 48)"
  by (simp add: digits_nat_def)

lemma digits_nat_show [simp]: "digits_nat (show_nat n) = n"
proof (induction n rule: show_nat.induct)
  case (1 n)
  show ?case
  proof (cases "n < 10")
    case True
    then show ?thesis by (subst show_nat.simps) (simp add: digits_nat_def)
  next
    case False
    then have "digits_nat (show_nat (n div 10)) = n div 10" by (rule "1.IH")
    with False show ?thesis
      by (subst show_nat.simps) (simp add: digits_nat_append)
  qed
qed

lemma digits_nat_zeros: "digits_nat (replicate k (CHR ''0'') @ s) = digits_nat s"
  by (induction k) (auto simp: digits_nat_def byte_def)

lemma digit_zero [simp]: "is_ascii_digit (CHR ''0'')"
  by (simp add: is_ascii_digit_def byte_def)

lemma not_digit_dot [simp]: "\<not> is_ascii_digit (CHR ''.'')"
  by (simp add: is_ascii_digit_def byte_def)

lemma takeWhile_digits: "\<forall>c \<in> set s. is_ascii_digit c \<Longrightarrow> takeWhile is_ascii_digit s = s"
  by (simp add: takeWhile_eq_all_conv)

lemma dropWhile_digits: "\<forall>c \<in> set s. is_ascii_digit c \<Longrightarrow> dropWhile is_ascii_digit s = []"
  by (simp add: dropWhile_eq_Nil_conv)

text \<open>The two shapes of a displayed decimal.\<close>

lemma show_decimal_cases:
  obtains (whole) "q \<le> 0" "show_decimal c q = show_nat (c * 10 ^ nat (- q))"
  | (point) ip fp where "0 < q" "show_decimal c q = ip @ CHR ''.'' # fp" "ip \<noteq> []"
      "\<forall>x \<in> set (ip @ fp). is_ascii_digit x" "length fp = nat q" "digits_nat (ip @ fp) = c"
proof (cases "q \<le> 0")
  case True
  then show ?thesis by (intro whole) (simp_all add: show_decimal_def)
next
  case False
  define ps where "ps = replicate (nat q + 1 - length (show_nat c)) (CHR ''0'') @ show_nat c"
  define k where "k = length ps - nat q"
  have len: "nat q + 1 \<le> length ps" by (simp add: ps_def)
  have "show_decimal c q = take k ps @ CHR ''.'' # drop k ps"
    using False unfolding show_decimal_def Let_def ps_def [symmetric] k_def [symmetric] by simp
  moreover have "take k ps \<noteq> []"
    using len by (auto simp: k_def)
  moreover have "\<forall>x \<in> set (take k ps @ drop k ps). is_ascii_digit x"
    unfolding append_take_drop_id by (auto simp: ps_def dest: show_nat_digits)
  moreover have "length (drop k ps) = nat q"
    using len by (simp add: k_def)
  moreover have "digits_nat (take k ps @ drop k ps) = c"
    unfolding append_take_drop_id by (simp add: ps_def digits_nat_zeros)
  ultimately show ?thesis
    using False by (intro point [of "take k ps" "drop k ps"]) simp_all
qed

lemma parse_number_show_decimal: "parse_number s (show_decimal c q) = Some (decimal_f64 s c q)"
proof (rule show_decimal_cases [of q c])
  assume q: "q \<le> 0" "show_decimal c q = show_nat (c * 10 ^ nat (- q))"
  have dig: "\<forall>x \<in> set (show_nat (c * 10 ^ nat (- q))). is_ascii_digit x"
    by (auto dest: show_nat_digits)
  show ?thesis
    using q(1) by (simp add: q(2) parse_number_def takeWhile_digits [OF dig] dropWhile_digits [OF dig]
        parse_exponent_def decimal_f64_def dec_num_def dec_den_def)
next
  fix ip fp
  assume q: "0 < q" "show_decimal c q = ip @ CHR ''.'' # fp" "ip \<noteq> []"
      "\<forall>x \<in> set (ip @ fp). is_ascii_digit x" "length fp = nat q" "digits_nat (ip @ fp) = c"
  from q(4) have b: "takeWhile is_ascii_digit (ip @ CHR ''.'' # fp) = ip"
    "dropWhile is_ascii_digit (ip @ CHR ''.'' # fp) = CHR ''.'' # fp"
    by (simp_all add: takeWhile_append_stop dropWhile_append_stop)
  have f: "takeWhile is_ascii_digit fp = fp" "dropWhile is_ascii_digit fp = []"
    using q(4) by (simp_all add: takeWhile_digits dropWhile_digits)
  show ?thesis
    unfolding q(2) parse_number_def b using q(1,3,5,6)
    by (simp add: f parse_exponent_def)
qed

lemma show_decimal_head:
  obtains x xs where "show_decimal c q = x # xs" "is_ascii_digit x"
proof (rule show_decimal_cases [of q c])
  assume "show_decimal c q = show_nat (c * 10 ^ nat (- q))"
  then show ?thesis
    using that show_nat_ne show_nat_digits by (metis list.exhaust list.set_intros(1))
next
  fix ip fp
  assume "show_decimal c q = ip @ CHR ''.'' # fp" "ip \<noteq> []"
    "\<forall>x \<in> set (ip @ fp). is_ascii_digit x"
  then show ?thesis
    using that by (cases ip) auto
qed

lemma digit_lower: "is_ascii_digit x \<Longrightarrow> lower_char x = x"
  by (simp add: lower_char_def ascii_class_defs)

text \<open>A number is none of the named values.\<close>

lemma lower_number:
  assumes "is_ascii_digit x"
  shows "to_ascii_lowercase (x # xs) \<noteq> ''nan''" "to_ascii_lowercase (x # xs) \<noteq> ''inf''"
    "to_ascii_lowercase (x # xs) \<noteq> ''infinity''"
  using assms by (auto simp: to_ascii_lowercase_def digit_lower is_ascii_digit_def byte_def)

lemma parse_signed_number:
  assumes "is_ascii_digit x"
  shows "parse_f64 ((if s then ''-'' else '''') @ x # xs) = parse_number s (x # xs)"
proof -
  have "x \<noteq> CHR ''-''" "x \<noteq> CHR ''+''"
    using assms by (auto simp: is_ascii_digit_def byte_def)
  then show ?thesis
    by (cases s) (simp_all add: parse_f64_def Let_def lower_number [OF assms])
qed

theorem parse_show_f64 [simp]:
  assumes ok: "f64_ok x"
  shows "parse_f64 (show_f64 x) = Some x"
proof (cases x)
  case NaN
  have "to_ascii_lowercase ''NaN'' = ''nan''" by code_simp
  then show ?thesis by (simp add: NaN show_f64_def parse_f64_def)
next
  case (Inf s)
  have "to_ascii_lowercase ''inf'' = ''inf''" by code_simp
  then show ?thesis by (cases s) (simp_all add: Inf show_f64_def parse_f64_def)
next
  case (Fin s m e)
  show ?thesis
  proof (cases "m = 0")
    case True
    then have e: "e = - 1074" using ok Fin by (simp add: f64_ok_def)
    have "parse_number s (CHR ''0'' # []) = Some (Fin s 0 (- 1074))"
      by (simp add: parse_number_def parse_exponent_def decimal_f64_def digits_nat_def byte_def
          dec_num_def round_ratio_def)
    then show ?thesis
      using parse_signed_number [OF digit_zero, of s "[]"] by (simp add: Fin True e show_f64_def)
  next
    case False
    obtain c q where cq: "shortest_decimal s m e = (c, q)" by force
    obtain y ys where y: "show_decimal c q = y # ys" "is_ascii_digit y"
      by (rule show_decimal_head)
    have "show_f64 x = (if s then ''-'' else '''') @ y # ys"
      using False by (simp add: Fin show_f64_def cq y)
    then have "parse_f64 (show_f64 x) = parse_number s (show_decimal c q)"
      by (simp only: parse_signed_number [OF y(2)] y(1))
    also have "\<dots> = Some x"
      using shortest_decimal_reads [OF _ _ cq] ok False
      by (simp add: Fin parse_number_show_decimal)
    finally show ?thesis .
  qed
qed

lemma digit_byte: "is_ascii_digit x \<Longrightarrow> 33 \<le> byte x \<and> byte x < 128"
  by (simp add: is_ascii_digit_def)

lemma show_decimal_byte:
  assumes "x \<in> set (show_decimal c q)"
  shows "33 \<le> byte x \<and> byte x < 128"
proof (rule show_decimal_cases [of q c])
  assume "show_decimal c q = show_nat (c * 10 ^ nat (- q))"
  with assms show ?thesis by (simp add: digit_byte show_nat_digits)
next
  fix ip fp
  assume "show_decimal c q = ip @ CHR ''.'' # fp" "\<forall>x \<in> set (ip @ fp). is_ascii_digit x"
  with assms have "is_ascii_digit x \<or> x = CHR ''.''" by auto
  then show ?thesis
  proof
    assume "is_ascii_digit x"
    then show ?thesis by (rule digit_byte)
  qed (simp add: byte_def)
qed

lemma show_f64_byte: "c \<in> set (show_f64 x) \<Longrightarrow> 33 \<le> byte c \<and> byte c < 128"
  by (auto simp: show_f64_def byte_def dest: show_decimal_byte [unfolded byte_def]
      split: f64.splits if_splits prod.splits)

lemma trim_show_f64 [simp]: "trim (show_f64 x) = show_f64 x"
  by (rule trim_noop) (auto dest: show_f64_byte)

section \<open>Results are canonical\<close>

lemma round_half_even_le:
  assumes "0 < d" "n \<le> k * d"
  shows "round_half_even n d \<le> k"
proof (cases "n div d < k")
  case True
  then show ?thesis by (auto simp: round_half_even_def Let_def)
next
  case False
  then have "k * d \<le> n div d * d" by simp
  also have "\<dots> \<le> n" by simp
  finally have "n = k * d" using assms(2) by simp
  then show ?thesis using assms(1) by (simp add: round_half_even_def)
qed

lemma round_half_even_ge:
  assumes "0 < d" "k * d \<le> n"
  shows "k \<le> round_half_even n d"
proof -
  have "k \<le> n div d"
    using assms by (simp add: less_eq_div_iff_mult_less_eq)
  then show ?thesis by (auto simp: round_half_even_def Let_def)
qed

theorem round_ratio_ok [simp]:
  assumes d: "0 < d"
  shows "f64_ok (round_ratio s n d)"
proof (cases "n = 0")
  case True
  then show ?thesis by (simp add: round_ratio_def f64_ok_def)
next
  case False
  then have n: "0 < n" by simp
  define e where "e = max (- 1074) (ratio_log2 n d - 52)"
  define q where "q = round_half_even (scale_num e n) (scale_den e d)"
  have den: "0 < scale_den e d" using d by simp
  have r: "ratio (scale_num e n) (scale_den e d) = ratio n d * 2 powi (- e)"
    by (rule scale_ratio)
  have "ratio n d < 2 powi (ratio_log2 n d + 1)"
    by (rule ratio_log2_bounds [OF n d])
  also have "\<dots> \<le> 2 powi (53 + e)"
    by (intro power_int_increasing) (simp_all add: e_def)
  finally have "ratio (scale_num e n) (scale_den e d) < 2 powi (53 + e) * 2 powi (- e)"
    unfolding r by simp
  also have "\<dots> = ratio (2 ^ 53) 1"
    by (simp add: ratio_def flip: power_int_add)
  finally have "scale_num e n \<le> 2 ^ 53 * scale_den e d"
    using ratio_le [OF den, of 1 "scale_num e n" "2 ^ 53"] by simp
  then have hi: "q \<le> 2 ^ 53"
    unfolding q_def by (rule round_half_even_le [OF den])
  have lo: "2 ^ 52 \<le> q" if "e \<noteq> - 1074"
  proof -
    have e: "ratio_log2 n d = 52 + e" using that by (simp add: e_def max_def split: if_splits)
    have "ratio (2 ^ 52) 1 = 2 powi (52 + e) * 2 powi (- e)"
      by (simp add: ratio_def flip: power_int_add)
    also have "\<dots> \<le> ratio (scale_num e n) (scale_den e d)"
      unfolding r using ratio_log2_bounds(1) [OF n d] by (simp add: e)
    finally have "2 ^ 52 * scale_den e d \<le> scale_num e n"
      using ratio_le [of 1 "scale_den e d" "2 ^ 52" "scale_num e n"] den by simp
    then show ?thesis
      unfolding q_def by (rule round_half_even_ge [OF den])
  qed
  have "- 1074 \<le> e" by (simp add: e_def)
  then show ?thesis
    using n hi lo by (auto simp: round_ratio_def f64_ok_def Let_def simp flip: e_def q_def)
qed

lemma f64_of_int_ok [simp]: "f64_ok (f64_of_int n)"
  by (simp add: f64_of_int_def)

lemma decimal_f64_ok [simp]: "f64_ok (decimal_f64 s c q)"
  by (simp add: decimal_f64_def)

lemma parse_number_ok: "parse_number s b = Some x \<Longrightarrow> f64_ok x"
  by (auto simp: parse_number_def Let_def split: if_splits option.splits prod.splits)

lemma parse_f64_ok: "parse_f64 s = Some x \<Longrightarrow> f64_ok x"
  by (auto simp: parse_f64_def Let_def f64_ok_def [of NaN] f64_ok_def [of "Inf _"]
      dest: parse_number_ok split: list.splits if_splits)

lemma f64_to_i64_range [simp]: "in_i64 (f64_to_i64 x)"
  using clamp_bounds [of i64_min i64_max]
  by (auto simp: f64_to_i64_def f64_to_int_def int_bounds split: f64.splits)

end
