(* ===== verification/Ir.thy ===== *)
theory Ir
  imports RustF64
begin

text \<open>
  The parts of the intermediate representation (\<open>iec_ir/src/lib.rs\<close>) that carry
  behaviour: canonical identifiers, the elementary types and their names, the run-time
  values with their conversions and display form, expressions and variables with their
  display form, the data type specifications with their default values, the qualifiers of
  sequential function chart actions. Statements and program units are in \<open>IrProgram\<close>.
\<close>

section \<open>Identifiers\<close>

record ident =
  original :: string
  canonical :: string

definition canonical_identifier :: "string \<Rightarrow> string" where
  "canonical_identifier input = to_ascii_uppercase (trim input)"

definition ident_new :: "string \<Rightarrow> ident" where
  "ident_new input = \<lparr> original = input, canonical = canonical_identifier input \<rparr>"

definition ident_ok :: "ident \<Rightarrow> bool" where
  "ident_ok i \<longleftrightarrow> canonical i = canonical_identifier (original i)"

lemma canonical_identifier_idem [simp]:
  "canonical_identifier (canonical_identifier s) = canonical_identifier s"
  by (simp add: canonical_identifier_def trim_upper)

lemma ident_ok_new [simp]: "ident_ok (ident_new s)"
  by (simp add: ident_ok_def ident_new_def)

section \<open>Elementary types\<close>

datatype elementary_type =
    EBool | ESint | EInt | EDint | ELint | EUsint | EUint | EUdint | EUlint
  | EReal | ELreal | EByte | EWord | EDword | ELword | EString | EWString
  | ETime | EDate | ETimeOfDay | EDateAndTime

definition elementary_parse :: "string \<Rightarrow> elementary_type option" where
  "elementary_parse input = (let s = canonical_identifier input in
      if s = ''BOOL'' then Some EBool
      else if s = ''SINT'' then Some ESint
      else if s = ''INT'' then Some EInt
      else if s = ''DINT'' then Some EDint
      else if s = ''LINT'' then Some ELint
      else if s = ''USINT'' then Some EUsint
      else if s = ''UINT'' then Some EUint
      else if s = ''UDINT'' then Some EUdint
      else if s = ''ULINT'' then Some EUlint
      else if s = ''REAL'' then Some EReal
      else if s = ''LREAL'' then Some ELreal
      else if s = ''BYTE'' then Some EByte
      else if s = ''WORD'' then Some EWord
      else if s = ''DWORD'' then Some EDword
      else if s = ''LWORD'' then Some ELword
      else if s = ''STRING'' then Some EString
      else if s = ''WSTRING'' then Some EWString
      else if s = ''TIME'' then Some ETime
      else if s = ''DATE'' \<or> s = ''D'' then Some EDate
      else if s = ''TIME_OF_DAY'' \<or> s = ''TOD'' then Some ETimeOfDay
      else if s = ''DATE_AND_TIME'' \<or> s = ''DT'' then Some EDateAndTime
      else None)"

definition elementary_is_integer :: "elementary_type \<Rightarrow> bool" where
  "elementary_is_integer t \<longleftrightarrow>
     t \<in> {ESint, EInt, EDint, ELint, EUsint, EUint, EUdint, EUlint}"

primrec elementary_as_iec :: "elementary_type \<Rightarrow> string" where
  "elementary_as_iec EBool = ''BOOL''"
| "elementary_as_iec ESint = ''SINT''"
| "elementary_as_iec EInt = ''INT''"
| "elementary_as_iec EDint = ''DINT''"
| "elementary_as_iec ELint = ''LINT''"
| "elementary_as_iec EUsint = ''USINT''"
| "elementary_as_iec EUint = ''UINT''"
| "elementary_as_iec EUdint = ''UDINT''"
| "elementary_as_iec EUlint = ''ULINT''"
| "elementary_as_iec EReal = ''REAL''"
| "elementary_as_iec ELreal = ''LREAL''"
| "elementary_as_iec EByte = ''BYTE''"
| "elementary_as_iec EWord = ''WORD''"
| "elementary_as_iec EDword = ''DWORD''"
| "elementary_as_iec ELword = ''LWORD''"
| "elementary_as_iec EString = ''STRING''"
| "elementary_as_iec EWString = ''WSTRING''"
| "elementary_as_iec ETime = ''TIME''"
| "elementary_as_iec EDate = ''DATE''"
| "elementary_as_iec ETimeOfDay = ''TIME_OF_DAY''"
| "elementary_as_iec EDateAndTime = ''DATE_AND_TIME''"

section \<open>Values\<close>

text \<open>An \<open>i64\<close> payload satisfies \<open>in_i64\<close>, an \<open>i128\<close> payload \<open>in_i128\<close> (\<open>value_ok\<close>). A
  \<open>BTreeMap\<close> of fields is its sorted entry list.\<close>

datatype val =
    VBool bool
  | VInt int
  | VReal f64
  | VString string
  | VWString string
  | VTimeMs int
  | VArray "val list"
  | VStruct "(string \<times> val) list"
  | VUnit

definition as_bool :: "val \<Rightarrow> bool option" where
  "as_bool v = (case v of
       VBool b \<Rightarrow> Some b
     | VInt n \<Rightarrow> Some (n \<noteq> 0)
     | VReal x \<Rightarrow> Some (\<not> f64_is_zero x)
     | _ \<Rightarrow> None)"

definition as_i64 :: "val \<Rightarrow> int option" where
  "as_i64 v = (case v of
       VBool b \<Rightarrow> Some (if b then 1 else 0)
     | VInt n \<Rightarrow> Some n
     | VReal x \<Rightarrow> Some (f64_to_i64 x)
     | _ \<Rightarrow> None)"

definition as_f64 :: "val \<Rightarrow> f64 option" where
  "as_f64 v = (case v of
       VBool b \<Rightarrow> Some (f64_of_int (if b then 1 else 0))
     | VInt n \<Rightarrow> Some (f64_of_int n)
     | VReal x \<Rightarrow> Some x
     | _ \<Rightarrow> None)"

fun join_strs :: "string \<Rightarrow> string list \<Rightarrow> string" where
  "join_strs sep [] = []"
| "join_strs sep [s] = s"
| "join_strs sep (s # t # ss) = s @ sep @ join_strs sep (t # ss)"

fun display_value :: "val \<Rightarrow> string" where
  "display_value (VBool b) = (if b then ''TRUE'' else ''FALSE'')"
| "display_value (VInt n) = show_int n"
| "display_value (VReal x) = show_f64 x"
| "display_value (VString s) = [CHR 0x27] @ s @ [CHR 0x27]"
| "display_value (VWString s) = [CHR 0x22] @ s @ [CHR 0x22]"
| "display_value (VTimeMs n) = ''T#'' @ show_int n @ ''ms''"
| "display_value (VArray vs) = ''['' @ join_strs '', '' (map display_value vs) @ '']''"
| "display_value (VStruct fs) =
     ''('' @ join_strs '', '' (map (\<lambda>f. fst f @ '' := '' @ display_value (snd f)) fs) @ '')''"
| "display_value VUnit = ''<unit>''"

fun value_ok :: "val \<Rightarrow> bool" where
  "value_ok (VInt n) = in_i64 n"
| "value_ok (VReal x) = f64_ok x"
| "value_ok (VTimeMs n) = in_i128 n"
| "value_ok (VArray vs) = list_all value_ok vs"
| "value_ok (VStruct fs) = list_all (\<lambda>f. value_ok (snd f)) fs"
| "value_ok v = True"

lemma as_i64_range: "value_ok v \<Longrightarrow> as_i64 v = Some n \<Longrightarrow> in_i64 n"
  by (auto simp: as_i64_def split: val.splits)

lemma as_f64_ok: "value_ok v \<Longrightarrow> as_f64 v = Some x \<Longrightarrow> f64_ok x"
  by (auto simp: as_f64_def split: val.splits)

section \<open>Expressions\<close>

datatype unary_op = OpNeg | OpNot

datatype binary_op =
    OpOr | OpXor | OpAnd | OpEqual | OpNotEqual | OpLess | OpLessEqual | OpGreater | OpGreaterEqual
  | OpAdd | OpSub | OpMul | OpDiv | OpMod | OpPower

datatype literal =
    LInt int
  | LReal f64
  | LBool bool
  | LString string
  | LWString string
  | LDurationMs int
  | LDate string
  | LTimeOfDay string
  | LDateAndTime string
  | LTyped ident string

datatype expr =
    LiteralE literal
  | VariableE variable_ref
  | UnaryE unary_op expr
  | BinaryE binary_op expr expr
  | CallE ident "param_assignment list"
  | ArrayLiteralE "expr list"
  | StructLiteralE "param_assignment list"
and variable_ref =
  VariableRef (vr_path: "ident list") (vr_indices: "expr list list") (vr_direct: "string option")
and param_assignment =
  ParamAssignment (pa_name: "ident option") (pa_output: bool) (pa_negated: bool)
    (pa_expr: "expr option") (pa_variable: "variable_ref option")

definition variable_named :: "string \<Rightarrow> variable_ref" where
  "variable_named name = VariableRef [ident_new name] [[]] None"

definition variable_direct :: "string \<Rightarrow> variable_ref" where
  "variable_direct name = VariableRef [] [] (Some name)"

definition root_name :: "variable_ref \<Rightarrow> ident option" where
  "root_name v = (case vr_path v of [] \<Rightarrow> None | r # _ \<Rightarrow> Some r)"

primrec unary_op_debug :: "unary_op \<Rightarrow> string" where
  "unary_op_debug OpNeg = ''Neg''"
| "unary_op_debug OpNot = ''Not''"

primrec binary_op_debug :: "binary_op \<Rightarrow> string" where
  "binary_op_debug OpOr = ''Or''"
| "binary_op_debug OpXor = ''Xor''"
| "binary_op_debug OpAnd = ''And''"
| "binary_op_debug OpEqual = ''Equal''"
| "binary_op_debug OpNotEqual = ''NotEqual''"
| "binary_op_debug OpLess = ''Less''"
| "binary_op_debug OpLessEqual = ''LessEqual''"
| "binary_op_debug OpGreater = ''Greater''"
| "binary_op_debug OpGreaterEqual = ''GreaterEqual''"
| "binary_op_debug OpAdd = ''Add''"
| "binary_op_debug OpSub = ''Sub''"
| "binary_op_debug OpMul = ''Mul''"
| "binary_op_debug OpDiv = ''Div''"
| "binary_op_debug OpMod = ''Mod''"
| "binary_op_debug OpPower = ''Power''"

primrec display_literal :: "literal \<Rightarrow> string" where
  "display_literal (LInt n) = show_int n"
| "display_literal (LReal x) = show_f64 x"
| "display_literal (LBool b) = (if b then ''TRUE'' else ''FALSE'')"
| "display_literal (LString s) = [CHR 0x27] @ s @ [CHR 0x27]"
| "display_literal (LWString s) = [CHR 0x22] @ s @ [CHR 0x22]"
| "display_literal (LDurationMs n) = ''T#'' @ show_int n @ ''ms''"
| "display_literal (LDate s) = ''D#'' @ s"
| "display_literal (LTimeOfDay s) = ''TOD#'' @ s"
| "display_literal (LDateAndTime s) = ''DT#'' @ s"
| "display_literal (LTyped t s) = original t @ ''#'' @ s"

text \<open>The parts of a variable, each with its indices when it has some.\<close>

fun display_parts :: "ident list \<Rightarrow> string list list \<Rightarrow> string list" where
  "display_parts [] _ = []"
| "display_parts (part # path) [] = original part # display_parts path []"
| "display_parts (part # path) (ixs # indices) =
     (original part @ (if ixs = [] then [] else ''['' @ join_strs '', '' ixs @ '']'')) #
     display_parts path indices"

fun display_expr :: "expr \<Rightarrow> string"
and display_variable :: "variable_ref \<Rightarrow> string" where
  "display_expr (LiteralE l) = display_literal l"
| "display_expr (VariableE v) = display_variable v"
| "display_expr (UnaryE u e) = unary_op_debug u @ '' '' @ display_expr e"
| "display_expr (BinaryE b l r) =
     ''('' @ display_expr l @ '' '' @ binary_op_debug b @ '' '' @ display_expr r @ '')''"
| "display_expr (CallE name args) = original name @ ''(...)''"
| "display_expr (ArrayLiteralE es) = ''[...]''"
| "display_expr (StructLiteralE fs) = ''(...)''"
| "display_variable (VariableRef path indices direct) =
     (case direct of Some d \<Rightarrow> d
      | None \<Rightarrow> join_strs ''.'' (display_parts path (map (map display_expr) indices)))"

section \<open>Data types\<close>

record subrange =
  sr_low :: int
  sr_high :: int

datatype data_type_spec =
    DtElementary elementary_type
  | DtNamed ident
  | DtArray "subrange list" data_type_spec
  | DtStruct "struct_field list"
  | DtEnum "ident list"
  | DtSubrange elementary_type subrange
  | DtString bool "nat option"
and struct_field =
  StructField (sf_name: ident) (sf_spec: data_type_spec) (sf_initial: "expr option")

definition default_value_for_type :: "data_type_spec \<Rightarrow> val" where
  "default_value_for_type spec = (case spec of
       DtElementary t \<Rightarrow>
         (if t = EBool then VBool False
          else if t = EReal \<or> t = ELreal then VReal (Fin False 0 (- 1074))
          else if t = EString then VString []
          else if t = EWString then VWString []
          else if t \<in> {ETime, EDate, ETimeOfDay, EDateAndTime} then VTimeMs 0
          else VInt 0)
     | DtString wide len \<Rightarrow> (if wide then VWString [] else VString [])
     | DtSubrange base r \<Rightarrow> VInt 0
     | DtNamed i \<Rightarrow> VInt 0
     | DtArray rs t \<Rightarrow> VUnit
     | DtStruct fs \<Rightarrow> VUnit
     | DtEnum vs \<Rightarrow> VInt 0)"

section \<open>Directions and action qualifiers\<close>

datatype access_direction = ReadOnly | ReadWrite

datatype sfc_action_qualifier =
    NonStored | SetStored | ResetStored | Pulse | PulseFalling
  | TimeLimited | TimeDelayed | StoredDelayed | DelayedStored | StoredLimited

definition qualifier_parse :: "string \<Rightarrow> sfc_action_qualifier option" where
  "qualifier_parse input = (let s = canonical_identifier input in
      if s = ''N'' then Some NonStored
      else if s = ''S'' then Some SetStored
      else if s = ''R'' then Some ResetStored
      else if s = ''P'' \<or> s = ''P1'' then Some Pulse
      else if s = ''P0'' then Some PulseFalling
      else if s = ''L'' then Some TimeLimited
      else if s = ''D'' then Some TimeDelayed
      else if s = ''SD'' then Some StoredDelayed
      else if s = ''DS'' then Some DelayedStored
      else if s = ''SL'' then Some StoredLimited
      else None)"

primrec qualifier_as_iec :: "sfc_action_qualifier \<Rightarrow> string" where
  "qualifier_as_iec NonStored = ''N''"
| "qualifier_as_iec SetStored = ''S''"
| "qualifier_as_iec ResetStored = ''R''"
| "qualifier_as_iec Pulse = ''P''"
| "qualifier_as_iec PulseFalling = ''P0''"
| "qualifier_as_iec TimeLimited = ''L''"
| "qualifier_as_iec TimeDelayed = ''D''"
| "qualifier_as_iec StoredDelayed = ''SD''"
| "qualifier_as_iec DelayedStored = ''DS''"
| "qualifier_as_iec StoredLimited = ''SL''"

definition requires_duration :: "sfc_action_qualifier \<Rightarrow> bool" where
  "requires_duration q \<longleftrightarrow>
     q \<in> {TimeLimited, TimeDelayed, StoredDelayed, DelayedStored, StoredLimited}"

section \<open>Names read back\<close>

text \<open>An ASCII name in upper case, with digits and underscores, is its own canonical form.\<close>

definition upper_name :: "string \<Rightarrow> bool" where
  "upper_name s \<longleftrightarrow> (\<forall>c \<in> set s. is_ascii_upper c \<or> is_ascii_digit c \<or> c = CHR ''_'')"

lemma canonical_upper_name:
  assumes "upper_name s"
  shows "canonical_identifier s = s"
proof -
  have r: "\<forall>c \<in> set s. 48 \<le> byte c \<and> byte c \<le> 95"
    using assms by (auto simp: upper_name_def ascii_class_defs byte_def)
  then have "trim s = s" by (intro trim_noop) auto
  moreover have "map upper_char s = s"
    using r by (intro map_idI upper_char_noop) (auto simp: is_ascii_lower_def)
  ultimately show ?thesis by (simp add: canonical_identifier_def to_ascii_uppercase_def)
qed

lemma upper_name_elementary: "upper_name (elementary_as_iec t)"
  by (cases t) (simp_all add: upper_name_def ascii_class_defs byte_def)

lemma upper_name_qualifier: "upper_name (qualifier_as_iec q)"
  by (cases q) (simp_all add: upper_name_def ascii_class_defs byte_def)

lemma elementary_parse_as_iec: "elementary_parse (elementary_as_iec t) = Some t"
  by (cases t) (simp_all add: elementary_parse_def Let_def
      canonical_upper_name [OF upper_name_elementary, of EBool, simplified]
      canonical_upper_name upper_name_def ascii_class_defs byte_def)

lemma qualifier_parse_as_iec: "qualifier_parse (qualifier_as_iec q) = Some q"
  by (cases q) (simp_all add: qualifier_parse_def Let_def
      canonical_upper_name upper_name_def ascii_class_defs byte_def)

end
