(* ===== verification/BTree.thy ===== *)
theory BTree
  imports Prelude
begin

text \<open>
  \<open>std::collections::BTreeMap\<close> and \<open>BTreeSet\<close> as the program uses them. A map is the
  list of its entries in key order, so that iteration (\<open>iter\<close>, \<open>keys\<close>) is the list
  itself. The contract its clients rely on is the locale \<open>ordered_map\<close>; the sorted list
  implements it.
\<close>

type_synonym ('k, 'v) bmap = "('k \<times> 'v) list"

fun bt_insert :: "'k::linorder \<Rightarrow> 'v \<Rightarrow> ('k, 'v) bmap \<Rightarrow> ('k, 'v) bmap" where
  "bt_insert k v [] = [(k, v)]"
| "bt_insert k v ((k', v') # m) =
     (if k < k' then (k, v) # (k', v') # m
      else if k = k' then (k, v) # m
      else (k', v') # bt_insert k v m)"

fun bt_get :: "('k, 'v) bmap \<Rightarrow> 'k \<Rightarrow> 'v option" where
  "bt_get [] k = None"
| "bt_get ((k', v) # m) k = (if k = k' then Some v else bt_get m k)"

fun bt_remove :: "'k \<Rightarrow> ('k, 'v) bmap \<Rightarrow> ('k, 'v) bmap" where
  "bt_remove k [] = []"
| "bt_remove k ((k', v) # m) = (if k = k' then m else (k', v) # bt_remove k m)"

definition bt_contains :: "('k, 'v) bmap \<Rightarrow> 'k \<Rightarrow> bool" where
  "bt_contains m k \<longleftrightarrow> bt_get m k \<noteq> None"

definition bt_keys :: "('k, 'v) bmap \<Rightarrow> 'k list" where
  "bt_keys m = map fst m"

definition bt_ok :: "('k::linorder, 'v) bmap \<Rightarrow> bool" where
  "bt_ok m \<longleftrightarrow> sorted_wrt (<) (map fst m)"

text \<open>\<open>Iterator::collect\<close> into a map: the entries are inserted in order.\<close>

definition bt_collect :: "('k::linorder \<times> 'v) list \<Rightarrow> ('k, 'v) bmap" where
  "bt_collect kvs = fold (\<lambda>(k, v). bt_insert k v) kvs []"

text \<open>A \<open>BTreeSet\<close> is the list of its elements in order.\<close>

fun bs_insert :: "'k::linorder \<Rightarrow> 'k list \<Rightarrow> 'k list" where
  "bs_insert k [] = [k]"
| "bs_insert k (x # xs) =
     (if k < x then k # x # xs else if k = x then x # xs else x # bs_insert k xs)"

subsection \<open>The contract\<close>

locale ordered_map =
  fixes emp :: "'m"
    and ins :: "'k::linorder \<Rightarrow> 'v \<Rightarrow> 'm \<Rightarrow> 'm"
    and get :: "'m \<Rightarrow> 'k \<Rightarrow> 'v option"
    and keys :: "'m \<Rightarrow> 'k list"
    and ok :: "'m \<Rightarrow> bool"
  assumes get_empty: "get emp k = None"
    and get_insert: "get (ins k v m) k' = (if k' = k then Some v else get m k')"
    and ok_empty: "ok emp"
    and ok_insert: "ok m \<Longrightarrow> ok (ins k v m)"
    and keys_sorted: "ok m \<Longrightarrow> sorted_wrt (<) (keys m)"
    and keys_get: "k \<in> set (keys m) \<longleftrightarrow> get m k \<noteq> None"
begin

lemma get_insert_same: "get (ins k v m) k = Some v"
  by (simp add: get_insert)

lemma get_insert_other: "k' \<noteq> k \<Longrightarrow> get (ins k v m) k' = get m k'"
  by (simp add: get_insert)

lemma keys_distinct: "ok m \<Longrightarrow> distinct (keys m)"
  using keys_sorted strict_sorted_iff by blast

lemma keys_insert: "set (keys (ins k v m)) = insert k (set (keys m))"
  by (auto simp: keys_get get_insert split: if_splits)

definition collected :: "('k \<times> 'v) list \<Rightarrow> 'm \<Rightarrow> 'm" where
  "collected kvs m = fold (\<lambda>(k, v). ins k v) kvs m"

text \<open>Collecting entries: the last entry of a key wins.\<close>

lemma get_collected:
  "get (collected kvs m) k = (case map_of (rev kvs) k of None \<Rightarrow> get m k | Some v \<Rightarrow> Some v)"
proof (induction kvs arbitrary: m)
  case Nil
  show ?case by (simp add: collected_def)
next
  case (Cons kv kvs)
  obtain k0 v0 where kv: "kv = (k0, v0)" by (cases kv)
  have "get (collected (kv # kvs) m) k = get (collected kvs (ins k0 v0 m)) k"
    by (simp add: collected_def kv)
  also have "\<dots> = (case map_of (rev kvs) k of None \<Rightarrow> get (ins k0 v0 m) k | Some v \<Rightarrow> Some v)"
    by (rule Cons.IH)
  also have "\<dots> = (case map_of (rev (kv # kvs)) k of None \<Rightarrow> get m k | Some v \<Rightarrow> Some v)"
    by (auto simp: kv get_insert map_add_def split: option.splits)
  finally show ?case .
qed

lemma ok_collected: "ok m \<Longrightarrow> ok (collected kvs m)"
proof (induction kvs arbitrary: m)
  case Nil
  then show ?case by (simp add: collected_def)
next
  case (Cons kv kvs)
  then show ?case
    by (cases kv) (simp add: collected_def ok_insert)
qed

end

subsection \<open>The sorted list meets it\<close>

lemma bt_get_insert [simp]:
  "bt_get (bt_insert k v m) k' = (if k' = k then Some v else bt_get m k')"
  by (induction m) auto

lemma set_fst_bt_insert: "fst ` set (bt_insert k v m) = insert k (fst ` set m)"
  by (induction k v m rule: bt_insert.induct) (simp_all add: insert_commute)

lemma bt_ok_empty [simp]: "bt_ok []"
  by (simp add: bt_ok_def)

lemma bt_ok_insert [simp, intro]: "bt_ok m \<Longrightarrow> bt_ok (bt_insert k v m)"
proof (induction m)
  case Nil
  then show ?case by (simp add: bt_ok_def)
next
  case (Cons kv m)
  obtain k' v' where kv: "kv = (k', v')" by (cases kv)
  from Cons.prems have m: "bt_ok m" and lt: "\<forall>x \<in> set (map fst m). k' < x"
    by (auto simp: bt_ok_def kv)
  then have IH: "bt_ok (bt_insert k v m)" using Cons.IH by blast
  have "\<forall>x \<in> set (map fst (bt_insert k v m)). k' < x" if "k' < k"
    using lt that by (simp add: set_fst_bt_insert)
  then show ?case
    using m lt IH by (auto simp: bt_ok_def kv not_less_iff_gr_or_eq)
qed

lemma bt_get_map_of: "bt_get m = map_of m"
proof
  show "bt_get m k = map_of m k" for k by (induction m) auto
qed

lemma bt_keys_get: "k \<in> set (bt_keys m) \<longleftrightarrow> bt_get m k \<noteq> None"
  by (simp add: bt_keys_def bt_get_map_of map_of_eq_None_iff)

lemma bt_ok_keys: "bt_ok m \<longleftrightarrow> sorted_wrt (<) (bt_keys m)"
  by (simp add: bt_ok_def bt_keys_def)

interpretation bt: ordered_map "[]" bt_insert bt_get bt_keys bt_ok
  by unfold_locales (simp_all add: bt_keys_get bt_ok_keys [symmetric])

lemma bt_collect_eq: "bt_collect kvs = bt.collected kvs []"
  by (simp add: bt_collect_def bt.collected_def)

lemma bt_get_collect: "bt_get (bt_collect kvs) k = map_of (rev kvs) k"
  by (simp add: bt_collect_eq bt.get_collected split: option.splits)

lemma bt_ok_collect [simp]: "bt_ok (bt_collect kvs)"
  by (simp add: bt_collect_eq bt.ok_collected)

lemma bt_get_mem: "bt_get m k = Some v \<Longrightarrow> (k, v) \<in> set m"
  by (simp add: bt_get_map_of map_of_SomeD)

lemma bt_mem_get: "bt_ok m \<Longrightarrow> (k, v) \<in> set m \<Longrightarrow> bt_get m k = Some v"
  by (simp add: bt_get_map_of bt_ok_def strict_sorted_iff)

lemma bs_insert_set [simp]: "set (bs_insert k xs) = insert k (set xs)"
  by (induction xs) auto

lemma bs_insert_sorted: "sorted_wrt (<) xs \<Longrightarrow> sorted_wrt (<) (bs_insert k xs)"
  by (induction xs) (auto simp: not_less_iff_gr_or_eq)

end
