(* ===== verification/TargetIo.thy ===== *)
theory TargetIo
  imports Ir BTree
begin

text \<open>
  The shared parts of the target runtime (\<open>rbcpp_target/src/lib.rs\<close>): I/O symbols and
  their keys, the binding lookup every adapter performs, the value codecs of the process
  image files and of the retain store, file names, and the small integer parsers of the
  mapping files.
\<close>

section \<open>Symbols and keys\<close>

datatype io_direction = DirInput | DirOutput | DirMemory | DirUnknown

record io_symbol =
  sym_name :: string
  sym_location :: string
  sym_direction :: io_direction
  sym_type_name :: string

definition canonical_key :: "string \<Rightarrow> string" where
  "canonical_key input = to_ascii_uppercase (trim input)"

definition topic_key :: "string \<Rightarrow> string" where
  "topic_key input = trim input"

definition location_key :: "io_symbol \<Rightarrow> string" where
  "location_key sy = canonical_key (sym_location sy)"

definition name_key :: "io_symbol \<Rightarrow> string" where
  "name_key sy = canonical_key (sym_name sy)"

text \<open>The lookup of the adapters: by location, then by name.\<close>

definition lookup_symbol :: "(string, 'p) bmap \<Rightarrow> io_symbol \<Rightarrow> 'p option" where
  "lookup_symbol bindings sy =
     (case bt_get bindings (location_key sy) of
        Some p \<Rightarrow> Some p
      | None \<Rightarrow> bt_get bindings (name_key sy))"

lemma canonical_key_idem [simp, key_simps]: "canonical_key (canonical_key s) = canonical_key s"
  by (simp add: canonical_key_def trim_upper)

lemma topic_key_idem [simp, key_simps]: "topic_key (topic_key s) = topic_key s"
  by (simp add: topic_key_def)

lemma lookup_symbol_insert:
  "lookup_symbol (bt_insert k p b) sy =
     (if location_key sy = k then Some p
      else case bt_get b (location_key sy) of
          Some q \<Rightarrow> Some q
        | None \<Rightarrow> if name_key sy = k then Some p else bt_get b (name_key sy))"
  by (auto simp: lookup_symbol_def split: option.splits)

section \<open>Mapping text\<close>

text \<open>The lines of a mapping file: trimmed, without blank lines and comments.\<close>

definition mapping_lines :: "string \<Rightarrow> string list" where
  "mapping_lines text =
     filter (\<lambda>line. line \<noteq> [] \<and> \<not> starts_with line ''#'') (map trim (str_lines text))"

text \<open>The bindings of a file of lines \<open>key,point\<close>; a line that does not parse is skipped.\<close>

definition parse_binding :: "(string \<Rightarrow> 'p option) \<Rightarrow> string \<Rightarrow> (string \<times> 'p) option" where
  "parse_binding parse line =
     Option.bind (split_once (CHR '','') line) (\<lambda>(key, point).
       map_option (\<lambda>p. (canonical_key key, p)) (parse (trim point)))"

definition load_bindings :: "(string \<Rightarrow> 'p option) \<Rightarrow> string \<Rightarrow> (string, 'p) bmap" where
  "load_bindings parse text =
     bt_collect (List.map_filter (parse_binding parse) (mapping_lines text))"

lemma load_bindings_get:
  "bt_get (load_bindings parse text) k =
     map_of (rev (List.map_filter (parse_binding parse) (mapping_lines text))) k"
  by (simp add: load_bindings_def bt_get_collect)

lemma load_bindings_ok [simp]: "bt_ok (load_bindings parse text)"
  by (simp add: load_bindings_def)

text \<open>Every key of a loaded mapping is canonical, and every point is one the parser made.\<close>

lemma load_bindings_mem:
  assumes "bt_get (load_bindings parse text) k = Some p"
  shows "canonical_key k = k \<and> (\<exists>s. parse s = Some p)"
proof -
  from assms have "(k, p) \<in> set (List.map_filter (parse_binding parse) (mapping_lines text))"
    by (auto simp: load_bindings_get dest!: map_of_SomeD)
  then obtain line where "parse_binding parse line = Some (k, p)"
    by (auto simp: List.map_filter_def)
  then show ?thesis
    by (auto simp: parse_binding_def split: Option.bind_splits)
qed

section \<open>Value codecs\<close>

datatype io_encoding = Bool01 | Decimal | Text

definition decode_value :: "io_encoding \<Rightarrow> string \<Rightarrow> val" where
  "decode_value encoding raw = (case encoding of
       Bool01 \<Rightarrow> VBool (to_ascii_lowercase (trim raw) \<in> {''1'', ''true'', ''on'', ''high''})
     | Decimal \<Rightarrow> (case parse_i64 (trim raw) of Some n \<Rightarrow> VInt n | None \<Rightarrow> VInt 0)
     | Text \<Rightarrow> VString raw)"

definition newline :: string where
  "newline = [CHR 0x0A]"

definition encode_value :: "io_encoding \<Rightarrow> val \<Rightarrow> string" where
  "encode_value encoding v = (case encoding of
       Bool01 \<Rightarrow> (if case as_bool v of Some b \<Rightarrow> b | None \<Rightarrow> False then ''1'' else ''0'') @ newline
     | Decimal \<Rightarrow> show_int (case as_i64 v of Some n \<Rightarrow> n | None \<Rightarrow> 0) @ newline
     | Text \<Rightarrow> (case v of
           VString s \<Rightarrow> s @ newline
         | VWString s \<Rightarrow> s @ newline
         | _ \<Rightarrow> display_value v @ newline))"

definition decode_typed_value :: "string \<Rightarrow> val" where
  "decode_typed_value raw = (case split_once (CHR '':'') raw of
       None \<Rightarrow> VString raw
     | Some (kind, v) \<Rightarrow>
         if kind = ''BOOL'' then VBool (v \<in> {''1'', ''TRUE'', ''true''})
         else if kind = ''INT'' then (case parse_i64 v of Some n \<Rightarrow> VInt n | None \<Rightarrow> VInt 0)
         else if kind = ''REAL'' then
           (case parse_f64 v of Some x \<Rightarrow> VReal x | None \<Rightarrow> VReal (f64_of_int 0))
         else if kind = ''WSTRING'' then VWString v
         else if kind = ''TIME'' then (case parse_i128 v of Some n \<Rightarrow> VTimeMs n | None \<Rightarrow> VTimeMs 0)
         else VString v)"

definition encode_typed_value :: "val \<Rightarrow> string" where
  "encode_typed_value v = (case v of
       VBool b \<Rightarrow> ''BOOL:'' @ (if b then ''1'' else ''0'') @ newline
     | VInt n \<Rightarrow> ''INT:'' @ show_int n @ newline
     | VReal x \<Rightarrow> ''REAL:'' @ show_f64 x @ newline
     | VString s \<Rightarrow> ''STRING:'' @ s @ newline
     | VWString s \<Rightarrow> ''WSTRING:'' @ s @ newline
     | VTimeMs n \<Rightarrow> ''TIME:'' @ show_int n @ newline
     | _ \<Rightarrow> ''STRING:'' @ display_value v @ newline)"

text \<open>What a value is after it was written and read: a string loses the line ends at its
  end, and a composite value is the text of its display form.\<close>

definition retained_image :: "val \<Rightarrow> val" where
  "retained_image v = (case v of
       VString s \<Rightarrow> VString (trim_end_newlines s)
     | VWString s \<Rightarrow> VWString (trim_end_newlines s)
     | VArray vs \<Rightarrow> VString (display_value v)
     | VStruct fs \<Rightarrow> VString (display_value v)
     | VUnit \<Rightarrow> VString (display_value v)
     | _ \<Rightarrow> v)"

lemma split_kind [simp]: "CHR '':'' \<notin> set kind \<Longrightarrow> split_once (CHR '':'') (kind @ CHR '':'' # s) = Some (kind, s)"
  by (rule split_once_append)

lemma trim_end_newline [simp]: "trim_end_newlines (s @ newline) = trim_end_newlines s"
  by (simp add: newline_def is_line_end_def byte_def)

lemma trim_end_append:
  "trim_end_newlines (p @ s) =
     (if trim_end_newlines s = [] then trim_end_newlines p else p @ trim_end_newlines s)"
  by (auto simp: trim_end_newlines_def dropWhile_append dropWhile_eq_Nil_conv)

lemma trim_end_kind:
  "\<not> is_line_end c \<Longrightarrow> trim_end_newlines (p @ c # s) = p @ c # trim_end_newlines s"
  using trim_end_append [of "p @ [c]" s] by (auto simp: trim_end_newlines_def)

lemma colon_not_line_end [simp]: "\<not> is_line_end (CHR '':'')"
  by (simp add: is_line_end_def byte_def)

text \<open>The text after the tag is cut exactly at the tag.\<close>

lemma decode_tagged:
  assumes "CHR '':'' \<notin> set kind"
  shows "split_once (CHR '':'') (trim_end_newlines (kind @ CHR '':'' # s @ newline))
    = Some (kind, trim_end_newlines s)"
proof -
  have "trim_end_newlines (kind @ CHR '':'' # s @ newline) = kind @ CHR '':'' # trim_end_newlines s"
    using trim_end_kind [of "CHR '':''" kind "s @ newline"] by simp
  with assms show ?thesis by simp
qed

lemma printable_no_line_end:
  assumes "\<forall>c \<in> set s. 33 \<le> byte c"
  shows "trim_end_newlines s = s"
proof (rule trim_end_newlines_noop)
  assume "s \<noteq> []"
  then have "33 \<le> byte (last s)" using assms by simp
  then show "\<not> is_line_end (last s)" by (auto simp: is_line_end_def)
qed

lemma trim_end_show_int [simp]: "trim_end_newlines (show_int n) = show_int n"
  by (rule printable_no_line_end) (auto dest: show_int_byte)

lemma trim_end_show_f64 [simp]: "trim_end_newlines (show_f64 x) = show_f64 x"
  by (rule printable_no_line_end) (auto dest: show_f64_byte)

lemma trim_end_last: "x = p @ [c] \<Longrightarrow> \<not> is_line_end c \<Longrightarrow> trim_end_newlines x = x"
  by (simp add: trim_end_newlines_def)

lemma trim_end_display:
  "trim_end_newlines (display_value (VArray vs)) = display_value (VArray vs)"
  "trim_end_newlines (display_value (VStruct fs)) = display_value (VStruct fs)"
  "trim_end_newlines (display_value VUnit) = display_value VUnit"
proof -
  have e: "\<not> is_line_end (CHR '']'')" "\<not> is_line_end (CHR '')'')" "\<not> is_line_end (CHR ''>'')"
    by (simp_all add: is_line_end_def byte_def)
  show "trim_end_newlines (display_value (VArray vs)) = display_value (VArray vs)"
    by (rule trim_end_last [OF _ e(1)]) (simp only: display_value.simps append_assoc [symmetric])
  show "trim_end_newlines (display_value (VStruct fs)) = display_value (VStruct fs)"
    by (rule trim_end_last [OF _ e(2)]) (simp only: display_value.simps append_assoc [symmetric])
  show "trim_end_newlines (display_value VUnit) = display_value VUnit"
    by (rule trim_end_last [OF _ e(3), of _ "''<unit''"]) simp
qed

text \<open>Decoding an encoded value, tag by tag.\<close>

lemmas decode_typed_tags =
  decode_tagged [of "''BOOL''"] decode_tagged [of "''INT''"] decode_tagged [of "''REAL''"]
  decode_tagged [of "''STRING''"] decode_tagged [of "''WSTRING''"] decode_tagged [of "''TIME''"]

lemma typed_codec:
  assumes "value_ok v"
  shows "decode_typed_value (trim_end_newlines (encode_typed_value v)) = retained_image v"
proof (cases v)
  case (VBool b)
  have "trim_end_newlines ''1'' = ''1''" "trim_end_newlines ''0'' = ''0''"
    by (rule printable_no_line_end; simp add: byte_def)+
  with VBool decode_tagged [of "''BOOL''" "''1''"] decode_tagged [of "''BOOL''" "''0''"]
  show ?thesis
    by (cases b) (simp_all add: decode_typed_value_def encode_typed_value_def retained_image_def)
next
  case (VArray vs)
  with decode_typed_tags(4) [of "display_value v"] show ?thesis
    by (simp add: decode_typed_value_def encode_typed_value_def retained_image_def
        trim_end_display del: display_value.simps)
next
  case (VStruct fs)
  with decode_typed_tags(4) [of "display_value v"] show ?thesis
    by (simp add: decode_typed_value_def encode_typed_value_def retained_image_def
        trim_end_display del: display_value.simps)
next
  case VUnit
  with decode_typed_tags(4) [of "display_value v"] show ?thesis
    by (simp add: decode_typed_value_def encode_typed_value_def retained_image_def
        trim_end_display del: display_value.simps)
qed (use assms decode_typed_tags in \<open>simp_all add: decode_typed_value_def encode_typed_value_def
      retained_image_def\<close>)

lemma trim_end_idem [simp]: "trim_end_newlines (trim_end_newlines s) = trim_end_newlines s"
  by (simp add: trim_end_newlines_def)

lemma retained_image_idem [simp]: "retained_image (retained_image v) = retained_image v"
  by (cases v) (simp_all add: retained_image_def trim_end_display del: display_value.simps)

text \<open>The process image files.\<close>

definition process_image :: "io_encoding \<Rightarrow> val \<Rightarrow> val" where
  "process_image encoding v = (case encoding of
       Bool01 \<Rightarrow> VBool (case as_bool v of Some b \<Rightarrow> b | None \<Rightarrow> False)
     | Decimal \<Rightarrow> VInt (case as_i64 v of Some n \<Rightarrow> n | None \<Rightarrow> 0)
     | Text \<Rightarrow> VString (trim_end_newlines (case v of
           VString s \<Rightarrow> s | VWString s \<Rightarrow> s | _ \<Rightarrow> display_value v)))"

lemma process_codec:
  assumes "value_ok v"
  shows "decode_value encoding (trim_end_newlines (encode_value encoding v))
    = process_image encoding v"
proof (cases encoding)
  case Bool01
  have "trim_end_newlines ''1'' = ''1''" "trim_end_newlines ''0'' = ''0''"
    by (rule printable_no_line_end; simp add: byte_def)+
  moreover have "to_ascii_lowercase (trim ''1'') = ''1''" "to_ascii_lowercase (trim ''0'') = ''0''"
    by code_simp+
  ultimately show ?thesis
    by (simp add: Bool01 decode_value_def encode_value_def process_image_def)
next
  case Decimal
  have "in_i64 (case as_i64 v of Some n \<Rightarrow> n | None \<Rightarrow> 0)"
    using as_i64_range [OF assms] by (simp split: option.splits)
  then show ?thesis
    by (simp add: Decimal decode_value_def encode_value_def process_image_def)
next
  case Text
  show ?thesis
    by (cases v) (simp_all add: Text decode_value_def encode_value_def process_image_def
        del: display_value.simps)
qed

section \<open>File names\<close>

definition safe_char :: "string \<Rightarrow> bool" where
  "safe_char ch \<longleftrightarrow>
     (case ch of [c] \<Rightarrow> is_ascii_alphanumeric c \<or> c = CHR ''_'' \<or> c = CHR ''-'' \<or> c = CHR ''.''
      | _ \<Rightarrow> False)"

definition safe_file_component :: "string \<Rightarrow> string" where
  "safe_file_component name =
     (let out = concat (map (\<lambda>ch. if safe_char ch then ch else ''_'') (chars name))
      in if out = [] then ''_'' else out)"

definition component_char :: "char \<Rightarrow> bool" where
  "component_char c \<longleftrightarrow> is_ascii_alphanumeric c \<or> c \<in> {CHR ''_'', CHR ''-'', CHR ''.''}"

lemma component_underscore [simp]: "component_char (CHR ''_'')"
  by (simp add: component_char_def)

lemma safe_char_component: "safe_char ch \<Longrightarrow> c \<in> set ch \<Longrightarrow> component_char c"
  by (cases ch rule: list.exhaust; cases "tl ch") (simp_all add: safe_char_def component_char_def)

lemma safe_file_component_chars:
  assumes "c \<in> set (safe_file_component name)"
  shows "component_char c"
proof -
  from assms have "c = CHR ''_'' \<or> (\<exists>ch \<in> set (chars name). safe_char ch \<and> c \<in> set ch)"
    unfolding safe_file_component_def Let_def by (force split: if_splits)
  then show ?thesis by (auto intro: safe_char_component)
qed

lemma safe_file_component_ne: "safe_file_component name \<noteq> []"
  by (auto simp: safe_file_component_def Let_def)

text \<open>A name of such characters only is its own file name.\<close>

lemma safe_file_component_id:
  assumes "name \<noteq> []" "\<forall>c \<in> set name. component_char c"
  shows "safe_file_component name = name"
proof -
  have "byte c < 128" if "component_char c" for c
    using that by (auto simp: component_char_def ascii_class_defs byte_def)
  then have "chars name = map (\<lambda>c. [c]) name"
    using assms by (intro chars_ascii) (force simp: is_cont_def)
  moreover have "concat (map (\<lambda>c. if safe_char [c] then [c] else ''_'') xs) = xs"
    if "\<forall>c \<in> set xs. component_char c" for xs
    using that by (induction xs) (auto simp: safe_char_def component_char_def)
  ultimately show ?thesis
    using assms by (simp add: safe_file_component_def comp_def)
qed

section \<open>Small integers of mapping files\<close>

definition parse_hex_or_dec :: "nat \<Rightarrow> string \<Rightarrow> nat option" where
  "parse_hex_or_dec mx input =
     (case strip_prefix ''0x'' input of
        Some hex \<Rightarrow> from_str_radix_unsigned 16 mx hex
      | None \<Rightarrow>
          (case strip_prefix ''0X'' input of
             Some hex \<Rightarrow> from_str_radix_unsigned 16 mx hex
           | None \<Rightarrow> from_str_radix_unsigned 10 mx input))"

definition parse_u16 :: "string \<Rightarrow> nat option" where
  "parse_u16 = parse_hex_or_dec 65535"

definition parse_u8 :: "string \<Rightarrow> nat option" where
  "parse_u8 = parse_hex_or_dec 255"

definition parse_byte_bit :: "string \<Rightarrow> (nat \<times> nat) option" where
  "parse_byte_bit input =
     (let (bs, bit) = (case split_once (CHR ''.'') input of Some p \<Rightarrow> p | None \<Rightarrow> (input, ''0''))
      in Option.bind (parse_usize bs) (\<lambda>byte_offset.
         Option.bind (parse_u8_dec bit) (\<lambda>bit_offset.
           if bit_offset < 8 then Some (byte_offset, bit_offset) else None)))"

lemma parse_hex_or_dec_range: "parse_hex_or_dec mx s = Some n \<Longrightarrow> n \<le> mx"
  by (auto simp: parse_hex_or_dec_def dest: from_str_radix_unsigned_range split: option.splits)

lemma parse_byte_bit_range: "parse_byte_bit s = Some (b, i) \<Longrightarrow> b \<le> usize_max \<and> i < 8"
  by (auto simp: parse_byte_bit_def parse_usize_def Let_def bind_eq_Some_conv
      dest!: from_str_radix_unsigned_range split: option.splits if_splits prod.splits)

end
