(* ===== verification/TargetHal.thy ===== *)
theory TargetHal
  imports TargetIo
begin

text \<open>
  The interface \<open>TargetHal\<close> of the hardware adapters with the contract its clients rely
  on, and the adapter over files, \<open>FileBackedHal\<close>, with the parser of its mapping.
  A file system is a map from paths to contents with the directories made so far and the
  fault, if any, that operations on a path run into; a path is its text as written.
\<close>

section \<open>Files\<close>

record fs =
  fs_files :: "(string, string) bmap"
  fs_dirs :: "string list"
  fs_fault :: "string \<Rightarrow> io_error option"

definition fs_exists :: "fs \<Rightarrow> string \<Rightarrow> bool" where
  "fs_exists f p \<longleftrightarrow> bt_get (fs_files f) p \<noteq> None \<or> p \<in> set (fs_dirs f)"

definition fs_read_to_string :: "fs \<Rightarrow> string \<Rightarrow> string io_result" where
  "fs_read_to_string f p =
     (case fs_fault f p of
        Some e \<Rightarrow> Inl e
      | None \<Rightarrow>
          (case bt_get (fs_files f) p of
             Some s \<Rightarrow> Inr s
           | None \<Rightarrow> Inl (if p \<in> set (fs_dirs f) then OtherIo ''Is a directory'' else NotFound)))"

text \<open>\<open>create_dir_all\<close>. Every write of the program makes the parent of its file first, so
  the ancestors of a directory need no record of their own.\<close>

definition fs_create_dir_all :: "fs \<Rightarrow> string \<Rightarrow> unit io_result \<times> fs" where
  "fs_create_dir_all f p =
     (if p = [] \<or> p \<in> set (fs_dirs f) then (Inr (), f)
      else
        (case fs_fault f p of
           Some e \<Rightarrow> (Inl e, f)
         | None \<Rightarrow>
             if bt_get (fs_files f) p \<noteq> None then (Inl (OtherIo ''File exists''), f)
             else (Inr (), f\<lparr>fs_dirs := p # fs_dirs f\<rparr>)))"

text \<open>\<open>Path::parent\<close>, \<open>Path::join\<close> (an absolute path replaces the base).\<close>

definition is_slash :: "char \<Rightarrow> bool" where
  "is_slash c \<longleftrightarrow> c = CHR 0x2F"

definition path_parent :: "string \<Rightarrow> string option" where
  "path_parent p =
     (let q = dropWhile is_slash (rev p)
      in if q = [] then None
         else
           let r = dropWhile (\<lambda>c. \<not> is_slash c) q
           in if r = [] then Some []
              else Some (let d = rev (dropWhile is_slash r) in if d = [] then [CHR 0x2F] else d))"

definition path_join :: "string \<Rightarrow> string \<Rightarrow> string" where
  "path_join base c =
     (if c \<noteq> [] \<and> is_slash (hd c) then c
      else if base = [] \<or> is_slash (last base) then base @ c
      else base @ [CHR 0x2F] @ c)"

definition fs_write :: "fs \<Rightarrow> string \<Rightarrow> string \<Rightarrow> unit io_result \<times> fs" where
  "fs_write f p s =
     (case fs_fault f p of
        Some e \<Rightarrow> (Inl e, f)
      | None \<Rightarrow>
          if p \<in> set (fs_dirs f) then (Inl (OtherIo ''Is a directory''), f)
          else
            (case path_parent p of
               None \<Rightarrow> (Inl NotFound, f)
             | Some d \<Rightarrow>
                 if d = [] \<or> d \<in> set (fs_dirs f)
                 then (Inr (), f\<lparr>fs_files := bt_insert p s (fs_files f)\<rparr>)
                 else (Inl NotFound, f)))"

section \<open>The contract of an adapter\<close>

text \<open>
  \<open>rd\<close> and \<open>wr\<close> are \<open>read_symbol\<close> and \<open>write_symbol\<close>; \<open>bound\<close> says which symbols the
  adapter has a point for. A symbol without a point reads as \<open>Ok(None)\<close>, and its write
  is not accepted and changes nothing; \<open>Ok(false)\<close> always means that nothing changed; a
  write never changes which symbols are bound.
\<close>

locale target_hal =
  fixes rd :: "'h \<Rightarrow> io_symbol \<Rightarrow> val option io_result outcome"
    and wr :: "'h \<Rightarrow> io_symbol \<Rightarrow> val \<Rightarrow> (bool io_result \<times> 'h) outcome"
    and bound :: "'h \<Rightarrow> io_symbol \<Rightarrow> bool"
  assumes unbound_read: "\<not> bound h s \<Longrightarrow> rd h s = Ret (Inr None)"
    and unbound_write: "\<not> bound h s \<Longrightarrow> \<exists>r. wr h s v = Ret (r, h) \<and> r \<noteq> Inr True"
    and refused_unchanged: "wr h s v = Ret (Inr False, h') \<Longrightarrow> h' = h"
    and bound_stable: "wr h s v = Ret (r, h') \<Longrightarrow> bound h' t = bound h t"
begin

text \<open>A sequence of writes, stopped by a panic; errors are passed over.\<close>

primrec write_all :: "'h \<Rightarrow> (io_symbol \<times> val) list \<Rightarrow> 'h outcome" where
  "write_all h [] = Ret h"
| "write_all h (w # ws) = obind (wr h (fst w) (snd w)) (\<lambda>r. write_all (snd r) ws)"

lemma write_all_bound: "write_all h ws = Ret h' \<Longrightarrow> bound h' t = bound h t"
proof (induction ws arbitrary: h)
  case (Cons w ws)
  then obtain r h1 where "wr h (fst w) (snd w) = Ret (r, h1)" "write_all h1 ws = Ret h'"
    by (auto simp: obind_eq_Ret)
  then show ?case using Cons.IH bound_stable by metis
qed simp

lemma write_all_unbound:
  "\<forall>w \<in> set ws. \<not> bound h (fst w) \<Longrightarrow> write_all h ws = Ret h"
proof (induction ws)
  case (Cons w ws)
  then obtain r where "wr h (fst w) (snd w) = Ret (r, h)"
    using unbound_write [of h "fst w" "snd w"] by auto
  with Cons show ?case by simp
qed simp

lemma accepted_bound: "wr h s v = Ret (Inr True, h') \<Longrightarrow> bound h s"
  using unbound_write [of h s v] by auto

lemma read_bound: "rd h s = Ret (Inr (Some v)) \<Longrightarrow> bound h s"
  using unbound_read by fastforce

end

section \<open>The adapter over files\<close>

record io_binding =
  bind_path :: string
  bind_encoding :: io_encoding

record file_hal =
  fh_bindings :: "(string, io_binding) bmap"

definition file_hal_new :: file_hal where
  "file_hal_new = \<lparr> fh_bindings = [] \<rparr>"

definition file_bind_location :: "file_hal \<Rightarrow> string \<Rightarrow> string \<Rightarrow> io_encoding \<Rightarrow> file_hal" where
  "file_bind_location h location path encoding =
     h\<lparr>fh_bindings := bt_insert (canonical_key location)
         \<lparr>bind_path = path, bind_encoding = encoding\<rparr> (fh_bindings h)\<rparr>"

definition file_bind_name :: "file_hal \<Rightarrow> string \<Rightarrow> string \<Rightarrow> io_encoding \<Rightarrow> file_hal" where
  "file_bind_name h name path encoding =
     h\<lparr>fh_bindings := bt_insert (canonical_key name)
         \<lparr>bind_path = path, bind_encoding = encoding\<rparr> (fh_bindings h)\<rparr>"

definition binding_for :: "file_hal \<Rightarrow> io_symbol \<Rightarrow> io_binding option" where
  "binding_for h sy = lookup_symbol (fh_bindings h) sy"

definition file_read :: "file_hal \<Rightarrow> fs \<Rightarrow> io_symbol \<Rightarrow> val option io_result" where
  "file_read h f sy =
     (case binding_for h sy of
        None \<Rightarrow> Inr None
      | Some b \<Rightarrow>
          (case fs_read_to_string f (bind_path b) of
             Inl e \<Rightarrow> Inl e
           | Inr raw \<Rightarrow> Inr (Some (decode_value (bind_encoding b) (trim_end_newlines raw)))))"

definition file_write :: "file_hal \<Rightarrow> fs \<Rightarrow> io_symbol \<Rightarrow> val \<Rightarrow> bool io_result \<times> fs" where
  "file_write h f sy v =
     (case binding_for h sy of
        None \<Rightarrow> (Inr False, f)
      | Some b \<Rightarrow>
          (case (case path_parent (bind_path b) of
                   Some parent \<Rightarrow> fs_create_dir_all f parent
                 | None \<Rightarrow> (Inr (), f)) of
             (Inl e, f1) \<Rightarrow> (Inl e, f1)
           | (Inr _, f1) \<Rightarrow>
               (case fs_write f1 (bind_path b) (encode_value (bind_encoding b) v) of
                  (Inl e, f2) \<Rightarrow> (Inl e, f2)
                | (Inr _, f2) \<Rightarrow> (Inr True, f2))))"

text \<open>As a \<open>TargetHal\<close>: the state is the adapter with the file system it works on.\<close>

definition file_read_symbol :: "file_hal \<times> fs \<Rightarrow> io_symbol \<Rightarrow> val option io_result outcome" where
  "file_read_symbol h sy = Ret (file_read (fst h) (snd h) sy)"

definition file_write_symbol ::
    "file_hal \<times> fs \<Rightarrow> io_symbol \<Rightarrow> val \<Rightarrow> (bool io_result \<times> (file_hal \<times> fs)) outcome" where
  "file_write_symbol h sy v =
     (case file_write (fst h) (snd h) sy v of (r, f') \<Rightarrow> Ret (r, (fst h, f')))"

definition file_bound :: "file_hal \<times> fs \<Rightarrow> io_symbol \<Rightarrow> bool" where
  "file_bound h sy \<longleftrightarrow> binding_for (fst h) sy \<noteq> None"

lemma file_write_refused: "file_write h f sy v = (Inr False, f') \<Longrightarrow> f' = f"
  by (auto simp: file_write_def split: option.splits sum.splits prod.splits)

interpretation fhal: target_hal file_read_symbol file_write_symbol file_bound
proof
  fix h :: "file_hal \<times> fs" and s v h' r t
  show "\<not> file_bound h s \<Longrightarrow> file_read_symbol h s = Ret (Inr None)"
    by (simp add: file_bound_def file_read_symbol_def file_read_def)
  show "\<not> file_bound h s \<Longrightarrow> \<exists>r. file_write_symbol h s v = Ret (r, h) \<and> r \<noteq> Inr True"
    by (simp add: file_bound_def file_write_symbol_def file_write_def)
  show "file_write_symbol h s v = Ret (Inr False, h') \<Longrightarrow> h' = h"
    by (auto simp: file_write_symbol_def dest: file_write_refused split: prod.splits)
  show "file_write_symbol h s v = Ret (r, h') \<Longrightarrow> file_bound h' t = file_bound h t"
    by (auto simp: file_write_symbol_def file_bound_def split: prod.splits)
qed

section \<open>The mapping of the files\<close>

definition parse_mapping_line :: "string \<Rightarrow> string \<Rightarrow> (string \<times> io_binding) option" where
  "parse_mapping_line base line =
     (case map trim (split_at (CHR '','') line) of
        key # fname # rest \<Rightarrow>
          let e = to_ascii_lowercase (case rest of [] \<Rightarrow> ''decimal'' | x # _ \<Rightarrow> x);
              encoding =
                (if e \<in> {''bool'', ''bool01'', ''bit''} then Bool01
                 else if e \<in> {''text'', ''string''} then Text
                 else Decimal)
          in Some (canonical_key key, \<lparr>bind_path = path_join base fname, bind_encoding = encoding\<rparr>)
      | _ \<Rightarrow> None)"

definition load_mapping :: "string \<Rightarrow> string \<Rightarrow> file_hal" where
  "load_mapping base text =
     \<lparr> fh_bindings = bt_collect (List.map_filter (parse_mapping_line base) (mapping_lines text)) \<rparr>"

section \<open>Reading back what was written\<close>

lemma fs_write_Inr:
  assumes "fs_write f p s = (Inr (), f')"
  shows "f' = f\<lparr>fs_files := bt_insert p s (fs_files f)\<rparr>" and "fs_fault f p = None"
    and "p \<notin> set (fs_dirs f)"
  using assms unfolding fs_write_def by (simp_all split: option.splits if_splits)

lemma fs_read_write:
  assumes "fs_write f p s = (Inr (), f')"
  shows "fs_read_to_string f' q = (if q = p then Inr s else fs_read_to_string f q)"
    and "fs_dirs f' = fs_dirs f" and "fs_fault f' = fs_fault f"
  using fs_write_Inr [OF assms] by (simp_all add: fs_read_to_string_def split: option.split)

lemma fs_read_create_dir:
  assumes "fs_create_dir_all f d = (Inr (), f')" and "fs_read_to_string f q = Inr s"
  shows "fs_read_to_string f' q = Inr s"
  using assms
  by (auto simp: fs_create_dir_all_def fs_read_to_string_def split: option.splits if_splits)

lemma file_read_after_write:
  assumes "file_write h f sy v = (Inr True, f')" and "value_ok v"
    and b: "binding_for h sy = Some b"
  shows "file_read h f' sy = Inr (Some (process_image (bind_encoding b) v))"
proof -
  define mk where "mk = (case path_parent (bind_path b) of
      Some parent \<Rightarrow> fs_create_dir_all f parent | None \<Rightarrow> (Inr (), f))"
  obtain f1 where "fs_write f1 (bind_path b) (encode_value (bind_encoding b) v) = (Inr (), f')"
    using assms(1) by (auto simp: file_write_def b simp flip: mk_def split: sum.splits prod.splits)
  then have "fs_read_to_string f' (bind_path b) = Inr (encode_value (bind_encoding b) v)"
    by (simp add: fs_read_write)
  with assms(2) show ?thesis
    by (simp add: file_read_def b process_codec)
qed

text \<open>Symbols for the examples of the adapters.\<close>

definition demo_symbol :: "string \<Rightarrow> string \<Rightarrow> io_direction \<Rightarrow> io_symbol" where
  "demo_symbol name location dir =
     \<lparr> sym_name = name, sym_location = location, sym_direction = dir, sym_type_name = ''INT'' \<rparr>"

end
