(* ===== verification/TargetModbus.thy ===== *)
theory TargetModbus
  imports TargetHal
begin

text \<open>
  The Modbus adapters of \<open>rbcpp_target/src/lib.rs\<close>: points and their text form, the
  in-memory image, the adapter over the image (\<open>ModbusHal\<close>), the transport interface
  and the adapter over a transport (\<open>ModbusTransportHal\<close>). A unit id is an \<open>8 word\<close>, an
  address and a register a \<open>16 word\<close>. The contract of a transport is the locale
  \<open>modbus_transport\<close>; the image meets it, and over the image the two adapters agree.
\<close>

section \<open>Points\<close>

datatype modbus_area = Coil | DiscreteInput | HoldingRegister | InputRegister

datatype modbus_point =
  ModbusPoint (mp_unit_id: "8 word") (mp_area: modbus_area) (mp_address: "16 word")

primrec modbus_area_rank :: "modbus_area \<Rightarrow> nat" where
  "modbus_area_rank Coil = 0"
| "modbus_area_rank DiscreteInput = 1"
| "modbus_area_rank HoldingRegister = 2"
| "modbus_area_rank InputRegister = 3"

text \<open>\<open>derive(Ord)\<close>: the declaration order of the areas, the points field by field.\<close>

instantiation modbus_area :: linorder
begin

definition less_eq_modbus_area :: "modbus_area \<Rightarrow> modbus_area \<Rightarrow> bool" where
  "less_eq_modbus_area a b \<longleftrightarrow> modbus_area_rank a \<le> modbus_area_rank b"

definition less_modbus_area :: "modbus_area \<Rightarrow> modbus_area \<Rightarrow> bool" where
  "less_modbus_area a b \<longleftrightarrow> modbus_area_rank a < modbus_area_rank b"

instance
proof
  fix a b c :: modbus_area
  show "a \<le> b \<Longrightarrow> b \<le> a \<Longrightarrow> a = b"
    by (cases a; cases b) (simp_all add: less_eq_modbus_area_def)
qed (auto simp: less_eq_modbus_area_def less_modbus_area_def)

end

instantiation modbus_point :: linorder
begin

definition less_eq_modbus_point :: "modbus_point \<Rightarrow> modbus_point \<Rightarrow> bool" where
  "less_eq_modbus_point p q \<longleftrightarrow>
     mp_unit_id p < mp_unit_id q \<or>
     mp_unit_id p = mp_unit_id q \<and>
       (mp_area p < mp_area q \<or> mp_area p = mp_area q \<and> mp_address p \<le> mp_address q)"

definition less_modbus_point :: "modbus_point \<Rightarrow> modbus_point \<Rightarrow> bool" where
  "less_modbus_point p q \<longleftrightarrow>
     mp_unit_id p < mp_unit_id q \<or>
     mp_unit_id p = mp_unit_id q \<and>
       (mp_area p < mp_area q \<or> mp_area p = mp_area q \<and> mp_address p < mp_address q)"

instance
  by standard
    (auto simp: less_eq_modbus_point_def less_modbus_point_def modbus_point.expand)

end

definition modbus_area_parse :: "string \<Rightarrow> modbus_area option" where
  "modbus_area_parse input = (let s = to_ascii_lowercase input in
      if s \<in> {''coil'', ''coils'', ''0x'', ''0''} then Some Coil
      else if s \<in> {''discrete'', ''discrete_input'', ''discrete-input'', ''1x'', ''1''}
        then Some DiscreteInput
      else if s \<in> {''holding'', ''holding_register'', ''holding-register'', ''4x'', ''4''}
        then Some HoldingRegister
      else if s \<in> {''input'', ''input_register'', ''input-register'', ''3x'', ''3''}
        then Some InputRegister
      else None)"

definition modbus_area_writable :: "modbus_area \<Rightarrow> bool" where
  "modbus_area_writable a \<longleftrightarrow> a = Coil \<or> a = HoldingRegister"

definition modbus_point_parse :: "string \<Rightarrow> modbus_point option" where
  "modbus_point_parse input =
     (case map trim (split_at (CHR '':'') input) of
        u # a # r # rest \<Rightarrow>
          Option.bind (parse_u8_dec u) (\<lambda>unit_id.
          Option.bind (modbus_area_parse a) (\<lambda>area.
          Option.bind (parse_u16_dec r) (\<lambda>address.
            if rest = [] then Some (ModbusPoint (of_nat unit_id) area (of_nat address)) else None)))
      | _ \<Rightarrow> None)"

section \<open>The image\<close>

record modbus_image =
  mi_bits :: "(modbus_point, bool) bmap"
  mi_registers :: "(modbus_point, 16 word) bmap"

definition modbus_image_default :: modbus_image where
  "modbus_image_default = \<lparr> mi_bits = [], mi_registers = [] \<rparr>"

definition modbus_set_bit :: "modbus_image \<Rightarrow> modbus_point \<Rightarrow> bool \<Rightarrow> modbus_image" where
  "modbus_set_bit img p b = img\<lparr>mi_bits := bt_insert p b (mi_bits img)\<rparr>"

definition modbus_set_register :: "modbus_image \<Rightarrow> modbus_point \<Rightarrow> 16 word \<Rightarrow> modbus_image" where
  "modbus_set_register img p w = img\<lparr>mi_registers := bt_insert p w (mi_registers img)\<rparr>"

definition modbus_image_read :: "modbus_image \<Rightarrow> modbus_point \<Rightarrow> val" where
  "modbus_image_read img p =
     (if mp_area p = Coil \<or> mp_area p = DiscreteInput
      then VBool (case bt_get (mi_bits img) p of Some b \<Rightarrow> b | None \<Rightarrow> False)
      else VInt (uint (case bt_get (mi_registers img) p of Some w \<Rightarrow> w | None \<Rightarrow> 0)))"

text \<open>\<open>value.as_bool().unwrap_or(false)\<close>, \<open>value.as_i64().unwrap_or(0)\<close> and its clamp to
  a register.\<close>

definition value_bit :: "val \<Rightarrow> bool" where
  "value_bit v = (case as_bool v of Some b \<Rightarrow> b | None \<Rightarrow> False)"

definition value_int :: "val \<Rightarrow> int" where
  "value_int v = (case as_i64 v of Some n \<Rightarrow> n | None \<Rightarrow> 0)"

definition value_register :: "val \<Rightarrow> 16 word" where
  "value_register v = word_of_int (clamp 0 65535 (value_int v))"

definition modbus_image_write ::
    "modbus_image \<Rightarrow> modbus_point \<Rightarrow> val \<Rightarrow> bool \<times> modbus_image" where
  "modbus_image_write img p v =
     (if \<not> modbus_area_writable (mp_area p) then (False, img)
      else (case mp_area p of
          Coil \<Rightarrow> (True, img\<lparr>mi_bits := bt_insert p (value_bit v) (mi_bits img)\<rparr>)
        | HoldingRegister \<Rightarrow>
            (True, img\<lparr>mi_registers := bt_insert p (value_register v) (mi_registers img)\<rparr>)
        | _ \<Rightarrow> (False, img)))"

section \<open>The adapter over the image\<close>

record modbus_hal =
  mh_bindings :: "(string, modbus_point) bmap"
  mh_image :: modbus_image

definition modbus_hal_new :: modbus_hal where
  "modbus_hal_new = \<lparr> mh_bindings = [], mh_image = modbus_image_default \<rparr>"

definition modbus_bind_location :: "modbus_hal \<Rightarrow> string \<Rightarrow> modbus_point \<Rightarrow> modbus_hal" where
  "modbus_bind_location h location p =
     h\<lparr>mh_bindings := bt_insert (canonical_key location) p (mh_bindings h)\<rparr>"

definition modbus_bind_name :: "modbus_hal \<Rightarrow> string \<Rightarrow> modbus_point \<Rightarrow> modbus_hal" where
  "modbus_bind_name h name p =
     h\<lparr>mh_bindings := bt_insert (canonical_key name) p (mh_bindings h)\<rparr>"

definition modbus_point_for :: "modbus_hal \<Rightarrow> io_symbol \<Rightarrow> modbus_point option" where
  "modbus_point_for h sy = lookup_symbol (mh_bindings h) sy"

definition modbus_read :: "modbus_hal \<Rightarrow> io_symbol \<Rightarrow> val option" where
  "modbus_read h sy = map_option (modbus_image_read (mh_image h)) (modbus_point_for h sy)"

definition modbus_write :: "modbus_hal \<Rightarrow> io_symbol \<Rightarrow> val \<Rightarrow> bool \<times> modbus_hal" where
  "modbus_write h sy v =
     (case modbus_point_for h sy of
        None \<Rightarrow> (False, h)
      | Some p \<Rightarrow>
          (case modbus_image_write (mh_image h) p v of (ok, img) \<Rightarrow> (ok, h\<lparr>mh_image := img\<rparr>)))"

definition modbus_read_symbol :: "modbus_hal \<Rightarrow> io_symbol \<Rightarrow> val option io_result outcome" where
  "modbus_read_symbol h sy = Ret (Inr (modbus_read h sy))"

definition modbus_write_symbol ::
    "modbus_hal \<Rightarrow> io_symbol \<Rightarrow> val \<Rightarrow> (bool io_result \<times> modbus_hal) outcome" where
  "modbus_write_symbol h sy v = (case modbus_write h sy v of (ok, h') \<Rightarrow> Ret (Inr ok, h'))"

definition modbus_bound :: "modbus_hal \<Rightarrow> io_symbol \<Rightarrow> bool" where
  "modbus_bound h sy \<longleftrightarrow> modbus_point_for h sy \<noteq> None"

definition load_modbus_mapping :: "string \<Rightarrow> modbus_hal" where
  "load_modbus_mapping text =
     \<lparr> mh_bindings = load_bindings modbus_point_parse text, mh_image = modbus_image_default \<rparr>"

lemma modbus_image_write_refused: "modbus_image_write img p v = (False, img') \<Longrightarrow> img' = img"
  by (auto simp: modbus_image_write_def split: if_splits modbus_area.splits)

lemma modbus_image_write_accepts:
  "fst (modbus_image_write img p v) = modbus_area_writable (mp_area p)"
  by (cases "mp_area p") (simp_all add: modbus_image_write_def modbus_area_writable_def)

interpretation mhal: target_hal modbus_read_symbol modbus_write_symbol modbus_bound
proof
  fix h :: modbus_hal and s v h' r t
  show "\<not> modbus_bound h s \<Longrightarrow> modbus_read_symbol h s = Ret (Inr None)"
    by (simp add: modbus_bound_def modbus_read_symbol_def modbus_read_def)
  show "\<not> modbus_bound h s \<Longrightarrow> \<exists>r. modbus_write_symbol h s v = Ret (r, h) \<and> r \<noteq> Inr True"
    by (simp add: modbus_bound_def modbus_write_symbol_def modbus_write_def)
  show "modbus_write_symbol h s v = Ret (Inr False, h') \<Longrightarrow> h' = h"
    by (auto simp: modbus_write_symbol_def modbus_write_def dest: modbus_image_write_refused
        split: prod.splits option.splits)
  show "modbus_write_symbol h s v = Ret (r, h') \<Longrightarrow> modbus_bound h' t = modbus_bound h t"
    by (auto simp: modbus_write_symbol_def modbus_write_def modbus_bound_def modbus_point_for_def
        split: prod.splits option.splits)
qed

section \<open>Transports\<close>

record 't modbus_ops =
  op_read_coil :: "'t \<Rightarrow> 8 word \<Rightarrow> 16 word \<Rightarrow> bool io_result"
  op_read_discrete_input :: "'t \<Rightarrow> 8 word \<Rightarrow> 16 word \<Rightarrow> bool io_result"
  op_read_holding_register :: "'t \<Rightarrow> 8 word \<Rightarrow> 16 word \<Rightarrow> 16 word io_result"
  op_read_input_register :: "'t \<Rightarrow> 8 word \<Rightarrow> 16 word \<Rightarrow> 16 word io_result"
  op_write_coil :: "'t \<Rightarrow> 8 word \<Rightarrow> 16 word \<Rightarrow> bool \<Rightarrow> bool io_result \<times> 't"
  op_write_holding_register :: "'t \<Rightarrow> 8 word \<Rightarrow> 16 word \<Rightarrow> 16 word \<Rightarrow> bool io_result \<times> 't"

text \<open>\<open>impl ModbusTransport for ModbusImage\<close>.\<close>

definition image_read_bit :: "modbus_area \<Rightarrow> modbus_image \<Rightarrow> 8 word \<Rightarrow> 16 word \<Rightarrow> bool io_result" where
  "image_read_bit area img u a = Inr (value_bit (modbus_image_read img (ModbusPoint u area a)))"

definition image_read_word ::
    "modbus_area \<Rightarrow> modbus_image \<Rightarrow> 8 word \<Rightarrow> 16 word \<Rightarrow> 16 word io_result" where
  "image_read_word area img u a =
     Inr (value_register (modbus_image_read img (ModbusPoint u area a)))"

definition image_write_coil ::
    "modbus_image \<Rightarrow> 8 word \<Rightarrow> 16 word \<Rightarrow> bool \<Rightarrow> bool io_result \<times> modbus_image" where
  "image_write_coil img u a b =
     (case modbus_image_write img (ModbusPoint u Coil a) (VBool b) of (ok, img') \<Rightarrow> (Inr ok, img'))"

definition image_write_holding_register ::
    "modbus_image \<Rightarrow> 8 word \<Rightarrow> 16 word \<Rightarrow> 16 word \<Rightarrow> bool io_result \<times> modbus_image" where
  "image_write_holding_register img u a w =
     (case modbus_image_write img (ModbusPoint u HoldingRegister a) (VInt (uint w)) of
        (ok, img') \<Rightarrow> (Inr ok, img'))"

definition modbus_image_ops :: "modbus_image modbus_ops" where
  "modbus_image_ops =
     \<lparr> op_read_coil = image_read_bit Coil,
       op_read_discrete_input = image_read_bit DiscreteInput,
       op_read_holding_register = image_read_word HoldingRegister,
       op_read_input_register = image_read_word InputRegister,
       op_write_coil = image_write_coil,
       op_write_holding_register = image_write_holding_register \<rparr>"

record 't modbus_transport_hal =
  mth_bindings :: "(string, modbus_point) bmap"
  mth_transport :: 't

definition modbus_transport_hal_new :: "'t \<Rightarrow> 't modbus_transport_hal" where
  "modbus_transport_hal_new t = \<lparr> mth_bindings = [], mth_transport = t \<rparr>"

definition mth_bind_location ::
    "'t modbus_transport_hal \<Rightarrow> string \<Rightarrow> modbus_point \<Rightarrow> 't modbus_transport_hal" where
  "mth_bind_location h location p =
     h\<lparr>mth_bindings := bt_insert (canonical_key location) p (mth_bindings h)\<rparr>"

definition mth_bind_name ::
    "'t modbus_transport_hal \<Rightarrow> string \<Rightarrow> modbus_point \<Rightarrow> 't modbus_transport_hal" where
  "mth_bind_name h name p =
     h\<lparr>mth_bindings := bt_insert (canonical_key name) p (mth_bindings h)\<rparr>"

definition mth_point_for :: "'t modbus_transport_hal \<Rightarrow> io_symbol \<Rightarrow> modbus_point option" where
  "mth_point_for h sy = lookup_symbol (mth_bindings h) sy"

definition mth_read_symbol ::
    "'t modbus_ops \<Rightarrow> 't modbus_transport_hal \<Rightarrow> io_symbol \<Rightarrow> val option io_result outcome" where
  "mth_read_symbol ops h sy =
     Ret (case mth_point_for h sy of
        None \<Rightarrow> Inr None
      | Some p \<Rightarrow>
          (let t = mth_transport h; u = mp_unit_id p; a = mp_address p
           in case mp_area p of
                Coil \<Rightarrow> map_sum id (\<lambda>b. Some (VBool b)) (op_read_coil ops t u a)
              | DiscreteInput \<Rightarrow> map_sum id (\<lambda>b. Some (VBool b)) (op_read_discrete_input ops t u a)
              | HoldingRegister \<Rightarrow>
                  map_sum id (\<lambda>w. Some (VInt (uint w))) (op_read_holding_register ops t u a)
              | InputRegister \<Rightarrow>
                  map_sum id (\<lambda>w. Some (VInt (uint w))) (op_read_input_register ops t u a)))"

definition mth_write_symbol ::
    "'t modbus_ops \<Rightarrow> 't modbus_transport_hal \<Rightarrow> io_symbol \<Rightarrow> val
      \<Rightarrow> (bool io_result \<times> 't modbus_transport_hal) outcome" where
  "mth_write_symbol ops h sy v =
     Ret (case mth_point_for h sy of
        None \<Rightarrow> (Inr False, h)
      | Some p \<Rightarrow>
          (let t = mth_transport h; u = mp_unit_id p; a = mp_address p
           in case mp_area p of
                Coil \<Rightarrow> (case op_write_coil ops t u a (value_bit v) of
                    (r, t') \<Rightarrow> (r, h\<lparr>mth_transport := t'\<rparr>))
              | HoldingRegister \<Rightarrow>
                  (case op_write_holding_register ops t u a (value_register v) of
                    (r, t') \<Rightarrow> (r, h\<lparr>mth_transport := t'\<rparr>))
              | _ \<Rightarrow> (Inr False, h)))"

definition mth_bound :: "'t modbus_transport_hal \<Rightarrow> io_symbol \<Rightarrow> bool" where
  "mth_bound h sy \<longleftrightarrow> mth_point_for h sy \<noteq> None"

definition load_modbus_transport_mapping :: "'t \<Rightarrow> string \<Rightarrow> 't modbus_transport_hal" where
  "load_modbus_transport_mapping t text =
     \<lparr> mth_bindings = load_bindings modbus_point_parse text, mth_transport = t \<rparr>"

section \<open>The contract of a transport\<close>

locale modbus_transport =
  fixes ops :: "'t modbus_ops"
  assumes coil_refused: "op_write_coil ops t u a b = (Inr False, t') \<Longrightarrow> t' = t"
    and register_refused: "op_write_holding_register ops t u a w = (Inr False, t') \<Longrightarrow> t' = t"
    and coil_read_back: "op_write_coil ops t u a b = (Inr True, t') \<Longrightarrow> op_read_coil ops t' u a = Inr b"
    and register_read_back:
      "op_write_holding_register ops t u a w = (Inr True, t') \<Longrightarrow>
       op_read_holding_register ops t' u a = Inr w"
begin

lemma mth_read_back:
  assumes "mth_write_symbol ops h sy v = Ret (Inr True, h')"
  shows "mth_read_symbol ops h' sy =
    Ret (Inr (Some (if mp_area (the (mth_point_for h sy)) = Coil then VBool (value_bit v)
                    else VInt (uint (value_register v)))))"
proof -
  obtain p where p: "mth_point_for h sy = Some p"
    using assms by (auto simp: mth_write_symbol_def split: option.splits)
  have p': "mth_point_for (h\<lparr>mth_transport := t\<rparr>) sy = Some p" for t
    using p by (simp add: mth_point_for_def)
  show ?thesis
    using assms by (cases "mp_area p")
      (auto simp: mth_write_symbol_def mth_read_symbol_def p p' Let_def coil_read_back
        register_read_back split: prod.splits)
qed

end

sublocale modbus_transport \<subseteq> hal: target_hal "mth_read_symbol ops" "mth_write_symbol ops" mth_bound
proof
  fix h :: "'t modbus_transport_hal" and s v h' r t
  show "\<not> mth_bound h s \<Longrightarrow> mth_read_symbol ops h s = Ret (Inr None)"
    by (simp add: mth_bound_def mth_read_symbol_def)
  show "\<not> mth_bound h s \<Longrightarrow> \<exists>r. mth_write_symbol ops h s v = Ret (r, h) \<and> r \<noteq> Inr True"
    by (simp add: mth_bound_def mth_write_symbol_def)
  show "mth_write_symbol ops h s v = Ret (Inr False, h') \<Longrightarrow> h' = h"
    by (auto simp: mth_write_symbol_def Let_def dest: coil_refused register_refused
        split: option.splits modbus_area.splits prod.splits)
  show "mth_write_symbol ops h s v = Ret (r, h') \<Longrightarrow> mth_bound h' t = mth_bound h t"
    by (auto simp: mth_write_symbol_def mth_bound_def mth_point_for_def Let_def
        split: option.splits modbus_area.splits prod.splits)
qed

section \<open>The image is a transport\<close>

lemma value_bit_VBool [simp]: "value_bit (VBool b) = b"
  by (simp add: value_bit_def as_bool_def)

lemma value_int_VInt [simp]: "value_int (VInt n) = n"
  by (simp add: value_int_def as_i64_def)

lemma value_register_uint [simp]: "value_register (VInt (uint w)) = w"
proof -
  have "0 \<le> uint w \<and> uint w \<le> 65535"
    using uint_lt2p [of w] by simp
  then show ?thesis by (simp add: value_register_def)
qed

lemma uint_value_register: "uint (value_register v) = clamp 0 65535 (value_int v)"
proof -
  have "0 \<le> clamp 0 65535 (value_int v) \<and> clamp 0 65535 (value_int v) \<le> 65535"
    by (rule clamp_bounds) simp
  then show ?thesis
    unfolding value_register_def by (subst uint_word_of_int_eq) (simp add: take_bit_int_eq_self)
qed

lemma image_read_after_write:
  assumes "modbus_image_write img p v = (True, img')"
  shows "modbus_image_read img' q =
    (if q = p then
       (if mp_area p = Coil then VBool (value_bit v) else VInt (uint (value_register v)))
     else modbus_image_read img q)"
  using assms
  by (cases "mp_area p") (auto simp: modbus_image_write_def modbus_image_read_def modbus_area_writable_def)

interpretation image_transport: modbus_transport modbus_image_ops
  by unfold_locales
    (auto simp: modbus_image_ops_def image_write_coil_def image_write_holding_register_def
      image_read_bit_def image_read_word_def image_read_after_write
      dest: modbus_image_write_refused split: prod.splits)

section \<open>Properties\<close>

lemma modbus_point_for_write:
  "modbus_write h sy v = (ok, h') \<Longrightarrow> modbus_point_for h' t = modbus_point_for h t"
  by (auto simp: modbus_write_def modbus_point_for_def split: option.splits prod.splits)

text \<open>C14: A write through \<open>ModbusHal\<close> is accepted exactly when the symbol's point is a coil or
  a holding register. After it, every symbol bound to that point reads the written value (a
  coil its truth value, a register the integer clamped to \<open>0..65535\<close>), every other symbol
  reads what it read before, and a refused write changes no reading at all.\<close>

theorem modbus_write_then_read:
  assumes "modbus_point_for h sy = Some p" and "modbus_write h sy v = (ok, h')"
  shows "ok = modbus_area_writable (mp_area p) \<and>
    modbus_read h' t =
      (if ok \<and> modbus_point_for h t = Some p
       then Some (if mp_area p = Coil then VBool (value_bit v)
                  else VInt (clamp 0 65535 (value_int v)))
       else modbus_read h t)"
proof -
  obtain img' where w: "modbus_image_write (mh_image h) p v = (ok, img')"
    and h': "h' = h\<lparr>mh_image := img'\<rparr>"
    using assms by (auto simp: modbus_write_def split: prod.splits)
  have ok: "ok = modbus_area_writable (mp_area p)"
    using modbus_image_write_accepts [of "mh_image h" p v] by (simp add: w)
  have im: "mh_image h' = img'" by (simp add: h')
  have pf: "modbus_point_for h' t = modbus_point_for h t"
    by (rule modbus_point_for_write [OF assms(2)])
  have "modbus_read h' t =
      (if ok \<and> modbus_point_for h t = Some p
       then Some (if mp_area p = Coil then VBool (value_bit v)
                  else VInt (clamp 0 65535 (value_int v)))
       else modbus_read h t)"
  proof (cases ok)
    case True
    with w have "modbus_image_read img' q = (if q = p then
         (if mp_area p = Coil then VBool (value_bit v) else VInt (uint (value_register v)))
       else modbus_image_read (mh_image h) q)" for q
      by (intro image_read_after_write) simp
    with True show ?thesis
      by (cases "modbus_point_for h t")
        (simp_all add: modbus_read_def pf im uint_value_register)
  next
    case False
    with w have "img' = mh_image h" by (auto dest: modbus_image_write_refused)
    with False show ?thesis by (simp add: h')
  qed
  with ok show ?thesis by blast
qed

definition demo_modbus :: modbus_hal where
  "demo_modbus = modbus_bind_name (modbus_bind_location modbus_hal_new ''%QW1''
      (ModbusPoint 1 HoldingRegister 7)) ''lamp'' (ModbusPoint 1 Coil 0)"

theorem modbus_write_then_read_witness:
  "let sy = demo_symbol ''x'' ''%QW1'' DirOutput; h' = snd (modbus_write demo_modbus sy (VInt 70000))
   in modbus_read h' sy = Some (VInt 65535)
     \<and> modbus_read h' (demo_symbol ''lamp'' '''' DirOutput) = Some (VBool False)"
proof -
  let ?sy = "demo_symbol ''x'' ''%QW1'' DirOutput"
  let ?l = "demo_symbol ''lamp'' '''' DirOutput"
  have p: "modbus_point_for demo_modbus ?sy = Some (ModbusPoint 1 HoldingRegister 7)" by code_simp
  have w: "modbus_write demo_modbus ?sy (VInt 70000)
      = (True, snd (modbus_write demo_modbus ?sy (VInt 70000)))" by code_simp
  have l: "modbus_point_for demo_modbus ?l \<noteq> Some (ModbusPoint 1 HoldingRegister 7)"
    "modbus_read demo_modbus ?l = Some (VBool False)" by code_simp+
  show ?thesis
    using modbus_write_then_read [OF p w, of ?sy] modbus_write_then_read [OF p w, of ?l] p l
    by (simp add: clamp_def)
qed

text \<open>The adapter over a transport, with the image as its transport, seen as the adapter
  over the image.\<close>

definition image_hal_of :: "modbus_image modbus_transport_hal \<Rightarrow> modbus_hal" where
  "image_hal_of h = \<lparr> mh_bindings = mth_bindings h, mh_image = mth_transport h \<rparr>"

lemma mh_image_hal [simp]: "mh_image (image_hal_of h) = mth_transport h"
  by (simp add: image_hal_of_def)

lemma point_for_image_hal [simp]: "modbus_point_for (image_hal_of h) sy = mth_point_for h sy"
  by (simp add: modbus_point_for_def mth_point_for_def image_hal_of_def)

text \<open>C15: Over the in-memory image, \<open>ModbusTransportHal\<close> and \<open>ModbusHal\<close> are the same
  adapter: with the same bindings and image every symbol reads the same value, and every
  write gives the same answer and leaves the same bindings and the same image.\<close>

theorem modbus_transport_is_image_hal:
  "mth_read_symbol modbus_image_ops h sy = modbus_read_symbol (image_hal_of h) sy \<and>
   omap (map_prod id image_hal_of) (mth_write_symbol modbus_image_ops h sy v) =
     modbus_write_symbol (image_hal_of h) sy v"
proof
  show "mth_read_symbol modbus_image_ops h sy = modbus_read_symbol (image_hal_of h) sy"
  proof (cases "mth_point_for h sy")
    case None
    then show ?thesis
      by (simp add: mth_read_symbol_def modbus_read_symbol_def modbus_read_def)
  next
    case (Some p)
    then show ?thesis
      by (cases p; cases "mp_area p")
        (auto simp: mth_read_symbol_def modbus_read_symbol_def modbus_read_def modbus_image_ops_def image_read_bit_def image_read_word_def modbus_image_read_def)
  qed
  show "omap (map_prod id image_hal_of) (mth_write_symbol modbus_image_ops h sy v) =
      modbus_write_symbol (image_hal_of h) sy v"
  proof (cases "mth_point_for h sy")
    case None
    then show ?thesis
      by (simp add: mth_write_symbol_def modbus_write_symbol_def modbus_write_def)
  next
    case (Some p)
    have reg: "value_register (VInt (uint (value_register v))) = value_register v" by simp
    show ?thesis
      using Some by (cases p; cases "mp_area p")
        (auto simp: mth_write_symbol_def modbus_write_symbol_def modbus_write_def image_hal_of_def
          modbus_image_ops_def image_write_coil_def image_write_holding_register_def
          modbus_image_write_def modbus_area_writable_def reg mth_point_for_def
          modbus_point_for_def Let_def)
  qed
qed

text \<open>C16: The text \<open>unit:area:address\<close> of a point, with any accepted spelling of the area, is
  parsed to that point.\<close>

theorem modbus_point_parse_text:
  assumes "modbus_area_parse name = Some area" and "trim name = name" and "CHR '':'' \<notin> set name"
  shows "modbus_point_parse
      (show_nat (unat u) @ CHR '':'' # name @ CHR '':'' # show_nat (unat r)) =
    Some (ModbusPoint u area r)"
proof -
  have nc: "CHR '':'' \<notin> set (show_nat n)" for n
    using show_nat_byte [of "CHR '':''" n] by (auto simp: byte_def)
  have "split_at (CHR '':'') (show_nat (unat u) @ CHR '':'' # name @ CHR '':'' # show_nat (unat r))
      = [show_nat (unat u), name, show_nat (unat r)]"
    using nc assms(3) by (simp add: split_at_append split_at_noop)
  moreover have "unat u \<le> 255" "unat r \<le> 65535"
    using unsigned_less [of u, where ?'a = nat] unsigned_less [of r, where ?'a = nat] by simp_all
  ultimately show ?thesis
    using assms(1,2) by (simp add: modbus_point_parse_def parse_u8_dec_def parse_u16_dec_def)
qed

theorem modbus_point_parse_text_witness:
  "modbus_point_parse (''17:Holding:40'') = Some (ModbusPoint 17 HoldingRegister 40)"
proof -
  have a: "modbus_area_parse ''Holding'' = Some HoldingRegister" "trim ''Holding'' = ''Holding''"
    by code_simp+
  have t: "show_nat (unat (17 :: 8 word)) @ CHR '':'' # ''Holding'' @ CHR '':'' #
      show_nat (unat (40 :: 16 word)) = ''17:Holding:40''"
    by code_simp
  show ?thesis
    using modbus_point_parse_text [OF a, of 17 40] unfolding t by simp
qed

section \<open>Mapping entries of the IDE\<close>

datatype ide_mapping_entry =
    IdeFile string io_binding
  | IdeModbus string modbus_point

definition parse_ide_mapping_line :: "string \<Rightarrow> string \<Rightarrow> ide_mapping_entry option" where
  "parse_ide_mapping_line base raw =
     (let line = trim raw
      in if line = [] \<or> starts_with line ''#'' then None
         else (case strip_prefix ''modbus:'' line of
                 Some payload \<Rightarrow>
                   (case split_once (CHR ''='') payload of
                      None \<Rightarrow> None
                    | Some (sy, target) \<Rightarrow>
                        (case modbus_point_parse (trim target) of
                           None \<Rightarrow> None
                         | Some point \<Rightarrow> Some (IdeModbus (trim sy) point)))
               | None \<Rightarrow>
                   if starts_with line ''ethercat:'' \<or> starts_with line ''ros2:'' then None
                   else map_option (\<lambda>(sy, binding). IdeFile sy binding) (parse_mapping_line base line)))"

definition parse_ide_mapping :: "string \<Rightarrow> string \<Rightarrow> ide_mapping_entry list" where
  "parse_ide_mapping base text = List.map_filter (parse_ide_mapping_line base) (str_lines text)"

end
