(* ===== verification/TargetEtherCat.thy ===== *)
theory TargetEtherCat
  imports TargetModbus
begin

text \<open>
  The EtherCAT adapters of \<open>rbcpp_target/src/lib.rs\<close>: process data points and their text
  form, the little-endian codec of the process image, the image, the adapter over the
  image (\<open>EtherCatHal\<close>), the transport interface and the adapter over a transport.
  The offset computations are unchecked \<open>usize\<close> additions, so these operations can
  panic; \<open>oc\<close> is the build's overflow checks. A process image is a list of \<open>8 word\<close>.
\<close>

section \<open>Points\<close>

datatype ec_area = EcInput | EcOutput

definition ec_area_parse :: "string \<Rightarrow> ec_area option" where
  "ec_area_parse input = (let s = to_ascii_lowercase input in
      if s \<in> {''input'', ''inputs'', ''rx'', ''pdo_in'', ''pdo-in''} then Some EcInput
      else if s \<in> {''output'', ''outputs'', ''tx'', ''pdo_out'', ''pdo-out''} then Some EcOutput
      else None)"

definition ec_area_writable :: "ec_area \<Rightarrow> bool" where
  "ec_area_writable a \<longleftrightarrow> a = EcOutput"

datatype ec_value_type = PdoBool | PdoU8 | PdoI8 | PdoU16 | PdoI16 | PdoU32 | PdoI32 | PdoU64 | PdoI64

definition ec_value_type_parse :: "string \<Rightarrow> ec_value_type option" where
  "ec_value_type_parse input = (let s = to_ascii_lowercase input in
      if s \<in> {''bool'', ''bit''} then Some PdoBool
      else if s \<in> {''u8'', ''byte'', ''usint''} then Some PdoU8
      else if s \<in> {''i8'', ''sint''} then Some PdoI8
      else if s \<in> {''u16'', ''word'', ''uint''} then Some PdoU16
      else if s \<in> {''i16'', ''int''} then Some PdoI16
      else if s \<in> {''u32'', ''dword'', ''udint''} then Some PdoU32
      else if s \<in> {''i32'', ''dint''} then Some PdoI32
      else if s \<in> {''u64'', ''lword'', ''ulint''} then Some PdoU64
      else if s \<in> {''i64'', ''lint''} then Some PdoI64
      else None)"

primrec byte_len :: "ec_value_type \<Rightarrow> nat" where
  "byte_len PdoBool = 1"
| "byte_len PdoU8 = 1"
| "byte_len PdoI8 = 1"
| "byte_len PdoU16 = 2"
| "byte_len PdoI16 = 2"
| "byte_len PdoU32 = 4"
| "byte_len PdoI32 = 4"
| "byte_len PdoU64 = 8"
| "byte_len PdoI64 = 8"

record ec_point =
  ec_slave :: "16 word"
  ec_index :: "16 word"
  ec_subindex :: "8 word"
  ec_area :: ec_area
  ec_byte_offset :: nat
  ec_bit_offset :: nat
  ec_value_type :: ec_value_type

definition ec_point_parse :: "string \<Rightarrow> ec_point option" where
  "ec_point_parse input =
     (case map trim (split_at (CHR '':'') input) of
        s # i # si # a # bb # vt # rest \<Rightarrow>
          Option.bind (parse_u16 s) (\<lambda>slave.
          Option.bind (parse_u16 i) (\<lambda>index.
          Option.bind (parse_u8 si) (\<lambda>subindex.
          Option.bind (ec_area_parse a) (\<lambda>area.
          Option.bind (parse_byte_bit bb) (\<lambda>(byte_offset, bit_offset).
          Option.bind (ec_value_type_parse vt) (\<lambda>value_type.
            if rest = []
            then Some \<lparr> ec_slave = of_nat slave, ec_index = of_nat index,
                        ec_subindex = of_nat subindex, ec_area = area,
                        ec_byte_offset = byte_offset, ec_bit_offset = bit_offset,
                        ec_value_type = value_type \<rparr>
            else None))))))
      | _ \<Rightarrow> None)"

section \<open>The codec of the process image\<close>

unbundle bit_operations_syntax

text \<open>Indexing and slicing panic out of range.\<close>

definition byte_at :: "8 word list \<Rightarrow> nat \<Rightarrow> 8 word outcome" where
  "byte_at bytes i = (if i < length bytes then Ret (bytes ! i) else Panic)"

definition slice :: "bool \<Rightarrow> 8 word list \<Rightarrow> nat \<Rightarrow> nat \<Rightarrow> 8 word list outcome" where
  "slice oc bytes off len =
     obind (usize_arith oc (off + len)) (\<lambda>e.
       if off \<le> e \<and> e \<le> length bytes then Ret (take (e - off) (drop off bytes)) else Panic)"

definition copy_into :: "bool \<Rightarrow> 8 word list \<Rightarrow> nat \<Rightarrow> 8 word list \<Rightarrow> 8 word list outcome" where
  "copy_into oc bytes off src =
     obind (usize_arith oc (off + length src)) (\<lambda>e.
       if off \<le> e \<and> e \<le> length bytes \<and> e - off = length src
       then Ret (take off bytes @ src @ drop e bytes) else Panic)"

fun le_uint :: "8 word list \<Rightarrow> int" where
  "le_uint [] = 0"
| "le_uint (b # bs) = uint b + 256 * le_uint bs"

definition le_sint :: "8 word list \<Rightarrow> int" where
  "le_sint bs = (let n = le_uint bs; m = 256 ^ length bs in if 2 * n < m then n else n - m)"

fun le_bytes :: "nat \<Rightarrow> int \<Rightarrow> 8 word list" where
  "le_bytes 0 n = []"
| "le_bytes (Suc k) n = word_of_int n # le_bytes k (n div 256)"

definition read_bit :: "8 word list \<Rightarrow> nat \<Rightarrow> nat \<Rightarrow> bool option" where
  "read_bit bytes byte_offset bit_offset =
     (if bit_offset < 8 \<and> byte_offset < length bytes
      then Some ((bytes ! byte_offset) AND push_bit bit_offset 1 \<noteq> 0) else None)"

definition write_bit :: "8 word list \<Rightarrow> nat \<Rightarrow> nat \<Rightarrow> bool \<Rightarrow> bool \<times> 8 word list" where
  "write_bit bytes byte_offset bit_offset b =
     (if bit_offset \<ge> 8 \<or> byte_offset \<ge> length bytes then (False, bytes)
      else if b
      then (True, bytes[byte_offset := (bytes ! byte_offset) OR push_bit bit_offset 1])
      else (True, bytes[byte_offset := (bytes ! byte_offset) AND NOT (push_bit bit_offset 1)]))"

definition read_pdo_value :: "bool \<Rightarrow> 8 word list \<Rightarrow> ec_point \<Rightarrow> val option outcome" where
  "read_pdo_value oc bytes p =
     (let off = ec_byte_offset p in
      obind (usize_arith oc (off + byte_len (ec_value_type p))) (\<lambda>e.
        if e > length bytes then Ret None
        else (case ec_value_type p of
            PdoBool \<Rightarrow> Ret (map_option VBool (read_bit bytes off (ec_bit_offset p)))
          | PdoU8 \<Rightarrow> omap (\<lambda>b. Some (VInt (uint b))) (byte_at bytes off)
          | PdoI8 \<Rightarrow> omap (\<lambda>b. Some (VInt (sint b))) (byte_at bytes off)
          | PdoU16 \<Rightarrow> omap (\<lambda>raw. Some (VInt (le_uint raw))) (slice oc bytes off 2)
          | PdoI16 \<Rightarrow> omap (\<lambda>raw. Some (VInt (le_sint raw))) (slice oc bytes off 2)
          | PdoU32 \<Rightarrow> omap (\<lambda>raw. Some (VInt (le_uint raw))) (slice oc bytes off 4)
          | PdoI32 \<Rightarrow> omap (\<lambda>raw. Some (VInt (le_sint raw))) (slice oc bytes off 4)
          | PdoU64 \<Rightarrow> omap (\<lambda>raw. Some (VInt (min (le_uint raw) i64_max))) (slice oc bytes off 8)
          | PdoI64 \<Rightarrow> omap (\<lambda>raw. Some (VInt (le_sint raw))) (slice oc bytes off 8))))"

definition write_byte :: "8 word list \<Rightarrow> nat \<Rightarrow> 8 word \<Rightarrow> (bool \<times> 8 word list) outcome" where
  "write_byte bytes off b = (if off < length bytes then Ret (True, bytes[off := b]) else Panic)"

definition write_int_bytes ::
    "bool \<Rightarrow> 8 word list \<Rightarrow> ec_point \<Rightarrow> val \<Rightarrow> int \<Rightarrow> int \<Rightarrow> nat \<Rightarrow> (bool \<times> 8 word list) outcome" where
  "write_int_bytes oc bytes p v low high len =
     omap (Pair True)
       (copy_into oc bytes (ec_byte_offset p) (take len (le_bytes 8 (clamp low high (value_int v)))))"

definition write_u64_bytes :: "bool \<Rightarrow> 8 word list \<Rightarrow> ec_point \<Rightarrow> val \<Rightarrow> (bool \<times> 8 word list) outcome" where
  "write_u64_bytes oc bytes p v =
     omap (Pair True) (copy_into oc bytes (ec_byte_offset p) (le_bytes 8 (max (value_int v) 0)))"

definition write_i64_bytes :: "bool \<Rightarrow> 8 word list \<Rightarrow> ec_point \<Rightarrow> val \<Rightarrow> (bool \<times> 8 word list) outcome" where
  "write_i64_bytes oc bytes p v =
     omap (Pair True) (copy_into oc bytes (ec_byte_offset p) (le_bytes 8 (value_int v)))"

definition write_pdo_value ::
    "bool \<Rightarrow> 8 word list \<Rightarrow> ec_point \<Rightarrow> val \<Rightarrow> (bool \<times> 8 word list) outcome" where
  "write_pdo_value oc bytes p v =
     (let off = ec_byte_offset p in
      obind (usize_arith oc (off + byte_len (ec_value_type p))) (\<lambda>e.
        if e > length bytes then Ret (False, bytes)
        else (case ec_value_type p of
            PdoBool \<Rightarrow> Ret (write_bit bytes off (ec_bit_offset p) (value_bit v))
          | PdoU8 \<Rightarrow> write_byte bytes off (word_of_int (clamp 0 255 (value_int v)))
          | PdoI8 \<Rightarrow> write_byte bytes off (word_of_int (clamp (- 128) 127 (value_int v)))
          | PdoU16 \<Rightarrow> write_int_bytes oc bytes p v 0 65535 2
          | PdoI16 \<Rightarrow> write_int_bytes oc bytes p v (- 32768) 32767 2
          | PdoU32 \<Rightarrow> write_int_bytes oc bytes p v 0 4294967295 4
          | PdoI32 \<Rightarrow> write_int_bytes oc bytes p v (- 2147483648) 2147483647 4
          | PdoU64 \<Rightarrow> write_u64_bytes oc bytes p v
          | PdoI64 \<Rightarrow> write_i64_bytes oc bytes p v)))"

section \<open>The image and the adapter over it\<close>

record ec_image =
  ec_inputs :: "8 word list"
  ec_outputs :: "8 word list"

definition ec_image_new :: "nat \<Rightarrow> nat \<Rightarrow> ec_image" where
  "ec_image_new input_bytes output_bytes =
     \<lparr> ec_inputs = replicate input_bytes 0, ec_outputs = replicate output_bytes 0 \<rparr>"

definition ec_area_bytes :: "ec_image \<Rightarrow> ec_area \<Rightarrow> 8 word list" where
  "ec_area_bytes img a = (case a of EcInput \<Rightarrow> ec_inputs img | EcOutput \<Rightarrow> ec_outputs img)"

definition ec_image_read :: "bool \<Rightarrow> ec_image \<Rightarrow> ec_point \<Rightarrow> val option outcome" where
  "ec_image_read oc img p = read_pdo_value oc (ec_area_bytes img (ec_area p)) p"

definition write_input_for_simulation ::
    "bool \<Rightarrow> ec_image \<Rightarrow> ec_point \<Rightarrow> val \<Rightarrow> (bool \<times> ec_image) outcome" where
  "write_input_for_simulation oc img p v =
     omap (\<lambda>(ok, bs). (ok, img\<lparr>ec_inputs := bs\<rparr>)) (write_pdo_value oc (ec_inputs img) p v)"

definition ec_image_write :: "bool \<Rightarrow> ec_image \<Rightarrow> ec_point \<Rightarrow> val \<Rightarrow> (bool \<times> ec_image) outcome" where
  "ec_image_write oc img p v =
     (if \<not> ec_area_writable (ec_area p) then Ret (False, img)
      else omap (\<lambda>(ok, bs). (ok, img\<lparr>ec_outputs := bs\<rparr>)) (write_pdo_value oc (ec_outputs img) p v))"

record ec_hal =
  eh_bindings :: "(string, ec_point) bmap"
  eh_image :: ec_image

definition ec_hal_new :: "nat \<Rightarrow> nat \<Rightarrow> ec_hal" where
  "ec_hal_new input_bytes output_bytes =
     \<lparr> eh_bindings = [], eh_image = ec_image_new input_bytes output_bytes \<rparr>"

definition ec_bind_location :: "ec_hal \<Rightarrow> string \<Rightarrow> ec_point \<Rightarrow> ec_hal" where
  "ec_bind_location h location p =
     h\<lparr>eh_bindings := bt_insert (canonical_key location) p (eh_bindings h)\<rparr>"

definition ec_bind_name :: "ec_hal \<Rightarrow> string \<Rightarrow> ec_point \<Rightarrow> ec_hal" where
  "ec_bind_name h name p =
     h\<lparr>eh_bindings := bt_insert (canonical_key name) p (eh_bindings h)\<rparr>"

definition ec_point_for :: "ec_hal \<Rightarrow> io_symbol \<Rightarrow> ec_point option" where
  "ec_point_for h sy = lookup_symbol (eh_bindings h) sy"

definition ec_read :: "bool \<Rightarrow> ec_hal \<Rightarrow> io_symbol \<Rightarrow> val option outcome" where
  "ec_read oc h sy =
     (case ec_point_for h sy of None \<Rightarrow> Ret None | Some p \<Rightarrow> ec_image_read oc (eh_image h) p)"

definition ec_write :: "bool \<Rightarrow> ec_hal \<Rightarrow> io_symbol \<Rightarrow> val \<Rightarrow> (bool \<times> ec_hal) outcome" where
  "ec_write oc h sy v =
     (case ec_point_for h sy of
        None \<Rightarrow> Ret (False, h)
      | Some p \<Rightarrow>
          omap (\<lambda>(ok, img). (ok, h\<lparr>eh_image := img\<rparr>)) (ec_image_write oc (eh_image h) p v))"

definition ec_read_symbol :: "bool \<Rightarrow> ec_hal \<Rightarrow> io_symbol \<Rightarrow> val option io_result outcome" where
  "ec_read_symbol oc h sy = omap Inr (ec_read oc h sy)"

definition ec_write_symbol ::
    "bool \<Rightarrow> ec_hal \<Rightarrow> io_symbol \<Rightarrow> val \<Rightarrow> (bool io_result \<times> ec_hal) outcome" where
  "ec_write_symbol oc h sy v = omap (map_prod Inr id) (ec_write oc h sy v)"

definition ec_bound :: "ec_hal \<Rightarrow> io_symbol \<Rightarrow> bool" where
  "ec_bound h sy \<longleftrightarrow> ec_point_for h sy \<noteq> None"

definition load_ethercat_mapping :: "nat \<Rightarrow> nat \<Rightarrow> string \<Rightarrow> ec_hal" where
  "load_ethercat_mapping input_bytes output_bytes text =
     \<lparr> eh_bindings = load_bindings ec_point_parse text,
       eh_image = ec_image_new input_bytes output_bytes \<rparr>"

section \<open>Transports\<close>

record 't ec_ops =
  op_read_pdo :: "'t \<Rightarrow> ec_area \<Rightarrow> nat \<Rightarrow> nat \<Rightarrow> 8 word list io_result outcome"
  op_write_pdo :: "'t \<Rightarrow> ec_area \<Rightarrow> nat \<Rightarrow> 8 word list \<Rightarrow> (bool io_result \<times> 't) outcome"

text \<open>\<open>impl EtherCatTransport for EtherCatPdoImage\<close>.\<close>

definition ec_image_read_pdo ::
    "bool \<Rightarrow> ec_image \<Rightarrow> ec_area \<Rightarrow> nat \<Rightarrow> nat \<Rightarrow> 8 word list io_result outcome" where
  "ec_image_read_pdo oc img a off len =
     (let bytes = (case a of EcInput \<Rightarrow> ec_inputs img | EcOutput \<Rightarrow> ec_outputs img) in
      obind (usize_arith oc (off + len)) (\<lambda>e.
        if e > length bytes
        then Ret (Inl (UnexpectedEof ''EtherCAT PDO read is outside the process image''))
        else omap Inr (slice oc bytes off len)))"

definition ec_image_write_pdo ::
    "bool \<Rightarrow> ec_image \<Rightarrow> ec_area \<Rightarrow> nat \<Rightarrow> 8 word list \<Rightarrow> (bool io_result \<times> ec_image) outcome" where
  "ec_image_write_pdo oc img a off bytes =
     (if \<not> ec_area_writable a then Ret (Inr False, img)
      else obind (usize_arith oc (off + length bytes)) (\<lambda>e.
        if e > length (ec_outputs img)
        then Ret (Inl (UnexpectedEof ''EtherCAT PDO write is outside the process image''), img)
        else omap (\<lambda>bs. (Inr True, img\<lparr>ec_outputs := bs\<rparr>)) (copy_into oc (ec_outputs img) off bytes)))"

definition ec_image_ops :: "bool \<Rightarrow> ec_image ec_ops" where
  "ec_image_ops oc = \<lparr> op_read_pdo = ec_image_read_pdo oc, op_write_pdo = ec_image_write_pdo oc \<rparr>"

record 't ec_transport_hal =
  eth_bindings :: "(string, ec_point) bmap"
  eth_transport :: 't

definition ec_transport_hal_new :: "'t \<Rightarrow> 't ec_transport_hal" where
  "ec_transport_hal_new t = \<lparr> eth_bindings = [], eth_transport = t \<rparr>"

definition eth_bind_location ::
    "'t ec_transport_hal \<Rightarrow> string \<Rightarrow> ec_point \<Rightarrow> 't ec_transport_hal" where
  "eth_bind_location h location p =
     h\<lparr>eth_bindings := bt_insert (canonical_key location) p (eth_bindings h)\<rparr>"

definition eth_bind_name :: "'t ec_transport_hal \<Rightarrow> string \<Rightarrow> ec_point \<Rightarrow> 't ec_transport_hal" where
  "eth_bind_name h name p =
     h\<lparr>eth_bindings := bt_insert (canonical_key name) p (eth_bindings h)\<rparr>"

definition eth_point_for :: "'t ec_transport_hal \<Rightarrow> io_symbol \<Rightarrow> ec_point option" where
  "eth_point_for h sy = lookup_symbol (eth_bindings h) sy"

definition eth_read_symbol ::
    "bool \<Rightarrow> 't ec_ops \<Rightarrow> 't ec_transport_hal \<Rightarrow> io_symbol \<Rightarrow> val option io_result outcome" where
  "eth_read_symbol oc ops h sy =
     (case eth_point_for h sy of
        None \<Rightarrow> Ret (Inr None)
      | Some p \<Rightarrow>
          obind (op_read_pdo ops (eth_transport h) (ec_area p) (ec_byte_offset p)
              (byte_len (ec_value_type p))) (\<lambda>r.
            case r of
              Inl e \<Rightarrow> Ret (Inl e)
            | Inr bytes \<Rightarrow> omap Inr (read_pdo_value oc bytes (p\<lparr>ec_byte_offset := 0\<rparr>))))"

definition eth_write_symbol ::
    "bool \<Rightarrow> 't ec_ops \<Rightarrow> 't ec_transport_hal \<Rightarrow> io_symbol \<Rightarrow> val
      \<Rightarrow> (bool io_result \<times> 't ec_transport_hal) outcome" where
  "eth_write_symbol oc ops h sy v =
     (case eth_point_for h sy of
        None \<Rightarrow> Ret (Inr False, h)
      | Some p \<Rightarrow>
          if \<not> ec_area_writable (ec_area p) then Ret (Inr False, h)
          else
            obind (op_read_pdo ops (eth_transport h) (ec_area p) (ec_byte_offset p)
                (byte_len (ec_value_type p))) (\<lambda>r.
              case r of
                Inl e \<Rightarrow> Ret (Inl e, h)
              | Inr bytes \<Rightarrow>
                  obind (write_pdo_value oc bytes (p\<lparr>ec_byte_offset := 0\<rparr>) v) (\<lambda>(ok, bytes').
                    if \<not> ok then Ret (Inr False, h)
                    else omap (\<lambda>(r, t). (r, h\<lparr>eth_transport := t\<rparr>))
                      (op_write_pdo ops (eth_transport h) (ec_area p) (ec_byte_offset p) bytes'))))"

definition eth_bound :: "'t ec_transport_hal \<Rightarrow> io_symbol \<Rightarrow> bool" where
  "eth_bound h sy \<longleftrightarrow> eth_point_for h sy \<noteq> None"

definition load_ethercat_transport_mapping :: "'t \<Rightarrow> string \<Rightarrow> 't ec_transport_hal" where
  "load_ethercat_transport_mapping t text =
     \<lparr> eth_bindings = load_bindings ec_point_parse text, eth_transport = t \<rparr>"

section \<open>The codec on a window of the image\<close>

definition window :: "8 word list \<Rightarrow> nat \<Rightarrow> nat \<Rightarrow> 8 word list" where
  "window bytes off len = take len (drop off bytes)"

definition splice :: "8 word list \<Rightarrow> nat \<Rightarrow> 8 word list \<Rightarrow> 8 word list" where
  "splice bytes off src = take off bytes @ src @ drop (off + length src) bytes"

lemma length_splice [simp]: "off + length src \<le> length bytes \<Longrightarrow> length (splice bytes off src) = length bytes"
  by (simp add: splice_def)

lemma window_splice [simp]: "off + length src \<le> length bytes \<Longrightarrow> window (splice bytes off src) off (length src) = src"
  by (simp add: window_def splice_def)

lemma splice_nth:
  assumes "off + length src \<le> length bytes" "i < length bytes"
  shows "splice bytes off src ! i =
    (if off \<le> i \<and> i < off + length src then src ! (i - off) else bytes ! i)"
  using assms by (auto simp: splice_def nth_append)

lemma slice_window [simp]:
  "off + len \<le> length bytes \<Longrightarrow> length bytes \<le> usize_max \<Longrightarrow> slice oc bytes off len = Ret (window bytes off len)"
  by (simp add: slice_def window_def)

lemma copy_into_splice [simp]:
  "off + length src \<le> length bytes \<Longrightarrow> length bytes \<le> usize_max \<Longrightarrow>
     copy_into oc bytes off src = Ret (splice bytes off src)"
  by (simp add: copy_into_def splice_def)

lemma byte_at_window:
  "off + 1 \<le> length bytes \<Longrightarrow> window bytes off 1 = [bytes ! off]"
  by (simp add: window_def take_Suc_conv_app_nth hd_drop_conv_nth take_Suc)

lemma list_update_splice: "off < length bytes \<Longrightarrow> bytes[off := b] = splice bytes off [b]"
  by (simp add: splice_def upd_conv_take_nth_drop)

lemma length_le_bytes [simp]: "length (le_bytes k n) = k"
  by (induction k arbitrary: n) simp_all

lemma take_le_bytes: "j \<le> k \<Longrightarrow> take j (le_bytes k n) = le_bytes j n"
proof (induction k arbitrary: j n)
  case (Suc k)
  then show ?case by (cases j) simp_all
qed simp

lemma le_uint_le_bytes: "le_uint (le_bytes k n) = n mod 256 ^ k"
proof (induction k arbitrary: n)
  case (Suc k)
  have "uint (word_of_int n :: 8 word) = n mod 256"
    by (simp add: uint_word_of_int)
  with Suc show ?case
    by (simp add: zmod_zmult2_eq add.commute)
qed simp

lemma le_sint_le_bytes:
  assumes "- m \<le> n" "n < m" "2 * m = 256 ^ k"
  shows "le_sint (le_bytes k n) = n"
proof (cases "0 \<le> n")
  case True
  then have "n mod 256 ^ k = n" using assms by (intro mod_pos_pos_trivial) linarith+
  with assms True show ?thesis by (simp add: le_sint_def le_uint_le_bytes)
next
  case False
  have "n mod 256 ^ k = (n + 256 ^ k) mod 256 ^ k" by simp
  also have "\<dots> = n + 256 ^ k" using assms False by (intro mod_pos_pos_trivial) linarith+
  finally show ?thesis using assms False by (simp add: le_sint_def le_uint_le_bytes)
qed

text \<open>The reference codec: the bytes that stand for a value of each type, and the value
  that bytes of the right length stand for. A bit has no bytes of its own.\<close>

definition pdo_encode :: "ec_value_type \<Rightarrow> val \<Rightarrow> 8 word list" where
  "pdo_encode t v = (let n = value_int v in
     case t of
       PdoBool \<Rightarrow> []
     | PdoU8 \<Rightarrow> le_bytes 1 (clamp 0 255 n)
     | PdoI8 \<Rightarrow> le_bytes 1 (clamp (- 128) 127 n)
     | PdoU16 \<Rightarrow> le_bytes 2 (clamp 0 65535 n)
     | PdoI16 \<Rightarrow> le_bytes 2 (clamp (- 32768) 32767 n)
     | PdoU32 \<Rightarrow> le_bytes 4 (clamp 0 4294967295 n)
     | PdoI32 \<Rightarrow> le_bytes 4 (clamp (- 2147483648) 2147483647 n)
     | PdoU64 \<Rightarrow> le_bytes 8 (max n 0)
     | PdoI64 \<Rightarrow> le_bytes 8 n)"

definition pdo_decode :: "ec_value_type \<Rightarrow> 8 word list \<Rightarrow> val" where
  "pdo_decode t bs =
     (case t of
       PdoBool \<Rightarrow> VUnit
     | PdoU8 \<Rightarrow> VInt (le_uint bs)
     | PdoI8 \<Rightarrow> VInt (le_sint bs)
     | PdoU16 \<Rightarrow> VInt (le_uint bs)
     | PdoI16 \<Rightarrow> VInt (le_sint bs)
     | PdoU32 \<Rightarrow> VInt (le_uint bs)
     | PdoI32 \<Rightarrow> VInt (le_sint bs)
     | PdoU64 \<Rightarrow> VInt (min (le_uint bs) i64_max)
     | PdoI64 \<Rightarrow> VInt (le_sint bs))"

text \<open>What a point of each type makes of a value.\<close>

definition pdo_value :: "ec_value_type \<Rightarrow> val \<Rightarrow> val" where
  "pdo_value t v = (let n = value_int v in
     case t of
       PdoBool \<Rightarrow> VBool (value_bit v)
     | PdoU8 \<Rightarrow> VInt (clamp 0 255 n)
     | PdoI8 \<Rightarrow> VInt (clamp (- 128) 127 n)
     | PdoU16 \<Rightarrow> VInt (clamp 0 65535 n)
     | PdoI16 \<Rightarrow> VInt (clamp (- 32768) 32767 n)
     | PdoU32 \<Rightarrow> VInt (clamp 0 4294967295 n)
     | PdoI32 \<Rightarrow> VInt (clamp (- 2147483648) 2147483647 n)
     | PdoU64 \<Rightarrow> VInt (max n 0)
     | PdoI64 \<Rightarrow> VInt n)"

lemma length_pdo_encode [simp]: "t \<noteq> PdoBool \<Longrightarrow> length (pdo_encode t v) = byte_len t"
  by (cases t) (simp_all add: pdo_encode_def Let_def)

lemma value_int_range: "value_ok v \<Longrightarrow> in_i64 (value_int v)"
  using as_i64_range [of v] by (auto simp: value_int_def split: option.split)

lemma pdo_decode_encode:
  assumes "value_ok v" "t \<noteq> PdoBool"
  shows "pdo_decode t (pdo_encode t v) = pdo_value t v"
proof -
  have n: "i64_min \<le> value_int v" "value_int v \<le> i64_max"
    using value_int_range [OF assms(1)] by (simp_all add: in_i64_def)
  have u: "0 \<le> clamp 0 hi m \<Longrightarrow> clamp 0 hi m \<le> hi \<Longrightarrow> hi < 256 ^ k \<Longrightarrow>
      le_uint (le_bytes k (clamp 0 hi m)) = clamp 0 hi m" for hi m k
    by (simp add: le_uint_le_bytes)
  have b: "0 \<le> clamp 0 hi m" "clamp 0 hi m \<le> hi" if "0 \<le> hi" for hi m :: int
    using clamp_bounds [OF that] by auto
  have s: "le_sint (le_bytes k (clamp (- j) (j - 1) m)) = clamp (- j) (j - 1) m"
    if "2 * j = 256 ^ k" for j m :: int and k
  proof -
    have "0 < (256::int) ^ k" by simp
    then have "0 < j" using that by linarith
    then show ?thesis
      using that clamp_bounds [of "- j" "j - 1" m] by (intro le_sint_le_bytes [of j]) auto
  qed
  show ?thesis
  proof (cases t)
    case PdoI8
    with s [of 128 1 "value_int v"] show ?thesis by (simp add: pdo_decode_def pdo_encode_def pdo_value_def Let_def)
  next
    case PdoI16
    with s [of 32768 2 "value_int v"] show ?thesis by (simp add: pdo_decode_def pdo_encode_def pdo_value_def Let_def)
  next
    case PdoI32
    with s [of 2147483648 4 "value_int v"] show ?thesis by (simp add: pdo_decode_def pdo_encode_def pdo_value_def Let_def)
  next
    case PdoI64
    have "le_sint (le_bytes 8 (value_int v)) = value_int v"
      using n by (intro le_sint_le_bytes [of 9223372036854775808]) (simp_all add: i64_min_def i64_max_def)
    with PdoI64 show ?thesis by (simp add: pdo_decode_def pdo_encode_def pdo_value_def)
  next
    case PdoU64
    have "le_uint (le_bytes 8 (max (value_int v) 0)) = max (value_int v) 0"
      using n by (simp add: le_uint_le_bytes i64_max_def)
    with PdoU64 n show ?thesis
      by (simp add: pdo_decode_def pdo_encode_def pdo_value_def i64_max_def)
  qed (use assms in \<open>simp_all add: pdo_decode_def pdo_encode_def pdo_value_def Let_def u b
      del: le_bytes.simps le_uint.simps\<close>)
qed

definition in_image :: "nat \<Rightarrow> ec_point \<Rightarrow> bool" where
  "in_image n p \<longleftrightarrow> ec_byte_offset p + byte_len (ec_value_type p) \<le> n \<and> n \<le> usize_max"

lemma uint_le1: "uint b = le_uint [b]"
  by simp

lemma sint_le1: "sint b = le_sint [b]" for b :: "8 word"
proof -
  have r: "- 128 \<le> sint b" "sint b < 128"
    using sint_ge [of b] sint_lt [of b] by simp_all
  have u: "uint b = sint b mod 256"
    by (simp add: uint_sint take_bit_eq_mod)
  have "sint b = (if uint b < 128 then uint b else uint b - 256)"
  proof (cases "0 \<le> sint b")
    case True
    then have "uint b = sint b" unfolding u using r by (intro mod_pos_pos_trivial) simp_all
    then show ?thesis using r by simp
  next
    case False
    have "sint b mod 256 = (sint b + 256) mod 256" by simp
    also have "\<dots> = sint b + 256" using r False by (intro mod_pos_pos_trivial) simp_all
    finally have "uint b = sint b + 256" unfolding u .
    then show ?thesis using r False by simp
  qed
  then show ?thesis by (simp add: le_sint_def Let_def)
qed

lemma le_bytes_1: "le_bytes (Suc 0) n = [word_of_int n]"
  by simp

lemma read_pdo_window:
  assumes "in_image (length bytes) p" "ec_value_type p \<noteq> PdoBool"
  shows "read_pdo_value oc bytes p =
    Ret (Some (pdo_decode (ec_value_type p)
      (window bytes (ec_byte_offset p) (byte_len (ec_value_type p)))))"
  using assms byte_at_window [of "ec_byte_offset p" bytes]
  by (cases "ec_value_type p")
    (simp_all add: read_pdo_value_def Let_def in_image_def pdo_decode_def byte_at_def
      uint_le1 sint_le1 del: le_uint.simps)

lemma write_pdo_splice:
  assumes "in_image (length bytes) p" "ec_value_type p \<noteq> PdoBool"
  shows "write_pdo_value oc bytes p v =
    Ret (True, splice bytes (ec_byte_offset p) (pdo_encode (ec_value_type p) v))"
  using assms
  by (cases "ec_value_type p")
    (simp_all add: write_pdo_value_def Let_def in_image_def pdo_encode_def write_byte_def
      write_int_bytes_def write_u64_bytes_def write_i64_bytes_def take_le_bytes
      list_update_splice le_bytes_1)

section \<open>Bits\<close>

lemma read_bit_bit:
  "k < 8 \<Longrightarrow> i < length bytes \<Longrightarrow> read_bit bytes i k = Some (bit (bytes ! i) k)"
  by (simp add: read_bit_def bit_iff_and_push_bit_not_eq_0)

lemma write_bit_bits:
  assumes "k < 8" "i < length bytes" "write_bit bytes i k b = (ok, bytes')"
  shows "ok" "length bytes' = length bytes"
    "bit (bytes' ! i) j = (if j = k then b else bit (bytes ! i) j)"
    "j \<noteq> i \<Longrightarrow> bytes' ! j = bytes ! j"
proof -
  have b1: "bit (x OR 2 ^ k) j \<longleftrightarrow> (j = k \<or> bit x j)"
    "bit (x AND NOT (2 ^ k)) j \<longleftrightarrow> (j \<noteq> k \<and> bit x j)" for x :: "8 word" and j
    using assms(1) by (auto simp: bit_simps dest: bit_imp_le_length)
  show "ok" "length bytes' = length bytes"
    "bit (bytes' ! i) j = (if j = k then b else bit (bytes ! i) j)"
    "j \<noteq> i \<Longrightarrow> bytes' ! j = bytes ! j"
    using assms by (auto simp: write_bit_def b1 split: if_splits)
qed

section \<open>Writing and reading a point\<close>

definition bit_ok :: "ec_point \<Rightarrow> bool" where
  "bit_ok p \<longleftrightarrow> (ec_value_type p = PdoBool \<longrightarrow> ec_bit_offset p < 8)"

text \<open>What a write of a point may change: its window, and for a bit only that bit.\<close>

definition same_outside :: "ec_point \<Rightarrow> 8 word list \<Rightarrow> 8 word list \<Rightarrow> bool" where
  "same_outside p bs bs' \<longleftrightarrow>
     length bs' = length bs \<and>
     (\<forall>i < length bs.
        (i < ec_byte_offset p \<or> ec_byte_offset p + byte_len (ec_value_type p) \<le> i \<longrightarrow> bs' ! i = bs ! i) \<and>
        (ec_value_type p = PdoBool \<longrightarrow>
          (\<forall>j < 8. j \<noteq> ec_bit_offset p \<longrightarrow> bit (bs' ! i) j = bit (bs ! i) j)))"

lemma pdo_write_read:
  assumes "in_image (length bytes) p" "bit_ok p" "value_ok v"
  obtains bytes' where "write_pdo_value oc bytes p v = Ret (True, bytes')"
    "read_pdo_value oc bytes' p = Ret (Some (pdo_value (ec_value_type p) v))"
    "same_outside p bytes bytes'"
proof (cases "ec_value_type p = PdoBool")
  case True
  let ?i = "ec_byte_offset p" and ?k = "ec_bit_offset p"
  have i: "?i < length bytes" "?k < 8" "length bytes \<le> usize_max"
    using assms True by (simp_all add: in_image_def bit_ok_def)
  obtain ok bytes' where w: "write_bit bytes ?i ?k (value_bit v) = (ok, bytes')" by force
  note b = write_bit_bits [OF i(2,1) w]
  have "write_pdo_value oc bytes p v = Ret (True, bytes')"
    using i b(1) w by (simp add: write_pdo_value_def Let_def True)
  moreover have "read_pdo_value oc bytes' p = Ret (Some (pdo_value (ec_value_type p) v))"
    using i b(2,3) by (simp add: read_pdo_value_def Let_def True read_bit_bit pdo_value_def)
  moreover have "same_outside p bytes bytes'"
    unfolding same_outside_def True using b by (auto simp: True) (metis b(3) b(4))+
  ultimately show ?thesis by (rule that)
next
  case False
  let ?o = "ec_byte_offset p" and ?l = "byte_len (ec_value_type p)"
  let ?e = "pdo_encode (ec_value_type p) v"
  have e: "length ?e = ?l" using False by simp
  have r: "?o + length ?e \<le> length bytes" using assms(1) False by (simp add: in_image_def)
  have "write_pdo_value oc bytes p v = Ret (True, splice bytes ?o ?e)"
    by (rule write_pdo_splice [OF assms(1) False])
  moreover have "read_pdo_value oc (splice bytes ?o ?e) p = Ret (Some (pdo_value (ec_value_type p) v))"
    using read_pdo_window [of "splice bytes ?o ?e" p oc] window_splice [OF r] assms(1,3) False r
    by (simp add: pdo_decode_encode)
  moreover have "same_outside p bytes (splice bytes ?o ?e)"
    using False r by (auto simp: same_outside_def splice_nth)
  ultimately show ?thesis by (rule that)
qed

text \<open>A refused write leaves the bytes alone.\<close>

lemma write_pdo_refused:
  assumes "write_pdo_value oc bytes p v = Ret (False, bytes')"
  shows "bytes' = bytes"
proof -
  obtain e where "(e > length bytes \<and> bytes' = bytes) \<or> (\<not> e > length bytes \<and>
      (case ec_value_type p of
            PdoBool \<Rightarrow> Ret (write_bit bytes (ec_byte_offset p) (ec_bit_offset p) (value_bit v))
          | PdoU8 \<Rightarrow> write_byte bytes (ec_byte_offset p) (word_of_int (clamp 0 255 (value_int v)))
          | PdoI8 \<Rightarrow> write_byte bytes (ec_byte_offset p) (word_of_int (clamp (- 128) 127 (value_int v)))
          | PdoU16 \<Rightarrow> write_int_bytes oc bytes p v 0 65535 2
          | PdoI16 \<Rightarrow> write_int_bytes oc bytes p v (- 32768) 32767 2
          | PdoU32 \<Rightarrow> write_int_bytes oc bytes p v 0 4294967295 4
          | PdoI32 \<Rightarrow> write_int_bytes oc bytes p v (- 2147483648) 2147483647 4
          | PdoU64 \<Rightarrow> write_u64_bytes oc bytes p v
          | PdoI64 \<Rightarrow> write_i64_bytes oc bytes p v) = Ret (False, bytes'))"
    using assms by (auto simp: write_pdo_value_def Let_def obind_eq_Ret split: if_splits)
  then show ?thesis
    by (cases "ec_value_type p")
      (auto simp: write_bit_def write_byte_def write_int_bytes_def write_u64_bytes_def
        write_i64_bytes_def omap_eq_Ret split: if_splits)
qed

lemma ec_image_write_refused:
  assumes "ec_image_write oc img p v = Ret (False, img')"
  shows "img' = img"
proof (cases "ec_area_writable (ec_area p)")
  case True
  with assms obtain bs where "write_pdo_value oc (ec_outputs img) p v = Ret (False, bs)"
    "img' = img\<lparr>ec_outputs := bs\<rparr>"
    by (auto simp: ec_image_write_def omap_eq_Ret)
  with write_pdo_refused [OF this(1)] show ?thesis by simp
qed (use assms in \<open>simp add: ec_image_write_def\<close>)

interpretation ehal: target_hal "ec_read_symbol oc" "ec_write_symbol oc" ec_bound
proof
  fix h :: ec_hal and s v h' r t
  show "\<not> ec_bound h s \<Longrightarrow> ec_read_symbol oc h s = Ret (Inr None)"
    by (simp add: ec_bound_def ec_read_symbol_def ec_read_def)
  show "\<not> ec_bound h s \<Longrightarrow> \<exists>r. ec_write_symbol oc h s v = Ret (r, h) \<and> r \<noteq> Inr True"
    by (simp add: ec_bound_def ec_write_symbol_def ec_write_def)
  show "ec_write_symbol oc h s v = Ret (Inr False, h') \<Longrightarrow> h' = h"
    by (auto simp: ec_write_symbol_def ec_write_def omap_eq_Ret
        dest!: ec_image_write_refused split: option.splits)
  show "ec_write_symbol oc h s v = Ret (r, h') \<Longrightarrow> ec_bound h' t = ec_bound h t"
    by (auto simp: ec_write_symbol_def ec_write_def ec_bound_def ec_point_for_def omap_eq_Ret
        split: option.splits prod.splits)
qed

section \<open>The contract of a transport\<close>

text \<open>A write through a transport either leaves the adapter alone or is one
  \<open>write_pdo\<close> with its answer.\<close>

lemma eth_write_cases:
  assumes "eth_write_symbol oc ops h sy v = Ret (r, h')"
  shows "h' = h \<or> (\<exists>p bytes t. eth_point_for h sy = Some p \<and>
    op_write_pdo ops (eth_transport h) (ec_area p) (ec_byte_offset p) bytes = Ret (r, t) \<and>
    h' = h\<lparr>eth_transport := t\<rparr>)"
proof (cases "eth_point_for h sy")
  case (Some p)
  show ?thesis
  proof (cases "op_read_pdo ops (eth_transport h) (ec_area p) (ec_byte_offset p)
      (byte_len (ec_value_type p))")
    case (Ret x)
    with assms Some show ?thesis
      by (cases x) (auto simp: eth_write_symbol_def obind_eq_Ret omap_eq_Ret split: if_splits)
  qed (use assms Some in \<open>auto simp: eth_write_symbol_def split: if_splits\<close>)
qed (use assms in \<open>simp add: eth_write_symbol_def\<close>)

locale ethercat_transport =
  fixes ops :: "'t ec_ops"
  assumes pdo_refused: "op_write_pdo ops t a off bs = Ret (Inr False, t') \<Longrightarrow> t' = t"
    and pdo_length: "op_read_pdo ops t a off n = Ret (Inr bs) \<Longrightarrow> n \<le> 8 \<Longrightarrow> length bs = n"
    and pdo_read_back:
      "op_write_pdo ops t a off bs = Ret (Inr True, t') \<Longrightarrow> length bs \<le> 8 \<Longrightarrow>
       op_read_pdo ops t' a off (length bs) = Ret (Inr bs)"
begin

lemma eth_read_back:
  assumes w: "eth_write_symbol oc ops h sy v = Ret (Inr True, h')" and v: "value_ok v"
    and p: "eth_point_for h sy = Some p" "bit_ok p"
  shows "eth_read_symbol oc ops h' sy = Ret (Inr (Some (pdo_value (ec_value_type p) v)))"
proof -
  let ?q = "p\<lparr>ec_byte_offset := 0\<rparr>" and ?l = "byte_len (ec_value_type p)"
  obtain bytes bytes' t where
    r: "op_read_pdo ops (eth_transport h) (ec_area p) (ec_byte_offset p) ?l = Ret (Inr bytes)"
    and c: "write_pdo_value oc bytes ?q v = Ret (True, bytes')"
    and o: "op_write_pdo ops (eth_transport h) (ec_area p) (ec_byte_offset p) bytes' = Ret (Inr True, t)"
    and h': "h' = h\<lparr>eth_transport := t\<rparr>"
  proof -
    obtain x where
      x: "op_read_pdo ops (eth_transport h) (ec_area p) (ec_byte_offset p) ?l = Ret x"
      using w p(1) by (auto simp: eth_write_symbol_def obind_eq_Ret split: if_splits)
    with w p(1) show ?thesis
      by (cases x) (auto simp: eth_write_symbol_def obind_eq_Ret omap_eq_Ret
          intro: that split: if_splits)
  qed
  have l8: "?l \<le> 8" by (cases "ec_value_type p") simp_all
  then have l: "length bytes = ?l" using pdo_length [OF r] by simp
  then have "in_image (length bytes) ?q" "bit_ok ?q"
    using p(2) l8 by (simp_all add: in_image_def usize_max_def bit_ok_def)
  from pdo_write_read [OF this v, where oc = oc] c
  have rd: "read_pdo_value oc bytes' ?q = Ret (Some (pdo_value (ec_value_type p) v))"
    and len: "length bytes' = ?l"
    using l by (auto simp: same_outside_def)
  have "op_read_pdo ops t (ec_area p) (ec_byte_offset p) ?l = Ret (Inr bytes')"
    using pdo_read_back [OF o] len l8 by simp
  with rd p(1) show ?thesis
    by (simp add: eth_read_symbol_def h' eth_point_for_def)
qed

end

sublocale ethercat_transport \<subseteq> hal: target_hal "eth_read_symbol oc ops" "eth_write_symbol oc ops" eth_bound
proof
  fix h :: "'t ec_transport_hal" and s v h' r t
  show "\<not> eth_bound h s \<Longrightarrow> eth_read_symbol oc ops h s = Ret (Inr None)"
    by (simp add: eth_bound_def eth_read_symbol_def)
  show "\<not> eth_bound h s \<Longrightarrow> \<exists>r. eth_write_symbol oc ops h s v = Ret (r, h) \<and> r \<noteq> Inr True"
    by (simp add: eth_bound_def eth_write_symbol_def)
  show "eth_write_symbol oc ops h s v = Ret (Inr False, h') \<Longrightarrow> h' = h"
    by (auto dest!: eth_write_cases pdo_refused)
  show "eth_write_symbol oc ops h s v = Ret (r, h') \<Longrightarrow> eth_bound h' t = eth_bound h t"
    by (auto simp: eth_bound_def eth_point_for_def dest!: eth_write_cases)
qed

section \<open>The image is a transport\<close>

lemma usize_arith_end:
  assumes "usize_arith oc (off + n) = Ret e" "off \<le> e" "n \<le> 8"
  shows "e = off + n \<and> off + n \<le> usize_max"
proof (cases "off + n \<le> usize_max")
  case True
  with assms show ?thesis by simp
next
  case False
  with assms have e: "e = (off + n) mod 18446744073709551616" and big: "18446744073709551616 \<le> off + n"
    by (auto simp: usize_arith_def wrap_usize_def usize_max_def split: if_splits)
  have "(off + n) mod 18446744073709551616 \<le> off + n - 18446744073709551616"
    using big by (metis le_mod_geq mod_less_eq_dividend)
  then show ?thesis using e big assms(2,3) by linarith
qed

lemma slice_Ret:
  assumes "slice oc bytes off n = Ret bs" "n \<le> 8"
  shows "bs = window bytes off n \<and> off + n \<le> length bytes \<and> off + n \<le> usize_max"
  using assms usize_arith_end [of oc off n]
  by (auto simp: slice_def window_def obind_eq_Ret split: if_splits)

lemma copy_into_Ret:
  assumes "copy_into oc bytes off src = Ret bs" "length src \<le> 8"
  shows "bs = splice bytes off src \<and> off + length src \<le> length bytes \<and> off + length src \<le> usize_max"
  using assms usize_arith_end [of oc off "length src"]
  by (auto simp: copy_into_def splice_def obind_eq_Ret split: if_splits)

interpretation ec_image_transport: ethercat_transport "ec_image_ops oc"
proof
  fix t :: ec_image and a off bs t' n
  show "op_write_pdo (ec_image_ops oc) t a off bs = Ret (Inr False, t') \<Longrightarrow> t' = t"
    by (auto simp: ec_image_ops_def ec_image_write_pdo_def obind_eq_Ret omap_eq_Ret split: if_splits)
  show "op_read_pdo (ec_image_ops oc) t a off n = Ret (Inr bs) \<Longrightarrow> n \<le> 8 \<Longrightarrow> length bs = n"
    by (auto simp: ec_image_ops_def ec_image_read_pdo_def Let_def obind_eq_Ret omap_eq_Ret window_def
        dest!: slice_Ret split: if_splits)
  assume w: "op_write_pdo (ec_image_ops oc) t a off bs = Ret (Inr True, t')" and l: "length bs \<le> 8"
  then obtain outs where a: "a = EcOutput" and c: "copy_into oc (ec_outputs t) off bs = Ret outs"
    and t': "t' = t\<lparr>ec_outputs := outs\<rparr>"
    by (auto simp: ec_image_ops_def ec_image_write_pdo_def obind_eq_Ret omap_eq_Ret
        ec_area_writable_def split: if_splits)
  from copy_into_Ret [OF c l] have s: "outs = splice (ec_outputs t) off bs"
    "off + length bs \<le> length (ec_outputs t)" "off + length bs \<le> usize_max" by auto
  then have "slice oc outs off (length bs) = Ret bs"
    using window_splice [OF s(2)] by (simp add: slice_def window_def)
  then show "op_read_pdo (ec_image_ops oc) t' a off (length bs) = Ret (Inr bs)"
    using s by (simp add: ec_image_ops_def ec_image_read_pdo_def a t')
qed

section \<open>Properties\<close>

text \<open>C17: Writing a value to a symbol bound to an output point inside the process image
  succeeds in every build, and reading the symbol then gives the value clamped to the range
  of the point's type (its truth value for a bit). No byte outside the point's bytes changes,
  and a bit write changes no other bit.\<close>

theorem ethercat_write_then_read:
  assumes "ec_point_for h sy = Some p" and "ec_area p = EcOutput" and "bit_ok p"
    and "in_image (length (ec_outputs (eh_image h))) p" and "value_ok v"
  shows "\<exists>h'. ec_write oc h sy v = Ret (True, h') \<and>
    ec_read oc h' sy = Ret (Some (pdo_value (ec_value_type p) v)) \<and>
    eh_bindings h' = eh_bindings h \<and>
    ec_inputs (eh_image h') = ec_inputs (eh_image h) \<and>
    same_outside p (ec_outputs (eh_image h)) (ec_outputs (eh_image h'))"
proof -
  obtain bs where "write_pdo_value oc (ec_outputs (eh_image h)) p v = Ret (True, bs)"
    "read_pdo_value oc bs p = Ret (Some (pdo_value (ec_value_type p) v))"
    "same_outside p (ec_outputs (eh_image h)) bs"
    by (rule pdo_write_read [OF assms(4,3,5)])
  then show ?thesis
    using assms(1,2) by (simp add: ec_write_def ec_read_def ec_image_write_def ec_image_read_def
        ec_area_writable_def ec_area_bytes_def ec_point_for_def)
qed

definition demo_pdo :: "nat \<Rightarrow> ec_value_type \<Rightarrow> ec_point" where
  "demo_pdo off t = \<lparr> ec_slave = 1, ec_index = 0x7000, ec_subindex = 1, ec_area = EcOutput,
     ec_byte_offset = off, ec_bit_offset = 3, ec_value_type = t \<rparr>"

definition demo_ethercat :: ec_hal where
  "demo_ethercat = ec_bind_name (ec_bind_name (ec_hal_new 2 4) ''speed'' (demo_pdo 1 PdoI16))
     ''valve'' (demo_pdo 0 PdoBool)"

theorem ethercat_write_then_read_witness:
  "\<exists>h'. ec_write True demo_ethercat (demo_symbol ''speed'' '''' DirOutput) (VInt (- 40000)) = Ret (True, h')
     \<and> ec_read True h' (demo_symbol ''speed'' '''' DirOutput) = Ret (Some (VInt (- 32768)))"
proof -
  let ?sy = "demo_symbol ''speed'' '''' DirOutput"
  have p: "ec_point_for demo_ethercat ?sy = Some (demo_pdo 1 PdoI16)" by code_simp
  have a: "ec_area (demo_pdo 1 PdoI16) = EcOutput" "bit_ok (demo_pdo 1 PdoI16)"
    "value_ok (VInt (- 40000))"
    by (simp_all add: demo_pdo_def bit_ok_def int_bounds)
  have i: "in_image (length (ec_outputs (eh_image demo_ethercat))) (demo_pdo 1 PdoI16)"
    by (simp add: demo_ethercat_def ec_bind_name_def ec_hal_new_def ec_image_new_def in_image_def
        demo_pdo_def usize_max_def)
  have "pdo_value (ec_value_type (demo_pdo 1 PdoI16)) (VInt (- 40000)) = VInt (- 32768)" by code_simp
  with ethercat_write_then_read [OF p a(1,2) i a(3), where oc = True] show ?thesis by auto
qed

text \<open>The adapter over a transport, with the image as its transport, seen as the adapter
  over the image.\<close>

definition ec_hal_of :: "ec_image ec_transport_hal \<Rightarrow> ec_hal" where
  "ec_hal_of h = \<lparr> eh_bindings = eth_bindings h, eh_image = eth_transport h \<rparr>"

lemma ec_hal_of_simps [simp]:
  "ec_point_for (ec_hal_of h) sy = eth_point_for h sy" "eh_image (ec_hal_of h) = eth_transport h"
  by (simp_all add: ec_hal_of_def ec_point_for_def eth_point_for_def)

lemma window_local:
  "off + len \<le> length bytes \<Longrightarrow> window (window bytes off len) 0 len = window bytes off len"
  by (simp add: window_def)

lemma read_pdo_local:
  assumes "in_image (length bytes) p" "bit_ok p"
  shows "read_pdo_value oc (window bytes (ec_byte_offset p) (byte_len (ec_value_type p)))
      (p\<lparr>ec_byte_offset := 0\<rparr>) = read_pdo_value oc bytes p"
proof -
  let ?w = "window bytes (ec_byte_offset p) (byte_len (ec_value_type p))"
  have len: "length ?w = byte_len (ec_value_type p)"
    using assms(1) by (auto simp: window_def in_image_def)
  then have img: "in_image (length ?w) (p\<lparr>ec_byte_offset := 0\<rparr>)"
    using assms(1) by (simp add: in_image_def)
  show ?thesis
  proof (cases "ec_value_type p = PdoBool")
    case True
    then have "?w ! 0 = bytes ! ec_byte_offset p"
      using assms(1) by (simp add: window_def in_image_def)
    with True assms img len show ?thesis
      by (simp add: read_pdo_value_def Let_def in_image_def bit_ok_def read_bit_bit)
  next
    case False
    then show ?thesis
      using read_pdo_window [OF img] read_pdo_window [OF assms(1)] window_local assms(1)
      by (simp add: in_image_def)
  qed
qed

text \<open>C18: Over the process image, a symbol whose point lies inside its area reads the same
  through \<open>EtherCatTransportHal\<close> and \<open>EtherCatHal\<close>; a point outside its area (without
  overflow of the offset) reads as no value through the latter and is an
  \<open>UnexpectedEof\<close> error through the former.\<close>

theorem ethercat_transport_reads_image:
  assumes "eth_point_for h sy = Some p" and "bit_ok p"
    and "ec_byte_offset p + byte_len (ec_value_type p) \<le> usize_max"
    and "length (ec_area_bytes (eth_transport h) (ec_area p)) \<le> usize_max"
  shows "if in_image (length (ec_area_bytes (eth_transport h) (ec_area p))) p
    then eth_read_symbol oc (ec_image_ops oc) h sy = ec_read_symbol oc (ec_hal_of h) sy
    else ec_read_symbol oc (ec_hal_of h) sy = Ret (Inr None) \<and>
      eth_read_symbol oc (ec_image_ops oc) h sy =
        Ret (Inl (UnexpectedEof ''EtherCAT PDO read is outside the process image''))"
proof -
  let ?bytes = "ec_area_bytes (eth_transport h) (ec_area p)"
  let ?off = "ec_byte_offset p" and ?l = "byte_len (ec_value_type p)"
  have ab: "(case ec_area p of EcInput \<Rightarrow> ec_inputs (eth_transport h)
      | EcOutput \<Rightarrow> ec_outputs (eth_transport h)) = ?bytes"
    by (simp add: ec_area_bytes_def)
  show ?thesis
  proof (cases "in_image (length ?bytes) p")
    case True
    then have "ec_image_read_pdo oc (eth_transport h) (ec_area p) ?off ?l = Ret (Inr (window ?bytes ?off ?l))"
      using assms(3) by (simp add: ec_image_read_pdo_def ab in_image_def)
    then show ?thesis
      using True assms(1) read_pdo_local [OF True assms(2), of oc]
      by (simp add: eth_read_symbol_def ec_image_ops_def ec_read_symbol_def ec_read_def ec_image_read_def)
  next
    case False
    then have "length ?bytes < ?off + ?l" using assms(4) by (simp add: in_image_def)
    then show ?thesis
      using False assms(1,3)
      by (simp add: eth_read_symbol_def ec_image_ops_def ec_image_read_pdo_def ab ec_read_symbol_def
          ec_read_def ec_image_read_def read_pdo_value_def Let_def)
  qed
qed

theorem ethercat_transport_reads_image_witness:
  "eth_read_symbol True (ec_image_ops True)
     \<lparr> eth_bindings = [(''SPEED'', demo_pdo 3 PdoI16)], eth_transport = ec_image_new 2 4 \<rparr>
     (demo_symbol ''speed'' '''' DirOutput)
   = Ret (Inl (UnexpectedEof ''EtherCAT PDO read is outside the process image''))"
proof -
  let ?h = "\<lparr> eth_bindings = [(''SPEED'', demo_pdo 3 PdoI16)], eth_transport = ec_image_new 2 4 \<rparr>"
  have p: "eth_point_for ?h (demo_symbol ''speed'' '''' DirOutput) = Some (demo_pdo 3 PdoI16)"
    by code_simp
  show ?thesis
    using ethercat_transport_reads_image [OF p, where oc = True]
    by (simp add: bit_ok_def demo_pdo_def usize_max_def ec_area_bytes_def ec_image_new_def in_image_def)
qed

text \<open>An offset that overflows \<open>usize\<close> when the length of the point is added is not
  reported as outside the image: reading such a point panics, with overflow checks always
  and without them for every type but a bit once the image has eight bytes. The mapping
  parser accepts such offsets.\<close>

theorem ethercat_offset_overflow_panics:
  assumes "usize_max < ec_byte_offset p + byte_len (ec_value_type p)"
    and "ec_byte_offset p \<le> usize_max" and "length bytes \<le> nat i64_max"
    and "oc \<or> (ec_value_type p \<noteq> PdoBool \<and> 8 \<le> length bytes)"
  shows "read_pdo_value oc bytes p = Panic"
proof (cases oc)
  case True
  then show ?thesis using assms(1) by (simp add: read_pdo_value_def Let_def usize_arith_def)
next
  case False
  define e where "e = wrap_usize (ec_byte_offset p + byte_len (ec_value_type p))"
  have ar: "usize_arith oc (ec_byte_offset p + byte_len (ec_value_type p)) = Ret e"
    using False assms(1) by (simp add: usize_arith_def e_def)
  have l: "byte_len (ec_value_type p) \<le> 8"
    by (cases "ec_value_type p"; simp)
  have "e = ec_byte_offset p + byte_len (ec_value_type p) - 18446744073709551616"
    using assms(1,2) l by (simp add: e_def wrap_usize_def usize_max_def le_mod_geq)
  then have e: "e \<le> 7" "e < ec_byte_offset p"
    using assms(1,2) l by (simp_all add: usize_max_def)
  have "length bytes \<le> ec_byte_offset p"
    using assms(1,3) l by (simp add: i64_max_def usize_max_def)
  then show ?thesis
    using False assms(4) ar e
    by (cases "ec_value_type p") (simp_all add: read_pdo_value_def Let_def byte_at_def slice_def)
qed

theorem ethercat_offset_overflow_panics_witness:
  "case ec_point_parse ''1:0x10:1:input:18446744073709551615:u16'' of
     Some p \<Rightarrow> read_pdo_value False (replicate 16 0) p = Panic | None \<Rightarrow> False"
proof -
  let ?p = "\<lparr> ec_slave = 1, ec_index = 0x10, ec_subindex = 1, ec_area = EcInput,
     ec_byte_offset = 18446744073709551615, ec_bit_offset = 0, ec_value_type = PdoU16 \<rparr>"
  have p: "ec_point_parse ''1:0x10:1:input:18446744073709551615:u16'' = Some ?p"
    by code_simp
  have "read_pdo_value False (replicate 16 0) ?p = Panic"
    by (rule ethercat_offset_overflow_panics) (simp_all add: usize_max_def i64_max_def)
  then show ?thesis by (simp add: p)
qed

end
