(* ===== verification/TargetRos2.thy ===== *)
theory TargetRos2
  imports TargetHal
begin

text \<open>
  The ROS 2 adapters of \<open>rbcpp_target/src/lib.rs\<close>: points and their text form, the
  in-memory bridge (\<open>Ros2Bridge\<close>, at once an adapter and a transport), the transport
  interface and the adapter over a transport (\<open>Ros2TransportHal\<close>).
\<close>

section \<open>Points\<close>

datatype ros2_direction = Subscribe | Publish | Parameter

definition ros2_direction_parse :: "string \<Rightarrow> ros2_direction option" where
  "ros2_direction_parse input = (let s = to_ascii_lowercase input in
      if s \<in> {''sub'', ''subscribe'', ''subscription'', ''input''} then Some Subscribe
      else if s \<in> {''pub'', ''publish'', ''publisher'', ''output''} then Some Publish
      else if s \<in> {''param'', ''parameter'', ''cfg'', ''config''} then Some Parameter
      else None)"

definition ros2_readable :: "ros2_direction \<Rightarrow> bool" where
  "ros2_readable d \<longleftrightarrow> d = Subscribe \<or> d = Parameter"

definition ros2_writable :: "ros2_direction \<Rightarrow> bool" where
  "ros2_writable d \<longleftrightarrow> d = Publish \<or> d = Parameter"

record ros2_point =
  rp_direction :: ros2_direction
  rp_name :: string

definition ros2_point_parse :: "string \<Rightarrow> ros2_point option" where
  "ros2_point_parse input =
     Option.bind (split_once (CHR '':'') input) (\<lambda>(d, n).
     Option.bind (ros2_direction_parse (trim d)) (\<lambda>direction.
       let name = trim n
       in if name \<noteq> [] then Some \<lparr> rp_direction = direction, rp_name = name \<rparr> else None))"

section \<open>The bridge\<close>

record ros2_message =
  msg_topic :: string
  msg_value :: val

record ros2_bridge =
  rb_bindings :: "(string, ros2_point) bmap"
  rb_values :: "(string, val) bmap"
  rb_published :: "ros2_message list"

definition ros2_bridge_new :: ros2_bridge where
  "ros2_bridge_new = \<lparr> rb_bindings = [], rb_values = [], rb_published = [] \<rparr>"

definition ros2_bind_location :: "ros2_bridge \<Rightarrow> string \<Rightarrow> ros2_point \<Rightarrow> ros2_bridge" where
  "ros2_bind_location b location p =
     b\<lparr>rb_bindings := bt_insert (canonical_key location) p (rb_bindings b)\<rparr>"

definition ros2_bind_name :: "ros2_bridge \<Rightarrow> string \<Rightarrow> ros2_point \<Rightarrow> ros2_bridge" where
  "ros2_bind_name b name p =
     b\<lparr>rb_bindings := bt_insert (canonical_key name) p (rb_bindings b)\<rparr>"

definition ros2_receive :: "ros2_bridge \<Rightarrow> string \<Rightarrow> val \<Rightarrow> ros2_bridge" where
  "ros2_receive b topic v = b\<lparr>rb_values := bt_insert (topic_key topic) v (rb_values b)\<rparr>"

definition ros2_set_parameter :: "ros2_bridge \<Rightarrow> string \<Rightarrow> val \<Rightarrow> ros2_bridge" where
  "ros2_set_parameter b name v = b\<lparr>rb_values := bt_insert (topic_key name) v (rb_values b)\<rparr>"

definition ros2_take_published :: "ros2_bridge \<Rightarrow> ros2_message list \<times> ros2_bridge" where
  "ros2_take_published b = (rb_published b, b\<lparr>rb_published := []\<rparr>)"

definition ros2_point_for :: "ros2_bridge \<Rightarrow> io_symbol \<Rightarrow> ros2_point option" where
  "ros2_point_for b sy = lookup_symbol (rb_bindings b) sy"

definition ros2_read :: "ros2_bridge \<Rightarrow> io_symbol \<Rightarrow> val option" where
  "ros2_read b sy =
     Option.bind (ros2_point_for b sy) (\<lambda>p.
       if \<not> ros2_readable (rp_direction p) then None
       else bt_get (rb_values b) (topic_key (rp_name p)))"

definition ros2_write :: "ros2_bridge \<Rightarrow> io_symbol \<Rightarrow> val \<Rightarrow> bool \<times> ros2_bridge" where
  "ros2_write b sy v =
     (case ros2_point_for b sy of
        None \<Rightarrow> (False, b)
      | Some p \<Rightarrow>
          if \<not> ros2_writable (rp_direction p) then (False, b)
          else if rp_direction p = Parameter
          then (True, b\<lparr>rb_values := bt_insert (topic_key (rp_name p)) v (rb_values b)\<rparr>)
          else (True, b\<lparr>rb_published :=
                   rb_published b @ [\<lparr> msg_topic = rp_name p, msg_value = v \<rparr>]\<rparr>))"

definition ros2_read_symbol :: "ros2_bridge \<Rightarrow> io_symbol \<Rightarrow> val option io_result outcome" where
  "ros2_read_symbol b sy = Ret (Inr (ros2_read b sy))"

definition ros2_write_symbol ::
    "ros2_bridge \<Rightarrow> io_symbol \<Rightarrow> val \<Rightarrow> (bool io_result \<times> ros2_bridge) outcome" where
  "ros2_write_symbol b sy v = (case ros2_write b sy v of (ok, b') \<Rightarrow> Ret (Inr ok, b'))"

definition ros2_bound :: "ros2_bridge \<Rightarrow> io_symbol \<Rightarrow> bool" where
  "ros2_bound b sy \<longleftrightarrow> ros2_point_for b sy \<noteq> None"

definition load_ros2_mapping :: "string \<Rightarrow> ros2_bridge" where
  "load_ros2_mapping text =
     \<lparr> rb_bindings = load_bindings ros2_point_parse text, rb_values = [], rb_published = [] \<rparr>"

interpretation rhal: target_hal ros2_read_symbol ros2_write_symbol ros2_bound
proof
  fix h :: ros2_bridge and s v h' r t
  show "\<not> ros2_bound h s \<Longrightarrow> ros2_read_symbol h s = Ret (Inr None)"
    by (simp add: ros2_bound_def ros2_read_symbol_def ros2_read_def)
  show "\<not> ros2_bound h s \<Longrightarrow> \<exists>r. ros2_write_symbol h s v = Ret (r, h) \<and> r \<noteq> Inr True"
    by (simp add: ros2_bound_def ros2_write_symbol_def ros2_write_def)
  show "ros2_write_symbol h s v = Ret (Inr False, h') \<Longrightarrow> h' = h"
    by (auto simp: ros2_write_symbol_def ros2_write_def split: option.splits if_splits)
  show "ros2_write_symbol h s v = Ret (r, h') \<Longrightarrow> ros2_bound h' t = ros2_bound h t"
    by (auto simp: ros2_write_symbol_def ros2_write_def ros2_bound_def ros2_point_for_def
        split: option.splits if_splits)
qed

section \<open>Transports\<close>

record 't ros2_ops =
  op_read_subscription :: "'t \<Rightarrow> string \<Rightarrow> val option io_result"
  op_read_parameter :: "'t \<Rightarrow> string \<Rightarrow> val option io_result"
  op_publish :: "'t \<Rightarrow> string \<Rightarrow> val \<Rightarrow> bool io_result \<times> 't"
  op_set_parameter :: "'t \<Rightarrow> string \<Rightarrow> val \<Rightarrow> bool io_result \<times> 't"

text \<open>\<open>impl Ros2Transport for Ros2Bridge\<close>.\<close>

definition bridge_read_topic :: "ros2_bridge \<Rightarrow> string \<Rightarrow> val option io_result" where
  "bridge_read_topic b topic = Inr (bt_get (rb_values b) (topic_key topic))"

definition bridge_publish :: "ros2_bridge \<Rightarrow> string \<Rightarrow> val \<Rightarrow> bool io_result \<times> ros2_bridge" where
  "bridge_publish b topic v =
     (Inr True, b\<lparr>rb_published := rb_published b @ [\<lparr> msg_topic = topic, msg_value = v \<rparr>]\<rparr>)"

definition bridge_set_parameter :: "ros2_bridge \<Rightarrow> string \<Rightarrow> val \<Rightarrow> bool io_result \<times> ros2_bridge" where
  "bridge_set_parameter b name v =
     (Inr True, b\<lparr>rb_values := bt_insert (topic_key name) v (rb_values b)\<rparr>)"

definition ros2_bridge_ops :: "ros2_bridge ros2_ops" where
  "ros2_bridge_ops =
     \<lparr> op_read_subscription = bridge_read_topic, op_read_parameter = bridge_read_topic,
       op_publish = bridge_publish, op_set_parameter = bridge_set_parameter \<rparr>"

record 't ros2_transport_hal =
  rth_bindings :: "(string, ros2_point) bmap"
  rth_transport :: 't

definition ros2_transport_hal_new :: "'t \<Rightarrow> 't ros2_transport_hal" where
  "ros2_transport_hal_new t = \<lparr> rth_bindings = [], rth_transport = t \<rparr>"

definition rth_bind_location ::
    "'t ros2_transport_hal \<Rightarrow> string \<Rightarrow> ros2_point \<Rightarrow> 't ros2_transport_hal" where
  "rth_bind_location h location p =
     h\<lparr>rth_bindings := bt_insert (canonical_key location) p (rth_bindings h)\<rparr>"

definition rth_bind_name ::
    "'t ros2_transport_hal \<Rightarrow> string \<Rightarrow> ros2_point \<Rightarrow> 't ros2_transport_hal" where
  "rth_bind_name h name p =
     h\<lparr>rth_bindings := bt_insert (canonical_key name) p (rth_bindings h)\<rparr>"

definition rth_point_for :: "'t ros2_transport_hal \<Rightarrow> io_symbol \<Rightarrow> ros2_point option" where
  "rth_point_for h sy = lookup_symbol (rth_bindings h) sy"

definition rth_read_symbol ::
    "'t ros2_ops \<Rightarrow> 't ros2_transport_hal \<Rightarrow> io_symbol \<Rightarrow> val option io_result outcome" where
  "rth_read_symbol ops h sy =
     Ret (case rth_point_for h sy of
        None \<Rightarrow> Inr None
      | Some p \<Rightarrow>
          (case rp_direction p of
             Subscribe \<Rightarrow> op_read_subscription ops (rth_transport h) (rp_name p)
           | Parameter \<Rightarrow> op_read_parameter ops (rth_transport h) (rp_name p)
           | Publish \<Rightarrow> Inr None))"

definition rth_write_symbol ::
    "'t ros2_ops \<Rightarrow> 't ros2_transport_hal \<Rightarrow> io_symbol \<Rightarrow> val
      \<Rightarrow> (bool io_result \<times> 't ros2_transport_hal) outcome" where
  "rth_write_symbol ops h sy v =
     Ret (case rth_point_for h sy of
        None \<Rightarrow> (Inr False, h)
      | Some p \<Rightarrow>
          (case rp_direction p of
             Publish \<Rightarrow> (case op_publish ops (rth_transport h) (rp_name p) v of
                 (r, t) \<Rightarrow> (r, h\<lparr>rth_transport := t\<rparr>))
           | Parameter \<Rightarrow> (case op_set_parameter ops (rth_transport h) (rp_name p) v of
                 (r, t) \<Rightarrow> (r, h\<lparr>rth_transport := t\<rparr>))
           | Subscribe \<Rightarrow> (Inr False, h)))"

definition rth_bound :: "'t ros2_transport_hal \<Rightarrow> io_symbol \<Rightarrow> bool" where
  "rth_bound h sy \<longleftrightarrow> rth_point_for h sy \<noteq> None"

definition load_ros2_transport_mapping :: "'t \<Rightarrow> string \<Rightarrow> 't ros2_transport_hal" where
  "load_ros2_transport_mapping t text =
     \<lparr> rth_bindings = load_bindings ros2_point_parse text, rth_transport = t \<rparr>"

text \<open>The contract: a refusal changes nothing, an accepted parameter is read back.\<close>

locale ros2_transport =
  fixes ops :: "'t ros2_ops"
  assumes publish_refused: "op_publish ops t n v = (Inr False, t') \<Longrightarrow> t' = t"
    and parameter_refused: "op_set_parameter ops t n v = (Inr False, t') \<Longrightarrow> t' = t"
    and parameter_read_back:
      "op_set_parameter ops t n v = (Inr True, t') \<Longrightarrow> op_read_parameter ops t' n = Inr (Some v)"
begin

lemma rth_parameter_read_back:
  assumes "rth_write_symbol ops h sy v = Ret (Inr True, h')"
    and "rth_point_for h sy = Some p" "rp_direction p = Parameter"
  shows "rth_read_symbol ops h' sy = Ret (Inr (Some v))"
  using assms
  by (auto simp: rth_write_symbol_def rth_read_symbol_def rth_point_for_def parameter_read_back
      split: prod.splits)

end

sublocale ros2_transport \<subseteq> hal: target_hal "rth_read_symbol ops" "rth_write_symbol ops" rth_bound
proof
  fix h :: "'t ros2_transport_hal" and s v h' r t
  show "\<not> rth_bound h s \<Longrightarrow> rth_read_symbol ops h s = Ret (Inr None)"
    by (simp add: rth_bound_def rth_read_symbol_def)
  show "\<not> rth_bound h s \<Longrightarrow> \<exists>r. rth_write_symbol ops h s v = Ret (r, h) \<and> r \<noteq> Inr True"
    by (simp add: rth_bound_def rth_write_symbol_def)
  show "rth_write_symbol ops h s v = Ret (Inr False, h') \<Longrightarrow> h' = h"
    by (auto simp: rth_write_symbol_def dest: publish_refused parameter_refused
        split: option.splits ros2_direction.splits prod.splits)
  show "rth_write_symbol ops h s v = Ret (r, h') \<Longrightarrow> rth_bound h' t = rth_bound h t"
    by (auto simp: rth_write_symbol_def rth_bound_def rth_point_for_def
        split: option.splits ros2_direction.splits prod.splits)
qed

interpretation bridge_transport: ros2_transport ros2_bridge_ops
  by unfold_locales
    (auto simp: ros2_bridge_ops_def bridge_publish_def bridge_set_parameter_def bridge_read_topic_def)

section \<open>Properties\<close>

text \<open>The bridge as an adapter. A parameter point reads back what was written to it, a
  published value is appended to the queue of messages under the point's topic and is not
  readable, and a write to a subscription or to an unbound symbol is refused and changes
  nothing. Writes never drop or reorder queued messages.\<close>

theorem ros2_write_effect:
  "case ros2_write b sy v of (ok, b') \<Rightarrow>
     rb_bindings b' = rb_bindings b \<and>
     (case ros2_point_for b sy of
        None \<Rightarrow> \<not> ok \<and> b' = b
      | Some p \<Rightarrow>
          (case rp_direction p of
             Subscribe \<Rightarrow> \<not> ok \<and> b' = b
           | Publish \<Rightarrow> ok \<and> ros2_read b' sy = None \<and> rb_values b' = rb_values b \<and>
               rb_published b' = rb_published b @ [\<lparr> msg_topic = rp_name p, msg_value = v \<rparr>]
           | Parameter \<Rightarrow> ok \<and> ros2_read b' sy = Some v \<and> rb_published b' = rb_published b \<and>
               (\<forall>k. k \<noteq> topic_key (rp_name p) \<longrightarrow> bt_get (rb_values b') k = bt_get (rb_values b) k)))"
  by (auto simp: ros2_write_def ros2_read_def ros2_point_for_def ros2_writable_def ros2_readable_def
      split: option.split ros2_direction.split)

theorem ros2_write_effect_witness:
  "let b = load_ros2_mapping ''gain, param:/ctrl/gain'';
       sy = demo_symbol ''Gain'' '''' DirMemory
   in ros2_read (snd (ros2_write b sy (VInt 5))) sy = Some (VInt 5) \<and>
      bt_get (rb_values (snd (ros2_write b sy (VInt 5)))) ''/other'' = None"
proof -
  let ?b = "load_ros2_mapping ''gain, param:/ctrl/gain''"
  let ?sy = "demo_symbol ''Gain'' '''' DirMemory"
  let ?p = "\<lparr> rp_direction = Parameter, rp_name = ''/ctrl/gain'' \<rparr>"
  have p: "ros2_point_for ?b ?sy = Some ?p" by code_simp
  have k: "topic_key (rp_name ?p) \<noteq> ''/other''" "bt_get (rb_values ?b) ''/other'' = None"
    by code_simp+
  show ?thesis
    using ros2_write_effect [of ?b ?sy "VInt 5"] k
    by (simp add: p split: prod.splits)
qed

definition bridge_of :: "ros2_bridge ros2_transport_hal \<Rightarrow> ros2_bridge" where
  "bridge_of h = (rth_transport h)\<lparr>rb_bindings := rth_bindings h\<rparr>"

text \<open>Over the in-memory bridge, \<open>Ros2TransportHal\<close> answers every read and write as the
  bridge with the adapter's bindings does, and leaves the same values and the same queue of
  messages.\<close>

theorem ros2_transport_is_bridge:
  "rth_read_symbol ros2_bridge_ops h sy = ros2_read_symbol (bridge_of h) sy \<and>
   omap (map_prod id bridge_of) (rth_write_symbol ros2_bridge_ops h sy v) =
     ros2_write_symbol (bridge_of h) sy v"
  by (auto simp: rth_read_symbol_def ros2_read_symbol_def ros2_read_def rth_write_symbol_def
      ros2_write_symbol_def ros2_write_def bridge_of_def rth_point_for_def ros2_point_for_def
      ros2_bridge_ops_def bridge_read_topic_def bridge_publish_def bridge_set_parameter_def
      ros2_readable_def ros2_writable_def split: option.split ros2_direction.split)

end
