(* ===== verification/TargetSafety.thy ===== *)
theory TargetSafety
  imports TargetModbus TargetRos2
begin

text \<open>
  The safety parts of \<open>rbcpp_target/src/lib.rs\<close>: the cycle watchdog, the safety gate with
  its latched fault, and \<open>SafetyHal\<close>, the adapter that puts the gate in front of another
  one. A point of time is a natural number (nanoseconds of the monotonic clock); every
  \<open>Instant::now()\<close> of the code is an argument \<open>now\<close>. The gate is a state machine whose
  runs are the lists of the updates it gets.
\<close>

section \<open>The watchdog\<close>

record cycle_watchdog =
  wd_timeout :: nat
  wd_last_pet :: nat

definition watchdog_new :: "nat \<Rightarrow> nat \<Rightarrow> cycle_watchdog" where
  "watchdog_new timeout now = \<lparr> wd_timeout = timeout, wd_last_pet = now \<rparr>"

definition watchdog_pet :: "cycle_watchdog \<Rightarrow> nat \<Rightarrow> cycle_watchdog" where
  "watchdog_pet w now = w\<lparr>wd_last_pet := now\<rparr>"

text \<open>\<open>elapsed\<close> is zero when the clock reading is not later.\<close>

definition watchdog_is_expired :: "cycle_watchdog \<Rightarrow> nat \<Rightarrow> bool" where
  "watchdog_is_expired w now \<longleftrightarrow> now - wd_last_pet w > wd_timeout w"

lemma expired_mono: "watchdog_is_expired w now \<Longrightarrow> now \<le> later \<Longrightarrow> watchdog_is_expired w later"
  by (simp add: watchdog_is_expired_def)

lemma not_expired_pet [simp]: "\<not> watchdog_is_expired (watchdog_pet w now) now"
  by (simp add: watchdog_is_expired_def watchdog_pet_def)

section \<open>The gate\<close>

record safety_inputs =
  in_emergency_stop :: bool
  in_protective_stop :: bool
  in_operator_enable :: bool
  in_reset :: bool

definition safety_inputs_default :: safety_inputs where
  "safety_inputs_default = \<lparr> in_emergency_stop = False, in_protective_stop = False,
     in_operator_enable = False, in_reset = False \<rparr>"

record safety_state =
  emergency_stop :: bool
  protective_stop :: bool
  watchdog_expired :: bool
  fault_latched :: bool
  outputs_enabled :: bool

definition safety_state_default :: safety_state where
  "safety_state_default = \<lparr> emergency_stop = False, protective_stop = False,
     watchdog_expired = False, fault_latched = False, outputs_enabled = False \<rparr>"

datatype safety_trip = EmergencyStop | ProtectiveStop | WatchdogExpired | FaultLatched | NotEnabled

primrec display_trip :: "safety_trip \<Rightarrow> string" where
  "display_trip EmergencyStop = ''emergency stop is active''"
| "display_trip ProtectiveStop = ''protective stop is active''"
| "display_trip WatchdogExpired = ''cycle watchdog expired''"
| "display_trip FaultLatched = ''safety fault is latched''"
| "display_trip NotEnabled = ''operator enable is not active''"

record safety_gate =
  require_operator_enable :: bool
  gate_state :: safety_state

definition safety_gate_new :: "bool \<Rightarrow> safety_gate" where
  "safety_gate_new require =
     \<lparr> require_operator_enable = require, gate_state = safety_state_default \<rparr>"

definition safety_gate_update :: "safety_gate \<Rightarrow> safety_inputs \<Rightarrow> bool \<Rightarrow> safety_gate \<times> safety_state" where
  "safety_gate_update g inp wd_expired =
     (let active_trip = (in_emergency_stop inp \<or> in_protective_stop inp \<or> wd_expired);
          latched = (if active_trip then True
                     else if in_reset inp then False
                     else fault_latched (gate_state g));
          enabled = (\<not> latched \<and> (\<not> require_operator_enable g \<or> in_operator_enable inp));
          st = (gate_state g)\<lparr>emergency_stop := in_emergency_stop inp,
                 protective_stop := in_protective_stop inp,
                 watchdog_expired := wd_expired,
                 fault_latched := latched,
                 outputs_enabled := enabled\<rparr>
      in (g\<lparr>gate_state := st\<rparr>, st))"

definition check_output_write :: "safety_gate \<Rightarrow> io_symbol \<Rightarrow> safety_trip + unit" where
  "check_output_write g sy =
     (if sym_direction sy \<noteq> DirOutput then Inr ()
      else if emergency_stop (gate_state g) then Inl EmergencyStop
      else if protective_stop (gate_state g) then Inl ProtectiveStop
      else if watchdog_expired (gate_state g) then Inl WatchdogExpired
      else if fault_latched (gate_state g) then Inl FaultLatched
      else if \<not> outputs_enabled (gate_state g) then Inl NotEnabled
      else Inr ())"

definition gate_write_symbol ::
    "('h \<Rightarrow> io_symbol \<Rightarrow> val \<Rightarrow> (bool io_result \<times> 'h) outcome) \<Rightarrow>
     safety_gate \<Rightarrow> 'h \<Rightarrow> io_symbol \<Rightarrow> val \<Rightarrow> ((safety_trip + bool) \<times> 'h) outcome" where
  "gate_write_symbol wr g h sy v =
     (case check_output_write g sy of
        Inl trip \<Rightarrow> Ret (Inl trip, h)
      | Inr _ \<Rightarrow> omap (\<lambda>(r, h'). (case r of Inl e \<Rightarrow> Inl FaultLatched | Inr ok \<Rightarrow> Inr ok, h')) (wr h sy v))"

section \<open>The adapter behind the gate\<close>

record 'h safety_hal =
  sh_hal :: 'h
  sh_gate :: safety_gate

definition safety_hal_new :: "'h \<Rightarrow> safety_gate \<Rightarrow> 'h safety_hal" where
  "safety_hal_new h g = \<lparr> sh_hal = h, sh_gate = g \<rparr>"

definition safety_read_symbol ::
    "('h \<Rightarrow> io_symbol \<Rightarrow> val option io_result outcome) \<Rightarrow>
     'h safety_hal \<Rightarrow> io_symbol \<Rightarrow> val option io_result outcome" where
  "safety_read_symbol rd s sy = rd (sh_hal s) sy"

definition safety_write_symbol ::
    "('h \<Rightarrow> io_symbol \<Rightarrow> val \<Rightarrow> (bool io_result \<times> 'h) outcome) \<Rightarrow>
     'h safety_hal \<Rightarrow> io_symbol \<Rightarrow> val \<Rightarrow> (bool io_result \<times> 'h safety_hal) outcome" where
  "safety_write_symbol wr s sy v =
     (case check_output_write (sh_gate s) sy of
        Inl trip \<Rightarrow> Ret (Inl (PermissionDenied (display_trip trip)), s)
      | Inr _ \<Rightarrow> omap (\<lambda>(r, h). (r, s\<lparr>sh_hal := h\<rparr>)) (wr (sh_hal s) sy v))"

definition safety_bound :: "('h \<Rightarrow> io_symbol \<Rightarrow> bool) \<Rightarrow> 'h safety_hal \<Rightarrow> io_symbol \<Rightarrow> bool" where
  "safety_bound bound s sy \<longleftrightarrow> bound (sh_hal s) sy"

lemma safety_write_cases:
  assumes "safety_write_symbol wr s sy v = Ret (r, s')"
  obtains (blocked) e where "r = Inl e" "s' = s"
  | (passed) h where "wr (sh_hal s) sy v = Ret (r, h)" "s' = s\<lparr>sh_hal := h\<rparr>"
proof (cases "check_output_write (sh_gate s) sy")
  case (Inl trip)
  with assms have "r = Inl (PermissionDenied (display_trip trip))" "s' = s"
    by (auto simp: safety_write_symbol_def)
  then show ?thesis by (rule blocked)
next
  case (Inr u)
  with assms have "omap (\<lambda>(r, h). (r, s\<lparr>sh_hal := h\<rparr>)) (wr (sh_hal s) sy v) = Ret (r, s')"
    by (simp add: safety_write_symbol_def)
  then show ?thesis
    by (cases "wr (sh_hal s) sy v") (simp_all add: passed split: prod.splits)
qed

text \<open>The gate keeps the contract of the adapter behind it.\<close>

locale gated_hal = target_hal rd wr bound
  for rd :: "'h \<Rightarrow> io_symbol \<Rightarrow> val option io_result outcome"
    and wr :: "'h \<Rightarrow> io_symbol \<Rightarrow> val \<Rightarrow> (bool io_result \<times> 'h) outcome"
    and bound :: "'h \<Rightarrow> io_symbol \<Rightarrow> bool"
begin

lemma blocked_write:
  "check_output_write (sh_gate s) sy = Inl trip \<Longrightarrow>
     safety_write_symbol wr s sy v = Ret (Inl (PermissionDenied (display_trip trip)), s)"
  by (simp add: safety_write_symbol_def)

lemma gate_kept: "safety_write_symbol wr s sy v = Ret (r, s') \<Longrightarrow> sh_gate s' = sh_gate s"
  by (erule safety_write_cases) simp_all

end

sublocale gated_hal \<subseteq> safe: target_hal "safety_read_symbol rd" "safety_write_symbol wr" "safety_bound bound"
proof
  fix h :: "'h safety_hal" and s v h' r t
  show "\<not> safety_bound bound h s \<Longrightarrow> safety_read_symbol rd h s = Ret (Inr None)"
    by (simp add: safety_bound_def safety_read_symbol_def unbound_read)
  show "\<not> safety_bound bound h s \<Longrightarrow> \<exists>r. safety_write_symbol wr h s v = Ret (r, h) \<and> r \<noteq> Inr True"
    using unbound_write [of "sh_hal h" s v]
    by (auto simp: safety_bound_def safety_write_symbol_def split: sum.splits)
  show "h' = h" if w: "safety_write_symbol wr h s v = Ret (Inr False, h')"
    using w
  proof (cases rule: safety_write_cases)
    case (passed h1)
    have "h1 = sh_hal h" by (rule refused_unchanged [OF passed(1)])
    with passed(2) show ?thesis by simp
  qed
  show "safety_bound bound h' t = safety_bound bound h t" if w: "safety_write_symbol wr h s v = Ret (r, h')"
    using w
  proof (cases rule: safety_write_cases)
    case (passed h1)
    have "bound h1 t = bound (sh_hal h) t" by (rule bound_stable [OF passed(1)])
    with passed(2) show ?thesis by (simp add: safety_bound_def)
  qed simp
qed

text \<open>While the gate is closed, no sequence of writes to outputs reaches the adapter.\<close>

context gated_hal begin

lemma closed_gate_holds:
  "\<forall>w \<in> set ws. \<exists>trip. check_output_write (sh_gate s) (fst w) = Inl trip \<Longrightarrow> safe.write_all s ws = Ret s"
  by (induction ws) (auto simp: safety_write_symbol_def)

lemma open_gate_passes:
  "check_output_write (sh_gate s) sy = Inr () \<Longrightarrow>
     safety_write_symbol wr s sy v = omap (\<lambda>(r, h). (r, s\<lparr>sh_hal := h\<rparr>)) (wr (sh_hal s) sy v)"
  by (simp add: safety_write_symbol_def)

end

interpretation gated_files: gated_hal file_read_symbol file_write_symbol file_bound
  by unfold_locales

interpretation gated_modbus: gated_hal modbus_read_symbol modbus_write_symbol modbus_bound
  by unfold_locales

interpretation gated_ros2: gated_hal ros2_read_symbol ros2_write_symbol ros2_bound
  by unfold_locales

section \<open>Runs of the gate\<close>

definition trips :: "safety_inputs \<times> bool \<Rightarrow> bool" where
  "trips u \<longleftrightarrow> in_emergency_stop (fst u) \<or> in_protective_stop (fst u) \<or> snd u"

definition clears :: "safety_inputs \<times> bool \<Rightarrow> bool" where
  "clears u \<longleftrightarrow> in_reset (fst u) \<and> \<not> trips u"

definition gate_run :: "safety_gate \<Rightarrow> (safety_inputs \<times> bool) list \<Rightarrow> safety_gate" where
  "gate_run g us = fold (\<lambda>u g. fst (safety_gate_update g (fst u) (snd u))) us g"

inductive gate_reachable :: "safety_gate \<Rightarrow> bool" where
  fresh: "gate_reachable (safety_gate_new r)"
| step: "gate_reachable g \<Longrightarrow> gate_reachable (fst (safety_gate_update g inp wd))"

inductive_cases gate_reachableE: "gate_reachable g"

definition gate_ok :: "safety_gate \<Rightarrow> bool" where
  "gate_ok g \<longleftrightarrow> (let st = gate_state g in
     ((emergency_stop st \<or> protective_stop st \<or> watchdog_expired st) \<longrightarrow> fault_latched st) \<and>
     (outputs_enabled st \<longrightarrow> \<not> fault_latched st))"

lemma gate_ok_new [simp]: "gate_ok (safety_gate_new r)"
  by (simp add: gate_ok_def safety_gate_new_def safety_state_default_def)

lemma gate_ok_update [simp]: "gate_ok (fst (safety_gate_update g inp wd))"
  by (simp add: gate_ok_def safety_gate_update_def Let_def)

lemma gate_reachable_ok: "gate_reachable g \<Longrightarrow> gate_ok g"
  by (induction rule: gate_reachable.induct) simp_all

lemma gate_run_reachable: "gate_reachable g \<Longrightarrow> gate_reachable (gate_run g us)"
  by (induction us arbitrary: g) (auto simp: gate_run_def intro: gate_reachable.step)

lemma check_output_Inr_iff:
  "check_output_write g sy = Inr () \<longleftrightarrow> sym_direction sy \<noteq> DirOutput \<or>
     (\<not> emergency_stop (gate_state g) \<and> \<not> protective_stop (gate_state g) \<and>
      \<not> watchdog_expired (gate_state g) \<and> \<not> fault_latched (gate_state g) \<and> outputs_enabled (gate_state g))"
  by (simp add: check_output_write_def)

lemma safety_gate_update_facts:
  assumes "safety_gate_update g inp wd = (g', st)"
  shows "gate_state g' = st" "watchdog_expired st = wd"
    "in_emergency_stop inp \<or> in_protective_stop inp \<or> wd \<Longrightarrow> fault_latched st"
    "fault_latched st \<Longrightarrow> \<not> outputs_enabled st"
proof -
  have st: "st = snd (safety_gate_update g inp wd)" and g': "g' = fst (safety_gate_update g inp wd)"
    using assms by simp_all
  show "gate_state g' = st" "watchdog_expired st = wd"
    "in_emergency_stop inp \<or> in_protective_stop inp \<or> wd \<Longrightarrow> fault_latched st"
    "fault_latched st \<Longrightarrow> \<not> outputs_enabled st"
    unfolding st g' by (auto simp: safety_gate_update_def Let_def split: if_splits)
qed

lemma update_latched:
  "fault_latched (gate_state (fst (safety_gate_update g inp wd))) \<longleftrightarrow>
     trips (inp, wd) \<or> (fault_latched (gate_state g) \<and> \<not> clears (inp, wd))"
  by (auto simp: safety_gate_update_def Let_def trips_def clears_def)

lemma update_require [simp]:
  "require_operator_enable (fst (safety_gate_update g inp wd)) = require_operator_enable g"
  by (simp add: safety_gate_update_def Let_def)

lemma gate_run_require [simp]: "require_operator_enable (gate_run g us) = require_operator_enable g"
  by (induction us arbitrary: g) (simp_all add: gate_run_def)

lemma gate_run_snoc:
  "gate_run g (us @ [u]) = fst (safety_gate_update (gate_run g us) (fst u) (snd u))"
  by (simp add: gate_run_def)

text \<open>A fault is latched after a run exactly when something tripped and nothing cleared it
  afterwards.\<close>

definition pending_trip :: "(safety_inputs \<times> bool) list \<Rightarrow> bool" where
  "pending_trip us \<longleftrightarrow>
     (\<exists>i < length us. trips (us ! i) \<and> (\<forall>j < length us. i < j \<longrightarrow> \<not> clears (us ! j)))"

lemma pending_trip_snoc:
  "pending_trip (us @ [u]) \<longleftrightarrow> trips u \<or> (pending_trip us \<and> \<not> clears u)"
proof
  assume "pending_trip (us @ [u])"
  then obtain i where i: "i < Suc (length us)" "trips ((us @ [u]) ! i)"
    "\<forall>j < Suc (length us). i < j \<longrightarrow> \<not> clears ((us @ [u]) ! j)"
    by (auto simp: pending_trip_def)
  show "trips u \<or> (pending_trip us \<and> \<not> clears u)"
  proof (cases "i = length us")
    case True
    with i(2) show ?thesis by simp
  next
    case False
    with i have "i < length us" "trips (us ! i)" "\<not> clears u"
      by (auto simp: nth_append)
    moreover have "\<not> clears (us ! j)" if "j < length us" "i < j" for j
      using i(3) [rule_format, of j] that by (simp add: nth_append)
    ultimately show ?thesis by (auto simp: pending_trip_def)
  qed
next
  assume "trips u \<or> (pending_trip us \<and> \<not> clears u)"
  then show "pending_trip (us @ [u])"
  proof
    assume "trips u"
    then show ?thesis
      unfolding pending_trip_def by (intro exI [of _ "length us"]) auto
  next
    assume p: "pending_trip us \<and> \<not> clears u"
    then obtain i where i: "i < length us" "trips (us ! i)"
      "\<forall>j < length us. i < j \<longrightarrow> \<not> clears (us ! j)"
      by (auto simp: pending_trip_def)
    have "\<not> clears ((us @ [u]) ! j)" if "j < Suc (length us)" "i < j" for j
      using p i(3) that by (cases "j = length us") (auto simp: nth_append)
    then show ?thesis
      using i(1,2) unfolding pending_trip_def by (intro exI [of _ i]) (auto simp: nth_append)
  qed
qed

section \<open>Properties\<close>

text \<open>C20: After any run of updates of a fresh gate the fault is latched exactly when an
  emergency stop, a protective stop or an expired watchdog occurred and no later update
  cleared it, that is, carried a reset while nothing was tripping. A reset during an active
  trip has no effect.\<close>

theorem fault_latched_iff_pending_trip:
  "fault_latched (gate_state (gate_run (safety_gate_new require) us)) \<longleftrightarrow> pending_trip us"
proof (induction us rule: rev_induct)
  case Nil
  show ?case
    by (simp add: gate_run_def safety_gate_new_def safety_state_default_def pending_trip_def)
next
  case (snoc u us)
  then show ?case
    by (simp add: gate_run_snoc update_latched pending_trip_snoc)
qed

text \<open>C21: In every reachable state of the gate, a write to an output is let through exactly
  when the outputs are enabled, and then no stop is active, the watchdog has not expired and
  no fault is latched; a write to any other symbol is always let through.\<close>

theorem reachable_gate_decides_outputs:
  assumes "gate_reachable g"
  shows "(check_output_write g sy = Inr ()) =
      (sym_direction sy \<noteq> DirOutput \<or> outputs_enabled (gate_state g)) \<and>
    (outputs_enabled (gate_state g) \<longrightarrow>
       \<not> emergency_stop (gate_state g) \<and> \<not> protective_stop (gate_state g) \<and>
       \<not> watchdog_expired (gate_state g) \<and> \<not> fault_latched (gate_state g))"
  using gate_reachable_ok [OF assms] by (auto simp: gate_ok_def check_output_write_def Let_def)

theorem reachable_gate_decides_outputs_witness:
  "let g = gate_run (safety_gate_new True)
        [(safety_inputs_default\<lparr>in_emergency_stop := True\<rparr>, False),
         (safety_inputs_default\<lparr>in_reset := True, in_operator_enable := True\<rparr>, False)]
   in outputs_enabled (gate_state g) \<and>
      check_output_write g (demo_symbol ''q'' ''%QX0.0'' DirOutput) = Inr ()"
proof -
  let ?us = "[(safety_inputs_default\<lparr>in_emergency_stop := True\<rparr>, False),
         (safety_inputs_default\<lparr>in_reset := True, in_operator_enable := True\<rparr>, False)]"
  have "outputs_enabled (gate_state (gate_run (safety_gate_new True) ?us))" by code_simp
  with reachable_gate_decides_outputs [OF gate_run_reachable [OF gate_reachable.fresh],
      of True ?us "demo_symbol ''q'' ''%QX0.0'' DirOutput"]
  show ?thesis by (simp add: Let_def)
qed

text \<open>The writes of a program to an adapter behind the gate, with what each of them returns.\<close>

primrec write_outputs ::
    "('h \<Rightarrow> io_symbol \<Rightarrow> val \<Rightarrow> (bool io_result \<times> 'h) outcome) \<Rightarrow> 'h safety_hal \<Rightarrow>
     (io_symbol \<times> val) list \<Rightarrow> (bool io_result list \<times> 'h safety_hal) outcome" where
  "write_outputs wr s [] = Ret ([], s)"
| "write_outputs wr s (w # ws) =
     obind (safety_write_symbol wr s (fst w) (snd w)) (\<lambda>(r, t).
       omap (\<lambda>(rs, u). (r # rs, u)) (write_outputs wr t ws))"

text \<open>C22: Behind a closed gate the outputs are frozen, whatever the adapter: any sequence of
  writes to output symbols through \<open>SafetyHal\<close> leaves the adapter and the gate as they were,
  and every one of the writes is refused with the trip that the gate gives for its symbol.\<close>

theorem closed_gate_freezes_outputs:
  assumes "gate_reachable (sh_gate s)" and "\<not> outputs_enabled (gate_state (sh_gate s))"
    and "\<forall>w \<in> set ws. sym_direction (fst w) = DirOutput"
  shows "\<exists>rs. write_outputs wr s ws = Ret (rs, s) \<and>
    list_all2 (\<lambda>w r. \<exists>trip. check_output_write (sh_gate s) (fst w) = Inl trip \<and>
      r = Inl (PermissionDenied (display_trip trip))) ws rs"
  using assms(3)
proof (induction ws)
  case (Cons w ws)
  have "check_output_write (sh_gate s) (fst w) \<noteq> Inr ()"
    using gate_reachable_ok [OF assms(1)] assms(2) Cons.prems
    by (auto simp: check_output_write_def gate_ok_def Let_def)
  then obtain trip where "check_output_write (sh_gate s) (fst w) = Inl trip"
    by (cases "check_output_write (sh_gate s) (fst w)") auto
  with Cons show ?case by (auto simp: safety_write_symbol_def)
qed simp

theorem closed_gate_freezes_outputs_witness:
  "\<exists>rs. write_outputs modbus_write_symbol (safety_hal_new demo_modbus (safety_gate_new True))
      [(demo_symbol ''lamp'' '''' DirOutput, VBool True)] =
    Ret (rs, safety_hal_new demo_modbus (safety_gate_new True))"
proof -
  let ?s = "safety_hal_new demo_modbus (safety_gate_new True)"
  have s: "gate_reachable (sh_gate ?s)" "\<not> outputs_enabled (gate_state (sh_gate ?s))"
    by (simp_all add: safety_hal_new_def gate_reachable.fresh)
      (simp add: safety_gate_new_def safety_state_default_def)
  show ?thesis
    using closed_gate_freezes_outputs [OF s, of "[(demo_symbol ''lamp'' '''' DirOutput, VBool True)]"
        modbus_write_symbol]
    by (auto simp: demo_symbol_def)
qed

end
