(* ===== verification/TargetAccess.thy ===== *)
theory TargetAccess
  imports TargetSafety
begin

text \<open>
  The retain store, the target state with its retained variables and the access paths of
  \<open>rbcpp_target/src/lib.rs\<close>. A retained value is a file below the store's directory; the
  access runtime maps the names of \<open>VAR_ACCESS\<close> paths to variables of the state or to
  symbols of an adapter, whose operations are arguments here (\<open>rd\<close>, \<open>wr\<close>).
\<close>

section \<open>The retain store\<close>

record retain_store =
  rs_root :: string

definition retain_file :: "string \<Rightarrow> string" where
  "retain_file name = safe_file_component name @ ''.retain''"

definition retain_path_for :: "retain_store \<Rightarrow> string \<Rightarrow> string" where
  "retain_path_for st name = path_join (rs_root st) (retain_file (canonical_key name))"

definition legacy_path_for :: "retain_store \<Rightarrow> string \<Rightarrow> string option" where
  "legacy_path_for st name =
     (let legacy = path_join (rs_root st) (retain_file name)
      in if legacy \<noteq> retain_path_for st name then Some legacy else None)"

definition retain_load :: "retain_store \<Rightarrow> fs \<Rightarrow> string \<Rightarrow> val option io_result" where
  "retain_load st f name =
     (let path = retain_path_for st name;
          found = (if fs_exists f path then Some path
                   else (case legacy_path_for st name of
                       Some legacy \<Rightarrow> if fs_exists f legacy then Some legacy else None
                     | None \<Rightarrow> None))
      in case found of
           None \<Rightarrow> Inr None
         | Some p \<Rightarrow>
             (case fs_read_to_string f p of
                Inl e \<Rightarrow> Inl e
              | Inr raw \<Rightarrow> Inr (Some (decode_typed_value (trim_end_newlines raw)))))"

definition retain_save :: "retain_store \<Rightarrow> fs \<Rightarrow> string \<Rightarrow> val \<Rightarrow> unit io_result \<times> fs" where
  "retain_save st f name v =
     (case fs_create_dir_all f (rs_root st) of
        (Inl e, f1) \<Rightarrow> (Inl e, f1)
      | (Inr _, f1) \<Rightarrow> fs_write f1 (retain_path_for st name) (encode_typed_value v))"

section \<open>The target state\<close>

record target_state =
  ts_values :: "(string, val) bmap"
  ts_retained :: "string list"

definition target_state_new :: target_state where
  "target_state_new = \<lparr> ts_values = [], ts_retained = [] \<rparr>"

definition ts_set :: "target_state \<Rightarrow> string \<Rightarrow> val \<Rightarrow> target_state" where
  "ts_set s target v = s\<lparr>ts_values := bt_insert (canonical_key target) v (ts_values s)\<rparr>"

definition ts_mark_retained :: "target_state \<Rightarrow> string \<Rightarrow> target_state" where
  "ts_mark_retained s target = s\<lparr>ts_retained := bs_insert (canonical_key target) (ts_retained s)\<rparr>"

definition ts_read :: "target_state \<Rightarrow> string \<Rightarrow> val option" where
  "ts_read s target = bt_get (ts_values s) (canonical_key target)"

definition ts_write :: "target_state \<Rightarrow> string \<Rightarrow> val \<Rightarrow> target_state" where
  "ts_write s target v = ts_set s target v"

text \<open>The loops over the retained names stop at the first error; what was loaded or saved
  before it stays.\<close>

fun load_targets :: "retain_store \<Rightarrow> fs \<Rightarrow> string list \<Rightarrow> target_state \<Rightarrow> unit io_result \<times> target_state" where
  "load_targets st f [] s = (Inr (), s)"
| "load_targets st f (t # ts) s =
     (case retain_load st f t of
        Inl e \<Rightarrow> (Inl e, s)
      | Inr None \<Rightarrow> load_targets st f ts s
      | Inr (Some v) \<Rightarrow> load_targets st f ts (s\<lparr>ts_values := bt_insert t v (ts_values s)\<rparr>))"

definition ts_load_retained :: "target_state \<Rightarrow> retain_store \<Rightarrow> fs \<Rightarrow> unit io_result \<times> target_state" where
  "ts_load_retained s st f = load_targets st f (ts_retained s) s"

fun save_targets :: "retain_store \<Rightarrow> (string, val) bmap \<Rightarrow> string list \<Rightarrow> fs \<Rightarrow> unit io_result \<times> fs" where
  "save_targets st values [] f = (Inr (), f)"
| "save_targets st values (t # ts) f =
     (case bt_get values t of
        None \<Rightarrow> save_targets st values ts f
      | Some v \<Rightarrow>
          (case retain_save st f t v of
             (Inl e, f1) \<Rightarrow> (Inl e, f1)
           | (Inr _, f1) \<Rightarrow> save_targets st values ts f1))"

definition ts_save_retained :: "target_state \<Rightarrow> retain_store \<Rightarrow> fs \<Rightarrow> unit io_result \<times> fs" where
  "ts_save_retained s st f = save_targets st (ts_values s) (ts_retained s) f"

section \<open>Access paths\<close>

datatype target_error =
    UnknownAccessPath string
  | ReadOnlyAccessPath string
  | MissingIoHal string
  | SafetyError string safety_trip
  | IoFailure string string

text \<open>\<open>io::Error\<close> as text.\<close>

definition display_io_error :: "io_error \<Rightarrow> string" where
  "display_io_error e = (case e of
       NotFound \<Rightarrow> ''No such file or directory (os error 2)''
     | PermissionDenied s \<Rightarrow> s
     | UnexpectedEof s \<Rightarrow> s
     | OtherIo s \<Rightarrow> s)"

definition display_target_error :: "target_error \<Rightarrow> string" where
  "display_target_error e = (let q = [CHR 0x27] in case e of
       UnknownAccessPath n \<Rightarrow> ''unknown VAR_ACCESS path '' @ q @ n @ q
     | ReadOnlyAccessPath n \<Rightarrow> ''VAR_ACCESS path '' @ q @ n @ q @ '' is READ_ONLY''
     | MissingIoHal n \<Rightarrow> ''VAR_ACCESS path '' @ q @ n @ q @ '' is bound to target I/O without a HAL''
     | SafetyError n r \<Rightarrow>
         ''VAR_ACCESS path '' @ q @ n @ q @ '' safety gate blocked write: '' @ display_trip r
     | IoFailure n m \<Rightarrow> ''VAR_ACCESS path '' @ q @ n @ q @ '' I/O error: '' @ m)"

datatype access_target = StateTarget string | IoTarget io_symbol

record access_binding =
  ab_name :: string
  ab_target :: string
  ab_direction :: access_direction
  ab_type_name :: string
  ab_binding :: access_target

definition access_state_binding :: "string \<Rightarrow> string \<Rightarrow> access_direction \<Rightarrow> string \<Rightarrow> access_binding" where
  "access_state_binding name target direction type_name =
     \<lparr> ab_name = name, ab_target = target, ab_direction = direction, ab_type_name = type_name,
       ab_binding = StateTarget target \<rparr>"

definition access_io_binding :: "string \<Rightarrow> io_symbol \<Rightarrow> access_direction \<Rightarrow> access_binding" where
  "access_io_binding name sy direction =
     \<lparr> ab_name = name,
       ab_target = (if sym_location sy = [] then sym_name sy else sym_location sy),
       ab_direction = direction, ab_type_name = sym_type_name sy, ab_binding = IoTarget sy \<rparr>"

record access_runtime =
  ar_bindings :: "(string, access_binding) bmap"
  ar_state :: target_state

definition access_runtime_new :: access_runtime where
  "access_runtime_new = \<lparr> ar_bindings = [], ar_state = target_state_new \<rparr>"

definition ar_register :: "access_runtime \<Rightarrow> access_binding \<Rightarrow> access_runtime" where
  "ar_register rt b = rt\<lparr>ar_bindings := bt_insert (canonical_key (ab_name b)) b (ar_bindings rt)\<rparr>"

definition access_binding_of :: "access_runtime \<Rightarrow> string \<Rightarrow> target_error + access_binding" where
  "access_binding_of rt name =
     (case bt_get (ar_bindings rt) (canonical_key name) of
        Some b \<Rightarrow> Inr b
      | None \<Rightarrow> Inl (UnknownAccessPath name))"

definition ensure_writable :: "access_binding \<Rightarrow> target_error + unit" where
  "ensure_writable b =
     (if ab_direction b = ReadWrite then Inr () else Inl (ReadOnlyAccessPath (ab_name b)))"

definition read_access :: "access_runtime \<Rightarrow> string \<Rightarrow> target_error + val option" where
  "read_access rt name =
     (case access_binding_of rt name of
        Inl e \<Rightarrow> Inl e
      | Inr b \<Rightarrow>
          (case ab_binding b of
             StateTarget target \<Rightarrow> Inr (ts_read (ar_state rt) target)
           | IoTarget _ \<Rightarrow> Inl (MissingIoHal (ab_name b))))"

definition write_access ::
    "access_runtime \<Rightarrow> string \<Rightarrow> val \<Rightarrow> (target_error + bool) \<times> access_runtime" where
  "write_access rt name v =
     (case access_binding_of rt name of
        Inl e \<Rightarrow> (Inl e, rt)
      | Inr b \<Rightarrow>
          (case ensure_writable b of
             Inl e \<Rightarrow> (Inl e, rt)
           | Inr _ \<Rightarrow>
               (case ab_binding b of
                  StateTarget target \<Rightarrow> (Inr True, rt\<lparr>ar_state := ts_write (ar_state rt) target v\<rparr>)
                | IoTarget _ \<Rightarrow> (Inl (MissingIoHal (ab_name b)), rt))))"

definition read_access_with_hal ::
    "('h \<Rightarrow> io_symbol \<Rightarrow> val option io_result outcome) \<Rightarrow>
     access_runtime \<Rightarrow> string \<Rightarrow> 'h \<Rightarrow> (target_error + val option) outcome" where
  "read_access_with_hal rd rt name h =
     (case access_binding_of rt name of
        Inl e \<Rightarrow> Ret (Inl e)
      | Inr b \<Rightarrow>
          (case ab_binding b of
             StateTarget target \<Rightarrow> Ret (Inr (ts_read (ar_state rt) target))
           | IoTarget sy \<Rightarrow>
               omap (map_sum (\<lambda>e. IoFailure (ab_name b) (display_io_error e)) id) (rd h sy)))"

definition write_access_with_hal ::
    "('h \<Rightarrow> io_symbol \<Rightarrow> val \<Rightarrow> (bool io_result \<times> 'h) outcome) \<Rightarrow>
     access_runtime \<Rightarrow> string \<Rightarrow> val \<Rightarrow> 'h \<Rightarrow>
     ((target_error + bool) \<times> access_runtime \<times> 'h) outcome" where
  "write_access_with_hal wr rt name v h =
     (case access_binding_of rt name of
        Inl e \<Rightarrow> Ret (Inl e, rt, h)
      | Inr b \<Rightarrow>
          (case ensure_writable b of
             Inl e \<Rightarrow> Ret (Inl e, rt, h)
           | Inr _ \<Rightarrow>
               (case ab_binding b of
                  StateTarget target \<Rightarrow>
                    Ret (Inr True, rt\<lparr>ar_state := ts_write (ar_state rt) target v\<rparr>, h)
                | IoTarget sy \<Rightarrow>
                    omap (\<lambda>(r, h'). (map_sum (\<lambda>e. IoFailure (ab_name b) (display_io_error e)) id r, rt, h'))
                      (wr h sy v))))"

definition ar_load_retained :: "access_runtime \<Rightarrow> retain_store \<Rightarrow> fs \<Rightarrow> unit io_result \<times> access_runtime" where
  "ar_load_retained rt st f =
     (case ts_load_retained (ar_state rt) st f of (r, s) \<Rightarrow> (r, rt\<lparr>ar_state := s\<rparr>))"

definition ar_save_retained :: "access_runtime \<Rightarrow> retain_store \<Rightarrow> fs \<Rightarrow> unit io_result \<times> fs" where
  "ar_save_retained rt st f = ts_save_retained (ar_state rt) st f"

section \<open>Where the retained files are\<close>

lemma component_not_slash: "component_char c \<Longrightarrow> \<not> is_slash c"
  by (auto simp: component_char_def is_slash_def ascii_class_defs byte_def)

lemma retain_file_chars: "c \<in> set (retain_file name) \<Longrightarrow> component_char c"
proof -
  have "\<forall>c \<in> set ''.retain''. component_char c"
    by (simp add: component_char_def ascii_class_defs byte_def)
  then show "c \<in> set (retain_file name) \<Longrightarrow> component_char c"
    by (auto simp only: retain_file_def set_append Un_iff dest: safe_file_component_chars)
qed

lemma retain_file_ne [simp]: "retain_file name \<noteq> []"
  by (simp add: retain_file_def)

lemma retain_path_join:
  assumes "rs_root st \<noteq> []" "\<not> is_slash (last (rs_root st))"
  shows "path_join (rs_root st) (retain_file n) = rs_root st @ [CHR 0x2F] @ retain_file n"
proof -
  have "\<not> is_slash (hd (retain_file n))"
    using retain_file_chars [of "hd (retain_file n)" n] component_not_slash by simp
  with assms show ?thesis by (simp add: path_join_def)
qed

lemma parent_of_child:
  assumes "base \<noteq> []" "\<not> is_slash (last base)" "c \<noteq> []" "\<forall>x \<in> set c. \<not> is_slash x"
  shows "path_parent (base @ [CHR 0x2F] @ c) = Some base"
proof -
  have s: "is_slash (CHR 0x2F)" by (simp add: is_slash_def)
  obtain y ys where c: "rev c = y # ys" using assms(3) by (cases "rev c") auto
  have ns: "\<forall>x \<in> set (y # ys). \<not> is_slash x"
    using assms(4) by (simp only: c [symmetric] set_rev)
  have "dropWhile is_slash (rev c @ [CHR 0x2F] @ rev base) = rev c @ [CHR 0x2F] @ rev base"
    using ns by (simp add: c)
  moreover have "dropWhile (\<lambda>x. \<not> is_slash x) (rev c @ [CHR 0x2F] @ rev base) = [CHR 0x2F] @ rev base"
    using assms(4) s dropWhile_append_stop [of "\<lambda>x. \<not> is_slash x" "CHR 0x2F" "rev c" "rev base"] by simp
  moreover have "dropWhile is_slash (rev base) = rev base"
    using assms(1,2) by (intro dropWhile_id) (simp add: hd_rev)
  ultimately show ?thesis
    using assms(1) s by (simp add: path_parent_def Let_def)
qed

lemma retain_parent:
  assumes "rs_root st \<noteq> []" "\<not> is_slash (last (rs_root st))"
  shows "path_parent (path_join (rs_root st) (retain_file n)) = Some (rs_root st)"
proof -
  have "\<forall>x \<in> set (retain_file n). \<not> is_slash x"
    using retain_file_chars component_not_slash by blast
  then show ?thesis
    unfolding retain_path_join [OF assms] using assms by (intro parent_of_child) simp_all
qed

section \<open>Saving and loading\<close>

text \<open>A file system the store can work on: no operation fails, the store's directory is or
  can be made a directory, and no directory has the name of a retained file.\<close>

definition retain_ready :: "retain_store \<Rightarrow> fs \<Rightarrow> bool" where
  "retain_ready st f \<longleftrightarrow>
     (\<forall>p. fs_fault f p = None) \<and> rs_root st \<noteq> [] \<and> \<not> is_slash (last (rs_root st)) \<and>
     bt_get (fs_files f) (rs_root st) = None \<and>
     (\<forall>n. path_join (rs_root st) (retain_file n) \<notin> set (fs_dirs f))"

lemma retain_path_not_root:
  assumes "retain_ready st f"
  shows "path_join (rs_root st) (retain_file n) \<noteq> rs_root st"
  using assms by (simp add: retain_ready_def retain_path_join)

lemma retain_save_ready:
  assumes r: "retain_ready st f"
  obtains f' where "retain_save st f n v = (Inr (), f')" "retain_ready st f'"
    "fs_files f' = bt_insert (retain_path_for st n) (encode_typed_value v) (fs_files f)"
proof -
  let ?p = "retain_path_for st n"
  define f1 where "f1 = (if rs_root st \<in> set (fs_dirs f) then f
      else f\<lparr>fs_dirs := rs_root st # fs_dirs f\<rparr>)"
  have mk: "fs_create_dir_all f (rs_root st) = (Inr (), f1)"
    using r by (simp add: fs_create_dir_all_def f1_def retain_ready_def)
  have f1: "fs_files f1 = fs_files f" "fs_fault f1 = fs_fault f" "rs_root st \<in> set (fs_dirs f1)"
    "set (fs_dirs f1) = insert (rs_root st) (set (fs_dirs f))"
    by (auto simp: f1_def)
  have par: "path_parent ?p = Some (rs_root st)"
    using r unfolding retain_path_for_def by (intro retain_parent) (simp_all add: retain_ready_def)
  have nd: "path_join (rs_root st) (retain_file m) \<notin> set (fs_dirs f1)" for m
    using r retain_path_not_root [OF r, of m] by (simp add: f1 retain_ready_def)
  define f2 where "f2 = f1\<lparr>fs_files := bt_insert ?p (encode_typed_value v) (fs_files f1)\<rparr>"
  have "fs_write f1 ?p (encode_typed_value v) = (Inr (), f2)"
    using r nd f1(2,3) par by (simp add: fs_write_def retain_ready_def retain_path_for_def f2_def)
  then have sv: "retain_save st f n v = (Inr (), f2)"
    by (simp add: retain_save_def mk)
  have rd: "retain_ready st f2"
    using r nd retain_path_not_root [OF r, of "canonical_key n", symmetric]
    by (simp add: retain_ready_def f2_def f1 retain_path_for_def)
  have fl: "fs_files f2 = bt_insert ?p (encode_typed_value v) (fs_files f)"
    by (simp add: f2_def f1)
  show thesis by (rule that [OF sv rd fl])
qed

lemma save_targets_ready:
  assumes "retain_ready st f" "inj_on (retain_path_for st) (set ts)" "distinct ts"
  shows "\<exists>f'. save_targets st values ts f = (Inr (), f') \<and> retain_ready st f' \<and>
    (\<forall>t \<in> set ts. \<forall>v. bt_get values t = Some v \<longrightarrow>
       bt_get (fs_files f') (retain_path_for st t) = Some (encode_typed_value v)) \<and>
    (\<forall>p. p \<notin> retain_path_for st ` set ts \<longrightarrow> bt_get (fs_files f') p = bt_get (fs_files f) p)"
  using assms
proof (induction ts arbitrary: f)
  case (Cons t ts)
  show ?case
  proof (cases "bt_get values t")
    case None
    have "inj_on (retain_path_for st) (set ts)" "distinct ts"
      using Cons.prems(2,3) by simp_all
    from Cons.IH [OF Cons.prems(1) this] None show ?thesis by auto
  next
    case (Some v)
    obtain f1 where f1: "retain_save st f t v = (Inr (), f1)" "retain_ready st f1"
      "fs_files f1 = bt_insert (retain_path_for st t) (encode_typed_value v) (fs_files f)"
      by (rule retain_save_ready [OF Cons.prems(1)])
    have "inj_on (retain_path_for st) (set ts)" "distinct ts"
      using Cons.prems(2,3) by simp_all
    from Cons.IH [OF f1(2) this] obtain f' where
      f': "save_targets st values ts f1 = (Inr (), f')" "retain_ready st f'"
      "\<forall>t \<in> set ts. \<forall>v. bt_get values t = Some v \<longrightarrow>
         bt_get (fs_files f') (retain_path_for st t) = Some (encode_typed_value v)"
      "\<forall>p. p \<notin> retain_path_for st ` set ts \<longrightarrow> bt_get (fs_files f') p = bt_get (fs_files f1) p"
      by blast
    have "retain_path_for st t \<notin> retain_path_for st ` set ts"
      using Cons.prems(2,3) by auto
    then have "bt_get (fs_files f') (retain_path_for st t) = Some (encode_typed_value v)"
      using f'(4) by (simp add: f1(3))
    then show ?thesis
      using f' f1 Some by (intro exI [of _ f']) auto
  qed
qed simp

lemma retain_load_ready:
  assumes r: "retain_ready st f"
  shows "\<exists>x. retain_load st f n = Inr x"
    and "bt_get (fs_files f) (retain_path_for st n) = Some (encode_typed_value v) \<Longrightarrow> value_ok v \<Longrightarrow>
      retain_load st f n = Inr (Some (retained_image v))"
proof -
  have fl: "\<exists>s. fs_read_to_string f (path_join (rs_root st) (retain_file m)) = Inr s"
    if "fs_exists f (path_join (rs_root st) (retain_file m))" for m
    using that r by (auto simp: fs_exists_def fs_read_to_string_def retain_ready_def)
  have "legacy_path_for st n = Some p \<Longrightarrow> p = path_join (rs_root st) (retain_file n)" for p
    by (auto simp: legacy_path_for_def Let_def split: if_splits)
  then show "\<exists>x. retain_load st f n = Inr x"
    using fl [of n] fl [of "canonical_key n"]
    by (auto simp: retain_load_def Let_def retain_path_for_def split: option.splits)
  assume "bt_get (fs_files f) (retain_path_for st n) = Some (encode_typed_value v)" "value_ok v"
  then show "retain_load st f n = Inr (Some (retained_image v))"
    using r by (simp add: retain_load_def fs_exists_def fs_read_to_string_def typed_codec retain_ready_def)
qed

lemma load_targets_ready:
  assumes "retain_ready st f" "distinct ts"
  shows "\<exists>s'. load_targets st f ts s = (Inr (), s') \<and> ts_retained s' = ts_retained s \<and>
    (\<forall>t. t \<notin> set ts \<longrightarrow> bt_get (ts_values s') t = bt_get (ts_values s) t) \<and>
    (\<forall>t \<in> set ts. \<forall>v. retain_load st f t = Inr (Some v) \<longrightarrow> bt_get (ts_values s') t = Some v)"
  using assms(2)
proof (induction ts arbitrary: s)
  case (Cons t ts)
  obtain x where x: "retain_load st f t = Inr x"
    using retain_load_ready(1) [OF assms(1)] by blast
  let ?s = "case x of None \<Rightarrow> s | Some v \<Rightarrow> s\<lparr>ts_values := bt_insert t v (ts_values s)\<rparr>"
  have "distinct ts" using Cons.prems by simp
  from Cons.IH [OF this, of ?s] obtain s' where s': "load_targets st f ts ?s = (Inr (), s')" "ts_retained s' = ts_retained ?s"
    "\<forall>u. u \<notin> set ts \<longrightarrow> bt_get (ts_values s') u = bt_get (ts_values ?s) u"
    "\<forall>u \<in> set ts. \<forall>v. retain_load st f u = Inr (Some v) \<longrightarrow> bt_get (ts_values s') u = Some v"
    by blast
  have l: "load_targets st f (t # ts) s = (Inr (), s')"
    using s'(1) by (cases x) (simp_all add: x)
  have "ts_retained s' = ts_retained s"
    using s'(2) by (cases x) simp_all
  moreover have "\<forall>u. u \<notin> set (t # ts) \<longrightarrow> bt_get (ts_values s') u = bt_get (ts_values s) u"
    using s'(3) by (cases x) auto
  moreover have "\<forall>u \<in> set (t # ts). \<forall>v. retain_load st f u = Inr (Some v) \<longrightarrow> bt_get (ts_values s') u = Some v"
    using s'(3,4) Cons.prems by (cases x) (auto simp: x)
  ultimately show ?case using l by blast
qed simp

section \<open>Properties\<close>

text \<open>C25: Saving the retained variables and loading them into any state with the same retained
  names gives every variable its value back, up to what the text form of a value keeps (a
  string loses the line ends at its end, a composite value becomes its display text): on a
  file system the store can use, when the retained names have different file names.\<close>

theorem retained_values_survive:
  assumes ready: "retain_ready st f"
    and names: "distinct (ts_retained s)" "inj_on (retain_path_for st) (set (ts_retained s))"
    and vals: "\<forall>(t, v) \<in> set (ts_values s). value_ok v"
    and same: "ts_retained s0 = ts_retained s"
  shows "\<exists>f' s'. ts_save_retained s st f = (Inr (), f') \<and>
    ts_load_retained s0 st f' = (Inr (), s') \<and>
    (\<forall>t \<in> set (ts_retained s). \<forall>v. bt_get (ts_values s) t = Some v \<longrightarrow>
       bt_get (ts_values s') t = Some (retained_image v)) \<and>
    (\<forall>t. t \<notin> set (ts_retained s) \<longrightarrow> bt_get (ts_values s') t = bt_get (ts_values s0) t)"
proof -
  obtain f' where f': "save_targets st (ts_values s) (ts_retained s) f = (Inr (), f')" "retain_ready st f'"
    "\<forall>t \<in> set (ts_retained s). \<forall>v. bt_get (ts_values s) t = Some v \<longrightarrow>
       bt_get (fs_files f') (retain_path_for st t) = Some (encode_typed_value v)"
    using save_targets_ready [OF ready names(2,1)] by blast
  obtain s' where s': "load_targets st f' (ts_retained s) s0 = (Inr (), s')"
    "\<forall>t. t \<notin> set (ts_retained s) \<longrightarrow> bt_get (ts_values s') t = bt_get (ts_values s0) t"
    "\<forall>t \<in> set (ts_retained s). \<forall>v. retain_load st f' t = Inr (Some v) \<longrightarrow> bt_get (ts_values s') t = Some v"
    using load_targets_ready [OF f'(2) names(1)] by blast
  have "bt_get (ts_values s') t = Some (retained_image v)"
    if "t \<in> set (ts_retained s)" "bt_get (ts_values s) t = Some v" for t v
  proof -
    have "value_ok v" using vals bt_get_mem [OF that(2)] by blast
    with f'(3) that have "retain_load st f' t = Inr (Some (retained_image v))"
      by (intro retain_load_ready(2) [OF f'(2)]) auto
    with s'(3) that(1) show ?thesis by blast
  qed
  with f'(1) s' show ?thesis
    by (simp add: ts_save_retained_def ts_load_retained_def same)
qed

definition demo_store :: retain_store where
  "demo_store = \<lparr> rs_root = ''retain'' \<rparr>"

definition demo_fs :: fs where
  "demo_fs = \<lparr> fs_files = [], fs_dirs = [], fs_fault = (\<lambda>_. None) \<rparr>"

lemma demo_ready: "retain_ready demo_store demo_fs"
  by (simp add: retain_ready_def demo_store_def demo_fs_def is_slash_def)

theorem retained_values_survive_witness:
  "let s = ts_mark_retained (ts_set target_state_new '' count '' (VInt 7)) ''Count'';
       s0 = ts_mark_retained target_state_new ''COUNT''
   in \<exists>f' s'. ts_save_retained s demo_store demo_fs = (Inr (), f') \<and>
        ts_load_retained s0 demo_store f' = (Inr (), s') \<and> ts_read s' ''count'' = Some (VInt 7)"
proof -
  let ?s = "ts_mark_retained (ts_set target_state_new '' count '' (VInt 7)) ''Count''"
  let ?z = "ts_mark_retained target_state_new ''COUNT''"
  have k: "canonical_key '' count '' = ''COUNT''" "canonical_key ''Count'' = ''COUNT''"
    "canonical_key ''COUNT'' = ''COUNT''" "canonical_key ''count'' = ''COUNT''"
    by code_simp+
  have r: "ts_retained ?s = [''COUNT'']" "ts_retained ?z = [''COUNT'']"
    "ts_values ?s = [(''COUNT'', VInt 7)]" "retained_image (VInt 7) = VInt 7"
    by (simp_all add: ts_mark_retained_def ts_set_def target_state_new_def k retained_image_def)
  have "distinct (ts_retained ?s)" "inj_on (retain_path_for demo_store) (set (ts_retained ?s))"
    "\<forall>(t, v) \<in> set (ts_values ?s). value_ok v" "ts_retained ?z = ts_retained ?s"
    by (simp_all add: r i64_max_def)
  from retained_values_survive [OF demo_ready this] show ?thesis
    by (auto simp: r k ts_read_def Let_def)
qed

text \<open>C26: Whatever the name of a retained variable, its file is a direct child of the store's
  directory, with a name of ASCII letters, digits, \<open>_\<close>, \<open>-\<close> and \<open>.\<close> only: no name leaves
  the directory.\<close>

theorem retained_file_below_root:
  assumes "rs_root st \<noteq> []" and "\<not> is_slash (last (rs_root st))"
  shows "path_parent (retain_path_for st name) = Some (rs_root st) \<and>
    retain_path_for st name = rs_root st @ [CHR 0x2F] @ retain_file (canonical_key name) \<and>
    (\<forall>c \<in> set (retain_file (canonical_key name)). component_char c \<and> \<not> is_slash c)"
  using retain_parent [OF assms, of "canonical_key name"] retain_path_join [OF assms, of "canonical_key name"]
    retain_file_chars component_not_slash
  by (auto simp: retain_path_for_def)

theorem retained_file_below_root_witness:
  "path_parent (retain_path_for demo_store ''../../etc/passwd'') = Some ''retain'' \<and>
   retain_path_for demo_store ''../../etc/passwd'' = ''retain/.._.._ETC_PASSWD.retain''"
proof -
  have "rs_root demo_store \<noteq> []" "\<not> is_slash (last (rs_root demo_store))"
    "rs_root demo_store = ''retain''"
    by (simp_all add: demo_store_def is_slash_def)
  from retained_file_below_root [OF this(1,2), of "''../../etc/passwd''"] this(3)
  have "path_parent (retain_path_for demo_store ''../../etc/passwd'') = Some ''retain''"
    by (metis (no_types))
  moreover have "retain_path_for demo_store ''../../etc/passwd'' = ''retain/.._.._ETC_PASSWD.retain''"
    by code_simp
  ultimately show ?thesis by simp
qed

text \<open>The characters the file name of a retained variable spells as an underscore: all but the
  ASCII letters and digits, the hyphen and the dot. Two names are spelled alike when they agree
  in every other character.\<close>

definition spelled_as_underscore :: "string \<Rightarrow> bool" where
  "spelled_as_underscore ch =
     (case ch of [c] \<Rightarrow> \<not> (is_ascii_alphanumeric c \<or> c = CHR ''-'' \<or> c = CHR ''.'') | _ \<Rightarrow> True)"

definition spelled_alike :: "string \<Rightarrow> string \<Rightarrow> bool" where
  "spelled_alike a b \<longleftrightarrow>
     list_all2 (\<lambda>c d. c = d \<or> spelled_as_underscore c \<and> spelled_as_underscore d) (chars a) (chars b)"

lemma spelled_underscore: "spelled_as_underscore ch \<Longrightarrow> safe_char ch \<Longrightarrow> ch = ''_''"
  by (auto simp: spelled_as_underscore_def safe_char_def split: list.splits)

lemma spelled_alike_component:
  assumes "spelled_alike a b"
  shows "safe_file_component a = safe_file_component b"
proof -
  have "map (\<lambda>ch. if safe_char ch then ch else ''_'') cs = map (\<lambda>ch. if safe_char ch then ch else ''_'') ds"
    if "list_all2 (\<lambda>c d. c = d \<or> spelled_as_underscore c \<and> spelled_as_underscore d) cs ds" for cs ds
    using that by induction (auto dest: spelled_underscore)
  then show ?thesis
    using assms by (simp add: safe_file_component_def spelled_alike_def)
qed

text \<open>C27: Two retained names that differ only in characters other than ASCII letters, digits,
  hyphens and dots share one file: saving both loses the first, and loading it afterwards
  gives the value of the second.\<close>

theorem retained_names_collide:
  assumes ready: "retain_ready st f" and "value_ok v" "value_ok w"
    and alike: "spelled_alike (canonical_key a) (canonical_key b)"
  shows "\<exists>f1 f2. retain_save st f a v = (Inr (), f1) \<and> retain_save st f1 b w = (Inr (), f2) \<and>
    retain_load st f2 a = Inr (Some (retained_image w))"
proof -
  obtain f1 where f1: "retain_save st f a v = (Inr (), f1)" "retain_ready st f1"
    by (rule retain_save_ready [OF ready])
  obtain f2 where f2: "retain_save st f1 b w = (Inr (), f2)" "retain_ready st f2"
    "fs_files f2 = bt_insert (retain_path_for st b) (encode_typed_value w) (fs_files f1)"
    by (rule retain_save_ready [OF f1(2)])
  have "retain_path_for st a = retain_path_for st b"
    by (simp add: retain_path_for_def retain_file_def spelled_alike_component [OF alike])
  then have "retain_load st f2 a = Inr (Some (retained_image w))"
    using assms(3) by (intro retain_load_ready(2) [OF f2(2)]) (simp add: f2(3))
  with f1(1) f2(1) show ?thesis by blast
qed

theorem retained_names_collide_witness:
  "canonical_key ''level one'' \<noteq> canonical_key ''level_one'' \<and>
   (\<exists>f1 f2. retain_save demo_store demo_fs ''level one'' (VInt 1) = (Inr (), f1) \<and>
      retain_save demo_store f1 ''level_one'' (VInt 2) = (Inr (), f2) \<and>
      retain_load demo_store f2 ''level one'' = Inr (Some (VInt 2)))"
proof -
  have "spelled_alike (canonical_key ''level one'') (canonical_key ''level_one'')"
    "canonical_key ''level one'' \<noteq> canonical_key ''level_one''"
    "retained_image (VInt 2) = VInt 2"
    by code_simp+
  moreover have "value_ok (VInt 1)" "value_ok (VInt 2)" by (simp_all add: i64_max_def)
  ultimately show ?thesis
    using retained_names_collide [OF demo_ready, of "VInt 1" "VInt 2" "''level one''" "''level_one''"]
    by simp
qed

text \<open>What a write to an access path is for: a refusal, or the target of a READ_WRITE path.\<close>

definition path_effect :: "access_runtime \<Rightarrow> string \<Rightarrow> target_error + access_target" where
  "path_effect rt name =
     (case access_binding_of rt name of
        Inl e \<Rightarrow> Inl e
      | Inr b \<Rightarrow> if ab_direction b = ReadOnly then Inl (ReadOnlyAccessPath (ab_name b)) else Inr (ab_binding b))"

text \<open>The abstract store: a map from variables to the values written last, and the writes that
  belong to the adapter, in their order.\<close>

definition path_stores :: "access_runtime \<Rightarrow> string \<times> val \<Rightarrow> (string \<Rightarrow> val option) \<Rightarrow> string \<Rightarrow> val option" where
  "path_stores rt w m =
     (case path_effect rt (fst w) of
        Inr (StateTarget target) \<Rightarrow> m(canonical_key target \<mapsto> snd w)
      | _ \<Rightarrow> m)"

definition path_outputs :: "access_runtime \<Rightarrow> (string \<times> val) list \<Rightarrow> (io_symbol \<times> val) list" where
  "path_outputs rt ws = List.map_filter (\<lambda>w. case path_effect rt (fst w) of
     Inr (IoTarget sy) \<Rightarrow> Some (sy, snd w) | _ \<Rightarrow> None) ws"

primrec adapter_writes ::
    "('h \<Rightarrow> io_symbol \<Rightarrow> val \<Rightarrow> (bool io_result \<times> 'h) outcome) \<Rightarrow> 'h \<Rightarrow> (io_symbol \<times> val) list \<Rightarrow> 'h outcome" where
  "adapter_writes wr h [] = Ret h"
| "adapter_writes wr h (w # ws) = obind (wr h (fst w) (snd w)) (\<lambda>r. adapter_writes wr (snd r) ws)"

text \<open>The writes of a client, one after the other, with what each returns.\<close>

primrec path_writes ::
    "('h \<Rightarrow> io_symbol \<Rightarrow> val \<Rightarrow> (bool io_result \<times> 'h) outcome) \<Rightarrow> access_runtime \<Rightarrow> (string \<times> val) list \<Rightarrow> 'h \<Rightarrow>
     ((target_error + bool) list \<times> access_runtime \<times> 'h) outcome" where
  "path_writes wr rt [] h = Ret ([], rt, h)"
| "path_writes wr rt (w # ws) h =
     obind (write_access_with_hal wr rt (fst w) (snd w) h) (\<lambda>(r, rt', h').
       omap (\<lambda>(rs, rest). (r # rs, rest)) (path_writes wr rt' ws h'))"

definition answers_effect :: "access_runtime \<Rightarrow> string \<times> val \<Rightarrow> target_error + bool \<Rightarrow> bool" where
  "answers_effect rt w r \<longleftrightarrow>
     (case path_effect rt (fst w) of
        Inl e \<Rightarrow> r = Inl e
      | Inr (StateTarget _) \<Rightarrow> r = Inr True
      | Inr (IoTarget _) \<Rightarrow> True)"

lemma write_access_step:
  assumes "write_access_with_hal wr rt name v h = Ret (r, rt', h')"
  shows "rt' = rt\<lparr>ar_state := ar_state rt'\<rparr> \<and> answers_effect rt (name, v) r \<and>
    bt_get (ts_values (ar_state rt')) = path_stores rt (name, v) (bt_get (ts_values (ar_state rt))) \<and>
    adapter_writes wr h (path_outputs rt [(name, v)]) = Ret h'"
proof (cases "path_effect rt name")
  case (Inl e)
  then have "write_access_with_hal wr rt name v h = Ret (Inl e, rt, h)"
    by (auto simp: path_effect_def write_access_with_hal_def ensure_writable_def split: sum.splits if_splits)
  then show ?thesis
    using assms Inl by (simp add: answers_effect_def path_stores_def path_outputs_def List.map_filter_simps)
next
  case (Inr target)
  obtain b where b: "access_binding_of rt name = Inr b" "ab_direction b = ReadWrite" "ab_binding b = target"
    using Inr by (cases "access_binding_of rt name"; cases "ab_direction (projr (access_binding_of rt name))")
      (auto simp: path_effect_def split: if_splits)
  show ?thesis
  proof (cases target)
    case (StateTarget x)
    then show ?thesis
      using assms b Inr
      by (auto simp: write_access_with_hal_def ensure_writable_def answers_effect_def path_stores_def
          path_outputs_def List.map_filter_simps ts_write_def ts_set_def fun_eq_iff)
  next
    case (IoTarget sy)
    then show ?thesis
      using assms b Inr
      by (cases "wr h sy v")
        (auto simp: write_access_with_hal_def ensure_writable_def answers_effect_def path_stores_def
          path_outputs_def List.map_filter_simps split: prod.splits)
  qed
qed

lemma path_effect_state: "path_effect (rt\<lparr>ar_state := s\<rparr>) name = path_effect rt name"
  by (simp add: path_effect_def access_binding_of_def)

lemma adapter_writes_append:
  "adapter_writes wr h (ws @ us) = obind (adapter_writes wr h ws) (\<lambda>h'. adapter_writes wr h' us)"
  by (induction ws arbitrary: h) (simp_all add: obind_assoc)

text \<open>C28: The access paths refine a map from variables to values next to the adapter. Whatever
  sequence of writes a client makes, each variable holds the value written last through any
  READ_WRITE path to it, or its old value; writes to unknown and READ_ONLY paths are refused
  with their error and change nothing; the adapter is called for the READ_WRITE I/O paths only,
  once for each write and in their order; and the paths themselves stay.\<close>

theorem access_writes_refine_store:
  assumes "path_writes wr rt ws h = Ret (rs, rt', h')"
  shows "rt' = rt\<lparr>ar_state := ar_state rt'\<rparr> \<and> list_all2 (answers_effect rt) ws rs \<and>
    ts_read (ar_state rt') target = fold (path_stores rt) ws (bt_get (ts_values (ar_state rt))) (canonical_key target) \<and>
    adapter_writes wr h (path_outputs rt ws) = Ret h'"
proof -
  have "rt' = rt\<lparr>ar_state := ar_state rt'\<rparr> \<and> list_all2 (answers_effect rt) ws rs \<and>
    bt_get (ts_values (ar_state rt')) = fold (path_stores rt) ws (bt_get (ts_values (ar_state rt))) \<and>
    adapter_writes wr h (path_outputs rt ws) = Ret h'"
    using assms
  proof (induction ws arbitrary: rt h rs)
    case (Cons w ws)
    obtain r rt1 h1 rs' where first: "write_access_with_hal wr rt (fst w) (snd w) h = Ret (r, rt1, h1)"
        and rest: "path_writes wr rt1 ws h1 = Ret (rs', rt', h')" and rs: "rs = r # rs'"
      using Cons.prems by (auto simp: obind_eq_Ret omap_eq_Ret)
    note step = write_access_step [OF first]
    have same: "path_effect rt1 = path_effect rt"
      using step path_effect_state [of "ar_state rt1" rt] by (simp add: fun_eq_iff)
    then have alike: "answers_effect rt1 = answers_effect rt" "path_stores rt1 = path_stores rt"
        "path_outputs rt1 = path_outputs rt"
      by (simp_all add: fun_eq_iff answers_effect_def path_stores_def path_outputs_def)
    have "path_outputs rt (w # ws) = path_outputs rt [w] @ path_outputs rt ws"
      by (simp add: path_outputs_def List.map_filter_simps split: option.split)
    moreover have "rt1\<lparr>ar_state := s\<rparr> = rt\<lparr>ar_state := s\<rparr>" for s
      using step by (metis access_runtime.surjective access_runtime.update_convs(2))
    ultimately show ?case
      using Cons.IH [OF rest] step rs alike by (simp add: adapter_writes_append)
  qed (simp add: path_outputs_def List.map_filter_simps)
  then show ?thesis
    by (simp add: ts_read_def)
qed

definition demo_access :: access_runtime where
  "demo_access =
     ar_register (ar_register (ar_register access_runtime_new
       (access_state_binding ''Speed'' ''main.speed'' ReadWrite ''INT''))
       (access_state_binding ''SpeedView'' ''main.speed'' ReadOnly ''INT''))
       (access_io_binding ''Lamp'' (demo_symbol ''lamp'' ''%QX0.0'' DirOutput) ReadWrite)"

theorem access_writes_refine_store_witness:
  "\<exists>rs rt' h'. path_writes modbus_write_symbol demo_access
       [(''speed'', VInt 1), (''SpeedView'', VInt 2), (''Lamp'', VBool True), (''speed'', VInt 3)] demo_modbus =
       Ret (rs, rt', h') \<and> ts_read (ar_state rt') ''main.speed'' = Some (VInt 3)"
proof -
  let ?ws = "[(''speed'', VInt 1), (''SpeedView'', VInt 2), (''Lamp'', VBool True), (''speed'', VInt 3)]"
  have "case path_writes modbus_write_symbol demo_access ?ws demo_modbus of Ret _ \<Rightarrow> True | Panic \<Rightarrow> False"
    by code_simp
  then obtain rs rt' h' where run: "path_writes modbus_write_symbol demo_access ?ws demo_modbus = Ret (rs, rt', h')"
    by (auto split: outcome.splits)
  have "fold (path_stores demo_access) ?ws (bt_get (ts_values (ar_state demo_access))) (canonical_key ''main.speed'') =
      Some (VInt 3)"
    by code_simp
  then show ?thesis
    using access_writes_refine_store [OF run, of "''main.speed''"] run by simp
qed

end
