(* ===== verification/TargetSupervisor.thy ===== *)
theory TargetSupervisor
  imports TargetAccess
begin

text \<open>
  The cycle supervisor of \<open>rbcpp_target/src/lib.rs\<close>: it owns the access runtime and an
  adapter, restores and saves retained variables, watches the cycle time and keeps the
  safety gate in front of the outputs. Every \<open>Instant::now()\<close> is an argument; the file
  system is an argument and, where it is written, a result. A supervisor's life is the
  relation \<open>sv_reachable\<close>.
\<close>

section \<open>State and builders\<close>

record 'h supervisor =
  sv_access :: access_runtime
  sv_hal :: 'h
  sv_retain_store :: "retain_store option"
  sv_watchdog :: "cycle_watchdog option"
  sv_safety_gate :: "safety_gate option"
  sv_safety_inputs :: safety_inputs
  sv_cycle_started_at :: "nat option"
  sv_cycle_count :: nat
  sv_last_cycle_time :: "nat option"

definition supervisor_new :: "'h \<Rightarrow> 'h supervisor" where
  "supervisor_new h =
     \<lparr> sv_access = access_runtime_new, sv_hal = h, sv_retain_store = None, sv_watchdog = None,
       sv_safety_gate = None, sv_safety_inputs = safety_inputs_default,
       sv_cycle_started_at = None, sv_cycle_count = 0, sv_last_cycle_time = None \<rparr>"

definition with_access_runtime :: "'h supervisor \<Rightarrow> access_runtime \<Rightarrow> 'h supervisor" where
  "with_access_runtime sv access = sv\<lparr>sv_access := access\<rparr>"

definition with_retain_store :: "'h supervisor \<Rightarrow> retain_store \<Rightarrow> 'h supervisor" where
  "with_retain_store sv st = sv\<lparr>sv_retain_store := Some st\<rparr>"

definition with_watchdog :: "'h supervisor \<Rightarrow> cycle_watchdog \<Rightarrow> 'h supervisor" where
  "with_watchdog sv w = sv\<lparr>sv_watchdog := Some w\<rparr>"

definition with_safety_gate :: "'h supervisor \<Rightarrow> safety_gate \<Rightarrow> 'h supervisor" where
  "with_safety_gate sv g = sv\<lparr>sv_safety_gate := Some g\<rparr>"

definition set_safety_inputs :: "'h supervisor \<Rightarrow> safety_inputs \<Rightarrow> 'h supervisor" where
  "set_safety_inputs sv inp = sv\<lparr>sv_safety_inputs := inp\<rparr>"

definition sv_safety_state :: "'h supervisor \<Rightarrow> safety_state option" where
  "sv_safety_state sv = map_option gate_state (sv_safety_gate sv)"

section \<open>The cycle\<close>

definition sv_watchdog_expired :: "'h supervisor \<Rightarrow> nat \<Rightarrow> bool" where
  "sv_watchdog_expired sv now =
     (case sv_watchdog sv of None \<Rightarrow> False | Some w \<Rightarrow> watchdog_is_expired w now)"

definition refresh_safety_state :: "'h supervisor \<Rightarrow> nat \<Rightarrow> safety_state option \<times> 'h supervisor" where
  "refresh_safety_state sv now =
     (case sv_safety_gate sv of
        None \<Rightarrow> (None, sv)
      | Some g \<Rightarrow>
          (case safety_gate_update g (sv_safety_inputs sv) (sv_watchdog_expired sv now) of
             (g', st) \<Rightarrow> (Some st, sv\<lparr>sv_safety_gate := Some g'\<rparr>)))"

definition restore_retained :: "'h supervisor \<Rightarrow> fs \<Rightarrow> unit io_result \<times> 'h supervisor" where
  "restore_retained sv f =
     (case sv_retain_store sv of
        None \<Rightarrow> (Inr (), sv)
      | Some st \<Rightarrow>
          (case ar_load_retained (sv_access sv) st f of
             (Inl e, rt) \<Rightarrow> (Inl e, sv\<lparr>sv_access := rt\<rparr>)
           | (Inr _, rt) \<Rightarrow> (Inr (), sv\<lparr>sv_access := rt\<rparr>)))"

definition sv_pet :: "'h supervisor \<Rightarrow> nat \<Rightarrow> 'h supervisor" where
  "sv_pet sv now = sv\<lparr>sv_watchdog := map_option (\<lambda>w. watchdog_pet w now) (sv_watchdog sv)\<rparr>"

definition cold_start :: "'h supervisor \<Rightarrow> fs \<Rightarrow> nat \<Rightarrow> unit io_result \<times> 'h supervisor" where
  "cold_start sv f now =
     (case restore_retained sv f of
        (Inl e, sv') \<Rightarrow> (Inl e, sv')
      | (Inr _, sv') \<Rightarrow> (Inr (), sv_pet sv' now))"

definition warm_start :: "'h supervisor \<Rightarrow> fs \<Rightarrow> nat \<Rightarrow> unit io_result \<times> 'h supervisor" where
  "warm_start sv f now = cold_start sv f now"

definition begin_cycle :: "'h supervisor \<Rightarrow> nat \<Rightarrow> nat \<Rightarrow> safety_state option \<times> 'h supervisor" where
  "begin_cycle sv t1 t2 = refresh_safety_state (sv\<lparr>sv_cycle_started_at := Some t1\<rparr>) t2"

definition sv_save_retained :: "'h supervisor \<Rightarrow> fs \<Rightarrow> (target_error + bool) \<times> fs" where
  "sv_save_retained sv f =
     (case sv_retain_store sv of
        None \<Rightarrow> (Inr False, f)
      | Some st \<Rightarrow>
          (case ar_save_retained (sv_access sv) st f of
             (Inl e, f') \<Rightarrow> (Inl (IoFailure ''retain'' (display_io_error e)), f')
           | (Inr _, f') \<Rightarrow> (Inr True, f')))"

record cycle_report =
  cr_cycle :: nat
  cr_elapsed :: nat
  cr_watchdog_expired :: bool
  cr_retained_saved :: bool
  cr_safety_state :: "safety_state option"

text \<open>\<open>t1\<close> ends the cycle, \<open>t2\<close> and \<open>t3\<close> are the two readings of the watchdog, \<open>t4\<close> its
  reset. The cycle counter is a \<open>u64\<close>, as wide as a \<open>usize\<close>.\<close>

definition end_cycle ::
    "bool \<Rightarrow> 'h supervisor \<Rightarrow> fs \<Rightarrow> nat \<Rightarrow> nat \<Rightarrow> nat \<Rightarrow> nat \<Rightarrow>
     ((target_error + cycle_report) \<times> 'h supervisor \<times> fs) outcome" where
  "end_cycle oc sv f t1 t2 t3 t4 =
     obind (usize_arith oc (sv_cycle_count sv + 1)) (\<lambda>cycle.
       let elapsed = (case sv_cycle_started_at sv of Some started \<Rightarrow> t1 - started | None \<Rightarrow> 0);
           sv1 = sv\<lparr>sv_cycle_started_at := None, sv_last_cycle_time := Some elapsed\<rparr>;
           expired = sv_watchdog_expired sv1 t2;
           (st, sv2) = refresh_safety_state sv1 t3
       in (case sv_save_retained sv2 f of
             (Inl e, f') \<Rightarrow> Ret (Inl e, sv2, f')
           | (Inr saved, f') \<Rightarrow>
               Ret (Inr \<lparr> cr_cycle = cycle, cr_elapsed = elapsed, cr_watchdog_expired = expired,
                          cr_retained_saved = saved, cr_safety_state = st \<rparr>,
                    (sv_pet sv2 t4)\<lparr>sv_cycle_count := cycle\<rparr>, f')))"

section \<open>Access through the supervisor\<close>

definition sv_read_access ::
    "('h \<Rightarrow> io_symbol \<Rightarrow> val option io_result outcome) \<Rightarrow>
     'h supervisor \<Rightarrow> string \<Rightarrow> (target_error + val option) outcome" where
  "sv_read_access rd sv name = read_access_with_hal rd (sv_access sv) name (sv_hal sv)"

definition sv_write_access ::
    "('h \<Rightarrow> io_symbol \<Rightarrow> val \<Rightarrow> (bool io_result \<times> 'h) outcome) \<Rightarrow>
     'h supervisor \<Rightarrow> string \<Rightarrow> val \<Rightarrow> ((target_error + bool) \<times> 'h supervisor) outcome" where
  "sv_write_access wr sv name v =
     (case access_binding_of (sv_access sv) name of
        Inl e \<Rightarrow> Ret (Inl e, sv)
      | Inr b \<Rightarrow>
          (case (case (sv_safety_gate sv, ab_binding b) of
                   (Some g, IoTarget sy) \<Rightarrow>
                     map_sum (\<lambda>reason. SafetyError (ab_name b) reason) id (check_output_write g sy)
                 | _ \<Rightarrow> Inr ()) of
             Inl e \<Rightarrow> Ret (Inl e, sv)
           | Inr _ \<Rightarrow>
               omap (\<lambda>(r, rt, h). (r, sv\<lparr>sv_access := rt, sv_hal := h\<rparr>))
                 (write_access_with_hal wr (sv_access sv) name v (sv_hal sv))))"

section \<open>What a write can do\<close>

lemma write_access_with_hal_cases:
  assumes "write_access_with_hal wr rt name v h = Ret (r, rt', h')" and "access_binding_of rt name = Inr b"
  obtains (kept) "h' = h"
  | (io) sy r0 where "ab_direction b = ReadWrite" "ab_binding b = IoTarget sy" "wr h sy v = Ret (r0, h')" "rt' = rt"
proof (cases "ab_direction b = ReadWrite")
  case False
  with assms have "h' = h" by (simp add: write_access_with_hal_def ensure_writable_def)
  then show ?thesis by (rule kept)
next
  case rw: True
  show ?thesis
  proof (cases "ab_binding b")
    case (StateTarget t)
    with assms rw have "h' = h" by (simp add: write_access_with_hal_def ensure_writable_def)
    then show ?thesis by (rule kept)
  next
    case (IoTarget sy)
    with assms rw have "omap (\<lambda>(r, h'). (map_sum (\<lambda>e. IoFailure (ab_name b) (display_io_error e)) id r, rt, h'))
        (wr h sy v) = Ret (r, rt', h')"
      by (simp add: write_access_with_hal_def ensure_writable_def)
    then show ?thesis
      using rw IoTarget by (cases "wr h sy v") (auto intro: io split: prod.splits)
  qed
qed

lemma sv_write_hal_cases:
  assumes "sv_write_access wr sv name v = Ret (r, sv')"
  obtains (kept) "sv_hal sv' = sv_hal sv"
  | (io) b sy r0 where "access_binding_of (sv_access sv) name = Inr b" "ab_direction b = ReadWrite"
      "ab_binding b = IoTarget sy"
      "\<forall>g. sv_safety_gate sv = Some g \<longrightarrow> check_output_write g sy = Inr ()"
      "wr (sv_hal sv) sy v = Ret (r0, sv_hal sv')"
proof (cases "access_binding_of (sv_access sv) name")
  case (Inl e)
  with assms show ?thesis by (intro kept) (simp add: sv_write_access_def)
next
  case (Inr b)
  let ?chk = "case (sv_safety_gate sv, ab_binding b) of
      (Some g, IoTarget sy) \<Rightarrow> map_sum (\<lambda>reason. SafetyError (ab_name b) reason) id (check_output_write g sy)
    | _ \<Rightarrow> Inr ()"
  show ?thesis
  proof (cases ?chk)
    case (Inl e)
    with assms Inr have "sv' = sv" by (simp add: sv_write_access_def)
    then show ?thesis by (intro kept) simp
  next
    case chk: (Inr u)
    have "omap (\<lambda>(r, rt, h). (r, sv\<lparr>sv_access := rt, sv_hal := h\<rparr>))
        (write_access_with_hal wr (sv_access sv) name v (sv_hal sv)) = Ret (r, sv')"
      using assms Inr chk by (simp add: sv_write_access_def)
    then obtain rt' h' where w: "write_access_with_hal wr (sv_access sv) name v (sv_hal sv) = Ret (r, rt', h')"
      and sv': "sv_hal sv' = h'"
      by (cases "write_access_with_hal wr (sv_access sv) name v (sv_hal sv)") (auto split: prod.splits)
    from w Inr show ?thesis
    proof (cases rule: write_access_with_hal_cases)
      case kept
      then show ?thesis by (intro that(1)) (simp add: sv')
    next
      case (io sy r0)
      have "check_output_write g sy = Inr ()" if "sv_safety_gate sv = Some g" for g
        using chk that io(2) by (cases "check_output_write g sy") simp_all
      with Inr io show ?thesis by (intro that(2)) (simp_all add: sv')
    qed
  qed
qed

lemma sv_write_keeps_gate:
  assumes "sv_write_access wr sv name v = Ret (r, sv')"
  shows "sv_safety_gate sv' = sv_safety_gate sv"
proof (cases "access_binding_of (sv_access sv) name")
  case (Inr b)
  show ?thesis
  proof (cases "case (sv_safety_gate sv, ab_binding b) of
      (Some g, IoTarget sy) \<Rightarrow> map_sum (\<lambda>reason. SafetyError (ab_name b) reason) id (check_output_write g sy)
    | _ \<Rightarrow> Inr ()")
    case chk: (Inr u)
    have "omap (\<lambda>(r, rt, h). (r, sv\<lparr>sv_access := rt, sv_hal := h\<rparr>))
        (write_access_with_hal wr (sv_access sv) name v (sv_hal sv)) = Ret (r, sv')"
      using assms Inr chk by (simp add: sv_write_access_def)
    then show ?thesis
      by (cases "write_access_with_hal wr (sv_access sv) name v (sv_hal sv)") (auto split: prod.splits)
  qed (use assms Inr in \<open>simp add: sv_write_access_def\<close>)
qed (use assms in \<open>simp add: sv_write_access_def\<close>)

section \<open>The life of a supervisor\<close>

definition gate_fine :: "'h supervisor \<Rightarrow> bool" where
  "gate_fine sv \<longleftrightarrow> (\<forall>g. sv_safety_gate sv = Some g \<longrightarrow> gate_reachable g)"

lemma gate_fine_refresh: "gate_fine sv \<Longrightarrow> gate_fine (snd (refresh_safety_state sv now))"
  using gate_reachable.step [of "the (sv_safety_gate sv)" "sv_safety_inputs sv" "sv_watchdog_expired sv now"]
  by (auto simp: gate_fine_def refresh_safety_state_def split: option.splits prod.splits)

text \<open>The supervisor after the first steps of \<open>end_cycle\<close>.\<close>

definition cycle_ended :: "'h supervisor \<Rightarrow> nat \<Rightarrow> 'h supervisor" where
  "cycle_ended sv t1 = sv\<lparr>sv_cycle_started_at := None, sv_last_cycle_time :=
     Some (case sv_cycle_started_at sv of Some started \<Rightarrow> t1 - started | None \<Rightarrow> 0)\<rparr>"

lemma cycle_ended_simps [simp]:
  "sv_safety_gate (cycle_ended sv t1) = sv_safety_gate sv"
  "sv_watchdog (cycle_ended sv t1) = sv_watchdog sv"
  "sv_safety_inputs (cycle_ended sv t1) = sv_safety_inputs sv"
  "sv_cycle_count (cycle_ended sv t1) = sv_cycle_count sv"
  "sv_watchdog_expired (cycle_ended sv t1) now = sv_watchdog_expired sv now"
  by (simp_all add: cycle_ended_def sv_watchdog_expired_def)

lemma end_cycle_cases:
  assumes "end_cycle oc sv f t1 t2 t3 t4 = Ret (r, sv', f')"
  obtains (failed) e where "r = Inl e" "sv' = snd (refresh_safety_state (cycle_ended sv t1) t3)"
  | (finished) rep cycle where "r = Inr rep"
      "sv' = (sv_pet (snd (refresh_safety_state (cycle_ended sv t1) t3)) t4)\<lparr>sv_cycle_count := cycle\<rparr>"
      "usize_arith oc (sv_cycle_count sv + 1) = Ret cycle" "cr_cycle rep = cycle"
      "cr_watchdog_expired rep = sv_watchdog_expired sv t2"
      "cr_safety_state rep = fst (refresh_safety_state (cycle_ended sv t1) t3)"
proof -
  obtain st sv2 where rf: "refresh_safety_state (cycle_ended sv t1) t3 = (st, sv2)" by force
  obtain cycle where c: "usize_arith oc (sv_cycle_count sv + 1) = Ret cycle"
    using assms by (auto simp: end_cycle_def obind_eq_Ret)
  then have c': "usize_arith oc (Suc (sv_cycle_count sv)) = Ret cycle" by simp
  obtain x f1 where s: "sv_save_retained sv2 f = (x, f1)" by force
  note e = assms [unfolded end_cycle_def Let_def, folded cycle_ended_def]
  show ?thesis
  proof (cases x)
    case (Inl a)
    have "r = Inl a" "sv' = sv2" using e by (simp_all add: c' rf s Inl)
    then show ?thesis using rf by (intro failed) simp_all
  next
    case (Inr b)
    have r: "r = Inr \<lparr> cr_cycle = cycle, cr_elapsed = (case sv_cycle_started_at sv of Some started \<Rightarrow> t1 - started | None \<Rightarrow> 0),
        cr_watchdog_expired = sv_watchdog_expired sv t2, cr_retained_saved = b, cr_safety_state = st \<rparr>"
      "sv' = (sv_pet sv2 t4)\<lparr>sv_cycle_count := cycle\<rparr>"
      using e by (simp_all add: c' rf s Inr)
    show ?thesis
      by (rule finished [OF r(1)]) (simp_all add: r(2) rf c')
  qed
qed

text \<open>The ways a supervisor gets from its construction to a state: the builders, the inputs,
  the start, the two ends of a cycle and the writes through access paths.\<close>

inductive sv_reachable ::
    "('h \<Rightarrow> io_symbol \<Rightarrow> val \<Rightarrow> (bool io_result \<times> 'h) outcome) \<Rightarrow> 'h supervisor \<Rightarrow> bool"
  for wr where
  new: "sv_reachable wr (supervisor_new h)"
| access: "sv_reachable wr sv \<Longrightarrow> sv_reachable wr (with_access_runtime sv rt)"
| store: "sv_reachable wr sv \<Longrightarrow> sv_reachable wr (with_retain_store sv st)"
| watchdog: "sv_reachable wr sv \<Longrightarrow> sv_reachable wr (with_watchdog sv w)"
| gate: "sv_reachable wr sv \<Longrightarrow> gate_reachable g \<Longrightarrow> sv_reachable wr (with_safety_gate sv g)"
| inputs: "sv_reachable wr sv \<Longrightarrow> sv_reachable wr (set_safety_inputs sv inp)"
| start: "sv_reachable wr sv \<Longrightarrow> sv_reachable wr (snd (cold_start sv f now))"
| begin_c: "sv_reachable wr sv \<Longrightarrow> sv_reachable wr (snd (begin_cycle sv t1 t2))"
| end_c: "sv_reachable wr sv \<Longrightarrow> end_cycle oc sv f t1 t2 t3 t4 = Ret (r, sv', f') \<Longrightarrow> sv_reachable wr sv'"
| written: "sv_reachable wr sv \<Longrightarrow> sv_write_access wr sv name v = Ret (rw, sv') \<Longrightarrow> sv_reachable wr sv'"

lemma cold_start_gate [simp]: "sv_safety_gate (snd (cold_start sv f now)) = sv_safety_gate sv"
  by (auto simp: cold_start_def restore_retained_def sv_pet_def split: option.splits sum.splits prod.splits)

lemma gate_fine_cong: "sv_safety_gate sv' = sv_safety_gate sv \<Longrightarrow> gate_fine sv' = gate_fine sv"
  by (simp add: gate_fine_def)

lemma gate_fine_ended: "gate_fine sv \<Longrightarrow> gate_fine (cycle_ended sv t)"
  by (simp add: gate_fine_def)

lemma sv_pet_gate [simp]: "sv_safety_gate (sv_pet sv now) = sv_safety_gate sv"
  by (simp add: sv_pet_def)

lemma sv_reachable_gate: "sv_reachable wr sv \<Longrightarrow> gate_fine sv"
proof (induction rule: sv_reachable.induct)
  case (new h)
  show ?case by (simp add: gate_fine_def supervisor_new_def)
next
  case (begin_c sv t1 t2)
  have "gate_fine (sv\<lparr>sv_cycle_started_at := Some t1\<rparr>)"
    using begin_c.IH by (simp add: gate_fine_def)
  then show ?case unfolding begin_cycle_def by (rule gate_fine_refresh)
next
  case (end_c sv oc f t1 t2 t3 t4 r sv' f')
  note rf = gate_fine_refresh [OF gate_fine_ended [OF end_c.IH]]
  from end_c.hyps(2) show ?case
  proof (cases rule: end_cycle_cases)
    case failed
    with rf show ?thesis by simp
  next
    case (finished rep cycle)
    with rf [of t1 t3] show ?thesis by (simp add: gate_fine_def)
  qed
next
  case (written sv name v rw sv')
  then show ?case using gate_fine_cong [OF sv_write_keeps_gate] by blast
qed (simp_all add: gate_fine_def with_access_runtime_def with_retain_store_def with_watchdog_def
    with_safety_gate_def set_safety_inputs_def)

section \<open>Properties\<close>

text \<open>C19: A write through an access path reaches the adapter only through a registered
  READ_WRITE path to an I/O symbol, as one write of that symbol, and if a reachable supervisor
  has a safety gate and the symbol is an output, only while the gate has the outputs enabled,
  hence with no stop active, no expired watchdog and no latched fault.\<close>

theorem supervisor_guards_outputs:
  assumes "sv_reachable wr sv" and "sv_write_access wr sv name v = Ret (r, sv')"
    and "sv_hal sv' \<noteq> sv_hal sv"
  shows "\<exists>b sy r0. access_binding_of (sv_access sv) name = Inr b \<and> ab_direction b = ReadWrite \<and>
    ab_binding b = IoTarget sy \<and> wr (sv_hal sv) sy v = Ret (r0, sv_hal sv') \<and>
    (\<forall>st. sym_direction sy = DirOutput \<and> sv_safety_state sv = Some st \<longrightarrow>
       outputs_enabled st \<and> \<not> emergency_stop st \<and> \<not> protective_stop st \<and>
       \<not> watchdog_expired st \<and> \<not> fault_latched st)"
  using assms(2)
proof (cases rule: sv_write_hal_cases)
  case kept
  with assms(3) show ?thesis by simp
next
  case (io b sy r0)
  have "outputs_enabled (gate_state g) \<and> \<not> emergency_stop (gate_state g) \<and>
      \<not> protective_stop (gate_state g) \<and> \<not> watchdog_expired (gate_state g) \<and>
      \<not> fault_latched (gate_state g)"
    if "sym_direction sy = DirOutput" "sv_safety_gate sv = Some g" for g
    using io(4) that by (simp add: check_output_Inr_iff)
  then have "\<forall>st. sym_direction sy = DirOutput \<and> sv_safety_state sv = Some st \<longrightarrow>
      outputs_enabled st \<and> \<not> emergency_stop st \<and> \<not> protective_stop st \<and>
      \<not> watchdog_expired st \<and> \<not> fault_latched st"
    unfolding sv_safety_state_def by (metis map_option_eq_Some)
  with io show ?thesis by blast
qed

definition demo_supervisor :: "modbus_hal supervisor" where
  "demo_supervisor = set_safety_inputs (with_safety_gate (with_watchdog
     (with_access_runtime (supervisor_new demo_modbus) demo_access)
     (watchdog_new 100 0)) (safety_gate_new True))
     (safety_inputs_default\<lparr>in_operator_enable := True\<rparr>)"

lemma demo_supervisor_reachable: "sv_reachable wr demo_supervisor"
  unfolding demo_supervisor_def
  by (intro sv_reachable.inputs sv_reachable.gate sv_reachable.watchdog sv_reachable.access
      sv_reachable.new gate_reachable.fresh)

definition demo_running :: "modbus_hal supervisor" where
  "demo_running = snd (begin_cycle demo_supervisor 10 11)"

theorem supervisor_guards_outputs_witness:
  "\<exists>sv' st. sv_write_access modbus_write_symbol demo_running ''Lamp'' (VBool True) = Ret (Inr True, sv') \<and>
     sv_safety_state demo_running = Some st \<and> outputs_enabled st \<and> \<not> fault_latched st"
proof -
  let ?w = "sv_write_access modbus_write_symbol demo_running ''Lamp'' (VBool True)"
  let ?lamp = "demo_symbol ''lamp'' ''%QX0.0'' DirOutput"
  have e: "(case ?w of Ret (r, sv') \<Rightarrow> r = Inr True \<and>
      modbus_read (sv_hal sv') ?lamp = Some (VBool True) | Panic \<Rightarrow> False)"
    "modbus_read (sv_hal demo_running) ?lamp = Some (VBool False)"
    "access_binding_of (sv_access demo_running) ''Lamp'' = Inr (access_io_binding ''Lamp'' ?lamp ReadWrite)"
    "sv_safety_state demo_running \<noteq> None"
    by code_simp+
  obtain r sv' where w: "?w = Ret (r, sv')"
    using e(1) by (cases ?w) auto
  with e(1) have r: "r = Inr True" and l: "modbus_read (sv_hal sv') ?lamp = Some (VBool True)"
    by simp_all
  obtain st where st: "sv_safety_state demo_running = Some st" using e(4) by blast
  have "sv_hal sv' \<noteq> sv_hal demo_running" using l e(2) by auto
  moreover have "sv_reachable modbus_write_symbol demo_running"
    unfolding demo_running_def by (intro sv_reachable.begin_c demo_supervisor_reachable)
  ultimately obtain b sy where "access_binding_of (sv_access demo_running) ''Lamp'' = Inr b"
    "ab_binding b = IoTarget sy" and
    g: "\<forall>st. sym_direction sy = DirOutput \<and> sv_safety_state demo_running = Some st \<longrightarrow>
       outputs_enabled st \<and> \<not> emergency_stop st \<and> \<not> protective_stop st \<and>
       \<not> watchdog_expired st \<and> \<not> fault_latched st"
    using supervisor_guards_outputs [OF _ w] by blast
  then have "sym_direction sy = DirOutput"
    using e(3) by (auto simp: access_io_binding_def demo_symbol_def)
  with g st w r show ?thesis by blast
qed

text \<open>C23: Once the gate of a supervisor has the outputs disabled, no sequence of
  writes through access paths to output symbols has any effect: each is refused with the
  safety error of its path, and the supervisor stays exactly as it was.\<close>

theorem supervisor_refuses_blocked_output:
  assumes "sv_safety_gate sv = Some g" and "\<not> outputs_enabled (gate_state g)"
    and "\<forall>w \<in> set ws. \<exists>b sy. access_binding_of (sv_access sv) (fst w) = Inr b \<and>
      ab_binding b = IoTarget sy \<and> sym_direction sy = DirOutput"
  shows "fold (\<lambda>w m. obind m (\<lambda>s. omap snd (sv_write_access wr s (fst w) (snd w)))) ws (Ret sv) = Ret sv \<and>
    (\<forall>w \<in> set ws. \<exists>name trip. sv_write_access wr sv (fst w) (snd w) = Ret (Inl (SafetyError name trip), sv))"
proof -
  have ref: "\<exists>name trip. sv_write_access wr sv (fst w) (snd w) = Ret (Inl (SafetyError name trip), sv)"
    if w: "w \<in> set ws" for w
  proof -
    obtain b sy where b: "access_binding_of (sv_access sv) (fst w) = Inr b" "ab_binding b = IoTarget sy"
      "sym_direction sy = DirOutput"
      using assms(3) w by blast
    have "check_output_write g sy \<noteq> Inr ()"
      using assms(2) b(3) by (simp add: check_output_Inr_iff)
    then obtain trip where "check_output_write g sy = Inl trip"
      by (cases "check_output_write g sy") simp_all
    with b assms(1) show ?thesis by (simp add: sv_write_access_def)
  qed
  have "fold (\<lambda>w m. obind m (\<lambda>s. omap snd (sv_write_access wr s (fst w) (snd w)))) us (Ret sv) = Ret sv"
    if "set us \<subseteq> set ws" for us
    using that
  proof (induction us)
    case (Cons u us)
    have "u \<in> set ws" using Cons.prems by simp
    then obtain name trip where "sv_write_access wr sv (fst u) (snd u) = Ret (Inl (SafetyError name trip), sv)"
      using ref by blast
    with Cons show ?case by simp
  qed simp
  with ref show ?thesis by blast
qed

theorem supervisor_refuses_blocked_output_witness:
  "let sv = snd (begin_cycle (set_safety_inputs demo_supervisor
        (safety_inputs_default\<lparr>in_emergency_stop := True\<rparr>)) 10 11)
   in \<exists>name trip. sv_write_access modbus_write_symbol sv ''Lamp'' (VBool True) =
        Ret (Inl (SafetyError name trip), sv)"
proof -
  let ?sv = "snd (begin_cycle (set_safety_inputs demo_supervisor
        (safety_inputs_default\<lparr>in_emergency_stop := True\<rparr>)) 10 11)"
  let ?sy = "demo_symbol ''lamp'' ''%QX0.0'' DirOutput"
  let ?b = "access_io_binding ''Lamp'' ?sy ReadWrite"
  have e: "(case sv_safety_gate ?sv of Some g \<Rightarrow> \<not> outputs_enabled (gate_state g) | None \<Rightarrow> False)"
    "access_binding_of (sv_access ?sv) ''Lamp'' = Inr ?b"
    by code_simp+
  then obtain g where g: "sv_safety_gate ?sv = Some g" "\<not> outputs_enabled (gate_state g)"
    by (auto split: option.splits)
  have "\<forall>w \<in> set [(''Lamp'', VBool True)]. \<exists>b sy. access_binding_of (sv_access ?sv) (fst w) = Inr b \<and>
      ab_binding b = IoTarget sy \<and> sym_direction sy = DirOutput"
    using e(2) by (simp add: access_io_binding_def demo_symbol_def)
  from supervisor_refuses_blocked_output [OF g this] show ?thesis by (simp add: Let_def)
qed

text \<open>C24: A cycle that ends without error is counted (up to the range of the counter) and
  resets the watchdog. When the watchdog had expired or a stop input is set, the safety state
  of the report has the fault latched and the outputs disabled, and it is the state the
  supervisor stays in. The clock does not run backwards between the two watchdog readings.\<close>

theorem end_cycle_reports:
  assumes "end_cycle oc sv f t1 t2 t3 t4 = Ret (Inr rep, sv', f')"
    and "sv_cycle_count sv < usize_max" and "sv_safety_gate sv = Some g" and "t2 \<le> t3"
  shows "cr_cycle rep = sv_cycle_count sv + 1 \<and> sv_cycle_count sv' = sv_cycle_count sv + 1 \<and>
    \<not> sv_watchdog_expired sv' t4 \<and> sv_cycle_started_at sv' = None \<and>
    cr_safety_state rep = sv_safety_state sv' \<and>
    (cr_watchdog_expired rep \<or> in_emergency_stop (sv_safety_inputs sv) \<or>
       in_protective_stop (sv_safety_inputs sv) \<longrightarrow>
     (\<exists>st. cr_safety_state rep = Some st \<and> fault_latched st \<and> \<not> outputs_enabled st))"
  using assms(1)
proof (cases rule: end_cycle_cases)
  case failed
  then show ?thesis by simp
next
  case (finished rep0 cycle)
  let ?rf = "refresh_safety_state (cycle_ended sv t1) t3"
  obtain g' st where u: "safety_gate_update g (sv_safety_inputs sv) (sv_watchdog_expired sv t3) = (g', st)"
    by force
  have rf: "?rf = (Some st, (cycle_ended sv t1)\<lparr>sv_safety_gate := Some g'\<rparr>)"
    using assms(3) u by (simp add: refresh_safety_state_def)
  note uf = safety_gate_update_facts [OF u]
  have mono: "sv_watchdog_expired sv t2 \<Longrightarrow> sv_watchdog_expired sv t3"
    using assms(4) expired_mono by (auto simp: sv_watchdog_expired_def split: option.splits)
  have c: "cycle = sv_cycle_count sv + 1"
    using finished(3) assms(2) by simp
  have l: "fault_latched st \<and> \<not> outputs_enabled st"
    if "cr_watchdog_expired rep \<or> in_emergency_stop (sv_safety_inputs sv) \<or>
      in_protective_stop (sv_safety_inputs sv)"
    using that finished(1,5) uf(3,4) mono by auto
  have sv': "sv' = (sv_pet ((cycle_ended sv t1)\<lparr>sv_safety_gate := Some g'\<rparr>) t4)\<lparr>sv_cycle_count := cycle\<rparr>"
    using finished(2) by (simp add: rf)
  have "\<not> sv_watchdog_expired sv' t4"
    by (simp add: sv' sv_watchdog_expired_def sv_pet_def option.case_eq_if option.map_sel)
  moreover have "cr_safety_state rep = Some st"
    using finished(1,6) by (simp add: rf)
  moreover have "sv_safety_state sv' = Some st" "sv_cycle_count sv' = cycle" "sv_cycle_started_at sv' = None"
    using uf(1) by (simp_all add: sv' sv_safety_state_def sv_pet_def cycle_ended_def)
  ultimately show ?thesis
    using finished(1,4) l c by simp
qed

text \<open>The report's own watchdog flag and the flag in its safety state come from two
  readings of the clock, so that a cycle that runs into its deadline between them is reported
  as in time while its safety state says that the watchdog expired and latches the fault.\<close>

theorem end_cycle_flags_can_disagree:
  assumes "end_cycle oc sv f t1 t2 t3 t4 = Ret (Inr rep, sv', f')"
    and "sv_watchdog sv = Some w" and "sv_safety_gate sv = Some g"
    and "t2 - wd_last_pet w \<le> wd_timeout w" and "wd_timeout w < t3 - wd_last_pet w"
  shows "\<not> cr_watchdog_expired rep \<and>
    (\<exists>st. cr_safety_state rep = Some st \<and> watchdog_expired st \<and> fault_latched st)"
  using assms(1)
proof (cases rule: end_cycle_cases)
  case (finished rep0 cycle)
  have "sv_watchdog_expired sv t3" "\<not> sv_watchdog_expired sv t2"
    using assms by (simp_all add: sv_watchdog_expired_def watchdog_is_expired_def)
  moreover obtain g' st where u: "safety_gate_update g (sv_safety_inputs sv) (sv_watchdog_expired sv t3) = (g', st)"
    by force
  moreover have "fst (refresh_safety_state (cycle_ended sv t1) t3) = Some st"
    using assms(3) u by (simp add: refresh_safety_state_def)
  ultimately show ?thesis
    using finished(1,5,6) safety_gate_update_facts(2,3) [OF u] by simp
qed simp

lemma cycle_result_cases:
  assumes "case out of Ret (Inr rep, sv', f') \<Rightarrow> True | _ \<Rightarrow> False"
  obtains rep sv' f' where "out = Ret (Inr rep, sv', f')"
proof (cases out)
  case (Ret a)
  obtain r sv' f' where a: "a = (r, sv', f')" by (metis surj_pair)
  show ?thesis using assms that by (cases r) (simp_all add: Ret a)
qed (use assms in simp)

theorem end_cycle_reports_witness:
  "case end_cycle True (set_safety_inputs demo_running (safety_inputs_default\<lparr>in_emergency_stop := True\<rparr>))
       demo_fs 20 21 22 23 of
     Ret (Inr rep, sv', f') \<Rightarrow> cr_cycle rep = 1 \<and>
       (\<exists>st. cr_safety_state rep = Some st \<and> fault_latched st \<and> \<not> outputs_enabled st)
   | _ \<Rightarrow> False"
proof -
  let ?sv = "set_safety_inputs demo_running (safety_inputs_default\<lparr>in_emergency_stop := True\<rparr>)"
  have ok: "case end_cycle True ?sv demo_fs 20 21 22 23 of Ret (Inr rep, sv', f') \<Rightarrow> True | _ \<Rightarrow> False"
    "sv_cycle_count ?sv = 0" "sv_safety_gate ?sv \<noteq> None" "in_emergency_stop (sv_safety_inputs ?sv)"
    by code_simp+
  obtain rep sv' f' where e: "end_cycle True ?sv demo_fs 20 21 22 23 = Ret (Inr rep, sv', f')"
    using ok(1) by (rule cycle_result_cases)
  obtain g where g: "sv_safety_gate ?sv = Some g" using ok(3) by blast
  have "sv_cycle_count ?sv < usize_max" using ok(2) by (simp add: usize_max_def)
  from end_cycle_reports [OF e this g] ok(2,4) show ?thesis by (simp add: e) metis
qed

theorem end_cycle_flags_can_disagree_witness:
  "case end_cycle True demo_running demo_fs 99 100 101 102 of
     Ret (Inr rep, sv', f') \<Rightarrow> \<not> cr_watchdog_expired rep \<and>
       (\<exists>st. cr_safety_state rep = Some st \<and> watchdog_expired st \<and> fault_latched st)
   | _ \<Rightarrow> False"
proof -
  have ok: "case end_cycle True demo_running demo_fs 99 100 101 102 of
      Ret (Inr rep, sv', f') \<Rightarrow> True | _ \<Rightarrow> False"
    "sv_safety_gate demo_running \<noteq> None" "sv_watchdog demo_running = Some (watchdog_new 100 0)"
    by code_simp+
  obtain rep sv' f' where e: "end_cycle True demo_running demo_fs 99 100 101 102 = Ret (Inr rep, sv', f')"
    using ok(1) by (rule cycle_result_cases)
  obtain g where g: "sv_safety_gate demo_running = Some g" using ok(2) by blast
  have "100 - wd_last_pet (watchdog_new 100 0) \<le> wd_timeout (watchdog_new 100 0)"
    "wd_timeout (watchdog_new 100 0) < 101 - wd_last_pet (watchdog_new 100 0)"
    by (simp_all add: watchdog_new_def)
  from end_cycle_flags_can_disagree [OF e ok(3) g this] show ?thesis by (simp add: e)
qed

end
