(* ===== verification/StdDates.thy ===== *)
theory StdDates
  imports RustInt
begin

text \<open>
  The calendar of \<open>iec_stdlib/src/lib.rs\<close>: valid dates, the day number of a date of the
  proleptic Gregorian calendar and the date of a day number, in \<open>i64\<close> arithmetic with
  the build's overflow behaviour.
\<close>

section \<open>The code\<close>

definition is_leap_year :: "int \<Rightarrow> bool" where
  "is_leap_year year \<longleftrightarrow> (year smod 4 = 0 \<and> year smod 100 \<noteq> 0) \<or> year smod 400 = 0"

definition days_in_month :: "int \<Rightarrow> int \<Rightarrow> int" where
  "days_in_month year month =
     (if month \<in> {1, 3, 5, 7, 8, 10, 12} then 31
      else if month \<in> {4, 6, 9, 11} then 30
      else if month = 2 \<and> is_leap_year year then 29
      else if month = 2 then 28
      else 0)"

definition valid_date :: "int \<Rightarrow> int \<Rightarrow> int \<Rightarrow> bool" where
  "valid_date year month day \<longleftrightarrow>
     (1 \<le> month \<and> month \<le> 12) \<and> day \<ge> 1 \<and> day \<le> days_in_month year month"

definition days_from_civil :: "bool \<Rightarrow> int \<Rightarrow> int \<Rightarrow> int \<Rightarrow> int outcome" where
  "days_from_civil oc year month day =
     obind (i64_arith oc (year - (if month \<le> 2 then 1 else 0))) (\<lambda>adjusted_year.
     obind (if adjusted_year \<ge> 0 then Ret adjusted_year else i64_arith oc (adjusted_year - 399)) (\<lambda>shifted.
     let era = shifted sdiv 400 in
     obind (i64_arith oc (era * 400)) (\<lambda>era_years.
     obind (i64_arith oc (adjusted_year - era_years)) (\<lambda>year_of_era.
     obind (i64_arith oc (month + (if month > 2 then - 3 else 9))) (\<lambda>month_prime.
     obind (i64_arith oc (153 * month_prime)) (\<lambda>a.
     obind (i64_arith oc (a + 2)) (\<lambda>b.
     obind (i64_arith oc (b sdiv 5 + day)) (\<lambda>c.
     obind (i64_arith oc (c - 1)) (\<lambda>day_of_year.
     obind (i64_arith oc (year_of_era * 365)) (\<lambda>p.
     obind (i64_arith oc (p + year_of_era sdiv 4)) (\<lambda>q.
     obind (i64_arith oc (q - year_of_era sdiv 100)) (\<lambda>r.
     obind (i64_arith oc (r + day_of_year)) (\<lambda>day_of_era.
     obind (i64_arith oc (era * 146097)) (\<lambda>e.
     obind (i64_arith oc (e + day_of_era)) (\<lambda>f.
     i64_arith oc (f - 719468))))))))))))))))"

definition civil_from_days :: "bool \<Rightarrow> int \<Rightarrow> (int \<times> int \<times> int) outcome" where
  "civil_from_days oc days =
     obind (i64_arith oc (days + 719468)) (\<lambda>z.
     obind (if z \<ge> 0 then Ret z else i64_arith oc (z - 146096)) (\<lambda>shifted.
     let era = shifted sdiv 146097 in
     obind (i64_arith oc (era * 146097)) (\<lambda>era_days.
     obind (i64_arith oc (z - era_days)) (\<lambda>day_of_era.
     obind (i64_arith oc (day_of_era - day_of_era sdiv 1460)) (\<lambda>a.
     obind (i64_arith oc (a + day_of_era sdiv 36524)) (\<lambda>b.
     obind (i64_arith oc (b - day_of_era sdiv 146096)) (\<lambda>c.
     let year_of_era = c sdiv 365 in
     obind (i64_arith oc (era * 400)) (\<lambda>era_years.
     obind (i64_arith oc (year_of_era + era_years)) (\<lambda>year.
     obind (i64_arith oc (365 * year_of_era)) (\<lambda>p.
     obind (i64_arith oc (p + year_of_era sdiv 4)) (\<lambda>q.
     obind (i64_arith oc (q - year_of_era sdiv 100)) (\<lambda>r.
     obind (i64_arith oc (day_of_era - r)) (\<lambda>day_of_year.
     obind (i64_arith oc (5 * day_of_year)) (\<lambda>s.
     obind (i64_arith oc (s + 2)) (\<lambda>t.
     let month_prime = t sdiv 153 in
     obind (i64_arith oc (153 * month_prime)) (\<lambda>u.
     obind (i64_arith oc (u + 2)) (\<lambda>v.
     obind (i64_arith oc (day_of_year - v sdiv 5)) (\<lambda>w.
     obind (i64_arith oc (w + 1)) (\<lambda>day.
     obind (i64_arith oc (month_prime + (if month_prime < 10 then 3 else - 9))) (\<lambda>month.
     obind (i64_arith oc (year + (if month \<le> 2 then 1 else 0))) (\<lambda>year'.
     Ret (year', month, day))))))))))))))))))))))"

end
