(* ===== verification/StdNames.thy ===== *)
theory StdNames
  imports Ir
begin

text \<open>
  The names of the standard library, \<open>iec_stdlib/src/lib.rs\<close>: the table of the standard
  functions and function blocks (in the four groups of the norm's clauses), the names of
  the conversion functions, and the position of a formal argument of each function.
\<close>

section \<open>The table\<close>

datatype standard_symbol_kind = StdFunction | StdFunctionBlock

record standard_symbol =
  ss_name :: string
  ss_kind :: standard_symbol_kind
  ss_clause :: string

definition std_fun :: "string \<Rightarrow> string \<Rightarrow> standard_symbol" where
  "std_fun name clause = \<lparr> ss_name = name, ss_kind = StdFunction, ss_clause = clause \<rparr>"

definition std_block :: "string \<Rightarrow> string \<Rightarrow> standard_symbol" where
  "std_block name clause = \<lparr> ss_name = name, ss_kind = StdFunctionBlock, ss_clause = clause \<rparr>"

definition arithmetic_symbols :: "standard_symbol list" where
  "arithmetic_symbols =
    [std_fun ''ABS'' ''2.5.1.5.2'',
     std_fun ''SQRT'' ''2.5.1.5.2'',
     std_fun ''LN'' ''2.5.1.5.2'',
     std_fun ''LOG'' ''2.5.1.5.2'',
     std_fun ''EXP'' ''2.5.1.5.2'',
     std_fun ''SIN'' ''2.5.1.5.2'',
     std_fun ''COS'' ''2.5.1.5.2'',
     std_fun ''TAN'' ''2.5.1.5.2'',
     std_fun ''ADD'' ''2.5.1.5.2'',
     std_fun ''SUB'' ''2.5.1.5.2'',
     std_fun ''MUL'' ''2.5.1.5.2'',
     std_fun ''DIV'' ''2.5.1.5.2'',
     std_fun ''MOD'' ''2.5.1.5.2'',
     std_fun ''EXPT'' ''2.5.1.5.2'',
     std_fun ''MOVE'' ''2.5.1.5.4'',
     std_fun ''MIN'' ''2.5.1.5.4'',
     std_fun ''MAX'' ''2.5.1.5.4'',
     std_fun ''LIMIT'' ''2.5.1.5.4'',
     std_fun ''SEL'' ''2.5.1.5.4'',
     std_fun ''MUX'' ''2.5.1.5.4'',
     std_fun ''GT'' ''2.5.1.5.5'',
     std_fun ''GE'' ''2.5.1.5.5'',
     std_fun ''EQ'' ''2.5.1.5.5'',
     std_fun ''NE'' ''2.5.1.5.5'',
     std_fun ''LE'' ''2.5.1.5.5'',
     std_fun ''LT'' ''2.5.1.5.5'']"

definition bit_string_symbols :: "standard_symbol list" where
  "bit_string_symbols =
    [std_fun ''SHL'' ''2.5.1.5.6'',
     std_fun ''SHR'' ''2.5.1.5.6'',
     std_fun ''ROL'' ''2.5.1.5.6'',
     std_fun ''ROR'' ''2.5.1.5.6'',
     std_fun ''AND'' ''2.5.1.5.6'',
     std_fun ''OR'' ''2.5.1.5.6'',
     std_fun ''XOR'' ''2.5.1.5.6'',
     std_fun ''NOT'' ''2.5.1.5.6'',
     std_fun ''LEN'' ''2.5.1.5.7'',
     std_fun ''LEFT'' ''2.5.1.5.7'',
     std_fun ''RIGHT'' ''2.5.1.5.7'',
     std_fun ''MID'' ''2.5.1.5.7'',
     std_fun ''CONCAT'' ''2.5.1.5.7'',
     std_fun ''INSERT'' ''2.5.1.5.7'',
     std_fun ''DELETE'' ''2.5.1.5.7'',
     std_fun ''REPLACE'' ''2.5.1.5.7'',
     std_fun ''FIND'' ''2.5.1.5.7'']"

definition time_symbols :: "standard_symbol list" where
  "time_symbols =
    [std_fun ''ADD_TIME'' ''2.5.1.5.3'',
     std_fun ''ADD_TOD_TIME'' ''2.5.1.5.3'',
     std_fun ''ADD_DT_TIME'' ''2.5.1.5.3'',
     std_fun ''CONCAT_DATE'' ''2.5.1.5.3'',
     std_fun ''CONCAT_TOD'' ''2.5.1.5.3'',
     std_fun ''CONCAT_DT'' ''2.5.1.5.3'',
     std_fun ''CONCAT_DATE_TOD'' ''2.5.1.5.3'',
     std_fun ''DAY_OF_WEEK'' ''2.5.1.5.3'',
     std_fun ''SPLIT_DATE'' ''2.5.1.5.3'',
     std_fun ''SPLIT_TOD'' ''2.5.1.5.3'',
     std_fun ''SPLIT_DT'' ''2.5.1.5.3'',
     std_fun ''SUB_TIME'' ''2.5.1.5.3'',
     std_fun ''SUB_DATE_DATE'' ''2.5.1.5.3'',
     std_fun ''SUB_TOD_TIME'' ''2.5.1.5.3'',
     std_fun ''SUB_TOD_TOD'' ''2.5.1.5.3'',
     std_fun ''SUB_DT_TIME'' ''2.5.1.5.3'',
     std_fun ''SUB_DT_DT'' ''2.5.1.5.3'',
     std_fun ''MUL_TIME'' ''2.5.1.5.3'',
     std_fun ''MULTIME'' ''2.5.1.5.3'',
     std_fun ''DIV_TIME'' ''2.5.1.5.3'',
     std_fun ''DIVTIME'' ''2.5.1.5.3'']"

definition conversion_block_symbols :: "standard_symbol list" where
  "conversion_block_symbols =
    [std_fun ''BOOL_TO_INT'' ''2.5.1.5.1'',
     std_fun ''TRUNC'' ''2.5.1.5.1'',
     std_fun ''INT_TO_BOOL'' ''2.5.1.5.1'',
     std_fun ''INT_TO_REAL'' ''2.5.1.5.1'',
     std_fun ''REAL_TO_INT'' ''2.5.1.5.1'',
     std_block ''SR'' ''2.5.2.3.1'',
     std_block ''RS'' ''2.5.2.3.1'',
     std_block ''R_TRIG'' ''2.5.2.3.2'',
     std_block ''F_TRIG'' ''2.5.2.3.2'',
     std_block ''CTU'' ''2.5.2.3.3'',
     std_block ''CTD'' ''2.5.2.3.3'',
     std_block ''CTUD'' ''2.5.2.3.3'',
     std_block ''TP'' ''2.5.2.3.4'',
     std_block ''TON'' ''2.5.2.3.4'',
     std_block ''TOF'' ''2.5.2.3.4'',
     std_block ''USEND'' ''2.5.2.3.5'',
     std_block ''URCV'' ''2.5.2.3.5'',
     std_block ''BSEND'' ''2.5.2.3.5'',
     std_block ''BRCV'' ''2.5.2.3.5'',
     std_block ''SEND'' ''2.5.2.3.5'',
     std_block ''RCV'' ''2.5.2.3.5'']"

definition standard_symbols :: "standard_symbol list" where
  "standard_symbols = arithmetic_symbols @ bit_string_symbols @ time_symbols @ conversion_block_symbols"

section \<open>Classes of names\<close>

definition is_standard_void_function :: "string \<Rightarrow> bool" where
  "is_standard_void_function name \<longleftrightarrow>
     canonical_identifier name \<in> {''SPLIT_DATE'', ''SPLIT_TOD'', ''SPLIT_DT''}"

definition is_conversion_type :: "string \<Rightarrow> bool" where
  "is_conversion_type name \<longleftrightarrow> name \<in>
     {''BOOL'', ''SINT'', ''INT'', ''DINT'', ''LINT'', ''USINT'', ''UINT'', ''UDINT'', ''ULINT'',
      ''BYTE'', ''WORD'', ''DWORD'', ''LWORD'', ''REAL'', ''LREAL'', ''STRING'', ''WSTRING'',
      ''TIME'', ''DATE'', ''TOD'', ''TIME_OF_DAY'', ''DT'', ''DATE_AND_TIME''}"

definition is_bcd_integer_type :: "string \<Rightarrow> bool" where
  "is_bcd_integer_type name \<longleftrightarrow> name \<in>
     {''SINT'', ''INT'', ''DINT'', ''LINT'', ''USINT'', ''UINT'', ''UDINT'', ''ULINT''}"

definition is_bcd_bit_type :: "string \<Rightarrow> bool" where
  "is_bcd_bit_type name \<longleftrightarrow> name \<in> {''BYTE'', ''WORD'', ''DWORD'', ''LWORD''}"

definition is_conversion_function_name :: "string \<Rightarrow> bool" where
  "is_conversion_function_name name \<longleftrightarrow>
     (case split_once_str ''_TO_'' name of
        None \<Rightarrow> False
      | Some (src, target) \<Rightarrow> is_conversion_type src \<and> is_conversion_type target)"

definition is_bcd_conversion_function_name :: "string \<Rightarrow> bool" where
  "is_bcd_conversion_function_name name \<longleftrightarrow>
     (if name \<in> {''BCD_TO_INT'', ''INT_TO_BCD''} then True
      else case split_once_str ''_BCD_TO_'' name of
        Some (src, target) \<Rightarrow> is_bcd_bit_type src \<and> is_bcd_integer_type target
      | None \<Rightarrow>
          (case split_once_str ''_TO_BCD_'' name of
             Some (src, target) \<Rightarrow> is_bcd_integer_type src \<and> is_bcd_bit_type target
           | None \<Rightarrow> False))"

definition is_standard_function :: "string \<Rightarrow> bool" where
  "is_standard_function raw =
     (let name = canonical_identifier raw
      in if is_standard_void_function name then False
         else if is_bcd_conversion_function_name name then True
         else if is_conversion_function_name name then True
         else list_ex (\<lambda>s. ss_kind s = StdFunction \<and> ss_name s = name) standard_symbols)"

definition is_standard_function_block :: "string \<Rightarrow> bool" where
  "is_standard_function_block raw =
     (let name = canonical_identifier raw
      in list_ex (\<lambda>s. ss_kind s = StdFunctionBlock \<and> ss_name s = name) standard_symbols)"

definition is_communication_function_block :: "string \<Rightarrow> bool" where
  "is_communication_function_block name \<longleftrightarrow>
     canonical_identifier name \<in> {''USEND'', ''URCV'', ''BSEND'', ''BRCV'', ''SEND'', ''RCV''}"

section \<open>Positions of formal arguments\<close>

definition named_index :: "string \<Rightarrow> (string \<times> nat) list \<Rightarrow> nat option" where
  "named_index arg names = map_of names arg"

definition extensible_input_index :: "string \<Rightarrow> nat option" where
  "extensible_input_index arg =
     (case strip_prefix ''IN'' arg of
        None \<Rightarrow> None
      | Some suffix \<Rightarrow>
          if suffix = [] then Some 0
          else (case parse_usize suffix of
                  None \<Rightarrow> None
                | Some v \<Rightarrow> if v < 1 then None else Some (v - 1)))"

definition input_n_index :: "string \<Rightarrow> nat option" where
  "input_n_index arg = Option.bind (strip_prefix ''IN'' arg) parse_usize"

text \<open>\<open>index + 1\<close> of \<open>MUX\<close> is unchecked \<open>usize\<close> arithmetic.\<close>

definition extensible_position :: "string \<Rightarrow> nat \<Rightarrow> nat option" where
  "extensible_position fname index =
     (if fname \<in> {''ADD'', ''MUL'', ''MIN'', ''MAX'', ''GT'', ''GE'', ''EQ'', ''LE'', ''LT'', ''AND'',
          ''OR'', ''XOR'', ''CONCAT''} then Some index
      else if fname \<in> {''SUB'', ''DIV'', ''MOD'', ''EXPT'', ''NE'', ''ADD_TIME'', ''SUB_TIME'',
          ''ADD_TOD_TIME'', ''SUB_TOD_TIME'', ''ADD_DT_TIME'', ''SUB_DT_TIME'', ''SUB_DATE_DATE'',
          ''SUB_TOD_TOD'', ''SUB_DT_DT'', ''MUL_TIME'', ''MULTIME'', ''DIV_TIME'', ''DIVTIME'',
          ''FIND'', ''CONCAT_DATE_TOD''} \<and> index < 2 then Some index
      else None)"

definition named_position :: "string \<Rightarrow> string \<Rightarrow> nat option" where
  "named_position fname arg =
     (if fname \<in> {''ABS'', ''SQRT'', ''LN'', ''LOG'', ''EXP'', ''SIN'', ''COS'', ''TAN'', ''TRUNC'',
          ''MOVE'', ''NOT'', ''LEN'', ''DAY_OF_WEEK''} then named_index arg [(''IN'', 0)]
      else if fname \<in> {''SHL'', ''SHR'', ''ROL'', ''ROR''} then
        named_index arg [(''IN'', 0), (''N'', 1)]
      else if fname = ''LIMIT'' then named_index arg [(''MN'', 0), (''IN'', 1), (''MX'', 2)]
      else if fname \<in> {''LEFT'', ''RIGHT''} then named_index arg [(''IN'', 0), (''L'', 1)]
      else if fname = ''MID'' then named_index arg [(''IN'', 0), (''L'', 1), (''P'', 2)]
      else if fname = ''INSERT'' then named_index arg [(''IN1'', 0), (''IN2'', 1), (''P'', 2)]
      else if fname = ''DELETE'' then named_index arg [(''IN'', 0), (''L'', 1), (''P'', 2)]
      else if fname = ''REPLACE'' then
        named_index arg [(''IN1'', 0), (''IN2'', 1), (''L'', 2), (''P'', 3)]
      else if fname = ''CONCAT_DATE'' then
        named_index arg [(''YEAR'', 0), (''MONTH'', 1), (''DAY'', 2), (''DATE'', 2)]
      else if fname = ''CONCAT_TOD'' then
        named_index arg [(''HOUR'', 0), (''MINUTE'', 1), (''SECOND'', 2), (''MILLISECOND'', 3)]
      else if fname = ''CONCAT_DT'' then
        named_index arg [(''YEAR'', 0), (''MONTH'', 1), (''DAY'', 2), (''DATE'', 2), (''HOUR'', 3),
          (''MINUTE'', 4), (''SECOND'', 5), (''MILLISECOND'', 6)]
      else if fname = ''CONCAT_DATE_TOD'' then
        named_index arg [(''DATE'', 0), (''TOD'', 1), (''TIME_OF_DAY'', 1)]
      else if is_conversion_function_name fname \<or> is_bcd_conversion_function_name fname then
        named_index arg [(''IN'', 0)]
      else None)"

definition standard_function_input_index :: "bool \<Rightarrow> string \<Rightarrow> string \<Rightarrow> nat option outcome" where
  "standard_function_input_index oc function_name argument_name =
     (let fname = canonical_identifier function_name; arg = canonical_identifier argument_name
      in if fname = ''SEL'' then Ret (named_index arg [(''G'', 0), (''IN0'', 1), (''IN1'', 2)])
         else if fname = ''MUX'' then
           (if arg = ''K'' then Ret (Some 0)
            else otry (input_n_index arg) (\<lambda>index. omap Some (usize_arith oc (index + 1))))
         else
           (case Option.bind (extensible_input_index arg) (extensible_position fname) of
              Some mapped \<Rightarrow> Ret (Some mapped)
            | None \<Rightarrow> Ret (named_position fname arg)))"

end
