(* ===== verification/StdTime.thy ===== *)
theory StdTime
  imports StdDates StdNames
begin

text \<open>
  Dates, times of day and durations as text, and the readings of a value as a Boolean, a
  number, a text or a time, as the conversion functions of \<open>iec_stdlib/src/lib.rs\<close> use
  them. A date is a day number, a time of day and a date and time are milliseconds; the
  \<open>i128\<close> sums of parsed parts stay far inside their range and are written without a check.
\<close>

section \<open>Reading text\<close>

text \<open>\<open>str::get\<close> with an open range: only at a character boundary.\<close>

definition is_char_boundary :: "string \<Rightarrow> nat \<Rightarrow> bool" where
  "is_char_boundary s i \<longleftrightarrow> i = 0 \<or> i = length s \<or> (i < length s \<and> \<not> is_cont (s ! i))"

definition get_to :: "string \<Rightarrow> nat \<Rightarrow> string option" where
  "get_to s i = (if is_char_boundary s i then Some (take i s) else None)"

definition get_from :: "string \<Rightarrow> nat \<Rightarrow> string option" where
  "get_from s i = (if is_char_boundary s i then Some (drop i s) else None)"

text \<open>The text after an optional prefix.\<close>

definition without_prefix :: "string \<Rightarrow> string \<Rightarrow> string \<Rightarrow> string" where
  "without_prefix p q text =
     (case strip_prefix p text of
        Some rest \<Rightarrow> rest
      | None \<Rightarrow> (case strip_prefix q text of Some rest \<Rightarrow> rest | None \<Rightarrow> text))"

definition parse_date_days :: "bool \<Rightarrow> string \<Rightarrow> int option outcome" where
  "parse_date_days oc input =
     (case split_at (CHR ''-'') input of
        y # rest \<Rightarrow> otry (parse_i64 y) (\<lambda>year.
          case rest of [] \<Rightarrow> Ret None
          | m # rest \<Rightarrow> otry (parse_i64 m) (\<lambda>month.
              case rest of [] \<Rightarrow> Ret None
              | d # rest \<Rightarrow> otry (parse_i64 d) (\<lambda>day.
                  if rest \<noteq> [] \<or> \<not> valid_date year month day then Ret None
                  else omap Some (days_from_civil oc year month day))))
      | [] \<Rightarrow> Ret None)"

text \<open>The fraction of the seconds: the first three digits, filled up with zeros.\<close>

definition fraction_millis :: "string \<Rightarrow> int option" where
  "fraction_millis fraction =
     (if fraction = [] \<or> \<not> list_all is_ascii_digit fraction then None
      else let text = take 3 fraction
           in parse_i128 (text @ replicate (3 - length text) (CHR ''0'')))"

definition seconds_and_millis :: "string \<Rightarrow> (int \<times> int) option" where
  "seconds_and_millis part =
     (case split_once (CHR ''.'') part of
        Some (seconds, fraction) \<Rightarrow>
          Option.bind (fraction_millis fraction) (\<lambda>ms.
            map_option (\<lambda>s. (s, ms)) (parse_i128 seconds))
      | None \<Rightarrow> map_option (\<lambda>s. (s, 0)) (parse_i128 part))"

definition parse_time_of_day_ms :: "string \<Rightarrow> int option" where
  "parse_time_of_day_ms input =
     (case split_at (CHR '':'') input of
        h # rest \<Rightarrow> Option.bind (parse_i128 h) (\<lambda>hour.
          case rest of [] \<Rightarrow> None
          | m # rest \<Rightarrow> Option.bind (parse_i128 m) (\<lambda>minute.
              case rest of [] \<Rightarrow> None
              | second_part # rest \<Rightarrow>
                  if rest \<noteq> [] \<or> \<not> (0 \<le> hour \<and> hour \<le> 23) \<or> \<not> (0 \<le> minute \<and> minute \<le> 59) then None
                  else Option.bind (seconds_and_millis second_part) (\<lambda>(second, millis).
                    if \<not> (0 \<le> second \<and> second \<le> 59) then None
                    else Some (((hour * 60 + minute) * 60 + second) * 1000 + millis))))
      | [] \<Rightarrow> None)"

definition parse_date_time_ms :: "bool \<Rightarrow> string \<Rightarrow> int option outcome" where
  "parse_date_time_ms oc input =
     (if length input < 11 then Ret None
      else otry (get_to input 10) (\<lambda>date_text.
        obind (parse_date_days oc date_text) (\<lambda>parsed. otry parsed (\<lambda>date.
          let separator = input ! 10 in
          if separator \<noteq> CHR ''-'' \<and> separator \<noteq> CHR ''T'' \<and> separator \<noteq> CHR ''t'' then Ret None
          else otry (get_from input 11) (\<lambda>rest.
            otry (parse_time_of_day_ms rest) (\<lambda>tod. Ret (Some (date * 86400000 + tod))))))))"

section \<open>Durations\<close>

definition duration_units :: "string \<Rightarrow> (f64 \<times> nat) option" where
  "duration_units rest =
     (if starts_with rest ''ms'' then Some (f64_of_int 1, 2)
      else if starts_with rest ''d'' then Some (f64_of_int 86400000, 1)
      else if starts_with rest ''h'' then Some (f64_of_int 3600000, 1)
      else if starts_with rest ''m'' then Some (f64_of_int 60000, 1)
      else if starts_with rest ''s'' then Some (f64_of_int 1000, 1)
      else None)"

definition is_number_char :: "char \<Rightarrow> bool" where
  "is_number_char c \<longleftrightarrow> is_ascii_digit c \<or> c = CHR ''.''"

definition f64_to_i128 :: "f64 \<Rightarrow> int" where
  "f64_to_i128 = f64_to_int i128_min i128_max"

text \<open>One turn of the loop: the value of the next number, and what follows it.\<close>

definition duration_number :: "string \<Rightarrow> (f64 \<times> bool \<times> string) option" where
  "duration_number rest =
     (let number_text = takeWhile is_number_char rest in
      if number_text = [] then None
      else if number_text = ''.'' \<or> length (filter (\<lambda>c. c = CHR ''.'') number_text) > 1 then None
      else map_option (\<lambda>v. (v, CHR ''.'' \<in> set number_text, dropWhile is_number_char rest))
             (parse_f64 number_text))"

lemma duration_shorter:
  "duration_number rest = Some (v, fr, rest') \<Longrightarrow> length rest' \<le> length rest"
  "duration_units rest' = Some (factor, k) \<Longrightarrow> 0 < k"
  by (auto simp: duration_number_def duration_units_def Let_def length_dropWhile_le split: if_splits)

function duration_loop :: "f64 \<Rightarrow> string \<Rightarrow> f64 \<Rightarrow> bool \<Rightarrow> int option" where
  "duration_loop sgn_f rest acc saw_unit =
     (if rest = [] then (if saw_unit then Some (f64_to_i128 (f64_mul sgn_f acc)) else None)
      else case duration_number rest of
        None \<Rightarrow> None
      | Some (v, fractional, rest') \<Rightarrow>
          (if rest' = [] then (if saw_unit then None else Some (f64_to_i128 (f64_mul sgn_f v)))
           else case duration_units rest' of
             None \<Rightarrow> None
           | Some (factor, consumed) \<Rightarrow>
               (if fractional \<and> drop consumed rest' \<noteq> [] then None
                else duration_loop sgn_f (drop consumed rest') (f64_add acc (f64_mul v factor)) True)))"
  by pat_completeness auto
termination
  by (relation "measure (\<lambda>(_, rest, _, _). length rest)")
    (auto dest!: duration_shorter, metis diff_less le_less_trans length_greater_0_conv less_le_trans)

declare duration_loop.simps [simp del]

definition parse_duration_text_ms :: "string \<Rightarrow> int option" where
  "parse_duration_text_ms input =
     (let text = to_ascii_lowercase (filter (\<lambda>c. c \<noteq> CHR ''_'') (trim input));
          neg = starts_with text ''-'';
          text = (if neg then drop 1 text else text)
      in if text = [] then None
         else duration_loop (f64_of_int (if neg then - 1 else 1)) text (f64_of_int 0) False)"

section \<open>Prefixed literals\<close>

definition parse_date_string_days :: "bool \<Rightarrow> string \<Rightarrow> int option outcome" where
  "parse_date_string_days oc input = parse_date_days oc (without_prefix ''D#'' ''DATE#'' (trim input))"

definition parse_tod_string_ms :: "string \<Rightarrow> int option" where
  "parse_tod_string_ms input = parse_time_of_day_ms (without_prefix ''TOD#'' ''TIME_OF_DAY#'' (trim input))"

definition parse_dt_string_ms :: "bool \<Rightarrow> string \<Rightarrow> int option outcome" where
  "parse_dt_string_ms oc input =
     parse_date_time_ms oc (without_prefix ''DT#'' ''DATE_AND_TIME#'' (trim input))"

definition parse_time_string_ms :: "string \<Rightarrow> int option" where
  "parse_time_string_ms input = parse_duration_text_ms (without_prefix ''T#'' ''TIME#'' (trim input))"

section \<open>Writing text\<close>

text \<open>\<open>{:0w}\<close>: zeros between the sign and the digits up to the width.\<close>

definition pad_int :: "nat \<Rightarrow> int \<Rightarrow> string" where
  "pad_int w n =
     (let digits = show_nat (nat \<bar>n\<bar>); sgn = (if n < 0 then ''-'' else '''')
      in sgn @ replicate (w - length sgn - length digits) (CHR ''0'') @ digits)"

definition date_text :: "int \<times> int \<times> int \<Rightarrow> string" where
  "date_text date = (case date of (y, m, d) \<Rightarrow> pad_int 4 y @ ''-'' @ pad_int 2 m @ ''-'' @ pad_int 2 d)"

definition date_days_to_string :: "bool \<Rightarrow> int \<Rightarrow> string outcome" where
  "date_days_to_string oc days =
     omap (\<lambda>parts. ''D#'' @ date_text parts) (civil_from_days oc (wrap_i64 days))"

definition tod_ms_to_string :: "int \<Rightarrow> string" where
  "tod_ms_to_string t =
     (let ms = t mod 86400000;
          hour = ms sdiv 3600000;
          minute = (ms smod 3600000) sdiv 60000;
          second = (ms smod 60000) sdiv 1000;
          millisecond = ms smod 1000
      in ''TOD#'' @ pad_int 2 hour @ '':'' @ pad_int 2 minute @ '':'' @ pad_int 2 second @ ''.'' @
         pad_int 3 millisecond)"

text \<open>\<open>trim_start_matches\<close> removes every leading copy.\<close>

function trim_start_matches :: "string \<Rightarrow> string \<Rightarrow> string" where
  "trim_start_matches p s =
     (if p = [] then s
      else case strip_prefix p s of None \<Rightarrow> s | Some rest \<Rightarrow> trim_start_matches p rest)"
  by pat_completeness auto
termination
  by (relation "measure (\<lambda>(_, s). length s)") (auto simp: strip_prefix_eq_Some)

declare trim_start_matches.simps [simp del]

definition dt_ms_to_string :: "bool \<Rightarrow> int \<Rightarrow> string outcome" where
  "dt_ms_to_string oc ms =
     (let days = ms sdiv 86400000;
          tod = ms smod 86400000;
          (tod, days) = (if tod < 0 then (tod + 86400000, days - 1) else (tod, days))
      in omap (\<lambda>date. ''DT#'' @ date_text date @ ''-'' @
                 trim_start_matches ''TOD#'' (tod_ms_to_string tod))
           (civil_from_days oc (wrap_i64 days)))"

section \<open>A value as another type\<close>

definition value_string :: "val \<Rightarrow> string option" where
  "value_string v = (case v of VString s \<Rightarrow> Some s | VWString s \<Rightarrow> Some s | _ \<Rightarrow> None)"

definition value_time_ms :: "val \<Rightarrow> int option" where
  "value_time_ms v = (case v of VTimeMs t \<Rightarrow> Some t | _ \<Rightarrow> as_i64 v)"

definition value_to_bool :: "val \<Rightarrow> bool option" where
  "value_to_bool v =
     (let text = (\<lambda>s. let c = canonical_identifier s in
            if c \<in> {''TRUE'', ''1''} then Some True
            else if c \<in> {''FALSE'', ''0'', ''''} then Some False
            else None)
      in case v of
           VString s \<Rightarrow> text s
         | VWString s \<Rightarrow> text s
         | VTimeMs t \<Rightarrow> Some (t \<noteq> 0)
         | _ \<Rightarrow> as_bool v)"

definition value_to_i64 :: "val \<Rightarrow> int option" where
  "value_to_i64 v = (case v of
       VString s \<Rightarrow> parse_i64 (trim s)
     | VWString s \<Rightarrow> parse_i64 (trim s)
     | VTimeMs t \<Rightarrow> checked_i64 t
     | _ \<Rightarrow> as_i64 v)"

definition value_to_f64 :: "val \<Rightarrow> f64 option" where
  "value_to_f64 v = (case v of
       VString s \<Rightarrow> parse_f64 (trim s)
     | VWString s \<Rightarrow> parse_f64 (trim s)
     | VTimeMs t \<Rightarrow> Some (f64_of_int t)
     | _ \<Rightarrow> as_f64 v)"

definition value_to_time_ms :: "val \<Rightarrow> int option" where
  "value_to_time_ms v = (case v of
       VTimeMs t \<Rightarrow> Some t
     | VString s \<Rightarrow> parse_time_string_ms s
     | VWString s \<Rightarrow> parse_time_string_ms s
     | _ \<Rightarrow> as_i64 v)"

definition value_to_date_days :: "bool \<Rightarrow> val \<Rightarrow> int option outcome" where
  "value_to_date_days oc v = (case v of
       VString s \<Rightarrow> parse_date_string_days oc s
     | VWString s \<Rightarrow> parse_date_string_days oc s
     | _ \<Rightarrow> Ret (value_time_ms v))"

definition value_to_tod_ms :: "val \<Rightarrow> int option" where
  "value_to_tod_ms v = (case v of
       VString s \<Rightarrow> parse_tod_string_ms s
     | VWString s \<Rightarrow> parse_tod_string_ms s
     | _ \<Rightarrow> value_time_ms v)"

definition value_to_dt_ms :: "bool \<Rightarrow> val \<Rightarrow> int option outcome" where
  "value_to_dt_ms oc v = (case v of
       VString s \<Rightarrow> parse_dt_string_ms oc s
     | VWString s \<Rightarrow> parse_dt_string_ms oc s
     | _ \<Rightarrow> Ret (value_time_ms v))"

definition value_to_string :: "val \<Rightarrow> string" where
  "value_to_string v = (case v of
       VBool b \<Rightarrow> (if b then ''TRUE'' else ''FALSE'')
     | VInt n \<Rightarrow> show_int n
     | VReal x \<Rightarrow> show_f64 x
     | VString s \<Rightarrow> s
     | VWString s \<Rightarrow> s
     | VTimeMs t \<Rightarrow> ''T#'' @ show_int t @ ''ms''
     | _ \<Rightarrow> display_value v)"

definition value_to_string_for_source :: "bool \<Rightarrow> string \<Rightarrow> val \<Rightarrow> string option outcome" where
  "value_to_string_for_source oc src v =
     (if src = ''DATE'' then
        obind (value_to_date_days oc v) (\<lambda>days. otry days (\<lambda>d. omap Some (date_days_to_string oc d)))
      else if src = ''TOD'' \<or> src = ''TIME_OF_DAY'' then
        Ret (map_option tod_ms_to_string (value_to_tod_ms v))
      else if src = ''DT'' \<or> src = ''DATE_AND_TIME'' then
        obind (value_to_dt_ms oc v) (\<lambda>ms. otry ms (\<lambda>t. omap Some (dt_ms_to_string oc t)))
      else Ret (Some (value_to_string v)))"

section \<open>Times of day read back\<close>

lemma pad_int_digits:
  assumes "0 \<le> n"
  shows "pad_int w n = replicate (w - length (show_nat (nat n))) (CHR ''0'') @ show_nat (nat n)"
  using assms by (simp add: pad_int_def Let_def)

lemma digits_value_zeros: "digits_value 10 0 (replicate k (CHR ''0'') @ s) = digits_value 10 0 s"
  by (induction k) (simp_all add: to_digit_def is_ascii_digit_def byte_def)

lemma unsigned_digits_pad:
  assumes "0 \<le> n"
  shows "unsigned_digits 10 (pad_int w n) = Some (nat n)"
  by (simp add: pad_int_digits [OF assms] unsigned_digits_def digits_value_zeros)

lemma pad_int_set: "0 \<le> n \<Longrightarrow> c \<in> set (pad_int w n) \<Longrightarrow> is_ascii_digit c"
  using show_nat_digits [of c "nat n"]
  by (auto simp: pad_int_digits is_ascii_digit_def byte_def split: if_splits)

lemma pad_int_ne [simp]: "pad_int w n \<noteq> []"
  by (simp add: pad_int_def Let_def)

lemma pad_int_head:
  assumes "0 \<le> n"
  obtains c cs where "pad_int w n = c # cs" "c \<noteq> CHR ''-''" "c \<noteq> CHR ''+''"
proof (cases "pad_int w n")
  case (Cons c cs)
  then have "is_ascii_digit c" using pad_int_set [OF assms, of c w] by simp
  then have "c \<noteq> CHR ''-''" "c \<noteq> CHR ''+''" by (auto simp: is_ascii_digit_def byte_def)
  with Cons show ?thesis by (rule that)
qed simp

lemma parse_signed_pad:
  assumes "0 \<le> n" "lo \<le> n" "n \<le> hi"
  shows "from_str_radix_signed 10 lo hi (pad_int w n) = Some n"
proof -
  obtain c cs where "pad_int w n = c # cs" "c \<noteq> CHR ''-''" "c \<noteq> CHR ''+''"
    using assms(1) by (rule pad_int_head)
  with unsigned_digits_pad [OF assms(1), of w] assms show ?thesis
    by (simp add: from_str_radix_signed_def)
qed

lemma parse_i128_pad: "0 \<le> n \<Longrightarrow> n \<le> i64_max \<Longrightarrow> parse_i128 (pad_int w n) = Some n"
  and parse_i64_pad: "0 \<le> n \<Longrightarrow> n \<le> i64_max \<Longrightarrow> parse_i64 (pad_int w n) = Some n"
  by (simp_all add: parse_i128_def parse_i64_def parse_signed_pad int_bounds)

lemma not_in_pad: "0 \<le> n \<Longrightarrow> \<not> is_ascii_digit d \<Longrightarrow> d \<notin> set (pad_int w n)"
  using pad_int_set by blast

lemma length_show_nat_le: "n < 10 ^ k \<Longrightarrow> 0 < k \<Longrightarrow> length (show_nat n) \<le> k"
proof (induction k arbitrary: n)
  case (Suc k)
  show ?case
  proof (cases "n < 10")
    case True
    then show ?thesis by (simp add: show_nat.simps)
  next
    case False
    with Suc.prems(1) have k: "0 < k" by (cases k) simp_all
    have "n div 10 < 10 ^ k" using Suc.prems(1) by (simp add: less_mult_imp_div_less)
    from Suc.IH [OF this k] False show ?thesis by (subst show_nat.simps) simp
  qed
qed simp

lemma length_pad_int: "0 \<le> n \<Longrightarrow> n < 10 ^ w \<Longrightarrow> 0 < w \<Longrightarrow> length (pad_int w n) = w"
  using length_show_nat_le [of "nat n" w]
  by (simp add: pad_int_digits nat_less_iff)

definition clock_text :: "int \<Rightarrow> int \<Rightarrow> int \<Rightarrow> int \<Rightarrow> string" where
  "clock_text h m s ms = pad_int 2 h @ CHR '':'' # pad_int 2 m @ CHR '':'' # pad_int 2 s @ CHR ''.'' # pad_int 3 ms"

lemma not_digit_seps [simp]:
  "\<not> is_ascii_digit (CHR '':'')" "\<not> is_ascii_digit (CHR ''-'')" "\<not> is_ascii_digit (CHR ''.'')"
  by (simp_all add: is_ascii_digit_def byte_def)

lemma parse_clock_text:
  assumes "0 \<le> h" "h \<le> 23" "0 \<le> m" "m \<le> 59" "0 \<le> s" "s \<le> 59" "0 \<le> ms" "ms \<le> 999"
  shows "parse_time_of_day_ms (clock_text h m s ms) = Some (((h * 60 + m) * 60 + s) * 1000 + ms)"
proof -
  let ?sec = "pad_int 2 s @ CHR ''.'' # pad_int 3 ms"
  have "CHR '':'' \<notin> set ?sec" using assms not_in_pad by auto
  then have sp: "split_at (CHR '':'') (clock_text h m s ms) = [pad_int 2 h, pad_int 2 m, ?sec]"
    using assms by (simp add: clock_text_def split_at_append not_in_pad split_at_noop)
  have "length (pad_int 3 ms) = 3" using assms by (intro length_pad_int) simp_all
  then have "fraction_millis (pad_int 3 ms) = Some ms"
    using assms pad_int_set [of ms]
    by (simp add: fraction_millis_def list_all_iff parse_i128_pad int_bounds)
  then have "seconds_and_millis ?sec = Some (s, ms)"
    using assms by (simp add: seconds_and_millis_def split_once_append not_in_pad parse_i128_pad int_bounds)
  then show ?thesis
    using assms by (simp add: parse_time_of_day_ms_def sp parse_i128_pad int_bounds)
qed

lemma tod_text:
  assumes "0 \<le> t" "t < 86400000"
  shows "tod_ms_to_string t = ''TOD#'' @ clock_text (t div 3600000) (t mod 3600000 div 60000) (t mod 60000 div 1000) (t mod 1000)"
proof -
  have smod: "a smod b = a mod b" if "0 \<le> a" "0 < b" for a b :: int
    using that by (cases "a = 0") (simp_all add: signed_modulo_int_def signed_divide_int_def minus_div_mult_eq_mod)
  have sdiv: "a sdiv b = a div b" if "0 \<le> a" "0 < b" for a b :: int
    using that by (cases "a = 0") (simp_all add: signed_divide_int_def)
  show ?thesis
    using assms by (simp add: tod_ms_to_string_def Let_def clock_text_def smod sdiv)
qed

lemma clock_sum:
  "t = a * 3600000 + t1 \<Longrightarrow> t1 = b * 60000 + t2 \<Longrightarrow> t2 = c * 1000 + t3 \<Longrightarrow>
     ((a * 60 + b) * 60 + c) * 1000 + t3 = (t :: int)"
  by simp

lemma clock_parts:
  assumes "0 \<le> t" "t < (86400000 :: int)"
  shows "parse_time_of_day_ms (clock_text (t div 3600000) (t mod 3600000 div 60000) (t mod 60000 div 1000) (t mod 1000))
    = Some t"
proof -
  have p: "0 \<le> t div 3600000" "t div 3600000 \<le> 23" "0 \<le> t mod 3600000 div 60000" "t mod 3600000 div 60000 \<le> 59"
    "0 \<le> t mod 60000 div 1000" "t mod 60000 div 1000 \<le> 59" "0 \<le> t mod 1000" "t mod 1000 \<le> 999"
    using assms by (linarith | simp)+
  have "((t div 3600000 * 60 + t mod 3600000 div 60000) * 60 + t mod 60000 div 1000) * 1000 + t mod 1000 = t"
  proof (rule clock_sum)
    have m: "t mod 3600000 mod 60000 = t mod 60000" "t mod 60000 mod 1000 = t mod 1000"
      by (rule mod_mod_cancel; simp)+
    show "t = t div 3600000 * 3600000 + t mod 3600000"
      by (rule div_mult_mod_eq [symmetric])
    show "t mod 3600000 = t mod 3600000 div 60000 * 60000 + t mod 60000"
      using div_mult_mod_eq [of "t mod 3600000" 60000] unfolding m by (rule sym)
    show "t mod 60000 = t mod 60000 div 1000 * 1000 + t mod 1000"
      using div_mult_mod_eq [of "t mod 60000" 1000] unfolding m by (rule sym)
  qed
  then show ?thesis by (simp only: parse_clock_text [OF p])
qed

end
