(* ===== verification/StdCalendar.thy ===== *)
theory StdCalendar
  imports StdDates
begin

text \<open>
  The calendar functions of \<open>StdDates\<close> proved correct: inside a wide range they compute, in
  every build, two functions over the unbounded integers with floor division, which are
  inverse to each other and count the days of the calendar one by one.
\<close>

section \<open>The calendar over the integers\<close>

definition year_start :: "int \<Rightarrow> int" where
  "year_start y = 365 * y + y div 4 - y div 100"

definition month_start :: "int \<Rightarrow> int" where
  "month_start mp = (153 * mp + 2) div 5"

definition civil_days :: "int \<Rightarrow> int \<Rightarrow> int \<Rightarrow> int" where
  "civil_days year month day =
     (let y = year - (if month \<le> 2 then 1 else 0);
          mp = month + (if month > 2 then - 3 else 9)
      in (y div 400) * 146097 + year_start (y mod 400) + month_start mp + day - 1 - 719468)"

definition year_in_era :: "int \<Rightarrow> int" where
  "year_in_era doe = (doe - doe div 1460 + doe div 36524 - doe div 146096) div 365"

definition month_in_year :: "int \<Rightarrow> int" where
  "month_in_year doy = (5 * doy + 2) div 153"

definition civil_date :: "int \<Rightarrow> int \<times> int \<times> int" where
  "civil_date n =
     (let z = n + 719468; era = z div 146097; doe = z mod 146097;
          yoe = year_in_era doe; doy = doe - year_start yoe; mp = month_in_year doy;
          m = mp + (if mp < 10 then 3 else - 9)
      in (yoe + era * 400 + (if m \<le> 2 then 1 else 0), m, doy - month_start mp + 1))"

subsection \<open>Years of an era\<close>

text \<open>An era has 400 years, which start in March; the leap day ends a year.\<close>

definition year_length :: "int \<Rightarrow> int" where
  "year_length y = (if is_leap_year (y + 1) then 366 else 365)"

lemma sdiv_pos: "0 \<le> a \<Longrightarrow> 0 < b \<Longrightarrow> a sdiv b = a div (b::int)"
  by (cases "a = 0") (simp_all add: signed_divide_int_def)

lemma smod_eq_0: "0 < b \<Longrightarrow> a smod b = 0 \<longleftrightarrow> b dvd (a::int)"
proof -
  assume "0 < b"
  have "a smod b = 0 \<longleftrightarrow> a = a sdiv b * b"
    using minus_sdiv_mult_eq_smod [of a b] by linarith
  also have "\<dots> \<longleftrightarrow> b dvd a"
  proof
    assume "b dvd a"
    then obtain k where "a = b * k" by (auto simp: dvd_def)
    with \<open>0 < b\<close> have "a sdiv b = k"
      by (simp add: signed_divide_int_def abs_mult sgn_mult mult.commute)
        (simp add: sgn_if abs_if)
    with \<open>a = b * k\<close> show "a = a sdiv b * b" by simp
  next
    assume "a = a sdiv b * b"
    then show "b dvd a" by (metis dvd_triv_right)
  qed
  finally show ?thesis .
qed

lemma is_leap_year_dvd: "is_leap_year y \<longleftrightarrow> (4 dvd y \<and> \<not> 100 dvd y) \<or> 400 dvd y"
  by (simp add: is_leap_year_def smod_eq_0)

lemma is_leap_year_era [simp]: "is_leap_year (400 * q + r) = is_leap_year r"
proof -
  have "4 dvd 400 * q + r \<longleftrightarrow> 4 dvd r" "100 dvd 400 * q + r \<longleftrightarrow> 100 dvd r" "400 dvd 400 * q + r \<longleftrightarrow> 400 dvd r"
    by (rule dvd_add_right_iff; simp)+
  then show ?thesis by (simp add: is_leap_year_dvd)
qed

lemma is_leap_year_mod: "is_leap_year (y mod 400 + 1) = is_leap_year (y + 1)"
  using is_leap_year_era [of "y div 400" "y mod 400 + 1"] by (simp add: ac_simps)

text \<open>Counting in an era: the first and the last day of each of its years fall into that
  year, and the formula is monotone.\<close>

definition era_count :: "int \<Rightarrow> int" where
  "era_count doe = doe - doe div 1460 + doe div 36524 - doe div 146096"

lemma era_count_mono:
  assumes "0 \<le> m" "m \<le> n" "n \<le> 146096"
  shows "era_count m \<le> era_count n"
proof -
  have "n div 1460 - m div 1460 \<le> n - m"
    using assms by linarith
  moreover have "m div 36524 - m div 146096 \<le> n div 36524 - n div 146096"
  proof -
    have "k div 146096 = k div 36524 div 4" for k :: int
      using zdiv_zmult2_eq [of 4 k 36524] by simp
    moreover have "a - a div 4 \<le> b - b div 4" if "a \<le> b" for a b :: int
      using that by linarith
    moreover have "m div 36524 \<le> n div 36524" using assms by (simp add: zdiv_mono1)
    ultimately show ?thesis by metis
  qed
  ultimately show ?thesis by (simp add: era_count_def)
qed

definition year_ends_ok :: "int \<Rightarrow> bool" where
  "year_ends_ok y \<longleftrightarrow>
     365 * y \<le> era_count (year_start y) \<and>
     era_count (year_start y + year_length y - 1) < 365 * (y + 1) \<and>
     0 \<le> year_start y \<and> year_start y + year_length y \<le> 146097"

lemma year_ends_all: "list_all year_ends_ok [0..399]"
  by code_simp

lemma year_in_era_eq:
  assumes "0 \<le> y" "y \<le> 399" "0 \<le> d" "d < year_length y"
  shows "year_in_era (year_start y + d) = y"
proof -
  have e: "year_ends_ok y"
    using year_ends_all assms(1,2) by (simp add: list_all_iff)
  have "era_count (year_start y) \<le> era_count (year_start y + d)"
    "era_count (year_start y + d) \<le> era_count (year_start y + year_length y - 1)"
    using e assms(3,4) by (intro era_count_mono; simp add: year_ends_ok_def)+
  then have "365 * y \<le> era_count (year_start y + d)" "era_count (year_start y + d) < 365 * (y + 1)"
    using e by (simp_all add: year_ends_ok_def)
  then have "era_count (year_start y + d) div 365 = y"
    by (intro int_div_pos_eq [where r = "era_count (year_start y + d) - 365 * y"]) simp_all
  then show ?thesis by (simp add: year_in_era_def era_count_def)
qed

lemma div_Suc_int: "0 < b \<Longrightarrow> (y + 1) div b = y div b + (if b dvd y + 1 then 1 else (0::int))"
proof -
  assume b: "0 < b"
  have y: "y = b * (y div b) + y mod b" and r: "0 \<le> y mod b" "y mod b < b"
    using b by simp_all
  show ?thesis
  proof (cases "y mod b + 1 = b")
    case True
    have "y + 1 = b * (y div b) + (y mod b + 1)" using y by linarith
    then have y1: "y + 1 = b * (y div b + 1)" by (simp add: True distrib_left)
    then have "b dvd y + 1" by (metis dvd_triv_left)
    with y1 b show ?thesis by (metis nonzero_mult_div_cancel_left less_irrefl)
  next
    case False
    then have "y mod b + 1 < b" using r by simp
    then have "(y + 1) div b = y div b" "(y + 1) mod b = y mod b + 1"
      using y r by (intro int_div_pos_eq [where r = "y mod b + 1"] int_mod_pos_eq [where q = "y div b"]; simp)+
    with r show ?thesis by (simp add: dvd_eq_mod_eq_0)
  qed
qed

lemma year_start_Suc: "0 \<le> y \<Longrightarrow> y < 399 \<Longrightarrow> year_start (y + 1) = year_start y + year_length y"
proof -
  assume y: "0 \<le> y" "y < 399"
  have "100 dvd y + 1 \<Longrightarrow> 4 dvd y + 1" by (rule dvd_trans [of 4 100]) simp_all
  moreover have "\<not> 400 dvd y + 1" using y by (auto dest: zdvd_imp_le)
  ultimately show ?thesis by (simp add: year_start_def year_length_def is_leap_year_dvd div_Suc_int)
qed

lemma year_of_day:
  assumes "0 \<le> n" "n < 146097"
  obtains y where "0 \<le> y" "y \<le> 399" "year_start y \<le> n" "n < year_start y + year_length y"
proof -
  have "n < year_start (int k) + year_length (int k) \<Longrightarrow> k \<le> 399 \<Longrightarrow>
      \<exists>y. 0 \<le> y \<and> y \<le> 399 \<and> year_start y \<le> n \<and> n < year_start y + year_length y" for k
  proof (induction k)
    case 0
    then show ?case using assms(1) by (intro exI [of _ 0]) (simp add: year_start_def)
  next
    case (Suc k)
    show ?case
    proof (cases "year_start (int (Suc k)) \<le> n")
      case True
      with Suc.prems show ?thesis by (intro exI [of _ "int (Suc k)"]) simp
    next
      case False
      then have "n < year_start (int k) + year_length (int k)"
        using year_start_Suc [of "int k"] Suc.prems(2) by (simp add: ac_simps)
      with Suc show ?thesis by simp
    qed
  qed
  from this [of 399] assms(2) that show ?thesis
    by (auto simp: year_start_def year_length_def is_leap_year_dvd)
qed

subsection \<open>Months of a year\<close>

definition month_of :: "int \<Rightarrow> int" where
  "month_of mp = mp + (if mp < 10 then 3 else - 9)"

lemma month_in_year_eq: "0 \<le> r \<Longrightarrow> r < 153 \<Longrightarrow> 5 * doy + 2 = 153 * mp + r \<Longrightarrow> month_in_year doy = mp"
  unfolding month_in_year_def by (rule int_div_pos_eq)

lemma month_cases:
  assumes "1 \<le> m" "m \<le> 12"
  obtains "m = 1" | "m = 2" | "m = 3" | "m = 4" | "m = 5" | "m = 6" | "m = 7" | "m = 8" | "m = 9"
    | "m = 10" | "m = 11" | "m = (12::int)"
proof -
  have "m = 1 \<or> m = 2 \<or> m = 3 \<or> m = 4 \<or> m = 5 \<or> m = 6 \<or> m = 7 \<or> m = 8 \<or> m = 9 \<or> m = 10 \<or>
      m = 11 \<or> m = 12"
    using assms by presburger
  then show ?thesis using that by blast
qed

lemma month_in_year_bounds:
  assumes "mp = month_in_year doy"
  shows "month_start mp \<le> doy" "doy < month_start (mp + 1)"
proof -
  have e: "153 * (mp + 1) + 2 = 153 * mp + 155" by simp
  have "153 * mp \<le> 5 * doy + 2" "5 * doy + 2 < 153 * mp + 153"
    using assms unfolding month_in_year_def by linarith+
  then show "month_start mp \<le> doy" "doy < month_start (mp + 1)"
    unfolding month_start_def e by linarith+
qed

lemma valid_date_shifted:
  assumes "valid_date y m d"
  defines "yy \<equiv> y - (if m \<le> 2 then 1 else 0)" and "mp \<equiv> m + (if m > 2 then - 3 else 9)"
  shows "0 \<le> month_start mp + d - 1" "month_start mp + d - 1 < year_length yy"
    "month_in_year (month_start mp + d - 1) = mp" "month_of mp = m"
proof -
  have m: "1 \<le> m" "m \<le> 12" and d: "1 \<le> d" "d \<le> days_in_month y m"
    using assms(1) by (simp_all add: valid_date_def)
  note defs = yy_def mp_def month_start_def year_length_def month_of_def days_in_month_def
  show "0 \<le> month_start mp + d - 1" "month_of mp = m"
    using m d(1) by (cases rule: month_cases; simp add: defs)+
  show "month_start mp + d - 1 < year_length yy"
    using m d by (cases rule: month_cases; simp add: defs split: if_splits)
  show "month_in_year (month_start mp + d - 1) = mp"
    by (rule month_in_year_eq [where r = "5 * (month_start mp + d - 1) + 2 - 153 * mp"])
      (use m d in \<open>cases rule: month_cases; simp add: defs split: if_splits\<close>)+
qed

lemma month_of_day:
  assumes "0 \<le> doy" "doy < year_length yy"
  defines "mp \<equiv> month_in_year doy"
  shows "valid_date (yy + (if month_of mp \<le> 2 then 1 else 0)) (month_of mp) (doy - month_start mp + 1)"
    "month_of mp + (if month_of mp > 2 then - 3 else 9) = mp"
proof -
  have "doy < 366" using assms(2) by (simp add: year_length_def split: if_splits)
  with assms(1) have "1 \<le> mp + 1" "mp + 1 \<le> 12"
    unfolding mp_def month_in_year_def by linarith+
  note r = month_cases [OF this] and b = month_in_year_bounds [of mp doy, OF mp_def [THEN meta_eq_to_obj_eq]]
  show "valid_date (yy + (if month_of mp \<le> 2 then 1 else 0)) (month_of mp) (doy - month_start mp + 1)"
    using b assms(2)
    by (cases rule: r; simp add: eq_diff_eq [symmetric] month_start_def month_of_def valid_date_def
        days_in_month_def year_length_def split: if_splits)
  show "month_of mp + (if month_of mp > 2 then - 3 else 9) = mp"
    by (cases rule: r) (simp_all add: month_of_def eq_diff_eq [symmetric])
qed

subsection \<open>The two directions\<close>

lemma era_split:
  assumes "0 \<le> doe" "doe < (146097::int)"
  shows "(era * 146097 + doe) div 146097 = era" "(era * 146097 + doe) mod 146097 = doe"
  using assms by (simp_all add: div_add1_eq mod_add_eq)

lemma civil_date_days:
  assumes "valid_date y m d"
  shows "civil_date (civil_days y m d) = (y, m, d)"
proof -
  define yy where "yy = y - (if m \<le> 2 then 1 else 0)"
  define mp where "mp = m + (if m > 2 then - 3 else 9)"
  define doy where "doy = month_start mp + d - 1"
  note v = valid_date_shifted [OF assms, folded yy_def mp_def doy_def]
  have y: "0 \<le> yy mod 400" "yy mod 400 \<le> 399" and len: "year_length (yy mod 400) = year_length yy"
    by (simp_all add: year_length_def is_leap_year_mod)
  have "year_ends_ok (yy mod 400)"
    using year_ends_all y by (simp add: list_all_iff)
  then have doe: "0 \<le> year_start (yy mod 400) + doy" "year_start (yy mod 400) + doy < 146097"
    using v(1,2) by (simp_all add: year_ends_ok_def len)
  have "civil_days y m d + 719468 = (yy div 400) * 146097 + (year_start (yy mod 400) + doy)"
    by (simp add: civil_days_def yy_def mp_def doy_def Let_def)
  then have "(civil_days y m d + 719468) div 146097 = yy div 400"
    "(civil_days y m d + 719468) mod 146097 = year_start (yy mod 400) + doy"
    using era_split [OF doe] by simp_all
  moreover have "year_in_era (year_start (yy mod 400) + doy) = yy mod 400"
    using year_in_era_eq [OF y, of doy] v(1,2) len by simp
  moreover have "month_start mp + d - 1 = doy" by (simp add: doy_def)
  ultimately have "civil_date (civil_days y m d) =
      (yy mod 400 + yy div 400 * 400 + (if month_of mp \<le> 2 then 1 else 0), month_of mp, doy - month_start mp + 1)"
    using v(3) by (simp add: civil_date_def Let_def month_of_def)
  then show ?thesis
    using v(4) by (simp add: yy_def doy_def)
qed

lemma civil_days_date:
  assumes "civil_date n = (y, m, d)"
  shows "valid_date y m d \<and> civil_days y m d = n"
proof -
  define era where "era = (n + 719468) div 146097"
  define doe where "doe = (n + 719468) mod 146097"
  have "0 \<le> doe" "doe < 146097" by (simp_all add: doe_def)
  then obtain yoe where yoe: "0 \<le> yoe" "yoe \<le> 399" "year_start yoe \<le> doe" "doe < year_start yoe + year_length yoe"
    by (rule year_of_day)
  define doy where "doy = doe - year_start yoe"
  define mp where "mp = month_in_year doy"
  have e: "year_in_era doe = yoe"
    using year_in_era_eq [of yoe doy] yoe by (simp add: doy_def)
  have n: "n = era * 146097 + doe - 719468"
    unfolding era_def doe_def by simp
  have yl: "year_length (yoe + era * 400) = year_length yoe"
    using is_leap_year_era [of era "yoe + 1"] by (simp add: year_length_def ac_simps)
  have cd: "civil_date n = (yoe + era * 400 + (if month_of mp \<le> 2 then 1 else 0), month_of mp,
      doy - month_start mp + 1)"
    by (simp only: civil_date_def era_def [symmetric] doe_def [symmetric] Let_def e doy_def [symmetric]
        mp_def [symmetric] month_of_def [symmetric])
  have ymd: "y = yoe + era * 400 + (if month_of mp \<le> 2 then 1 else 0)" "m = month_of mp" "d = doy - month_start mp + 1"
    using cd assms by simp_all
  have "0 \<le> doy" "doy < year_length (yoe + era * 400)" using yoe yl by (simp_all add: doy_def)
  note m = month_of_day [OF this, folded mp_def]
  have "valid_date y m d" using m(1) by (simp add: ymd)
  moreover have yy: "y - (if month_of mp \<le> 2 then 1 else 0) = yoe + era * 400" by (simp add: ymd(1))
  have "civil_days y m d = (yoe + era * 400) div 400 * 146097 + year_start ((yoe + era * 400) mod 400)
      + month_start mp + d - 1 - 719468"
    by (simp only: civil_days_def Let_def ymd(2) m(2) yy)
  then have "civil_days y m d = n"
    using yoe(1,2) by (simp add: n ymd(3) doy_def)
  ultimately show ?thesis by blast
qed

section \<open>The code computes the calendar\<close>

lemma sdiv_floor:
  assumes "0 < b"
  shows "(if 0 \<le> a then a else a - (b - 1)) sdiv b = a div (b::int)"
proof (cases "0 \<le> a")
  case True
  with assms show ?thesis by (simp add: sdiv_pos)
next
  case False
  have "b - 1 - a = b * (- (a div b)) + (b - 1 - a mod b)"
    using mult_div_mod_eq [of b a] by (simp only: mult_minus_right)
  then have "(b - 1 - a) div b = - (a div b)"
    using assms pos_mod_bound [OF assms, of a] pos_mod_sign [OF assms, of a]
    by (intro int_div_pos_eq [where r = "b - 1 - a mod b"]) simp_all
  with assms False show ?thesis
    by (simp add: signed_divide_int_def sgn_if abs_if)
qed

lemma i64_step: "in_i64 n \<Longrightarrow> obind (i64_arith oc n) f = f n"
  by simp

lemma shifted_step:
  assumes "in_i64 z" "in_i64 (z - c)"
  shows "obind (if z \<ge> 0 then Ret z else i64_arith oc (z - c)) f = f (if z \<ge> 0 then z else z - c)"
  using assms by simp

definition date_range :: "int \<Rightarrow> bool" where
  "date_range year \<longleftrightarrow> - 10000000000000000 \<le> year \<and> year \<le> 10000000000000000"

lemma days_from_civil_eq:
  assumes v: "valid_date y m d" and y: "date_range y"
  shows "days_from_civil oc y m d = Ret (civil_days y m d)"
proof -
  define adj where "adj = y - (if m \<le> 2 then 1 else 0)"
  define e where "e = adj div 400"
  define r where "r = adj mod 400"
  define mp where "mp = m + (if m > 2 then - 3 else 9)"
  have adj: "adj = e * 400 + r" and r: "0 \<le> r" "r \<le> 399" by (simp_all add: e_def r_def)
  have ab: "- 10000000000000001 \<le> adj" "adj \<le> 10000000000000000"
    using y by (simp_all add: adj_def date_range_def)
  then have e: "- 25000000000001 \<le> e" "e \<le> 25000000000000" using adj r by linarith+
  have mp: "0 \<le> mp" "mp \<le> 11" and d: "1 \<le> d" "d \<le> 31"
    using v by (auto simp: mp_def valid_date_def days_in_month_def split: if_splits)
  have sh: "(if 0 \<le> adj then adj else adj - 399) sdiv 400 = e"
    using sdiv_floor [of 400 adj] by (cases "0 \<le> adj") (simp_all add: e_def)
  have q: "0 \<le> r sdiv 4" "r sdiv 4 \<le> 99" "0 \<le> r sdiv 100" "r sdiv 100 \<le> 3"
    "r sdiv 4 = r div 4" "r sdiv 100 = r div 100"
    using r by (simp_all add: sdiv_pos)
  have ms: "0 \<le> (153 * mp + 2) sdiv 5" "(153 * mp + 2) sdiv 5 \<le> 337" "(153 * mp + 2) sdiv 5 = month_start mp"
    using mp by (simp_all add: sdiv_pos month_start_def)
  have i: "in_i64 adj" "in_i64 (adj - 399)" "in_i64 (e * 400)" "in_i64 r" "in_i64 mp"
    "in_i64 (153 * mp)" "in_i64 (153 * mp + 2)" "in_i64 ((153 * mp + 2) sdiv 5 + d)"
    "in_i64 ((153 * mp + 2) sdiv 5 + d - 1)" "in_i64 (r * 365)"
    using ab adj r e mp d ms(1,2) by (simp_all add: int_bounds)
  have ar: "adj - e * 400 = r" by (simp add: adj)
  have j: "in_i64 (r * 365 + r sdiv 4)" "in_i64 (r * 365 + r sdiv 4 - r sdiv 100)"
    "in_i64 (r * 365 + r sdiv 4 - r sdiv 100 + ((153 * mp + 2) sdiv 5 + d - 1))" "in_i64 (e * 146097)"
    "in_i64 (e * 146097 + (r * 365 + r sdiv 4 - r sdiv 100 + ((153 * mp + 2) sdiv 5 + d - 1)))"
    "in_i64 (e * 146097 + (r * 365 + r sdiv 4 - r sdiv 100 + ((153 * mp + 2) sdiv 5 + d - 1)) - 719468)"
    using r e d q(1-4) ms(1,2) by (simp_all add: int_bounds)
  show ?thesis
    by (simp only: days_from_civil_def Let_def adj_def [symmetric] mp_def [symmetric]
          i [THEN i64_step] shifted_step [OF i(1,2)] sh ar j [THEN i64_step] j(6) [THEN i64_arith_Ret])
      (simp add: q(5,6) ms(3) civil_days_def Let_def year_start_def
        adj_def [symmetric] mp_def [symmetric] e_def [symmetric] r_def [symmetric])
qed

definition day_range :: "int \<Rightarrow> bool" where
  "day_range n \<longleftrightarrow> - 4000000000000000000 \<le> n \<and> n \<le> 4000000000000000000"

lemma year_in_era_bounds:
  assumes "0 \<le> doe" "doe < 146097"
  shows "0 \<le> year_in_era doe" "year_in_era doe \<le> 399"
    "0 \<le> doe - year_start (year_in_era doe)" "doe - year_start (year_in_era doe) < 366"
proof -
  obtain y where y: "0 \<le> y" "y \<le> 399" "year_start y \<le> doe" "doe < year_start y + year_length y"
    using assms by (rule year_of_day)
  then have "year_in_era doe = y"
    using year_in_era_eq [of y "doe - year_start y"] by simp
  with y show "0 \<le> year_in_era doe" "year_in_era doe \<le> 399"
    "0 \<le> doe - year_start (year_in_era doe)" "doe - year_start (year_in_era doe) < 366"
    by (simp_all add: year_length_def split: if_splits)
qed

lemma civil_from_days_eq:
  assumes n: "day_range n"
  shows "civil_from_days oc n = Ret (civil_date n)"
proof -
  define z where "z = n + 719468"
  define e where "e = z div 146097"
  define doe where "doe = z mod 146097"
  define yoe where "yoe = year_in_era doe"
  define doy where "doy = doe - year_start yoe"
  define mp where "mp = month_in_year doy"
  define mo where "mo = mp + (if mp < 10 then 3 else - 9)"
  have z: "z = e * 146097 + doe" and doe: "0 \<le> doe" "doe < 146097" by (simp_all add: e_def doe_def)
  have zb: "- 4000000000000000000 \<le> z" "z \<le> 4000000000000719468"
    using n by (simp_all add: z_def day_range_def)
  then have e: "- 27379070069890 \<le> e" "e \<le> 27379070069890" using z doe by linarith+
  have yoe: "0 \<le> yoe" "yoe \<le> 399" and doy: "0 \<le> doy" "doy < 366"
    using year_in_era_bounds [OF doe] by (simp_all add: yoe_def doy_def)
  have mp: "0 \<le> mp" "mp \<le> 11" using doy unfolding mp_def month_in_year_def by linarith+
  have sh: "(if 0 \<le> z then z else z - 146096) sdiv 146097 = e"
    using sdiv_floor [of 146097 z] by (cases "0 \<le> z") (simp_all add: e_def)
  have q: "0 \<le> doe sdiv 1460" "doe sdiv 1460 \<le> doe" "0 \<le> doe sdiv 36524" "doe sdiv 36524 \<le> 4"
    "0 \<le> doe sdiv 146096" "doe sdiv 146096 \<le> 1"
    "doe sdiv 1460 = doe div 1460" "doe sdiv 36524 = doe div 36524" "doe sdiv 146096 = doe div 146096"
    using doe by (simp_all add: sdiv_pos)
  have y: "(doe - doe sdiv 1460 + doe sdiv 36524 - doe sdiv 146096) sdiv 365 = yoe"
  proof -
    have "0 \<le> doe - doe sdiv 1460 + doe sdiv 36524 - doe sdiv 146096"
      using era_count_mono [of 0 doe] doe by (simp add: q(7-9) era_count_def)
    then show ?thesis by (subst sdiv_pos) (simp_all add: q(7-9) yoe_def year_in_era_def)
  qed
  have ys: "0 \<le> yoe sdiv 4" "yoe sdiv 4 \<le> 99" "0 \<le> yoe sdiv 100" "yoe sdiv 100 \<le> 3"
    "365 * yoe + yoe sdiv 4 - yoe sdiv 100 = year_start yoe"
    using yoe by (simp_all add: sdiv_pos year_start_def)
  have ms: "(5 * doy + 2) sdiv 153 = mp" "0 \<le> (153 * mp + 2) sdiv 5" "(153 * mp + 2) sdiv 5 \<le> 337"
    "(153 * mp + 2) sdiv 5 = month_start mp"
    using doy mp by (simp_all add: sdiv_pos month_start_def mp_def [unfolded month_in_year_def])
  have i: "in_i64 z" "in_i64 (z - 146096)" "in_i64 (e * 146097)" "in_i64 doe"
    "in_i64 (doe - doe sdiv 1460)" "in_i64 (doe - doe sdiv 1460 + doe sdiv 36524)"
    "in_i64 (doe - doe sdiv 1460 + doe sdiv 36524 - doe sdiv 146096)" "in_i64 (e * 400)"
    "in_i64 (yoe + e * 400)" "in_i64 (365 * yoe)" "in_i64 (365 * yoe + yoe sdiv 4)"
    "in_i64 (year_start yoe)" "in_i64 doy" "in_i64 yoe" "in_i64 (5 * doy)"
    "in_i64 (5 * doy + 2)" "in_i64 (153 * mp)" "in_i64 (153 * mp + 2)" "in_i64 (doy - (153 * mp + 2) sdiv 5)"
    "in_i64 (doy - (153 * mp + 2) sdiv 5 + 1)" "in_i64 mo"
    "in_i64 (yoe + e * 400 + (if mo \<le> 2 then 1 else 0))"
    using zb z doe e yoe doy mp q(1-6) ys(1-4) ms(2,3) by (simp_all add: int_bounds mo_def flip: ys(5))
  have ze: "z - e * 146097 = doe" by (simp add: z)
  have "civil_from_days oc n = Ret (yoe + e * 400 + (if mo \<le> 2 then 1 else 0), mo,
      doy - (153 * mp + 2) sdiv 5 + 1)"
    by (simp only: civil_from_days_def Let_def z_def [symmetric] i [THEN i64_step] shifted_step [OF i(1,2)]
        sh ze y ys(5) doy_def [symmetric] ms(1) mo_def [symmetric])
  also have "\<dots> = Ret (civil_date n)"
    by (simp only: civil_date_def Let_def z_def [symmetric] e_def [symmetric] doe_def [symmetric]
        yoe_def [symmetric] doy_def [symmetric] mp_def [symmetric] mo_def [symmetric] ms(4))
  finally show ?thesis .
qed

section \<open>Properties\<close>

lemma civil_days_range:
  assumes "valid_date y m d" "date_range y"
  shows "day_range (civil_days y m d)"
proof -
  have "1 \<le> m" "m \<le> 12" "1 \<le> d" "d \<le> 31"
    using assms(1) by (auto simp: valid_date_def days_in_month_def split: if_splits)
  moreover have "0 \<le> year_start (r mod 400)" "year_start (r mod 400) \<le> 146097" for r
  proof -
    have "year_ends_ok (r mod 400)" using year_ends_all by (simp add: list_all_iff)
    then show "0 \<le> year_start (r mod 400)" "year_start (r mod 400) \<le> 146097"
      by (simp_all add: year_ends_ok_def year_length_def split: if_splits)
  qed
  moreover define yy mp where "yy = y - (if m \<le> 2 then 1 else 0)" and "mp = m + (if m > 2 then - 3 else 9)"
  ultimately have "0 \<le> year_start (yy mod 400)" "year_start (yy mod 400) \<le> 146097" "0 \<le> mp" "mp \<le> 11"
    "1 \<le> d" "d \<le> 31" "- 10000000000000001 \<le> yy" "yy \<le> 10000000000000000"
    using assms(2) by (auto simp: date_range_def)
  moreover from this have "- 25000000000001 \<le> yy div 400" "yy div 400 \<le> 25000000000000"
    "0 \<le> month_start mp" "month_start mp \<le> 337"
    unfolding month_start_def by linarith+
  ultimately show ?thesis
    unfolding civil_days_def Let_def day_range_def yy_def [symmetric] mp_def [symmetric] by linarith
qed

text \<open>C30: For every valid date of a year within ten quadrillion years of zero, the day number
  is computed without overflow in every build, and the date of that day number is the date.\<close>

theorem date_to_days_and_back:
  assumes "valid_date y m d" and "date_range y"
  shows "\<exists>n. days_from_civil oc y m d = Ret n \<and> civil_from_days oc n = Ret (y, m, d)"
  using days_from_civil_eq [OF assms] civil_from_days_eq [OF civil_days_range [OF assms]]
    civil_date_days [OF assms(1)]
  by simp

theorem date_to_days_and_back_witness:
  "\<exists>n. days_from_civil True 2024 2 29 = Ret n \<and> civil_from_days True n = Ret (2024, 2, 29)"
  by (rule date_to_days_and_back)
    (simp_all add: valid_date_def days_in_month_def is_leap_year_dvd date_range_def)

text \<open>The day numbers whose years are in the range of \<open>date_range\<close>, on either side of the epoch.\<close>

definition round_trip_range :: "int \<Rightarrow> bool" where
  "round_trip_range n \<longleftrightarrow> - 3600000000000000000 \<le> n \<and> n \<le> 3600000000000000000"

lemma year_of_range:
  assumes "civil_days y m d = n" and "valid_date y m d" and "round_trip_range n"
  shows "date_range y"
proof -
  define yy where "yy = y - (if m \<le> 2 then 1 else 0)"
  define q where "q = yy div 400"
  define r where "r = yy mod 400"
  define mp where "mp = m + (if m > 2 then - 3 else 9)"
  have yy: "yy = 400 * q + r" and r: "0 \<le> r" "r < 400"
    by (simp_all add: q_def r_def)
  have "m \<in> {1..12}" and d: "1 \<le> d" "d \<le> 31"
    using assms(2) by (auto simp: valid_date_def days_in_month_def split: if_splits)
  then have "0 \<le> mp" "mp \<le> 11"
    by (auto simp: mp_def)
  then have month: "0 \<le> month_start mp" "month_start mp \<le> 400"
    by (auto simp: month_start_def)
  have start: "0 \<le> year_start r" "year_start r \<le> 146500"
    using r by (auto simp: year_start_def)
  have "n = q * 146097 + year_start r + month_start mp + d - 1 - 719468"
    using assms(1) by (simp add: civil_days_def Let_def yy_def [symmetric] q_def r_def mp_def)
  then show ?thesis
    using assms(3) month start d r yy unfolding round_trip_range_def date_range_def
    by (auto simp: yy_def split: if_splits)
qed

text \<open>C31: Every day number within 3.6 quintillion days of the epoch comes back: the date computed
  for it is a valid date, and its day number is the day number it was computed from. Neither
  computation overflows, whether or not overflow is checked.\<close>

theorem days_to_date_and_back:
  assumes "round_trip_range n"
  shows "\<exists>y m d. civil_from_days oc n = Ret (y, m, d) \<and> valid_date y m d \<and> days_from_civil oc y m d = Ret n"
proof -
  obtain y m d where c: "civil_date n = (y, m, d)" by (cases "civil_date n")
  have "day_range n"
    using assms by (simp add: round_trip_range_def day_range_def)
  moreover note date = civil_days_date [OF c]
  moreover have "date_range y"
    using date assms by (intro year_of_range [of y m d n]) simp_all
  ultimately show ?thesis
    using civil_from_days_eq [of n oc] days_from_civil_eq [of y m d oc] c by auto
qed

theorem days_to_date_and_back_witness:
  "\<exists>y m d. civil_from_days True 19782 = Ret (y, m, d) \<and> valid_date y m d \<and>
    days_from_civil True y m d = Ret 19782"
  by (rule days_to_date_and_back) (simp add: round_trip_range_def)

text \<open>The calendar's own rule for the next day.\<close>

definition next_date :: "int \<times> int \<times> int \<Rightarrow> int \<times> int \<times> int" where
  "next_date t = (case t of (y, m, d) \<Rightarrow>
     if d < days_in_month y m then (y, m, d + 1)
     else if m < 12 then (y, m + 1, 1)
     else (y + 1, 1, 1))"

lemma era_days:
  "y div 400 * 146097 + year_start (y mod 400) = 365 * y + y div 4 - y div 100 + y div 400"
proof -
  define q r where "q = y div 400" and "r = y mod 400"
  have y: "y = r + q * 400" by (simp add: q_def r_def)
  have "y div 4 = 100 * q + r div 4" "y div 100 = 4 * q + r div 100"
    by (simp_all add: y div_add1_eq)
  then show ?thesis
    by (simp add: q_def [symmetric] r_def [symmetric] year_start_def) (simp add: y)
qed

lemma civil_days_alt:
  "civil_days y m d = (let yy = y - (if m \<le> 2 then 1 else 0)
     in (365 * yy + yy div 4 - yy div 100 + yy div 400)
       + month_start (m + (if m > 2 then - 3 else 9)) + d - 1 - 719468)"
  by (simp only: civil_days_def Let_def era_days)

lemma leap_step:
  "i4 - i100 + i400 = D - 28 \<Longrightarrow> Y4 = X4 + i4 \<Longrightarrow> Y100 = X100 + i100 \<Longrightarrow> Y400 = X400 + i400 \<Longrightarrow>
     365 * y + Y4 - Y100 + Y400 = 365 * (y - 1) + X4 - X100 + X400 + D + (337 :: int)"
  by simp

lemma civil_days_next:
  assumes v: "valid_date y m d" and n: "next_date (y, m, d) = (y', m', d')"
  shows "civil_days y' m' d' = civil_days y m d + 1"
proof -
  have m: "1 \<le> m" "m \<le> 12" and d: "1 \<le> d" "d \<le> days_in_month y m"
    using v by (simp_all add: valid_date_def)
  have l: "100 dvd y \<Longrightarrow> 4 dvd y" "400 dvd y \<Longrightarrow> 100 dvd y"
    by (rule dvd_trans [of 4 100] dvd_trans [of 100 400]; simp)+
  have s: "y div b = (y - 1) div b + (if b dvd y then 1 else 0)" if "0 < b" for b
    using div_Suc_int [OF that, of "y - 1"] by simp
  show ?thesis
  proof (cases "d < days_in_month y m")
    case True
    with n show ?thesis by (auto simp: next_date_def civil_days_def Let_def)
  next
    case False
    with d have d': "d = days_in_month y m" by simp
    show ?thesis
    proof (cases "m = 2")
      case True
      have "(y', m', d') = (y, 3, 1)" using n d' True by (simp add: next_date_def)
      moreover have "365 * y + y div 4 - y div 100 + y div 400 =
          365 * (y - 1) + (y - 1) div 4 - (y - 1) div 100 + (y - 1) div 400 + days_in_month y 2 + 337"
      proof -
        have "(if 4 dvd y then 1 else 0) - (if 100 dvd y then 1 else 0) + (if 400 dvd y then 1 else 0) =
            days_in_month y 2 - (28 :: int)"
          using l by (auto simp: days_in_month_def is_leap_year_dvd)
        moreover have "y div 4 = (y - 1) div 4 + (if 4 dvd y then 1 else 0)"
          "y div 100 = (y - 1) div 100 + (if 100 dvd y then 1 else 0)"
          "y div 400 = (y - 1) div 400 + (if 400 dvd y then 1 else 0)"
          by (rule s; simp)+
        ultimately show ?thesis by (rule leap_step)
      qed
      ultimately show ?thesis
        by (simp only: Pair_inject civil_days_alt Let_def True d') (simp add: month_start_def)
    next
      case m2: False
      with m n [symmetric] show ?thesis
        by (cases rule: month_cases)
          (simp_all add: next_date_def d' days_in_month_def civil_days_alt Let_def month_start_def)
    qed
  qed
qed

lemma valid_date_next:
  assumes "valid_date y m d" and "next_date (y, m, d) = (y', m', d')"
  shows "valid_date y' m' d'"
proof -
  have "1 \<le> days_in_month z k" if "1 \<le> k" "k \<le> 12" for z k
    using that by (cases rule: month_cases) (simp_all add: days_in_month_def)
  from this [of "m + 1" y] this [of 1 "y + 1"] assms show ?thesis
    by (auto simp: next_date_def valid_date_def split: if_splits)
qed

text \<open>C32: The day numbers count the calendar: the first of January 1970 is day 0, and the day
  after a valid date by the calendar's rule (the lengths of the months, the leap years) has
  the next day number, in every build.\<close>

theorem days_count_the_calendar:
  assumes "valid_date y m d" and "date_range y" and "date_range (y + 1)"
    and "next_date (y, m, d) = (y', m', d')"
  shows "days_from_civil oc 1970 1 1 = Ret 0 \<and>
    days_from_civil oc y' m' d' = omap (\<lambda>n. n + 1) (days_from_civil oc y m d)"
proof -
  have "y' = y \<or> y' = y + 1" using assms(4) by (simp add: next_date_def split: if_splits)
  then have "date_range y'" using assms(2,3) by metis
  then have "days_from_civil oc y' m' d' = Ret (civil_days y m d + 1)"
    using days_from_civil_eq [OF valid_date_next [OF assms(1,4)]] civil_days_next [OF assms(1,4)] by simp
  moreover have "days_from_civil oc 1970 1 1 = Ret (civil_days 1970 1 1)"
    by (rule days_from_civil_eq) (simp_all add: valid_date_def days_in_month_def date_range_def)
  moreover have "civil_days 1970 1 1 = 0" by code_simp
  ultimately show ?thesis using days_from_civil_eq [OF assms(1,2)] by simp
qed

theorem days_count_the_calendar_witness:
  "days_from_civil True 2100 3 1 = omap (\<lambda>n. n + 1) (days_from_civil True 2100 2 28)"
  using days_count_the_calendar [of 2100 2 28 2100 3 1 True]
  by (simp add: valid_date_def days_in_month_def is_leap_year_dvd date_range_def next_date_def)

text \<open>Outside the range the arithmetic overflows: with overflow checks the day number of
  the first of January of the greatest year panics, although the date is valid.\<close>

theorem days_from_civil_overflow:
  "valid_date i64_max 1 1 \<and> days_from_civil True i64_max 1 1 = Panic"
  by code_simp

end
