(* ===== verification/StdTimeText.thy ===== *)
theory StdTimeText
  imports StdTime StdCalendar
begin

text \<open>
  The text forms of dates and times read back: the writers of \<open>StdTime\<close> against its
  parsers, over the calendar of \<open>StdCalendar\<close>.
\<close>

definition text_char :: "char \<Rightarrow> bool" where
  "text_char c \<longleftrightarrow> 33 \<le> byte c \<and> byte c < 128"

lemma trim_text: "\<forall>c \<in> set s. text_char c \<Longrightarrow> trim s = s"
  by (rule trim_noop) (auto simp: text_char_def)

lemma text_char_digit: "is_ascii_digit c \<Longrightarrow> text_char c"
  by (simp add: text_char_def is_ascii_digit_def)

lemma text_char_pad: "0 \<le> n \<Longrightarrow> \<forall>c \<in> set (pad_int w n). text_char c"
  using pad_int_set text_char_digit by blast

lemma text_char_lits [simp]:
  "text_char (CHR '':'')" "text_char (CHR ''-'')" "text_char (CHR ''.'')" "text_char (CHR ''T'')"
  "text_char (CHR ''D'')" "text_char (CHR ''O'')" "text_char (CHR ''#'')"
  by (simp_all add: text_char_def byte_def)

lemma text_char_clock:
  "0 \<le> h \<Longrightarrow> 0 \<le> m \<Longrightarrow> 0 \<le> s \<Longrightarrow> 0 \<le> ms \<Longrightarrow> \<forall>c \<in> set (clock_text h m s ms). text_char c"
  using text_char_pad by (auto simp: clock_text_def)

lemma text_char_day:
  "0 \<le> t \<Longrightarrow> \<forall>c \<in> set (clock_text (t div 3600000) (t mod 3600000 div 60000) (t mod 60000 div 1000) (t mod 1000)).
     text_char c"
  by (rule text_char_clock) simp_all

text \<open>A time of day between midnight and midnight reads back from its text.\<close>

theorem tod_text_round_trip:
  assumes "0 \<le> t" and "t < 86400000"
  shows "parse_tod_string_ms (tod_ms_to_string t) = Some t"
proof -
  have "\<forall>c \<in> set (tod_ms_to_string t). text_char c"
    using text_char_day assms by (simp add: tod_text)
  then have "trim (tod_ms_to_string t) = tod_ms_to_string t" by (rule trim_text)
  then show ?thesis
    using clock_parts [OF assms]
    by (simp add: parse_tod_string_ms_def without_prefix_def tod_text [OF assms])
qed

theorem tod_text_round_trip_witness: "parse_tod_string_ms (tod_ms_to_string 3723004) = Some 3723004"
  by (rule tod_text_round_trip) simp_all

lemma trim_start_once: "p \<noteq> [] \<Longrightarrow> strip_prefix p r = None \<Longrightarrow> trim_start_matches p (p @ r) = r"
  by (simp add: trim_start_matches.simps [of p "p @ r"] trim_start_matches.simps [of p r])

lemma parse_date_text:
  assumes v: "valid_date y m d" and y: "0 \<le> y" "y \<le> 9999"
  shows "parse_date_days oc (date_text (y, m, d)) = Ret (Some (civil_days y m d))"
    "length (date_text (y, m, d)) = 10" "\<forall>c \<in> set (date_text (y, m, d)). is_ascii_digit c \<or> c = CHR ''-''"
proof -
  have r: "0 \<le> m" "m \<le> 12" "0 \<le> d" "d \<le> 31"
    using v by (auto simp: valid_date_def days_in_month_def split: if_splits)
  have dt: "date_text (y, m, d) = pad_int 4 y @ CHR ''-'' # pad_int 2 m @ CHR ''-'' # pad_int 2 d"
    by (simp add: date_text_def)
  have sp: "split_at (CHR ''-'') (date_text (y, m, d)) = [pad_int 4 y, pad_int 2 m, pad_int 2 d]"
    using r y by (simp add: dt split_at_append not_in_pad split_at_noop)
  have "date_range y" using y by (simp add: date_range_def)
  then show "parse_date_days oc (date_text (y, m, d)) = Ret (Some (civil_days y m d))"
    using r y v days_from_civil_eq [OF v, of oc]
    by (simp add: parse_date_days_def sp parse_i64_pad int_bounds)
  show "length (date_text (y, m, d)) = 10"
    using r y by (simp add: dt length_pad_int)
  show "\<forall>c \<in> set (date_text (y, m, d)). is_ascii_digit c \<or> c = CHR ''-''"
    using r y pad_int_set by (auto simp: dt)
qed

text \<open>C33: A date and time of a year from 0 to 9999 reads back from its text, in every build: the
  text has a four-digit year, so that the date takes its first ten bytes.\<close>

theorem dt_text_round_trip:
  assumes days: "days_from_civil oc y m d = Ret n" and v: "valid_date y m d"
    and y: "0 \<le> y" "y \<le> 9999" and t: "0 \<le> t" "t < 86400000"
  shows "\<exists>s. dt_ms_to_string oc (n * 86400000 + t) = Ret s \<and>
    parse_dt_string_ms oc s = Ret (Some (n * 86400000 + t))"
proof -
  let ?clock = "clock_text (t div 3600000) (t mod 3600000 div 60000) (t mod 60000 div 1000) (t mod 1000)"
  let ?s = "''DT#'' @ date_text (y, m, d) @ ''-'' @ ?clock"
  let ?ms = "n * 86400000 + t"
  have yr: "date_range y" using y by (simp add: date_range_def)
  have n: "n = civil_days y m d" using days days_from_civil_eq [OF v yr, of oc] by simp
  have nr: "day_range n" using civil_days_range [OF v yr] n by simp
  define q r where "q = ?ms sdiv 86400000" and "r = ?ms smod 86400000"
  have qr: "?ms = q * 86400000 + r" unfolding q_def r_def by (simp add: sdiv_mult_smod_eq)
  have "- 86400000 < r \<and> r < 86400000 \<and> (0 \<le> ?ms \<longrightarrow> 0 \<le> r) \<and> (?ms \<le> 0 \<longrightarrow> r \<le> 0)"
    unfolding r_def by (cases "0 \<le> ?ms") (auto simp: signed_modulo_int_def signed_divide_int_def sgn_if minus_mult_div_eq_mod minus_div_mult_eq_mod)
  then have rb: "- 86400000 < r" "r < 86400000" by simp_all
  have parts: "(if r < 0 then (r + 86400000, q - 1) else (r, q)) = (t, n)"
  proof (cases "r < 0")
    case True
    have "n \<le> q - 1" "q - 1 \<le> n" using qr t rb True by linarith+
    then have "n = q - 1" by simp
    with True qr show ?thesis by simp
  next
    case False
    have "n \<le> q" "q \<le> n" using qr t rb False by linarith+
    then have "n = q" by simp
    with False qr show ?thesis by simp
  qed
  have clk: "trim_start_matches ''TOD#'' (tod_ms_to_string t) = ?clock"
  proof -
    have "strip_prefix ''TOD#'' ?clock = None"
    proof -
      obtain c cs where "pad_int 2 (t div 3600000) = c # cs" using pad_int_ne by (cases "pad_int 2 (t div 3600000)") auto
      moreover from this have "is_ascii_digit c"
        using pad_int_set [of "t div 3600000" c 2] t by simp
      then have "c \<noteq> CHR ''T''" by (auto simp: is_ascii_digit_def byte_def)
      ultimately show ?thesis by (simp add: clock_text_def)
    qed
    from trim_start_once [OF _ this] show ?thesis by (simp add: tod_text [OF t])
  qed
  have w: "dt_ms_to_string oc ?ms = Ret ?s"
    using parts clk civil_from_days_eq [OF nr, of oc] civil_date_days [OF v] nr
    unfolding dt_ms_to_string_def Let_def q_def [symmetric] r_def [symmetric]
    by (simp add: n day_range_def int_bounds)
  note pd = parse_date_text [OF v y]
  have tc: "\<forall>c \<in> set ?s. text_char c"
    using pd(3) text_char_digit text_char_day [OF t(1)] by auto
  have "get_to (date_text (y, m, d) @ ''-'' @ ?clock) 10 = Some (date_text (y, m, d))"
    "get_from (date_text (y, m, d) @ ''-'' @ ?clock) 11 = Some ?clock"
    "(date_text (y, m, d) @ ''-'' @ ?clock) ! 10 = CHR ''-''"
    "\<not> length (date_text (y, m, d) @ ''-'' @ ?clock) < 11"
  proof -
    obtain c cs where clock: "?clock = c # cs" "is_ascii_digit c"
    proof -
      obtain c cs where "pad_int 2 (t div 3600000) = c # cs"
        using pad_int_ne by (cases "pad_int 2 (t div 3600000)") auto
      moreover from this have "is_ascii_digit c"
        using pad_int_set [of "t div 3600000" c 2] t by simp
      ultimately show ?thesis using that by (simp add: clock_text_def)
    qed
    then have "\<not> is_cont c" by (simp add: is_ascii_digit_def is_cont_def)
    with clock pd(2) show "get_to (date_text (y, m, d) @ ''-'' @ ?clock) 10 = Some (date_text (y, m, d))"
      "get_from (date_text (y, m, d) @ ''-'' @ ?clock) 11 = Some ?clock"
      "(date_text (y, m, d) @ ''-'' @ ?clock) ! 10 = CHR ''-''"
      "\<not> length (date_text (y, m, d) @ ''-'' @ ?clock) < 11"
      by (simp_all add: get_to_def get_from_def is_char_boundary_def nth_append is_cont_def byte_def)
  qed
  note facts = this pd(1) [of oc] clock_parts [OF t]
  have "parse_dt_string_ms oc ?s = parse_date_time_ms oc (date_text (y, m, d) @ ''-'' @ ?clock)"
    unfolding parse_dt_string_ms_def trim_text [OF tc] without_prefix_def by simp
  also have "\<dots> = Ret (Some ?ms)"
    unfolding parse_date_time_ms_def facts if_False otry_simps obind.simps Let_def by (simp add: n pd(2))
  finally have "parse_dt_string_ms oc ?s = Ret (Some ?ms)" .
  with w show ?thesis by blast
qed

theorem dt_text_round_trip_witness:
  "\<exists>s. dt_ms_to_string True (1 * 86400000 + 3723004) = Ret s \<and>
    parse_dt_string_ms True s = Ret (Some (1 * 86400000 + 3723004))"
proof (rule dt_text_round_trip)
  show "days_from_civil True 1970 1 2 = Ret 1" by code_simp
qed (simp_all add: valid_date_def days_in_month_def)

end
