(* ===== verification/StdBcd.thy ===== *)
theory StdBcd
  imports RustInt
begin

unbundle bit_operations_syntax

text \<open>
  Binary coded decimals, \<open>bcd_to_int\<close> and \<open>int_to_bcd\<close> of \<open>iec_stdlib/src/lib.rs\<close>. The
  \<open>u64\<close> register is a 64-bit word, the decimal an \<open>i64\<close>. The specification is the value of
  a list of decimal digits in base 16 (\<open>bcd_code\<close>), against which both loops are proved.
\<close>

section \<open>The code\<close>

definition bcd_digit_capacity :: "string \<Rightarrow> nat option" where
  "bcd_digit_capacity name =
     (if name = ''BYTE'' then Some 2
      else if name = ''WORD'' then Some 4
      else if name = ''DWORD'' then Some 8
      else if name = ''LWORD'' then Some 16
      else None)"

lemma drop_nibble_less: "(raw :: 64 word) \<noteq> 0 \<Longrightarrow> unat (drop_bit 4 raw) < unat raw"
  by (simp add: drop_bit_eq_div unat_div unat_gt_0)

function bcd_loop :: "64 word \<Rightarrow> int \<Rightarrow> int \<Rightarrow> int option" where
  "bcd_loop raw result place =
     (if raw = 0 then Some result
      else
        let digit = uint (raw AND 15) in
        if digit > 9 then None
        else Option.bind (checked_i64 (digit * place)) (\<lambda>term.
          Option.bind (checked_i64 (result + term)) (\<lambda>result'.
            Option.bind (checked_i64 (place * 10)) (\<lambda>place'.
              bcd_loop (drop_bit 4 raw) result' place'))))"
  by pat_completeness auto
termination
  by (relation "measure (\<lambda>(raw, _). unat raw)") (auto intro: drop_nibble_less)

declare bcd_loop.simps [simp del]

definition bcd_mask :: "nat \<Rightarrow> 64 word" where
  "bcd_mask digits = (let bits = digits * 4 in if bits \<ge> 64 then - 1 else push_bit bits 1 - 1)"

definition bcd_to_int :: "int \<Rightarrow> nat option \<Rightarrow> int option" where
  "bcd_to_int v digits =
     (if v < 0 then None
      else
        let raw = (word_of_int v :: 64 word) in
        if (case digits of None \<Rightarrow> False | Some n \<Rightarrow> raw AND NOT (bcd_mask n) \<noteq> 0) then None
        else bcd_loop raw 0 1)"

function int_to_bcd_loop :: "nat \<Rightarrow> int \<Rightarrow> 64 word \<Rightarrow> nat \<Rightarrow> 64 word option" where
  "int_to_bcd_loop max_digits decimal raw used =
     (if decimal = 0 then Some raw
      else if used \<ge> max_digits then None
      else int_to_bcd_loop max_digits (decimal sdiv 10)
             (raw OR push_bit (used * 4) (word_of_int (decimal smod 10))) (used + 1))"
  by pat_completeness auto
termination
  by (relation "measure (\<lambda>(_, decimal, _). nat \<bar>decimal\<bar>)")
    (auto simp: signed_divide_int_def abs_mult)

declare int_to_bcd_loop.simps [simp del]

text \<open>The shift is at most 60 bits: at most 16 digits are used.\<close>

definition int_to_bcd :: "int \<Rightarrow> nat option \<Rightarrow> int option" where
  "int_to_bcd v digits =
     (if v < 0 then None
      else
        let max_digits = (case digits of None \<Rightarrow> 16 | Some n \<Rightarrow> n) in
        if v = 0 then Some 0
        else map_option (\<lambda>raw. wrap_i64 (uint raw)) (int_to_bcd_loop max_digits v 0 0))"

section \<open>Digits in base 16\<close>

fun bcd_code :: "nat \<Rightarrow> nat" where
  "bcd_code n = (if n = 0 then 0 else n mod 10 + 16 * bcd_code (n div 10))"

declare bcd_code.simps [simp del]

lemma bcd_code_0 [simp]: "bcd_code 0 = 0"
  by (simp add: bcd_code.simps)

lemma bcd_code_step: "bcd_code n = n mod 10 + 16 * bcd_code (n div 10)"
  by (cases "n = 0") (simp_all add: bcd_code.simps [of n])

lemma bcd_code_less: "n < c * 10 ^ k \<Longrightarrow> c \<le> 10 \<Longrightarrow> bcd_code n < c * 16 ^ k"
proof (induction k arbitrary: n)
  case 0
  then show ?case by (subst bcd_code_step) simp
next
  case (Suc k)
  then have "n div 10 < c * 10 ^ k" by (intro less_mult_imp_div_less) (simp add: ac_simps)
  from Suc.IH [OF this Suc.prems(2)] have "bcd_code (n div 10) + 1 \<le> c * 16 ^ k" by simp
  then have "16 * bcd_code (n div 10) + 16 \<le> c * 16 ^ Suc k" by simp
  then show ?case by (subst bcd_code_step) simp
qed

lemma bcd_code_bound: "n < 10 ^ k \<Longrightarrow> bcd_code n < 16 ^ k"
  using bcd_code_less [of n 1 k] by simp

lemma bcd_code_ge: "c * 10 ^ k \<le> n \<Longrightarrow> c * 16 ^ k \<le> bcd_code n"
proof (induction k arbitrary: n)
  case 0
  have "n \<le> bcd_code n"
  proof (induction n rule: bcd_code.induct)
    case (1 n)
    then have "n div 10 \<le> bcd_code (n div 10)" by (cases "n = 0") simp_all
    with bcd_code_step [of n] mod_mult_div_eq [of n 10] show ?case by linarith
  qed
  with 0 show ?case by simp
next
  case (Suc k)
  then have "c * 10 ^ k \<le> n div 10"
    by (simp add: less_eq_div_iff_mult_less_eq ac_simps)
  from Suc.IH [OF this] show ?case by (subst bcd_code_step) simp
qed

lemma bcd_code_pos: "0 < n \<Longrightarrow> 0 < bcd_code n"
proof (induction n rule: bcd_code.induct)
  case (1 n)
  show ?case
  proof (cases "n mod 10 = 0")
    case True
    with 1 show ?thesis by (subst bcd_code_step) (auto simp: div_greater_zero_iff dest: mod_eq_self_iff_div_eq_0 [THEN iffD2])
  qed (subst bcd_code_step, simp)
qed

text \<open>The register after the loop, as a number.\<close>

lemma or_push_bit_add:
  assumes "unat (raw :: 64 word) < 16 ^ used" "d < 16" "used < 16"
  shows "unat (raw OR push_bit (used * 4) (of_nat d)) = unat raw + 16 ^ used * d"
proof -
  have p: "(16 :: nat) ^ used = 2 ^ (used * 4)" using power_mult [of "2 :: nat" 4 used] by (simp add: mult.commute)
  have "d * 2 ^ (used * 4) < 2 ^ 64"
  proof -
    have "d * 2 ^ (used * 4) < 16 * 2 ^ (used * 4)" using assms(2) by simp
    also have "\<dots> = 2 ^ (4 + used * 4)" by (simp add: power_add)
    also have "\<dots> \<le> 2 ^ 64" using assms(3) by (intro power_increasing) simp_all
    finally show ?thesis .
  qed
  then have "unat (push_bit (used * 4) (of_nat d :: 64 word)) = d * 2 ^ (used * 4)"
    using assms(2) by (subst unsigned_push_bit_eq) (simp add: push_bit_eq_mult unsigned_of_nat take_bit_nat_eq_self)
  moreover have "raw AND push_bit (used * 4) (of_nat d) = 0"
  proof (rule bit_word_eqI)
    fix n
    assume "n < LENGTH(64)"
    have "\<not> bit raw n" if "used * 4 \<le> n"
    proof -
      have "unat raw < 2 ^ n"
        using assms(1) that unfolding p by (meson less_le_trans one_le_numeral power_increasing)
      then have "\<not> bit (unat raw) n" by (simp add: bit_iff_odd)
      then show ?thesis by (simp add: bit_unsigned_iff)
    qed
    then show "bit (raw AND push_bit (used * 4) (of_nat d)) n = bit (0 :: 64 word) n"
      by (auto simp: bit_simps)
  qed
  moreover have "unat raw + d * 2 ^ (used * 4) < 2 ^ 64"
  proof -
    have "d * 2 ^ (used * 4) \<le> 15 * 2 ^ (used * 4)" using assms(2) by simp
    then have "unat raw + d * 2 ^ (used * 4) < 16 * 2 ^ (used * 4)"
      using assms(1) unfolding p by linarith
    also have "\<dots> = 2 ^ (4 + used * 4)" by (simp add: power_add)
    also have "\<dots> \<le> 2 ^ 64" using assms(3) by (intro power_increasing) simp_all
    finally show ?thesis .
  qed
  ultimately show ?thesis
    by (simp add: p disjunctive_add_eq_or [symmetric] unat_plus_if' mult.commute)
qed

section \<open>The loops\<close>

lemma sdiv_smod_nat: "int n sdiv 10 = int (n div 10)" "int n smod 10 = int (n mod 10)"
  by (cases "n = 0"; simp add: signed_divide_int_def signed_modulo_int_def zdiv_int zmod_int minus_div_mult_eq_mod)+

lemma int_to_bcd_loop_Some:
  assumes "n < 10 ^ (mx - used)" "used \<le> mx" "mx \<le> 16" "unat raw < 16 ^ used"
  shows "\<exists>w. int_to_bcd_loop mx (int n) raw used = Some w \<and> unat w = unat raw + 16 ^ used * bcd_code n"
  using assms
proof (induction "mx - used" arbitrary: n raw used)
  case 0
  then show ?case by (simp add: int_to_bcd_loop.simps)
next
  case (Suc k)
  let ?raw = "raw OR push_bit (used * 4) (of_nat (n mod 10))"
  have r: "unat ?raw = unat raw + 16 ^ used * (n mod 10)"
    using Suc.prems Suc.hyps(2) by (intro or_push_bit_add) simp_all
  show ?case
  proof (cases "n = 0")
    case True
    then show ?thesis by (simp add: int_to_bcd_loop.simps)
  next
    case False
    have "unat raw + 16 ^ used * (n mod 10) < 16 ^ Suc used"
    proof -
      have "n mod 10 \<le> 15" using mod_less_divisor [of 10 n] by linarith
      then have "16 ^ used * (n mod 10) \<le> 16 ^ used * 15" by (rule mult_le_mono2)
      then show ?thesis using Suc.prems(4) unfolding power_Suc by linarith
    qed
    moreover have "mx - Suc used = k" and le: "Suc used \<le> mx" using Suc.hyps(2) by linarith+
    moreover have "n < 10 ^ Suc k" using Suc.prems(1) by (simp add: Suc.hyps(2) [symmetric])
    then have "n div 10 < 10 ^ k" by (simp add: less_mult_imp_div_less)
    ultimately obtain w where "int_to_bcd_loop mx (int (n div 10)) ?raw (Suc used) = Some w"
      "unat w = unat ?raw + 16 ^ Suc used * bcd_code (n div 10)"
      using Suc.hyps(1) [of "Suc used" "n div 10" ?raw] le Suc.prems(3) by (auto simp: r)
    then show ?thesis
      using False Suc.hyps(2) bcd_code_step [of n]
      by (simp add: int_to_bcd_loop.simps [of mx "int n"] sdiv_smod_nat r algebra_simps)
  qed
qed

lemma int_to_bcd_loop_None:
  assumes "10 ^ (mx - used) \<le> n" "used \<le> mx"
  shows "int_to_bcd_loop mx (int n) raw used = None"
  using assms
proof (induction "mx - used" arbitrary: n raw used)
  case 0
  then show ?case by (simp add: int_to_bcd_loop.simps)
next
  case (Suc k)
  have "mx - Suc used = k" using Suc.hyps(2) by linarith
  moreover have "10 ^ Suc k \<le> n" using Suc.prems(1) by (simp add: Suc.hyps(2) [symmetric])
  ultimately have "10 ^ (mx - Suc used) \<le> n div 10"
    by (simp add: less_eq_div_iff_mult_less_eq mult.commute)
  moreover have "0 < n"
    using Suc.prems(1) by (meson less_le_trans zero_less_numeral zero_less_power)
  ultimately show ?case
    using Suc.hyps(1) [of "Suc used" "n div 10"] Suc.hyps(2) Suc.prems(2)
    by (simp add: int_to_bcd_loop.simps [of mx "int n"] sdiv_smod_nat)
qed

lemma low_nibble: "uint ((raw :: 64 word) AND 15) = int (unat raw mod 16)"
proof -
  have "raw AND 15 = raw AND mask 4" by (simp add: mask_eq_exp_minus_1)
  then have "raw AND 15 = take_bit 4 raw" by (simp only: take_bit_eq_mask)
  then have "uint (raw AND 15) = take_bit 4 (uint raw)" by (simp only: unsigned_take_bit_eq)
  also have "\<dots> = int (unat raw mod 16)" by (simp add: take_bit_eq_mod of_nat_mod)
  finally show ?thesis .
qed

lemma drop_nibble: "unat (drop_bit 4 (raw :: 64 word)) = unat raw div 16"
  by (simp add: drop_bit_eq_div unat_div)

lemma bcd_loop_code:
  assumes "unat raw = bcd_code n" "n < 10 ^ j" "j + k \<le> 18" "0 \<le> res" "res < 10 ^ k"
  shows "bcd_loop raw res (10 ^ k) = Some (res + int n * 10 ^ k)"
  using assms
proof (induction j arbitrary: raw n k res)
  case 0
  then have "raw = 0" by (simp add: unat_eq_zero)
  with 0 show ?case by (simp add: bcd_loop.simps)
next
  case (Suc j)
  show ?case
  proof (cases "n = 0")
    case True
    then have "raw = 0" using Suc.prems(1) by (simp add: unat_eq_zero)
    with True show ?thesis by (simp add: bcd_loop.simps)
  next
    case False
    then have nz: "raw \<noteq> 0" using Suc.prems(1) bcd_code_pos [of n] by auto
    have d: "unat raw mod 16 = n mod 10" "unat raw div 16 = bcd_code (n div 10)"
      using bcd_code_step [of n] Suc.prems(1) by simp_all
    define res' where "res' = res + int (n mod 10) * 10 ^ k"
    have "int (n mod 10) * 10 ^ k \<le> 9 * 10 ^ k" by (intro mult_right_mono) simp_all
    then have res': "0 \<le> res'" "res' < 10 ^ Suc k"
      using Suc.prems(4,5) unfolding res'_def power_Suc by (simp, linarith)
    have "(10 :: int) ^ Suc k \<le> 10 ^ 18" using Suc.prems(3) by (intro power_increasing) simp_all
    then have p: "(10 :: int) ^ k * 10 \<le> 1000000000000000000" "(0 :: int) \<le> 10 ^ k" by simp_all
    have i: "in_i64 (int (n mod 10) * 10 ^ k)" "in_i64 res'" "in_i64 (10 ^ k * 10)"
      using res' \<open>int (n mod 10) * 10 ^ k \<le> 9 * 10 ^ k\<close> mult_nonneg_nonneg [of "int (n mod 10)" "10 ^ k"]
      p unfolding int_bounds power_Suc by (intro conjI; linarith)+
    have "n div 10 < 10 ^ j" using Suc.prems(2) by (simp add: less_mult_imp_div_less)
    from Suc.IH [OF _ this, of "drop_bit 4 raw" "Suc k" res'] res' Suc.prems(3)
    have "bcd_loop (drop_bit 4 raw) res' (10 ^ Suc k) = Some (res' + int (n div 10) * 10 ^ Suc k)"
      by (simp add: drop_nibble d)
    moreover have "res' + int (n div 10) * 10 ^ Suc k = res + int n * 10 ^ k"
    proof -
      have "int n = int (n mod 10) + 10 * int (n div 10)"
        by (metis mod_mult_div_eq of_nat_add of_nat_mult of_nat_numeral)
      then show ?thesis by (simp add: res'_def algebra_simps)
    qed
    ultimately show ?thesis
      using nz i mod_less_divisor [of 10 n] unfolding res'_def
      by (simp add: bcd_loop.simps [of raw] low_nibble d checked_i64_def mult.commute)
  qed
qed

lemma bcd_loop_decodes:
  "bcd_loop raw res place = Some r \<Longrightarrow> \<exists>n. unat raw = bcd_code n \<and> r = res + int n * place"
proof (induction raw res place arbitrary: r rule: bcd_loop.induct)
  case (1 raw res place)
  show ?case
  proof (cases "raw = 0")
    case True
    with "1.prems" show ?thesis by (intro exI [of _ 0]) (simp add: bcd_loop.simps)
  next
    case False
    define d where "d = unat raw mod 16"
    from "1.prems" False have d9: "d \<le> 9"
      and b: "bcd_loop (drop_bit 4 raw) (res + int d * place) (place * 10) = Some r"
      and c: "in_i64 (int d * place)" "in_i64 (res + int d * place)" "in_i64 (place * 10)"
      by (auto simp: bcd_loop.simps [of raw] low_nibble d_def [symmetric] bind_eq_Some_conv split: if_splits)
    obtain n where n: "unat (drop_bit 4 raw) = bcd_code n" "r = res + int d * place + int n * (place * 10)"
      using "1.IH" [OF False refl _ _ _ _ b] d9 c by (auto simp: low_nibble d_def)
    have "unat raw = d + 16 * bcd_code n"
      by (metis d_def drop_nibble mod_mult_div_eq n(1))
    also have "\<dots> = bcd_code (d + 10 * n)"
      using d9 by (subst bcd_code_step) simp
    finally show ?thesis using n(2) by (intro exI [of _ "d + 10 * n"]) (simp add: algebra_simps)
  qed
qed

lemma outside_mask:
  assumes "m \<le> 16"
  shows "(raw :: 64 word) AND NOT (bcd_mask m) = 0 \<longleftrightarrow> unat raw < 16 ^ m"
proof (cases "m = 16")
  case True
  then show ?thesis using unsigned_less [of raw, where 'a = nat] by (simp add: bcd_mask_def)
next
  case False
  with assms have "m * 4 < 64" by simp
  then have "bcd_mask m = mask (m * 4)"
    by (simp add: bcd_mask_def mask_eq_exp_minus_1 push_bit_eq_mult)
  moreover have "raw AND NOT (mask (m * 4)) = 0 \<longleftrightarrow> take_bit (m * 4) raw = raw"
  proof
    assume "raw AND NOT (mask (m * 4)) = 0"
    moreover have "raw = (raw AND mask (m * 4)) OR (raw AND NOT (mask (m * 4)))"
      by (rule bit_eqI) (auto simp: bit_simps)
    ultimately show "take_bit (m * 4) raw = raw"
      by (metis or.right_neutral take_bit_eq_mask)
  next
    assume "take_bit (m * 4) raw = raw"
    then have "raw = raw AND mask (m * 4)" by (simp only: take_bit_eq_mask)
    then have "raw AND NOT (mask (m * 4)) = (raw AND mask (m * 4)) AND NOT (mask (m * 4))" by metis
    also have "\<dots> = 0" by (rule bit_eqI) (auto simp: bit_simps)
    finally show "raw AND NOT (mask (m * 4)) = 0" .
  qed
  moreover have "take_bit (m * 4) raw = raw \<longleftrightarrow> unat raw < 2 ^ (m * 4)"
    by (metis take_bit_nat_eq_self_iff unsigned_take_bit_eq unsigned_word_eqI word_unat_eq_iff)
  moreover have "(16 :: nat) ^ m = 2 ^ (m * 4)"
    using power_mult [of "2 :: nat" 4 m] by (simp add: mult.commute)
  ultimately show ?thesis by simp
qed

lemma i64_register: "0 \<le> v \<Longrightarrow> in_i64 v \<Longrightarrow> unat (word_of_int v :: 64 word) = nat v"
  by (simp add: int_bounds unsigned_of_int take_bit_int_eq_self)

definition bcd_width :: "nat option \<Rightarrow> nat" where
  "bcd_width digits = (case digits of None \<Rightarrow> 16 | Some m \<Rightarrow> m)"

section \<open>Properties\<close>

text \<open>C34: Decoding is exact: a value of up to 16 nibbles decodes to \<open>n\<close> exactly when it is the
  code of the decimal digits of \<open>n\<close> and fits the width of its type; every value with a nibble
  above 9, a negative value or one that is too wide is rejected.\<close>

theorem bcd_to_int_exact:
  assumes "in_i64 v" and "bcd_width digits \<le> 16"
  shows "bcd_to_int v digits = Some n \<longleftrightarrow>
    0 \<le> n \<and> nat n < 10 ^ bcd_width digits \<and> v = int (bcd_code (nat n))"
proof -
  let ?raw = "word_of_int v :: 64 word"
  let ?m = "bcd_width digits"
  have out: "(case digits of None \<Rightarrow> False | Some n \<Rightarrow> ?raw AND NOT (bcd_mask n) \<noteq> 0) \<longleftrightarrow> \<not> unat ?raw < 16 ^ ?m"
    using assms(2) outside_mask [of ?m ?raw] unsigned_less [of ?raw, where 'a = nat]
    by (cases digits) (simp_all add: bcd_width_def)
  show ?thesis
  proof (cases "v < 0")
    case True
    then show ?thesis by (auto simp: bcd_to_int_def)
  next
    case False
    then have v: "unat ?raw = nat v" using assms(1) by (intro i64_register) simp_all
    show ?thesis
    proof
      assume b: "bcd_to_int v digits = Some n"
      with False out have w: "unat ?raw < 16 ^ ?m" and l: "bcd_loop ?raw 0 1 = Some n"
        by (simp_all add: bcd_to_int_def Let_def split: if_splits)
      from bcd_loop_decodes [OF l] obtain k where k: "unat ?raw = bcd_code k" "n = int k" by auto
      have "k < 10 ^ ?m"
      proof (rule ccontr)
        assume "\<not> k < 10 ^ ?m"
        then have "16 ^ ?m \<le> bcd_code k" using bcd_code_ge [of 1 ?m k] by simp
        with w k(1) show False by simp
      qed
      with k v False show "0 \<le> n \<and> nat n < 10 ^ ?m \<and> v = int (bcd_code (nat n))" by simp
    next
      assume r: "0 \<le> n \<and> nat n < 10 ^ ?m \<and> v = int (bcd_code (nat n))"
      then have u: "unat ?raw = bcd_code (nat n)" using v by simp
      then have "unat ?raw < 16 ^ ?m" using r bcd_code_bound by simp
      moreover have "bcd_loop ?raw 0 1 = Some n"
        using bcd_loop_code [OF u, where j = ?m and k = 0 and res = 0] r assms(2) by simp
      ultimately show "bcd_to_int v digits = Some n"
        using False out by (simp add: bcd_to_int_def Let_def)
    qed
  qed
qed

theorem bcd_to_int_exact_witness:
  "bcd_to_int 0x42 (Some 2) = Some 42 \<and> bcd_to_int 0x4A (Some 2) = None"
proof -
  have c: "bcd_code 42 = 0x42" by (simp add: bcd_code.simps)
  have "bcd_to_int 0x42 (Some 2) = Some 42"
    using bcd_to_int_exact [of "0x42" "Some 2" 42] c by (simp add: bcd_width_def int_bounds)
  moreover have "bcd_to_int 0x4A (Some 2) = None" by code_simp
  ultimately show ?thesis ..
qed

lemma int_to_bcd_code:
  assumes "n < 10 ^ bcd_width digits" "bcd_width digits \<le> 16"
  shows "int_to_bcd (int n) digits = Some (wrap_i64 (int (bcd_code n)))"
proof (cases "n = 0")
  case True
  then show ?thesis by (simp add: int_to_bcd_def)
next
  case False
  obtain w where "int_to_bcd_loop (bcd_width digits) (int n) 0 0 = Some w" "unat w = bcd_code n"
    using int_to_bcd_loop_Some [of n "bcd_width digits" 0 0] assms by auto
  moreover have "uint w = int (unat w)" by simp
  ultimately show ?thesis
    using False by (simp add: int_to_bcd_def bcd_width_def [symmetric] Let_def)
qed

text \<open>C35: Encoding an integer below eight quadrillion that fits the width and decoding the code
  gives the integer back; an integer with more digits than the width is rejected.\<close>

theorem bcd_round_trip:
  assumes "0 \<le> n" and "bcd_width digits \<le> 16" and "n < 8000000000000000"
  shows "Option.bind (int_to_bcd n digits) (\<lambda>r. bcd_to_int r digits) =
    (if n < 10 ^ bcd_width digits then Some n else None)"
proof -
  obtain k where k: "n = int k" using assms(1) by (metis nonneg_int_cases)
  have lt: "int k < 10 ^ bcd_width digits \<longleftrightarrow> k < 10 ^ bcd_width digits"
    by (metis of_nat_less_iff of_nat_numeral of_nat_power)
  show ?thesis
  proof (cases "k < 10 ^ bcd_width digits")
    case True
    have "bcd_code k < 8 * 16 ^ 15" using assms(3) k by (intro bcd_code_less) simp_all
    then have i: "in_i64 (int (bcd_code k))" by (simp add: int_bounds)
    with int_to_bcd_code [OF True assms(2)] bcd_to_int_exact [OF i assms(2)] True lt
    show ?thesis by (simp add: k)
  next
    case False
    then have "int_to_bcd_loop (bcd_width digits) (int k) 0 0 = None"
      by (intro int_to_bcd_loop_None) simp_all
    moreover have "k \<noteq> 0" using False by (intro notI) simp
    ultimately have "int_to_bcd_loop (bcd_width digits) (int k) 0 0 = None" "k \<noteq> 0" by simp_all
    then show ?thesis using False lt by (simp add: k int_to_bcd_def bcd_width_def [symmetric] Let_def)
  qed
qed

theorem bcd_round_trip_witness:
  "Option.bind (int_to_bcd 1234 (Some 4)) (\<lambda>r. bcd_to_int r (Some 4)) = Some 1234"
  using bcd_round_trip [of 1234 "Some 4"] by (simp add: bcd_width_def)

text \<open>A 16-digit integer from eight quadrillion on encodes to a negative \<open>i64\<close>, which
  decoding rejects.\<close>

theorem bcd_sign_overflow:
  assumes "8000000000000000 \<le> n" and "n < 10000000000000000"
  shows "\<exists>r. int_to_bcd n None = Some r \<and> r < 0 \<and> bcd_to_int r None = None"
proof -
  define k where "k = nat n"
  have k: "n = int k" "k < 10 ^ 16" "8 * 10 ^ 15 \<le> k" using assms by (simp_all add: k_def)
  have "8 * 16 ^ 15 \<le> bcd_code k" "bcd_code k < 16 ^ 16"
    using bcd_code_ge [OF k(3)] bcd_code_bound [OF k(2)] by simp_all
  then have "(int (bcd_code k) + 9223372036854775808) mod 18446744073709551616 =
      int (bcd_code k) + 9223372036854775808 - 18446744073709551616"
    by (intro int_mod_pos_eq [where q = 1]) simp_all
  with \<open>bcd_code k < 16 ^ 16\<close> have "wrap_i64 (int (bcd_code k)) < 0" by (simp add: wrap_i64_def)
  moreover have "int_to_bcd n None = Some (wrap_i64 (int (bcd_code k)))"
    using int_to_bcd_code [of k None] k by (simp add: bcd_width_def)
  ultimately show ?thesis by (simp add: bcd_to_int_def)
qed

theorem bcd_sign_overflow_witness:
  "\<exists>r. int_to_bcd 9000000000000000 None = Some r \<and> r < 0 \<and> bcd_to_int r None = None"
  by (rule bcd_sign_overflow) simp_all

end
