(* ===== verification/StdEval.thy ===== *)
theory StdEval
  imports StdTime StdBcd
begin

unbundle bit_operations_syntax

text \<open>
  The evaluation of the standard functions, \<open>eval_standard_function\<close> of
  \<open>iec_stdlib/src/lib.rs\<close> and everything it calls. A function that does unchecked integer
  arithmetic returns an \<open>outcome\<close>, since it can panic; \<open>None\<close> is the code's \<open>None\<close>. The
  logarithms, the exponential, the trigonometric functions and the power, whose results
  Rust leaves to the platform, are the fields of the record \<open>libm\<close>.
\<close>

record libm =
  lm_ln :: "f64 \<Rightarrow> f64"
  lm_log10 :: "f64 \<Rightarrow> f64"
  lm_exp :: "f64 \<Rightarrow> f64"
  lm_sin :: "f64 \<Rightarrow> f64"
  lm_cos :: "f64 \<Rightarrow> f64"
  lm_tan :: "f64 \<Rightarrow> f64"
  lm_powf :: "f64 \<Rightarrow> f64 \<Rightarrow> f64"

text \<open>\<open>args.get(i)?\<close> and the readings of an argument.\<close>

definition arg :: "val list \<Rightarrow> nat \<Rightarrow> val option" where
  "arg args i = (if i < length args then Some (args ! i) else None)"

definition arg_i64 :: "val list \<Rightarrow> nat \<Rightarrow> int option" where
  "arg_i64 args i = Option.bind (arg args i) as_i64"

definition arg_f64 :: "val list \<Rightarrow> nat \<Rightarrow> f64 option" where
  "arg_f64 args i = Option.bind (arg args i) as_f64"

definition arg_time :: "val list \<Rightarrow> nat \<Rightarrow> int option" where
  "arg_time args i = Option.bind (arg args i) value_time_ms"

definition is_real :: "val \<Rightarrow> bool" where
  "is_real v = (case v of VReal x \<Rightarrow> True | _ \<Rightarrow> False)"

definition is_time :: "val \<Rightarrow> bool" where
  "is_time v = (case v of VTimeMs t \<Rightarrow> True | _ \<Rightarrow> False)"

definition is_bool :: "val \<Rightarrow> bool" where
  "is_bool v = (case v of VBool b \<Rightarrow> True | _ \<Rightarrow> False)"

definition is_wstring :: "val \<Rightarrow> bool" where
  "is_wstring v = (case v of VWString s \<Rightarrow> True | _ \<Rightarrow> False)"

section \<open>Conversions\<close>

definition eval_bcd_conversion_function :: "string \<Rightarrow> val list \<Rightarrow> val option" where
  "eval_bcd_conversion_function name args =
     Option.bind (arg_i64 args 0) (\<lambda>v.
       if name = ''BCD_TO_INT'' then map_option VInt (bcd_to_int v None)
       else if name = ''INT_TO_BCD'' then map_option VInt (int_to_bcd v None)
       else case split_once_str ''_BCD_TO_'' name of
         Some (src, target) \<Rightarrow> map_option VInt (bcd_to_int v (bcd_digit_capacity src))
       | None \<Rightarrow>
           (case split_once_str ''_TO_BCD_'' name of
              Some (src, target) \<Rightarrow> map_option VInt (int_to_bcd v (bcd_digit_capacity target))
            | None \<Rightarrow> None))"

definition conversion_target_integer_range :: "string \<Rightarrow> (string \<times> int \<times> int) option" where
  "conversion_target_integer_range target =
     (if target = ''SINT'' then Some (''SINT'', - 128, 127)
      else if target \<in> {''USINT'', ''BYTE''} then
        Some (if target = ''BYTE'' then ''BYTE'' else ''USINT'', 0, 255)
      else if target = ''INT'' then Some (''INT'', - 32768, 32767)
      else if target \<in> {''UINT'', ''WORD''} then
        Some (if target = ''WORD'' then ''WORD'' else ''UINT'', 0, 65535)
      else if target = ''DINT'' then Some (''DINT'', - 2147483648, 2147483647)
      else if target \<in> {''UDINT'', ''DWORD''} then
        Some (if target = ''DWORD'' then ''DWORD'' else ''UDINT'', 0, 4294967295)
      else if target = ''LINT'' then Some (''LINT'', i64_min, i64_max)
      else if target \<in> {''ULINT'', ''LWORD''} then
        Some (if target = ''LWORD'' then ''LWORD'' else ''ULINT'', 0, i64_max)
      else None)"

definition integer_targets :: "string list" where
  "integer_targets = [''SINT'', ''INT'', ''DINT'', ''LINT'', ''USINT'', ''UINT'', ''UDINT'', ''ULINT'',
     ''BYTE'', ''WORD'', ''DWORD'', ''LWORD'']"

definition eval_conversion_function :: "bool \<Rightarrow> string \<Rightarrow> val list \<Rightarrow> val option outcome" where
  "eval_conversion_function oc name args =
     otry (split_once_str ''_TO_'' name) (\<lambda>(src, target). otry (arg args 0) (\<lambda>v.
       if target = ''BOOL'' then Ret (map_option VBool (value_to_bool v))
       else if target \<in> set integer_targets then
         otry (value_to_i64 v) (\<lambda>converted.
           otry (conversion_target_integer_range target) (\<lambda>(_, low, high).
             Ret (if converted \<ge> low \<and> converted \<le> high then Some (VInt converted) else None)))
       else if target \<in> {''REAL'', ''LREAL''} then Ret (map_option VReal (value_to_f64 v))
       else if target = ''STRING'' then
         omap (map_option VString) (value_to_string_for_source oc src v)
       else if target = ''WSTRING'' then
         omap (map_option VWString) (value_to_string_for_source oc src v)
       else if target = ''TIME'' then Ret (map_option VTimeMs (value_to_time_ms v))
       else if target = ''DATE'' then omap (map_option VTimeMs) (value_to_date_days oc v)
       else if target \<in> {''TOD'', ''TIME_OF_DAY''} then Ret (map_option VTimeMs (value_to_tod_ms v))
       else if target \<in> {''DT'', ''DATE_AND_TIME''} then omap (map_option VTimeMs) (value_to_dt_ms oc v)
       else Ret None))"

section \<open>Numbers\<close>

definition unary_numeric ::
    "(int \<Rightarrow> int outcome) \<Rightarrow> (f64 \<Rightarrow> f64) \<Rightarrow> val list \<Rightarrow> val option outcome" where
  "unary_numeric int_op real_op args =
     otry (arg args 0) (\<lambda>v. case v of
         VReal x \<Rightarrow> Ret (Some (VReal (real_op x)))
       | _ \<Rightarrow> otry (as_i64 v) (\<lambda>n. omap (\<lambda>r. Some (VInt r)) (int_op n)))"

fun f64_fold :: "(f64 \<Rightarrow> f64 \<Rightarrow> f64) \<Rightarrow> f64 \<Rightarrow> val list \<Rightarrow> f64 option" where
  "f64_fold op current [] = Some current"
| "f64_fold op current (v # vs) = Option.bind (as_f64 v) (\<lambda>x. f64_fold op (op current x) vs)"

fun i64_fold :: "(int \<Rightarrow> int \<Rightarrow> int outcome) \<Rightarrow> int \<Rightarrow> val list \<Rightarrow> int option outcome" where
  "i64_fold op current [] = Ret (Some current)"
| "i64_fold op current (v # vs) =
     otry (as_i64 v) (\<lambda>n. obind (op current n) (\<lambda>current'. i64_fold op current' vs))"

definition numeric_fold ::
    "(int \<Rightarrow> int \<Rightarrow> int outcome) \<Rightarrow> (f64 \<Rightarrow> f64 \<Rightarrow> f64) \<Rightarrow> val list \<Rightarrow> val option outcome" where
  "numeric_fold int_op real_op args =
     (case args of
        [] \<Rightarrow> Ret None
      | v # vs \<Rightarrow>
          if list_ex is_real args then
            Ret (Option.bind (as_f64 v) (\<lambda>x. map_option VReal (f64_fold real_op x vs)))
          else otry (as_i64 v) (\<lambda>n. omap (map_option VInt) (i64_fold int_op n vs)))"

definition numeric_pair ::
    "(int \<Rightarrow> int \<Rightarrow> int outcome) \<Rightarrow> (f64 \<Rightarrow> f64 \<Rightarrow> f64) \<Rightarrow> val list \<Rightarrow> val option outcome" where
  "numeric_pair int_op real_op args =
     (if list_ex is_real args then
        otry (arg_f64 args 0) (\<lambda>x. otry (arg_f64 args 1) (\<lambda>y. Ret (Some (VReal (real_op x y)))))
      else
        otry (arg_i64 args 0) (\<lambda>a. otry (arg_i64 args 1) (\<lambda>b. omap (\<lambda>r. Some (VInt r)) (int_op a b))))"

definition eval_div :: "val list \<Rightarrow> val option outcome" where
  "eval_div args =
     (if list_ex is_real args then
        otry (arg_f64 args 1) (\<lambda>right.
          if f64_is_zero right then Ret None
          else otry (arg_f64 args 0) (\<lambda>left. Ret (Some (VReal (f64_div left right)))))
      else
        otry (arg_i64 args 1) (\<lambda>right.
          if right = 0 then Ret None
          else otry (arg_i64 args 0) (\<lambda>left. omap (\<lambda>q. Some (VInt q)) (i64_div left right))))"

definition eval_mod :: "val list \<Rightarrow> val option outcome" where
  "eval_mod args =
     otry (arg_i64 args 0) (\<lambda>left. otry (arg_i64 args 1) (\<lambda>right.
       if right = 0 then Ret None else omap (\<lambda>r. Some (VInt r)) (i64_rem left right)))"

section \<open>Selection and comparison\<close>

fun time_fold :: "(int \<Rightarrow> int \<Rightarrow> int) \<Rightarrow> int \<Rightarrow> val list \<Rightarrow> int option" where
  "time_fold op current [] = Some current"
| "time_fold op current (v # vs) = Option.bind (value_to_time_ms v) (\<lambda>t. time_fold op (op current t) vs)"

fun int_fold :: "(int \<Rightarrow> int \<Rightarrow> int) \<Rightarrow> int \<Rightarrow> val list \<Rightarrow> int option" where
  "int_fold op current [] = Some current"
| "int_fold op current (v # vs) = Option.bind (as_i64 v) (\<lambda>n. int_fold op (op current n) vs)"

definition min_max :: "val list \<Rightarrow> bool \<Rightarrow> val option" where
  "min_max args mx =
     (case args of
        [] \<Rightarrow> None
      | v # vs \<Rightarrow>
          if list_ex is_real args then
            Option.bind (as_f64 v) (\<lambda>x.
              map_option VReal (f64_fold (if mx then f64_max else f64_min) x vs))
          else if list_ex is_time args then
            Option.bind (value_to_time_ms v) (\<lambda>t. map_option VTimeMs (time_fold (if mx then max else min) t vs))
          else
            Option.bind (as_i64 v) (\<lambda>n. map_option VInt (int_fold (if mx then max else min) n vs)))"

definition limit :: "val list \<Rightarrow> val option" where
  "limit args =
     (if length args \<noteq> 3 then None
      else if list_ex is_real args then
        Option.bind (arg_f64 args 0) (\<lambda>mn. Option.bind (arg_f64 args 1) (\<lambda>input.
          Option.bind (arg_f64 args 2) (\<lambda>mx. Some (VReal (f64_min (f64_max input mn) mx)))))
      else if list_ex is_time args then
        Option.bind (Option.bind (arg args 0) value_to_time_ms) (\<lambda>mn.
          Option.bind (Option.bind (arg args 1) value_to_time_ms) (\<lambda>input.
            Option.bind (Option.bind (arg args 2) value_to_time_ms) (\<lambda>mx.
              Some (VTimeMs (min (max input mn) mx)))))
      else
        Option.bind (arg_i64 args 0) (\<lambda>mn. Option.bind (arg_i64 args 1) (\<lambda>input.
          Option.bind (arg_i64 args 2) (\<lambda>mx. Some (VInt (min (max input mn) mx))))))"

definition eval_sel :: "val list \<Rightarrow> val option" where
  "eval_sel args =
     Option.bind (Option.bind (arg args 0) as_bool) (\<lambda>g. if g then arg args 2 else arg args 1)"

definition eval_mux :: "bool \<Rightarrow> val list \<Rightarrow> val option outcome" where
  "eval_mux oc args =
     otry (arg_i64 args 0) (\<lambda>k. omap (arg args) (usize_arith oc (as_usize k + 1)))"

text \<open>\<open>f64::EPSILON\<close> is \<open>2 ^ (- 52)\<close>. Strings are ordered by their bytes.\<close>

definition f64_epsilon :: f64 where
  "f64_epsilon = Fin False 4503599627370496 (- 104)"

definition compare_values :: "val \<Rightarrow> val \<Rightarrow> int option" where
  "compare_values left right =
     (if value_string left \<noteq> None \<or> value_string right \<noteq> None then
        (let l = value_to_string left; r = value_to_string right
         in Some (if l < r then - 1 else if l = r then 0 else 1))
      else
        Option.bind (as_f64 left) (\<lambda>l. Option.bind (as_f64 right) (\<lambda>r.
          if f64_lt (f64_abs (f64_sub l r)) f64_epsilon then Some 0
          else if f64_lt l r then Some (- 1)
          else Some 1)))"

fun compare_pairs :: "(int \<Rightarrow> bool) \<Rightarrow> val list \<Rightarrow> val option" where
  "compare_pairs p (a # b # rest) =
     Option.bind (compare_values a b) (\<lambda>ordering.
       if \<not> p ordering then Some (VBool False) else compare_pairs p (b # rest))"
| "compare_pairs p _ = Some (VBool True)"

definition compare_chain :: "(int \<Rightarrow> bool) \<Rightarrow> val list \<Rightarrow> val option" where
  "compare_chain p args = (if length args < 2 then None else compare_pairs p args)"

section \<open>Bits\<close>

definition bit_shift :: "val list \<Rightarrow> bool \<Rightarrow> val option" where
  "bit_shift args right =
     Option.bind (arg_i64 args 0) (\<lambda>v. Option.bind (arg_i64 args 1) (\<lambda>shift.
       if shift < 0 then None
       else let shift = wrap_u32 shift in
         if shift \<ge> 64 then Some (VInt 0)
         else let w = (word_of_int v :: 64 word);
                  shifted = (if right then drop_bit (nat shift) w else push_bit (nat shift) w)
              in Some (VInt (sint shifted))))"

definition bit_rotate :: "val list \<Rightarrow> bool \<Rightarrow> val option" where
  "bit_rotate args right =
     Option.bind (arg_i64 args 0) (\<lambda>v. Option.bind (arg_i64 args 1) (\<lambda>shift.
       if shift < 0 then None
       else let w = (word_of_int v :: 64 word); n = nat (shift smod 64);
                rotated = (if right then word_rotr n w else word_rotl n w)
            in Some (VInt (sint rotated))))"

fun bool_fold :: "(bool \<Rightarrow> bool \<Rightarrow> bool) \<Rightarrow> bool \<Rightarrow> val list \<Rightarrow> bool option" where
  "bool_fold op current [] = Some current"
| "bool_fold op current (v # vs) = Option.bind (as_bool v) (\<lambda>b. bool_fold op (op current b) vs)"

definition bit_bool_fold :: "(int \<Rightarrow> int \<Rightarrow> int) \<Rightarrow> (bool \<Rightarrow> bool \<Rightarrow> bool) \<Rightarrow> val list \<Rightarrow> val option" where
  "bit_bool_fold int_op bool_op args =
     (case args of
        [] \<Rightarrow> None
      | v # vs \<Rightarrow>
          if list_all is_bool args then
            Option.bind (as_bool v) (\<lambda>b. map_option VBool (bool_fold bool_op b vs))
          else Option.bind (as_i64 v) (\<lambda>n. map_option VInt (int_fold int_op n vs)))"

definition bit_bool_not :: "val list \<Rightarrow> val option" where
  "bit_bool_not args =
     Option.bind (arg args 0) (\<lambda>v. case v of
         VBool b \<Rightarrow> Some (VBool (\<not> b))
       | _ \<Rightarrow> map_option (\<lambda>n. VInt (NOT n)) (as_i64 v))"

section \<open>Strings\<close>

text \<open>Positions and lengths count characters. A string has fewer than \<open>2 ^ 63\<close> characters and
  a count is at most \<open>i64::MAX\<close>, so the \<open>usize\<close> sums of the code cannot overflow.\<close>

definition string_like_result :: "val \<Rightarrow> string \<Rightarrow> val" where
  "string_like_result template s = (if is_wstring template then VWString s else VString s)"

definition string_count_arg :: "val \<Rightarrow> nat option" where
  "string_count_arg v = Option.bind (as_i64 v) (\<lambda>n. if n < 0 then None else Some (nat n))"

definition string_position_arg :: "val \<Rightarrow> nat option" where
  "string_position_arg v = Option.bind (as_i64 v) (\<lambda>n. if n < 0 then None else Some (nat n))"

definition arg_string :: "val list \<Rightarrow> nat \<Rightarrow> string option" where
  "arg_string args i = Option.bind (arg args i) value_string"

definition arg_count :: "val list \<Rightarrow> nat \<Rightarrow> nat option" where
  "arg_count args i = Option.bind (arg args i) string_count_arg"

definition arg_position :: "val list \<Rightarrow> nat \<Rightarrow> nat option" where
  "arg_position args i = Option.bind (arg args i) string_position_arg"

definition string_left :: "val list \<Rightarrow> val option" where
  "string_left args =
     Option.bind (arg_string args 0) (\<lambda>input. Option.bind (arg_count args 1) (\<lambda>len.
       if len > length (chars input) then None
       else Option.bind (arg args 0) (\<lambda>t. Some (string_like_result t (concat (take len (chars input)))))))"

definition string_right :: "val list \<Rightarrow> val option" where
  "string_right args =
     Option.bind (arg_string args 0) (\<lambda>input. Option.bind (arg_count args 1) (\<lambda>len.
       let cs = chars input in
       if len > length cs then None
       else let start = length cs - len in
         Option.bind (arg args 0) (\<lambda>t. Some (string_like_result t (concat (drop start cs))))))"

definition string_mid :: "val list \<Rightarrow> val option" where
  "string_mid args =
     Option.bind (arg_string args 0) (\<lambda>input. Option.bind (arg_count args 1) (\<lambda>len.
       Option.bind (arg_position args 2) (\<lambda>pos.
         let cs = chars input in
         if pos = 0 \<or> pos > length cs \<or> pos - 1 + len > length cs then None
         else Option.bind (arg args 0) (\<lambda>t.
           Some (string_like_result t (concat (take len (drop (pos - 1) cs))))))))"

fun concat_strings :: "val list \<Rightarrow> string option" where
  "concat_strings [] = Some []"
| "concat_strings (v # vs) =
     Option.bind (value_string v) (\<lambda>s. map_option (\<lambda>rest. s @ rest) (concat_strings vs))"

definition string_concat :: "val list \<Rightarrow> val option" where
  "string_concat args =
     map_option (\<lambda>s. if list_ex is_wstring args then VWString s else VString s) (concat_strings args)"

text \<open>\<open>Vec::insert\<close>, one character after the other.\<close>

fun insert_chars :: "nat \<Rightarrow> string list \<Rightarrow> string list \<Rightarrow> string list" where
  "insert_chars i [] cs = cs"
| "insert_chars i (x # xs) cs = insert_chars (i + 1) xs (take i cs @ x # drop i cs)"

definition string_insert :: "val list \<Rightarrow> val option" where
  "string_insert args =
     Option.bind (arg_string args 0) (\<lambda>input. Option.bind (arg_string args 1) (\<lambda>ins.
       Option.bind (arg_position args 2) (\<lambda>pos.
         let cs = chars input in
         if pos > length cs then None
         else Option.bind (arg args 0) (\<lambda>t.
           Some (string_like_result t (concat (insert_chars pos (chars ins) cs)))))))"

definition string_delete :: "val list \<Rightarrow> val option" where
  "string_delete args =
     Option.bind (arg_string args 0) (\<lambda>input. Option.bind (arg_count args 1) (\<lambda>len.
       Option.bind (arg_position args 2) (\<lambda>pos.
         let cs = chars input in
         if pos = 0 \<or> pos > length cs \<or> pos - 1 + len > length cs then None
         else Option.bind (arg args 0) (\<lambda>t.
           Some (string_like_result t (concat (map snd
             (filter (\<lambda>(i, c). \<not> (i \<ge> pos - 1 \<and> i < pos - 1 + len)) (enumerate 0 cs)))))))))"

definition string_replace :: "val list \<Rightarrow> val option" where
  "string_replace args =
     Option.bind (arg_i64 args 3) (\<lambda>pos.
       if pos \<le> 0 then None
       else Option.bind (arg args 0) (\<lambda>t. Option.bind (arg args 2) (\<lambda>len. Option.bind (arg args 3) (\<lambda>p.
         Option.bind (string_delete [t, len, p]) (\<lambda>deleted.
           Option.bind (value_string deleted) (\<lambda>s. Option.bind (arg args 1) (\<lambda>ins.
             string_insert [string_like_result t s, ins, VInt (pos - 1)])))))))"

definition string_find :: "val list \<Rightarrow> val option" where
  "string_find args =
     Option.bind (arg_string args 0) (\<lambda>input. Option.bind (arg_string args 1) (\<lambda>needle.
       Some (VInt (case split_once_str needle input of
                     Some (before, after) \<Rightarrow> int (length (chars before)) + 1
                   | None \<Rightarrow> 0))))"

section \<open>Dates and times\<close>

definition time_pair :: "(int \<Rightarrow> int \<Rightarrow> int outcome) \<Rightarrow> val list \<Rightarrow> val option outcome" where
  "time_pair op args =
     otry (arg_time args 0) (\<lambda>a. otry (arg_time args 1) (\<lambda>b. omap (\<lambda>r. Some (VTimeMs r)) (op a b)))"

definition date_pair :: "(int \<Rightarrow> int \<Rightarrow> int outcome) \<Rightarrow> val list \<Rightarrow> val option outcome" where
  "date_pair op args =
     otry (arg_time args 0) (\<lambda>left. otry (arg_time args 1) (\<lambda>right.
       omap (\<lambda>r. Some (VTimeMs r)) (op left right)))"

text \<open>The argument of \<open>then_some\<close> is computed before the test is used.\<close>

definition concat_date :: "bool \<Rightarrow> val list \<Rightarrow> val option outcome" where
  "concat_date oc args =
     otry (arg_i64 args 0) (\<lambda>year. otry (arg_i64 args 1) (\<lambda>month. otry (arg_i64 args 2) (\<lambda>day.
       omap (\<lambda>d. if valid_date year month day then Some (VTimeMs d) else None)
         (days_from_civil oc year month day))))"

definition concat_tod :: "val list \<Rightarrow> val option" where
  "concat_tod args =
     Option.bind (arg_i64 args 0) (\<lambda>hour. Option.bind (arg_i64 args 1) (\<lambda>minute.
       Option.bind (arg_i64 args 2) (\<lambda>second. Option.bind (arg_i64 args 3) (\<lambda>millisecond.
         if \<not> (0 \<le> hour \<and> hour \<le> 23) \<or> \<not> (0 \<le> minute \<and> minute \<le> 59) \<or>
            \<not> (0 \<le> second \<and> second \<le> 59) \<or> \<not> (0 \<le> millisecond \<and> millisecond \<le> 999) then None
         else Some (VTimeMs (((hour * 60 + minute) * 60 + second) * 1000 + millisecond))))))"

definition concat_date_tod :: "bool \<Rightarrow> val list \<Rightarrow> val option outcome" where
  "concat_date_tod oc args =
     otry (arg_time args 0) (\<lambda>days. otry (arg_time args 1) (\<lambda>tod.
       obind (i128_arith oc (days * 86400000)) (\<lambda>base.
         omap (\<lambda>r. Some (VTimeMs r)) (i128_arith oc (base + tod)))))"

definition concat_dt :: "bool \<Rightarrow> val list \<Rightarrow> val option outcome" where
  "concat_dt oc args =
     obind (concat_date oc args) (\<lambda>d. otry d (\<lambda>date.
       if length args < 7 then Ret None
       else otry (concat_tod (take 4 (drop 3 args))) (\<lambda>tod. concat_date_tod oc [date, tod])))"

definition day_of_week :: "bool \<Rightarrow> val list \<Rightarrow> val option outcome" where
  "day_of_week oc args =
     otry (arg_time args 0) (\<lambda>days.
       omap (\<lambda>d. Some (VInt (wrap_i64 (d mod 7 + 1)))) (i128_arith oc (days + 3)))"

definition time_scale :: "(int \<Rightarrow> int \<Rightarrow> int outcome) \<Rightarrow> val list \<Rightarrow> val option outcome" where
  "time_scale op args =
     otry (arg_time args 0) (\<lambda>t. otry (arg_i64 args 1) (\<lambda>factor.
       omap (\<lambda>r. Some (VTimeMs r)) (op t factor)))"

section \<open>The dispatch\<close>

definition real_function :: "(f64 \<Rightarrow> f64) \<Rightarrow> val list \<Rightarrow> val option" where
  "real_function f args = map_option (\<lambda>x. VReal (f x)) (arg_f64 args 0)"

definition eval_named_function :: "libm \<Rightarrow> bool \<Rightarrow> string \<Rightarrow> val list \<Rightarrow> val option outcome" where
  "eval_named_function lm oc name args =
     (if name = ''ABS'' then unary_numeric (\<lambda>n. i64_arith oc \<bar>n\<bar>) f64_abs args
      else if name = ''SQRT'' then Ret (real_function f64_sqrt args)
      else if name = ''LN'' then Ret (real_function (lm_ln lm) args)
      else if name = ''LOG'' then Ret (real_function (lm_log10 lm) args)
      else if name = ''EXP'' then Ret (real_function (lm_exp lm) args)
      else if name = ''SIN'' then Ret (real_function (lm_sin lm) args)
      else if name = ''COS'' then Ret (real_function (lm_cos lm) args)
      else if name = ''TAN'' then Ret (real_function (lm_tan lm) args)
      else if name = ''ADD'' then numeric_fold (\<lambda>a b. i64_arith oc (a + b)) f64_add args
      else if name = ''SUB'' then numeric_pair (\<lambda>a b. i64_arith oc (a - b)) f64_sub args
      else if name = ''MUL'' then numeric_fold (\<lambda>a b. i64_arith oc (a * b)) f64_mul args
      else if name = ''DIV'' then eval_div args
      else if name = ''MOD'' then eval_mod args
      else if name = ''EXPT'' then
        Ret (Option.bind (arg_f64 args 0) (\<lambda>left.
          map_option (\<lambda>right. VReal (lm_powf lm left right)) (arg_f64 args 1)))
      else if name = ''TRUNC'' then Ret (map_option (\<lambda>x. VInt (f64_to_i64 x)) (arg_f64 args 0))
      else if name = ''MOVE'' then Ret (arg args 0)
      else if name = ''MIN'' then Ret (min_max args False)
      else if name = ''MAX'' then Ret (min_max args True)
      else if name = ''LIMIT'' then Ret (limit args)
      else if name = ''SEL'' then Ret (eval_sel args)
      else if name = ''MUX'' then eval_mux oc args
      else if name = ''GT'' then Ret (compare_chain (\<lambda>r. r > 0) args)
      else if name = ''GE'' then Ret (compare_chain (\<lambda>r. r \<ge> 0) args)
      else if name = ''EQ'' then Ret (compare_chain (\<lambda>r. r = 0) args)
      else if name = ''NE'' then Ret (compare_chain (\<lambda>r. r \<noteq> 0) args)
      else if name = ''LE'' then Ret (compare_chain (\<lambda>r. r \<le> 0) args)
      else if name = ''LT'' then Ret (compare_chain (\<lambda>r. r < 0) args)
      else if name = ''SHL'' then Ret (bit_shift args False)
      else if name = ''SHR'' then Ret (bit_shift args True)
      else if name = ''ROL'' then Ret (bit_rotate args False)
      else if name = ''ROR'' then Ret (bit_rotate args True)
      else if name = ''AND'' then Ret (bit_bool_fold (\<lambda>a b. a AND b) (\<and>) args)
      else if name = ''OR'' then Ret (bit_bool_fold (\<lambda>a b. a OR b) (\<or>) args)
      else if name = ''XOR'' then Ret (bit_bool_fold (\<lambda>a b. a XOR b) (\<noteq>) args)
      else if name = ''NOT'' then Ret (bit_bool_not args)
      else if name = ''LEN'' then Ret (map_option (\<lambda>s. VInt (int (length (chars s)))) (arg_string args 0))
      else if name = ''LEFT'' then Ret (string_left args)
      else if name = ''RIGHT'' then Ret (string_right args)
      else if name = ''MID'' then Ret (string_mid args)
      else if name = ''CONCAT'' then Ret (string_concat args)
      else if name = ''INSERT'' then Ret (string_insert args)
      else if name = ''DELETE'' then Ret (string_delete args)
      else if name = ''REPLACE'' then Ret (string_replace args)
      else if name = ''FIND'' then Ret (string_find args)
      else if name \<in> {''ADD_TIME'', ''ADD_TOD_TIME'', ''ADD_DT_TIME''} then
        time_pair (\<lambda>a b. i128_arith oc (a + b)) args
      else if name = ''CONCAT_DATE'' then concat_date oc args
      else if name = ''CONCAT_TOD'' then Ret (concat_tod args)
      else if name = ''CONCAT_DT'' then concat_dt oc args
      else if name = ''CONCAT_DATE_TOD'' then concat_date_tod oc args
      else if name = ''DAY_OF_WEEK'' then day_of_week oc args
      else if name \<in> {''SUB_TIME'', ''SUB_TOD_TIME'', ''SUB_DT_TIME''} then
        time_pair (\<lambda>a b. i128_arith oc (a - b)) args
      else if name = ''SUB_DATE_DATE'' then
        date_pair (\<lambda>a b. obind (i128_arith oc (a - b)) (\<lambda>d. i128_arith oc (d * 86400000))) args
      else if name \<in> {''SUB_TOD_TOD'', ''SUB_DT_DT''} then time_pair (\<lambda>a b. i128_arith oc (a - b)) args
      else if name \<in> {''MUL_TIME'', ''MULTIME''} then time_scale (\<lambda>t f. i128_arith oc (t * f)) args
      else if name \<in> {''DIV_TIME'', ''DIVTIME''} then
        otry (arg_i64 args 1) (\<lambda>divisor. if divisor = 0 then Ret None else time_scale i128_div args)
      else Ret None)"

definition eval_standard_function :: "libm \<Rightarrow> bool \<Rightarrow> string \<Rightarrow> val list \<Rightarrow> val option outcome" where
  "eval_standard_function lm oc raw args =
     (let name = canonical_identifier raw in
      case eval_bcd_conversion_function name args of
        Some v \<Rightarrow> Ret (Some v)
      | None \<Rightarrow>
          obind (eval_conversion_function oc name args) (\<lambda>converted.
            case converted of
              Some v \<Rightarrow> Ret (Some v)
            | None \<Rightarrow> eval_named_function lm oc name args))"

end
