(* ===== verification/StdTyping.thy ===== *)
theory StdTyping
  imports StdEval
begin

unbundle bit_operations_syntax

text \<open>
  The standard functions keep values well formed: every integer they return is an \<open>i64\<close>,
  every time an \<open>i128\<close>, every real an IEEE value.
\<close>

section \<open>Reals\<close>

lemma f64_ok_simps [simp]: "f64_ok NaN" "f64_ok (Inf s)" "f64_ok (Fin s 0 (- 1074))"
  by (simp_all add: f64_ok_def)

lemma f64_neg_ok [simp]: "f64_ok (f64_neg x) = f64_ok x"
  by (cases x) (simp_all add: f64_neg_def f64_ok_def)

lemma f64_abs_ok [simp]: "f64_ok (f64_abs x) = f64_ok x"
  by (cases x) (simp_all add: f64_abs_def f64_ok_def)

lemma f64_add_ok [simp]: "f64_ok (f64_add x y)"
  by (induction x y rule: f64_add.induct) (simp_all add: Let_def)

lemma f64_sub_ok [simp]: "f64_ok (f64_sub x y)"
  by (simp add: f64_sub_def)

lemma f64_mul_ok [simp]: "f64_ok (f64_mul x y)"
  by (induction x y rule: f64_mul.induct) simp_all

lemma f64_div_ok [simp]: "f64_ok (f64_div x y)"
  by (induction x y rule: f64_div.induct) simp_all

lemma f64_sqrt_ok [simp]: "f64_ok x \<Longrightarrow> f64_ok (f64_sqrt x)"
  by (cases x) (auto simp: f64_sqrt_def Let_def)

lemma f64_max_ok: "f64_ok x \<Longrightarrow> f64_ok y \<Longrightarrow> f64_ok (f64_max x y)"
  and f64_min_ok: "f64_ok x \<Longrightarrow> f64_ok y \<Longrightarrow> f64_ok (f64_min x y)"
  by (simp_all add: f64_max_def f64_min_def)

definition libm_ok :: "libm \<Rightarrow> bool" where
  "libm_ok lm \<longleftrightarrow> (\<forall>x. f64_ok x \<longrightarrow> f64_ok (lm_ln lm x) \<and> f64_ok (lm_log10 lm x) \<and>
     f64_ok (lm_exp lm x) \<and> f64_ok (lm_sin lm x) \<and> f64_ok (lm_cos lm x) \<and> f64_ok (lm_tan lm x) \<and>
     (\<forall>y. f64_ok y \<longrightarrow> f64_ok (lm_powf lm x y)))"

definition demo_libm :: libm where
  "demo_libm = \<lparr> lm_ln = (\<lambda>x. x), lm_log10 = (\<lambda>x. x), lm_exp = (\<lambda>x. x), lm_sin = (\<lambda>x. x),
     lm_cos = (\<lambda>x. x), lm_tan = (\<lambda>x. x), lm_powf = (\<lambda>x y. x) \<rparr>"

section \<open>Results\<close>

definition good_opt :: "val option \<Rightarrow> bool" where
  "good_opt x = (case x of None \<Rightarrow> True | Some v \<Rightarrow> value_ok v)"

definition good :: "val option outcome \<Rightarrow> bool" where
  "good m = (case m of Panic \<Rightarrow> True | Ret x \<Rightarrow> good_opt x)"

named_theorems good_intros \<open>results that are well formed\<close>

lemma good_simps [simp]:
  "good_opt None" "good_opt (Some v) = value_ok v" "good Panic" "good (Ret x) = good_opt x"
  by (simp_all add: good_opt_def good_def)

lemma good_if [good_intros]: "good a \<Longrightarrow> good b \<Longrightarrow> good (if P then a else b)"
  "good_opt x \<Longrightarrow> good_opt y \<Longrightarrow> good_opt (if P then x else y)"
  by simp_all

lemma good_Ret: "good_opt x \<Longrightarrow> good (Ret x)"
  by simp

lemma good_otry: "(\<And>a. x = Some a \<Longrightarrow> good (f a)) \<Longrightarrow> good (otry x f)"
  by (cases x) simp_all

lemma good_obind: "(\<And>a. m = Ret a \<Longrightarrow> good (f a)) \<Longrightarrow> good (obind m f)"
  by (cases m) simp_all

lemma good_omap: "(\<And>a. m = Ret a \<Longrightarrow> good_opt (g a)) \<Longrightarrow> good (omap g m)"
  by (cases m) simp_all

lemma good_bind: "(\<And>a. x = Some a \<Longrightarrow> good_opt (f a)) \<Longrightarrow> good_opt (Option.bind x f)"
  by (cases x) simp_all

lemma good_map: "(\<And>a. x = Some a \<Longrightarrow> value_ok (f a)) \<Longrightarrow> good_opt (map_option f x)"
  by (cases x) simp_all

section \<open>Arguments\<close>

definition args_ok :: "val list \<Rightarrow> bool" where
  "args_ok args \<longleftrightarrow> list_all value_ok args"

lemma arg_ok: "args_ok args \<Longrightarrow> arg args i = Some v \<Longrightarrow> value_ok v"
  by (auto simp: args_ok_def arg_def list_all_length split: if_splits)

lemma arg_i64_range: "args_ok args \<Longrightarrow> arg_i64 args i = Some n \<Longrightarrow> in_i64 n"
  by (auto simp: arg_i64_def bind_eq_Some_conv intro: as_i64_range dest: arg_ok)

lemma arg_f64_ok: "args_ok args \<Longrightarrow> arg_f64 args i = Some x \<Longrightarrow> f64_ok x"
  by (auto simp: arg_f64_def bind_eq_Some_conv intro: as_f64_ok dest: arg_ok)

lemma value_time_range: "value_ok v \<Longrightarrow> value_time_ms v = Some t \<Longrightarrow> in_i128 t"
  by (auto simp: value_time_ms_def as_i64_def split: val.splits)

lemma arg_time_range: "args_ok args \<Longrightarrow> arg_time args i = Some t \<Longrightarrow> in_i128 t"
  by (auto simp: arg_time_def bind_eq_Some_conv intro: value_time_range dest: arg_ok)

lemma i64_div_range: "i64_div a b = Ret q \<Longrightarrow> in_i64 q"
  by (auto simp: i64_div_def split: if_splits)

lemma i128_div_range: "i128_div a b = Ret q \<Longrightarrow> in_i128 q"
  by (auto simp: i128_div_def split: if_splits)

lemma i64_rem_range: "in_i64 a \<Longrightarrow> in_i64 b \<Longrightarrow> i64_rem a b = Ret r \<Longrightarrow> in_i64 r"
  by (auto simp: i64_rem_def in_i64_smod split: if_splits)

section \<open>Parsed dates and times\<close>

lemma clamp_i128: "in_i128 (f64_to_i128 x)"
  using clamp_bounds [of i128_min i128_max]
  by (auto simp: f64_to_i128_def f64_to_int_def int_bounds split: f64.splits)

lemma duration_loop_cases:
  assumes "duration_loop s rest acc saw = Some t"
  obtains (stop) x where "t = f64_to_i128 x"
  | (turn) v fr rest' factor k where "rest \<noteq> []" "duration_number rest = Some (v, fr, rest')" "rest' \<noteq> []"
      "duration_units rest' = Some (factor, k)" "\<not> (fr \<and> drop k rest' \<noteq> [])"
      "duration_loop s (drop k rest') (f64_add acc (f64_mul v factor)) True = Some t"
  using assms
  by (subst (asm) duration_loop.simps) (auto split: if_splits option.splits prod.splits)

lemma duration_loop_range: "duration_loop s rest acc saw = Some t \<Longrightarrow> in_i128 t"
proof (induction s rest acc saw rule: duration_loop.induct)
  case (1 s rest acc saw)
  from "1.prems" show ?case
  proof (cases rule: duration_loop_cases)
    case stop
    then show ?thesis by (simp add: clamp_i128)
  next
    case (turn v fr rest' factor k)
    with "1.IH" [OF turn(1,2) refl refl turn(3,4) refl turn(5)] show ?thesis by blast
  qed
qed

lemma parse_duration_range: "parse_duration_text_ms s = Some t \<Longrightarrow> in_i128 t"
  by (auto simp: parse_duration_text_ms_def Let_def dest: duration_loop_range split: if_splits)

lemma digits_value_less: "digits_value 10 acc s = Some n \<Longrightarrow> n < (acc + 1) * 10 ^ length s"
proof (induction s arbitrary: acc)
  case (Cons c cs)
  then obtain d where d: "to_digit 10 c = Some d" "digits_value 10 (acc * 10 + d) cs = Some n"
    by (auto split: option.splits)
  then have "d < 10" by (auto simp: to_digit_def Let_def split: if_splits)
  have "n < (acc * 10 + d + 1) * 10 ^ length cs" using Cons.IH [OF d(2)] .
  also have "\<dots> \<le> ((acc + 1) * 10) * 10 ^ length cs"
    using \<open>d < 10\<close> by (intro mult_le_mono1) simp
  finally show ?case by (simp add: algebra_simps)
qed simp

lemma fraction_millis_range: "fraction_millis f = Some ms \<Longrightarrow> 0 \<le> ms \<and> ms \<le> 999"
proof -
  assume f: "fraction_millis f = Some ms"
  define tx where "tx = take 3 f @ replicate (3 - length (take 3 f)) (CHR ''0'')"
  have len: "length tx = 3" by (simp add: tx_def)
  from f have dig: "list_all is_ascii_digit f" and p: "parse_i128 tx = Some ms"
    by (simp_all add: fraction_millis_def tx_def Let_def split: if_splits)
  have "\<forall>c \<in> set tx. is_ascii_digit c"
    using dig by (auto simp: tx_def list_all_iff is_ascii_digit_def byte_def dest: in_set_takeD)
  with len have "hd tx \<noteq> CHR ''-''" "hd tx \<noteq> CHR ''+''" "tx \<noteq> []"
    by (cases tx; force simp: is_ascii_digit_def byte_def)+
  with p obtain n where "digits_value 10 0 tx = Some n" "ms = int n"
    by (cases tx) (auto simp: parse_i128_def from_str_radix_signed_def unsigned_digits_def bind_eq_Some_conv
        simp del: digits_value.simps split: if_splits)
  with digits_value_less [of 0 tx n] len show ?thesis by simp
qed

lemma seconds_range: "seconds_and_millis p = Some (s, ms) \<Longrightarrow> 0 \<le> ms \<and> ms \<le> 999"
  by (auto simp: seconds_and_millis_def bind_eq_Some_conv dest: fraction_millis_range split: option.splits)

lemma parse_tod_range: "parse_time_of_day_ms s = Some t \<Longrightarrow> 0 \<le> t \<and> t \<le> 86399999"
proof -
  assume "parse_time_of_day_ms s = Some t"
  note t = this [unfolded parse_time_of_day_ms_def]
  obtain h r1 where 1: "split_at (CHR '':'') s = h # r1" using split_at_ne by (cases "split_at (CHR '':'') s") auto
  obtain hour where 2: "parse_i128 h = Some hour" using t 1 by (cases "parse_i128 h") simp_all
  obtain m r2 where 3: "r1 = m # r2" using t 1 2 by (cases r1) simp_all
  obtain minute where 4: "parse_i128 m = Some minute" using t 1 2 3 by (cases "parse_i128 m") simp_all
  obtain p r3 where 5: "r2 = p # r3" using t 1 2 3 4 by (cases r2) simp_all
  obtain z where "seconds_and_millis p = Some z"
    using t 1 2 3 4 5 by (cases "seconds_and_millis p") (simp_all split: if_splits)
  then obtain second millis where 6: "seconds_and_millis p = Some (second, millis)" by (cases z) simp
  have "0 \<le> hour" "hour \<le> 23" "0 \<le> minute" "minute \<le> 59" "0 \<le> second" "second \<le> 59"
    "t = ((hour * 60 + minute) * 60 + second) * 1000 + millis"
    using t 1 2 3 4 5 6 by (simp_all split: if_splits)
  with seconds_range [OF 6] show ?thesis by simp
qed

lemma days_from_civil_range: "days_from_civil oc y m d = Ret n \<Longrightarrow> in_i64 n"
  unfolding days_from_civil_def Let_def by (auto simp: obind_eq_Ret dest: i64_arith_range split: if_splits)

lemma parse_date_range: "parse_date_days oc s = Ret (Some n) \<Longrightarrow> in_i64 n"
  by (auto simp: parse_date_days_def otry_def omap_eq_Ret dest: days_from_civil_range
      split: list.splits option.splits if_splits)

lemma parse_dt_range: "parse_date_time_ms oc s = Ret (Some t) \<Longrightarrow> in_i128 t"
proof -
  assume "parse_date_time_ms oc s = Ret (Some t)"
  then obtain d tod where "parse_date_days oc (take 10 s) = Ret (Some d)" "t = d * 86400000 + tod"
    "parse_time_of_day_ms (drop 11 s) = Some tod"
    by (auto simp: parse_date_time_ms_def otry_def obind_eq_Ret get_to_def get_from_def Let_def
        split: if_splits option.splits)
  with parse_date_range parse_tod_range show ?thesis
    by (fastforce simp: int_bounds)
qed

section \<open>The conversions\<close>

lemma value_to_time_range: "value_ok v \<Longrightarrow> value_to_time_ms v = Some t \<Longrightarrow> in_i128 t"
  by (auto simp: value_to_time_ms_def parse_time_string_ms_def as_i64_def dest: parse_duration_range
      split: val.splits)

lemma in_i128_day: "0 \<le> t \<and> t \<le> 86399999 \<Longrightarrow> in_i128 t"
  by (simp add: int_bounds)

lemma value_to_tod_range: "value_ok v \<Longrightarrow> value_to_tod_ms v = Some t \<Longrightarrow> in_i128 t"
  by (auto simp: value_to_tod_ms_def parse_tod_string_ms_def value_time_ms_def as_i64_def
      dest!: parse_tod_range intro: in_i128_day split: val.splits)

lemma value_to_date_range: "value_ok v \<Longrightarrow> value_to_date_days oc v = Ret (Some t) \<Longrightarrow> in_i128 t"
  by (auto simp: value_to_date_days_def parse_date_string_days_def value_time_ms_def as_i64_def
      dest!: parse_date_range split: val.splits)

lemma value_to_dt_range: "value_ok v \<Longrightarrow> value_to_dt_ms oc v = Ret (Some t) \<Longrightarrow> in_i128 t"
  by (auto simp: value_to_dt_ms_def parse_dt_string_ms_def value_time_ms_def as_i64_def
      dest!: parse_dt_range split: val.splits)

lemma value_to_i64_range: "value_ok v \<Longrightarrow> value_to_i64 v = Some n \<Longrightarrow> in_i64 n"
  by (auto simp: value_to_i64_def as_i64_def dest: parse_i64_range split: val.splits)

lemma value_to_f64_ok: "value_ok v \<Longrightarrow> value_to_f64 v = Some x \<Longrightarrow> f64_ok x"
  by (auto simp: value_to_f64_def as_f64_def dest: parse_f64_ok split: val.splits)

lemma bcd_loop_range: "bcd_loop raw res place = Some n \<Longrightarrow> in_i64 res \<Longrightarrow> in_i64 n"
proof (induction raw res place rule: bcd_loop.induct)
  case (1 raw res place)
  show ?case
  proof (cases "raw = 0")
    case True
    with "1.prems" show ?thesis by (simp add: bcd_loop.simps)
  next
    case False
    define d where "d = uint (raw AND 15)"
    from "1.prems"(1) False have "d \<le> 9" "in_i64 (d * place)" "in_i64 (res + d * place)" "in_i64 (place * 10)"
      "bcd_loop (drop_bit 4 raw) (res + d * place) (place * 10) = Some n"
      by (auto simp: bcd_loop.simps [of raw] d_def [symmetric] bind_eq_Some_conv split: if_splits)
    then show ?thesis
      using "1.IH" [OF False refl] unfolding d_def by simp
  qed
qed

lemma bcd_to_int_range: "bcd_to_int v digits = Some n \<Longrightarrow> in_i64 n"
proof -
  assume b: "bcd_to_int v digits = Some n"
  obtain raw where "bcd_loop raw 0 1 = Some n"
    by (rule that [of "word_of_int v"]) (use b in \<open>simp add: bcd_to_int_def Let_def split: if_splits\<close>)
  then show ?thesis by (rule bcd_loop_range) simp
qed

lemma int_to_bcd_range: "int_to_bcd v digits = Some n \<Longrightarrow> in_i64 n"
  by (auto simp: int_to_bcd_def Let_def split: if_splits)

lemma good_bcd [good_intros]: "good_opt (eval_bcd_conversion_function name args)"
  unfolding eval_bcd_conversion_function_def
  by (rule good_bind) (auto simp: bcd_to_int_range int_to_bcd_range intro!: good_if good_map split: option.split)

lemma good_conversion [good_intros]:
  assumes "args_ok args"
  shows "good (eval_conversion_function oc name args)"
  unfolding eval_conversion_function_def
proof (rule good_otry, clarify, rule good_otry)
  fix src target v
  assume "arg args 0 = Some v"
  with assms have v: "value_ok v" by (rule arg_ok)
  note ranges = value_to_i64_range [OF v] value_to_f64_ok [OF v] value_to_time_range [OF v]
    value_to_date_range [OF v] value_to_tod_range [OF v] value_to_dt_range [OF v]
  have "good (otry (value_to_i64 v) (\<lambda>converted. otry (conversion_target_integer_range target)
      (\<lambda>(_, low, high). Ret (if low \<le> converted \<and> converted \<le> high then Some (VInt converted) else None))))"
    by (rule good_otry, rule good_otry) (use ranges in \<open>auto split: prod.split\<close>)
  then show "good (if target = ''BOOL'' then Ret (map_option VBool (value_to_bool v))
       else if target \<in> set integer_targets then
         otry (value_to_i64 v) (\<lambda>converted.
           otry (conversion_target_integer_range target) (\<lambda>(_, low, high).
             Ret (if converted \<ge> low \<and> converted \<le> high then Some (VInt converted) else None)))
       else if target \<in> {''REAL'', ''LREAL''} then Ret (map_option VReal (value_to_f64 v))
       else if target = ''STRING'' then
         omap (map_option VString) (value_to_string_for_source oc src v)
       else if target = ''WSTRING'' then
         omap (map_option VWString) (value_to_string_for_source oc src v)
       else if target = ''TIME'' then Ret (map_option VTimeMs (value_to_time_ms v))
       else if target = ''DATE'' then omap (map_option VTimeMs) (value_to_date_days oc v)
       else if target \<in> {''TOD'', ''TIME_OF_DAY''} then Ret (map_option VTimeMs (value_to_tod_ms v))
       else if target \<in> {''DT'', ''DATE_AND_TIME''} then omap (map_option VTimeMs) (value_to_dt_ms oc v)
       else Ret None)"
    by (intro good_if good_Ret good_omap good_map good_simps; simp add: ranges)
qed

section \<open>Numbers, selections, bits, strings, times\<close>

lemma good_unary [good_intros]:
  assumes "args_ok args" "\<And>n r. iop n = Ret r \<Longrightarrow> in_i64 r" "\<And>x. f64_ok x \<Longrightarrow> f64_ok (rop x)"
  shows "good (unary_numeric iop rop args)"
  using assms unfolding unary_numeric_def
  by (auto intro!: good_otry good_omap dest!: arg_ok split: val.split)

lemma f64_fold_ok:
  "f64_fold op x vs = Some y \<Longrightarrow> (\<And>a b. f64_ok a \<Longrightarrow> f64_ok b \<Longrightarrow> f64_ok (op a b)) \<Longrightarrow> f64_ok x \<Longrightarrow>
     list_all value_ok vs \<Longrightarrow> f64_ok y"
  by (induction vs arbitrary: x) (auto simp: bind_eq_Some_conv dest: as_f64_ok)

lemma i64_fold_range:
  "i64_fold op n vs = Ret (Some m) \<Longrightarrow> (\<And>a b r. op a b = Ret r \<Longrightarrow> in_i64 r) \<Longrightarrow> in_i64 n \<Longrightarrow> in_i64 m"
  by (induction vs arbitrary: n) (auto simp: otry_def obind_eq_Ret split: option.splits)

lemma int_fold_range:
  "int_fold op n vs = Some m \<Longrightarrow> (\<And>a b. in_i64 a \<Longrightarrow> in_i64 b \<Longrightarrow> in_i64 (op a b)) \<Longrightarrow> in_i64 n \<Longrightarrow>
     list_all value_ok vs \<Longrightarrow> in_i64 m"
  by (induction vs arbitrary: n) (auto simp: bind_eq_Some_conv dest: as_i64_range)

lemma time_fold_range:
  "time_fold op t vs = Some u \<Longrightarrow> (\<And>a b. in_i128 a \<Longrightarrow> in_i128 b \<Longrightarrow> in_i128 (op a b)) \<Longrightarrow> in_i128 t \<Longrightarrow>
     list_all value_ok vs \<Longrightarrow> in_i128 u"
  by (induction vs arbitrary: t) (auto simp: bind_eq_Some_conv dest: value_to_time_range)

lemma good_numeric_fold [good_intros]:
  assumes "args_ok args" "\<And>a b r. iop a b = Ret r \<Longrightarrow> in_i64 r" "\<And>a b. f64_ok a \<Longrightarrow> f64_ok b \<Longrightarrow> f64_ok (rop a b)"
  shows "good (numeric_fold iop rop args)"
proof (cases args)
  case (Cons v vs)
  then have v: "value_ok v" and vs: "list_all value_ok vs" using assms(1) by (simp_all add: args_ok_def)
  note r = f64_fold_ok [OF _ assms(3) as_f64_ok [OF v] vs] i64_fold_range [OF _ assms(2) as_i64_range [OF v]]
  have "good_opt (Option.bind (as_f64 v) (\<lambda>x. map_option VReal (f64_fold rop x vs)))"
    by (intro good_bind good_map) (simp add: r)
  moreover have "good (otry (as_i64 v) (\<lambda>n. omap (map_option VInt) (i64_fold iop n vs)))"
    by (intro good_otry good_omap good_map) (simp add: r)
  ultimately show ?thesis by (simp add: numeric_fold_def Cons)
qed (simp add: numeric_fold_def)

lemma good_numeric_pair [good_intros]:
  assumes "args_ok args" "\<And>a b r. iop a b = Ret r \<Longrightarrow> in_i64 r" "\<And>a b. f64_ok a \<Longrightarrow> f64_ok b \<Longrightarrow> f64_ok (rop a b)"
  shows "good (numeric_pair iop rop args)"
  using assms arg_f64_ok unfolding numeric_pair_def by (auto intro!: good_otry good_omap)

lemma good_div [good_intros]: "good (eval_div args)"
  unfolding eval_div_def by (auto intro!: good_if good_otry good_omap dest: i64_div_range)

lemma good_mod [good_intros]: "args_ok args \<Longrightarrow> good (eval_mod args)"
  unfolding eval_mod_def
  by (auto intro!: good_if good_otry good_omap intro: i64_rem_range [OF arg_i64_range arg_i64_range])

lemma good_min_max [good_intros]:
  assumes "args_ok args"
  shows "good_opt (min_max args mx)"
proof (cases args)
  case (Cons v vs)
  then have v: "value_ok v" and vs: "list_all value_ok vs" using assms by (simp_all add: args_ok_def)
  have ops: "f64_ok a \<Longrightarrow> f64_ok b \<Longrightarrow> f64_ok ((if mx then f64_max else f64_min) a b)"
    "in_i64 n \<Longrightarrow> in_i64 m \<Longrightarrow> in_i64 ((if mx then max else min) n m)"
    "in_i128 n \<Longrightarrow> in_i128 m \<Longrightarrow> in_i128 ((if mx then max else min) n m)" for a b n m
    by (simp_all add: f64_max_ok f64_min_ok max_def min_def)
  have "good_opt (Option.bind (as_f64 v) (\<lambda>x. map_option VReal (f64_fold (if mx then f64_max else f64_min) x vs)))"
    by (intro good_bind good_map) (simp only: value_ok.simps f64_fold_ok [OF _ ops(1) as_f64_ok [OF v] vs])
  moreover have "good_opt (Option.bind (value_to_time_ms v) (\<lambda>t. map_option VTimeMs (time_fold (if mx then max else min) t vs)))"
    by (intro good_bind good_map) (simp only: value_ok.simps time_fold_range [OF _ ops(3) value_to_time_range [OF v] vs])
  moreover have "good_opt (Option.bind (as_i64 v) (\<lambda>n. map_option VInt (int_fold (if mx then max else min) n vs)))"
    by (intro good_bind good_map) (simp only: value_ok.simps int_fold_range [OF _ ops(2) as_i64_range [OF v] vs])
  ultimately show ?thesis by (simp add: min_max_def Cons)
qed (simp add: min_max_def)

lemma arg_to_time_range: "args_ok args \<Longrightarrow> Option.bind (arg args i) value_to_time_ms = Some t \<Longrightarrow> in_i128 t"
  by (auto simp: bind_eq_Some_conv intro: value_to_time_range dest: arg_ok)

lemma good_limit [good_intros]:
  assumes "args_ok args"
  shows "good_opt (limit args)"
  unfolding limit_def
  by (intro good_if good_bind good_simps)
    (simp_all add: f64_max_ok f64_min_ok arg_f64_ok [OF assms] arg_i64_range [OF assms]
      arg_to_time_range [OF assms] max_def min_def)

lemma good_arg [good_intros]: "args_ok args \<Longrightarrow> good_opt (arg args i)"
  using arg_ok [of args i] by (cases "arg args i") simp_all

lemma good_sel [good_intros]: "args_ok args \<Longrightarrow> good_opt (eval_sel args)"
  unfolding eval_sel_def by (intro good_bind good_if good_arg)

lemma good_mux [good_intros]: "args_ok args \<Longrightarrow> good (eval_mux oc args)"
  unfolding eval_mux_def by (intro good_otry good_omap good_arg)

lemma good_compare [good_intros]: "good_opt (compare_chain p args)"
proof -
  have "good_opt (compare_pairs p args)"
    by (induction p args rule: compare_pairs.induct) (auto intro!: good_bind)
  then show ?thesis by (simp add: compare_chain_def)
qed

lemma sint_i64: "in_i64 (sint (w :: 64 word))"
  using sint_greater_eq [of w] sint_less [of w] by (simp add: int_bounds)

lemma good_shift [good_intros]: "good_opt (bit_shift args right)" "good_opt (bit_rotate args right)"
  unfolding bit_shift_def bit_rotate_def Let_def
  by (intro good_bind good_if good_simps; simp add: sint_i64)+

text \<open>The bitwise operations keep the range: a number is an \<open>i64\<close> when it is the sign extension
  of its low 63 bits.\<close>

lemma in_i64_signed: "in_i64 n \<longleftrightarrow> signed_take_bit 63 n = n"
  unfolding signed_take_bit_int_eq_self_iff int_bounds by simp linarith

lemma in_i64_bits:
  assumes "in_i64 a" "in_i64 b"
  shows "in_i64 (a AND b)" "in_i64 (a OR b)" "in_i64 (a XOR b)"
proof -
  have "signed_take_bit 63 (a AND b) = signed_take_bit 63 a AND signed_take_bit 63 b"
    "signed_take_bit 63 (a OR b) = signed_take_bit 63 a OR signed_take_bit 63 b"
    "signed_take_bit 63 (a XOR b) = signed_take_bit 63 a XOR signed_take_bit 63 b"
    by (rule bit_eqI; simp add: bit_simps)+
  with assms show "in_i64 (a AND b)" "in_i64 (a OR b)" "in_i64 (a XOR b)" by (simp_all add: in_i64_signed)
qed

lemma in_i64_not: "in_i64 a \<Longrightarrow> in_i64 (NOT a)"
  by (simp add: int_bounds not_int_def)

lemma good_bool_fold [good_intros]:
  assumes "args_ok args" and "\<And>a b. in_i64 a \<Longrightarrow> in_i64 b \<Longrightarrow> in_i64 (iop a b)"
  shows "good_opt (bit_bool_fold iop bop args)"
proof (cases args)
  case (Cons v vs)
  then have v: "value_ok v" and vs: "list_all value_ok vs" using assms(1) by (simp_all add: args_ok_def)
  have "good_opt (Option.bind (as_i64 v) (\<lambda>n. map_option VInt (int_fold iop n vs)))"
    by (intro good_bind good_map) (simp only: value_ok.simps int_fold_range [OF _ assms(2) as_i64_range [OF v] vs])
  moreover have "good_opt (Option.bind (as_bool v) (\<lambda>b. map_option VBool (bool_fold bop b vs)))"
    by (intro good_bind good_map) simp
  ultimately show ?thesis by (simp add: bit_bool_fold_def Cons)
qed (simp add: bit_bool_fold_def)

lemma good_bool_not [good_intros]:
  assumes "args_ok args"
  shows "good_opt (bit_bool_not args)"
  unfolding bit_bool_not_def
proof (rule good_bind)
  fix v
  assume "arg args 0 = Some v"
  then have "value_ok v" by (rule arg_ok [OF assms])
  then have "good_opt (map_option (\<lambda>n. VInt (NOT n)) (as_i64 v))"
    by (intro good_map) (simp only: value_ok.simps in_i64_not [OF as_i64_range])
  then show "good_opt (case v of VBool b \<Rightarrow> Some (VBool (\<not> b)) | _ \<Rightarrow> map_option (\<lambda>n. VInt (NOT n)) (as_i64 v))"
    by (cases v) simp_all
qed

text \<open>A string of fewer than \<open>2 ^ 63\<close> bytes, as every string of the program, has an \<open>i64\<close> length.\<close>

lemma length_chars: "length (chars s) \<le> length s"
proof (induction s rule: chars.induct)
  case (2 b bs)
  then have "length (chars (b # bs)) \<le> Suc (length (dropWhile is_cont bs))" by simp
  also have "\<dots> \<le> Suc (length bs)" using length_dropWhile_le by simp
  finally show ?case by simp
qed simp

definition strings_fit :: "val list \<Rightarrow> bool" where
  "strings_fit args \<longleftrightarrow>
     list_all (\<lambda>v. case value_string v of None \<Rightarrow> True | Some s \<Rightarrow> int (length s) < i64_max) args"

lemma arg_string_fits: "strings_fit args \<Longrightarrow> arg_string args i = Some s \<Longrightarrow> int (length s) < i64_max"
  by (auto simp: strings_fit_def arg_string_def arg_def list_all_length bind_eq_Some_conv split: if_splits)

lemma good_len: "strings_fit args \<Longrightarrow> good_opt (map_option (\<lambda>s. VInt (int (length (chars s)))) (arg_string args 0))"
proof (rule good_map)
  fix s
  assume "strings_fit args" "arg_string args 0 = Some s"
  then have "int (length s) < i64_max" by (rule arg_string_fits)
  with length_chars [of s] show "value_ok (VInt (int (length (chars s))))" by (simp add: int_bounds)
qed

lemma good_find: "strings_fit args \<Longrightarrow> good_opt (string_find args)"
proof -
  assume fit: "strings_fit args"
  have "in_i64 (int (length (chars a)) + 1)" if "arg_string args 0 = Some s" "split_once_str p s = Some (a, b)" for p s a b
  proof -
    have "length a \<le> length s" using that(2)
      by (induction p s arbitrary: a b rule: split_once_str.induct) (auto split: if_splits option.splits)
    with arg_string_fits [OF fit that(1)] length_chars [of a] show ?thesis by (simp add: int_bounds)
  qed
  then show ?thesis
    unfolding string_find_def by (intro good_bind) (auto split: option.split)
qed

lemma good_like [simp]: "value_ok (string_like_result t s)"
  by (simp add: string_like_result_def)

lemma good_strings [good_intros]:
  "good_opt (string_left args)" "good_opt (string_right args)" "good_opt (string_mid args)"
  "good_opt (string_concat args)" "good_opt (string_insert args)" "good_opt (string_delete args)"
  unfolding string_left_def string_right_def string_mid_def string_concat_def string_insert_def string_delete_def Let_def
  by (intro good_bind good_if good_map good_simps; simp)+

lemma good_replace [good_intros]: "good_opt (string_replace args)"
  unfolding string_replace_def by (intro good_if good_bind good_simps good_strings)

lemma good_times [good_intros]:
  "(\<And>a b r. op a b = Ret r \<Longrightarrow> in_i128 r) \<Longrightarrow> good (time_pair op args)"
  "(\<And>a b r. op a b = Ret r \<Longrightarrow> in_i128 r) \<Longrightarrow> good (date_pair op args)"
  "(\<And>a b r. op a b = Ret r \<Longrightarrow> in_i128 r) \<Longrightarrow> good (time_scale op args)"
  unfolding time_pair_def date_pair_def time_scale_def by (intro good_otry good_omap; simp)+

lemma good_day_of_week [good_intros]: "good (day_of_week oc args)"
  unfolding day_of_week_def by (intro good_otry good_omap) (simp del: wrap_i64_id)

lemma good_dates [good_intros]:
  "good (concat_date oc args)" "good_opt (concat_tod args)" "good (concat_date_tod oc args)"
  unfolding concat_date_def concat_date_tod_def
  by (intro good_otry good_omap good_obind; simp add: i128_arith_range days_from_civil_range)
    (auto simp: concat_tod_def int_bounds intro!: good_bind,
     (intro good_otry good_omap good_obind; simp add: i128_arith_range days_from_civil_range)+)

lemma good_concat_dt [good_intros]: "good (concat_dt oc args)"
  unfolding concat_dt_def by (intro good_obind good_otry good_if good_dates good_simps(4) [THEN iffD2] good_simps)

section \<open>The typing theorem\<close>

lemma good_real_function: "args_ok args \<Longrightarrow> (\<And>x. f64_ok x \<Longrightarrow> f64_ok (f x)) \<Longrightarrow> good_opt (real_function f args)"
  unfolding real_function_def by (intro good_map) (simp add: arg_f64_ok)

lemma good_expt: "args_ok args \<Longrightarrow> libm_ok lm \<Longrightarrow>
    good_opt (Option.bind (arg_f64 args 0) (\<lambda>left. map_option (\<lambda>right. VReal (lm_powf lm left right)) (arg_f64 args 1)))"
  by (intro good_bind good_map) (simp add: libm_ok_def arg_f64_ok)

lemma good_trunc: "good_opt (map_option (\<lambda>x. VInt (f64_to_i64 x)) (arg_f64 args 0))"
  by (intro good_map) simp

lemma good_div_time: "good (otry (arg_i64 args 1) (\<lambda>divisor. if divisor = 0 then Ret None else time_scale i128_div args))"
  by (intro good_otry good_if good_times) (simp_all add: i128_div_range)

lemma good_named:
  assumes "args_ok args" "strings_fit args" "libm_ok lm"
  shows "good (eval_named_function lm oc name args)"
proof -
  have lm: "\<And>x. f64_ok x \<Longrightarrow> f64_ok (lm_ln lm x)" "\<And>x. f64_ok x \<Longrightarrow> f64_ok (lm_log10 lm x)"
    "\<And>x. f64_ok x \<Longrightarrow> f64_ok (lm_exp lm x)" "\<And>x. f64_ok x \<Longrightarrow> f64_ok (lm_sin lm x)"
    "\<And>x. f64_ok x \<Longrightarrow> f64_ok (lm_cos lm x)" "\<And>x. f64_ok x \<Longrightarrow> f64_ok (lm_tan lm x)"
    using assms(3) by (simp_all add: libm_ok_def)
  have sub: "obind (i128_arith oc (a - b)) (\<lambda>d. i128_arith oc (d * 86400000)) = Ret r \<Longrightarrow> in_i128 r" for a b r
    by (auto simp: obind_eq_Ret dest: i128_arith_range)
  note g = good_intros good_real_function good_expt good_trunc good_div_time good_len good_find good_Ret
  show ?thesis
    unfolding eval_named_function_def
    by (intro g; (rule assms lm f64_sqrt_ok i64_arith_range i128_arith_range sub in_i64_bits; assumption?)?;
        simp add: good_simps)
qed

text \<open>The standard functions are well typed: on well-formed arguments (integers in \<open>i64\<close>,
  times in \<open>i128\<close>, IEEE reals, strings that fit the address space), whatever function is called
  and whether or not the build checks overflow, a returned value is well formed.\<close>

theorem eval_standard_function_typed:
  assumes "list_all value_ok args" and "strings_fit args" and "libm_ok lm"
    and "eval_standard_function lm oc name args = Ret (Some v)"
  shows "value_ok v"
proof -
  have a: "args_ok args" using assms(1) by (simp add: args_ok_def)
  have "good (eval_standard_function lm oc name args)"
    unfolding eval_standard_function_def Let_def
  proof (split option.split, intro conjI impI allI)
    fix w assume "eval_bcd_conversion_function (canonical_identifier name) args = Some w"
    then show "good (Ret (Some w))" using good_bcd [of "canonical_identifier name" args] by simp
  next
    show "good (obind (eval_conversion_function oc (canonical_identifier name) args)
       (\<lambda>converted. case converted of Some v \<Rightarrow> Ret (Some v)
         | None \<Rightarrow> eval_named_function lm oc (canonical_identifier name) args))"
    proof (rule good_obind)
      fix c assume "eval_conversion_function oc (canonical_identifier name) args = Ret c"
      with good_conversion [OF a, of oc "canonical_identifier name"] good_named [OF a assms(2,3)]
      show "good (case c of Some v \<Rightarrow> Ret (Some v)
          | None \<Rightarrow> eval_named_function lm oc (canonical_identifier name) args)"
        by (cases c) simp_all
    qed
  qed
  with assms(4) show ?thesis by simp
qed

theorem eval_standard_function_typed_witness:
  "value_ok (VInt (- 9223372036854775808))"
proof (rule eval_standard_function_typed)
  show "eval_standard_function demo_libm False ''add'' [VInt 9223372036854775807, VInt 1] =
      Ret (Some (VInt (- 9223372036854775808)))"
    by code_simp
qed (simp_all add: int_bounds strings_fit_def value_string_def libm_ok_def demo_libm_def)

end
