(* ===== verification/StdLaws.thy ===== *)
theory StdLaws
  imports StdTyping
begin

unbundle bit_operations_syntax

text \<open>
  Laws of the standard functions of \<open>StdEval\<close>: which calls can panic in a release build, the
  string functions as cuts of the list of characters, shifts and rotations, division with
  remainder, and the places where the code's behaviour surprises.
\<close>

section \<open>Panics in a release build\<close>

lemma i128_arith_release [simp]: "i128_arith False n = Ret (wrap_i128 n)"
  by (simp add: i128_arith_def)

lemma usize_arith_release [simp]: "usize_arith False n = Ret (wrap_usize n)"
  by (simp add: usize_arith_def wrap_usize_def usize_max_def)

definition panic_only :: "bool \<Rightarrow> 'a outcome \<Rightarrow> bool" where
  "panic_only R m \<longleftrightarrow> (m = Panic \<longrightarrow> R)"

named_theorems panic_intros \<open>computations that do not panic\<close>

lemma panic_only_simps [panic_intros]:
  "panic_only R (Ret x)" "panic_only R (i64_arith False n)" "panic_only R (i128_arith False n)"
  "panic_only R (usize_arith False k)"
  by (simp_all add: panic_only_def)

lemma panic_only_if [panic_intros]:
  "(P \<Longrightarrow> panic_only R a) \<Longrightarrow> (\<not> P \<Longrightarrow> panic_only R b) \<Longrightarrow> panic_only R (if P then a else b)"
  by simp

lemma panic_only_omap [panic_intros]: "panic_only R m \<Longrightarrow> panic_only R (omap g m)"
  by (cases m) (simp_all add: panic_only_def)

lemma panic_only_obind [panic_intros]:
  "panic_only R m \<Longrightarrow> (\<And>a. panic_only R (f a)) \<Longrightarrow> panic_only R (obind m f)"
  by (cases m) (simp_all add: panic_only_def)

lemma panic_only_otry [panic_intros]: "(\<And>a. x = Some a \<Longrightarrow> panic_only R (h a)) \<Longrightarrow> panic_only R (otry x h)"
  by (cases x) (simp_all add: panic_only_def)

lemma panic_only_case [panic_intros]:
  "panic_only R a \<Longrightarrow> (\<And>x xs. panic_only R (f x xs)) \<Longrightarrow> panic_only R (case l of [] \<Rightarrow> a | x # xs \<Rightarrow> f x xs)"
  "panic_only R b \<Longrightarrow> (\<And>x. panic_only R (g x)) \<Longrightarrow> panic_only R (case z of None \<Rightarrow> b | Some x \<Rightarrow> g x)"
  "(\<And>x y. panic_only R (h x y)) \<Longrightarrow> panic_only R (case q of (x, y) \<Rightarrow> h x y)"
  by (simp_all split: list.split option.split prod.split)

lemma days_no_panic [panic_intros]: "panic_only R (days_from_civil False y m d)"
  unfolding days_from_civil_def Let_def by (intro panic_intros)

lemma civil_no_panic [panic_intros]: "panic_only R (civil_from_days False n)"
  unfolding civil_from_days_def Let_def by (intro panic_intros)

lemma parse_date_no_panic [panic_intros]: "panic_only R (parse_date_days False s)"
  unfolding parse_date_days_def by (intro panic_intros)

lemma parse_dt_no_panic [panic_intros]: "panic_only R (parse_date_time_ms False s)"
  unfolding parse_date_time_ms_def Let_def by (intro panic_intros)

lemma value_date_no_panic [panic_intros]:
  "panic_only R (value_to_date_days False v)" "panic_only R (value_to_dt_ms False v)"
  unfolding value_to_date_days_def value_to_dt_ms_def parse_date_string_days_def parse_dt_string_ms_def
  by (simp_all add: panic_intros split: val.split)

lemma date_text_no_panic [panic_intros]:
  "panic_only R (date_days_to_string False n)" "panic_only R (dt_ms_to_string False t)"
  unfolding date_days_to_string_def dt_ms_to_string_def Let_def by (intro panic_intros)+

lemma conversion_no_panic [panic_intros]: "panic_only R (eval_conversion_function False name args)"
  unfolding eval_conversion_function_def value_to_string_for_source_def by (intro panic_intros)

lemma unary_no_panic [panic_intros]: "(\<And>n. panic_only R (iop n)) \<Longrightarrow> panic_only R (unary_numeric iop rop args)"
  unfolding unary_numeric_def
  by (intro panic_only_otry) (simp add: panic_intros split: val.split)

lemma i64_fold_no_panic [panic_intros]: "(\<And>a b. panic_only R (op a b)) \<Longrightarrow> panic_only R (i64_fold op n vs)"
  by (induction vs arbitrary: n) (auto intro!: panic_intros)

lemma numeric_no_panic [panic_intros]:
  "(\<And>a b. panic_only R (iop a b)) \<Longrightarrow> panic_only R (numeric_fold iop rop args)"
  "(\<And>a b. panic_only R (iop a b)) \<Longrightarrow> panic_only R (numeric_pair iop rop args)"
  unfolding numeric_fold_def numeric_pair_def by (intro panic_intros; simp)+

lemma mux_no_panic [panic_intros]: "panic_only R (eval_mux False args)"
  unfolding eval_mux_def by (intro panic_intros)

lemma time_no_panic [panic_intros]:
  "(\<And>a b. panic_only R (op a b)) \<Longrightarrow> panic_only R (time_pair op args)"
  "(\<And>a b. panic_only R (op a b)) \<Longrightarrow> panic_only R (date_pair op args)"
  "(\<And>a b. panic_only R (op a b)) \<Longrightarrow> panic_only R (time_scale op args)"
  unfolding time_pair_def date_pair_def time_scale_def by (intro panic_intros; simp)+

lemma concat_no_panic [panic_intros]:
  "panic_only R (concat_date False args)" "panic_only R (concat_date_tod False args)"
  "panic_only R (day_of_week False args)"
  unfolding concat_date_def concat_date_tod_def day_of_week_def by (intro panic_intros)+

lemma concat_dt_no_panic [panic_intros]: "panic_only R (concat_dt False args)"
  unfolding concat_dt_def by (intro panic_intros)

lemma sdiv_overflow:
  assumes "- M - 1 \<le> a" "a \<le> M" "b \<noteq> 0" "a sdiv b < - M - 1 \<or> M < a sdiv b" "0 < M"
  shows "a = - M - 1 \<and> b = (- 1 :: int)"
proof -
  have b1: "b = - 1"
  proof (rule ccontr)
    assume "b \<noteq> - 1"
    show False
    proof (cases "b = 1")
      case True
      with assms show False by (simp add: signed_divide_int_def mult_sgn_abs)
    next
      case False
      with \<open>b \<noteq> - 1\<close> assms(3) have "2 \<le> \<bar>b\<bar>" by linarith
      have "\<bar>a\<bar> div \<bar>b\<bar> \<le> \<bar>a\<bar> div 2" using \<open>2 \<le> \<bar>b\<bar>\<close> by (intro zdiv_mono2) simp_all
      also have "\<dots> \<le> M" using assms(1,2,5) by linarith
      finally have "\<bar>a\<bar> div \<bar>b\<bar> \<le> M" .
      moreover have "0 \<le> \<bar>a\<bar> div \<bar>b\<bar>" using \<open>2 \<le> \<bar>b\<bar>\<close> by (simp add: pos_imp_zdiv_nonneg_iff)
      moreover have "a sdiv b = \<bar>a\<bar> div \<bar>b\<bar> \<or> a sdiv b = - (\<bar>a\<bar> div \<bar>b\<bar>) \<or> a sdiv b = 0"
        by (simp add: signed_divide_int_def sgn_if)
      ultimately show False using assms(4,5) by linarith
    qed
  qed
  then have "a sdiv b = - a" by (simp add: signed_divide_int_def sgn_if)
  with assms b1 show ?thesis by simp
qed

lemma i64_div_panics: "in_i64 a \<Longrightarrow> b \<noteq> 0 \<Longrightarrow> i64_div a b = Panic \<or> i64_rem a b = Panic \<Longrightarrow> a = i64_min \<and> b = - 1"
  using sdiv_overflow [of i64_max a b] by (auto simp: i64_div_def i64_rem_def int_bounds split: if_splits)

lemma i128_div_panics: "in_i128 a \<Longrightarrow> b \<noteq> 0 \<Longrightarrow> i128_div a b = Panic \<Longrightarrow> a = i128_min \<and> b = - 1"
  using sdiv_overflow [of i128_max a b] by (auto simp: i128_div_def int_bounds split: if_splits)

definition min_by_minus_one :: "string \<Rightarrow> val list \<Rightarrow> bool" where
  "min_by_minus_one name args \<longleftrightarrow> arg_i64 args 1 = Some (- 1) \<and>
     ((name = ''DIV'' \<or> name = ''MOD'') \<and> arg_i64 args 0 = Some i64_min \<or>
      (name = ''DIV_TIME'' \<or> name = ''DIVTIME'') \<and> arg_time args 0 = Some i128_min)"

lemma div_leaf:
  assumes "args_ok args" "arg_i64 args 0 = Some a" "arg_i64 args 1 = Some b" "b \<noteq> 0" "name = ''DIV'' \<or> name = ''MOD''"
  shows "panic_only (min_by_minus_one name args) (i64_div a b)"
    "panic_only (min_by_minus_one name args) (i64_rem a b)"
  using i64_div_panics [OF arg_i64_range [OF assms(1,2)] assms(4)] assms(2,3,5)
  by (auto simp: panic_only_def min_by_minus_one_def)

lemma div_no_panic:
  assumes "args_ok args" "name = ''DIV'' \<or> name = ''MOD''"
  shows "panic_only (min_by_minus_one name args) (eval_div args)"
    "panic_only (min_by_minus_one name args) (eval_mod args)"
  unfolding eval_div_def eval_mod_def
  by (intro panic_intros div_leaf [OF assms(1) _ _ _ assms(2)]; assumption)+

lemma div_time_no_panic:
  assumes "args_ok args" "name \<in> {''DIV_TIME'', ''DIVTIME''}"
  shows "panic_only (min_by_minus_one name args)
    (otry (arg_i64 args 1) (\<lambda>divisor. if divisor = 0 then Ret None else time_scale i128_div args))"
proof (intro panic_only_otry panic_only_if panic_only_simps)
  fix b
  assume b: "arg_i64 args 1 = Some b" "b \<noteq> 0"
  show "panic_only (min_by_minus_one name args) (time_scale i128_div args)"
    unfolding time_scale_def
  proof (intro panic_only_otry panic_only_omap)
    fix t c
    assume "arg_time args 0 = Some t" "arg_i64 args 1 = Some c"
    with b assms(2) i128_div_panics [OF arg_time_range [OF assms(1)], of 0 t b]
    show "panic_only (min_by_minus_one name args) (i128_div t c)"
      by (auto simp: panic_only_def min_by_minus_one_def)
  qed
qed

lemma named_no_panic:
  assumes "args_ok args"
  shows "panic_only (min_by_minus_one name args) (eval_named_function lm False name args)"
  unfolding eval_named_function_def
  by (intro panic_intros div_no_panic [OF assms] div_time_no_panic [OF assms]; simp)

text \<open>C29: In a release build a standard function panics in one case only: \<open>DIV\<close> or \<open>MOD\<close> of the
  smallest integer by -1, and \<open>DIV_TIME\<close> of the smallest duration by -1. Every other call on
  well-formed arguments returns.\<close>

theorem release_panics_only_on_min_by_minus_one:
  assumes "list_all value_ok args" and "eval_standard_function lm False name args = Panic"
  shows "min_by_minus_one (canonical_identifier name) args"
proof -
  have a: "args_ok args" using assms(1) by (simp add: args_ok_def)
  have "panic_only (min_by_minus_one (canonical_identifier name) args) (eval_standard_function lm False name args)"
    unfolding eval_standard_function_def Let_def by (intro panic_intros named_no_panic [OF a])
  with assms(2) show ?thesis by (simp add: panic_only_def)
qed

theorem release_panics_only_on_min_by_minus_one_witness:
  "min_by_minus_one ''DIV'' [VInt (- 9223372036854775808), VInt (- 1)]"
proof -
  have "eval_standard_function demo_libm False ''DIV'' [VInt (- 9223372036854775808), VInt (- 1)] = Panic"
    "canonical_identifier ''DIV'' = ''DIV''"
    by code_simp+
  then show ?thesis
    using release_panics_only_on_min_by_minus_one
      [of "[VInt (- 9223372036854775808), VInt (- 1)]" demo_libm "''DIV''"]
    by (simp add: int_bounds)
qed

section \<open>Division with remainder\<close>

text \<open>C37: On integers, except for a zero divisor (no result) and the smallest integer by -1,
  \<open>DIV\<close> and \<open>MOD\<close> are division with remainder towards zero.\<close>

theorem div_mod_law:
  assumes "in_i64 a" and "in_i64 b" and "b \<noteq> 0" and "a \<noteq> i64_min \<or> b \<noteq> - 1"
  shows "\<exists>q r. eval_div [VInt a, VInt b] = Ret (Some (VInt q)) \<and>
    eval_mod [VInt a, VInt b] = Ret (Some (VInt r)) \<and>
    a = q * b + r \<and> \<bar>r\<bar> < \<bar>b\<bar> \<and> (r = 0 \<or> sgn r = sgn a)"
proof -
  have "i64_div a b \<noteq> Panic" "i64_rem a b \<noteq> Panic" using i64_div_panics assms by blast+
  then have d: "i64_div a b = Ret (a sdiv b)" "i64_rem a b = Ret (a smod b)"
    by (auto simp: i64_div_def i64_rem_def split: if_splits)
  define m where "m = \<bar>a\<bar> mod \<bar>b\<bar>"
  have m: "0 \<le> m" "m < \<bar>b\<bar>" "a = 0 \<Longrightarrow> m = 0"
    using assms(3) by (simp_all add: m_def)
  have r: "a smod b = sgn a * m"
    by (simp add: signed_modulo_int_def m_def)
  have "\<bar>a smod b\<bar> < \<bar>b\<bar>" "a smod b = 0 \<or> sgn (a smod b) = sgn a"
    using m by (auto simp: r sgn_if split: if_splits)
  moreover have "a = a sdiv b * b + a smod b" by (simp add: sdiv_mult_smod_eq)
  moreover have "eval_div [VInt a, VInt b] = Ret (Some (VInt (a sdiv b)))"
    "eval_mod [VInt a, VInt b] = Ret (Some (VInt (a smod b)))"
    using assms(3) d by (simp_all add: eval_div_def eval_mod_def is_real_def arg_i64_def arg_def as_i64_def)
  ultimately show ?thesis by blast
qed

theorem div_mod_law_witness:
  "\<exists>q r. eval_div [VInt (- 7), VInt 2] = Ret (Some (VInt q)) \<and>
    eval_mod [VInt (- 7), VInt 2] = Ret (Some (VInt r)) \<and>
    - 7 = q * 2 + r \<and> \<bar>r\<bar> < \<bar>2\<bar> \<and> (r = 0 \<or> sgn r = sgn (- 7))"
  by (rule div_mod_law) (simp_all add: int_bounds)

section \<open>Shifts and rotations\<close>

lemma register_back: "in_i64 v \<Longrightarrow> sint (word_of_int v :: 64 word) = v"
  by (simp add: int_bounds signed_of_int signed_take_bit_int_eq_self)

text \<open>A rotation by any non-negative count is undone by the rotation the other way.\<close>

theorem rotate_and_back:
  assumes "in_i64 v" and "0 \<le> n"
  shows "\<exists>r. bit_rotate [VInt v, VInt n] False = Some (VInt r) \<and>
    bit_rotate [VInt r, VInt n] True = Some (VInt v)"
  using assms by (simp add: bit_rotate_def arg_i64_def arg_def as_i64_def Let_def register_back)

theorem rotate_and_back_witness:
  "\<exists>r. bit_rotate [VInt (- 5), VInt 70] False = Some (VInt r) \<and>
    bit_rotate [VInt r, VInt 70] True = Some (VInt (- 5))"
  by (rule rotate_and_back) (simp_all add: int_bounds)

text \<open>C38: A left shift by fewer than 64 places multiplies by the power of two in 64 bits and a
  right shift fills with zeros, but the count is cut to 32 bits before it is compared with 64,
  so that a shift by \<open>2 ^ 32 + n\<close> places shifts by \<open>n\<close> instead of giving 0.\<close>

theorem shift_laws:
  assumes "in_i64 v" and "0 \<le> n" and "n < 64"
  shows "bit_shift [VInt v, VInt n] False = Some (VInt (wrap_i64 (v * 2 ^ nat n))) \<and>
    bit_shift [VInt v, VInt n] True = Some (VInt (wrap_i64 (wrap_u64 v div 2 ^ nat n))) \<and>
    bit_shift [VInt v, VInt (n + 4294967296)] right = bit_shift [VInt v, VInt n] right"
proof -
  have s: "sint (word_of_int k :: 64 word) = wrap_i64 k" for k
  proof -
    have "sint (word_of_int k :: 64 word) = sint (word_of_int (wrap_i64 k) :: 64 word)"
    proof (rule arg_cong [of _ _ sint])
      have "(wrap_i64 k - k) mod 2 ^ 64 = 0" using wrap_i64_cong [of k] by simp
      then have "k mod 2 ^ 64 = wrap_i64 k mod 2 ^ 64" by (metis mod_eq_dvd_iff mod_0_imp_dvd)
      then show "word_of_int k = (word_of_int (wrap_i64 k) :: 64 word)"
        by (simp add: word_of_int_eq_iff take_bit_eq_mod)
    qed
    then show ?thesis by (simp add: register_back)
  qed
  have w: "wrap_u32 n = n" "wrap_u32 (n + 4294967296) = n"
    using assms(2,3) by (simp_all add: wrap_u32_def)
  have l: "push_bit (nat n) (word_of_int v :: 64 word) = word_of_int (v * 2 ^ nat n)"
    by (simp add: push_bit_eq_mult)
  have r: "drop_bit (nat n) (word_of_int v :: 64 word) = word_of_int (wrap_u64 v div 2 ^ nat n)"
  proof (rule word_uint_eqI)
    have nn: "0 \<le> wrap_u64 v div 2 ^ nat n" "wrap_u64 v div 2 ^ nat n \<le> wrap_u64 v"
      using zdiv_mono2 [of "wrap_u64 v" 1 "2 ^ nat n"] by (simp_all add: wrap_u64_def pos_imp_zdiv_nonneg_iff)
    moreover have "wrap_u64 v < 2 ^ 64" by (simp add: wrap_u64_def)
    ultimately have tb: "take_bit 64 (wrap_u64 v div 2 ^ nat n) = wrap_u64 v div 2 ^ nat n"
      by (intro take_bit_int_eq_self) simp_all
    moreover have "uint (drop_bit (nat n) (word_of_int v :: 64 word)) = drop_bit (nat n) (take_bit 64 v)"
      by (subst unsigned_drop_bit_eq) (simp add: unsigned_of_int)
    moreover have "drop_bit (nat n) (take_bit 64 v) = wrap_u64 v div 2 ^ nat n"
      by (simp add: drop_bit_eq_div take_bit_eq_mod wrap_u64_def)
    ultimately show "uint (drop_bit (nat n) (word_of_int v :: 64 word)) = uint (word_of_int (wrap_u64 v div 2 ^ nat n) :: 64 word)"
      using nn(1) by (simp add: unsigned_of_int)
  qed
  have "sint (push_bit (nat n) (word_of_int v :: 64 word)) = wrap_i64 (v * 2 ^ nat n)"
    "sint (drop_bit (nat n) (word_of_int v :: 64 word)) = wrap_i64 (wrap_u64 v div 2 ^ nat n)"
    by (simp_all only: l r s)
  then show ?thesis
    using assms by (simp add: bit_shift_def arg_i64_def arg_def as_i64_def Let_def w)
qed

theorem shift_laws_witness:
  "bit_shift [VInt 3, VInt 4294967298] False = Some (VInt 12)"
  using shift_laws [of 3 2 False] by (simp add: int_bounds wrap_i64_def)

section \<open>Strings\<close>

lemma insert_chars_eq: "i \<le> length cs \<Longrightarrow> insert_chars i xs cs = take i cs @ xs @ drop i cs"
proof (induction xs arbitrary: i cs)
  case (Cons x xs)
  have "insert_chars (i + 1) xs (take i cs @ x # drop i cs) = take i cs @ x # xs @ drop i cs"
    using Cons.prems by (subst Cons.IH) simp_all
  then show ?case by simp
qed simp

lemma delete_chars_eq:
  "a \<le> b \<Longrightarrow> map snd (filter (\<lambda>(i, c). \<not> (i \<ge> a \<and> i < b)) (enumerate n cs)) = take (a - n) cs @ drop (b - n) cs"
proof (induction cs arbitrary: n)
  case (Cons c cs)
  from Cons.IH [OF Cons.prems, of "Suc n"] Cons.prems show ?case
    by (cases "n < a"; cases "n < b") (simp_all add: Suc_diff_Suc [symmetric] take_Cons' drop_Cons')
qed simp

lemma chars_ok_cut:
  assumes "chars_ok cs" "i \<le> j"
  shows "chars_ok (take i cs @ drop j cs)"
proof (cases "i = 0 \<or> drop j cs = []")
  case True
  with assms(1) show ?thesis by auto
next
  case False
  with assms(2) have "j < length cs" "0 < j" by auto
  then have "hd (drop j cs) \<in> set (tl cs)"
    by (cases cs; cases j) (simp_all add: hd_drop_conv_nth)
  with assms(1) show ?thesis
    by (intro chars_ok_append chars_ok_take chars_ok_drop) (simp_all add: chars_ok_def)
qed

lemma args_simps:
  "arg_string [VString s] 0 = Some s" "arg_string [VString s, x] 0 = Some s" "arg_string [VString s, x, y] 0 = Some s"
  "arg_string [VString s, x, y, z] 0 = Some s" "arg_string [x, VString s, y] (Suc 0) = Some s"
  "arg [x, y] 0 = Some x" "arg [x, y, z] 0 = Some x"
  by (simp_all add: arg_string_def arg_def value_string_def)

lemma count_simps:
  "0 \<le> n \<Longrightarrow> arg_count [x, VInt n] (Suc 0) = Some (nat n)"
  "0 \<le> n \<Longrightarrow> arg_count [x, VInt n, y] (Suc 0) = Some (nat n)"
  "0 \<le> n \<Longrightarrow> arg_position [x, y, VInt n] 2 = Some (nat n)"
  by (simp_all add: arg_count_def arg_position_def arg_def string_count_arg_def string_position_arg_def as_i64_def)

lemma like_string [simp]: "string_like_result (VString t) s = VString s"
  by (simp add: string_like_result_def is_wstring_def)

text \<open>\<open>LEFT\<close> and \<open>RIGHT\<close> cut a string into two parts that give it back: for a length up to
  the number of characters, the left part has that many characters and \<open>CONCAT\<close> of it and
  the right part of the remaining length is the string.\<close>

theorem left_right_concat:
  assumes "n \<le> length (chars s)"
  shows "\<exists>l r. string_left [VString s, VInt (int n)] = Some (VString l) \<and>
    string_right [VString s, VInt (int (length (chars s) - n))] = Some (VString r) \<and>
    length (chars l) = n \<and> string_concat [VString l, VString r] = Some (VString s)"
proof -
  let ?l = "concat (take n (chars s))" and ?r = "concat (drop n (chars s))"
  have "string_left [VString s, VInt (int n)] = Some (VString ?l)"
    using assms by (simp add: string_left_def args_simps count_simps)
  moreover have "string_right [VString s, VInt (int (length (chars s) - n))] = Some (VString ?r)"
    using assms by (simp add: string_right_def args_simps count_simps Let_def nat_diff_distrib')
  moreover have "length (chars ?l) = n" using assms by (simp add: chars_concat)
  moreover have "?l @ ?r = s" by (simp flip: concat_append)
  ultimately show ?thesis by (simp add: string_concat_def value_string_def is_wstring_def)
qed

theorem left_right_concat_witness:
  "\<exists>l r. string_left [VString ''robot'', VInt (int 2)] = Some (VString l) \<and>
    string_right [VString ''robot'', VInt (int (length (chars ''robot'') - 2))] = Some (VString r) \<and>
    length (chars l) = 2 \<and> string_concat [VString l, VString r] = Some (VString ''robot'')"
proof (rule left_right_concat)
  show "2 \<le> length (chars ''robot'')" by code_simp
qed

text \<open>C36: \<open>DELETE\<close> of a valid range removes exactly the characters that \<open>MID\<close> of the range
  returns, \<open>INSERT\<close> of them at the same place gives the string back, and \<open>REPLACE\<close> of the
  range puts the new text in their place.\<close>

theorem string_edit_laws:
  assumes "1 \<le> p" and "p - 1 + len \<le> length (chars s)" and "p \<le> length (chars s)"
  shows "\<exists>m d. string_mid [VString s, VInt (int len), VInt (int p)] = Some (VString m) \<and>
    string_delete [VString s, VInt (int len), VInt (int p)] = Some (VString d) \<and>
    length (chars m) = len \<and> length (chars d) + len = length (chars s) \<and>
    string_insert [VString d, VString m, VInt (int (p - 1))] = Some (VString s) \<and>
    string_replace [VString s, VString t, VInt (int len), VInt (int p)] =
      Some (VString (concat (take (p - 1) (chars s)) @ t @ concat (drop (p - 1 + len) (chars s))))"
proof -
  define cs where "cs = chars s"
  define dcs where "dcs = take (p - 1) cs @ drop (p - 1 + len) cs"
  let ?m = "concat (take len (drop (p - 1) cs))" and ?d = "concat dcs"
  have ok: "chars_ok cs" by (simp add: cs_def)
  have d: "chars ?d = dcs" unfolding dcs_def by (intro chars_concat chars_ok_cut ok) simp
  have m: "chars ?m = take len (drop (p - 1) cs)" by (intro chars_concat) (simp add: ok)
  have del: "string_delete [VString s, VInt (int len), VInt (int p)] = Some (VString ?d)"
    using assms delete_chars_eq [OF le_add1, of "p - 1" len 0 cs]
    by (simp add: string_delete_def args_simps count_simps Let_def cs_def dcs_def)
  moreover have "string_mid [VString s, VInt (int len), VInt (int p)] = Some (VString ?m)"
    using assms by (simp add: string_mid_def args_simps count_simps Let_def cs_def)
  moreover have "length (chars ?m) = len" "length (chars ?d) + len = length (chars s)"
    using assms unfolding d m by (simp_all add: dcs_def cs_def)
  moreover have ins: "string_insert [VString ?d, VString x, VInt (int (p - 1))] =
      Some (VString (concat (take (p - 1) cs) @ x @ concat (drop (p - 1 + len) cs)))" for x
    using assms
    by (simp add: string_insert_def args_simps count_simps Let_def d insert_chars_eq nat_diff_distrib')
      (simp add: dcs_def cs_def)
  moreover have "concat (take (p - 1) cs) @ ?m @ concat (drop (p - 1 + len) cs) = s"
  proof -
    have "take (p - 1) cs @ take len (drop (p - 1) cs) @ drop (p - 1 + len) cs = cs"
      by (metis add.commute append_take_drop_id drop_drop)
    then have "concat (take (p - 1) cs @ take len (drop (p - 1) cs) @ drop (p - 1 + len) cs) = s"
      by (simp add: cs_def)
    then show ?thesis by simp
  qed
  moreover have "string_replace [VString s, VString t, VInt (int len), VInt (int p)] =
      Some (VString (concat (take (p - 1) cs) @ t @ concat (drop (p - 1 + len) cs)))"
    using assms del ins [of t]
    by (simp add: string_replace_def arg_i64_def arg_def as_i64_def value_string_def of_nat_diff)
  ultimately show ?thesis by (intro exI [of _ ?m] exI [of _ ?d]) (simp add: cs_def)
qed

theorem string_edit_laws_witness:
  "string_replace [VString ''ABCDE'', VString ''X'', VInt (int 2), VInt (int 3)] = Some (VString ''ABXE'')"
proof -
  have "3 - 1 + 2 \<le> length (chars ''ABCDE'')" "3 \<le> length (chars ''ABCDE'')"
    "concat (take (3 - 1) (chars ''ABCDE'')) @ ''X'' @ concat (drop (3 - 1 + 2) (chars ''ABCDE'')) = ''ABXE''"
    by code_simp+
  then show ?thesis using string_edit_laws [of 3 2 "''ABCDE''" "''X''"] by auto
qed

section \<open>Surprises\<close>

text \<open>A code with a digit above 9 is not rejected by \<open>BCD_TO_INT\<close>: when the decoder refuses a
  value, the name is tried as a plain conversion to \<open>INT\<close>, which returns the undecoded value
  if it is in the range of an \<open>INT\<close>.\<close>

theorem invalid_bcd_passes_through:
  assumes "bcd_to_int v None = None" and "- 32768 \<le> v" and "v \<le> 32767"
  shows "eval_standard_function lm oc ''BCD_TO_INT'' [VInt v] = Ret (Some (VInt v))"
proof -
  have c: "canonical_identifier ''BCD_TO_INT'' = ''BCD_TO_INT''"
    "split_once_str ''_TO_'' ''BCD_TO_INT'' = Some (''BCD'', ''INT'')"
    by code_simp+
  show ?thesis
    using assms
    by (simp add: eval_standard_function_def c eval_bcd_conversion_function_def eval_conversion_function_def
        arg_i64_def arg_def as_i64_def value_to_i64_def integer_targets_def conversion_target_integer_range_def)
qed

theorem invalid_bcd_passes_through_witness:
  "eval_standard_function demo_libm False ''BCD_TO_INT'' [VInt 26] = Ret (Some (VInt 26))"
proof (rule invalid_bcd_passes_through)
  show "bcd_to_int 26 None = None" by code_simp
qed simp_all

text \<open>\<open>EQ\<close> of an infinite real with itself is false and \<open>GT\<close> is true, since the difference is
  not a number; a value that is not a number is greater than every other.\<close>

theorem infinite_reals_compare:
  "compare_chain (\<lambda>r. r = 0) [VReal (Inf s), VReal (Inf s)] = Some (VBool False) \<and>
   compare_chain (\<lambda>r. r > 0) [VReal (Inf s), VReal (Inf s)] = Some (VBool True) \<and>
   compare_chain (\<lambda>r. r > 0) [VReal NaN, VReal x] = Some (VBool True)"
  by (cases s; cases x) (simp_all add: compare_chain_def compare_values_def value_string_def as_f64_def f64_sub_def
      f64_neg_def f64_abs_def f64_epsilon_def)

text \<open>With overflow checks \<open>CONCAT_DATE\<close> panics on a month far out of range, which is not a
  valid date and should give no result: the day number is computed before the date is tested.\<close>

theorem concat_date_panics_on_invalid_month:
  "\<not> valid_date 2024 i64_max 1 \<and> concat_date True [VInt 2024, VInt i64_max, VInt 1] = Panic \<and>
   concat_date False [VInt 2024, VInt i64_max, VInt 1] = Ret None"
  by code_simp

end
