(* ===== verification/IrProgram.thy ===== *)
theory IrProgram
  imports Ir BTree "HOL-Library.List_Lexorder" "HOL-Library.Char_ord"
begin

text \<open>
  Statements, program organisation units, sequential function charts, configurations and
  projects of the intermediate representation (\<open>iec_ir/src/lib.rs\<close>), with the functions
  that look them up.
\<close>

section \<open>Statements\<close>

datatype il_op =
    IlLd | IlLdn | IlSt | IlStn | IlS | IlR
  | IlAnd | IlAndn | IlOr | IlOrn | IlXor | IlXorn | IlNot
  | IlAdd | IlSub | IlMul | IlDiv | IlMod
  | IlGt | IlGe | IlEq | IlNe | IlLe | IlLt
  | IlJmp | IlJmpc | IlJmpcn | IlCal | IlCalc | IlCalcn | IlRet | IlRetc | IlRetcn

datatype case_label =
    SingleLabel expr
  | RangeLabel expr expr

datatype statement =
    EmptyS
  | AssignmentS variable_ref expr
  | FbCallS variable_ref "param_assignment list"
  | IfS "(expr \<times> statement list) list" "statement list"
  | CaseS expr "(case_label list \<times> statement list) list" "statement list"
  | ForS ident expr expr "expr option" "statement list"
  | WhileS expr "statement list"
  | RepeatS "statement list" expr
  | IlInstrS il_op "expr option"
  | IlLabelS ident
  | ExitS
  | ReturnS
  | UnsupportedS string

section \<open>Sequential function charts\<close>

datatype sfc_step_kind = PlainStep | MacroStep

record sfc_action_association =
  assoc_name :: ident
  assoc_qualifier :: "sfc_action_qualifier option"
  assoc_duration :: "literal option"

record sfc_step =
  step_name :: ident
  step_initial :: bool
  step_kind :: sfc_step_kind
  step_actions :: "sfc_action_association list"

record sfc_transition =
  trans_name :: "ident option"
  trans_from :: "ident list"
  trans_to :: "ident list"
  trans_condition :: "expr option"
  trans_priority :: "int option"

record sfc_action =
  action_name :: ident
  action_qualifier :: sfc_action_qualifier
  action_duration :: "literal option"
  action_body :: "statement list"

record sfc =
  sfc_steps :: "sfc_step list"
  sfc_transitions :: "sfc_transition list"
  sfc_actions :: "sfc_action list"

section \<open>Program organisation units\<close>

datatype pou_kind =
    FunctionKind data_type_spec
  | FunctionBlockKind
  | ProgramKind

datatype implementation_language =
    StructuredText | InstructionList | SequentialFunctionChart
  | LadderDiagram | FunctionBlockDiagram | ExternalLanguage

datatype var_block_kind =
    VarLocal | VarInput | VarOutput | VarInOut | VarExternal | VarGlobal | VarTemp | VarAccess | VarConfig

datatype retain_kind = Retain | NonRetain

datatype edge_qualifier = RisingEdge | FallingEdge

record access_spec =
  access_path :: string
  access_dir :: access_direction

record var_decl =
  var_name :: ident
  var_location :: "string option"
  var_access :: "access_spec option"
  var_edge :: "edge_qualifier option"
  var_type :: data_type_spec
  var_initial :: "expr option"

record var_block =
  vb_kind :: var_block_kind
  vb_constant :: bool
  vb_retain :: "retain_kind option"
  vb_vars :: "var_decl list"

record network_node =
  node_id :: string
  node_kind :: string
  node_attributes :: "(string, string) bmap"

record network =
  net_label :: "string option"
  net_language :: implementation_language
  net_nodes :: "network_node list"

record pou_body =
  body_language :: implementation_language
  body_statements :: "statement list"
  body_networks :: "network list"
  body_sfc :: "sfc option"

definition structured_text :: "statement list \<Rightarrow> pou_body" where
  "structured_text statements =
     \<lparr> body_language = StructuredText, body_statements = statements, body_networks = [], body_sfc = None \<rparr>"

record pou =
  pou_name :: ident
  pou_kind :: pou_kind
  pou_var_blocks :: "var_block list"
  pou_body :: pou_body

definition variable_declarations :: "pou \<Rightarrow> var_decl list" where
  "variable_declarations p = concat (map vb_vars (pou_var_blocks p))"

definition is_function :: "pou \<Rightarrow> bool" where
  "is_function p = (case pou_kind p of FunctionKind _ \<Rightarrow> True | _ \<Rightarrow> False)"

section \<open>Configurations and projects\<close>

record data_type_declaration =
  dt_name :: ident
  dt_spec :: data_type_spec

record task =
  task_name :: ident
  task_single :: "expr option"
  task_interval :: "expr option"
  task_prio :: "expr option"

record program_instance =
  inst_name :: ident
  inst_program :: ident
  inst_task :: "ident option"
  inst_args :: "param_assignment list"

record resource =
  res_name :: ident
  res_var_blocks :: "var_block list"
  res_tasks :: "task list"
  res_instances :: "program_instance list"

record configuration =
  conf_name :: ident
  conf_var_blocks :: "var_block list"
  conf_resources :: "resource list"

datatype library_element =
    DataTypeElement data_type_declaration
  | PouElement pou
  | ConfigurationElement configuration

datatype edition_profile = Strict2003 | PlusExtensions2003 | Placeholder2013 | Placeholder2025

record project =
  prj_profile :: edition_profile
  prj_elements :: "library_element list"
  prj_metadata :: "(string, string) bmap"

definition project_new :: "edition_profile \<Rightarrow> project" where
  "project_new profile = \<lparr> prj_profile = profile, prj_elements = [], prj_metadata = [] \<rparr>"

definition pous :: "project \<Rightarrow> pou list" where
  "pous p = List.map_filter (\<lambda>e. case e of PouElement u \<Rightarrow> Some u | _ \<Rightarrow> None) (prj_elements p)"

definition data_types :: "project \<Rightarrow> data_type_declaration list" where
  "data_types p =
     List.map_filter (\<lambda>e. case e of DataTypeElement d \<Rightarrow> Some d | _ \<Rightarrow> None) (prj_elements p)"

definition configurations :: "project \<Rightarrow> configuration list" where
  "configurations p =
     List.map_filter (\<lambda>e. case e of ConfigurationElement c \<Rightarrow> Some c | _ \<Rightarrow> None) (prj_elements p)"

definition find_pou :: "project \<Rightarrow> string \<Rightarrow> pou option" where
  "find_pou p name = List.find (\<lambda>u. canonical (pou_name u) = canonical_identifier name) (pous p)"

definition first_program :: "project \<Rightarrow> pou option" where
  "first_program p = List.find (\<lambda>u. pou_kind u = ProgramKind) (pous p)"

definition element_name :: "library_element \<Rightarrow> ident" where
  "element_name e = (case e of
       DataTypeElement d \<Rightarrow> dt_name d
     | PouElement u \<Rightarrow> pou_name u
     | ConfigurationElement c \<Rightarrow> conf_name c)"

text \<open>The first data type of a name.\<close>

definition find_data_type :: "project \<Rightarrow> string \<Rightarrow> data_type_declaration option" where
  "find_data_type p name = List.find (\<lambda>d. canonical (dt_name d) = name) (data_types p)"

end
