(* ===== verification/RtSupport.thy ===== *)
theory RtSupport
  imports StdTyping IrProgram
begin

text \<open>
  The helpers of the interpreter (\<open>iec_runtime/src/support.rs\<close>): the values of literals,
  the reading of typed literals, names of stored fields, the fields of function blocks,
  the inputs of chart actions, comparison of values. Where the source repeats a function of
  \<open>iec_stdlib\<close> word for word, the definition here names that function.
\<close>

section \<open>Control flow and text\<close>

datatype control = Continue | Exit | Return | Jump string

definition truncate_chars :: "string \<Rightarrow> nat \<Rightarrow> string" where
  "truncate_chars s n =
     (if length (chars s) \<le> n then s else concat (take n (chars s)))"

section \<open>Types by name\<close>

text \<open>\<open>resolve_project_spec\<close> follows type names until a type that is not a name, a name
  without declaration, or a name already seen.\<close>

lemma find_data_type_name:
  "find_data_type p n = Some d \<Longrightarrow> n \<in> set (map (\<lambda>d. canonical (dt_name d)) (data_types p))"
  by (force simp: find_data_type_def find_Some_iff in_set_conv_nth)

definition unseen_types :: "project \<Rightarrow> string list \<Rightarrow> nat" where
  "unseen_types p seen = card (set (map (\<lambda>d. canonical (dt_name d)) (data_types p)) - set seen)"

lemma unseen_types_less:
  assumes "n \<notin> set seen" and "find_data_type p n = Some d"
  shows "unseen_types p (n # seen) < unseen_types p seen"
proof -
  have "n \<in> set (map (\<lambda>d. canonical (dt_name d)) (data_types p)) - set seen"
    using assms find_data_type_name by blast
  then show ?thesis
    unfolding unseen_types_def by (intro psubset_card_mono) auto
qed

function resolve_project_spec_inner ::
    "project \<Rightarrow> data_type_spec \<Rightarrow> string list \<Rightarrow> data_type_spec" where
  "resolve_project_spec_inner p spec seen =
     (case spec of
        DtNamed name \<Rightarrow>
          (if canonical name \<in> set seen then spec
           else case find_data_type p (canonical name) of
                  None \<Rightarrow> spec
                | Some d \<Rightarrow> resolve_project_spec_inner p (dt_spec d) (canonical name # seen))
      | _ \<Rightarrow> spec)"
  by pat_completeness auto
termination
  by (relation "measure (\<lambda>(p, _, seen). unseen_types p seen)") (simp_all add: unseen_types_less)

declare resolve_project_spec_inner.simps [simp del]

definition resolve_project_spec :: "project \<Rightarrow> data_type_spec \<Rightarrow> data_type_spec" where
  "resolve_project_spec p spec = resolve_project_spec_inner p spec []"

definition position :: "string \<Rightarrow> ident list \<Rightarrow> nat option" where
  "position name ids = map_option fst (List.find (\<lambda>(i, x). canonical x = name) (enumerate 0 ids))"

definition enum_ordinal_name :: "project \<Rightarrow> string \<Rightarrow> int option" where
  "enum_ordinal_name p name =
     (case List.map_filter (\<lambda>d. case dt_spec d of DtEnum values \<Rightarrow> position name values | _ \<Rightarrow> None)
             (data_types p) of
        [] \<Rightarrow> None
      | i # _ \<Rightarrow> Some (wrap_i64 (int i)))"

definition enum_ordinal_typed :: "project \<Rightarrow> ident \<Rightarrow> string \<Rightarrow> int option" where
  "enum_ordinal_typed p type_name value_name =
     (case List.map_filter (\<lambda>d.
             if canonical (dt_name d) \<noteq> canonical type_name then None
             else case dt_spec d of
                    DtEnum values \<Rightarrow> position (canonical_identifier value_name) values
                  | _ \<Rightarrow> None)
             (data_types p) of
        [] \<Rightarrow> None
      | i # _ \<Rightarrow> Some (wrap_i64 (int i)))"

definition enum_ordinal_expr :: "project \<Rightarrow> expr \<Rightarrow> int option" where
  "enum_ordinal_expr p e = (case e of
       LiteralE (LTyped type_name value) \<Rightarrow> enum_ordinal_typed p type_name value
     | VariableE v \<Rightarrow>
         (if vr_direct v \<noteq> None \<or> length (vr_path v) \<noteq> 1 \<or> list_ex (\<lambda>ixs. ixs \<noteq> []) (vr_indices v)
          then None
          else Option.bind (root_name v) (\<lambda>r. enum_ordinal_name p (canonical r)))
     | _ \<Rightarrow> None)"

section \<open>Typed literals\<close>

definition parse_typed_bool :: "string \<Rightarrow> bool option" where
  "parse_typed_bool value = (let c = canonical_identifier value in
     if c = ''TRUE'' \<or> c = ''1'' then Some True
     else if c = ''FALSE'' \<or> c = ''0'' then Some False
     else None)"

definition without_underscores :: "string \<Rightarrow> string" where
  "without_underscores = filter (\<lambda>c. c \<noteq> CHR ''_'')"

definition f64_is_finite :: "f64 \<Rightarrow> bool" where
  "f64_is_finite x = (case x of Fin _ _ _ \<Rightarrow> True | _ \<Rightarrow> False)"

definition parse_typed_real :: "string \<Rightarrow> f64 option" where
  "parse_typed_real value =
     Option.bind (parse_f64 (without_underscores (trim value))) (\<lambda>x.
       if f64_is_finite x then Some x else None)"

fun double_underscore :: "string \<Rightarrow> bool" where
  "double_underscore (a # b # s) \<longleftrightarrow>
     a = CHR ''_'' \<and> b = CHR ''_'' \<or> double_underscore (b # s)"
| "double_underscore _ \<longleftrightarrow> False"

definition underscores_inside :: "string \<Rightarrow> bool" where
  "underscores_inside raw \<longleftrightarrow>
     raw \<noteq> [] \<and> hd raw \<noteq> CHR ''_'' \<and> last raw \<noteq> CHR ''_'' \<and> \<not> double_underscore raw"

definition valid_integer_underscore_placement :: "string \<Rightarrow> bool" where
  "valid_integer_underscore_placement raw = underscores_inside (without_prefix ''-'' ''+'' raw)"

definition typed_literal_i128 :: "string \<Rightarrow> int option" where
  "typed_literal_i128 value =
     (case split_once (CHR ''#'') value of
        Some (base, digits) \<Rightarrow>
          Option.bind (let b = canonical_identifier base in
              if b = ''2'' then Some 2 else if b = ''8'' then Some 8
              else if b = ''16'' then Some 16 else None) (\<lambda>radix.
            if \<not> valid_integer_underscore_placement digits then None
            else from_str_radix_signed radix i128_min i128_max (without_underscores digits))
      | None \<Rightarrow>
          (let v = trim value in
           if \<not> valid_integer_underscore_placement v then None
           else parse_i128 (without_underscores v)))"

definition valid_decimal_component :: "string \<Rightarrow> bool" where
  "valid_decimal_component raw \<longleftrightarrow>
     underscores_inside raw \<and>
     list_all (\<lambda>c. c = CHR ''.'' \<or> is_ascii_digit c \<or> c = CHR ''_'') raw \<and>
     length (filter (\<lambda>c. c = CHR ''.'') raw) \<le> 1 \<and>
     list_ex is_ascii_digit raw"

text \<open>The unit after a number: factor, length, rank and the bound that a component which
  is not alone has to stay below.\<close>

definition duration_component :: "string \<Rightarrow> (int \<times> nat \<times> nat \<times> int option) option" where
  "duration_component rest =
     (if starts_with rest ''ms'' then Some (1, 2, 1, Some 1000)
      else if starts_with rest ''d'' then Some (86400000, 1, 5, None)
      else if starts_with rest ''h'' then Some (3600000, 1, 4, Some 24)
      else if starts_with rest ''m'' then Some (60000, 1, 3, Some 60)
      else if starts_with rest ''s'' then Some (1000, 1, 2, Some 60)
      else None)"

definition f64_ge :: "f64 \<Rightarrow> f64 \<Rightarrow> bool" where
  "f64_ge x y \<longleftrightarrow> x \<noteq> NaN \<and> y \<noteq> NaN \<and> \<not> f64_lt x y"

text \<open>\<open>f64::round\<close>: to the nearest integer, halves away from zero.\<close>

definition f64_round :: "f64 \<Rightarrow> f64" where
  "f64_round x = (case x of
       Fin s m e \<Rightarrow>
         (if 0 \<le> e then x
          else round_ratio s ((m + 2 ^ (nat (- e) - 1)) div 2 ^ nat (- e)) 1)
     | _ \<Rightarrow> x)"

lemma duration_component_pos: "duration_component rest = Some (f, k, r, b) \<Longrightarrow> 0 < k"
  by (auto simp: duration_component_def split: if_splits)

function duration_components :: "string \<Rightarrow> f64 \<Rightarrow> nat \<Rightarrow> bool \<Rightarrow> (f64 \<times> bool) option" where
  "duration_components rest total_ms previous_rank saw =
     (if rest = [] then Some (total_ms, saw)
      else
        let number_text = takeWhile is_number_char rest in
        if number_text = [] \<or> \<not> valid_decimal_component number_text then None
        else case parse_f64 number_text of
          None \<Rightarrow> None
        | Some number \<Rightarrow>
            (let rest' = dropWhile is_number_char rest in
             case duration_component rest' of
               None \<Rightarrow> None
             | Some (factor, consumed, rank, bound) \<Rightarrow>
                 (let has_more = drop consumed rest' \<noteq> [] in
                  if rank \<ge> previous_rank then None
                  else if has_more \<and> CHR ''.'' \<in> set number_text then None
                  else if (has_more \<or> previous_rank \<noteq> 6) \<and>
                      (case bound of None \<Rightarrow> False | Some b \<Rightarrow> f64_ge number (f64_of_int b)) then None
                  else duration_components (drop consumed rest')
                         (f64_add total_ms (f64_mul number (f64_of_int factor))) rank True)))"
  by pat_completeness auto
termination
proof (relation "measure (\<lambda>(rest, _). length rest)", goal_cases)
  case (2 rest total_ms previous_rank saw number_text number rest' c factor y consumed z rank bound has_more)
  have "length (dropWhile is_number_char rest) < length rest"
    using 2 by (cases rest) (auto simp: length_dropWhile_le le_imp_less_Suc split: if_splits)
  then show ?case using 2 by simp
qed simp

declare duration_components.simps [simp del]

definition parse_duration_ms_checked :: "string \<Rightarrow> int option" where
  "parse_duration_ms_checked raw =
     (let text = to_ascii_lowercase (without_underscores raw);
          neg = starts_with text ''-'';
          rest = (if neg then drop 1 text else text)
      in if rest = [] then None
         else Option.bind (duration_components rest (f64_of_int 0) 6 False) (\<lambda>(total_ms, saw).
           if saw then Some ((if neg then - 1 else 1) * f64_to_i128 (f64_round total_ms)) else None))"

section \<open>Dates in literals\<close>

text \<open>\<open>days_in_month\<close>, \<open>days_from_civil\<close>, \<open>parse_time_of_day_ms\<close> and \<open>parse_date_time_ms\<close>
  are the text of the functions of the same names in \<open>iec_stdlib\<close>.\<close>

definition rt_days_in_month :: "int \<Rightarrow> int \<Rightarrow> int" where
  "rt_days_in_month = days_in_month"

definition rt_days_from_civil :: "bool \<Rightarrow> int \<Rightarrow> int \<Rightarrow> int \<Rightarrow> int outcome" where
  "rt_days_from_civil = days_from_civil"

definition rt_parse_time_of_day_ms :: "string \<Rightarrow> int option" where
  "rt_parse_time_of_day_ms = parse_time_of_day_ms"

definition rt_parse_date_days :: "bool \<Rightarrow> string \<Rightarrow> int option outcome" where
  "rt_parse_date_days oc input =
     (case split_at (CHR ''-'') input of
        y # rest \<Rightarrow> otry (parse_i64 y) (\<lambda>year.
          case rest of [] \<Rightarrow> Ret None
          | m # rest \<Rightarrow> otry (parse_i64 m) (\<lambda>month.
              case rest of [] \<Rightarrow> Ret None
              | d # rest \<Rightarrow> otry (parse_i64 d) (\<lambda>day.
                  if rest \<noteq> [] \<or> \<not> (1 \<le> month \<and> month \<le> 12) \<or>
                     \<not> (1 \<le> day \<and> day \<le> rt_days_in_month year month) then Ret None
                  else omap Some (rt_days_from_civil oc year month day))))
      | [] \<Rightarrow> Ret None)"

definition rt_parse_date_time_ms :: "bool \<Rightarrow> string \<Rightarrow> int option outcome" where
  "rt_parse_date_time_ms oc input =
     (if length input < 11 then Ret None
      else otry (get_to input 10) (\<lambda>date_text.
        obind (rt_parse_date_days oc date_text) (\<lambda>parsed. otry parsed (\<lambda>date.
          let separator = input ! 10 in
          if separator \<noteq> CHR ''-'' \<and> separator \<noteq> CHR ''T'' \<and> separator \<noteq> CHR ''t'' then Ret None
          else otry (get_from input 11) (\<lambda>rest.
            otry (rt_parse_time_of_day_ms rest) (\<lambda>tod. Ret (Some (date * 86400000 + tod))))))))"

lemma rt_parse_date_days_eq: "rt_parse_date_days = parse_date_days"
  by (auto simp: fun_eq_iff rt_parse_date_days_def parse_date_days_def rt_days_in_month_def
      rt_days_from_civil_def valid_date_def otry_def split: list.splits option.splits)

lemma rt_parse_date_time_ms_eq: "rt_parse_date_time_ms = parse_date_time_ms"
  unfolding fun_eq_iff rt_parse_date_time_ms_def parse_date_time_ms_def rt_parse_date_days_eq
    rt_parse_time_of_day_ms_def by simp

text \<open>\<open>civil_from_days\<close> of the interpreter computes in \<open>i128\<close> and rounds the quotients
  down (\<open>div_euclid\<close>) where \<open>iec_stdlib\<close> truncates them.\<close>

definition rt_civil_from_days :: "bool \<Rightarrow> int \<Rightarrow> (int \<times> int \<times> int) outcome" where
  "rt_civil_from_days oc days =
     obind (i128_arith oc (days + 719468)) (\<lambda>z.
     obind (if z \<ge> 0 then Ret z else i128_arith oc (z - 146096)) (\<lambda>shifted.
     let era = shifted div 146097 in
     obind (i128_arith oc (era * 146097)) (\<lambda>era_days.
     obind (i128_arith oc (z - era_days)) (\<lambda>doe.
     let yoe = (doe - doe sdiv 1460 + doe sdiv 36524 - doe sdiv 146096) div 365;
         year = yoe + era * 400;
         doy = doe - (365 * yoe + yoe sdiv 4 - yoe sdiv 100);
         month_prime = (5 * doy + 2) div 153;
         day = doy - (153 * month_prime + 2) div 5 + 1;
         month = month_prime + (if month_prime < 10 then 3 else - 9);
         year = year + (if month \<le> 2 then 1 else 0)
     in Ret (wrap_i64 year, wrap_i64 month, wrap_i64 day)))))"

definition tod_parts :: "int \<Rightarrow> int \<times> int \<times> int \<times> int" where
  "tod_parts t =
     (let ms = t mod 86400000;
          hour = ms sdiv 3600000;
          minute = (ms smod 3600000) sdiv 60000;
          second = (ms smod 60000) sdiv 1000;
          millisecond = ms smod 1000
      in (wrap_i64 hour, wrap_i64 minute, wrap_i64 second, wrap_i64 millisecond))"

section \<open>Values of literals\<close>

definition typed_literal_elementary_value ::
    "bool \<Rightarrow> elementary_type \<Rightarrow> string \<Rightarrow> val option outcome" where
  "typed_literal_elementary_value oc t value =
     (case t of
        EBool \<Rightarrow> Ret (map_option VBool (parse_typed_bool value))
      | EReal \<Rightarrow> Ret (map_option VReal (parse_typed_real value))
      | ELreal \<Rightarrow> Ret (map_option VReal (parse_typed_real value))
      | ETime \<Rightarrow>
          Ret (map_option VTimeMs
            (case typed_literal_i128 value of Some n \<Rightarrow> Some n | None \<Rightarrow> parse_duration_ms_checked value))
      | EDate \<Rightarrow> omap (map_option VTimeMs) (rt_parse_date_days oc value)
      | ETimeOfDay \<Rightarrow> Ret (map_option VTimeMs (rt_parse_time_of_day_ms value))
      | EDateAndTime \<Rightarrow> omap (map_option VTimeMs) (rt_parse_date_time_ms oc value)
      | EString \<Rightarrow> Ret (Some (VString value))
      | EWString \<Rightarrow> Ret (Some (VWString value))
      | _ \<Rightarrow> Ret (map_option VInt (Option.bind (typed_literal_i128 value) checked_i64)))"

function typed_literal_spec_value ::
    "bool \<Rightarrow> project \<Rightarrow> data_type_spec \<Rightarrow> string \<Rightarrow> string list \<Rightarrow> val option outcome" where
  "typed_literal_spec_value oc p spec value seen =
     (case resolve_project_spec p spec of
        DtElementary t \<Rightarrow> typed_literal_elementary_value oc t value
      | DtSubrange base r \<Rightarrow>
          Ret (map_option VInt (Option.bind (typed_literal_i128 value) checked_i64))
      | DtEnum values \<Rightarrow>
          Ret (map_option (\<lambda>i. VInt (wrap_i64 (int i))) (position (canonical_identifier value) values))
      | DtString wide len \<Rightarrow> Ret (Some (if wide then VWString value else VString value))
      | DtNamed name \<Rightarrow>
          (if canonical name \<in> set seen then Ret None
           else case find_data_type p (canonical name) of
                  None \<Rightarrow> Ret None
                | Some d \<Rightarrow>
                    typed_literal_spec_value oc p (dt_spec d) value (canonical name # seen))
      | DtArray _ _ \<Rightarrow> Ret None
      | DtStruct _ \<Rightarrow> Ret None)"
  by pat_completeness auto
termination
  by (relation "measure (\<lambda>(oc, p, _, _, seen). unseen_types p seen)")
    (simp_all add: unseen_types_less)

declare typed_literal_spec_value.simps [simp del]

definition typed_literal_value ::
    "bool \<Rightarrow> project \<Rightarrow> ident \<Rightarrow> string \<Rightarrow> val option outcome" where
  "typed_literal_value oc p type_name value =
     (case elementary_parse (original type_name) of
        Some t \<Rightarrow> typed_literal_elementary_value oc t value
      | None \<Rightarrow>
          otry (find_data_type p (canonical type_name)) (\<lambda>d.
            typed_literal_spec_value oc p (dt_spec d) value []))"

definition literal_to_value :: "bool \<Rightarrow> project \<Rightarrow> literal \<Rightarrow> val outcome" where
  "literal_to_value oc p l = (case l of
       LInt n \<Rightarrow> Ret (VInt n)
     | LReal x \<Rightarrow> Ret (VReal x)
     | LBool b \<Rightarrow> Ret (VBool b)
     | LString s \<Rightarrow> Ret (VString s)
     | LWString s \<Rightarrow> Ret (VWString s)
     | LDurationMs n \<Rightarrow> Ret (VTimeMs n)
     | LDate s \<Rightarrow> omap (\<lambda>d. VTimeMs (case d of Some n \<Rightarrow> n | None \<Rightarrow> 0)) (rt_parse_date_days oc s)
     | LTimeOfDay s \<Rightarrow>
         Ret (VTimeMs (case rt_parse_time_of_day_ms s of Some n \<Rightarrow> n | None \<Rightarrow> 0))
     | LDateAndTime s \<Rightarrow>
         omap (\<lambda>d. VTimeMs (case d of Some n \<Rightarrow> n | None \<Rightarrow> 0)) (rt_parse_date_time_ms oc s)
     | LTyped type_name s \<Rightarrow>
         omap (\<lambda>v. case v of Some x \<Rightarrow> x | None \<Rightarrow> VString s) (typed_literal_value oc p type_name s))"

section \<open>Arrays and integer ranges\<close>

text \<open>The extent of a dimension: the difference is computed in \<open>i64\<close>.\<close>

definition range_extent :: "bool \<Rightarrow> subrange \<Rightarrow> nat outcome" where
  "range_extent oc r =
     obind (i64_arith oc (sr_high r - sr_low r)) (\<lambda>d.
       omap (\<lambda>n. nat (max n 0)) (i64_arith oc (d + 1)))"

fun array_element_count_from :: "bool \<Rightarrow> nat \<Rightarrow> subrange list \<Rightarrow> nat outcome" where
  "array_element_count_from oc acc [] = Ret acc"
| "array_element_count_from oc acc (r # ranges) =
     obind (range_extent oc r) (\<lambda>n.
       array_element_count_from oc (min usize_max (acc * n)) ranges)"

definition array_element_count :: "bool \<Rightarrow> subrange list \<Rightarrow> nat outcome" where
  "array_element_count oc ranges = array_element_count_from oc 1 ranges"

definition elementary_integer_range :: "elementary_type \<Rightarrow> (string \<times> int \<times> int) option" where
  "elementary_integer_range t = (case t of
       ESint \<Rightarrow> Some (''SINT'', - 128, 127)
     | EUsint \<Rightarrow> Some (''USINT'', 0, 255)
     | EByte \<Rightarrow> Some (''BYTE'', 0, 255)
     | EInt \<Rightarrow> Some (''INT'', - 32768, 32767)
     | EUint \<Rightarrow> Some (''UINT'', 0, 65535)
     | EWord \<Rightarrow> Some (''WORD'', 0, 65535)
     | EDint \<Rightarrow> Some (''DINT'', - 2147483648, 2147483647)
     | EUdint \<Rightarrow> Some (''UDINT'', 0, 4294967295)
     | EDword \<Rightarrow> Some (''DWORD'', 0, 4294967295)
     | ELint \<Rightarrow> Some (''LINT'', i64_min, i64_max)
     | EUlint \<Rightarrow> Some (''ULINT'', 0, i64_max)
     | ELword \<Rightarrow> Some (''LWORD'', 0, i64_max)
     | _ \<Rightarrow> None)"

definition runtime_spec_label :: "data_type_spec \<Rightarrow> string" where
  "runtime_spec_label spec = (case spec of
       DtElementary t \<Rightarrow>
         (if t = EBool then ''BOOL''
          else if elementary_is_integer t then ''integer''
          else if t = EReal \<or> t = ELreal then ''REAL''
          else if t \<in> {EByte, EWord, EDword, ELword} then ''bit-string''
          else elementary_as_iec t)
     | DtString wide _ \<Rightarrow> (if wide then ''WSTRING'' else ''STRING'')
     | DtSubrange _ _ \<Rightarrow> ''subrange''
     | DtEnum _ \<Rightarrow> ''enumerated''
     | DtArray _ _ \<Rightarrow> ''array''
     | DtStruct _ \<Rightarrow> ''structure''
     | DtNamed _ \<Rightarrow> ''value'')"

definition runtime_value_label :: "val \<Rightarrow> string" where
  "runtime_value_label v = (case v of
       VBool _ \<Rightarrow> ''BOOL''
     | VInt _ \<Rightarrow> ''integer''
     | VReal _ \<Rightarrow> ''REAL''
     | VString _ \<Rightarrow> ''STRING''
     | VWString _ \<Rightarrow> ''WSTRING''
     | VTimeMs _ \<Rightarrow> ''TIME''
     | VArray _ \<Rightarrow> ''array''
     | VStruct _ \<Rightarrow> ''structure''
     | VUnit \<Rightarrow> ''unit'')"

section \<open>Names of stored fields\<close>

definition field_key :: "string \<Rightarrow> string \<Rightarrow> string" where
  "field_key inst field = canonical_identifier inst @ ''.'' @ canonical_identifier field"

definition edge_state_field_name :: "string \<Rightarrow> string" where
  "edge_state_field_name input_name = ''$EDGE_'' @ canonical_identifier input_name"

definition flattened_field_key :: "variable_ref \<Rightarrow> string option" where
  "flattened_field_key v =
     (if vr_direct v \<noteq> None \<or> length (vr_path v) < 2 \<or> list_ex (\<lambda>ixs. ixs \<noteq> []) (vr_indices v)
      then None
      else Some (join_strs ''.'' (map canonical (vr_path v))))"

definition il_label_operand :: "expr \<Rightarrow> ident option" where
  "il_label_operand e = (case e of
       VariableE v \<Rightarrow>
         (if vr_direct v \<noteq> None \<or> length (vr_path v) \<noteq> 1 then None else root_name v)
     | _ \<Rightarrow> None)"

definition is_implicit_en :: "ident \<Rightarrow> bool" where
  "is_implicit_en name \<longleftrightarrow> canonical name = ''EN''"

definition is_implicit_eno :: "ident \<Rightarrow> bool" where
  "is_implicit_eno name \<longleftrightarrow> canonical name = ''ENO''"

text \<open>\<open>arg.name.as_ref().is_some_and(is_implicit_en)\<close> and its output counterpart.\<close>

definition names_en :: "param_assignment \<Rightarrow> bool" where
  "names_en a \<longleftrightarrow> (case pa_name a of Some n \<Rightarrow> is_implicit_en n | None \<Rightarrow> False)"

definition names_eno :: "param_assignment \<Rightarrow> bool" where
  "names_eno a \<longleftrightarrow> (case pa_name a of Some n \<Rightarrow> is_implicit_eno n | None \<Rightarrow> False)"

section \<open>Fields of function blocks\<close>

record fb_field =
  fbf_name :: string
  fbf_spec :: data_type_spec

definition named_block_fields :: "string \<Rightarrow> (string \<times> elementary_type) list option" where
  "named_block_fields name =
     (if name \<in> {''SR'', ''RS''} then Some [(''Q1'', EBool)]
      else if name \<in> {''R_TRIG'', ''F_TRIG''} then Some [(''Q'', EBool), (''M'', EBool)]
      else if name = ''CTU'' then Some [(''Q'', EBool), (''CV'', EInt), (''_CU'', EBool)]
      else if name = ''CTD'' then Some [(''Q'', EBool), (''CV'', EInt), (''_CD'', EBool)]
      else if name = ''CTUD'' then
        Some [(''QU'', EBool), (''QD'', EBool), (''CV'', EInt), (''_CU'', EBool), (''_CD'', EBool)]
      else if name \<in> {''TON'', ''TOF'', ''TP''} then
        Some [(''Q'', EBool), (''ET'', ETime), (''_IN'', EBool), (''_RUN'', EBool)]
      else if is_communication_function_block name then
        Some [(''DONE'', EBool), (''NDR'', EBool), (''ERROR'', EBool), (''STATUS'', EInt)]
      else None)"

definition user_block_fields :: "pou \<Rightarrow> fb_field list" where
  "user_block_fields u =
     concat (map (\<lambda>d. \<lparr> fbf_name = canonical (var_name d), fbf_spec = var_type d \<rparr> #
         (if var_edge d \<noteq> None
          then [\<lparr> fbf_name = edge_state_field_name (canonical (var_name d)),
                  fbf_spec = DtElementary EBool \<rparr>]
          else [])) (variable_declarations u))"

definition find_function_block :: "project \<Rightarrow> string \<Rightarrow> pou option" where
  "find_function_block p name =
     (case find_pou p name of
        Some u \<Rightarrow> if pou_kind u = FunctionBlockKind then Some u else None
      | None \<Rightarrow> None)"

definition function_block_field_specs :: "project \<Rightarrow> data_type_spec \<Rightarrow> fb_field list option" where
  "function_block_field_specs p spec = (case spec of
       DtNamed type_name \<Rightarrow>
         (case named_block_fields (canonical type_name) of
            Some fs \<Rightarrow>
              Some (map (\<lambda>(n, t). \<lparr> fbf_name = n, fbf_spec = DtElementary t \<rparr>) fs)
          | None \<Rightarrow> map_option user_block_fields (find_function_block p (original type_name)))
     | _ \<Rightarrow> None)"

definition is_standard_function_block_type :: "string \<Rightarrow> bool" where
  "is_standard_function_block_type name \<longleftrightarrow>
     canonical_identifier name \<in>
       {''SR'', ''RS'', ''R_TRIG'', ''F_TRIG'', ''CTU'', ''CTD'', ''CTUD'', ''TON'', ''TOF'', ''TP''} \<or>
     is_communication_function_block name"

definition standard_function_block_output_names :: "string \<Rightarrow> string list" where
  "standard_function_block_output_names raw = (let name = canonical_identifier raw in
     if name \<in> {''SR'', ''RS''} then [''Q1'']
     else if name \<in> {''R_TRIG'', ''F_TRIG''} then [''Q'']
     else if name \<in> {''CTU'', ''CTD''} then [''Q'', ''CV'']
     else if name = ''CTUD'' then [''QU'', ''QD'', ''CV'']
     else if name \<in> {''TON'', ''TOF'', ''TP''} then [''Q'', ''ET'']
     else if is_communication_function_block name then [''DONE'', ''NDR'', ''ERROR'', ''STATUS'']
     else [])"

definition standard_function_block_input_names :: "string \<Rightarrow> string list" where
  "standard_function_block_input_names raw = (let name = canonical_identifier raw in
     if name = ''SR'' then [''S1'', ''R'']
     else if name = ''RS'' then [''S'', ''R1'']
     else if name \<in> {''R_TRIG'', ''F_TRIG''} then [''CLK'']
     else if name = ''CTU'' then [''CU'', ''R'', ''PV'']
     else if name = ''CTD'' then [''CD'', ''LD'', ''PV'']
     else if name = ''CTUD'' then [''CU'', ''CD'', ''R'', ''LD'', ''PV'']
     else if name \<in> {''TON'', ''TOF'', ''TP''} then [''IN'', ''PT'']
     else if is_communication_function_block name then [''REQ'', ''EN_R'', ''ID'', ''LEN'']
     else [])"

definition user_fb_input_target ::
    "(var_block_kind \<times> ident) list \<Rightarrow> param_assignment \<Rightarrow> nat \<Rightarrow>
     (var_block_kind \<times> ident) option \<times> nat" where
  "user_fb_input_target input_fields a positional_index =
     (if pa_output a \<or> names_en a then (None, positional_index)
      else case pa_name a of
        Some name \<Rightarrow>
          (List.find (\<lambda>(_, f). canonical f = canonical name) input_fields, positional_index)
      | None \<Rightarrow>
          (if positional_index < length input_fields then Some (input_fields ! positional_index) else None,
           positional_index + 1))"

definition user_fb_input_edge :: "pou \<Rightarrow> string \<Rightarrow> edge_qualifier option" where
  "user_fb_input_edge u input_name =
     (case List.find (\<lambda>d. canonical (var_name d) = input_name)
             (concat (map vb_vars (filter (\<lambda>b. vb_kind b = VarInput) (pou_var_blocks u)))) of
        Some d \<Rightarrow> var_edge d
      | None \<Rightarrow> None)"

section \<open>Inputs of a block\<close>

definition input_bool :: "(string, val) bmap \<Rightarrow> string \<Rightarrow> bool" where
  "input_bool inputs name =
     (case Option.bind (bt_get inputs (canonical_identifier name)) as_bool of
        Some b \<Rightarrow> b | None \<Rightarrow> False)"

definition input_i64 :: "(string, val) bmap \<Rightarrow> string \<Rightarrow> int" where
  "input_i64 inputs name =
     (case Option.bind (bt_get inputs (canonical_identifier name)) as_i64 of
        Some n \<Rightarrow> n | None \<Rightarrow> 0)"

definition time_value :: "val \<Rightarrow> int" where
  "time_value v = (case v of
       VTimeMs t \<Rightarrow> t
     | _ \<Rightarrow> (case as_i64 v of Some n \<Rightarrow> n | None \<Rightarrow> 0))"

definition input_time_ms :: "(string, val) bmap \<Rightarrow> string \<Rightarrow> int" where
  "input_time_ms inputs name =
     (case bt_get inputs (canonical_identifier name) of Some v \<Rightarrow> time_value v | None \<Rightarrow> 0)"

definition input_time_value :: "val \<Rightarrow> int" where
  "input_time_value v = time_value v"

section \<open>Arguments of the splitting functions\<close>

definition split_positional_args :: "param_assignment list \<Rightarrow> expr list" where
  "split_positional_args args =
     List.map_filter pa_expr (filter (\<lambda>a. \<not> pa_output a \<and> \<not> names_en a \<and> pa_name a = None) args)"

definition names :: "param_assignment \<Rightarrow> string \<Rightarrow> bool" where
  "names a name \<longleftrightarrow> (case pa_name a of Some n \<Rightarrow> canonical n = name | None \<Rightarrow> False)"

definition split_input_expr :: "param_assignment list \<Rightarrow> expr option" where
  "split_input_expr args =
     (case Option.bind (List.find (\<lambda>a. \<not> pa_output a \<and> names a ''IN'') args) pa_expr of
        Some e \<Rightarrow> Some e
      | None \<Rightarrow> (case split_positional_args args of [] \<Rightarrow> None | e # _ \<Rightarrow> Some e))"

definition split_formal_output :: "param_assignment list \<Rightarrow> string \<Rightarrow> variable_ref option" where
  "split_formal_output args output =
     Option.bind (List.find (\<lambda>a. pa_output a \<and> names a output) args) pa_variable"

definition split_output_variable ::
    "param_assignment list \<Rightarrow> string \<Rightarrow> nat \<Rightarrow> variable_ref option" where
  "split_output_variable args output positional_index =
     (case split_formal_output args output of
        Some v \<Rightarrow> Some v
      | None \<Rightarrow>
          (let positional = split_positional_args args in
           if positional_index + 1 < length positional
           then (case positional ! (positional_index + 1) of VariableE v \<Rightarrow> Some v | _ \<Rightarrow> None)
           else None))"

section \<open>Charts\<close>

definition sfc_step_key :: "ident \<Rightarrow> string" where
  "sfc_step_key step = ''$SFC_STEP_'' @ canonical step"

definition sfc_action_control_key :: "ident \<Rightarrow> string" where
  "sfc_action_control_key action = canonical action"

definition sfc_action_control_key_stored :: "string \<Rightarrow> string" where
  "sfc_action_control_key_stored key = ''$SFC_ACTION_'' @ key"

definition sfc_action_control_key_previous :: "string \<Rightarrow> string" where
  "sfc_action_control_key_previous key = ''$SFC_ACTION_PREVIOUS_'' @ key"

definition sfc_action_control_key_elapsed :: "string \<Rightarrow> string" where
  "sfc_action_control_key_elapsed key = ''$SFC_ACTION_ELAPSED_'' @ key"

definition sfc_action_duration_ms :: "literal option \<Rightarrow> int" where
  "sfc_action_duration_ms duration = (case duration of
       Some (LDurationMs n) \<Rightarrow> max n 0
     | Some (LInt n) \<Rightarrow> max n 0
     | _ \<Rightarrow> 0)"

definition sfc_transition_steps ::
    "sfc \<Rightarrow> sfc_transition \<Rightarrow> nat \<Rightarrow> (ident list \<times> ident list) option" where
  "sfc_transition_steps c t index =
     (if trans_from t \<noteq> [] \<or> trans_to t \<noteq> [] then
        (if trans_from t = [] \<or> trans_to t = [] then None else Some (trans_from t, trans_to t))
      else if index + 1 < length (sfc_steps c) then
        Some ([step_name (sfc_steps c ! index)], [step_name (sfc_steps c ! (index + 1))])
      else None)"

record sfc_action_input =
  ai_qualifier :: sfc_action_qualifier
  ai_duration :: "literal option"
  ai_active :: bool

definition sfc_action_inputs :: "sfc \<Rightarrow> sfc_action \<Rightarrow> string list \<Rightarrow> sfc_action_input list" where
  "sfc_action_inputs c action active_steps =
     (let inputs = concat (map (\<lambda>step.
            map (\<lambda>assoc. \<lparr> ai_qualifier = (case assoc_qualifier assoc of Some q \<Rightarrow> q
                                             | None \<Rightarrow> action_qualifier action),
                            ai_duration = (case assoc_duration assoc of Some d \<Rightarrow> Some d
                                            | None \<Rightarrow> action_duration action),
                            ai_active = (canonical (step_name step) \<in> set active_steps) \<rparr>)
              (filter (\<lambda>assoc. canonical (assoc_name assoc) = canonical (action_name action))
                (step_actions step)))
            (sfc_steps c))
      in if inputs = [] then
           [\<lparr> ai_qualifier = action_qualifier action, ai_duration = action_duration action,
              ai_active = (canonical (action_name action) \<in> set active_steps) \<rparr>]
         else inputs)"

section \<open>Comparison\<close>

definition bit_bool_binary ::
    "val \<Rightarrow> val \<Rightarrow> (int \<Rightarrow> int \<Rightarrow> int) \<Rightarrow> (bool \<Rightarrow> bool \<Rightarrow> bool) \<Rightarrow> val option" where
  "bit_bool_binary left right int_op bool_op =
     (if is_bool left \<and> is_bool right then
        Option.bind (as_bool left) (\<lambda>a. map_option (\<lambda>b. VBool (bool_op a b)) (as_bool right))
      else
        Option.bind (as_i64 left) (\<lambda>a. map_option (\<lambda>b. VInt (int_op a b)) (as_i64 right)))"

definition value_text :: "val \<Rightarrow> string option" where
  "value_text v = (case v of VString s \<Rightarrow> Some s | VWString s \<Rightarrow> Some s | _ \<Rightarrow> None)"

definition rt_compare_values :: "val \<Rightarrow> val \<Rightarrow> int option" where
  "rt_compare_values left right =
     (if value_text left \<noteq> None \<or> value_text right \<noteq> None then
        (let l = (case value_text left of Some s \<Rightarrow> s | None \<Rightarrow> display_value left);
             r = (case value_text right of Some s \<Rightarrow> s | None \<Rightarrow> display_value right)
         in Some (if l < r then - 1 else if l = r then 0 else 1))
      else
        Option.bind (as_f64 left) (\<lambda>l. Option.bind (as_f64 right) (\<lambda>r.
          if f64_lt (f64_abs (f64_sub l r)) f64_epsilon then Some 0
          else if f64_lt l r then Some (- 1)
          else Some 1)))"

text \<open>The interpreter compares as the standard functions do.\<close>

lemma rt_compare_values_eq: "rt_compare_values = compare_values"
proof -
  have "(case value_text v of Some s \<Rightarrow> s | None \<Rightarrow> display_value v) = value_to_string v" for v
    by (cases v) (simp_all add: value_text_def value_to_string_def)
  moreover have "value_text = value_string"
    by (simp add: fun_eq_iff value_text_def value_string_def)
  ultimately show ?thesis
    by (simp add: fun_eq_iff rt_compare_values_def compare_values_def)
qed

end
