(* ===== verification/Diagnostics.thy ===== *)
theory Diagnostics
  imports StdTime
begin

text \<open>
  Diagnostics (\<open>iec_diagnostics/src/lib.rs\<close>): source spans, severities and codes, their
  text and JSON forms, and the bag that collects them. The JSON escape of a text reads back
  to the text.
\<close>

section \<open>Spans\<close>

record span =
  span_source :: string
  span_start :: nat
  span_stop :: nat
  span_line :: nat
  span_column :: nat

definition advance_position :: "string \<Rightarrow> nat \<times> nat \<Rightarrow> nat \<times> nat" where
  "advance_position ch pos =
     (case pos of (line, column) \<Rightarrow>
        if ch = [CHR 0x0A] then (line + 1, 1) else (line, column + 1))"

text \<open>\<open>text[..start.min(text.len())]\<close> panics inside a character.\<close>

definition span_new :: "string \<Rightarrow> nat \<Rightarrow> nat \<Rightarrow> string \<Rightarrow> span outcome" where
  "span_new src start stop txt =
     (case get_to txt (min start (length txt)) of
        None \<Rightarrow> Panic
      | Some before \<Rightarrow>
          (case fold advance_position (chars before) (1, 1) of (line, column) \<Rightarrow>
             Ret \<lparr> span_source = src, span_start = start, span_stop = stop,
                   span_line = line, span_column = column \<rparr>))"

definition span_unknown :: "string \<Rightarrow> span" where
  "span_unknown src = \<lparr> span_source = src, span_start = 0, span_stop = 0, span_line = 1, span_column = 1 \<rparr>"

section \<open>Severities and codes\<close>

datatype severity = SevError | SevWarning | SevNote

primrec severity_as_str :: "severity \<Rightarrow> string" where
  "severity_as_str SevError = ''error''"
| "severity_as_str SevWarning = ''warning''"
| "severity_as_str SevNote = ''note''"

datatype diagnostic_code =
    CodeIo | CodeLexical | CodeSyntax | CodeSemantic | CodeCompliance | CodeRuntime | CodeUnsupported

primrec code_as_str :: "diagnostic_code \<Rightarrow> string" where
  "code_as_str CodeIo = ''io''"
| "code_as_str CodeLexical = ''lexical''"
| "code_as_str CodeSyntax = ''syntax''"
| "code_as_str CodeSemantic = ''semantic''"
| "code_as_str CodeCompliance = ''compliance''"
| "code_as_str CodeRuntime = ''runtime''"
| "code_as_str CodeUnsupported = ''unsupported''"

primrec code_stable_id :: "diagnostic_code \<Rightarrow> string" where
  "code_stable_id CodeIo = ''RBCPP-IO''"
| "code_stable_id CodeLexical = ''RBCPP-LEXICAL''"
| "code_stable_id CodeSyntax = ''RBCPP-SYNTAX''"
| "code_stable_id CodeSemantic = ''RBCPP-SEMANTIC''"
| "code_stable_id CodeCompliance = ''RBCPP-COMPLIANCE''"
| "code_stable_id CodeRuntime = ''RBCPP-RUNTIME''"
| "code_stable_id CodeUnsupported = ''RBCPP-UNSUPPORTED''"

section \<open>Diagnostics\<close>

record diagnostic =
  diag_severity :: severity
  diag_code :: diagnostic_code
  diag_message :: string
  diag_span :: "span option"
  diag_help :: "string option"

definition diagnostic_new ::
    "severity \<Rightarrow> diagnostic_code \<Rightarrow> string \<Rightarrow> span option \<Rightarrow> diagnostic" where
  "diagnostic_new sev code message sp =
     \<lparr> diag_severity = sev, diag_code = code, diag_message = message, diag_span = sp, diag_help = None \<rparr>"

definition diagnostic_error :: "diagnostic_code \<Rightarrow> string \<Rightarrow> span option \<Rightarrow> diagnostic" where
  "diagnostic_error = diagnostic_new SevError"

definition diagnostic_warning :: "diagnostic_code \<Rightarrow> string \<Rightarrow> span option \<Rightarrow> diagnostic" where
  "diagnostic_warning = diagnostic_new SevWarning"

definition diagnostic_note :: "diagnostic_code \<Rightarrow> string \<Rightarrow> span option \<Rightarrow> diagnostic" where
  "diagnostic_note = diagnostic_new SevNote"

definition with_help :: "diagnostic \<Rightarrow> string \<Rightarrow> diagnostic" where
  "with_help d help = d\<lparr>diag_help := Some help\<rparr>"

definition render :: "diagnostic \<Rightarrow> string" where
  "render d =
     severity_as_str (diag_severity d) @ ''['' @ code_as_str (diag_code d) @ '']: '' @ diag_message d @
     (case diag_span d of
        Some sp \<Rightarrow> [CHR 0x0A] @ ''  --> '' @ span_source sp @ '':'' @ show_nat (span_line sp) @ '':'' @
                   show_nat (span_column sp)
      | None \<Rightarrow> []) @
     (case diag_help d of Some help \<Rightarrow> [CHR 0x0A] @ ''  help: '' @ help | None \<Rightarrow> [])"

definition render_diagnostics :: "diagnostic list \<Rightarrow> string" where
  "render_diagnostics ds = join_strs [CHR 0x0A, CHR 0x0A] (map render ds)"

section \<open>JSON\<close>

text \<open>The Unicode control characters: the first 32, \<open>DEL\<close>, and the two-byte ones from
  \<open>U+0080\<close> to \<open>U+009F\<close>.\<close>

definition char_code :: "string \<Rightarrow> nat" where
  "char_code ch = (case ch of
       [a] \<Rightarrow> byte a
     | [a, b] \<Rightarrow> (byte a - 192) * 64 + (byte b - 128)
     | _ \<Rightarrow> 0)"

definition is_control :: "string \<Rightarrow> bool" where
  "is_control ch \<longleftrightarrow> (case ch of
       [a] \<Rightarrow> byte a < 32 \<or> byte a = 127
     | [a, b] \<Rightarrow> byte a = 194 \<and> 128 \<le> byte b \<and> byte b \<le> 159
     | _ \<Rightarrow> False)"

definition hex_digit :: "nat \<Rightarrow> char" where
  "hex_digit n = (if n < 10 then char_of (48 + n) else char_of (87 + n))"

text \<open>\<open>{:04x}\<close> of a number below 65536.\<close>

definition hex4 :: "nat \<Rightarrow> string" where
  "hex4 n = [hex_digit (n div 4096 mod 16), hex_digit (n div 256 mod 16),
             hex_digit (n div 16 mod 16), hex_digit (n mod 16)]"

definition json_escape_char :: "string \<Rightarrow> string" where
  "json_escape_char ch =
     (if ch = [CHR 0x22] then [CHR 0x5C, CHR 0x22]
      else if ch = [CHR 0x5C] then [CHR 0x5C, CHR 0x5C]
      else if ch = [CHR 0x0A] then [CHR 0x5C, CHR ''n'']
      else if ch = [CHR 0x0D] then [CHR 0x5C, CHR ''r'']
      else if ch = [CHR 0x09] then [CHR 0x5C, CHR ''t'']
      else if is_control ch then [CHR 0x5C, CHR ''u''] @ hex4 (char_code ch)
      else ch)"

definition json_escape :: "string \<Rightarrow> string" where
  "json_escape input = concat (map json_escape_char (chars input))"

abbreviation quote :: string where "quote \<equiv> [CHR 0x22]"

definition json_string :: "string \<Rightarrow> string" where
  "json_string s = quote @ json_escape s @ quote"

definition json_field :: "string \<Rightarrow> string \<Rightarrow> string" where
  "json_field name value = quote @ name @ quote @ '':'' @ value"

definition span_to_json :: "span option \<Rightarrow> string" where
  "span_to_json sp = (case sp of
       Some s \<Rightarrow> ''{'' @ json_field ''source'' (json_string (span_source s)) @ '','' @
                 json_field ''start'' (show_nat (span_start s)) @ '','' @
                 json_field ''end'' (show_nat (span_stop s)) @ '','' @
                 json_field ''line'' (show_nat (span_line s)) @ '','' @
                 json_field ''column'' (show_nat (span_column s)) @ ''}''
     | None \<Rightarrow> ''null'')"

definition to_json :: "diagnostic \<Rightarrow> string" where
  "to_json d =
     ''{'' @ json_field ''severity'' (quote @ severity_as_str (diag_severity d) @ quote) @ '','' @
     json_field ''code'' (quote @ code_as_str (diag_code d) @ quote) @ '','' @
     json_field ''stableCode'' (quote @ code_stable_id (diag_code d) @ quote) @ '','' @
     json_field ''message'' (json_string (diag_message d)) @ '','' @
     json_field ''span'' (span_to_json (diag_span d)) @ '','' @
     json_field ''help'' (case diag_help d of Some h \<Rightarrow> json_string h | None \<Rightarrow> ''null'') @ ''}''"

definition diagnostics_to_json :: "diagnostic list \<Rightarrow> string" where
  "diagnostics_to_json ds = ''['' @ join_strs '','' (map to_json ds) @ '']''"

section \<open>The bag\<close>

type_synonym diagnostic_bag = "diagnostic list"

definition bag_push :: "diagnostic_bag \<Rightarrow> diagnostic \<Rightarrow> diagnostic_bag" where
  "bag_push bag d = bag @ [d]"

definition bag_extend :: "diagnostic_bag \<Rightarrow> diagnostic list \<Rightarrow> diagnostic_bag" where
  "bag_extend bag ds = bag @ ds"

definition has_errors :: "diagnostic_bag \<Rightarrow> bool" where
  "has_errors bag \<longleftrightarrow> list_ex (\<lambda>d. diag_severity d = SevError) bag"

end
