(* ===== verification/RtMachine.thy ===== *)
theory RtMachine
  imports RtSupport Diagnostics
begin

text \<open>
  The state of the interpreter (\<open>Runtime\<close> of \<open>iec_runtime/src/runtime.rs\<close>, the options
  and hooks of \<open>iec_runtime/src/lib.rs\<close>) and the way its operations are written here.

  An operation takes the state and returns \<open>Done x s\<close> (its value and the new state),
  \<open>Crash\<close> (the code panics) or \<open>NoFuel\<close>. The operations of the interpreter call each other
  recursively through user functions and function blocks; each of them is a definition over
  a record \<open>calls\<close> of the recursive ones, and \<open>interp n\<close> (theory \<open>RtInterp\<close>) is the record
  whose calls may nest \<open>n\<close> deep. \<open>NoFuel\<close> is the result of a call below the last level.
\<close>

section \<open>State\<close>

record runtime_options =
  max_loop_iterations :: nat
  max_scan_cycles :: nat
  cycle_time_ms :: int
  warm_restart_before_cycles :: "nat list"

definition default_options :: runtime_options where
  "default_options = \<lparr> max_loop_iterations = 10000, max_scan_cycles = 10000, cycle_time_ms = 1,
     warm_restart_before_cycles = [] \<rparr>"

record communication_invocation =
  ci_block :: string
  ci_instance :: string
  ci_inputs :: "(string, val) bmap"

type_synonym communication_outcome = "(string, val) bmap"

text \<open>The hooks are a parameter of the program: an invocation has an outcome or none.\<close>

type_synonym communication_hooks = "communication_invocation \<Rightarrow> communication_outcome option"

definition no_communication_hooks :: communication_hooks where
  "no_communication_hooks invocation = None"

text \<open>What the program runs on: the build's overflow checks and the platform's
  transcendental functions.\<close>

record platform =
  overflow_checks :: bool
  math :: libm

record runtime =
  rt_project :: project
  rt_program :: pou
  rt_env :: "(string, val) bmap"
  rt_types :: "(string, data_type_spec) bmap"
  rt_accumulator :: val
  rt_diagnostics :: "diagnostic list"
  rt_options :: runtime_options
  rt_call_depth :: nat
  rt_communication :: communication_hooks
  rt_platform :: platform

datatype startup_kind = Cold | Warm

section \<open>Operations\<close>

datatype 'a run = NoFuel | Crash | Done 'a runtime

type_synonym 'a rt = "runtime \<Rightarrow> 'a run"

definition ret :: "'a \<Rightarrow> 'a rt" where
  "ret x s = Done x s"

definition rbind :: "'a rt \<Rightarrow> ('a \<Rightarrow> 'b rt) \<Rightarrow> 'b rt" where
  "rbind m f s = (case m s of NoFuel \<Rightarrow> NoFuel | Crash \<Rightarrow> Crash | Done x s' \<Rightarrow> f x s')"

text \<open>\<open>?\<close> on an optional value, and \<open>let ... else\<close> with another way on.\<close>

definition rtry :: "'a option rt \<Rightarrow> ('a \<Rightarrow> 'b option rt) \<Rightarrow> 'b option rt" where
  "rtry m f = rbind m (\<lambda>x. case x of None \<Rightarrow> ret None | Some a \<Rightarrow> f a)"

definition rtry_opt :: "'a option \<Rightarrow> ('a \<Rightarrow> 'b option rt) \<Rightarrow> 'b option rt" where
  "rtry_opt x f = (case x of None \<Rightarrow> ret None | Some a \<Rightarrow> f a)"

definition rlift :: "'a outcome \<Rightarrow> 'a rt" where
  "rlift r s = (case r of Panic \<Rightarrow> Crash | Ret x \<Rightarrow> Done x s)"

definition rget :: "(runtime \<Rightarrow> 'a) \<Rightarrow> 'a rt" where
  "rget f s = Done (f s) s"

definition rmodify :: "(runtime \<Rightarrow> runtime) \<Rightarrow> unit rt" where
  "rmodify f s = Done () (f s)"

definition rseq :: "unit rt \<Rightarrow> 'a rt \<Rightarrow> 'a rt" where
  "rseq m n = rbind m (\<lambda>_. n)"

definition rmap :: "('a \<Rightarrow> 'b) \<Rightarrow> 'a rt \<Rightarrow> 'b rt" where
  "rmap f m = rbind m (\<lambda>x. ret (f x))"

text \<open>A loop over a list.\<close>

fun rfor :: "'a list \<Rightarrow> ('a \<Rightarrow> unit rt) \<Rightarrow> unit rt" where
  "rfor [] f = ret ()"
| "rfor (x # xs) f = rseq (f x) (rfor xs f)"

fun rfold :: "'a list \<Rightarrow> ('a \<Rightarrow> 'b \<Rightarrow> 'b rt) \<Rightarrow> 'b \<Rightarrow> 'b rt" where
  "rfold [] f acc = ret acc"
| "rfold (x # xs) f acc = rbind (f x acc) (rfold xs f)"

definition out_of_fuel :: "'a rt" where
  "out_of_fuel s = NoFuel"

lemmas rt_defs = ret_def rbind_def rtry_def rtry_opt_def rlift_def rget_def rmodify_def rseq_def rmap_def

lemma rbind_Done: "m s = Done x s' \<Longrightarrow> rbind m f s = f x s'"
  by (simp add: rbind_def)

lemma rbind_ret [simp]: "rbind (ret x) f = f x"
  by (simp add: rbind_def ret_def fun_eq_iff)

lemma rbind_get [simp]: "rbind (rget g) f s = f (g s) s"
  by (simp add: rbind_def rget_def)

lemma rbind_modify [simp]: "rbind (rmodify g) f s = f () (g s)"
  by (simp add: rbind_def rmodify_def)

lemma rseq_modify [simp]: "rseq (rmodify g) n s = n (g s)"
  by (simp add: rseq_def)

lemma rseq_ret [simp]: "rseq (ret ()) n = n"
  by (simp add: rseq_def)

lemma rbind_lift_Ret [simp]: "rbind (rlift (Ret x)) f = f x"
  by (simp add: rbind_def rlift_def fun_eq_iff)

lemma rbind_lift_Panic [simp]: "rbind (rlift Panic) f s = Crash"
  by (simp add: rbind_def rlift_def)

lemma rbind_assoc: "rbind (rbind m f) g = rbind m (\<lambda>x. rbind (f x) g)"
  by (auto simp: rbind_def fun_eq_iff split: run.splits)

lemma rbind_eq_Done:
  "rbind m f s = Done y s' \<longleftrightarrow> (\<exists>x s1. m s = Done x s1 \<and> f x s1 = Done y s')"
  by (auto simp: rbind_def split: run.splits)

lemma rbind_cong [fundef_cong]:
  "m = m' \<Longrightarrow> (\<And>x. f x = f' x) \<Longrightarrow> rbind m f = rbind m' f'"
  by (rule arg_cong2 [where f = rbind]) auto

section \<open>Small steps of the source\<close>

definition checked :: "runtime \<Rightarrow> bool" where
  "checked s = overflow_checks (rt_platform s)"

definition push :: "diagnostic \<Rightarrow> unit rt" where
  "push d = rmodify (\<lambda>s. s\<lparr>rt_diagnostics := rt_diagnostics s @ [d]\<rparr>)"

definition runtime_error :: "string \<Rightarrow> diagnostic" where
  "runtime_error msg = diagnostic_error CodeRuntime msg None"

definition unsupported :: "string \<Rightarrow> diagnostic" where
  "unsupported msg = diagnostic_warning CodeUnsupported msg None"

definition push_overflow :: "string \<Rightarrow> unit rt" where
  "push_overflow operation = push (runtime_error (''integer overflow during '' @ operation))"

definition env_insert :: "string \<Rightarrow> val \<Rightarrow> unit rt" where
  "env_insert k v = rmodify (\<lambda>s. s\<lparr>rt_env := bt_insert k v (rt_env s)\<rparr>)"

definition env_get :: "string \<Rightarrow> val option rt" where
  "env_get k = rget (\<lambda>s. bt_get (rt_env s) k)"

definition types_insert :: "string \<Rightarrow> data_type_spec \<Rightarrow> unit rt" where
  "types_insert k t = rmodify (\<lambda>s. s\<lparr>rt_types := bt_insert k t (rt_types s)\<rparr>)"

definition set_accumulator :: "val \<Rightarrow> unit rt" where
  "set_accumulator v = rmodify (\<lambda>s. s\<lparr>rt_accumulator := v\<rparr>)"

definition set_field :: "string \<Rightarrow> string \<Rightarrow> val \<Rightarrow> unit rt" where
  "set_field inst f v = env_insert (field_key inst f) v"

definition get_field_bool :: "string \<Rightarrow> string \<Rightarrow> bool rt" where
  "get_field_bool inst f = rget (\<lambda>s.
     case Option.bind (bt_get (rt_env s) (field_key inst f)) as_bool of Some b \<Rightarrow> b | None \<Rightarrow> False)"

definition get_field_i64 :: "string \<Rightarrow> string \<Rightarrow> int rt" where
  "get_field_i64 inst f = rget (\<lambda>s.
     case Option.bind (bt_get (rt_env s) (field_key inst f)) as_i64 of Some n \<Rightarrow> n | None \<Rightarrow> 0)"

definition get_field_time_ms :: "string \<Rightarrow> string \<Rightarrow> int rt" where
  "get_field_time_ms inst f = rget (\<lambda>s.
     case bt_get (rt_env s) (field_key inst f) of Some v \<Rightarrow> time_value v | None \<Rightarrow> 0)"

text \<open>Arithmetic that panics or wraps with the build.\<close>

definition add_i64 :: "int \<Rightarrow> int \<Rightarrow> int rt" where
  "add_i64 a b s = rlift (i64_arith (checked s) (a + b)) s"

definition add_i128 :: "int \<Rightarrow> int \<Rightarrow> int rt" where
  "add_i128 a b s = rlift (i128_arith (checked s) (a + b)) s"

definition resolve_named_spec :: "data_type_spec \<Rightarrow> data_type_spec rt" where
  "resolve_named_spec spec = rget (\<lambda>s. resolve_project_spec (rt_project s) spec)"

definition snapshot :: "runtime \<Rightarrow> (string \<times> val) list" where
  "snapshot s = rt_env s"

definition is_direct_location_key :: "string \<Rightarrow> bool" where
  "is_direct_location_key location \<longleftrightarrow> starts_with (trim_start location) ''%''"

definition sync_direct_state :: "(string, val) bmap \<Rightarrow> unit rt" where
  "sync_direct_state direct_state = rfor direct_state (\<lambda>(location, v). env_insert location v)"

definition export_direct_state :: "runtime \<Rightarrow> (string, val) bmap \<Rightarrow> (string, val) bmap" where
  "export_direct_state s direct_state =
     fold (\<lambda>(location, v). bt_insert location v)
       (filter (\<lambda>(location, v). is_direct_location_key location) (rt_env s)) direct_state"

end
