(* ===== verification/RtBlocks.thy ===== *)
theory RtBlocks
  imports RtMachine
begin

text \<open>
  The standard function blocks of the interpreter (\<open>iec_runtime/src/runtime.rs\<close>): bistables,
  edge detectors, counters and timers over the fields of an instance, the edge qualifier of
  an input, and the blocks that talk to the communication hooks.
\<close>

section \<open>Bistables and edges\<close>

definition execute_sr :: "string \<Rightarrow> (string, val) bmap \<Rightarrow> unit rt" where
  "execute_sr inst inputs =
     rbind (get_field_bool inst ''Q1'') (\<lambda>q.
       let s1 = input_bool inputs ''S1''; r = input_bool inputs ''R''
       in set_field inst ''Q1'' (VBool (s1 \<or> (q \<and> \<not> r))))"

definition execute_rs :: "string \<Rightarrow> (string, val) bmap \<Rightarrow> unit rt" where
  "execute_rs inst inputs =
     rbind (get_field_bool inst ''Q1'') (\<lambda>q.
       let s = input_bool inputs ''S''; r1 = input_bool inputs ''R1''
       in set_field inst ''Q1'' (VBool ((q \<or> s) \<and> \<not> r1)))"

definition execute_r_trig :: "string \<Rightarrow> (string, val) bmap \<Rightarrow> unit rt" where
  "execute_r_trig inst inputs =
     (let clk = input_bool inputs ''CLK'' in
      rbind (get_field_bool inst ''M'') (\<lambda>old.
        rseq (set_field inst ''Q'' (VBool (clk \<and> \<not> old)))
             (set_field inst ''M'' (VBool clk))))"

definition execute_f_trig :: "string \<Rightarrow> (string, val) bmap \<Rightarrow> unit rt" where
  "execute_f_trig inst inputs =
     (let clk = input_bool inputs ''CLK'' in
      rbind (get_field_bool inst ''M'') (\<lambda>old.
        rseq (set_field inst ''Q'' (VBool (\<not> clk \<and> old)))
             (set_field inst ''M'' (VBool clk))))"

definition edge_qualified_input_value ::
    "string \<Rightarrow> string \<Rightarrow> edge_qualifier \<Rightarrow> val \<Rightarrow> val rt" where
  "edge_qualified_input_value inst input_name edge v =
     (let current = (case as_bool v of Some b \<Rightarrow> b | None \<Rightarrow> False);
          edge_field = edge_state_field_name input_name
      in rbind (get_field_bool inst edge_field) (\<lambda>previous.
           rseq (set_field inst edge_field (VBool current))
             (ret (case edge of
                RisingEdge \<Rightarrow> VBool (current \<and> \<not> previous)
              | FallingEdge \<Rightarrow> VBool (\<not> current \<and> previous)))))"

section \<open>Counters\<close>

definition execute_ctu :: "string \<Rightarrow> (string, val) bmap \<Rightarrow> unit rt" where
  "execute_ctu inst inputs =
     rseq
       (if input_bool inputs ''R'' then set_field inst ''CV'' (VInt 0)
        else
          let cu = input_bool inputs ''CU'' in
          rbind (get_field_bool inst ''_CU'') (\<lambda>old_cu.
            rseq
              (if cu \<and> \<not> old_cu then
                 rbind (get_field_i64 inst ''CV'') (\<lambda>n. rbind (add_i64 n 1) (\<lambda>cv.
                   set_field inst ''CV'' (VInt cv)))
               else ret ())
              (set_field inst ''_CU'' (VBool cu))))
       (rbind (get_field_i64 inst ''CV'') (\<lambda>cv.
          let pv = input_i64 inputs ''PV'' in
          set_field inst ''Q'' (VBool (cv \<ge> pv))))"

definition execute_ctd :: "string \<Rightarrow> (string, val) bmap \<Rightarrow> unit rt" where
  "execute_ctd inst inputs =
     rseq
       (if input_bool inputs ''LD'' then set_field inst ''CV'' (VInt (input_i64 inputs ''PV''))
        else
          let cd = input_bool inputs ''CD'' in
          rbind (get_field_bool inst ''_CD'') (\<lambda>old_cd.
            rseq
              (if cd \<and> \<not> old_cd then
                 rbind (get_field_i64 inst ''CV'') (\<lambda>n. rbind (add_i64 n (- 1)) (\<lambda>cv.
                   set_field inst ''CV'' (VInt cv)))
               else ret ())
              (set_field inst ''_CD'' (VBool cd))))
       (rbind (get_field_i64 inst ''CV'') (\<lambda>cv. set_field inst ''Q'' (VBool (cv \<le> 0))))"

definition execute_ctud :: "string \<Rightarrow> (string, val) bmap \<Rightarrow> unit rt" where
  "execute_ctud inst inputs =
     rseq
       (if input_bool inputs ''R'' then set_field inst ''CV'' (VInt 0)
        else if input_bool inputs ''LD'' then set_field inst ''CV'' (VInt (input_i64 inputs ''PV''))
        else
          let cu = input_bool inputs ''CU''; cd = input_bool inputs ''CD'' in
          rbind (get_field_bool inst ''_CU'') (\<lambda>old_cu. rbind (get_field_bool inst ''_CD'') (\<lambda>old_cd.
          rbind (get_field_i64 inst ''CV'') (\<lambda>n.
            let cu_rising = cu \<and> \<not> old_cu; cd_rising = cd \<and> \<not> old_cd in
            rbind
              (if cu_rising \<and> \<not> cd_rising then add_i64 n 1
               else if cd_rising \<and> \<not> cu_rising then add_i64 n (- 1)
               else ret n) (\<lambda>cv.
            rseq (set_field inst ''CV'' (VInt cv))
              (rseq (set_field inst ''_CU'' (VBool cu)) (set_field inst ''_CD'' (VBool cd))))))))
       (rbind (get_field_i64 inst ''CV'') (\<lambda>cv.
          let pv = input_i64 inputs ''PV'' in
          rseq (set_field inst ''QU'' (VBool (cv \<ge> pv)))
               (set_field inst ''QD'' (VBool (cv \<le> 0)))))"

section \<open>Timers\<close>

text \<open>The time elapsed after one more cycle, held at the preset.\<close>

definition advance_elapsed :: "string \<Rightarrow> int \<Rightarrow> int rt" where
  "advance_elapsed inst preset =
     rbind (get_field_time_ms inst ''ET'') (\<lambda>et. rbind (rget (\<lambda>s. cycle_time_ms (rt_options s))) (\<lambda>ct.
       rmap (\<lambda>t. min t preset) (add_i128 et ct)))"

definition execute_ton :: "string \<Rightarrow> (string, val) bmap \<Rightarrow> unit rt" where
  "execute_ton inst inputs =
     (let input = input_bool inputs ''IN''; preset = max (input_time_ms inputs ''PT'') 0 in
      rseq
        (if \<not> input then
           rseq (set_field inst ''Q'' (VBool False)) (set_field inst ''ET'' (VTimeMs 0))
         else
           rbind (advance_elapsed inst preset) (\<lambda>elapsed.
             rseq (set_field inst ''ET'' (VTimeMs elapsed))
                  (set_field inst ''Q'' (VBool (elapsed \<ge> preset)))))
        (set_field inst ''_IN'' (VBool input)))"

definition execute_tof :: "string \<Rightarrow> (string, val) bmap \<Rightarrow> unit rt" where
  "execute_tof inst inputs =
     (let input = input_bool inputs ''IN''; preset = max (input_time_ms inputs ''PT'') 0 in
      rseq
        (if input then
           rseq (set_field inst ''Q'' (VBool True)) (set_field inst ''ET'' (VTimeMs 0))
         else
           rbind (get_field_bool inst ''Q'') (\<lambda>q.
             if q then
               rbind (advance_elapsed inst preset) (\<lambda>elapsed.
                 rseq (set_field inst ''ET'' (VTimeMs elapsed))
                   (if elapsed \<ge> preset then set_field inst ''Q'' (VBool False) else ret ()))
             else ret ()))
        (set_field inst ''_IN'' (VBool input)))"

definition execute_tp :: "string \<Rightarrow> (string, val) bmap \<Rightarrow> unit rt" where
  "execute_tp inst inputs =
     (let input = input_bool inputs ''IN''; preset = max (input_time_ms inputs ''PT'') 0 in
      rbind (get_field_bool inst ''_IN'') (\<lambda>old_input. rbind (get_field_bool inst ''_RUN'') (\<lambda>run.
      let starts = (input \<and> \<not> old_input \<and> \<not> run) in
      rseq
        (if starts then
           rseq (set_field inst ''ET'' (VTimeMs 0)) (set_field inst ''Q'' (VBool True))
         else ret ())
        (rbind
          (if run \<or> starts then
             rbind (advance_elapsed inst preset) (\<lambda>elapsed.
               rseq (set_field inst ''ET'' (VTimeMs elapsed))
                 (if elapsed \<ge> preset
                  then rseq (set_field inst ''Q'' (VBool False)) (ret False)
                  else rseq (set_field inst ''Q'' (VBool True)) (ret True)))
           else rseq (set_field inst ''Q'' (VBool False)) (ret False))
          (\<lambda>running.
            rseq (set_field inst ''_IN'' (VBool input)) (set_field inst ''_RUN'' (VBool running)))))))"

section \<open>Communication\<close>

definition initialize_communication_function_block_fields :: "string \<Rightarrow> unit rt" where
  "initialize_communication_function_block_fields inst =
     rseq (set_field inst ''DONE'' (VBool False))
       (rseq (set_field inst ''NDR'' (VBool False))
         (rseq (set_field inst ''ERROR'' (VBool False))
           (set_field inst ''STATUS'' (VInt 0))))"

definition execute_communication_function_block ::
    "string \<Rightarrow> ident \<Rightarrow> (string, val) bmap \<Rightarrow> bool rt" where
  "execute_communication_function_block inst type_name inputs =
     rbind (rget rt_communication) (\<lambda>hooks.
       case hooks \<lparr> ci_block = original type_name, ci_instance = inst, ci_inputs = inputs \<rparr> of
         Some outputs \<Rightarrow>
           rseq (rfor outputs (\<lambda>(f, v). set_field inst (canonical_identifier f) v)) (ret True)
       | None \<Rightarrow>
           rseq (set_field inst ''DONE'' (VBool False))
             (rseq (set_field inst ''NDR'' (VBool False))
               (rseq (set_field inst ''ERROR'' (VBool True))
                 (rseq (set_field inst ''STATUS'' (VInt (- 1)))
                   (rseq (push (unsupported (''communication function block '' @ [CHR 0x27] @
                        original type_name @ [CHR 0x27] @ '' requires a runtime communication hook'')))
                     (ret False))))))"

text \<open>The state a named block starts in.\<close>

definition initialize_named_block :: "string \<Rightarrow> string \<Rightarrow> unit rt option" where
  "initialize_named_block inst name =
     (let bools = (\<lambda>fs. rfor fs (\<lambda>f. set_field inst f (VBool False))) in
      if name \<in> {''SR'', ''RS''} then Some (bools [''Q1''])
      else if name \<in> {''R_TRIG'', ''F_TRIG''} then Some (bools [''Q'', ''M''])
      else if name = ''CTU'' then
        Some (rseq (bools [''Q'']) (rseq (set_field inst ''CV'' (VInt 0)) (bools [''_CU''])))
      else if name = ''CTD'' then
        Some (rseq (bools [''Q'']) (rseq (set_field inst ''CV'' (VInt 0)) (bools [''_CD''])))
      else if name = ''CTUD'' then
        Some (rseq (bools [''QU'', ''QD''])
          (rseq (set_field inst ''CV'' (VInt 0)) (bools [''_CU'', ''_CD''])))
      else if name \<in> {''TON'', ''TOF'', ''TP''} then
        Some (rseq (bools [''Q'']) (rseq (set_field inst ''ET'' (VTimeMs 0)) (bools [''_IN'', ''_RUN''])))
      else if is_communication_function_block name then
        Some (initialize_communication_function_block_fields inst)
      else None)"

text \<open>The blocks \<open>execute_fb_call\<close> runs itself.\<close>

definition execute_named_block :: "string \<Rightarrow> string \<Rightarrow> (string, val) bmap \<Rightarrow> unit rt option" where
  "execute_named_block name inst inputs =
     (if name = ''SR'' then Some (execute_sr inst inputs)
      else if name = ''RS'' then Some (execute_rs inst inputs)
      else if name = ''R_TRIG'' then Some (execute_r_trig inst inputs)
      else if name = ''F_TRIG'' then Some (execute_f_trig inst inputs)
      else if name = ''CTU'' then Some (execute_ctu inst inputs)
      else if name = ''CTD'' then Some (execute_ctd inst inputs)
      else if name = ''CTUD'' then Some (execute_ctud inst inputs)
      else if name = ''TON'' then Some (execute_ton inst inputs)
      else if name = ''TOF'' then Some (execute_tof inst inputs)
      else if name = ''TP'' then Some (execute_tp inst inputs)
      else None)"

end
