(* ===== verification/RtValues.thy ===== *)
theory RtValues
  imports RtBlocks
begin

text \<open>
  Variables of the interpreter (\<open>iec_runtime/src/runtime.rs\<close>): array offsets, reading a
  variable along its path and indices, writing it back into the stored value, the checks a
  stored value goes through, and the operators on values.
\<close>

unbundle bit_operations_syntax

abbreviation quoted :: "string \<Rightarrow> string" where
  "quoted s \<equiv> [CHR 0x27] @ s @ [CHR 0x27]"

section \<open>The recursive operations\<close>

record calls =
  c_eval :: "expr \<Rightarrow> val option rt"
  c_statements :: "statement list \<Rightarrow> control rt"
  c_block :: "statement list \<Rightarrow> control rt"
  c_initial :: "data_type_spec \<Rightarrow> expr option \<Rightarrow> val rt"
  c_default :: "data_type_spec \<Rightarrow> val rt"
  c_init_block :: "string \<Rightarrow> data_type_spec \<Rightarrow> unit rt"
  c_indices :: "val \<Rightarrow> data_type_spec \<Rightarrow> expr list \<Rightarrow> (val \<times> data_type_spec) option rt"
  c_assign_into :: "val \<Rightarrow> data_type_spec \<Rightarrow> variable_ref \<Rightarrow> nat \<Rightarrow> val \<Rightarrow> (bool \<times> val) rt"
  c_assign_indexed ::
    "val \<Rightarrow> data_type_spec \<Rightarrow> expr list \<Rightarrow> variable_ref \<Rightarrow> nat \<Rightarrow> val \<Rightarrow> (bool \<times> val) rt"
  c_constrain :: "data_type_spec \<Rightarrow> val \<Rightarrow> val rt"
  c_copy_into :: "runtime \<Rightarrow> string \<Rightarrow> string \<Rightarrow> data_type_spec \<Rightarrow> unit rt"
  c_copy_from :: "runtime \<Rightarrow> string \<Rightarrow> string \<Rightarrow> data_type_spec \<Rightarrow> unit rt"

section \<open>Arrays\<close>

definition add_usize :: "nat \<Rightarrow> nat \<Rightarrow> nat rt" where
  "add_usize a b s = rlift (usize_arith (checked s) (a + b)) s"

definition mul_usize :: "nat \<Rightarrow> nat \<Rightarrow> nat rt" where
  "mul_usize a b s = rlift (usize_arith (checked s) (a * b)) s"

definition extent_of :: "subrange \<Rightarrow> nat rt" where
  "extent_of r s = rlift (range_extent (checked s) r) s"

definition index_count_error :: "nat \<Rightarrow> nat \<Rightarrow> diagnostic" where
  "index_count_error expected got =
     runtime_error (''array access expects '' @ show_nat expected @ '' index value(s), got '' @ show_nat got)"

fun array_offset_loop :: "calls \<Rightarrow> (subrange \<times> expr) list \<Rightarrow> nat \<Rightarrow> nat \<Rightarrow> nat option rt" where
  "array_offset_loop c [] offset stride = ret (Some offset)"
| "array_offset_loop c ((r, e) # rest) offset stride =
     rtry (rmap (\<lambda>v. Option.bind v as_i64) (c_eval c e)) (\<lambda>index.
       if index < sr_low r \<or> index > sr_high r then
         rseq (push (runtime_error (''array index '' @ show_int index @ '' is outside subrange '' @
                show_int (sr_low r) @ ''..'' @ show_int (sr_high r))))
           (ret None)
       else
         rbind (add_i64 index (- sr_low r)) (\<lambda>d.
         rbind (mul_usize (as_usize d) stride) (\<lambda>step.
         rbind (add_usize offset step) (\<lambda>offset'.
         rbind (extent_of r) (\<lambda>n.
         rbind (mul_usize stride n) (\<lambda>stride'.
           array_offset_loop c rest offset' stride'))))))"

definition array_offset :: "calls \<Rightarrow> subrange list \<Rightarrow> expr list \<Rightarrow> nat option rt" where
  "array_offset c ranges indices =
     (if length ranges \<noteq> length indices then
        rseq (push (index_count_error (length ranges) (length indices))) (ret None)
      else array_offset_loop c (zip (rev ranges) (rev indices)) 0 1)"

text \<open>The turns of the loop of \<open>apply_indices_to_value\<close>.\<close>

definition apply_indices_loop ::
    "calls \<Rightarrow> val \<Rightarrow> data_type_spec \<Rightarrow> expr list \<Rightarrow> (val \<times> data_type_spec) option rt" where
  "apply_indices_loop c v current_spec remaining =
     (if remaining = [] then ret (Some (v, current_spec))
      else case current_spec of
        DtArray ranges element_type \<Rightarrow>
          (if length remaining < length ranges then
             rseq (push (index_count_error (length ranges) (length remaining))) (ret None)
           else
             rtry (array_offset c ranges (take (length ranges) remaining)) (\<lambda>offset.
               case v of
                 VArray elements \<Rightarrow>
                   (if offset < length elements then
                      rbind (resolve_named_spec element_type) (\<lambda>spec'.
                        c_indices c (elements ! offset) spec' (drop (length ranges) remaining))
                    else ret None)
               | _ \<Rightarrow> ret None))
      | _ \<Rightarrow> ret None)"

definition apply_indices_to_value ::
    "calls \<Rightarrow> val \<Rightarrow> data_type_spec \<Rightarrow> expr list \<Rightarrow> (val \<times> data_type_spec) option rt" where
  "apply_indices_to_value c v spec indices =
     (if indices = [] then ret (Some (v, spec))
      else rbind (resolve_named_spec spec) (\<lambda>current_spec. apply_indices_loop c v current_spec indices))"

section \<open>Reading a variable\<close>

definition indices_at :: "variable_ref \<Rightarrow> nat \<Rightarrow> expr list" where
  "indices_at v i = (if i < length (vr_indices v) then vr_indices v ! i else [])"

definition find_field :: "string \<Rightarrow> struct_field list \<Rightarrow> struct_field option" where
  "find_field name fs = List.find (\<lambda>f. canonical (sf_name f) = name) fs"

fun resolve_segments ::
    "calls \<Rightarrow> variable_ref \<Rightarrow> (nat \<times> ident) list \<Rightarrow> val \<Rightarrow> data_type_spec \<Rightarrow> val option rt" where
  "resolve_segments c variable [] v spec = ret (Some v)"
| "resolve_segments c variable ((segment_index, segment) # rest) v spec =
     rbind (resolve_named_spec spec) (\<lambda>resolved.
       case resolved of
         DtStruct fs \<Rightarrow>
           (case find_field (canonical segment) fs of
              None \<Rightarrow>
                rseq (push (runtime_error (''structure field '' @ quoted (original segment) @ '' does not exist'')))
                  (ret None)
            | Some f \<Rightarrow>
                (case v of
                   VStruct values \<Rightarrow>
                     rtry_opt (bt_get values (canonical segment)) (\<lambda>fv.
                       rtry (apply_indices_to_value c fv (sf_spec f) (indices_at variable segment_index))
                         (\<lambda>(v', spec'). resolve_segments c variable rest v' spec'))
                 | _ \<Rightarrow> ret None))
       | _ \<Rightarrow>
           rseq (push (runtime_error (quoted (display_variable variable) @ '' is not a structure'')))
             (ret None))"

definition resolve_stored :: "calls \<Rightarrow> variable_ref \<Rightarrow> ident \<Rightarrow> val option rt" where
  "resolve_stored c variable r =
     rbind (env_get (canonical r)) (\<lambda>stored.
       case stored of
         None \<Rightarrow>
           rseq (push (runtime_error (''variable '' @ quoted (display_variable variable) @
               '' has no runtime storage'')))
             (ret None)
       | Some v \<Rightarrow>
           rtry (rget (\<lambda>s. bt_get (rt_types s) (canonical r))) (\<lambda>spec.
             rtry (apply_indices_to_value c v spec (indices_at variable 0)) (\<lambda>(v', spec').
               resolve_segments c variable (drop 1 (enumerate 0 (vr_path variable))) v' spec')))"

definition resolve :: "calls \<Rightarrow> variable_ref \<Rightarrow> val option rt" where
  "resolve c variable =
     (case vr_direct variable of
        Some direct \<Rightarrow>
          rmap (\<lambda>v. case v of Some x \<Rightarrow> Some x | None \<Rightarrow> Some (VInt 0)) (env_get direct)
      | None \<Rightarrow>
          rtry_opt (root_name variable) (\<lambda>r.
          rbind (rget (\<lambda>s. enum_ordinal_name (rt_project s) (canonical r))) (\<lambda>ordinal.
            case ordinal of
              Some n \<Rightarrow> ret (Some (VInt n))
            | None \<Rightarrow>
                rbind (rget (\<lambda>s. Option.bind (flattened_field_key variable) (bt_get (rt_env s)))) (\<lambda>flat.
                  case flat of
                    Some v \<Rightarrow> ret (Some v)
                  | None \<Rightarrow> resolve_stored c variable r))))"

section \<open>Checks on a stored value\<close>

text \<open>Both range checks only report; the value is stored as it is.\<close>

definition range_report :: "val \<Rightarrow> int \<Rightarrow> int \<Rightarrow> string \<Rightarrow> unit rt" where
  "range_report v low high kind =
     (case as_i64 v of
        Some n \<Rightarrow>
          (if n < low \<or> n > high then
             push (runtime_error (''value '' @ show_int n @ '' is outside '' @ kind @ '' '' @
               show_int low @ ''..'' @ show_int high))
           else ret ())
      | None \<Rightarrow> ret ())"

fun constrain_list :: "calls \<Rightarrow> data_type_spec \<Rightarrow> val list \<Rightarrow> val list rt" where
  "constrain_list c t [] = ret []"
| "constrain_list c t (v # vs) =
     rbind (c_constrain c t v) (\<lambda>v'. rmap (\<lambda>vs'. v' # vs') (constrain_list c t vs))"

definition constrain_field ::
    "calls \<Rightarrow> struct_field \<Rightarrow> (string, val) bmap \<Rightarrow> (string, val) bmap rt" where
  "constrain_field c f values =
     (case bt_get values (canonical (sf_name f)) of
        None \<Rightarrow> ret values
      | Some v \<Rightarrow>
          rmap (\<lambda>v'. bt_insert (canonical (sf_name f)) v' (bt_remove (canonical (sf_name f)) values))
            (c_constrain c (sf_spec f) v))"

definition constrain_value :: "calls \<Rightarrow> data_type_spec \<Rightarrow> val \<Rightarrow> val rt" where
  "constrain_value c spec v =
     rbind (resolve_named_spec spec) (\<lambda>resolved.
       case resolved of
         DtElementary t \<Rightarrow>
           rseq (case elementary_integer_range t of
                   Some (type_name, low, high) \<Rightarrow> range_report v low high (type_name @ '' range'')
                 | None \<Rightarrow> ret ())
             (ret v)
       | DtSubrange base r \<Rightarrow> rseq (range_report v (sr_low r) (sr_high r) ''subrange'') (ret v)
       | DtString wide (Some n) \<Rightarrow>
           ret (case v of
                  VString s \<Rightarrow> VString (truncate_chars s n)
                | VWString s \<Rightarrow> VWString (truncate_chars s n)
                | _ \<Rightarrow> v)
       | DtString wide None \<Rightarrow> ret v
       | DtArray ranges t \<Rightarrow>
           (case v of VArray vs \<Rightarrow> rmap VArray (constrain_list c t vs) | _ \<Rightarrow> ret v)
       | DtStruct fs \<Rightarrow>
           (case v of VStruct values \<Rightarrow> rmap VStruct (rfold fs (constrain_field c) values) | _ \<Rightarrow> ret v)
       | _ \<Rightarrow> ret v)"

section \<open>Writing a variable\<close>

text \<open>The value is passed in and handed back, with a flag whether it was changed.\<close>

definition assign_into_indexed_value ::
    "calls \<Rightarrow> val \<Rightarrow> data_type_spec \<Rightarrow> expr list \<Rightarrow> variable_ref \<Rightarrow> nat \<Rightarrow> val \<Rightarrow> (bool \<times> val) rt" where
  "assign_into_indexed_value c current spec indices target segment_index v =
     (if indices = [] then
        (if segment_index + 1 \<ge> length (vr_path target)
         then rmap (\<lambda>v'. (True, v')) (constrain_value c spec v)
         else c_assign_into c current spec target (segment_index + 1) v)
      else
        rbind (resolve_named_spec spec) (\<lambda>current_spec.
          case current_spec of
            DtArray ranges element_type \<Rightarrow>
              (if length indices < length ranges then
                 rseq (push (index_count_error (length ranges) (length indices))) (ret (False, current))
               else
                 rbind (array_offset c ranges (take (length ranges) indices)) (\<lambda>found.
                   case (found, current) of
                     (Some offset, VArray elements) \<Rightarrow>
                       (if offset < length elements then
                          rmap (\<lambda>(ok, e). (ok, VArray (elements[offset := e])))
                            (c_assign_indexed c (elements ! offset) element_type
                              (drop (length ranges) indices) target segment_index v)
                        else ret (False, current))
                   | _ \<Rightarrow> ret (False, current)))
          | _ \<Rightarrow> ret (False, current)))"

definition assign_into_value ::
    "calls \<Rightarrow> val \<Rightarrow> data_type_spec \<Rightarrow> variable_ref \<Rightarrow> nat \<Rightarrow> val \<Rightarrow> (bool \<times> val) rt" where
  "assign_into_value c current spec target segment_index v =
     rbind (resolve_named_spec spec) (\<lambda>current_spec.
       if indices_at target segment_index \<noteq> [] then
         assign_into_indexed_value c current current_spec (indices_at target segment_index)
           target segment_index v
       else if segment_index + 1 \<ge> length (vr_path target) then
         rmap (\<lambda>v'. (True, v')) (constrain_value c current_spec v)
       else case (current_spec, current) of
         (DtStruct fs, VStruct values) \<Rightarrow>
           (let name = canonical (vr_path target ! (segment_index + 1)) in
            case (find_field name fs, bt_get values name) of
              (Some f, Some fv) \<Rightarrow>
                rmap (\<lambda>(ok, fv'). (ok, VStruct (bt_insert name fv' values)))
                  (c_assign_into c fv (sf_spec f) target (segment_index + 1) v)
            | _ \<Rightarrow> ret (False, current))
       | _ \<Rightarrow> ret (False, current))"

definition assign_stored :: "calls \<Rightarrow> variable_ref \<Rightarrow> ident \<Rightarrow> val \<Rightarrow> unit rt" where
  "assign_stored c target r v =
     rbind (rget (\<lambda>s. (bt_get (rt_types s) (canonical r), bt_get (rt_env s) (canonical r)))) (\<lambda>found.
       case found of
         (Some spec, Some root_value) \<Rightarrow>
           rbind (assign_into_value c root_value spec target 0 v) (\<lambda>(ok, v').
             if ok then env_insert (canonical r) v' else ret ())
       | _ \<Rightarrow> ret ())"

definition assign :: "calls \<Rightarrow> variable_ref \<Rightarrow> val \<Rightarrow> unit rt" where
  "assign c target v =
     (case vr_direct target of
        Some direct \<Rightarrow> env_insert direct v
      | None \<Rightarrow>
          (case root_name target of
             None \<Rightarrow> ret ()
           | Some r \<Rightarrow>
               rbind (rget rt_env) (\<lambda>env.
                 case flattened_field_key target of
                   Some key \<Rightarrow>
                     (if bt_contains env key then env_insert key v
                      else if length (vr_path target) = 2 \<and> list_all (\<lambda>ixs. ixs = []) (vr_indices target) \<and>
                              bt_contains env (field_key (canonical r) (canonical (vr_path target ! 1)))
                      then env_insert (field_key (canonical r) (canonical (vr_path target ! 1))) v
                      else assign_stored c target r v)
                 | None \<Rightarrow> assign_stored c target r v)))"

end
