(* ===== verification/RtOps.thy ===== *)
theory RtOps
  imports RtValues
begin

text \<open>
  The operators of the interpreter, the arguments of calls, and the check of a value against
  a type (\<open>iec_runtime/src/runtime.rs\<close>, \<open>iec_runtime/src/state.rs\<close>).
\<close>

section \<open>Operators\<close>

definition checked_or_overflow :: "string \<Rightarrow> val option \<Rightarrow> val option rt" where
  "checked_or_overflow label r =
     (case r of Some v \<Rightarrow> ret (Some v) | None \<Rightarrow> rseq (push_overflow label) (ret None))"

definition numeric_binary ::
    "val \<Rightarrow> val \<Rightarrow> string \<Rightarrow> (int \<Rightarrow> int \<Rightarrow> int option) \<Rightarrow> (f64 \<Rightarrow> f64 \<Rightarrow> f64) \<Rightarrow> val option rt" where
  "numeric_binary left right label int_op real_op =
     (if is_real left \<or> is_real right then
        rtry_opt (as_f64 left) (\<lambda>a. rtry_opt (as_f64 right) (\<lambda>b. ret (Some (VReal (real_op a b)))))
      else
        rtry_opt (as_i64 left) (\<lambda>a. rtry_opt (as_i64 right) (\<lambda>b.
          checked_or_overflow label (map_option VInt (int_op a b)))))"

definition time_or_numeric_binary ::
    "val \<Rightarrow> val \<Rightarrow> string \<Rightarrow> (int \<Rightarrow> int \<Rightarrow> int option) \<Rightarrow> (int \<Rightarrow> int \<Rightarrow> int option) \<Rightarrow>
     (f64 \<Rightarrow> f64 \<Rightarrow> f64) \<Rightarrow> val option rt" where
  "time_or_numeric_binary left right label time_op numeric_op real_op =
     (case (left, right) of
        (VTimeMs a, VTimeMs b) \<Rightarrow> checked_or_overflow label (map_option VTimeMs (time_op a b))
      | _ \<Rightarrow> numeric_binary left right label numeric_op real_op)"

text \<open>\<open>checked_div\<close> and \<open>checked_rem\<close>.\<close>

definition checked_div :: "int \<Rightarrow> int \<Rightarrow> int option" where
  "checked_div a b = (if b = 0 then None else checked_i64 (a sdiv b))"

definition checked_rem :: "int \<Rightarrow> int \<Rightarrow> int option" where
  "checked_rem a b = (if b = 0 \<or> \<not> in_i64 (a sdiv b) then None else Some (a smod b))"

definition compare_result :: "(int \<Rightarrow> bool) \<Rightarrow> val \<Rightarrow> val \<Rightarrow> val option" where
  "compare_result p left right = map_option (\<lambda>n. VBool (p n)) (rt_compare_values left right)"

definition eval_binary :: "binary_op \<Rightarrow> val \<Rightarrow> val \<Rightarrow> val option rt" where
  "eval_binary binop left right =
     (case binop of
        OpOr \<Rightarrow> ret (bit_bool_binary left right (OR) (\<or>))
      | OpXor \<Rightarrow> ret (bit_bool_binary left right (XOR) (\<noteq>))
      | OpAnd \<Rightarrow> ret (bit_bool_binary left right (AND) (\<and>))
      | OpEqual \<Rightarrow> ret (Some (VBool (rt_compare_values left right = Some 0)))
      | OpNotEqual \<Rightarrow> ret (Some (VBool (rt_compare_values left right \<noteq> Some 0)))
      | OpLess \<Rightarrow> ret (compare_result (\<lambda>n. n < 0) left right)
      | OpLessEqual \<Rightarrow> ret (compare_result (\<lambda>n. n \<le> 0) left right)
      | OpGreater \<Rightarrow> ret (compare_result (\<lambda>n. n > 0) left right)
      | OpGreaterEqual \<Rightarrow> ret (compare_result (\<lambda>n. n \<ge> 0) left right)
      | OpAdd \<Rightarrow>
          time_or_numeric_binary left right ''addition''
            (\<lambda>a b. checked_i128 (a + b)) (\<lambda>a b. checked_i64 (a + b)) f64_add
      | OpSub \<Rightarrow>
          time_or_numeric_binary left right ''subtraction''
            (\<lambda>a b. checked_i128 (a - b)) (\<lambda>a b. checked_i64 (a - b)) f64_sub
      | OpMul \<Rightarrow> numeric_binary left right ''multiplication'' (\<lambda>a b. checked_i64 (a * b)) f64_mul
      | OpDiv \<Rightarrow>
          (if (case as_f64 right of Some x \<Rightarrow> f64_is_zero x | None \<Rightarrow> False) then
             rseq (push (runtime_error ''division by zero'')) (ret None)
           else numeric_binary left right ''division'' checked_div f64_div)
      | OpMod \<Rightarrow>
          rtry_opt (as_i64 right) (\<lambda>b.
            if b = 0 then rseq (push (runtime_error ''modulo by zero'')) (ret None)
            else rtry_opt (as_i64 left) (\<lambda>a.
              checked_or_overflow ''modulo'' (map_option VInt (checked_rem a b))))
      | OpPower \<Rightarrow>
          rtry_opt (as_f64 left) (\<lambda>a. rtry_opt (as_f64 right) (\<lambda>b.
            rget (\<lambda>s. Some (VReal (lm_powf (math (rt_platform s)) a b))))))"

definition eval_unary :: "unary_op \<Rightarrow> val \<Rightarrow> val option rt" where
  "eval_unary unop v =
     (case unop of
        OpNeg \<Rightarrow>
          (case v of
             VReal x \<Rightarrow> ret (Some (VReal (f64_neg x)))
           | _ \<Rightarrow>
               rtry_opt (as_i64 v) (\<lambda>n.
                 checked_or_overflow ''integer negation'' (map_option VInt (checked_i64 (- n)))))
      | OpNot \<Rightarrow>
          ret (case v of
                 VBool b \<Rightarrow> Some (VBool (\<not> b))
               | _ \<Rightarrow> map_option (\<lambda>n. VInt (- n - 1)) (as_i64 v)))"

section \<open>Arguments\<close>

definition function_call_enabled :: "calls \<Rightarrow> param_assignment list \<Rightarrow> bool rt" where
  "function_call_enabled c args =
     (case Option.bind (List.find (\<lambda>a. \<not> pa_output a \<and> names_en a) args) pa_expr of
        None \<Rightarrow> ret True
      | Some e \<Rightarrow>
          rmap (\<lambda>v. case Option.bind v as_bool of Some b \<Rightarrow> b | None \<Rightarrow> True) (c_eval c e))"

definition assign_function_eno :: "calls \<Rightarrow> param_assignment list \<Rightarrow> bool \<Rightarrow> unit rt" where
  "assign_function_eno c args b =
     rfor args (\<lambda>a.
       if \<not> pa_output a \<or> \<not> names_eno a then ret ()
       else case pa_variable a of
              Some variable \<Rightarrow> assign c variable (VBool (if pa_negated a then \<not> b else b))
            | None \<Rightarrow> ret ())"

definition eval_optional :: "calls \<Rightarrow> expr option \<Rightarrow> val option rt" where
  "eval_optional c e = (case e of None \<Rightarrow> ret None | Some x \<Rightarrow> c_eval c x)"

definition value_or :: "val \<Rightarrow> val option \<Rightarrow> val" where
  "value_or d v = (case v of Some x \<Rightarrow> x | None \<Rightarrow> d)"

text \<open>The turns of the loop of \<open>eval_standard_function_inputs\<close>: the values with their
  positions, the next positional and the next unknown index.\<close>

definition standard_input ::
    "calls \<Rightarrow> ident \<Rightarrow> param_assignment \<Rightarrow> (nat \<times> val) list \<times> nat \<times> nat \<Rightarrow>
     ((nat \<times> val) list \<times> nat \<times> nat) rt" where
  "standard_input c name a acc =
     (case acc of (ordered, positional_index, unknown_index) \<Rightarrow>
        if pa_output a \<or> names_en a then ret acc
        else case pa_expr a of
          None \<Rightarrow> ret acc
        | Some e \<Rightarrow>
            rbind (c_eval c e) (\<lambda>v. case v of
              None \<Rightarrow> ret acc
            | Some x \<Rightarrow>
                (case pa_name a of
                   None \<Rightarrow> ret (ordered @ [(positional_index, x)], positional_index + 1, unknown_index)
                 | Some arg_name \<Rightarrow>
                     rbind (\<lambda>s. rlift (standard_function_input_index (checked s) (original name)
                                        (original arg_name)) s) (\<lambda>index.
                       case index of
                         Some i \<Rightarrow> ret (ordered @ [(i, x)], positional_index, unknown_index)
                       | None \<Rightarrow>
                           ret (ordered @ [(unknown_index, x)], positional_index,
                                min usize_max (unknown_index + 1))))))"

definition eval_standard_function_inputs ::
    "calls \<Rightarrow> ident \<Rightarrow> param_assignment list \<Rightarrow> val list rt" where
  "eval_standard_function_inputs c name args =
     rmap (\<lambda>(ordered, _). map snd (sort_key fst ordered))
       (rfold args (standard_input c name) ([], 0, usize_max - length args))"

definition spec_is_wide :: "project \<Rightarrow> data_type_spec \<Rightarrow> bool" where
  "spec_is_wide p spec =
     (case resolve_project_spec p spec of
        DtElementary t \<Rightarrow> t = EWString
      | DtString wide len \<Rightarrow> wide
      | _ \<Rightarrow> False)"

text \<open>The declared type of a variable along its path.\<close>

fun path_spec :: "project \<Rightarrow> ident list \<Rightarrow> data_type_spec \<Rightarrow> data_type_spec option" where
  "path_spec p [] spec = Some spec"
| "path_spec p (segment # rest) spec =
     (case resolve_project_spec p spec of
        DtStruct fs \<Rightarrow>
          (case find_field (canonical segment) fs of
             Some f \<Rightarrow> path_spec p rest (sf_spec f)
           | None \<Rightarrow> None)
      | _ \<Rightarrow> None)"

definition variable_spec :: "runtime \<Rightarrow> variable_ref \<Rightarrow> data_type_spec option" where
  "variable_spec s variable =
     (if vr_direct variable \<noteq> None then None
      else case vr_path variable of
        [] \<Rightarrow> None
      | r # segments \<Rightarrow>
          Option.bind (bt_get (rt_types s) (canonical r)) (path_spec (rt_project s) segments))"

definition expr_is_wstring_like :: "runtime \<Rightarrow> expr \<Rightarrow> bool" where
  "expr_is_wstring_like s e =
     (case e of
        LiteralE (LWString _) \<Rightarrow> True
      | LiteralE (LTyped type_name _) \<Rightarrow>
          (case (case elementary_parse (original type_name) of
                   Some t \<Rightarrow> Some (DtElementary t)
                 | None \<Rightarrow> map_option dt_spec (find_data_type (rt_project s) (canonical type_name))) of
             Some spec \<Rightarrow> spec_is_wide (rt_project s) spec
           | None \<Rightarrow> False)
      | VariableE variable \<Rightarrow>
          (case variable_spec s variable of
             Some spec \<Rightarrow> spec_is_wide (rt_project s) spec
           | None \<Rightarrow> False)
      | _ \<Rightarrow> False)"

definition standard_string_call_is_wide :: "runtime \<Rightarrow> param_assignment list \<Rightarrow> bool" where
  "standard_string_call_is_wide s args =
     list_ex (expr_is_wstring_like s)
       (List.map_filter pa_expr (filter (\<lambda>a. \<not> names_en a) (filter (\<lambda>a. \<not> pa_output a) args)))"

definition disabled_standard_function_value :: "runtime \<Rightarrow> ident \<Rightarrow> param_assignment list \<Rightarrow> val" where
  "disabled_standard_function_value s fname args =
     (let name = canonical fname in
      if name \<in> {''GT'', ''GE'', ''EQ'', ''NE'', ''LE'', ''LT''} then VBool False
      else if name \<in> {''SQRT'', ''LN'', ''LOG'', ''EXP'', ''SIN'', ''COS'', ''TAN'', ''EXPT''} then
        VReal (f64_of_int 0)
      else if name \<in> {''LEFT'', ''RIGHT'', ''MID'', ''CONCAT'', ''INSERT'', ''DELETE'', ''REPLACE''} then
        (if standard_string_call_is_wide s args then VWString [] else VString [])
      else if ends_with name ''_TO_STRING'' then VString []
      else if ends_with name ''_TO_WSTRING'' then VWString []
      else if ends_with name ''_TO_BOOL'' then VBool False
      else if name \<in> {''ADD_TIME'', ''SUB_TIME'', ''ADD_TOD_TIME'', ''SUB_TOD_TIME'', ''ADD_DT_TIME'',
          ''SUB_DT_TIME'', ''CONCAT_DATE'', ''CONCAT_TOD'', ''CONCAT_DT'', ''CONCAT_DATE_TOD'',
          ''SUB_DATE_DATE'', ''SUB_TOD_TOD'', ''SUB_DT_DT'', ''MUL_TIME'', ''DIV_TIME'',
          ''MULTIME'', ''DIVTIME''} then VTimeMs 0
      else VInt 0)"

definition function_inputs :: "pou \<Rightarrow> var_decl list" where
  "function_inputs u = concat (map vb_vars (filter (\<lambda>b. vb_kind b = VarInput) (pou_var_blocks u)))"

fun bind_inputs :: "string list \<Rightarrow> val list \<Rightarrow> (string, val) bmap \<Rightarrow> unit rt" where
  "bind_inputs [] positional named = ret ()"
| "bind_inputs (input # inputs) positional named =
     (case bt_get named input of
        Some v \<Rightarrow> rseq (env_insert input v) (bind_inputs inputs positional named)
      | None \<Rightarrow>
          (case positional of
             v # rest \<Rightarrow> rseq (env_insert input v) (bind_inputs inputs rest named)
           | [] \<Rightarrow> bind_inputs inputs [] named))"

definition bind_function_inputs :: "val list \<Rightarrow> (string, val) bmap \<Rightarrow> unit rt" where
  "bind_function_inputs positional named =
     rbind (rget (\<lambda>s. map (\<lambda>d. canonical (var_name d)) (function_inputs (rt_program s)))) (\<lambda>inputs.
       bind_inputs inputs positional named)"

section \<open>A value against a type\<close>

definition elementary_accepts :: "elementary_type \<Rightarrow> val \<Rightarrow> bool" where
  "elementary_accepts t v =
     (case v of
        VBool _ \<Rightarrow> t = EBool
      | VInt _ \<Rightarrow> elementary_is_integer t \<or> t \<in> {EByte, EWord, EDword, ELword, EReal, ELreal}
      | VReal _ \<Rightarrow> t \<in> {EReal, ELreal}
      | VString _ \<Rightarrow> t = EString
      | VWString _ \<Rightarrow> t = EWString
      | VTimeMs _ \<Rightarrow> t \<in> {ETime, EDate, ETimeOfDay, EDateAndTime}
      | _ \<Rightarrow> False)"

lemma bt_get_size: "bt_get m k = Some v \<Longrightarrow> size v < size_list (size_prod (\<lambda>_. 0) size) m"
  by (induction m) (auto simp: le_imp_less_Suc less_SucI split: if_splits)

function (sequential) value_matches :: "bool \<Rightarrow> project \<Rightarrow> val \<Rightarrow> data_type_spec \<Rightarrow> bool outcome"
and all_match :: "bool \<Rightarrow> project \<Rightarrow> val list \<Rightarrow> data_type_spec \<Rightarrow> bool outcome"
and fields_match ::
    "bool \<Rightarrow> project \<Rightarrow> (string, val) bmap \<Rightarrow> struct_field list \<Rightarrow> bool outcome" where
  "value_matches oc p v spec =
     (case resolve_project_spec p spec of
        DtElementary t \<Rightarrow> Ret (elementary_accepts t v)
      | DtString wide len \<Rightarrow>
          Ret (case v of VString _ \<Rightarrow> \<not> wide | VWString _ \<Rightarrow> wide | _ \<Rightarrow> False)
      | DtSubrange base r \<Rightarrow>
          Ret (case as_i64 v of Some n \<Rightarrow> n \<ge> sr_low r \<and> n \<le> sr_high r | None \<Rightarrow> False)
      | DtEnum values \<Rightarrow> Ret (case v of VInt _ \<Rightarrow> True | _ \<Rightarrow> False)
      | DtArray ranges element_type \<Rightarrow>
          (case v of
             VArray vs \<Rightarrow>
               obind (array_element_count oc ranges) (\<lambda>n.
                 if length vs = n then all_match oc p vs element_type else Ret False)
           | _ \<Rightarrow> Ret False)
      | DtStruct fs \<Rightarrow>
          (case v of VStruct values \<Rightarrow> fields_match oc p values fs | _ \<Rightarrow> Ret False)
      | DtNamed _ \<Rightarrow> Ret True)"
| "all_match oc p [] t = Ret True"
| "all_match oc p (v # vs) t =
     obind (value_matches oc p v t) (\<lambda>b. if b then all_match oc p vs t else Ret False)"
| "fields_match oc p values [] = Ret True"
| "fields_match oc p values (f # fs) =
     (case bt_get values (canonical (sf_name f)) of
        Some v \<Rightarrow>
          obind (value_matches oc p v (sf_spec f)) (\<lambda>b.
            if b then fields_match oc p values fs else Ret False)
      | None \<Rightarrow> Ret False)"
  by pat_completeness auto
termination
  by (relation "inv_image (less_than <*lex*> less_than) (\<lambda>x. case x of
        Inl (oc, p, v, spec) \<Rightarrow> (size v, 0)
      | Inr (Inl (oc, p, vs, t)) \<Rightarrow> (size_list size vs, 0)
      | Inr (Inr (oc, p, values, fs)) \<Rightarrow> (size_list (size_prod (\<lambda>_. 0) size) values, length fs))")
    (auto dest: bt_get_size)

end
