(* ===== verification/RtInit.thy ===== *)
theory RtInit
  imports RtOps
begin

text \<open>
  The values variables start with (\<open>iec_runtime/src/runtime.rs\<close>): default and initial values
  of a type, the fields of function block instances, the start of a program, and the copies
  of a block's state into and out of the interpreter that runs its body.
\<close>

section \<open>Default and initial values\<close>

definition element_count :: "subrange list \<Rightarrow> nat rt" where
  "element_count ranges s = rlift (array_element_count (checked s) ranges) s"

fun repeat_value :: "nat \<Rightarrow> val rt \<Rightarrow> val list rt" where
  "repeat_value 0 m = ret []"
| "repeat_value (Suc n) m = rbind m (\<lambda>v. rmap (\<lambda>vs. v # vs) (repeat_value n m))"

definition field_value ::
    "(data_type_spec \<Rightarrow> expr option \<Rightarrow> val rt) \<Rightarrow> (struct_field \<Rightarrow> expr option) \<Rightarrow>
     struct_field \<Rightarrow> (string, val) bmap \<Rightarrow> (string, val) bmap rt" where
  "field_value value_of initializer f values =
     rmap (\<lambda>v. bt_insert (canonical (sf_name f)) v values) (value_of (sf_spec f) (initializer f))"

definition or_else :: "'a option \<Rightarrow> 'a option \<Rightarrow> 'a option" where
  "or_else a b = (case a of Some x \<Rightarrow> Some x | None \<Rightarrow> b)"

definition default_value :: "calls \<Rightarrow> data_type_spec \<Rightarrow> val rt" where
  "default_value c spec =
     rbind (resolve_named_spec spec) (\<lambda>resolved.
       case resolved of
         DtArray ranges element_type \<Rightarrow>
           rbind (element_count ranges) (\<lambda>n. rmap VArray (repeat_value n (c_default c element_type)))
       | DtStruct fs \<Rightarrow>
           rmap VStruct
             (rfold fs (field_value (\<lambda>t i. case i of Some e \<Rightarrow> c_initial c t (Some e) | None \<Rightarrow> c_default c t)
                          sf_initial) [])
       | DtEnum _ \<Rightarrow> ret (VInt 0)
       | DtSubrange base r \<Rightarrow>
           ret (if sr_low r \<le> 0 \<and> sr_high r \<ge> 0 then VInt 0 else VInt (sr_low r))
       | _ \<Rightarrow> ret (default_value_for_type resolved))"

fun initial_elements :: "calls \<Rightarrow> data_type_spec \<Rightarrow> expr list \<Rightarrow> val list rt" where
  "initial_elements c t [] = ret []"
| "initial_elements c t (e # es) =
     rbind (c_initial c t (Some e)) (\<lambda>v. rmap (\<lambda>vs. v # vs) (initial_elements c t es))"

definition initializer_of :: "param_assignment list \<Rightarrow> struct_field \<Rightarrow> expr option" where
  "initializer_of initializers f =
     or_else (Option.bind (List.find (\<lambda>a. names a (canonical (sf_name f))) initializers) pa_expr)
       (sf_initial f)"

definition initial_value_for_spec :: "calls \<Rightarrow> data_type_spec \<Rightarrow> expr option \<Rightarrow> val rt" where
  "initial_value_for_spec c spec initial =
     rbind (resolve_named_spec spec) (\<lambda>resolved.
       case (resolved, initial) of
         (DtArray ranges element_type, Some (ArrayLiteralE elements)) \<Rightarrow>
           rmap VArray (initial_elements c element_type elements)
       | (DtArray ranges element_type, _) \<Rightarrow>
           rbind (element_count ranges) (\<lambda>n.
             rmap VArray (repeat_value n (c_initial c element_type None)))
       | (DtStruct fs, Some (StructLiteralE initializers)) \<Rightarrow>
           rmap VStruct (rfold fs (field_value (c_initial c) (initializer_of initializers)) [])
       | (DtStruct fs, _) \<Rightarrow>
           rmap VStruct (rfold fs (field_value (c_initial c) sf_initial) [])
       | (DtEnum _, Some e) \<Rightarrow>
           rbind (rget (\<lambda>s. enum_ordinal_expr (rt_project s) e)) (\<lambda>ordinal.
             case ordinal of
               Some n \<Rightarrow> ret (VInt n)
             | None \<Rightarrow> rmap (value_or (VInt 0)) (c_eval c e))
       | (DtEnum _, None) \<Rightarrow> ret (VInt 0)
       | (DtSubrange base r, Some e) \<Rightarrow>
           rbind (c_eval c e) (\<lambda>v.
             constrain_value c (DtSubrange EInt r) (value_or (VInt 0) v))
       | (_, Some e) \<Rightarrow>
           rbind (c_eval c e) (\<lambda>v.
             rbind (case v of Some x \<Rightarrow> ret x | None \<Rightarrow> default_value c resolved) (\<lambda>x.
               constrain_value c resolved x))
       | (_, None) \<Rightarrow> default_value c resolved)"

section \<open>Instances of function blocks\<close>

definition initialize_user_field :: "calls \<Rightarrow> string \<Rightarrow> var_decl \<Rightarrow> unit rt" where
  "initialize_user_field c inst d =
     rbind (rget rt_project) (\<lambda>p.
     rseq
       (if function_block_field_specs p (var_type d) \<noteq> None then
          c_init_block c (field_key inst (canonical (var_name d))) (var_type d)
        else
          rbind (initial_value_for_spec c (var_type d) (var_initial d)) (\<lambda>v.
            set_field inst (canonical (var_name d)) v))
       (if var_edge d \<noteq> None
        then set_field inst (edge_state_field_name (canonical (var_name d))) (VBool False)
        else ret ()))"

definition initialize_user_function_block_fields :: "calls \<Rightarrow> string \<Rightarrow> ident \<Rightarrow> unit rt" where
  "initialize_user_function_block_fields c inst type_name =
     rbind (rget (\<lambda>s. find_function_block (rt_project s) (original type_name))) (\<lambda>found.
       case found of
         None \<Rightarrow> ret ()
       | Some u \<Rightarrow> rfor (variable_declarations u) (initialize_user_field c inst))"

definition initialize_function_block_instance :: "calls \<Rightarrow> string \<Rightarrow> data_type_spec \<Rightarrow> unit rt" where
  "initialize_function_block_instance c inst spec =
     (case spec of
        DtNamed type_name \<Rightarrow>
          (case initialize_named_block inst (canonical type_name) of
             Some m \<Rightarrow> m
           | None \<Rightarrow> initialize_user_function_block_fields c inst type_name)
      | _ \<Rightarrow> ret ())"

definition initialize_function_block_fields :: "calls \<Rightarrow> var_decl \<Rightarrow> unit rt" where
  "initialize_function_block_fields c d =
     initialize_function_block_instance c (canonical (var_name d)) (var_type d)"

section \<open>Copies of block state\<close>

text \<open>Both copies run on the state that is written; the other state is passed in.\<close>

definition copy_function_block_state_into_runtime ::
    "calls \<Rightarrow> runtime \<Rightarrow> string \<Rightarrow> string \<Rightarrow> data_type_spec \<Rightarrow> unit rt" where
  "copy_function_block_state_into_runtime c parent parent_prefix child_prefix spec =
     (case function_block_field_specs (rt_project parent) spec of
        None \<Rightarrow> ret ()
      | Some fs \<Rightarrow>
          rfor fs (\<lambda>f.
            let parent_key = field_key parent_prefix (fbf_name f);
                child_key = field_key child_prefix (fbf_name f)
            in if function_block_field_specs (rt_project parent) (fbf_spec f) \<noteq> None then
                 c_copy_into c parent parent_key child_key (fbf_spec f)
               else
                 rbind (case bt_get (rt_env parent) parent_key of
                          Some v \<Rightarrow> ret v | None \<Rightarrow> default_value c (fbf_spec f)) (\<lambda>v.
                   env_insert child_key v)))"

definition copy_function_block_state_from_runtime ::
    "calls \<Rightarrow> runtime \<Rightarrow> string \<Rightarrow> string \<Rightarrow> data_type_spec \<Rightarrow> unit rt" where
  "copy_function_block_state_from_runtime c child child_prefix parent_prefix spec =
     rbind (rget (\<lambda>s. function_block_field_specs (rt_project s) spec)) (\<lambda>found.
       case found of
         None \<Rightarrow> ret ()
       | Some fs \<Rightarrow>
           rfor fs (\<lambda>f.
             let child_key = field_key child_prefix (fbf_name f);
                 parent_key = field_key parent_prefix (fbf_name f)
             in rbind (rget (\<lambda>s. function_block_field_specs (rt_project s) (fbf_spec f))) (\<lambda>nested.
                  if nested \<noteq> None then c_copy_from c child child_key parent_key (fbf_spec f)
                  else case bt_get (rt_env child) child_key of
                         Some v \<Rightarrow> env_insert parent_key v
                       | None \<Rightarrow> ret ())))"

section \<open>The start of a program\<close>

definition block_vars :: "var_block \<Rightarrow> (var_decl \<times> retain_kind option) list" where
  "block_vars b = map (\<lambda>d. (d, vb_retain b)) (vb_vars b)"

definition project_global_var_decls :: "project \<Rightarrow> string \<Rightarrow> (var_decl \<times> retain_kind option) list" where
  "project_global_var_decls p current_pou =
     concat (map (\<lambda>u. concat (map block_vars (filter (\<lambda>b. vb_kind b = VarGlobal) (pou_var_blocks u))))
       (filter (\<lambda>u. canonical (pou_name u) \<noteq> current_pou) (pous p))) @
     concat (map (\<lambda>cf. concat (map block_vars (filter (\<lambda>b. vb_kind b = VarGlobal)
         (conf_var_blocks cf @ concat (map res_var_blocks (conf_resources cf))))))
       (configurations p))"

definition initialize_variable ::
    "calls \<Rightarrow> startup_kind \<Rightarrow> retain_kind option \<Rightarrow> var_decl \<Rightarrow> unit rt" where
  "initialize_variable c startup retain d =
     rseq (types_insert (canonical (var_name d)) (var_type d))
       (rbind (rget (\<lambda>s. bt_contains (rt_env s) (canonical (var_name d)))) (\<lambda>present.
         if startup = Warm \<and> retain = Some Retain \<and> present then ret ()
         else
           rbind (initial_value_for_spec c (var_type d) (var_initial d)) (\<lambda>v.
             rseq (env_insert (canonical (var_name d)) v)
               (initialize_function_block_fields c d))))"

definition initialize_sfc_action_control :: "string \<Rightarrow> unit rt" where
  "initialize_sfc_action_control key =
     rseq (env_insert (sfc_action_control_key_stored key) (VBool False))
       (rseq (env_insert (sfc_action_control_key_previous key) (VBool False))
         (env_insert (sfc_action_control_key_elapsed key) (VInt 0)))"

definition initialize_sfc_steps :: "unit rt" where
  "initialize_sfc_steps =
     rbind (rget (\<lambda>s. body_sfc (pou_body (rt_program s)))) (\<lambda>found.
       case found of
         None \<Rightarrow> ret ()
       | Some chart \<Rightarrow>
           rseq (rfor (sfc_steps chart) (\<lambda>step.
                   env_insert (sfc_step_key (step_name step)) (VBool (step_initial step))))
             (rfor (sfc_actions chart) (\<lambda>action.
               initialize_sfc_action_control (sfc_action_control_key (action_name action)))))"

text \<open>The variable that holds the result of a function.\<close>

definition initialize_result :: "calls \<Rightarrow> startup_kind \<Rightarrow> unit rt" where
  "initialize_result c startup =
     rbind (rget rt_program) (\<lambda>u.
       case pou_kind u of
         FunctionKind return_type \<Rightarrow>
           rseq (types_insert (canonical (pou_name u)) return_type)
             (rbind (rget (\<lambda>s. bt_contains (rt_env s) (canonical (pou_name u)))) (\<lambda>present.
               if startup = Cold \<or> \<not> present then
                 rbind (default_value c return_type) (\<lambda>v. env_insert (canonical (pou_name u)) v)
               else ret ()))
       | _ \<Rightarrow> ret ())"

definition initialize :: "calls \<Rightarrow> startup_kind \<Rightarrow> unit rt" where
  "initialize c startup =
     rseq (if startup = Cold then rmodify (\<lambda>s. s\<lparr>rt_env := [], rt_types := []\<rparr>) else ret ())
       (rseq (set_accumulator VUnit)
         (rseq (initialize_result c startup)
           (rbind (rget (\<lambda>s. (project_global_var_decls (rt_project s) (canonical (pou_name (rt_program s))),
                              pou_var_blocks (rt_program s)))) (\<lambda>(globals, blocks).
             rseq (rfor globals (\<lambda>(d, retain). initialize_variable c startup retain d))
               (rseq (rfor (filter (\<lambda>b. vb_kind b \<notin> {VarAccess, VarExternal}) blocks) (\<lambda>b.
                       rfor (vb_vars b) (initialize_variable c startup (vb_retain b))))
                 (if startup = Cold then initialize_sfc_steps else ret ()))))))"

definition reset_temp_variables :: "calls \<Rightarrow> unit rt" where
  "reset_temp_variables c =
     rbind (rget (\<lambda>s. concat (map vb_vars
         (filter (\<lambda>b. vb_kind b = VarTemp) (pou_var_blocks (rt_program s)))))) (\<lambda>temp_vars.
       rfor temp_vars (\<lambda>d.
         rbind (initial_value_for_spec c (var_type d) (var_initial d)) (\<lambda>v.
           rseq (env_insert (canonical (var_name d)) v)
             (initialize_function_block_fields c d))))"

end
