(* ===== verification/RtCall.thy ===== *)
theory RtCall
  imports RtInit
begin

text \<open>
  Calls in the interpreter (\<open>iec_runtime/src/runtime.rs\<close>): user functions, standard
  functions, the splitting functions, standard and user function blocks. A user function or
  block runs in an interpreter state of its own (\<open>in_child\<close>), from which the diagnostics
  and the results are taken back.
\<close>

section \<open>The state of a callee\<close>

definition child_runtime :: "runtime \<Rightarrow> pou \<Rightarrow> runtime" where
  "child_runtime s u =
     \<lparr> rt_project = rt_project s, rt_program = u, rt_env = [], rt_types = [], rt_accumulator = VUnit,
       rt_diagnostics = [], rt_options = rt_options s, rt_call_depth = rt_call_depth s + 1,
       rt_communication = rt_communication s, rt_platform = rt_platform s \<rparr>"

definition in_child :: "runtime \<Rightarrow> 'a rt \<Rightarrow> ('a \<times> runtime) rt" where
  "in_child child m s =
     (case m child of NoFuel \<Rightarrow> NoFuel | Crash \<Rightarrow> Crash | Done x child' \<Rightarrow> Done (x, child') s)"

definition extend_diagnostics :: "diagnostic list \<Rightarrow> unit rt" where
  "extend_diagnostics ds = rmodify (\<lambda>s. s\<lparr>rt_diagnostics := rt_diagnostics s @ ds\<rparr>)"

text \<open>A body must not end in \<open>EXIT\<close> or in a jump to a label it does not have.\<close>

definition report_control :: "control \<Rightarrow> unit rt" where
  "report_control ctl =
     (case ctl of
        Continue \<Rightarrow> ret ()
      | Return \<Rightarrow> ret ()
      | Exit \<Rightarrow> push (runtime_error ''EXIT used outside of an iteration'')
      | Jump label \<Rightarrow> push (runtime_error (''jump to unknown IL label '' @ quoted label)))"

definition run_body :: "calls \<Rightarrow> statement list \<Rightarrow> unit rt" where
  "run_body c body = rbind (c_statements c body) report_control"

section \<open>User functions\<close>

definition find_function :: "project \<Rightarrow> string \<Rightarrow> pou option" where
  "find_function p name =
     (case find_pou p name of Some u \<Rightarrow> if is_function u then Some u else None | None \<Rightarrow> None)"

definition user_argument ::
    "calls \<Rightarrow> param_assignment \<Rightarrow> val list \<times> (string, val) bmap \<Rightarrow> (val list \<times> (string, val) bmap) rt" where
  "user_argument c a acc =
     (case acc of (positional, named) \<Rightarrow>
        if pa_output a \<or> names_en a then ret acc
        else rbind (eval_optional c (pa_expr a)) (\<lambda>v.
          ret (case pa_name a of
                 Some name \<Rightarrow> (positional, bt_insert (canonical name) (value_or VUnit v) named)
               | None \<Rightarrow> (positional @ [value_or VUnit v], named))))"

definition call_user_function :: "calls \<Rightarrow> pou \<Rightarrow> param_assignment list \<Rightarrow> val option rt" where
  "call_user_function c u args =
     rbind (rfold args (user_argument c) ([], [])) (\<lambda>(positional, named).
     rbind (\<lambda>s. in_child (child_runtime s u)
              (rseq (initialize c Cold)
                (rseq (bind_function_inputs positional named)
                  (run_body c (body_statements (pou_body u))))) s) (\<lambda>(_, child).
       let result = bt_get (rt_env child) (canonical (pou_name u)) in
       rseq (extend_diagnostics (rt_diagnostics child))
         (rseq (if result \<noteq> None then assign_function_eno c args True else ret ())
           (ret result))))"

definition eval_user_function :: "calls \<Rightarrow> ident \<Rightarrow> param_assignment list \<Rightarrow> val option rt" where
  "eval_user_function c name args =
     rtry (rget (\<lambda>s. find_function (rt_project s) (original name))) (\<lambda>u.
       case pou_kind u of
         FunctionKind return_type \<Rightarrow>
           rbind (function_call_enabled c args) (\<lambda>enabled.
             if \<not> enabled then
               rseq (assign_function_eno c args False) (rmap Some (default_value c return_type))
             else
               rbind (rget rt_call_depth) (\<lambda>depth.
                 if depth \<ge> 64 then
                   rseq (push (runtime_error (''maximum function call depth exceeded at '' @
                          quoted (original name))))
                     (ret None)
                 else call_user_function c u args))
       | _ \<Rightarrow> ret None)"

section \<open>Calls in expressions\<close>

definition call_disabled :: "calls \<Rightarrow> ident \<Rightarrow> param_assignment list \<Rightarrow> val option rt" where
  "call_disabled c name args =
     rseq (assign_function_eno c args False)
       (if is_standard_function (original name) then
          rget (\<lambda>s. Some (disabled_standard_function_value s name args))
        else
          rbind (rget (\<lambda>s. find_function (rt_project s) (original name))) (\<lambda>found.
            case found of
              Some u \<Rightarrow>
                (case pou_kind u of
                   FunctionKind return_type \<Rightarrow> rmap Some (default_value c return_type)
                 | _ \<Rightarrow> ret (Some (VInt 0)))
            | None \<Rightarrow> ret (Some (VInt 0))))"

definition eval_call :: "calls \<Rightarrow> ident \<Rightarrow> param_assignment list \<Rightarrow> val option rt" where
  "eval_call c name args =
     rbind (function_call_enabled c args) (\<lambda>enabled.
       if \<not> enabled then call_disabled c name args
       else
         rbind (eval_standard_function_inputs c name args) (\<lambda>standard_values.
         rbind (\<lambda>s. rlift (eval_standard_function (math (rt_platform s)) (checked s) (original name)
                            standard_values) s) (\<lambda>result.
           case result of
             Some v \<Rightarrow> rseq (assign_function_eno c args True) (ret (Some v))
           | None \<Rightarrow>
               (if is_standard_function (original name) then
                  rseq (assign_function_eno c args False)
                    (rseq (push (runtime_error (''standard function '' @ quoted (original name) @
                           '' failed for supplied arguments'')))
                      (ret None))
                else
                  rbind (eval_user_function c name args) (\<lambda>r.
                    case r of
                      Some v \<Rightarrow> ret (Some v)
                    | None \<Rightarrow>
                        rseq (push (unsupported (''function '' @ quoted (original name) @
                               '' is not executable yet'')))
                          (ret (Some VUnit)))))))"

section \<open>The splitting functions\<close>

definition split_fields :: "bool \<Rightarrow> string \<Rightarrow> val \<Rightarrow> (string \<times> int) list option outcome" where
  "split_fields oc name input =
     (let t = input_time_value input;
          clock = (\<lambda>ms. case tod_parts ms of (hour, minute, second, millisecond) \<Rightarrow>
            [(''HOUR'', hour), (''MINUTE'', minute), (''SECOND'', second), (''MILLISECOND'', millisecond)]);
          date = (\<lambda>(year, month, day). [(''YEAR'', year), (''MONTH'', month), (''DATE'', day)])
      in if name = ''SPLIT_DATE'' then omap (\<lambda>d. Some (date d)) (rt_civil_from_days oc t)
         else if name = ''SPLIT_TOD'' then Ret (Some (clock t))
         else if name = ''SPLIT_DT'' then
           omap (\<lambda>d. Some (date d @ clock (t mod 86400000))) (rt_civil_from_days oc (t div 86400000))
         else Ret None)"

definition execute_standard_void_call :: "calls \<Rightarrow> ident \<Rightarrow> param_assignment list \<Rightarrow> unit rt" where
  "execute_standard_void_call c name args =
     rbind (function_call_enabled c args) (\<lambda>enabled.
       if \<not> enabled then assign_function_eno c args False
       else
         rbind (eval_optional c (split_input_expr args)) (\<lambda>input.
           case input of
             None \<Rightarrow>
               rseq (push (runtime_error (''standard function '' @ quoted (original name) @
                      '' requires an IN value'')))
                 (assign_function_eno c args False)
           | Some v \<Rightarrow>
               rbind (\<lambda>s. rlift (split_fields (checked s) (canonical name) v) s) (\<lambda>found.
                 case found of
                   None \<Rightarrow> ret ()
                 | Some fs \<Rightarrow>
                     rseq (rfor (enumerate 0 fs) (\<lambda>(index, f, n).
                            case split_output_variable args f index of
                              Some variable \<Rightarrow> assign c variable (VInt n)
                            | None \<Rightarrow> ret ()))
                       (assign_function_eno c args True))))"

section \<open>Function blocks\<close>

definition fb_input ::
    "calls \<Rightarrow> string list \<Rightarrow> param_assignment \<Rightarrow> (string, val) bmap \<times> nat \<Rightarrow> ((string, val) bmap \<times> nat) rt" where
  "fb_input c input_names a acc =
     (case acc of (inputs, positional_index) \<Rightarrow>
        if pa_output a \<or> names_en a then ret acc
        else
          let (input_name, next_index) = (case pa_name a of
                Some name \<Rightarrow> (Some (canonical name), positional_index)
              | None \<Rightarrow>
                  (if positional_index < length input_names
                   then Some (input_names ! positional_index) else None,
                   positional_index + 1))
          in case input_name of
               None \<Rightarrow> ret (inputs, next_index)
             | Some n \<Rightarrow>
                 rbind (eval_optional c (pa_expr a)) (\<lambda>v.
                   ret (bt_insert (canonical_identifier n) (value_or VUnit v) inputs, next_index)))"

definition eval_fb_inputs :: "calls \<Rightarrow> string \<Rightarrow> param_assignment list \<Rightarrow> (string, val) bmap rt" where
  "eval_fb_inputs c type_name args =
     rmap fst (rfold args (fb_input c (standard_function_block_input_names type_name)) ([], 0))"

definition assign_standard_function_block_outputs ::
    "calls \<Rightarrow> string \<Rightarrow> string \<Rightarrow> param_assignment list \<Rightarrow> unit rt" where
  "assign_standard_function_block_outputs c inst block_type args =
     rfor args (\<lambda>a.
       case (pa_output a, pa_name a, pa_variable a) of
         (True, Some name, Some variable) \<Rightarrow>
           (if is_implicit_eno name \<or>
               \<not> list_ex (\<lambda>f. canonical_identifier f = canonical name)
                   (standard_function_block_output_names block_type) then ret ()
            else
              rbind (env_get (field_key inst (canonical name))) (\<lambda>stored.
                let v = value_or VUnit stored
                in assign c variable
                     (if pa_negated a
                      then VBool (\<not> (case as_bool v of Some b \<Rightarrow> b | None \<Rightarrow> False)) else v)))
       | _ \<Rightarrow> ret ())"

subsection \<open>User blocks\<close>

definition block_inputs :: "pou \<Rightarrow> (var_block_kind \<times> ident) list" where
  "block_inputs u =
     concat (map (\<lambda>b. map (\<lambda>d. (vb_kind b, var_name d)) (vb_vars b))
       (filter (\<lambda>b. vb_kind b \<in> {VarInput, VarInOut}) (pou_var_blocks u)))"

text \<open>The inputs of the call into the fields of the instance; an edge input stores an edge.\<close>

definition set_block_input ::
    "calls \<Rightarrow> string \<Rightarrow> pou \<Rightarrow> param_assignment \<Rightarrow> nat \<Rightarrow> nat rt" where
  "set_block_input c inst u a positional_index =
     (case user_fb_input_target (block_inputs u) a positional_index of
        (None, next_index) \<Rightarrow> ret next_index
      | (Some (_, name), next_index) \<Rightarrow>
          rbind (eval_optional c (pa_expr a)) (\<lambda>v.
          rbind (case user_fb_input_edge u (canonical name) of
                   Some edge \<Rightarrow> edge_qualified_input_value inst (canonical name) edge (value_or VUnit v)
                 | None \<Rightarrow> ret (value_or VUnit v)) (\<lambda>x.
            rseq (set_field inst (canonical name) x) (ret next_index))))"

definition load_block_field :: "calls \<Rightarrow> runtime \<Rightarrow> string \<Rightarrow> var_decl \<Rightarrow> unit rt" where
  "load_block_field c parent inst d =
     rseq (types_insert (canonical (var_name d)) (var_type d))
       (if function_block_field_specs (rt_project parent) (var_type d) \<noteq> None then
          copy_function_block_state_into_runtime c parent (field_key inst (canonical (var_name d)))
            (canonical (var_name d)) (var_type d)
        else
          rbind (case bt_get (rt_env parent) (field_key inst (canonical (var_name d))) of
                   Some v \<Rightarrow> ret v | None \<Rightarrow> default_value c (var_type d)) (\<lambda>v.
            env_insert (canonical (var_name d)) v))"

definition store_block_field :: "calls \<Rightarrow> runtime \<Rightarrow> string \<Rightarrow> var_decl \<Rightarrow> unit rt" where
  "store_block_field c child inst d =
     rbind (rget (\<lambda>s. function_block_field_specs (rt_project s) (var_type d))) (\<lambda>nested.
       if nested \<noteq> None then
         copy_function_block_state_from_runtime c child (canonical (var_name d))
           (field_key inst (canonical (var_name d))) (var_type d)
       else case bt_get (rt_env child) (canonical (var_name d)) of
              Some v \<Rightarrow> set_field inst (canonical (var_name d)) v
            | None \<Rightarrow> ret ())"

definition store_in_out ::
    "calls \<Rightarrow> string \<Rightarrow> pou \<Rightarrow> param_assignment \<Rightarrow> nat \<Rightarrow> nat rt" where
  "store_in_out c inst u a positional_index =
     (case user_fb_input_target (block_inputs u) a positional_index of
        (None, next_index) \<Rightarrow> ret next_index
      | (Some (kind, name), next_index) \<Rightarrow>
          (if kind \<noteq> VarInOut then ret next_index
           else case pa_expr a of
             Some (VariableE variable) \<Rightarrow>
               rbind (env_get (field_key inst (canonical name))) (\<lambda>stored.
                 rseq (assign c variable (value_or VUnit stored)) (ret next_index))
           | _ \<Rightarrow>
               rseq (push (runtime_error (''VAR_IN_OUT parameter '' @ quoted (original name) @
                      '' requires a variable actual'')))
                 (ret next_index)))"

definition store_output :: "calls \<Rightarrow> string \<Rightarrow> param_assignment \<Rightarrow> unit rt" where
  "store_output c inst a =
     (case (pa_output a, pa_name a, pa_variable a) of
        (True, Some name, Some variable) \<Rightarrow>
          (if is_implicit_eno name then ret ()
           else rbind (env_get (field_key inst (canonical name))) (\<lambda>stored.
                  assign c variable (value_or VUnit stored)))
      | _ \<Rightarrow> ret ())"

definition execute_user_function_block ::
    "calls \<Rightarrow> string \<Rightarrow> pou \<Rightarrow> param_assignment list \<Rightarrow> unit rt" where
  "execute_user_function_block c inst u args =
     rbind (rfold args (set_block_input c inst u) 0) (\<lambda>_.
     rbind (\<lambda>s. in_child (child_runtime s u)
              (rseq (rfor (variable_declarations u) (load_block_field c s inst))
                (run_body c (body_statements (pou_body u)))) s) (\<lambda>(_, child).
     rseq (rfor (variable_declarations u) (store_block_field c child inst))
       (rseq (extend_diagnostics (rt_diagnostics child))
         (rbind (rfold args (store_in_out c inst u) 0) (\<lambda>_.
           rfor args (store_output c inst))))))"

text \<open>The block of a call: named, communication, user or none. The result says whether it ran.\<close>

definition execute_block_type ::
    "calls \<Rightarrow> string \<Rightarrow> ident \<Rightarrow> (string, val) bmap \<Rightarrow> param_assignment list \<Rightarrow> bool rt" where
  "execute_block_type c inst type_name inputs args =
     (case execute_named_block (canonical type_name) inst inputs of
        Some m \<Rightarrow> rseq m (ret True)
      | None \<Rightarrow>
          (if is_communication_function_block (original type_name) then
             execute_communication_function_block inst type_name inputs
           else
             rbind (rget (\<lambda>s. find_function_block (rt_project s) (original type_name))) (\<lambda>found.
               case found of
                 Some u \<Rightarrow> rseq (execute_user_function_block c inst u args) (ret True)
               | None \<Rightarrow>
                   rseq (push (unsupported (''function block type '' @ quoted (original type_name) @
                          '' is not executable yet'')))
                     (ret False))))"

definition execute_fb_call :: "calls \<Rightarrow> variable_ref \<Rightarrow> param_assignment list \<Rightarrow> unit rt" where
  "execute_fb_call c name args =
     (case root_name name of
        None \<Rightarrow> ret ()
      | Some r \<Rightarrow>
          rbind (rget (\<lambda>s. bt_get (rt_types s) (canonical r))) (\<lambda>spec.
            case spec of
              Some (DtNamed type_name) \<Rightarrow>
                rbind (function_call_enabled c args) (\<lambda>enabled.
                  if \<not> enabled then assign_function_eno c args False
                  else
                    rbind (eval_fb_inputs c (original type_name) args) (\<lambda>inputs.
                    rbind (execute_block_type c (canonical r) type_name inputs args) (\<lambda>executed.
                      rseq (if executed \<and> is_standard_function_block_type (original type_name) then
                              assign_standard_function_block_outputs c (canonical r) (original type_name) args
                            else ret ())
                        (assign_function_eno c args executed))))
            | _ \<Rightarrow>
                push (unsupported (''function block instance '' @ quoted (original r) @
                  '' has no executable type''))))"

end
