(* ===== verification/RtExec.thy ===== *)
theory RtExec
  imports RtCall
begin

text \<open>
  Expressions, statements, instruction lists and sequential function charts of the
  interpreter (\<open>iec_runtime/src/runtime.rs\<close>), and the knot \<open>interp n\<close> that ties the
  recursive operations together. Every loop of the source ends at the option
  \<open>max_loop_iterations\<close>; the loops here count their turns as the source does.
\<close>

section \<open>Expressions\<close>

fun eval_all :: "calls \<Rightarrow> expr list \<Rightarrow> val list option rt" where
  "eval_all c [] = ret (Some [])"
| "eval_all c (e # es) =
     rtry (c_eval c e) (\<lambda>v. rtry (eval_all c es) (\<lambda>vs. ret (Some (v # vs))))"

definition struct_literal_field ::
    "calls \<Rightarrow> param_assignment \<Rightarrow> (string, val) bmap \<Rightarrow> (string, val) bmap rt" where
  "struct_literal_field c f values =
     (case pa_name f of
        None \<Rightarrow> ret values
      | Some name \<Rightarrow>
          rmap (\<lambda>v. bt_insert (canonical name) (value_or VUnit v) values) (eval_optional c (pa_expr f)))"

definition eval_expr :: "calls \<Rightarrow> expr \<Rightarrow> val option rt" where
  "eval_expr c e =
     (case e of
        LiteralE l \<Rightarrow> (\<lambda>s. rlift (omap Some (literal_to_value (checked s) (rt_project s) l)) s)
      | VariableE variable \<Rightarrow> resolve c variable
      | UnaryE unop e1 \<Rightarrow> rtry (c_eval c e1) (eval_unary unop)
      | BinaryE binop l r \<Rightarrow>
          rtry (c_eval c l) (\<lambda>left.
            case left of
              VBool b \<Rightarrow>
                (if binop = OpAnd \<and> \<not> b then ret (Some (VBool False))
                 else if binop = OpOr \<and> b then ret (Some (VBool True))
                 else rtry (c_eval c r) (\<lambda>right. eval_binary binop (VBool b) right))
            | _ \<Rightarrow> rtry (c_eval c r) (\<lambda>right. eval_binary binop left right))
      | CallE name args \<Rightarrow> eval_call c name args
      | ArrayLiteralE es \<Rightarrow> rtry (eval_all c es) (\<lambda>vs. ret (Some (VArray vs)))
      | StructLiteralE fs \<Rightarrow> rmap (\<lambda>values. Some (VStruct values)) (rfold fs (struct_literal_field c) []))"

section \<open>Instruction lists\<close>

definition accumulator_bool :: "runtime \<Rightarrow> bool" where
  "accumulator_bool s = (case as_bool (rt_accumulator s) of Some b \<Rightarrow> b | None \<Rightarrow> False)"

definition bool_of :: "val \<Rightarrow> bool" where
  "bool_of v = (case as_bool v of Some b \<Rightarrow> b | None \<Rightarrow> False)"

text \<open>The operator an instruction applies to the accumulator.\<close>

definition il_binary :: "il_op \<Rightarrow> binary_op option" where
  "il_binary ilop = (case ilop of
       IlAnd \<Rightarrow> Some OpAnd | IlAndn \<Rightarrow> Some OpAnd
     | IlOr \<Rightarrow> Some OpOr | IlOrn \<Rightarrow> Some OpOr
     | IlXor \<Rightarrow> Some OpXor | IlXorn \<Rightarrow> Some OpXor
     | IlAdd \<Rightarrow> Some OpAdd | IlSub \<Rightarrow> Some OpSub | IlMul \<Rightarrow> Some OpMul
     | IlDiv \<Rightarrow> Some OpDiv | IlMod \<Rightarrow> Some OpMod
     | IlGt \<Rightarrow> Some OpGreater | IlGe \<Rightarrow> Some OpGreaterEqual | IlEq \<Rightarrow> Some OpEqual
     | IlNe \<Rightarrow> Some OpNotEqual | IlLe \<Rightarrow> Some OpLessEqual | IlLt \<Rightarrow> Some OpLess
     | _ \<Rightarrow> None)"

definition apply_to_accumulator :: "binary_op \<Rightarrow> val \<Rightarrow> unit rt" where
  "apply_to_accumulator binop right =
     rbind (rget rt_accumulator) (\<lambda>acc. rbind (eval_binary binop acc right) (\<lambda>r.
       case r of Some v \<Rightarrow> set_accumulator v | None \<Rightarrow> ret ()))"

definition execute_il_call :: "calls \<Rightarrow> expr option \<Rightarrow> unit rt" where
  "execute_il_call c operand =
     (case operand of
        Some (CallE name args) \<Rightarrow> execute_fb_call c (variable_named (original name)) args
      | Some (VariableE variable) \<Rightarrow> execute_fb_call c variable []
      | _ \<Rightarrow> push (runtime_error ''IL CAL instruction requires a function block instance operand''))"

text \<open>The condition of a conditional instruction: none, accumulator true, accumulator false.\<close>

definition il_condition :: "il_op \<Rightarrow> bool \<Rightarrow> bool" where
  "il_condition ilop acc =
     (if ilop \<in> {IlJmp, IlCal, IlRet} then True
      else if ilop \<in> {IlJmpc, IlCalc, IlRetc} then acc
      else if ilop \<in> {IlJmpcn, IlCalcn, IlRetcn} then \<not> acc
      else False)"

definition execute_il_instruction :: "calls \<Rightarrow> il_op \<Rightarrow> expr option \<Rightarrow> control rt" where
  "execute_il_instruction c ilop operand =
     (if ilop \<in> {IlLd, IlLdn} then
        rbind (eval_optional c operand) (\<lambda>v.
          let v = value_or VUnit v
          in rseq (set_accumulator (if ilop = IlLdn then VBool (\<not> bool_of v) else v)) (ret Continue))
      else if ilop \<in> {IlSt, IlStn} then
        rseq
          (case operand of
             Some (VariableE target) \<Rightarrow>
               rbind (rget (\<lambda>s. if ilop = IlStn then VBool (\<not> accumulator_bool s) else rt_accumulator s))
                 (assign c target)
           | _ \<Rightarrow> ret ())
          (ret Continue)
      else if ilop \<in> {IlS, IlR} then
        rbind (rget accumulator_bool) (\<lambda>acc.
          rseq
            (case operand of
               Some (VariableE target) \<Rightarrow>
                 (if acc then assign c target (VBool (ilop = IlS)) else ret ())
             | _ \<Rightarrow> ret ())
            (ret Continue))
      else if ilop = IlNot then
        rseq (rbind (rget accumulator_bool) (\<lambda>acc. set_accumulator (VBool (\<not> acc)))) (ret Continue)
      else if ilop \<in> {IlJmp, IlJmpc, IlJmpcn} then
        rbind (rget accumulator_bool) (\<lambda>acc.
          if il_condition ilop acc then
            (case Option.bind operand il_label_operand of
               Some label \<Rightarrow> ret (Jump (canonical label))
             | None \<Rightarrow>
                 rseq (push (runtime_error ''IL jump instruction requires a label operand'')) (ret Continue))
          else ret Continue)
      else if ilop \<in> {IlCal, IlCalc, IlCalcn} then
        rbind (rget accumulator_bool) (\<lambda>acc.
          rseq (if il_condition ilop acc then execute_il_call c operand else ret ()) (ret Continue))
      else if ilop \<in> {IlRet, IlRetc, IlRetcn} then
        rbind (rget accumulator_bool) (\<lambda>acc.
          ret (if il_condition ilop acc then Return else Continue))
      else
        (case il_binary ilop of
           None \<Rightarrow> ret Continue
         | Some binop \<Rightarrow>
             (let logical = ilop \<in> {IlAnd, IlAndn, IlOr, IlOrn, IlXor, IlXorn} in
              rbind (eval_optional c operand) (\<lambda>v.
                let right = value_or (if logical then VBool False else VInt 0) v;
                    right = (if ilop \<in> {IlAndn, IlOrn, IlXorn} then VBool (\<not> bool_of right) else right)
                in rseq (apply_to_accumulator binop right) (ret Continue)))))"

section \<open>Loops\<close>

definition condition :: "calls \<Rightarrow> expr \<Rightarrow> bool rt" where
  "condition c e = rmap (\<lambda>v. Option.bind v as_bool = Some True) (c_eval c e)"

definition int_or :: "int \<Rightarrow> val option \<Rightarrow> int" where
  "int_or d v = (case Option.bind v as_i64 of Some n \<Rightarrow> n | None \<Rightarrow> d)"

text \<open>What a loop does with the result of its body: it leaves the loop with a control, or goes on.\<close>

definition leaves :: "control \<Rightarrow> control option" where
  "leaves ctl = (case ctl of
       Continue \<Rightarrow> None
     | Exit \<Rightarrow> Some Continue
     | Return \<Rightarrow> Some Return
     | Jump label \<Rightarrow> Some (Jump label))"

function for_loop :: "nat \<Rightarrow> string \<Rightarrow> int \<Rightarrow> int \<Rightarrow> control rt \<Rightarrow> int \<Rightarrow> nat \<Rightarrow> control rt" where
  "for_loop max_iter name stop step body v iterations =
     (if \<not> (if step > 0 then v \<le> stop else v \<ge> stop) then ret Continue
      else
        rseq (env_insert name (VInt v)) (rbind body (\<lambda>ctl.
          case leaves ctl of
            Some r \<Rightarrow> ret r
          | None \<Rightarrow>
              rbind (add_i64 v step) (\<lambda>v'.
                if iterations + 1 > max_iter then
                  rseq (push (runtime_error ''maximum FOR loop iteration count exceeded'')) (ret Continue)
                else for_loop max_iter name stop step body v' (iterations + 1)))))"
  by pat_completeness auto
termination
  by (relation "measure (\<lambda>(max_iter, _, _, _, _, _, iterations). Suc max_iter - iterations)") auto

function while_loop :: "nat \<Rightarrow> bool rt \<Rightarrow> control rt \<Rightarrow> nat \<Rightarrow> control rt" where
  "while_loop max_iter cond body iterations =
     rbind cond (\<lambda>b.
       if \<not> b then ret Continue
       else rbind body (\<lambda>ctl.
         case leaves ctl of
           Some r \<Rightarrow> ret r
         | None \<Rightarrow>
             (if iterations + 1 > max_iter then
                rseq (push (runtime_error ''maximum WHILE loop iteration count exceeded'')) (ret Continue)
              else while_loop max_iter cond body (iterations + 1))))"
  by pat_completeness auto
termination
  by (relation "measure (\<lambda>(max_iter, _, _, iterations). Suc max_iter - iterations)") auto

function repeat_loop :: "nat \<Rightarrow> control rt \<Rightarrow> bool rt \<Rightarrow> nat \<Rightarrow> control rt" where
  "repeat_loop max_iter body until iterations =
     rbind body (\<lambda>ctl.
       case leaves ctl of
         Some r \<Rightarrow> ret r
       | None \<Rightarrow>
           rbind until (\<lambda>b.
             if b then ret Continue
             else if iterations + 1 > max_iter then
               rseq (push (runtime_error ''maximum REPEAT loop iteration count exceeded'')) (ret Continue)
             else repeat_loop max_iter body until (iterations + 1)))"
  by pat_completeness auto
termination
  by (relation "measure (\<lambda>(max_iter, _, _, iterations). Suc max_iter - iterations)") auto

text \<open>A list of statements with labels, run by an instruction pointer.\<close>

function statements_loop ::
    "nat \<Rightarrow> statement list \<Rightarrow> (string, nat) bmap \<Rightarrow> (statement \<Rightarrow> control rt) \<Rightarrow> nat \<Rightarrow> nat \<Rightarrow> control rt" where
  "statements_loop max_iter statements labels exec ip iterations =
     (if ip \<ge> length statements then ret Continue
      else
        rbind (exec (statements ! ip)) (\<lambda>ctl.
          case (case ctl of
                  Continue \<Rightarrow> Inr (ip + 1)
                | Jump label \<Rightarrow> (case bt_get labels label of Some i \<Rightarrow> Inr i | None \<Rightarrow> Inl (Jump label))
                | Exit \<Rightarrow> Inl Exit
                | Return \<Rightarrow> Inl Return) of
            Inl r \<Rightarrow> ret r
          | Inr ip' \<Rightarrow>
              (if iterations + 1 > max_iter then
                 rseq (push (runtime_error ''maximum statement execution count exceeded'')) (ret Continue)
               else statements_loop max_iter statements labels exec ip' (iterations + 1))))"
  by pat_completeness auto
termination
  by (relation "measure (\<lambda>(max_iter, _, _, _, _, iterations). Suc max_iter - iterations)") auto

declare for_loop.simps [simp del] while_loop.simps [simp del] repeat_loop.simps [simp del]
  statements_loop.simps [simp del]

section \<open>Statements\<close>

definition case_label_matches :: "calls \<Rightarrow> case_label \<Rightarrow> val \<Rightarrow> bool rt" where
  "case_label_matches c label selector =
     (case label of
        SingleLabel e \<Rightarrow>
          rmap (\<lambda>v. case v of Some x \<Rightarrow> rt_compare_values x selector = Some 0 | None \<Rightarrow> False) (c_eval c e)
      | RangeLabel low high \<Rightarrow>
          rbind (c_eval c low) (\<lambda>l. rbind (c_eval c high) (\<lambda>h.
            ret (case (Option.bind l as_i64, Option.bind h as_i64, as_i64 selector) of
                   (Some a, Some b, Some n) \<Rightarrow> n \<ge> a \<and> n \<le> b
                 | _ \<Rightarrow> False))))"

fun any_label_matches :: "calls \<Rightarrow> case_label list \<Rightarrow> val \<Rightarrow> bool rt" where
  "any_label_matches c [] selector = ret False"
| "any_label_matches c (label # labels) selector =
     rbind (case_label_matches c label selector) (\<lambda>b.
       if b then ret True else any_label_matches c labels selector)"

fun execute_branches ::
    "calls \<Rightarrow> (expr \<times> statement list) list \<Rightarrow> statement list \<Rightarrow> control rt" where
  "execute_branches c [] else_branch = c_block c else_branch"
| "execute_branches c ((e, body) # branches) else_branch =
     rbind (condition c e) (\<lambda>b. if b then c_block c body else execute_branches c branches else_branch)"

fun execute_cases ::
    "calls \<Rightarrow> val \<Rightarrow> (case_label list \<times> statement list) list \<Rightarrow> statement list \<Rightarrow> control rt" where
  "execute_cases c selector [] else_branch = c_block c else_branch"
| "execute_cases c selector ((labels, body) # cases) else_branch =
     rbind (any_label_matches c labels selector) (\<lambda>b.
       if b then c_block c body else execute_cases c selector cases else_branch)"

definition iteration_bound :: "runtime \<Rightarrow> nat" where
  "iteration_bound s = max_loop_iterations (rt_options s)"

definition execute_for ::
    "calls \<Rightarrow> ident \<Rightarrow> expr \<Rightarrow> expr \<Rightarrow> expr option \<Rightarrow> statement list \<Rightarrow> control rt" where
  "execute_for c name start stop step body =
     rbind (rmap (int_or 0) (c_eval c start)) (\<lambda>v.
     rbind (rmap (int_or 0) (c_eval c stop)) (\<lambda>n.
     rbind (rmap (int_or 1) (eval_optional c step)) (\<lambda>d.
       if d = 0 then
         rseq (push (runtime_error ''FOR loop BY value cannot be zero'')) (ret Continue)
       else
         rbind (rget iteration_bound) (\<lambda>max_iter.
           for_loop max_iter (canonical name) n d (c_block c body) v 0))))"

definition execute_statement :: "calls \<Rightarrow> statement \<Rightarrow> control rt" where
  "execute_statement c st =
     (case st of
        EmptyS \<Rightarrow> ret Continue
      | AssignmentS target e \<Rightarrow>
          rbind (c_eval c e) (\<lambda>v.
            case v of
              None \<Rightarrow> ret Continue
            | Some x \<Rightarrow> rseq (assign c target x) (ret Continue))
      | IfS branches else_branch \<Rightarrow> execute_branches c branches else_branch
      | CaseS selector cases else_branch \<Rightarrow>
          rbind (c_eval c selector) (\<lambda>v.
            case v of
              Some x \<Rightarrow> execute_cases c x cases else_branch
            | None \<Rightarrow> c_block c else_branch)
      | ForS name start stop step body \<Rightarrow> execute_for c name start stop step body
      | WhileS e body \<Rightarrow>
          rbind (rget iteration_bound) (\<lambda>max_iter.
            while_loop max_iter (condition c e) (c_block c body) 0)
      | RepeatS body e \<Rightarrow>
          rbind (rget iteration_bound) (\<lambda>max_iter.
            repeat_loop max_iter (c_block c body) (condition c e) 0)
      | IlInstrS ilop operand \<Rightarrow> execute_il_instruction c ilop operand
      | IlLabelS _ \<Rightarrow> ret Continue
      | FbCallS name args \<Rightarrow>
          rseq
            (case root_name name of
               Some r \<Rightarrow>
                 (if is_standard_void_function (original r) then execute_standard_void_call c r args
                  else execute_fb_call c name args)
             | None \<Rightarrow> execute_fb_call c name args)
            (ret Continue)
      | ExitS \<Rightarrow> ret Exit
      | ReturnS \<Rightarrow> ret Return
      | UnsupportedS msg \<Rightarrow>
          rseq (push (unsupported (''skipping unsupported statement: '' @ msg))) (ret Continue))"

fun execute_block :: "calls \<Rightarrow> statement list \<Rightarrow> control rt" where
  "execute_block c [] = ret Continue"
| "execute_block c (st # sts) =
     rbind (execute_statement c st) (\<lambda>ctl.
       case ctl of Continue \<Rightarrow> execute_block c sts | _ \<Rightarrow> ret ctl)"

definition statement_labels :: "statement list \<Rightarrow> (string, nat) bmap" where
  "statement_labels statements =
     bt_collect (List.map_filter (\<lambda>(index, st). case st of
         IlLabelS label \<Rightarrow> Some (canonical label, index) | _ \<Rightarrow> None)
       (enumerate 0 statements))"

definition execute_statement_list :: "calls \<Rightarrow> statement list \<Rightarrow> control rt" where
  "execute_statement_list c statements =
     rbind (rget iteration_bound) (\<lambda>max_iter.
       statements_loop max_iter statements (statement_labels statements) (execute_statement c) 0 0)"

section \<open>The knot\<close>

definition no_calls :: calls where
  "no_calls =
     \<lparr> c_eval = (\<lambda>_. out_of_fuel), c_statements = (\<lambda>_. out_of_fuel), c_block = (\<lambda>_. out_of_fuel),
       c_initial = (\<lambda>_ _. out_of_fuel), c_default = (\<lambda>_. out_of_fuel),
       c_init_block = (\<lambda>_ _. out_of_fuel), c_indices = (\<lambda>_ _ _. out_of_fuel),
       c_assign_into = (\<lambda>_ _ _ _ _. out_of_fuel), c_assign_indexed = (\<lambda>_ _ _ _ _ _. out_of_fuel),
       c_constrain = (\<lambda>_ _. out_of_fuel), c_copy_into = (\<lambda>_ _ _ _. out_of_fuel),
       c_copy_from = (\<lambda>_ _ _ _. out_of_fuel) \<rparr>"

definition deeper :: "calls \<Rightarrow> calls" where
  "deeper c =
     \<lparr> c_eval = eval_expr c, c_statements = execute_statement_list c, c_block = execute_block c,
       c_initial = initial_value_for_spec c, c_default = default_value c,
       c_init_block = initialize_function_block_instance c, c_indices = apply_indices_loop c,
       c_assign_into = assign_into_value c, c_assign_indexed = assign_into_indexed_value c,
       c_constrain = constrain_value c,
       c_copy_into = copy_function_block_state_into_runtime c,
       c_copy_from = copy_function_block_state_from_runtime c \<rparr>"

primrec interp :: "nat \<Rightarrow> calls" where
  "interp 0 = no_calls"
| "interp (Suc n) = deeper (interp n)"

end
