(* ===== verification/RtSfc.thy ===== *)
theory RtSfc
  imports RtExec "HOL-Library.Product_Lexorder"
begin

text \<open>
  Sequential function charts in the interpreter (\<open>iec_runtime/src/runtime.rs\<close>): whether an
  action runs in a scan, the transitions that fire and the steps they deactivate and
  activate. A step is active when its key holds a true value.
\<close>

section \<open>Action control\<close>

definition sfc_action_stored :: "string \<Rightarrow> bool rt" where
  "sfc_action_stored key = rget (\<lambda>s.
     case Option.bind (bt_get (rt_env s) (sfc_action_control_key_stored key)) as_bool of
       Some b \<Rightarrow> b | None \<Rightarrow> False)"

definition set_sfc_action_stored :: "string \<Rightarrow> bool \<Rightarrow> unit rt" where
  "set_sfc_action_stored key b = env_insert (sfc_action_control_key_stored key) (VBool b)"

definition sfc_action_elapsed :: "string \<Rightarrow> int rt" where
  "sfc_action_elapsed key = rget (\<lambda>s.
     case Option.bind (bt_get (rt_env s) (sfc_action_control_key_elapsed key)) as_i64 of
       Some n \<Rightarrow> n | None \<Rightarrow> 0)"

definition set_sfc_action_elapsed :: "string \<Rightarrow> int \<Rightarrow> unit rt" where
  "set_sfc_action_elapsed key elapsed =
     env_insert (sfc_action_control_key_elapsed key) (VInt (wrap_i64 elapsed))"

definition advance_sfc_action_elapsed :: "string \<Rightarrow> int rt" where
  "advance_sfc_action_elapsed key =
     rbind (sfc_action_elapsed key) (\<lambda>n. rbind (rget (\<lambda>s. max (cycle_time_ms (rt_options s)) 1)) (\<lambda>ct.
       rbind (add_i128 n ct) (\<lambda>elapsed.
         rseq (set_sfc_action_elapsed key elapsed) (ret elapsed))))"

definition active_with :: "sfc_action_qualifier \<Rightarrow> sfc_action_input list \<Rightarrow> bool" where
  "active_with q inputs \<longleftrightarrow> list_ex (\<lambda>i. ai_active i \<and> ai_qualifier i = q) inputs"

text \<open>The pulses: the previous state is replaced by the present one.\<close>

definition pulse_executes :: "string \<Rightarrow> sfc_action_input list \<Rightarrow> bool rt" where
  "pulse_executes key inputs =
     (let pulse_active = active_with Pulse inputs;
          has_falling = list_ex (\<lambda>i. ai_qualifier i = PulseFalling) inputs;
          falling_active = active_with PulseFalling inputs;
          previous_key = sfc_action_control_key_previous key
      in rbind (rget (\<lambda>s. case Option.bind (bt_get (rt_env s) previous_key) as_bool of
                            Some b \<Rightarrow> b | None \<Rightarrow> False)) (\<lambda>was_active.
           rseq (env_insert previous_key (VBool (pulse_active \<or> falling_active)))
             (ret (active_with NonStored inputs \<or> (pulse_active \<and> \<not> was_active) \<or>
                   (has_falling \<and> \<not> falling_active \<and> was_active)))))"

definition timed_executes :: "string \<Rightarrow> sfc_action_input list \<Rightarrow> bool rt" where
  "timed_executes key inputs =
     (case List.find (\<lambda>i. ai_active i \<and> requires_duration (ai_qualifier i)) inputs of
        Some i \<Rightarrow>
          (let duration = sfc_action_duration_ms (ai_duration i) in
           case ai_qualifier i of
             TimeLimited \<Rightarrow> rmap (\<lambda>elapsed. elapsed \<le> duration) (advance_sfc_action_elapsed key)
           | TimeDelayed \<Rightarrow> rmap (\<lambda>elapsed. elapsed \<ge> duration) (advance_sfc_action_elapsed key)
           | StoredLimited \<Rightarrow>
               rbind (sfc_action_stored key) (\<lambda>stored.
                 if \<not> stored then
                   rseq (set_sfc_action_stored key True)
                     (rseq (set_sfc_action_elapsed key 0) (ret False))
                 else ret False)
           | _ \<Rightarrow>
               rbind (advance_sfc_action_elapsed key) (\<lambda>elapsed.
                 if elapsed \<ge> duration then rseq (set_sfc_action_stored key True) (ret False)
                 else ret False))
      | None \<Rightarrow>
          rbind (sfc_action_stored key) (\<lambda>stored.
            if \<not> stored then rseq (set_sfc_action_elapsed key 0) (ret False) else ret False))"

text \<open>A stored action runs; a limited one until its time is over.\<close>

definition stored_executes :: "string \<Rightarrow> sfc_action_input list \<Rightarrow> bool \<Rightarrow> bool rt" where
  "stored_executes key inputs should_execute =
     rbind (sfc_action_stored key) (\<lambda>stored.
       if stored \<and> list_ex (\<lambda>i. ai_qualifier i = StoredLimited) inputs then
         rbind (advance_sfc_action_elapsed key) (\<lambda>elapsed.
           let duration = Option.bind
                 (List.find (\<lambda>i. ai_active i \<and> ai_qualifier i = StoredLimited) inputs) ai_duration
           in if elapsed \<le> sfc_action_duration_ms duration then ret True
              else rseq (set_sfc_action_stored key False) (ret False))
       else ret (should_execute \<or> stored))"

definition sfc_action_should_execute ::
    "string \<Rightarrow> ident \<Rightarrow> sfc_action_input list \<Rightarrow> bool rt" where
  "sfc_action_should_execute key name inputs =
     (if length (filter (\<lambda>i. ai_active i \<and> requires_duration (ai_qualifier i)) inputs) > 1 then
        rseq (push (runtime_error (''SFC action '' @ quoted (original name) @
               '' has more than one active time-related association'')))
          (ret False)
      else
        let reset_active = active_with ResetStored inputs in
        rseq (if reset_active then
                rseq (set_sfc_action_stored key False) (set_sfc_action_elapsed key 0)
              else ret ())
          (rbind (pulse_executes key inputs) (\<lambda>pulsed.
           rseq (if active_with SetStored inputs then set_sfc_action_stored key True else ret ())
             (rbind (timed_executes key inputs) (\<lambda>timed.
              rbind (stored_executes key inputs (pulsed \<or> timed)) (\<lambda>should_execute.
                ret (should_execute \<and> \<not> reset_active)))))))"

section \<open>Transitions\<close>

definition step_active :: "runtime \<Rightarrow> ident \<Rightarrow> bool" where
  "step_active s step \<longleftrightarrow> Option.bind (bt_get (rt_env s) (sfc_step_key step)) as_bool = Some True"

definition active_step_names :: "sfc \<Rightarrow> runtime \<Rightarrow> string list" where
  "active_step_names chart s =
     map (\<lambda>step. canonical (step_name step)) (filter (\<lambda>step. step_active s (step_name step)) (sfc_steps chart))"

text \<open>A transition that may fire: priority, index, the steps it leaves and the steps it enters.\<close>

type_synonym candidate = "int \<times> nat \<times> ident list \<times> ident list"

definition transition_candidate ::
    "calls \<Rightarrow> sfc \<Rightarrow> nat \<times> sfc_transition \<Rightarrow> candidate list \<Rightarrow> candidate list rt" where
  "transition_candidate c chart it candidates =
     (case it of (index, t) \<Rightarrow>
        case sfc_transition_steps chart t index of
          None \<Rightarrow> ret candidates
        | Some (from_steps, to_steps) \<Rightarrow>
            rbind (rget (\<lambda>s. list_all (step_active s) from_steps)) (\<lambda>from_active.
              if \<not> from_active then ret candidates
              else
                rbind (eval_optional c (trans_condition t)) (\<lambda>v.
                  if Option.bind v as_bool = Some True then
                    ret (candidates @
                      [(case trans_priority t of Some n \<Rightarrow> n | None \<Rightarrow> i64_max, index, from_steps, to_steps)])
                  else ret candidates)))"

definition fire_transition :: "candidate \<Rightarrow> string list \<Rightarrow> string list rt" where
  "fire_transition cand consumed =
     (case cand of (_, _, from_steps, to_steps) \<Rightarrow>
        if list_ex (\<lambda>step. canonical step \<in> set consumed) from_steps then ret consumed
        else
          rseq (rfor from_steps (\<lambda>step. env_insert (sfc_step_key step) (VBool False)))
            (rseq (rfor to_steps (\<lambda>step. env_insert (sfc_step_key step) (VBool True)))
              (ret (map canonical from_steps @ consumed))))"

definition fire_transitions :: "candidate list \<Rightarrow> unit rt" where
  "fire_transitions candidates =
     rbind (rfold (sort_key (\<lambda>(priority, index, _, _). (priority, index)) candidates) fire_transition [])
       (\<lambda>_. ret ())"

fun execute_sfc_actions :: "calls \<Rightarrow> sfc \<Rightarrow> string list \<Rightarrow> sfc_action list \<Rightarrow> control rt" where
  "execute_sfc_actions c chart active_steps [] = ret Continue"
| "execute_sfc_actions c chart active_steps (action # actions) =
     rbind (sfc_action_should_execute (sfc_action_control_key (action_name action)) (action_name action)
              (sfc_action_inputs chart action active_steps)) (\<lambda>run.
       if run then
         rbind (c_statements c (action_body action)) (\<lambda>ctl.
           if ctl = Continue \<or> ctl = Return then execute_sfc_actions c chart active_steps actions
           else ret ctl)
       else execute_sfc_actions c chart active_steps actions)"

definition execute_sfc :: "calls \<Rightarrow> sfc \<Rightarrow> control rt" where
  "execute_sfc c chart =
     rbind (rget (active_step_names chart)) (\<lambda>active_steps.
     rbind (execute_sfc_actions c chart active_steps (sfc_actions chart)) (\<lambda>ctl.
       if ctl \<noteq> Continue then ret ctl
       else
         rbind (rfold (enumerate 0 (sfc_transitions chart)) (transition_candidate c chart) []) (\<lambda>candidates.
           rseq (fire_transitions candidates) (ret Continue))))"

definition execute_program_cycle :: "calls \<Rightarrow> control rt" where
  "execute_program_cycle c =
     rbind (rget (\<lambda>s. pou_body (rt_program s))) (\<lambda>body.
       case body_sfc body of
         Some chart \<Rightarrow> execute_sfc c chart
       | None \<Rightarrow> execute_statement_list c (body_statements body))"

end
