(* ===== verification/RtRun.thy ===== *)
theory RtRun
  imports RtSfc
begin

text \<open>
  A program run for a number of scan cycles (\<open>iec_runtime/src/lib.rs\<close>), with its access
  paths (\<open>iec_runtime/src/configuration.rs\<close>, \<open>iec_runtime/src/runtime.rs\<close>). A run has no
  result when its fuel does not suffice, panics, or ends with a trace or with diagnostics.
\<close>

section \<open>Access paths\<close>

record access_path_declaration =
  apd_name :: string
  apd_target :: string
  apd_direction :: access_direction
  apd_spec :: data_type_spec

definition access_declarations :: "var_block list \<Rightarrow> access_path_declaration list" where
  "access_declarations blocks =
     List.map_filter (\<lambda>d. map_option (\<lambda>a.
         \<lparr> apd_name = original (var_name d), apd_target = trim (access_path a),
           apd_direction = access_dir a, apd_spec = var_type d \<rparr>) (var_access d))
       (concat (map vb_vars (filter (\<lambda>b. vb_kind b = VarAccess) blocks)))"

definition is_symbolic_access_part :: "string \<Rightarrow> bool" where
  "is_symbolic_access_part part = (case part of
       [] \<Rightarrow> False
     | first # rest \<Rightarrow>
         (is_ascii_alphabetic first \<or> first = CHR ''_'') \<and>
         list_all (\<lambda>ch. is_ascii_alphanumeric ch \<or> ch = CHR ''_'') rest)"

definition variable_ref_from_access_path :: "string \<Rightarrow> variable_ref option" where
  "variable_ref_from_access_path path =
     (let target = trim path in
      if starts_with target ''%'' then Some (variable_direct target)
      else
        let parts = map trim (split_at (CHR ''.'') target) in
        if list_all is_symbolic_access_part parts
        then Some (VariableRef (map ident_new parts) (replicate (length parts) []) None)
        else None)"

definition access_path_parts :: "string \<Rightarrow> string list option" where
  "access_path_parts path =
     (let parts = map trim (split_at (CHR ''.'') path) in
      if list_all is_symbolic_access_part parts then Some (map canonical_identifier parts) else None)"

record access_path_write =
  apw_cycle :: nat
  apw_name :: string
  apw_value :: val

record access_path_trace =
  apt_name :: string
  apt_target :: string
  apt_direction :: access_direction
  apt_value :: "val option"

definition access_path_value :: "calls \<Rightarrow> string \<Rightarrow> val option rt" where
  "access_path_value c target =
     (case variable_ref_from_access_path target of None \<Rightarrow> ret None | Some v \<Rightarrow> resolve c v)"

definition access_snapshot :: "calls \<Rightarrow> access_path_trace list rt" where
  "access_snapshot c =
     rbind (rget (\<lambda>s. access_declarations (pou_var_blocks (rt_program s)))) (\<lambda>declarations.
       rfold declarations (\<lambda>d acc.
         rmap (\<lambda>v. acc @ [\<lparr> apt_name = apd_name d, apt_target = apd_target d,
                            apt_direction = apd_direction d, apt_value = v \<rparr>])
           (access_path_value c (apd_target d))) [])"

definition access_subject :: "string \<Rightarrow> string" where
  "access_subject name = ''VAR_ACCESS path '' @ quoted name"

definition assign_access_target :: "calls \<Rightarrow> string \<Rightarrow> string \<Rightarrow> val \<Rightarrow> bool rt" where
  "assign_access_target c access_name target v =
     (case variable_ref_from_access_path target of
        None \<Rightarrow>
          rseq (push (runtime_error (access_subject access_name @ '' has invalid target '' @ quoted target)))
            (ret False)
      | Some variable \<Rightarrow>
          rbind (rget (\<lambda>s. variable_spec s variable)) (\<lambda>spec.
          rbind (case spec of
                   None \<Rightarrow> ret True
                 | Some t \<Rightarrow> (\<lambda>s. rlift (value_matches (checked s) (rt_project s) v t) s)) (\<lambda>matches.
            if matches then rseq (assign c variable v) (ret True)
            else
              rbind (rget (\<lambda>s. case spec of
                       Some t \<Rightarrow> runtime_spec_label (resolve_project_spec (rt_project s) t)
                     | None \<Rightarrow> [])) (\<lambda>label.
                rseq (push (runtime_error (access_subject access_name @ '' expects '' @ label @
                       '', got '' @ runtime_value_label v)))
                  (ret False)))))"

definition apply_access_write ::
    "calls \<Rightarrow> access_path_declaration list \<Rightarrow> access_path_write \<Rightarrow> unit rt" where
  "apply_access_write c declarations w =
     (case List.find (\<lambda>d. canonical_identifier (apd_name d) = canonical_identifier (apw_name w)) declarations of
        None \<Rightarrow> push (runtime_error (''unknown '' @ access_subject (apw_name w)))
      | Some d \<Rightarrow>
          (if apd_direction d \<noteq> ReadWrite then
             push (runtime_error (access_subject (apd_name d) @ '' is READ_ONLY''))
           else rbind (assign_access_target c (apd_name d) (apd_target d) (apw_value w)) (\<lambda>_. ret ())))"

definition apply_access_writes :: "calls \<Rightarrow> nat \<Rightarrow> access_path_write list \<Rightarrow> unit rt" where
  "apply_access_writes c cycle writes =
     rbind (rget (\<lambda>s. access_declarations (pou_var_blocks (rt_program s)))) (\<lambda>declarations.
       rfor (filter (\<lambda>w. apw_cycle w = cycle) writes) (apply_access_write c declarations))"

section \<open>Runs\<close>

record cycle_trace =
  ct_cycle :: nat
  ct_variables :: "(string \<times> val) list"
  ct_access_paths :: "access_path_trace list"

record runtime_trace =
  rtr_program :: string
  rtr_cycles :: "cycle_trace list"

type_synonym 'a finish = "'a outcome option"

definition finish :: "'a run \<Rightarrow> 'a finish" where
  "finish r = (case r of NoFuel \<Rightarrow> None | Crash \<Rightarrow> Some Panic | Done x s \<Rightarrow> Some (Ret x))"

definition start_runtime ::
    "platform \<Rightarrow> project \<Rightarrow> pou \<Rightarrow> runtime_options \<Rightarrow> communication_hooks \<Rightarrow> runtime" where
  "start_runtime pf p u options hooks =
     \<lparr> rt_project = p, rt_program = u, rt_env = [], rt_types = [], rt_accumulator = VUnit,
       rt_diagnostics = [], rt_options = options, rt_call_depth = 0, rt_communication = hooks,
       rt_platform = pf \<rparr>"

definition find_program :: "project \<Rightarrow> string option \<Rightarrow> pou option" where
  "find_program p name = (case name of
       Some n \<Rightarrow>
         (case find_pou p n of
            Some u \<Rightarrow> if pou_kind u = ProgramKind then Some u else None
          | None \<Rightarrow> None)
     | None \<Rightarrow> first_program p)"

text \<open>One scan cycle; the result is the trace of the cycle or nothing when the run has to stop
  with the diagnostics.\<close>

definition run_cycle :: "calls \<Rightarrow> access_path_write list \<Rightarrow> nat \<Rightarrow> cycle_trace option rt" where
  "run_cycle c writes cycle =
     rbind (rget (\<lambda>s. cycle \<in> set (warm_restart_before_cycles (rt_options s)))) (\<lambda>warm.
     rseq (if warm then initialize c Warm else ret ())
       (rseq (apply_access_writes c cycle writes)
         (rbind (rget rt_diagnostics) (\<lambda>ds.
           if ds \<noteq> [] then ret None
           else
             rseq (reset_temp_variables c)
               (rbind (execute_program_cycle c) (\<lambda>ctl.
                 rseq (report_control ctl)
                   (if ctl = Continue \<or> ctl = Return then
                      rbind (rget snapshot) (\<lambda>variables. rbind (access_snapshot c) (\<lambda>paths.
                        ret (Some \<lparr> ct_cycle = cycle, ct_variables = variables, ct_access_paths = paths \<rparr>)))
                    else ret None)))))))"

fun run_cycles ::
    "calls \<Rightarrow> access_path_write list \<Rightarrow> nat list \<Rightarrow> cycle_trace list \<Rightarrow> cycle_trace list option rt" where
  "run_cycles c writes [] acc = ret (Some acc)"
| "run_cycles c writes (cycle # cycles) acc =
     rtry (run_cycle c writes cycle) (\<lambda>t. run_cycles c writes cycles (acc @ [t]))"

definition run_machine ::
    "calls \<Rightarrow> access_path_write list \<Rightarrow> nat \<Rightarrow> (diagnostic list + runtime_trace) rt" where
  "run_machine c writes cycles =
     rseq (initialize c Cold)
       (rbind (rget rt_diagnostics) (\<lambda>ds.
         if ds \<noteq> [] then ret (Inl ds)
         else
           rbind (run_cycles c writes [0..<cycles] []) (\<lambda>result.
           rget (\<lambda>s. case result of
               Some traces \<Rightarrow>
                 (if rt_diagnostics s = []
                  then Inr \<lparr> rtr_program = original (pou_name (rt_program s)), rtr_cycles = traces \<rparr>
                  else Inl (rt_diagnostics s))
             | None \<Rightarrow> Inl (rt_diagnostics s)))))"

definition scan_limit_error :: "runtime_options \<Rightarrow> nat \<Rightarrow> diagnostic" where
  "scan_limit_error options cycles =
     diagnostic_error CodeCompliance (''scan cycle count '' @ show_nat cycles @ '' exceeds maximum '' @
       show_nat (max_scan_cycles options)) None"

definition run_program_with_runtime_services ::
    "nat \<Rightarrow> platform \<Rightarrow> project \<Rightarrow> string option \<Rightarrow> nat \<Rightarrow> runtime_options \<Rightarrow> communication_hooks \<Rightarrow>
     access_path_write list \<Rightarrow> (diagnostic list + runtime_trace) finish" where
  "run_program_with_runtime_services fuel pf p name cycles options hooks writes =
     (if cycles > max_scan_cycles options then
        Some (Ret (Inl [scan_limit_error options cycles]))
      else case find_program p name of
        None \<Rightarrow> Some (Ret (Inl [runtime_error ''no PROGRAM POU found to execute'']))
      | Some u \<Rightarrow>
          finish (run_machine (interp fuel) writes cycles (start_runtime pf p u options hooks)))"

definition run_program_with_access_writes ::
    "nat \<Rightarrow> platform \<Rightarrow> project \<Rightarrow> string option \<Rightarrow> nat \<Rightarrow> runtime_options \<Rightarrow>
     access_path_write list \<Rightarrow> (diagnostic list + runtime_trace) finish" where
  "run_program_with_access_writes fuel pf p name cycles options writes =
     run_program_with_runtime_services fuel pf p name cycles options no_communication_hooks writes"

definition run_program ::
    "nat \<Rightarrow> platform \<Rightarrow> project \<Rightarrow> string option \<Rightarrow> nat \<Rightarrow> runtime_options \<Rightarrow>
     (diagnostic list + runtime_trace) finish" where
  "run_program fuel pf p name cycles options =
     run_program_with_access_writes fuel pf p name cycles options []"

definition run_program_with_communication_hooks ::
    "nat \<Rightarrow> platform \<Rightarrow> project \<Rightarrow> string option \<Rightarrow> nat \<Rightarrow> runtime_options \<Rightarrow> communication_hooks \<Rightarrow>
     (diagnostic list + runtime_trace) finish" where
  "run_program_with_communication_hooks fuel pf p name cycles options hooks =
     run_program_with_runtime_services fuel pf p name cycles options hooks []"

end
