(* ===== verification/RtGlobals.thy ===== *)
theory RtGlobals
  imports RtRun
begin

text \<open>
  The variables of configurations and resources (\<open>GlobalState\<close> of
  \<open>iec_runtime/src/state.rs\<close>): the values of initializers that are literals, the initial
  values of global variables, reading and writing a global variable along a path.
\<close>

section \<open>Results\<close>

definition fbind :: "'a finish \<Rightarrow> ('a \<Rightarrow> 'b finish) \<Rightarrow> 'b finish" where
  "fbind m f = (case m of None \<Rightarrow> None | Some Panic \<Rightarrow> Some Panic | Some (Ret x) \<Rightarrow> f x)"

definition fret :: "'a \<Rightarrow> 'a finish" where
  "fret x = Some (Ret x)"

definition flift :: "'a outcome \<Rightarrow> 'a finish" where
  "flift r = Some r"

lemma fbind_simps [simp]:
  "fbind (fret x) f = f x" "fbind None f = None" "fbind (Some Panic) f = Some Panic"
  "fbind (Some (Ret x)) f = f x"
  by (simp_all add: fbind_def fret_def)

fun fmap_list :: "('a \<Rightarrow> 'b finish) \<Rightarrow> 'a list \<Rightarrow> 'b list finish" where
  "fmap_list f [] = fret []"
| "fmap_list f (x # xs) = fbind (f x) (\<lambda>y. fbind (fmap_list f xs) (\<lambda>ys. fret (y # ys)))"

section \<open>Values of literal expressions\<close>

text \<open>The arguments of a standard function in the order of its inputs.\<close>

definition order_arguments :: "val list \<Rightarrow> (nat, val) bmap \<Rightarrow> val list option" where
  "order_arguments positional named =
     (if named = [] then Some positional
      else
        let full = fold (\<lambda>(index, v) m. if bt_contains m index then m else bt_insert index v m)
                     (enumerate 0 positional) named;
            values = map (bt_get full) [0..<Suc (fst (last full))]
        in if list_all (\<lambda>v. v \<noteq> None) values then Some (map the values) else None)"

fun expr_literal_value :: "platform \<Rightarrow> project \<Rightarrow> expr \<Rightarrow> val option outcome"
and literal_elements :: "platform \<Rightarrow> project \<Rightarrow> expr list \<Rightarrow> val list option outcome"
and literal_fields ::
    "platform \<Rightarrow> project \<Rightarrow> param_assignment list \<Rightarrow> (string, val) bmap \<Rightarrow> (string, val) bmap option outcome"
and literal_arguments ::
    "platform \<Rightarrow> project \<Rightarrow> string \<Rightarrow> param_assignment list \<Rightarrow> val list \<Rightarrow> (nat, val) bmap \<Rightarrow>
     val list option outcome" where
  "expr_literal_value pf p (LiteralE l) = omap Some (literal_to_value (overflow_checks pf) p l)"
| "expr_literal_value pf p (ArrayLiteralE es) =
     omap (map_option VArray) (literal_elements pf p es)"
| "expr_literal_value pf p (StructLiteralE fs) =
     omap (map_option VStruct) (literal_fields pf p fs [])"
| "expr_literal_value pf p (CallE name args) =
     (if is_standard_function (original name) then
        obind (literal_arguments pf p (original name) args [] []) (\<lambda>vs. otry vs (\<lambda>values.
          eval_standard_function (math pf) (overflow_checks pf) (original name) values))
      else Ret None)"
| "expr_literal_value pf p (VariableE v) = Ret None"
| "expr_literal_value pf p (UnaryE unop e) = Ret None"
| "expr_literal_value pf p (BinaryE binop l r) = Ret None"
| "literal_elements pf p [] = Ret (Some [])"
| "literal_elements pf p (e # es) =
     obind (expr_literal_value pf p e) (\<lambda>r. otry r (\<lambda>v.
       omap (map_option (\<lambda>vs. v # vs)) (literal_elements pf p es)))"
| "literal_fields pf p [] values = Ret (Some values)"
| "literal_fields pf p (ParamAssignment name out neg e variable # fs) values =
     (case name of None \<Rightarrow> Ret None
      | Some n \<Rightarrow>
          (case e of None \<Rightarrow> Ret None
           | Some x \<Rightarrow>
               obind (expr_literal_value pf p x) (\<lambda>r. otry r (\<lambda>v.
                 literal_fields pf p fs (bt_insert (canonical n) v values)))))"
| "literal_arguments pf p fname [] positional named = Ret (order_arguments positional named)"
| "literal_arguments pf p fname (ParamAssignment name out neg e variable # args) positional named =
     (if out then Ret None
      else case e of None \<Rightarrow> Ret None
      | Some x \<Rightarrow>
          obind (expr_literal_value pf p x) (\<lambda>r. otry r (\<lambda>v.
            case name of
              None \<Rightarrow> literal_arguments pf p fname args (positional @ [v]) named
            | Some n \<Rightarrow>
                obind (standard_function_input_index (overflow_checks pf) fname (original n)) (\<lambda>i.
                  otry i (\<lambda>index.
                    literal_arguments pf p fname args positional (bt_insert index v named))))))"

section \<open>Initial values\<close>

definition global_fields ::
    "(data_type_spec \<Rightarrow> expr option \<Rightarrow> val finish) \<Rightarrow> (struct_field \<Rightarrow> expr option) \<Rightarrow>
     struct_field list \<Rightarrow> val finish" where
  "global_fields value_of initializer fs =
     fbind (fmap_list (\<lambda>f. value_of (sf_spec f) (initializer f)) fs) (\<lambda>vs.
       fret (VStruct (bt_collect (zip (map (\<lambda>f. canonical (sf_name f)) fs) vs))))"

definition literal_or :: "val \<Rightarrow> platform \<Rightarrow> project \<Rightarrow> expr \<Rightarrow> val finish" where
  "literal_or d pf p e = fbind (flift (expr_literal_value pf p e)) (\<lambda>v. fret (value_or d v))"

definition global_initial_step ::
    "(data_type_spec \<Rightarrow> expr option \<Rightarrow> val finish) \<Rightarrow> platform \<Rightarrow> project \<Rightarrow>
     data_type_spec \<Rightarrow> expr option \<Rightarrow> val finish" where
  "global_initial_step value_of pf p spec initial =
     (let resolved = resolve_project_spec p spec in
      case (resolved, initial) of
        (DtArray ranges element_type, Some (ArrayLiteralE elements)) \<Rightarrow>
          fbind (fmap_list (\<lambda>e. value_of element_type (Some e)) elements) (\<lambda>vs. fret (VArray vs))
      | (DtArray ranges element_type, _) \<Rightarrow>
          fbind (flift (array_element_count (overflow_checks pf) ranges)) (\<lambda>n.
            fbind (fmap_list (\<lambda>_. value_of element_type None) [0..<n]) (\<lambda>vs. fret (VArray vs)))
      | (DtStruct fs, Some (StructLiteralE initializers)) \<Rightarrow>
          global_fields value_of (initializer_of initializers) fs
      | (DtStruct fs, _) \<Rightarrow> global_fields value_of sf_initial fs
      | (DtEnum _, Some e) \<Rightarrow>
          (case enum_ordinal_expr p e of
             Some n \<Rightarrow> fret (VInt n)
           | None \<Rightarrow> literal_or (VInt 0) pf p e)
      | (_, Some e) \<Rightarrow> literal_or (default_value_for_type resolved) pf p e
      | (_, None) \<Rightarrow> fret (default_value_for_type resolved))"

primrec global_initial_value_for_spec ::
    "nat \<Rightarrow> platform \<Rightarrow> project \<Rightarrow> data_type_spec \<Rightarrow> expr option \<Rightarrow> val finish" where
  "global_initial_value_for_spec 0 = (\<lambda>pf p spec initial. None)"
| "global_initial_value_for_spec (Suc n) =
     (\<lambda>pf p. global_initial_step (global_initial_value_for_spec n pf p) pf p)"

section \<open>Global state\<close>

record global_state =
  gs_values :: "(string, val) bmap"
  gs_types :: "(string, data_type_spec) bmap"

definition insert_global ::
    "nat \<Rightarrow> platform \<Rightarrow> project \<Rightarrow> var_decl \<Rightarrow> global_state \<Rightarrow> global_state finish" where
  "insert_global fuel pf p d g =
     fbind (global_initial_value_for_spec fuel pf p (var_type d) (var_initial d)) (\<lambda>v.
       fret \<lparr> gs_values = bt_insert (canonical (var_name d)) v (gs_values g),
              gs_types = bt_insert (canonical (var_name d)) (var_type d) (gs_types g) \<rparr>)"

fun insert_globals ::
    "nat \<Rightarrow> platform \<Rightarrow> project \<Rightarrow> var_decl list \<Rightarrow> global_state \<Rightarrow> global_state finish" where
  "insert_globals fuel pf p [] g = fret g"
| "insert_globals fuel pf p (d # ds) g =
     fbind (insert_global fuel pf p d g) (insert_globals fuel pf p ds)"

definition global_state_from_blocks ::
    "nat \<Rightarrow> platform \<Rightarrow> project \<Rightarrow> var_block list \<Rightarrow> global_state finish" where
  "global_state_from_blocks fuel pf p blocks =
     insert_globals fuel pf p (concat (map vb_vars (filter (\<lambda>b. vb_kind b \<noteq> VarAccess) blocks)))
       \<lparr> gs_values = [], gs_types = [] \<rparr>"

fun access_field :: "project \<Rightarrow> string list \<Rightarrow> val \<Rightarrow> data_type_spec \<Rightarrow> val option" where
  "access_field p [] v spec = Some v"
| "access_field p (part # parts) v spec =
     (case resolve_project_spec p spec of
        DtStruct fs \<Rightarrow>
          Option.bind (find_field part fs) (\<lambda>f.
            case v of
              VStruct values \<Rightarrow>
                Option.bind (bt_get values part) (\<lambda>fv. access_field p parts fv (sf_spec f))
            | _ \<Rightarrow> None)
      | _ \<Rightarrow> None)"

definition global_access_value :: "project \<Rightarrow> string list \<Rightarrow> global_state \<Rightarrow> val option" where
  "global_access_value p parts g = (case parts of
       [] \<Rightarrow> None
     | r # rest \<Rightarrow>
         Option.bind (bt_get (gs_values g) r) (\<lambda>v.
           Option.bind (bt_get (gs_types g) r) (\<lambda>spec. access_field p rest v spec)))"

text \<open>The parts that follow the present segment; the flag says whether the value changed.\<close>

fun assign_into_global_value ::
    "project \<Rightarrow> val \<Rightarrow> data_type_spec \<Rightarrow> string list \<Rightarrow> val \<Rightarrow> val option" where
  "assign_into_global_value p current spec [] v = Some v"
| "assign_into_global_value p current spec (next # parts) v =
     (case (resolve_project_spec p spec, current) of
        (DtStruct fs, VStruct values) \<Rightarrow>
          Option.bind (find_field next fs) (\<lambda>f. Option.bind (bt_get values next) (\<lambda>fv.
            map_option (\<lambda>fv'. VStruct (bt_insert next fv' values))
              (assign_into_global_value p fv (sf_spec f) parts v)))
      | _ \<Rightarrow> None)"

definition global_assign :: "project \<Rightarrow> string list \<Rightarrow> val \<Rightarrow> global_state \<Rightarrow> global_state option" where
  "global_assign p parts v g = (case parts of
       [] \<Rightarrow> None
     | r # rest \<Rightarrow>
         Option.bind (bt_get (gs_types g) r) (\<lambda>spec. Option.bind (bt_get (gs_values g) r) (\<lambda>current.
           map_option (\<lambda>v'. g\<lparr>gs_values := bt_insert r v' (gs_values g)\<rparr>)
             (assign_into_global_value p current spec rest v))))"

end
