(* ===== verification/RtConfig.thy ===== *)
theory RtConfig
  imports RtGlobals
begin

text \<open>
  Configurations in the interpreter (\<open>iec_runtime/src/state.rs\<close>,
  \<open>iec_runtime/src/configuration.rs\<close>): the variables of the configuration and of its
  resources, the directly represented variables, the scheduled programs, and the access
  paths and output bindings that reach across them.
\<close>

section \<open>State\<close>

record scheduled_program =
  sp_resource :: string
  sp_instance :: string
  sp_task :: "string option"
  sp_priority :: nat
  sp_interval_ms :: "int option"
  sp_single :: "expr option"
  sp_single_previous :: bool
  sp_output_bindings :: "(ident \<times> variable_ref) list"
  sp_runtime :: runtime

record config_state =
  kf_configuration :: global_state
  kf_resources :: "(string, global_state) bmap"
  kf_direct :: "(string, val) bmap"
  kf_programs :: "scheduled_program list"
  kf_diagnostics :: "diagnostic list"

type_synonym 'a cf = "config_state \<Rightarrow> ('a \<times> config_state) finish"

definition cret :: "'a \<Rightarrow> 'a cf" where
  "cret x k = fret (x, k)"

definition cbind :: "'a cf \<Rightarrow> ('a \<Rightarrow> 'b cf) \<Rightarrow> 'b cf" where
  "cbind m f k = fbind (m k) (\<lambda>(x, k'). f x k')"

definition cget :: "(config_state \<Rightarrow> 'a) \<Rightarrow> 'a cf" where
  "cget f k = fret (f k, k)"

definition cmodify :: "(config_state \<Rightarrow> config_state) \<Rightarrow> unit cf" where
  "cmodify f k = fret ((), f k)"

definition cpush :: "string \<Rightarrow> unit cf" where
  "cpush msg = cmodify (\<lambda>k. k\<lparr>kf_diagnostics := kf_diagnostics k @ [runtime_error msg]\<rparr>)"

definition cpush_all :: "diagnostic list \<Rightarrow> unit cf" where
  "cpush_all ds = cmodify (\<lambda>k. k\<lparr>kf_diagnostics := kf_diagnostics k @ ds\<rparr>)"

fun cfor :: "'a list \<Rightarrow> ('a \<Rightarrow> unit cf) \<Rightarrow> unit cf" where
  "cfor [] f = cret ()"
| "cfor (x # xs) f = cbind (f x) (\<lambda>_. cfor xs f)"

definition keep_runtime :: "'a run \<Rightarrow> ('a \<times> runtime) finish" where
  "keep_runtime r = (case r of NoFuel \<Rightarrow> None | Crash \<Rightarrow> Some Panic | Done x s \<Rightarrow> fret (x, s))"

text \<open>An operation on the interpreter state of a scheduled program.\<close>

definition on_program :: "nat \<Rightarrow> 'a rt \<Rightarrow> 'a cf" where
  "on_program i m k =
     fbind (keep_runtime (m (sp_runtime (kf_programs k ! i)))) (\<lambda>(x, s).
       fret (x, k\<lparr>kf_programs := (kf_programs k)[i := (kf_programs k ! i)\<lparr>sp_runtime := s\<rparr>]\<rparr>))"

definition find_scheduled :: "config_state \<Rightarrow> string \<Rightarrow> string \<Rightarrow> nat option" where
  "find_scheduled k resource_name instance_name =
     map_option fst (List.find (\<lambda>(i, sp). canonical_identifier (sp_resource sp) = resource_name \<and>
         canonical_identifier (sp_instance sp) = instance_name)
       (enumerate 0 (kf_programs k)))"

definition find_resource :: "configuration \<Rightarrow> string \<Rightarrow> resource option" where
  "find_resource cf name = List.find (\<lambda>r. canonical (res_name r) = name) (conf_resources cf)"

section \<open>Access paths of a configuration\<close>

record access_binding_of_configuration =
  cab_qualified_name :: string
  cab_qualified_canonical :: string
  cab_short_canonical :: string
  cab_target :: string
  cab_direction :: access_direction
  cab_spec :: data_type_spec
  cab_resource :: "resource option"

definition configuration_access_bindings :: "configuration \<Rightarrow> access_binding_of_configuration list" where
  "configuration_access_bindings cf =
     (let bind_of = (\<lambda>qualified res d.
            \<lparr> cab_qualified_name = qualified, cab_qualified_canonical = canonical_identifier qualified,
              cab_short_canonical = canonical_identifier (apd_name d), cab_target = apd_target d,
              cab_direction = apd_direction d, cab_spec = apd_spec d, cab_resource = res \<rparr>)
      in map (\<lambda>d. bind_of (apd_name d) None d) (access_declarations (conf_var_blocks cf)) @
         concat (map (\<lambda>r. map (\<lambda>d. bind_of (original (res_name r) @ ''.'' @ apd_name d) (Some r) d)
             (access_declarations (res_var_blocks r)))
           (conf_resources cf)))"

definition assign_in_resource_state :: "project \<Rightarrow> string \<Rightarrow> string list \<Rightarrow> val \<Rightarrow> bool cf" where
  "assign_in_resource_state p name parts v =
     cbind (cget (\<lambda>k. Option.bind (bt_get (kf_resources k) name) (global_assign p parts v))) (\<lambda>changed.
       case changed of
         Some g \<Rightarrow> cbind (cmodify (\<lambda>k. k\<lparr>kf_resources := bt_insert name g (kf_resources k)\<rparr>)) (\<lambda>_. cret True)
       | None \<Rightarrow> cret False)"

definition assign_resource_access_target ::
    "calls \<Rightarrow> project \<Rightarrow> resource \<Rightarrow> string list \<Rightarrow> val \<Rightarrow> bool cf" where
  "assign_resource_access_target c p r parts v =
     (case parts of
        [] \<Rightarrow> cret False
      | instance_name # path \<Rightarrow>
          cbind (assign_in_resource_state p (canonical (res_name r)) parts v) (\<lambda>written.
            if written then cret True
            else
              cbind (cget (\<lambda>k. find_scheduled k (canonical (res_name r)) instance_name)) (\<lambda>found.
                case found of
                  None \<Rightarrow> cret False
                | Some i \<Rightarrow>
                    on_program i (assign_access_target c ''configuration VAR_ACCESS'' (join_strs ''.'' path) v))))"

text \<open>The targets in turn: the resource of the binding with its name in front, the resource
  without it, the configuration, another resource. Each is tried when the one before did not
  take the value.\<close>

definition or_try :: "bool cf \<Rightarrow> bool cf \<Rightarrow> bool cf" where
  "or_try m n = cbind m (\<lambda>written. if written then cret True else n)"

definition assign_in_configuration :: "project \<Rightarrow> string list \<Rightarrow> val \<Rightarrow> bool cf" where
  "assign_in_configuration p parts v =
     cbind (cget (\<lambda>k. global_assign p parts v (kf_configuration k))) (\<lambda>changed.
       case changed of
         Some g \<Rightarrow> cbind (cmodify (\<lambda>k. k\<lparr>kf_configuration := g\<rparr>)) (\<lambda>_. cret True)
       | None \<Rightarrow> cret False)"

definition assign_configuration_access_target ::
    "calls \<Rightarrow> project \<Rightarrow> configuration \<Rightarrow> resource option \<Rightarrow> string \<Rightarrow> string \<Rightarrow> val \<Rightarrow> unit cf" where
  "assign_configuration_access_target c p cf resource_context raw_target access_name v =
     (let target = trim raw_target in
      if starts_with target ''%'' then
        cmodify (\<lambda>k. k\<lparr>kf_direct := bt_insert target v (kf_direct k)\<rparr>)
      else case access_path_parts target of
        None \<Rightarrow> cpush (access_subject access_name @ '' has invalid target '' @ quoted target)
      | Some parts \<Rightarrow>
          cbind
            (or_try
              (case resource_context of
                 None \<Rightarrow> cret False
               | Some r \<Rightarrow>
                   or_try
                     (if hd parts = canonical (res_name r)
                      then assign_resource_access_target c p r (tl parts) v else cret False)
                     (assign_resource_access_target c p r parts v))
              (or_try (assign_in_configuration p parts v)
                (case find_resource cf (hd parts) of
                   Some r \<Rightarrow> assign_resource_access_target c p r (tl parts) v
                 | None \<Rightarrow> cret False)))
            (\<lambda>written.
              if written then cret ()
              else cpush (access_subject access_name @ '' references unknown target '' @ quoted target)))"

definition apply_configuration_access_write ::
    "calls \<Rightarrow> platform \<Rightarrow> project \<Rightarrow> configuration \<Rightarrow> access_path_write \<Rightarrow> unit cf" where
  "apply_configuration_access_write c pf p cf w =
     (let requested = canonical_identifier (apw_name w);
          matches = filter (\<lambda>b. cab_qualified_canonical b = requested \<or> cab_short_canonical b = requested)
            (configuration_access_bindings cf)
      in case matches of
           [] \<Rightarrow> cpush (''unknown '' @ access_subject (apw_name w))
         | b # others \<Rightarrow>
             (if others \<noteq> [] \<and> cab_qualified_canonical b \<noteq> requested then
                cpush (''ambiguous '' @ access_subject (apw_name w))
              else if cab_direction b \<noteq> ReadWrite then
                cpush (access_subject (cab_qualified_name b) @ '' is READ_ONLY'')
              else
                (\<lambda>k. fbind (flift (value_matches (overflow_checks pf) p (apw_value w) (cab_spec b)))
                  (\<lambda>ok. (if ok then
                     assign_configuration_access_target c p cf (cab_resource b) (cab_target b)
                       (cab_qualified_name b) (apw_value w)
                   else
                     cpush (access_subject (cab_qualified_name b) @ '' expects '' @
                       runtime_spec_label (resolve_project_spec p (cab_spec b)) @ '', got '' @
                       runtime_value_label (apw_value w))) k))))"

definition apply_configuration_access_writes ::
    "calls \<Rightarrow> platform \<Rightarrow> project \<Rightarrow> configuration \<Rightarrow> nat \<Rightarrow> access_path_write list \<Rightarrow> unit cf" where
  "apply_configuration_access_writes c pf p cf cycle writes =
     cfor (filter (\<lambda>w. apw_cycle w = cycle) writes) (apply_configuration_access_write c pf p cf)"

subsection \<open>Reading\<close>

definition resource_access_value ::
    "calls \<Rightarrow> project \<Rightarrow> resource \<Rightarrow> string list \<Rightarrow> val option cf" where
  "resource_access_value c p r parts =
     (case parts of
        [] \<Rightarrow> cret None
      | instance_name # path \<Rightarrow>
          cbind (cget (\<lambda>k. Option.bind (bt_get (kf_resources k) (canonical (res_name r)))
              (global_access_value p parts))) (\<lambda>stored.
            case stored of
              Some v \<Rightarrow> cret (Some v)
            | None \<Rightarrow>
                cbind (cget (\<lambda>k. find_scheduled k (canonical (res_name r)) instance_name)) (\<lambda>found.
                  case found of
                    None \<Rightarrow> cret None
                  | Some i \<Rightarrow> on_program i (access_path_value c (join_strs ''.'' path)))))"

definition configuration_access_value ::
    "calls \<Rightarrow> project \<Rightarrow> configuration \<Rightarrow> resource option \<Rightarrow> string \<Rightarrow> val option cf" where
  "configuration_access_value c p cf resource_context raw_target =
     (let target = trim raw_target in
      if starts_with target ''%'' then
        cget (\<lambda>k. case bt_get (kf_direct k) target of Some v \<Rightarrow> Some v | None \<Rightarrow> Some (VInt 0))
      else case access_path_parts target of
        None \<Rightarrow> cret None
      | Some parts \<Rightarrow>
          (let rest =
             cbind (cget (\<lambda>k. global_access_value p parts (kf_configuration k))) (\<lambda>stored.
               case stored of
                 Some v \<Rightarrow> cret (Some v)
               | None \<Rightarrow>
                   (case find_resource cf (hd parts) of
                      Some r \<Rightarrow> resource_access_value c p r (tl parts)
                    | None \<Rightarrow> cret None))
           in case resource_context of
                None \<Rightarrow> rest
              | Some r \<Rightarrow>
                  (if hd parts = canonical (res_name r) then resource_access_value c p r (tl parts)
                   else
                     cbind (resource_access_value c p r parts) (\<lambda>v.
                       case v of Some x \<Rightarrow> cret (Some x) | None \<Rightarrow> rest))))"

fun access_paths_of ::
    "calls \<Rightarrow> project \<Rightarrow> configuration \<Rightarrow> resource option \<Rightarrow> string \<Rightarrow> access_path_declaration list \<Rightarrow>
     access_path_trace list cf" where
  "access_paths_of c p cf r prefix [] = cret []"
| "access_paths_of c p cf r prefix (d # ds) =
     cbind (configuration_access_value c p cf r (apd_target d)) (\<lambda>v.
     cbind (access_paths_of c p cf r prefix ds) (\<lambda>paths.
       cret (\<lparr> apt_name = prefix @ apd_name d, apt_target = apd_target d,
               apt_direction = apd_direction d, apt_value = v \<rparr> # paths)))"

fun resource_access_paths ::
    "calls \<Rightarrow> project \<Rightarrow> configuration \<Rightarrow> resource list \<Rightarrow> access_path_trace list cf" where
  "resource_access_paths c p cf [] = cret []"
| "resource_access_paths c p cf (r # rs) =
     cbind (access_paths_of c p cf (Some r) (original (res_name r) @ ''.'')
              (access_declarations (res_var_blocks r))) (\<lambda>paths.
     cbind (resource_access_paths c p cf rs) (\<lambda>more. cret (paths @ more)))"

definition configuration_access_snapshot ::
    "calls \<Rightarrow> project \<Rightarrow> configuration \<Rightarrow> access_path_trace list cf" where
  "configuration_access_snapshot c p cf =
     cbind (access_paths_of c p cf None [] (access_declarations (conf_var_blocks cf))) (\<lambda>own.
     cbind (resource_access_paths c p cf (conf_resources cf)) (\<lambda>paths. cret (own @ paths)))"

end
