(* ===== verification/RtSchedule.thy ===== *)
theory RtSchedule
  imports RtConfig
begin

text \<open>
  The scheduler of a configuration (\<open>iec_runtime/src/lib.rs\<close>,
  \<open>iec_runtime/src/configuration.rs\<close>): program instances with their tasks, when a task is
  due, the order of the programs of a cycle, and the writes of their output bindings.
\<close>

section \<open>Tasks\<close>

definition task_interval_ms :: "task option \<Rightarrow> int \<Rightarrow> int option" where
  "task_interval_ms t default_cycle_time_ms = (case t of
       None \<Rightarrow> Some (max default_cycle_time_ms 1)
     | Some tk \<Rightarrow>
         (case task_interval tk of
            Some (LiteralE (LDurationMs n)) \<Rightarrow> Some (max n 1)
          | Some (LiteralE (LInt n)) \<Rightarrow> Some (max n 1)
          | _ \<Rightarrow> if task_single tk = None then Some (max default_cycle_time_ms 1) else None))"

definition u32_max :: nat where "u32_max = 4294967295"

definition task_priority :: "task option \<Rightarrow> nat" where
  "task_priority t = (case Option.bind t task_prio of
       Some (LiteralE (LInt n)) \<Rightarrow> (if 0 \<le> n \<and> n \<le> int u32_max then nat n else u32_max)
     | _ \<Rightarrow> u32_max)"

definition task_event_environment ::
    "global_state \<Rightarrow> global_state option \<Rightarrow> (string, val) bmap \<times> (string, data_type_spec) bmap" where
  "task_event_environment conf res = (case res of
       None \<Rightarrow> (gs_values conf, gs_types conf)
     | Some g \<Rightarrow>
         (fold (\<lambda>(k, v). bt_insert k v) (gs_values g) (gs_values conf),
          fold (\<lambda>(k, t). bt_insert k t) (gs_types g) (gs_types conf)))"

text \<open>A run has its options, its hooks and its platform throughout.\<close>

record setting =
  set_platform :: platform
  set_project :: project
  set_options :: runtime_options
  set_hooks :: communication_hooks

definition setting_runtime ::
    "setting \<Rightarrow> pou \<Rightarrow> (string, val) bmap \<Rightarrow> (string, data_type_spec) bmap \<Rightarrow> runtime" where
  "setting_runtime st u env types =
     (start_runtime (set_platform st) (set_project st) u (set_options st) (set_hooks st))
       \<lparr>rt_env := env, rt_types := types\<rparr>"

text \<open>The event of a task is the rising edge of its \<open>SINGLE\<close> expression.\<close>

definition scheduled_task_single_due :: "calls \<Rightarrow> setting \<Rightarrow> nat \<Rightarrow> bool cf" where
  "scheduled_task_single_due c st i k =
     (let sp = kf_programs k ! i in
      case sp_single sp of
        None \<Rightarrow> fret (False, k)
      | Some single \<Rightarrow>
          (case task_event_environment (kf_configuration k)
                  (bt_get (kf_resources k) (canonical_identifier (sp_resource sp))) of
             (env, types) \<Rightarrow>
               fbind (keep_runtime (c_eval c single
                   (setting_runtime st (rt_program (sp_runtime sp)) env types))) (\<lambda>(v, event).
                 let current = (case v of Some (VBool b) \<Rightarrow> b | _ \<Rightarrow> False);
                     mismatch = (case v of
                         Some (VBool b) \<Rightarrow> []
                       | None \<Rightarrow> []
                       | Some x \<Rightarrow>
                           [runtime_error (''task '' @
                             quoted (case sp_task sp of Some t \<Rightarrow> t | None \<Rightarrow> sp_instance sp) @
                             '' SINGLE expects BOOL, got '' @ runtime_value_label x)]);
                     s = (sp_runtime sp)\<lparr>rt_diagnostics :=
                            rt_diagnostics (sp_runtime sp) @ mismatch @ rt_diagnostics event\<rparr>;
                     sp' = sp\<lparr>sp_runtime := s, sp_single_previous := current\<rparr>
                 in fret (current \<and> \<not> sp_single_previous sp,
                          k\<lparr>kf_programs := (kf_programs k)[i := sp']\<rparr>))))"

section \<open>Arguments and outputs of program instances\<close>

definition apply_program_instance_arg :: "calls \<Rightarrow> program_instance \<Rightarrow> param_assignment \<Rightarrow> unit rt" where
  "apply_program_instance_arg c inst a =
     (if pa_output a then ret ()
      else case (pa_name a, pa_expr a) of
        (Some name, Some e) \<Rightarrow>
          rbind (c_eval c e) (\<lambda>v. case v of
            Some x \<Rightarrow> assign c (variable_named (original name)) x
          | None \<Rightarrow>
              push (runtime_error (''program instance '' @ quoted (original (inst_name inst)) @
                '' parameter '' @ quoted (original name) @ '' could not be evaluated'')))
      | _ \<Rightarrow>
          push (runtime_error (''program instance '' @ quoted (original (inst_name inst)) @
            '' parameter requires a named input value'')))"

definition apply_program_instance_args :: "calls \<Rightarrow> program_instance \<Rightarrow> unit rt" where
  "apply_program_instance_args c inst = rfor (inst_args inst) (apply_program_instance_arg c inst)"

definition program_instance_output_bindings :: "program_instance \<Rightarrow> (ident \<times> variable_ref) list" where
  "program_instance_output_bindings inst =
     List.map_filter (\<lambda>a. case (pa_name a, pa_variable a) of
         (Some name, Some v) \<Rightarrow> Some (name, v) | _ \<Rightarrow> None)
       (filter pa_output (inst_args inst))"

record program_output_write =
  pow_resource :: string
  pow_instance :: string
  pow_formal :: ident
  pow_target :: variable_ref
  pow_value :: val

definition collect_output ::
    "calls \<Rightarrow> scheduled_program \<Rightarrow> ident \<times> variable_ref \<Rightarrow> program_output_write list \<Rightarrow>
     program_output_write list rt" where
  "collect_output c sp binding writes =
     (case binding of (formal, target) \<Rightarrow>
        rbind (resolve c (variable_named (original formal))) (\<lambda>v.
          case v of
            Some x \<Rightarrow>
              ret (writes @ [\<lparr> pow_resource = sp_resource sp, pow_instance = sp_instance sp,
                              pow_formal = formal, pow_target = target, pow_value = x \<rparr>])
          | None \<Rightarrow>
              rseq (push (runtime_error (''program instance '' @ quoted (sp_instance sp) @
                     '' output binding '' @ quoted (original formal) @ '' could not be read'')))
                (ret writes)))"

definition collect_program_instance_output_writes ::
    "calls \<Rightarrow> scheduled_program \<Rightarrow> program_output_write list rt" where
  "collect_program_instance_output_writes c sp = rfold (sp_output_bindings sp) (collect_output c sp) []"

definition strip_variable_root :: "variable_ref \<Rightarrow> variable_ref option" where
  "strip_variable_root v =
     (if vr_direct v \<noteq> None \<or> length (vr_path v) < 2 then None
      else Some (VariableRef (drop 1 (vr_path v)) (drop 1 (vr_indices v)) None))"

definition output_binding_access_target :: "variable_ref \<Rightarrow> string option" where
  "output_binding_access_target v =
     (if list_ex (\<lambda>ixs. ixs \<noteq> []) (vr_indices v) then None
      else case vr_direct v of
        Some d \<Rightarrow> Some d
      | None \<Rightarrow> (if vr_path v \<noteq> [] then Some (display_variable v) else None))"

text \<open>A global variable is assigned by an interpreter over the global state; the result says
  whether the target is a variable of the state.\<close>

definition assign_global_state_variable_target ::
    "calls \<Rightarrow> setting \<Rightarrow> global_state \<Rightarrow> variable_ref \<Rightarrow> val \<Rightarrow>
     (global_state \<times> diagnostic list) option finish" where
  "assign_global_state_variable_target c st g target v =
     (case root_name target of
        None \<Rightarrow> fret None
      | Some r \<Rightarrow>
          (if \<not> bt_contains (gs_types g) (canonical r) then fret None
           else case first_program (set_project st) of
             None \<Rightarrow> fret None
           | Some u \<Rightarrow>
               (let s = setting_runtime st u (gs_values g) (gs_types g) in
                if variable_spec s target = None then fret None
                else fbind (keep_runtime (assign c target v s)) (\<lambda>(_, s').
                  fret (Some (\<lparr> gs_values = rt_env s', gs_types = rt_types s' \<rparr>, rt_diagnostics s'))))))"

definition assign_in_global :: "calls \<Rightarrow> setting \<Rightarrow> variable_ref \<Rightarrow> val \<Rightarrow> global_state option \<Rightarrow>
    (global_state \<Rightarrow> config_state \<Rightarrow> config_state) \<Rightarrow> bool cf" where
  "assign_in_global c st target v found put k =
     (case found of
        None \<Rightarrow> fret (False, k)
      | Some g \<Rightarrow>
          fbind (assign_global_state_variable_target c st g target v) (\<lambda>changed.
            case changed of
              None \<Rightarrow> fret (False, k)
            | Some (g', ds) \<Rightarrow>
                fret (True, (put g' k)\<lparr>kf_diagnostics := kf_diagnostics k @ ds\<rparr>)))"

definition assign_resource_output_variable_target ::
    "calls \<Rightarrow> setting \<Rightarrow> resource \<Rightarrow> variable_ref \<Rightarrow> val \<Rightarrow> bool cf" where
  "assign_resource_output_variable_target c st r target v =
     (let name = canonical (res_name r) in
      or_try
        (cbind (cget (\<lambda>k. bt_get (kf_resources k) name)) (\<lambda>found.
          assign_in_global c st target v found
            (\<lambda>g k. k\<lparr>kf_resources := bt_insert name g (kf_resources k)\<rparr>)))
        (case (root_name target, strip_variable_root target) of
           (Some rt, Some path) \<Rightarrow>
             cbind (cget (\<lambda>k. find_scheduled k name (canonical rt))) (\<lambda>found.
               case found of
                 None \<Rightarrow> cret False
               | Some i \<Rightarrow> cbind (on_program i (assign c path v)) (\<lambda>_. cret True))
         | _ \<Rightarrow> cret False))"

definition root_is :: "variable_ref \<Rightarrow> string \<Rightarrow> bool" where
  "root_is v name \<longleftrightarrow> (case root_name v of Some r \<Rightarrow> canonical r = name | None \<Rightarrow> False)"

definition assign_stripped ::
    "calls \<Rightarrow> setting \<Rightarrow> resource \<Rightarrow> variable_ref \<Rightarrow> val \<Rightarrow> bool cf" where
  "assign_stripped c st r target v = (case strip_variable_root target of
       Some stripped \<Rightarrow> assign_resource_output_variable_target c st r stripped v
     | None \<Rightarrow> cret False)"

definition assign_configuration_output_variable_target ::
    "calls \<Rightarrow> setting \<Rightarrow> configuration \<Rightarrow> resource option \<Rightarrow> variable_ref \<Rightarrow> string \<Rightarrow> val \<Rightarrow> unit cf" where
  "assign_configuration_output_variable_target c st cf resource_context target access_name v =
     (case vr_direct target of
        Some d \<Rightarrow> cmodify (\<lambda>k. k\<lparr>kf_direct := bt_insert d v (kf_direct k)\<rparr>)
      | None \<Rightarrow>
          cbind
            (or_try
              (case resource_context of
                 None \<Rightarrow> cret False
               | Some r \<Rightarrow>
                   or_try
                     (if root_is target (canonical (res_name r)) then assign_stripped c st r target v
                      else cret False)
                     (assign_resource_output_variable_target c st r target v))
              (or_try
                (cbind (cget kf_configuration) (\<lambda>g.
                  assign_in_global c st target v (Some g) (\<lambda>g k. k\<lparr>kf_configuration := g\<rparr>)))
                (case Option.bind (root_name target) (\<lambda>r. find_resource cf (canonical r)) of
                   Some r \<Rightarrow> assign_stripped c st r target v
                 | None \<Rightarrow> cret False)))
            (\<lambda>written.
              if written then cret ()
              else cpush (access_subject access_name @ '' references unknown target '' @
                     quoted (display_variable target))))"

definition apply_program_instance_output_write ::
    "calls \<Rightarrow> setting \<Rightarrow> configuration \<Rightarrow> program_output_write \<Rightarrow> unit cf" where
  "apply_program_instance_output_write c st cf w =
     (let resource_context = find_resource cf (canonical_identifier (pow_resource w));
          access_name = ''program instance '' @ quoted (pow_resource w @ ''.'' @ pow_instance w) @
            '' output '' @ quoted (original (pow_formal w))
      in case output_binding_access_target (pow_target w) of
           Some target \<Rightarrow>
             assign_configuration_access_target c (set_project st) cf resource_context target
               access_name (pow_value w)
         | None \<Rightarrow>
             assign_configuration_output_variable_target c st cf resource_context (pow_target w)
               access_name (pow_value w))"

section \<open>Runs of a configuration\<close>

record program_instance_trace =
  pit_resource :: string
  pit_instance :: string
  pit_program :: string
  pit_variables :: "(string \<times> val) list"
  pit_access_paths :: "access_path_trace list"

record configuration_cycle_trace =
  cct_cycle :: nat
  cct_programs :: "program_instance_trace list"
  cct_access_paths :: "access_path_trace list"

record configuration_trace =
  ctr_configuration :: string
  ctr_cycles :: "configuration_cycle_trace list"

text \<open>A step that may end the run with diagnostics.\<close>

type_synonym 'a step = "(diagnostic list + 'a) cf"

definition stry :: "'a step \<Rightarrow> ('a \<Rightarrow> 'b step) \<Rightarrow> 'b step" where
  "stry m f = cbind m (\<lambda>r. case r of Inl ds \<Rightarrow> cret (Inl ds) | Inr x \<Rightarrow> f x)"

definition unless_diagnostics :: "(config_state \<Rightarrow> diagnostic list) \<Rightarrow> 'a \<Rightarrow> 'a step" where
  "unless_diagnostics ds x = cget (\<lambda>k. if ds k \<noteq> [] then Inl (ds k) else Inr x)"

definition program_diagnostics :: "nat \<Rightarrow> config_state \<Rightarrow> diagnostic list" where
  "program_diagnostics i k = rt_diagnostics (sp_runtime (kf_programs k ! i))"

definition interval_due :: "int option \<Rightarrow> int \<Rightarrow> bool" where
  "interval_due interval elapsed_ms =
     (case interval of Some n \<Rightarrow> elapsed_ms smod n = 0 | None \<Rightarrow> False)"

definition program_trace :: "calls \<Rightarrow> nat \<Rightarrow> program_instance_trace cf" where
  "program_trace c i =
     cbind (cget (\<lambda>k. kf_programs k ! i)) (\<lambda>sp.
     cbind (on_program i (access_snapshot c)) (\<lambda>paths.
       cret \<lparr> pit_resource = sp_resource sp, pit_instance = sp_instance sp,
              pit_program = original (pou_name (rt_program (sp_runtime sp))),
              pit_variables = snapshot (sp_runtime sp), pit_access_paths = paths \<rparr>))"

text \<open>One program of one cycle, when it is due.\<close>

definition run_due_program ::
    "calls \<Rightarrow> setting \<Rightarrow> configuration \<Rightarrow> nat \<Rightarrow> program_instance_trace step" where
  "run_due_program c st cf i =
     cbind (cget kf_direct) (\<lambda>direct.
     cbind (on_program i
       (rseq (sync_direct_state direct)
         (rseq (reset_temp_variables c) (rbind (execute_program_cycle c) report_control)))) (\<lambda>_.
     stry (unless_diagnostics (program_diagnostics i) ()) (\<lambda>_.
     cbind (cmodify (\<lambda>k. k\<lparr>kf_direct :=
         export_direct_state (sp_runtime (kf_programs k ! i)) (kf_direct k)\<rparr>)) (\<lambda>_.
     cbind (cget (\<lambda>k. kf_programs k ! i)) (\<lambda>sp.
     cbind (on_program i (collect_program_instance_output_writes c sp)) (\<lambda>writes.
     stry (unless_diagnostics (program_diagnostics i) ()) (\<lambda>_.
     cbind (program_trace c i) (\<lambda>t.
     cbind (cfor writes (apply_program_instance_output_write c st cf)) (\<lambda>_.
       unless_diagnostics kf_diagnostics t)))))))))"

definition run_scheduled ::
    "calls \<Rightarrow> setting \<Rightarrow> configuration \<Rightarrow> int \<Rightarrow> nat \<Rightarrow> program_instance_trace option step" where
  "run_scheduled c st cf elapsed_ms i =
     cbind (cget (\<lambda>k. interval_due (sp_interval_ms (kf_programs k ! i)) elapsed_ms)) (\<lambda>by_interval.
     cbind (scheduled_task_single_due c st i) (\<lambda>by_event.
     stry (unless_diagnostics (program_diagnostics i) ()) (\<lambda>_.
       if \<not> by_interval \<and> \<not> by_event then cret (Inr None)
       else stry (run_due_program c st cf i) (\<lambda>t. cret (Inr (Some t))))))"

fun run_programs ::
    "calls \<Rightarrow> setting \<Rightarrow> configuration \<Rightarrow> int \<Rightarrow> nat list \<Rightarrow> program_instance_trace list step" where
  "run_programs c st cf elapsed_ms [] = cret (Inr [])"
| "run_programs c st cf elapsed_ms (i # is) =
     stry (run_scheduled c st cf elapsed_ms i) (\<lambda>t.
     stry (run_programs c st cf elapsed_ms is) (\<lambda>ts.
       cret (Inr (case t of Some x \<Rightarrow> x # ts | None \<Rightarrow> ts))))"

definition run_configuration_cycle ::
    "calls \<Rightarrow> setting \<Rightarrow> configuration \<Rightarrow> access_path_write list \<Rightarrow> nat \<Rightarrow> configuration_cycle_trace step" where
  "run_configuration_cycle c st cf writes cycle =
     cbind (\<lambda>k. fbind (flift (i128_arith (overflow_checks (set_platform st))
         (int cycle * cycle_time_ms (set_options st)))) (\<lambda>n. fret (n, k))) (\<lambda>elapsed_ms.
     cbind (apply_configuration_access_writes c (set_platform st) (set_project st) cf cycle writes) (\<lambda>_.
     stry (unless_diagnostics kf_diagnostics ()) (\<lambda>_.
     cbind (cget (\<lambda>k. length (kf_programs k))) (\<lambda>n.
     stry (run_programs c st cf elapsed_ms [0..<n]) (\<lambda>programs.
     cbind (configuration_access_snapshot c (set_project st) cf) (\<lambda>paths.
       cret (Inr \<lparr> cct_cycle = cycle, cct_programs = programs, cct_access_paths = paths \<rparr>)))))))"

fun run_configuration_cycles ::
    "calls \<Rightarrow> setting \<Rightarrow> configuration \<Rightarrow> access_path_write list \<Rightarrow> nat list \<Rightarrow>
     configuration_cycle_trace list step" where
  "run_configuration_cycles c st cf writes [] = cret (Inr [])"
| "run_configuration_cycles c st cf writes (cycle # cycles) =
     stry (run_configuration_cycle c st cf writes cycle) (\<lambda>t.
     stry (run_configuration_cycles c st cf writes cycles) (\<lambda>ts. cret (Inr (t # ts))))"

text \<open>The program instances of the resources, each initialised with its arguments.\<close>

definition schedule_instance ::
    "calls \<Rightarrow> setting \<Rightarrow> resource \<Rightarrow> program_instance \<Rightarrow>
     (diagnostic list + scheduled_program) finish" where
  "schedule_instance c st r inst =
     (case find_program (set_project st) (Some (original (inst_program inst))) of
        None \<Rightarrow>
          fret (Inl [runtime_error (''program instance '' @ quoted (original (inst_name inst)) @
            '' references unknown PROGRAM type '' @ quoted (original (inst_program inst)))])
      | Some u \<Rightarrow>
          (let t = Option.bind (inst_task inst) (\<lambda>n.
                 List.find (\<lambda>candidate. canonical (task_name candidate) = canonical n) (res_tasks r))
           in fbind (keep_runtime (rseq (initialize c Cold) (apply_program_instance_args c inst)
                  (setting_runtime st u [] []))) (\<lambda>(_, s).
                if rt_diagnostics s \<noteq> [] then fret (Inl (rt_diagnostics s))
                else fret (Inr
                  \<lparr> sp_resource = original (res_name r), sp_instance = original (inst_name inst),
                    sp_task = map_option (\<lambda>tk. original (task_name tk)) t,
                    sp_priority = task_priority t,
                    sp_interval_ms = task_interval_ms t (cycle_time_ms (set_options st)),
                    sp_single = Option.bind t task_single, sp_single_previous = False,
                    sp_output_bindings = program_instance_output_bindings inst,
                    sp_runtime = s \<rparr>))))"

definition find_configuration :: "project \<Rightarrow> string option \<Rightarrow> configuration option" where
  "find_configuration p name =
     List.find (\<lambda>cf. case name of None \<Rightarrow> True | Some n \<Rightarrow> canonical_identifier n = canonical (conf_name cf))
       (configurations p)"

definition schedule_order :: "scheduled_program list \<Rightarrow> scheduled_program list" where
  "schedule_order programs = sort_key (\<lambda>sp. (sp_priority sp, sp_instance sp)) programs"

definition errors_of :: "('a + 'b) list \<Rightarrow> 'a list" where
  "errors_of rs = List.map_filter (\<lambda>r. case r of Inl e \<Rightarrow> Some e | Inr _ \<Rightarrow> None) rs"

definition values_of :: "('a + 'b) list \<Rightarrow> 'b list" where
  "values_of rs = List.map_filter (\<lambda>r. case r of Inl _ \<Rightarrow> None | Inr x \<Rightarrow> Some x) rs"

definition run_configuration_with_runtime_services ::
    "nat \<Rightarrow> setting \<Rightarrow> string option \<Rightarrow> nat \<Rightarrow> access_path_write list \<Rightarrow>
     (diagnostic list + configuration_trace) finish" where
  "run_configuration_with_runtime_services fuel st name cycles writes =
     (if cycles > max_scan_cycles (set_options st) then
        fret (Inl [scan_limit_error (set_options st) cycles])
      else case find_configuration (set_project st) name of
        None \<Rightarrow> fret (Inl [runtime_error ''no CONFIGURATION found to execute''])
      | Some cf \<Rightarrow>
          fbind (global_state_from_blocks fuel (set_platform st) (set_project st) (conf_var_blocks cf)) (\<lambda>g.
          fbind (fmap_list (\<lambda>r. global_state_from_blocks fuel (set_platform st) (set_project st)
                   (res_var_blocks r)) (conf_resources cf)) (\<lambda>gs.
          fbind (fmap_list (\<lambda>(r, inst). schedule_instance (interp fuel) st r inst)
                   (concat (map (\<lambda>r. map (\<lambda>inst. (r, inst)) (res_instances r)) (conf_resources cf)))) (\<lambda>rs.
          if errors_of rs \<noteq> [] then fret (Inl (concat (errors_of rs)))
          else
            let k = \<lparr> kf_configuration = g,
                      kf_resources = bt_collect (zip (map (\<lambda>r. canonical (res_name r)) (conf_resources cf)) gs),
                      kf_direct = [], kf_programs = schedule_order (values_of rs), kf_diagnostics = [] \<rparr>
            in fbind (run_configuration_cycles (interp fuel) st cf writes [0..<cycles] k) (\<lambda>(r, _).
                 fret (map_sum id (\<lambda>ts. \<lparr> ctr_configuration = original (conf_name cf), ctr_cycles = ts \<rparr>) r))))))"

definition run_configuration ::
    "nat \<Rightarrow> platform \<Rightarrow> project \<Rightarrow> string option \<Rightarrow> nat \<Rightarrow> runtime_options \<Rightarrow>
     (diagnostic list + configuration_trace) finish" where
  "run_configuration fuel pf p name cycles options =
     run_configuration_with_runtime_services fuel
       \<lparr> set_platform = pf, set_project = p, set_options = options, set_hooks = no_communication_hooks \<rparr>
       name cycles []"

definition run_configuration_with_access_writes ::
    "nat \<Rightarrow> platform \<Rightarrow> project \<Rightarrow> string option \<Rightarrow> nat \<Rightarrow> runtime_options \<Rightarrow>
     access_path_write list \<Rightarrow> (diagnostic list + configuration_trace) finish" where
  "run_configuration_with_access_writes fuel pf p name cycles options writes =
     run_configuration_with_runtime_services fuel
       \<lparr> set_platform = pf, set_project = p, set_options = options, set_hooks = no_communication_hooks \<rparr>
       name cycles writes"

definition run_configuration_with_communication_hooks ::
    "nat \<Rightarrow> platform \<Rightarrow> project \<Rightarrow> string option \<Rightarrow> nat \<Rightarrow> runtime_options \<Rightarrow> communication_hooks \<Rightarrow>
     (diagnostic list + configuration_trace) finish" where
  "run_configuration_with_communication_hooks fuel pf p name cycles options hooks =
     run_configuration_with_runtime_services fuel
       \<lparr> set_platform = pf, set_project = p, set_options = options, set_hooks = hooks \<rparr> name cycles []"

end
