(* ===== verification/RtBlockLaws.thy ===== *)
theory RtBlockLaws
  imports RtRun StdTyping
begin

text \<open>
  What the standard function blocks of the interpreter do over many cycles. The fields of an
  instance are the state of an automaton, one call of the block is one step of it, and the
  rest of the state is left alone (locale \<open>field_block\<close>, interpreted for the timers, the
  counters, the bistables and the edge detectors). From there the timers are shown to switch
  on time and the counters to count edges, whatever else runs between the calls.
\<close>

section \<open>Fields\<close>

definition fld :: "runtime \<Rightarrow> string \<Rightarrow> string \<Rightarrow> val option" where
  "fld s inst f = bt_get (rt_env s) (field_key inst f)"

definition put :: "string \<Rightarrow> string \<Rightarrow> val \<Rightarrow> runtime \<Rightarrow> runtime" where
  "put inst f v s = s\<lparr>rt_env := bt_insert (field_key inst f) v (rt_env s)\<rparr>"

definition flag :: "val option \<Rightarrow> bool" where
  "flag x = (case Option.bind x as_bool of Some b \<Rightarrow> b | None \<Rightarrow> False)"

definition num :: "val option \<Rightarrow> int" where
  "num x = (case Option.bind x as_i64 of Some n \<Rightarrow> n | None \<Rightarrow> 0)"

definition duration :: "val option \<Rightarrow> int" where
  "duration x = (case x of Some v \<Rightarrow> time_value v | None \<Rightarrow> 0)"

lemma field_value_simps [blk_simps]:
  "flag (Some (VBool b)) = b" "num (Some (VInt n)) = n" "duration (Some (VTimeMs n)) = n"
  by (simp_all add: flag_def num_def duration_def time_value_def as_bool_def as_i64_def)

lemma field_key_same: "field_key inst f = field_key inst g \<longleftrightarrow> canonical_identifier f = canonical_identifier g"
  by (simp add: field_key_def)

lemma append_sep_eq:
  "x \<notin> set b \<Longrightarrow> x \<notin> set d \<Longrightarrow> a @ x # b = c @ x # d \<longleftrightarrow> a = c \<and> b = d"
  by (auto simp: append_eq_append_conv2 Cons_eq_append_conv append_eq_Cons_conv)

text \<open>A name that has no dot belongs to its instance only.\<close>

definition plain :: "string \<Rightarrow> bool" where
  "plain f \<longleftrightarrow> CHR ''.'' \<notin> set (canonical_identifier f)"

lemma field_key_eq:
  "plain f \<Longrightarrow> plain g \<Longrightarrow>
   field_key a f = field_key b g \<longleftrightarrow>
     canonical_identifier a = canonical_identifier b \<and> canonical_identifier f = canonical_identifier g"
  by (simp add: field_key_def plain_def append_sep_eq)

lemma fld_put [blk_simps]:
  "fld (put inst f v s) inst g =
     (if canonical_identifier g = canonical_identifier f then Some v else fld s inst g)"
  by (simp add: fld_def put_def field_key_same)

lemma put_other [blk_simps]:
  "rt_options (put inst f v s) = rt_options s" "rt_platform (put inst f v s) = rt_platform s"
  by (simp_all add: put_def)

lemma get_field_simps [blk_simps]:
  "rbind (get_field_bool inst f) k s = k (flag (fld s inst f)) s"
  "rbind (get_field_i64 inst f) k' s = k' (num (fld s inst f)) s"
  "rbind (get_field_time_ms inst f) k' s = k' (duration (fld s inst f)) s"
  by (simp_all add: get_field_bool_def get_field_i64_def get_field_time_ms_def flag_def num_def
      duration_def fld_def rbind_def rget_def)

lemma set_field_simps [blk_simps]:
  "set_field inst f v s = Done () (put inst f v s)"
  "rseq (set_field inst f v) m s = m (put inst f v s)"
  "rseq (ret ()) m s = m s" "ret x s = Done x s"
  by (simp_all add: set_field_def env_insert_def put_def rmodify_def rseq_def rbind_def ret_def)

lemma rseq_Done: "m s = Done () t \<Longrightarrow> rseq m n s = n t"
  by (simp add: rseq_def rbind_def)

lemma run_norm [blk_simps]:
  "rseq (rseq l m) n = rseq l (rseq m n)"
  "rseq (rbind k f) n = rbind k (\<lambda>x. rseq (f x) n)"
  "rbind (rseq m n) g = rseq m (rbind n g)"
  "rseq (if b then m else m') n = (if b then rseq m n else rseq m' n)"
  "rbind (if b then p else p') g = (if b then rbind p g else rbind p' g)"
  "(if b then h else h') s = (if b then h s else h' s)"
  "rbind (rbind k k') g = rbind k (\<lambda>x. rbind (k' x) g)"
  "rseq (\<lambda>u. Done () (w u)) n s = n (w s)"
  by (simp_all add: rseq_def rbind_assoc rbind_Done)

text \<open>Two states that agree but for some fields of an instance.\<close>

definition changes_fields :: "string \<Rightarrow> string list \<Rightarrow> runtime \<Rightarrow> runtime \<Rightarrow> bool" where
  "changes_fields inst fs s s' \<longleftrightarrow>
     s'\<lparr>rt_env := rt_env s\<rparr> = s \<and>
     (\<forall>k. k \<notin> field_key inst ` set fs \<longrightarrow> bt_get (rt_env s') k = bt_get (rt_env s) k)"

lemma changes_refl [simp, intro]: "changes_fields inst fs s s"
  by (simp add: changes_fields_def)

lemma changes_put: "f \<in> set fs \<Longrightarrow> changes_fields inst fs s t \<Longrightarrow> changes_fields inst fs s (put inst f v t)"
  by (auto simp: changes_fields_def put_def)

lemma changes_trans:
  "changes_fields inst fs s t \<Longrightarrow> changes_fields inst fs t u \<Longrightarrow> changes_fields inst fs s u"
  unfolding changes_fields_def by (cases s; cases t; cases u) auto

lemma changes_const:
  "changes_fields inst fs s t \<Longrightarrow> rt_options t = rt_options s \<and> rt_platform t = rt_platform s"
  unfolding changes_fields_def by (cases s; cases t) auto

text \<open>An operation that keeps the fields of an instance and ends.\<close>

definition leaves_alone :: "string \<Rightarrow> string list \<Rightarrow> unit rt \<Rightarrow> bool" where
  "leaves_alone inst fs m \<longleftrightarrow>
     (\<forall>s. \<exists>t. m s = Done () t \<and> (\<forall>f \<in> set fs. fld t inst f = fld s inst f) \<and>
        rt_options t = rt_options s \<and> rt_platform t = rt_platform s)"

definition tick :: "runtime \<Rightarrow> int" where
  "tick s = cycle_time_ms (rt_options s)"

lemma tick_put [blk_simps]: "tick (put inst f v s) = tick s"
  by (simp add: tick_def put_def)

fun accepted :: "('i \<Rightarrow> 'st \<Rightarrow> bool) \<Rightarrow> ('i \<Rightarrow> 'st \<Rightarrow> 'st) \<Rightarrow> 'i list \<Rightarrow> 'st \<Rightarrow> bool" where
  "accepted ok step [] st = True"
| "accepted ok step (i # is) st = (ok i st \<and> accepted ok step is (step i st))"

section \<open>Blocks as automata\<close>

type_synonym inputs = "(string, val) bmap"

locale field_block =
  fixes exec :: "string \<Rightarrow> inputs \<Rightarrow> unit rt"
    and fs :: "string list"
    and view :: "(string \<Rightarrow> val option) \<Rightarrow> 'st"
    and step :: "int \<Rightarrow> inputs \<Rightarrow> 'st \<Rightarrow> 'st"
    and ok :: "int \<Rightarrow> inputs \<Rightarrow> 'st \<Rightarrow> bool"
  assumes exec_step: "ok (tick s) i (view (fld s inst)) \<Longrightarrow>
      \<exists>t. exec inst i s = Done () t \<and> view (fld t inst) = step (tick s) i (view (fld s inst)) \<and>
          changes_fields inst fs s t"
    and view_local: "(\<And>f. f \<in> set fs \<Longrightarrow> x f = y f) \<Longrightarrow> view x = view y"
    and plain_fields: "list_all plain fs"
begin

lemma other_instance:
  assumes "changes_fields inst fs s t" and "canonical_identifier other \<noteq> canonical_identifier inst"
  shows "view (fld t other) = view (fld s other)"
proof (rule view_local)
  fix f assume "f \<in> set fs"
  then have "field_key other f \<notin> field_key inst ` set fs"
    using assms(2) plain_fields by (auto simp: field_key_eq list_all_iff)
  then show "fld t other f = fld s other f"
    using assms(1) by (simp add: changes_fields_def fld_def)
qed

lemma cycles:
  assumes "leaves_alone inst fs m"
    and "accepted (ok (tick s)) (step (tick s)) is (view (fld s inst))"
  shows "\<exists>t. rfor is (\<lambda>i. rseq m (exec inst i)) s = Done () t \<and>
             view (fld t inst) = fold (step (tick s)) is (view (fld s inst)) \<and>
             rt_options t = rt_options s \<and> rt_platform t = rt_platform s"
  using assms(2)
proof (induction "is" arbitrary: s)
  case (Cons i "is")
  obtain u where u: "m s = Done () u" "\<And>f. f \<in> set fs \<Longrightarrow> fld u inst f = fld s inst f"
      "rt_options u = rt_options s" "rt_platform u = rt_platform s"
    using assms(1) unfolding leaves_alone_def by meson
  have view: "view (fld u inst) = view (fld s inst)" and tick: "tick u = tick s"
    using u by (auto intro: view_local simp: tick_def)
  have "ok (tick u) i (view (fld u inst))"
    using Cons.prems view tick by simp
  then obtain v where v: "exec inst i u = Done () v"
      "view (fld v inst) = step (tick s) i (view (fld s inst))" "changes_fields inst fs u v"
    using exec_step [of u i inst] view tick by auto
  have const: "rt_options v = rt_options s" "rt_platform v = rt_platform s"
    using changes_const [OF v(3)] u by simp_all
  then have "tick v = tick s"
    by (simp add: tick_def)
  then have "accepted (ok (tick v)) (step (tick v)) is (view (fld v inst))"
    using Cons.prems v by simp
  from Cons.IH [OF this] obtain t where
      "rfor is (\<lambda>i. rseq m (exec inst i)) v = Done () t"
      "view (fld t inst) = fold (step (tick s)) is (step (tick s) i (view (fld s inst)))"
      "rt_options t = rt_options s" "rt_platform t = rt_platform s"
    using v const \<open>tick v = tick s\<close> by auto
  then show ?case
    using u v by (simp add: rseq_Done)
qed (simp add: ret_def)

end

section \<open>The automata\<close>

definition preset :: "inputs \<Rightarrow> int" where
  "preset i = max (input_time_ms i ''PT'') 0"

text \<open>Timers: the elapsed time, the output, and for a pulse the last input and whether it runs.\<close>

definition ton_step :: "int \<Rightarrow> inputs \<Rightarrow> int \<times> bool \<Rightarrow> int \<times> bool" where
  "ton_step ct i st =
     (if \<not> input_bool i ''IN'' then (0, False)
      else let elapsed = min (fst st + ct) (preset i) in (elapsed, preset i \<le> elapsed))"

definition tof_step :: "int \<Rightarrow> inputs \<Rightarrow> int \<times> bool \<Rightarrow> int \<times> bool" where
  "tof_step ct i st =
     (if input_bool i ''IN'' then (0, True)
      else if snd st then
        let elapsed = min (fst st + ct) (preset i) in (elapsed, elapsed < preset i)
      else st)"

definition tp_step :: "int \<Rightarrow> inputs \<Rightarrow> int \<times> bool \<times> bool \<times> bool \<Rightarrow> int \<times> bool \<times> bool \<times> bool" where
  "tp_step ct i st =
     (case st of (et, q, old, run) \<Rightarrow>
        let input = input_bool i ''IN'';
            starts = input \<and> \<not> old \<and> \<not> run;
            elapsed = min ((if starts then 0 else et) + ct) (preset i);
            running = elapsed < preset i
        in if run \<or> starts then (elapsed, running, input, running)
           else (et, False, input, False))"

definition timer_ok :: "int \<Rightarrow> inputs \<Rightarrow> int \<Rightarrow> bool" where
  "timer_ok ct i et \<longleftrightarrow> in_i128 (et + ct) \<and> in_i128 ct"

definition tp_ok :: "int \<Rightarrow> inputs \<Rightarrow> int \<times> bool \<times> bool \<times> bool \<Rightarrow> bool" where
  "tp_ok ct i st = (case st of (et, q, old, run) \<Rightarrow> timer_ok ct i (if run then et else 0))"

text \<open>Counters: the count, the last counting inputs, the output.\<close>

definition ctu_step :: "inputs \<Rightarrow> int \<times> bool \<times> bool \<Rightarrow> int \<times> bool \<times> bool" where
  "ctu_step i st =
     (case st of (cv, old, q) \<Rightarrow>
        let cu = input_bool i ''CU'';
            (cv', old') = (if input_bool i ''R'' then (0, old)
                           else (if cu \<and> \<not> old then cv + 1 else cv, cu))
        in (cv', old', input_i64 i ''PV'' \<le> cv'))"

definition ctd_step :: "inputs \<Rightarrow> int \<times> bool \<times> bool \<Rightarrow> int \<times> bool \<times> bool" where
  "ctd_step i st =
     (case st of (cv, old, q) \<Rightarrow>
        let cd = input_bool i ''CD'';
            (cv', old') = (if input_bool i ''LD'' then (input_i64 i ''PV'', old)
                           else (if cd \<and> \<not> old then cv - 1 else cv, cd))
        in (cv', old', cv' \<le> 0))"

definition ctud_step ::
    "inputs \<Rightarrow> int \<times> bool \<times> bool \<times> bool \<times> bool \<Rightarrow> int \<times> bool \<times> bool \<times> bool \<times> bool" where
  "ctud_step i st =
     (case st of (cv, old_u, old_d, _, _) \<Rightarrow>
        let cu = input_bool i ''CU''; cd = input_bool i ''CD'';
            up = cu \<and> \<not> old_u; down = cd \<and> \<not> old_d;
            (cv', u, d) =
              (if input_bool i ''R'' then (0, old_u, old_d)
               else if input_bool i ''LD'' then (input_i64 i ''PV'', old_u, old_d)
               else (cv + of_bool (up \<and> \<not> down) - of_bool (down \<and> \<not> up), cu, cd))
        in (cv', u, d, input_i64 i ''PV'' \<le> cv', cv' \<le> 0))"

definition timer_view :: "(string \<Rightarrow> val option) \<Rightarrow> int \<times> bool" where
  "timer_view x = (duration (x ''ET''), flag (x ''Q''))"

definition tp_view :: "(string \<Rightarrow> val option) \<Rightarrow> int \<times> bool \<times> bool \<times> bool" where
  "tp_view x = (duration (x ''ET''), flag (x ''Q''), flag (x ''_IN''), flag (x ''_RUN''))"

definition ctu_view :: "(string \<Rightarrow> val option) \<Rightarrow> int \<times> bool \<times> bool" where
  "ctu_view x = (num (x ''CV''), flag (x ''_CU''), flag (x ''Q''))"

definition ctd_view :: "(string \<Rightarrow> val option) \<Rightarrow> int \<times> bool \<times> bool" where
  "ctd_view x = (num (x ''CV''), flag (x ''_CD''), flag (x ''Q''))"

definition ctud_view :: "(string \<Rightarrow> val option) \<Rightarrow> int \<times> bool \<times> bool \<times> bool \<times> bool" where
  "ctud_view x = (num (x ''CV''), flag (x ''_CU''), flag (x ''_CD''), flag (x ''QU''), flag (x ''QD''))"

lemmas view_defs = timer_view_def tp_view_def ctu_view_def ctd_view_def ctud_view_def

lemma canonical_fields [blk_simps]:
  "canonical_identifier ''Q'' = ''Q''" "canonical_identifier ''Q1'' = ''Q1''"
  "canonical_identifier ''M'' = ''M''" "canonical_identifier ''ET'' = ''ET''"
  "canonical_identifier ''_IN'' = ''_IN''" "canonical_identifier ''_RUN'' = ''_RUN''"
  "canonical_identifier ''CV'' = ''CV''" "canonical_identifier ''_CU'' = ''_CU''"
  "canonical_identifier ''_CD'' = ''_CD''" "canonical_identifier ''QU'' = ''QU''"
  "canonical_identifier ''QD'' = ''QD''"
  by code_simp+

lemma plain_fields [blk_simps]:
  "plain ''Q''" "plain ''Q1''" "plain ''M''" "plain ''ET''" "plain ''_IN''" "plain ''_RUN''"
  "plain ''CV''" "plain ''_CU''" "plain ''_CD''" "plain ''QU''" "plain ''QD''"
  by (simp_all add: plain_def canonical_fields)

lemma add_i64_exact: "in_i64 (a + b) \<Longrightarrow> rbind (add_i64 a b) k s = k (a + b) s"
  by (simp add: rbind_def add_i64_def rlift_def i64_arith_def)

lemma add_i128_exact: "in_i128 (a + b) \<Longrightarrow> rbind (rmap g (add_i128 a b)) k s = k (g (a + b)) s"
  by (simp add: rmap_def rbind_def add_i128_def rlift_def i128_arith_def ret_def)

lemma advance_exact:
  "in_i128 (duration (fld s inst ''ET'') + tick s) \<Longrightarrow>
   rbind (advance_elapsed inst n) k s = k (min (duration (fld s inst ''ET'') + tick s) n) s"
  by (simp add: advance_elapsed_def rbind_assoc blk_simps add_i128_exact tick_def)


definition counts_ok :: "int \<Rightarrow> bool" where
  "counts_ok cv \<longleftrightarrow> in_i64 (cv - 1) \<and> in_i64 (cv + 1)"

interpretation ton: field_block execute_ton "[''Q'', ''ET'', ''_IN'']" timer_view ton_step
  "\<lambda>ct i st. timer_ok ct i (fst st)"
proof
  show "\<exists>t. execute_ton inst i s = Done () t \<and> timer_view (fld t inst) = ton_step (tick s) i (timer_view (fld s inst)) \<and>
      changes_fields inst [''Q'', ''ET'', ''_IN''] s t"
    if "timer_ok (tick s) i (fst (timer_view (fld s inst)))" for s i inst
    using that
    by (auto simp: execute_ton_def ton_step_def timer_view_def timer_ok_def preset_def Let_def
        advance_exact blk_simps intro!: changes_put)
qed (auto simp: view_defs blk_simps)

interpretation tof: field_block execute_tof "[''Q'', ''ET'', ''_IN'']" timer_view tof_step
  "\<lambda>ct i st. timer_ok ct i (fst st)"
proof
  show "\<exists>t. execute_tof inst i s = Done () t \<and> timer_view (fld t inst) = tof_step (tick s) i (timer_view (fld s inst)) \<and>
      changes_fields inst [''Q'', ''ET'', ''_IN''] s t"
    if "timer_ok (tick s) i (fst (timer_view (fld s inst)))" for s i inst
    using that
    by (auto simp: execute_tof_def tof_step_def timer_view_def timer_ok_def preset_def Let_def
        advance_exact blk_simps intro!: changes_put)
qed (auto simp: view_defs blk_simps)

interpretation tp: field_block execute_tp "[''ET'', ''Q'', ''_IN'', ''_RUN'']" tp_view tp_step
  tp_ok
proof
  show "\<exists>t. execute_tp inst i s = Done () t \<and> tp_view (fld t inst) = tp_step (tick s) i (tp_view (fld s inst)) \<and>
      changes_fields inst [''ET'', ''Q'', ''_IN'', ''_RUN''] s t"
    if "tp_ok (tick s) i (tp_view (fld s inst))" for s i inst
    using that
    by (auto simp: execute_tp_def tp_step_def tp_view_def Let_def tp_ok_def timer_ok_def preset_def advance_exact blk_simps intro!: changes_put)
qed (auto simp: tp_view_def blk_simps)

interpretation ctu: field_block execute_ctu "[''Q'', ''CV'', ''_CU'']" ctu_view "\<lambda>_. ctu_step"
  "\<lambda>ct i st. counts_ok (fst st)"
proof
  show "\<exists>t. execute_ctu inst i s = Done () t \<and> ctu_view (fld t inst) = ctu_step i (ctu_view (fld s inst)) \<and>
      changes_fields inst [''Q'', ''CV'', ''_CU''] s t"
    if "counts_ok (fst (ctu_view (fld s inst)))" for s i inst
    using that
    by (auto simp: execute_ctu_def ctu_step_def ctu_view_def Let_def counts_ok_def add_i64_exact blk_simps intro!: changes_put)
qed (auto simp: ctu_view_def blk_simps)

interpretation ctd: field_block execute_ctd "[''Q'', ''CV'', ''_CD'']" ctd_view "\<lambda>_. ctd_step"
  "\<lambda>ct i st. counts_ok (fst st)"
proof
  show "\<exists>t. execute_ctd inst i s = Done () t \<and> ctd_view (fld t inst) = ctd_step i (ctd_view (fld s inst)) \<and>
      changes_fields inst [''Q'', ''CV'', ''_CD''] s t"
    if "counts_ok (fst (ctd_view (fld s inst)))" for s i inst
    using that
    by (auto simp: execute_ctd_def ctd_step_def ctd_view_def Let_def counts_ok_def add_i64_exact blk_simps intro!: changes_put)
qed (auto simp: ctd_view_def blk_simps)

interpretation ctud: field_block execute_ctud "[''QU'', ''QD'', ''CV'', ''_CU'', ''_CD'']" ctud_view "\<lambda>_. ctud_step"
  "\<lambda>ct i st. counts_ok (fst st)"
proof
  show "\<exists>t. execute_ctud inst i s = Done () t \<and> ctud_view (fld t inst) = ctud_step i (ctud_view (fld s inst)) \<and>
      changes_fields inst [''QU'', ''QD'', ''CV'', ''_CU'', ''_CD''] s t"
    if "counts_ok (fst (ctud_view (fld s inst)))" for s i inst
    using that
    by (auto simp: execute_ctud_def ctud_step_def ctud_view_def Let_def counts_ok_def add_i64_exact blk_simps intro!: changes_put)
qed (auto simp: ctud_view_def blk_simps)

text \<open>Bistables and edge detectors: the output; the output and the last clock.\<close>

definition sr_step :: "inputs \<Rightarrow> bool \<Rightarrow> bool" where
  "sr_step i q = (input_bool i ''S1'' \<or> (q \<and> \<not> input_bool i ''R''))"

definition rs_step :: "inputs \<Rightarrow> bool \<Rightarrow> bool" where
  "rs_step i q = ((q \<or> input_bool i ''S'') \<and> \<not> input_bool i ''R1'')"

definition r_trig_step :: "inputs \<Rightarrow> bool \<times> bool \<Rightarrow> bool \<times> bool" where
  "r_trig_step i st = (input_bool i ''CLK'' \<and> \<not> snd st, input_bool i ''CLK'')"

definition f_trig_step :: "inputs \<Rightarrow> bool \<times> bool \<Rightarrow> bool \<times> bool" where
  "f_trig_step i st = (\<not> input_bool i ''CLK'' \<and> snd st, input_bool i ''CLK'')"

definition bistable_view :: "(string \<Rightarrow> val option) \<Rightarrow> bool" where
  "bistable_view x = flag (x ''Q1'')"

definition trig_view :: "(string \<Rightarrow> val option) \<Rightarrow> bool \<times> bool" where
  "trig_view x = (flag (x ''Q''), flag (x ''M''))"

interpretation sr: field_block execute_sr "[''Q1'']" bistable_view "\<lambda>_. sr_step" "\<lambda>_ _ _. True"
proof
  show "\<exists>t. execute_sr inst i s = Done () t \<and> bistable_view (fld t inst) = sr_step i (bistable_view (fld s inst)) \<and>
      changes_fields inst [''Q1''] s t" for s i inst
    by (auto simp: execute_sr_def sr_step_def bistable_view_def Let_def blk_simps intro!: changes_put)
qed (auto simp: bistable_view_def blk_simps)

interpretation rs: field_block execute_rs "[''Q1'']" bistable_view "\<lambda>_. rs_step" "\<lambda>_ _ _. True"
proof
  show "\<exists>t. execute_rs inst i s = Done () t \<and> bistable_view (fld t inst) = rs_step i (bistable_view (fld s inst)) \<and>
      changes_fields inst [''Q1''] s t" for s i inst
    by (auto simp: execute_rs_def rs_step_def bistable_view_def Let_def blk_simps intro!: changes_put)
qed (auto simp: bistable_view_def blk_simps)

interpretation r_trig: field_block execute_r_trig "[''Q'', ''M'']" trig_view "\<lambda>_. r_trig_step" "\<lambda>_ _ _. True"
proof
  show "\<exists>t. execute_r_trig inst i s = Done () t \<and> trig_view (fld t inst) = r_trig_step i (trig_view (fld s inst)) \<and>
      changes_fields inst [''Q'', ''M''] s t" for s i inst
    by (auto simp: execute_r_trig_def r_trig_step_def trig_view_def Let_def blk_simps intro!: changes_put)
qed (auto simp: trig_view_def blk_simps)

interpretation f_trig: field_block execute_f_trig "[''Q'', ''M'']" trig_view "\<lambda>_. f_trig_step" "\<lambda>_ _ _. True"
proof
  show "\<exists>t. execute_f_trig inst i s = Done () t \<and> trig_view (fld t inst) = f_trig_step i (trig_view (fld s inst)) \<and>
      changes_fields inst [''Q'', ''M''] s t" for s i inst
    by (auto simp: execute_f_trig_def f_trig_step_def trig_view_def Let_def blk_simps intro!: changes_put)
qed (auto simp: trig_view_def blk_simps)

section \<open>Timers\<close>

definition held :: "int \<Rightarrow> bool \<Rightarrow> inputs \<Rightarrow> bool" where
  "held pt b i \<longleftrightarrow> preset i = pt \<and> input_bool i ''IN'' = b"

lemma preset_nonneg: "0 \<le> preset i"
  by (simp add: preset_def)

lemma min_step: "0 \<le> ct \<Longrightarrow> min (min (n * ct) pt + ct) pt = min ((n + 1) * ct) (pt :: int)"
  by (simp add: algebra_simps min_def)

lemma ton_fold:
  assumes "list_all (held pt True) is" and "0 \<le> ct" and "0 \<le> pt"
  shows "fst (fold (ton_step ct) is (0, q)) = min (int (length is) * ct) pt \<and>
         (is \<noteq> [] \<longrightarrow> snd (fold (ton_step ct) is (0, q)) = (pt \<le> int (length is) * ct))"
  using assms(1)
proof (induction "is" rule: rev_induct)
  case (snoc i "is")
  then show ?case
    using min_step [of ct "int (length is)" pt] assms(2)
    by (auto simp: ton_step_def held_def Let_def algebra_simps)
qed (simp add: assms)

lemma accepted_append:
  "accepted ok step (xs @ ys) st \<longleftrightarrow> accepted ok step xs st \<and> accepted ok step ys (fold step xs st)"
  by (induction xs arbitrary: st) auto

lemma timer_okI: "0 \<le> et \<Longrightarrow> 0 \<le> ct \<Longrightarrow> et + ct \<le> i64_max \<Longrightarrow> timer_ok ct i et"
  by (simp add: timer_ok_def int_bounds)

lemma ton_accepted:
  assumes "list_all (held pt True) is" and "0 \<le> ct" and "0 \<le> pt" and "int (length is) * ct \<le> i64_max"
  shows "accepted (\<lambda>i st. timer_ok ct i (fst st)) (ton_step ct) is (0, q)"
  using assms(1,4)
proof (induction "is" rule: rev_induct)
  case (snoc i "is")
  have "0 \<le> int (length is) * ct" "int (length is) * ct + ct \<le> i64_max"
    using snoc.prems assms(2) by (simp_all add: algebra_simps)
  moreover have "fst (fold (ton_step ct) is (0, q)) = min (int (length is) * ct) pt"
    using ton_fold [of pt "is" ct q] snoc.prems assms by simp
  ultimately have "timer_ok ct i (fst (fold (ton_step ct) is (0, q)))"
    using assms(2,3) by (auto intro!: timer_okI simp: min_def)
  moreover have "int (length is) * ct \<le> i64_max"
    using snoc.prems assms(2) by (simp add: algebra_simps)
  ultimately show ?case
    using snoc by (simp add: accepted_append)
qed simp

text \<open>C10: The on-delay timer switches on time, and it does switch on: after a cycle in which its
  elapsed time is 0, \<open>n \<ge> 1\<close> cycles with the input held and a preset \<open>pt\<close> leave \<open>ET\<close> at
  \<open>min (n * t) pt\<close> for the cycle time \<open>t\<close>, and \<open>Q\<close> is true exactly when \<open>n * t\<close> has reached
  \<open>pt\<close>; whatever else runs between the calls, as long as it leaves the fields of the
  instance alone.\<close>

theorem ton_output_after_delay:
  assumes "leaves_alone inst [''Q'', ''ET'', ''_IN''] m"
    and "is \<noteq> []" and "list_all (held pt True) is"
    and "duration (fld s inst ''ET'') = 0" and "0 \<le> tick s" and "int (length is) * tick s \<le> i64_max"
  shows "\<exists>t. rfor is (\<lambda>i. rseq m (execute_ton inst i)) s = Done () t \<and>
             duration (fld t inst ''ET'') = min (int (length is) * tick s) pt \<and>
             flag (fld t inst ''Q'') = (pt \<le> int (length is) * tick s)"
proof -
  have view: "timer_view (fld s inst) = (0, flag (fld s inst ''Q''))"
    using assms(4) by (simp add: timer_view_def)
  have "0 \<le> pt"
    using assms(2,3) preset_nonneg by (cases "is") (auto simp: held_def)
  then have "fold (ton_step (tick s)) is (timer_view (fld s inst)) =
      (min (int (length is) * tick s) pt, pt \<le> int (length is) * tick s)"
    using ton_fold [OF assms(3,5), of "flag (fld s inst ''Q'')"] assms(2) by (simp add: view prod_eq_iff)
  moreover have "accepted (\<lambda>i st. timer_ok (tick s) i (fst st)) (ton_step (tick s)) is (timer_view (fld s inst))"
    using ton_accepted [OF assms(3,5) \<open>0 \<le> pt\<close> assms(6)] by (simp add: view)
  ultimately show ?thesis
    using ton.cycles [OF assms(1), of s "is"] by (auto simp: timer_view_def)
qed

definition demo_runtime :: "statement list \<Rightarrow> runtime" where
  "demo_runtime body =
     start_runtime \<lparr> overflow_checks = True, math = demo_libm \<rparr> (project_new Strict2003)
       \<lparr> pou_name = ident_new ''Main'', pou_kind = ProgramKind, pou_var_blocks = [],
         pou_body = structured_text body \<rparr>
       default_options no_communication_hooks"

lemma demo_runtime_simps [simp]:
  "rt_env (demo_runtime body) = []" "rt_options (demo_runtime body) = default_options"
  "tick (demo_runtime body) = 1"
  by (simp_all add: demo_runtime_def start_runtime_def tick_def default_options_def)

lemma ret_leaves_alone: "leaves_alone inst fs (ret ())"
  by (simp add: leaves_alone_def ret_def)

theorem ton_output_after_delay_witness:
  "\<exists>t. rfor (replicate 3 [(''IN'', VBool True), (''PT'', VTimeMs 2)])
         (\<lambda>i. rseq (ret ()) (execute_ton ''T'' i)) (demo_runtime []) = Done () t \<and>
       duration (fld t ''T'' ''ET'') = 2 \<and> flag (fld t ''T'' ''Q'')"
proof -
  have "held 2 True [(''IN'', VBool True), (''PT'', VTimeMs 2)]"
    by code_simp
  then have "list_all (held 2 True) (replicate 3 [(''IN'', VBool True), (''PT'', VTimeMs 2)])"
    by (simp add: list_all_iff)
  moreover have "duration (fld (demo_runtime []) ''T'' ''ET'') = 0"
    by (simp add: fld_def duration_def)
  ultimately show ?thesis
    using ton_output_after_delay [OF ret_leaves_alone,
        of "replicate 3 [(''IN'', VBool True), (''PT'', VTimeMs 2)]" 2 "demo_runtime []" "''T''"]
    by (auto simp: int_bounds)
qed


definition pulse_state :: "int \<Rightarrow> int \<Rightarrow> inputs list \<Rightarrow> int \<times> bool \<times> bool \<times> bool" where
  "pulse_state ct pt is =
     (let n = int (length is) * ct in (min n pt, n < pt, input_bool (last is) ''IN'', n < pt))"

lemma tp_running:
  "tp_step ct i (et, q, old, True) =
     (let e = min (et + ct) (preset i) in (e, e < preset i, input_bool i ''IN'', e < preset i))"
  by (simp add: tp_step_def Let_def)

lemma tp_fold:
  assumes "list_all (\<lambda>i. preset i = pt) is" and "is \<noteq> []" and "input_bool (hd is) ''IN''"
    and "0 \<le> ct" and "(int (length is) - 1) * ct < pt \<or> length is = 1"
  shows "fold (tp_step ct) is (et, q, False, False) = pulse_state ct pt is"
  using assms(1-3,5)
proof (induction "is" rule: rev_induct)
  case (snoc i "is")
  show ?case
  proof (cases "is = []")
    case True
    then show ?thesis
      using snoc.prems by (auto simp: tp_step_def pulse_state_def Let_def min_def)
  next
    case False
    have prev: "int (length is) * ct < pt"
      using snoc.prems(4) False by simp
    then have "(int (length is) - 1) * ct < pt"
      using assms(4) by (simp add: algebra_simps)
    then have "fold (tp_step ct) is (et, q, False, False) = pulse_state ct pt is"
      using snoc False by simp
    then show ?thesis
      using prev snoc.prems False assms(4)
      by (auto simp: pulse_state_def tp_running Let_def algebra_simps min_def)
  qed
qed simp

lemma tp_accepted:
  assumes "list_all (\<lambda>i. preset i = pt) is" and "is \<noteq> []" and "input_bool (hd is) ''IN''"
    and "0 \<le> ct" and "(int (length is) - 1) * ct < pt \<or> length is = 1"
    and "int (length is) * ct \<le> i64_max"
  shows "accepted (tp_ok ct) (tp_step ct) is (et, q, False, False)"
  using assms(1-3,5,6)
proof (induction "is" rule: rev_induct)
  case (snoc i "is")
  show ?case
  proof (cases "is = []")
    case True
    then show ?thesis
      using snoc.prems assms(4) by (auto simp: tp_ok_def intro!: timer_okI)
  next
    case False
    have prev: "int (length is) * ct < pt" and bound: "0 \<le> int (length is) * ct" "int (length is) * ct + ct \<le> i64_max"
      using snoc.prems(4,5) False assms(4) by (simp_all add: algebra_simps)
    then have less: "(int (length is) - 1) * ct < pt"
      using assms(4) by (simp add: algebra_simps)
    then have "fold (tp_step ct) is (et, q, False, False) = pulse_state ct pt is"
      using snoc.prems False assms(4) by (intro tp_fold) auto
    then have "tp_ok ct i (fold (tp_step ct) is (et, q, False, False))"
      using prev bound assms(4) by (auto simp: tp_ok_def pulse_state_def Let_def intro!: timer_okI)
    then show ?thesis
      using snoc False less bound assms(4) by (simp add: accepted_append)
  qed
qed simp

text \<open>C11: The pulse timer gives a pulse of its preset: from rest a cycle with a true input
  starts it, and after \<open>n\<close> cycles of time \<open>t\<close>, up to the one in which the preset \<open>pt\<close> is
  reached, the output is true exactly while \<open>n * t < pt\<close>, whatever the input does after
  the first cycle: it neither cuts the pulse short nor prolongs it.\<close>

theorem tp_pulse_length:
  assumes "leaves_alone inst [''ET'', ''Q'', ''_IN'', ''_RUN''] m"
    and "list_all (\<lambda>i. preset i = pt) is" and "is \<noteq> []" and "input_bool (hd is) ''IN''"
    and "\<not> flag (fld s inst ''_IN'')" and "\<not> flag (fld s inst ''_RUN'')"
    and "0 \<le> tick s" and "(int (length is) - 1) * tick s < pt \<or> length is = 1"
    and "int (length is) * tick s \<le> i64_max"
  shows "\<exists>t. rfor is (\<lambda>i. rseq m (execute_tp inst i)) s = Done () t \<and>
             flag (fld t inst ''Q'') = (int (length is) * tick s < pt) \<and>
             flag (fld t inst ''_RUN'') = (int (length is) * tick s < pt) \<and>
             duration (fld t inst ''ET'') = min (int (length is) * tick s) pt"
proof -
  have view: "tp_view (fld s inst) =
      (duration (fld s inst ''ET''), flag (fld s inst ''Q''), False, False)"
    using assms(5,6) by (simp add: tp_view_def)
  have "fold (tp_step (tick s)) is (tp_view (fld s inst)) = pulse_state (tick s) pt is"
    unfolding view by (rule tp_fold [OF assms(2-4,7,8)])
  moreover have "accepted (tp_ok (tick s)) (tp_step (tick s)) is (tp_view (fld s inst))"
    unfolding view by (rule tp_accepted [OF assms(2-4,7-9)])
  ultimately show ?thesis
    using tp.cycles [OF assms(1), of s "is"] by (auto simp: tp_view_def pulse_state_def Let_def)
qed

theorem tp_pulse_length_witness:
  "\<exists>t. rfor [[(''IN'', VBool True), (''PT'', VTimeMs 3)], [(''IN'', VBool False), (''PT'', VTimeMs 3)]]
         (\<lambda>i. rseq (ret ()) (execute_tp ''T'' i)) (demo_runtime []) = Done () t \<and>
       flag (fld t ''T'' ''Q'') \<and> duration (fld t ''T'' ''ET'') = 2"
proof -
  let ?is = "[[(''IN'', VBool True), (''PT'', VTimeMs 3)], [(''IN'', VBool False), (''PT'', VTimeMs 3)]]"
  have "list_all (\<lambda>i. preset i = 3) ?is" "input_bool (hd ?is) ''IN''"
    by code_simp+
  moreover have "\<not> flag (fld (demo_runtime []) ''T'' f)" for f
    by (simp add: fld_def flag_def)
  ultimately show ?thesis
    using tp_pulse_length [OF ret_leaves_alone, of 3 ?is "demo_runtime []" "''T''"]
    by (auto simp: int_bounds)
qed

section \<open>Counters\<close>

definition cu :: "inputs \<Rightarrow> bool" where
  "cu i = input_bool i ''CU''"

definition resets :: "inputs \<Rightarrow> bool" where
  "resets i = input_bool i ''R''"

text \<open>The rising edges of a sequence of levels, and the level it ends with.\<close>

fun rising :: "bool \<Rightarrow> bool list \<Rightarrow> int" where
  "rising old [] = 0"
| "rising old (b # bs) = of_bool (b \<and> \<not> old) + rising b bs"

definition last_level :: "bool \<Rightarrow> inputs list \<Rightarrow> bool" where
  "last_level old is = last (old # map cu (filter (\<lambda>i. \<not> resets i) is))"

lemma last_level_Cons: "last_level old (i # is) = last_level (if resets i then old else cu i) is"
  by (simp add: last_level_def)

lemma ctu_fold_last_level: "fst (snd (fold ctu_step is (cv, old, q))) = last_level old is"
proof (induction "is" arbitrary: cv old q)
  case (Cons i "is")
  then show ?case
    by (simp add: ctu_step_def Let_def cu_def resets_def last_level_Cons)
qed (simp add: last_level_def)

lemma ctu_fold_count:
  "\<forall>i \<in> set is. \<not> resets i \<Longrightarrow> fst (fold ctu_step is (cv, old, q)) = cv + rising old (map cu is)"
  by (induction "is" arbitrary: cv old q)
    (simp_all add: ctu_step_def Let_def cu_def resets_def)

lemma ctu_fold_output:
  "is \<noteq> [] \<Longrightarrow> snd (snd (fold ctu_step is st)) = (input_i64 (last is) ''PV'' \<le> fst (fold ctu_step is st))"
  by (induction "is" rule: rev_induct) (auto simp: ctu_step_def Let_def split: prod.splits)

lemma ctu_accepted:
  "0 \<le> cv \<Longrightarrow> cv + int (length is) \<le> i64_max \<Longrightarrow>
   accepted (\<lambda>_ st. counts_ok (fst st)) ctu_step is (cv, old, q)"
proof (induction "is" arbitrary: cv old q)
  case (Cons i "is")
  then show ?case
    by (auto simp: ctu_step_def Let_def counts_ok_def int_bounds intro!: Cons.IH)
qed simp

text \<open>C12: The up counter counts rising edges: in any sequence of calls its count is the number of
  rising edges of \<open>CU\<close> since the last reset, and \<open>Q\<close> says whether it has reached \<open>PV\<close>. The
  level the first edge is measured against is that of the last call without a reset, not that
  of the reset: an edge that comes while \<open>R\<close> is held is counted when \<open>R\<close> is released.\<close>

theorem ctu_counts_edges:
  assumes "leaves_alone inst [''Q'', ''CV'', ''_CU''] m"
    and "resets r" and "\<forall>i \<in> set post. \<not> resets i"
    and "0 \<le> num (fld s inst ''CV'')"
    and "num (fld s inst ''CV'') + int (length (pre @ r # post)) \<le> i64_max"
  shows "\<exists>t. rfor (pre @ r # post) (\<lambda>i. rseq m (execute_ctu inst i)) s = Done () t \<and>
             num (fld t inst ''CV'') = rising (last_level (flag (fld s inst ''_CU'')) pre) (map cu post) \<and>
             flag (fld t inst ''Q'') = (input_i64 (last (r # post)) ''PV'' \<le> num (fld t inst ''CV''))"
proof -
  obtain cv old q where view: "ctu_view (fld s inst) = (cv, old, q)"
      "cv = num (fld s inst ''CV'')" "old = flag (fld s inst ''_CU'')"
    by (simp add: ctu_view_def)
  have accepted: "accepted (\<lambda>_ st. counts_ok (fst st)) ctu_step (pre @ r # post) (cv, old, q)"
    using assms(4,5) view by (intro ctu_accepted) auto
  have "ctu_step r (fold ctu_step pre (cv, old, q)) = (0, last_level old pre, input_i64 r ''PV'' \<le> 0)"
    using assms(2) ctu_fold_last_level [of pre cv old q]
    by (auto simp: ctu_step_def resets_def split: prod.splits)
  then have "fst (fold ctu_step (pre @ r # post) (cv, old, q)) =
      rising (last_level old pre) (map cu post)"
    using ctu_fold_count [OF assms(3)] by simp
  moreover have "snd (snd (fold ctu_step (pre @ r # post) (cv, old, q))) =
      (input_i64 (last (r # post)) ''PV'' \<le> fst (fold ctu_step (pre @ r # post) (cv, old, q)))"
    using ctu_fold_output [of "pre @ r # post"] by simp
  ultimately show ?thesis
    using ctu.cycles [OF assms(1), of "pre @ r # post" s] accepted view
    by (auto simp: ctu_view_def prod_eq_iff)
qed

theorem ctu_counts_edges_witness:
  "\<exists>t. rfor ([] @ [(''CU'', VBool True), (''R'', VBool True)] # [[(''CU'', VBool True)]])
         (\<lambda>i. rseq (ret ()) (execute_ctu ''C'' i)) (demo_runtime []) = Done () t \<and>
       num (fld t ''C'' ''CV'') = 1"
proof -
  have "resets [(''CU'', VBool True), (''R'', VBool True)]" "\<not> resets [(''CU'', VBool True)]"
      "cu [(''CU'', VBool True)]"
    by code_simp+
  moreover have "flag (fld (demo_runtime []) ''C'' f) = False" "num (fld (demo_runtime []) ''C'' f) = 0" for f
    by (simp_all add: fld_def flag_def num_def)
  ultimately show ?thesis
    using ctu_counts_edges [OF ret_leaves_alone, of "[(''CU'', VBool True), (''R'', VBool True)]"
        "[[(''CU'', VBool True)]]" "demo_runtime []" "''C''" "[]"]
    by (auto simp: int_bounds last_level_def)
qed

end
