(* ===== verification/RtFollows.thy ===== *)
theory RtFollows
  imports RtRun
begin

text \<open>
  One relation between two interpreters whose recursive calls may nest to different depths:
  \<open>follows m n\<close> when, wherever \<open>m\<close> does not run out of fuel, \<open>n\<close> ends like \<open>m\<close>, and the end
  state extends the start: same project, program, options, depth, hooks and platform, the
  diagnostics only grow, the maps stay sorted. Every operation of the interpreter follows
  itself over related calls, so \<open>interp n\<close> follows \<open>interp m\<close> for \<open>n \<le> m\<close>: the fuel only
  decides whether there is a result, never which one.
\<close>

named_theorems follows_rules \<open>operations that follow each other over related calls\<close>

section \<open>The relation\<close>

definition extends :: "runtime \<Rightarrow> runtime \<Rightarrow> bool" where
  "extends s t \<longleftrightarrow>
     rt_project t = rt_project s \<and> rt_program t = rt_program s \<and> rt_options t = rt_options s \<and>
     rt_call_depth t = rt_call_depth s \<and> rt_communication t = rt_communication s \<and>
     rt_platform t = rt_platform s \<and> (\<exists>ds. rt_diagnostics t = rt_diagnostics s @ ds) \<and>
     (bt_ok (rt_env s) \<and> bt_ok (rt_types s) \<longrightarrow> bt_ok (rt_env t) \<and> bt_ok (rt_types t))"

lemma extends_refl [simp]: "extends s s"
  by (simp add: extends_def)

lemma extends_trans: "extends s t \<Longrightarrow> extends t u \<Longrightarrow> extends s u"
  by (auto simp: extends_def)

definition follows :: "'a rt \<Rightarrow> 'a rt \<Rightarrow> bool" where
  "follows m n \<longleftrightarrow> (\<forall>s. m s = NoFuel \<or> (n s = m s \<and> (\<forall>x t. m s = Done x t \<longrightarrow> extends s t)))"

lemma followsI:
  "(\<And>s. m s \<noteq> NoFuel \<Longrightarrow> n s = m s) \<Longrightarrow> (\<And>s x t. m s = Done x t \<Longrightarrow> extends s t) \<Longrightarrow> follows m n"
  by (auto simp: follows_def)

lemma followsD:
  "follows m n \<Longrightarrow> m s = NoFuel \<or> (n s = m s \<and> (\<forall>x t. m s = Done x t \<longrightarrow> extends s t))"
  by (simp add: follows_def)

lemma follows_out_of_fuel: "follows out_of_fuel n"
  by (simp add: follows_def out_of_fuel_def)

section \<open>The ways operations are put together\<close>

lemma follows_ret [follows_rules]: "follows (ret x) (ret x)"
  by (simp add: follows_def ret_def)

lemma follows_get [follows_rules]: "follows (rget f) (rget f)"
  by (simp add: follows_def rget_def)

lemma follows_modify: "(\<And>s. extends s (f s)) \<Longrightarrow> follows (rmodify f) (rmodify f)"
  by (simp add: follows_def rmodify_def)

lemma follows_lift [follows_rules]: "follows (\<lambda>s. rlift (r s) s) (\<lambda>s. rlift (r s) s)"
  by (auto simp: follows_def rlift_def split: outcome.splits)

lemma follows_bind [follows_rules]:
  assumes "follows m m'" and "\<And>x. follows (f x) (f' x)"
  shows "follows (rbind m f) (rbind m' f')"
  unfolding follows_def
proof
  fix s
  show "rbind m f s = NoFuel \<or>
      (rbind m' f' s = rbind m f s \<and> (\<forall>x t. rbind m f s = Done x t \<longrightarrow> extends s t))"
  proof (cases "m s")
    case (Done x u)
    then have m': "m' s = Done x u" and u: "extends s u"
      using followsD [OF assms(1), of s] by auto
    have "f x u = NoFuel \<or> (f' x u = f x u \<and> (\<forall>y t. f x u = Done y t \<longrightarrow> extends u t))"
      by (rule followsD [OF assms(2)])
    then show ?thesis
      using Done m' extends_trans [OF u] by (auto simp: rbind_def)
  qed (use followsD [OF assms(1), of s] in \<open>auto simp: rbind_def\<close>)
qed

lemma follows_seq [follows_rules]:
  "follows m m' \<Longrightarrow> follows n n' \<Longrightarrow> follows (rseq m n) (rseq m' n')"
  unfolding rseq_def by (intro follows_bind)

lemma follows_map [follows_rules]: "follows m m' \<Longrightarrow> follows (rmap f m) (rmap f m')"
  unfolding rmap_def by (intro follows_bind follows_ret)

lemma follows_case_option [follows_rules]:
  "follows a b \<Longrightarrow> (\<And>y. follows (f y) (g y)) \<Longrightarrow>
   follows (case x of None \<Rightarrow> a | Some y \<Rightarrow> f y) (case x of None \<Rightarrow> b | Some y \<Rightarrow> g y)"
  by (cases x) auto

lemma follows_try [follows_rules]:
  "follows m m' \<Longrightarrow> (\<And>x. follows (f x) (f' x)) \<Longrightarrow> follows (rtry m f) (rtry m' f')"
  unfolding rtry_def by (intro follows_bind follows_case_option follows_ret)

lemma follows_try_opt [follows_rules]:
  "(\<And>y. follows (f y) (f' y)) \<Longrightarrow> follows (rtry_opt x f) (rtry_opt x f')"
  unfolding rtry_opt_def by (intro follows_case_option follows_ret)

lemma follows_for [follows_rules]:
  "(\<And>x. follows (f x) (f' x)) \<Longrightarrow> follows (rfor xs f) (rfor xs f')"
  by (induction xs) (auto intro: follows_rules)

lemma follows_fold [follows_rules]:
  "(\<And>x a. follows (f x a) (f' x a)) \<Longrightarrow> follows (rfold xs f acc) (rfold xs f' acc)"
  by (induction xs arbitrary: acc) (auto intro: follows_rules)

lemma follows_in_child [follows_rules]:
  assumes "\<And>s. follows (m s) (m' s)"
  shows "follows (\<lambda>s. in_child (c s) (m s) s) (\<lambda>s. in_child (c s) (m' s) s)"
proof (rule followsI)
  fix s assume "in_child (c s) (m s) s \<noteq> NoFuel"
  then have "m s (c s) \<noteq> NoFuel"
    by (auto simp: in_child_def)
  then have "m' s (c s) = m s (c s)"
    using assms [of s] by (auto simp: follows_def dest: spec [of _ "c s"])
  then show "in_child (c s) (m' s) s = in_child (c s) (m s) s"
    by (simp add: in_child_def)
qed (auto simp: in_child_def split: run.splits)

lemma follows_if [follows_rules]:
  "(p \<Longrightarrow> follows a a') \<Longrightarrow> (\<not> p \<Longrightarrow> follows b b') \<Longrightarrow>
   follows (if p then a else b) (if p then a' else b')"
  by simp

lemma follows_case_prod [follows_rules]:
  "(\<And>a b. follows (f a b) (g a b)) \<Longrightarrow> follows (case_prod f x) (case_prod g x)"
  by (cases x) simp

lemma follows_case_list [follows_rules]:
  "follows a b \<Longrightarrow> (\<And>y ys. follows (f y ys) (g y ys)) \<Longrightarrow>
   follows (case xs of [] \<Rightarrow> a | y # ys \<Rightarrow> f y ys) (case xs of [] \<Rightarrow> b | y # ys \<Rightarrow> g y ys)"
  by (cases xs) auto

lemma follows_case_sum [follows_rules]:
  "(\<And>a. follows (f a) (f' a)) \<Longrightarrow> (\<And>b. follows (g b) (g' b)) \<Longrightarrow>
   follows (case_sum f g x) (case_sum f' g' x)"
  by (cases x) auto

lemma follows_case_bool [follows_rules]:
  "follows f0 g0 \<Longrightarrow> follows f1 g1 \<Longrightarrow>
   follows (case x of True \<Rightarrow> f0 | False \<Rightarrow> f1)
     (case x of True \<Rightarrow> g0 | False \<Rightarrow> g1)"
  by (cases x) auto

lemma follows_case_val [follows_rules]:
  "(\<And>x0. follows (f0 x0) (g0 x0)) \<Longrightarrow> 
   (\<And>x0. follows (f1 x0) (g1 x0)) \<Longrightarrow> 
   (\<And>x0. follows (f2 x0) (g2 x0)) \<Longrightarrow> 
   (\<And>x0. follows (f3 x0) (g3 x0)) \<Longrightarrow> 
   (\<And>x0. follows (f4 x0) (g4 x0)) \<Longrightarrow> 
   (\<And>x0. follows (f5 x0) (g5 x0)) \<Longrightarrow> 
   (\<And>x0. follows (f6 x0) (g6 x0)) \<Longrightarrow> 
   (\<And>x0. follows (f7 x0) (g7 x0)) \<Longrightarrow> follows f8 g8 \<Longrightarrow>
   follows (case x of VBool x0 \<Rightarrow> f0 x0 | VInt x0 \<Rightarrow> f1 x0 | 
     VReal x0 \<Rightarrow> f2 x0 | VString x0 \<Rightarrow> f3 x0 | 
     VWString x0 \<Rightarrow> f4 x0 | VTimeMs x0 \<Rightarrow> f5 x0 | 
     VArray x0 \<Rightarrow> f6 x0 | VStruct x0 \<Rightarrow> f7 x0 | VUnit \<Rightarrow> f8)
     (case x of VBool x0 \<Rightarrow> g0 x0 | VInt x0 \<Rightarrow> g1 x0 | 
     VReal x0 \<Rightarrow> g2 x0 | VString x0 \<Rightarrow> g3 x0 | 
     VWString x0 \<Rightarrow> g4 x0 | VTimeMs x0 \<Rightarrow> g5 x0 | 
     VArray x0 \<Rightarrow> g6 x0 | VStruct x0 \<Rightarrow> g7 x0 | VUnit \<Rightarrow> g8)"
  by (cases x) auto

lemma follows_case_spec [follows_rules]:
  "(\<And>x0. follows (f0 x0) (g0 x0)) \<Longrightarrow> 
   (\<And>x0. follows (f1 x0) (g1 x0)) \<Longrightarrow> 
   (\<And>x0 x1. follows (f2 x0 x1) (g2 x0 x1)) \<Longrightarrow> 
   (\<And>x0. follows (f3 x0) (g3 x0)) \<Longrightarrow> 
   (\<And>x0. follows (f4 x0) (g4 x0)) \<Longrightarrow> 
   (\<And>x0 x1. follows (f5 x0 x1) (g5 x0 x1)) \<Longrightarrow> 
   (\<And>x0 x1. follows (f6 x0 x1) (g6 x0 x1)) \<Longrightarrow>
   follows (case x of DtElementary x0 \<Rightarrow> f0 x0 | DtNamed x0 \<Rightarrow> f1 x0 | 
     DtArray x0 x1 \<Rightarrow> f2 x0 x1 | DtStruct x0 \<Rightarrow> f3 x0 | 
     DtEnum x0 \<Rightarrow> f4 x0 | DtSubrange x0 x1 \<Rightarrow> f5 x0 x1 | 
     DtString x0 x1 \<Rightarrow> f6 x0 x1)
     (case x of DtElementary x0 \<Rightarrow> g0 x0 | DtNamed x0 \<Rightarrow> g1 x0 | 
     DtArray x0 x1 \<Rightarrow> g2 x0 x1 | DtStruct x0 \<Rightarrow> g3 x0 | 
     DtEnum x0 \<Rightarrow> g4 x0 | DtSubrange x0 x1 \<Rightarrow> g5 x0 x1 | 
     DtString x0 x1 \<Rightarrow> g6 x0 x1)"
  by (cases x) auto

lemma follows_case_expr [follows_rules]:
  "(\<And>x0. follows (f0 x0) (g0 x0)) \<Longrightarrow> 
   (\<And>x0. follows (f1 x0) (g1 x0)) \<Longrightarrow> 
   (\<And>x0 x1. follows (f2 x0 x1) (g2 x0 x1)) \<Longrightarrow> 
   (\<And>x0 x1 x2. follows (f3 x0 x1 x2) (g3 x0 x1 x2)) \<Longrightarrow> 
   (\<And>x0 x1. follows (f4 x0 x1) (g4 x0 x1)) \<Longrightarrow> 
   (\<And>x0. follows (f5 x0) (g5 x0)) \<Longrightarrow> 
   (\<And>x0. follows (f6 x0) (g6 x0)) \<Longrightarrow>
   follows (case x of LiteralE x0 \<Rightarrow> f0 x0 | VariableE x0 \<Rightarrow> f1 x0 | 
     UnaryE x0 x1 \<Rightarrow> f2 x0 x1 | BinaryE x0 x1 x2 \<Rightarrow> f3 x0 x1 x2 | 
     CallE x0 x1 \<Rightarrow> f4 x0 x1 | ArrayLiteralE x0 \<Rightarrow> f5 x0 | 
     StructLiteralE x0 \<Rightarrow> f6 x0)
     (case x of LiteralE x0 \<Rightarrow> g0 x0 | VariableE x0 \<Rightarrow> g1 x0 | 
     UnaryE x0 x1 \<Rightarrow> g2 x0 x1 | BinaryE x0 x1 x2 \<Rightarrow> g3 x0 x1 x2 | 
     CallE x0 x1 \<Rightarrow> g4 x0 x1 | ArrayLiteralE x0 \<Rightarrow> g5 x0 | 
     StructLiteralE x0 \<Rightarrow> g6 x0)"
  by (cases x) auto

lemma follows_case_statement [follows_rules]:
  "follows f0 g0 \<Longrightarrow> (\<And>x0 x1. follows (f1 x0 x1) (g1 x0 x1)) \<Longrightarrow> 
   (\<And>x0 x1. follows (f2 x0 x1) (g2 x0 x1)) \<Longrightarrow> 
   (\<And>x0 x1. follows (f3 x0 x1) (g3 x0 x1)) \<Longrightarrow> 
   (\<And>x0 x1 x2. follows (f4 x0 x1 x2) (g4 x0 x1 x2)) \<Longrightarrow> 
   (\<And>x0 x1 x2 x3 x4. follows (f5 x0 x1 x2 x3 x4) (g5 x0 x1 x2 x3 x4)) \<Longrightarrow> 
   (\<And>x0 x1. follows (f6 x0 x1) (g6 x0 x1)) \<Longrightarrow> 
   (\<And>x0 x1. follows (f7 x0 x1) (g7 x0 x1)) \<Longrightarrow> 
   (\<And>x0 x1. follows (f8 x0 x1) (g8 x0 x1)) \<Longrightarrow> 
   (\<And>x0. follows (f9 x0) (g9 x0)) \<Longrightarrow> follows f10 g10 \<Longrightarrow> 
   follows f11 g11 \<Longrightarrow> (\<And>x0. follows (f12 x0) (g12 x0)) \<Longrightarrow>
   follows (case x of EmptyS \<Rightarrow> f0 | AssignmentS x0 x1 \<Rightarrow> f1 x0 x1 | 
     FbCallS x0 x1 \<Rightarrow> f2 x0 x1 | IfS x0 x1 \<Rightarrow> f3 x0 x1 | 
     CaseS x0 x1 x2 \<Rightarrow> f4 x0 x1 x2 | 
     ForS x0 x1 x2 x3 x4 \<Rightarrow> f5 x0 x1 x2 x3 x4 | 
     WhileS x0 x1 \<Rightarrow> f6 x0 x1 | RepeatS x0 x1 \<Rightarrow> f7 x0 x1 | 
     IlInstrS x0 x1 \<Rightarrow> f8 x0 x1 | IlLabelS x0 \<Rightarrow> f9 x0 | 
     ExitS \<Rightarrow> f10 | ReturnS \<Rightarrow> f11 | 
     UnsupportedS x0 \<Rightarrow> f12 x0)
     (case x of EmptyS \<Rightarrow> g0 | AssignmentS x0 x1 \<Rightarrow> g1 x0 x1 | 
     FbCallS x0 x1 \<Rightarrow> g2 x0 x1 | IfS x0 x1 \<Rightarrow> g3 x0 x1 | 
     CaseS x0 x1 x2 \<Rightarrow> g4 x0 x1 x2 | 
     ForS x0 x1 x2 x3 x4 \<Rightarrow> g5 x0 x1 x2 x3 x4 | 
     WhileS x0 x1 \<Rightarrow> g6 x0 x1 | RepeatS x0 x1 \<Rightarrow> g7 x0 x1 | 
     IlInstrS x0 x1 \<Rightarrow> g8 x0 x1 | IlLabelS x0 \<Rightarrow> g9 x0 | 
     ExitS \<Rightarrow> g10 | ReturnS \<Rightarrow> g11 | 
     UnsupportedS x0 \<Rightarrow> g12 x0)"
  by (cases x) auto

lemma follows_case_control [follows_rules]:
  "follows f0 g0 \<Longrightarrow> follows f1 g1 \<Longrightarrow> follows f2 g2 \<Longrightarrow> 
   (\<And>x0. follows (f3 x0) (g3 x0)) \<Longrightarrow>
   follows (case x of Continue \<Rightarrow> f0 | Exit \<Rightarrow> f1 | Return \<Rightarrow> f2 | 
     Jump x0 \<Rightarrow> f3 x0)
     (case x of Continue \<Rightarrow> g0 | Exit \<Rightarrow> g1 | Return \<Rightarrow> g2 | 
     Jump x0 \<Rightarrow> g3 x0)"
  by (cases x) auto

lemma follows_case_unary [follows_rules]:
  "follows f0 g0 \<Longrightarrow> follows f1 g1 \<Longrightarrow>
   follows (case x of OpNeg \<Rightarrow> f0 | OpNot \<Rightarrow> f1)
     (case x of OpNeg \<Rightarrow> g0 | OpNot \<Rightarrow> g1)"
  by (cases x) auto

lemma follows_case_binary [follows_rules]:
  "follows f0 g0 \<Longrightarrow> follows f1 g1 \<Longrightarrow> follows f2 g2 \<Longrightarrow> 
   follows f3 g3 \<Longrightarrow> follows f4 g4 \<Longrightarrow> follows f5 g5 \<Longrightarrow> 
   follows f6 g6 \<Longrightarrow> follows f7 g7 \<Longrightarrow> follows f8 g8 \<Longrightarrow> 
   follows f9 g9 \<Longrightarrow> follows f10 g10 \<Longrightarrow> follows f11 g11 \<Longrightarrow> 
   follows f12 g12 \<Longrightarrow> follows f13 g13 \<Longrightarrow> follows f14 g14 \<Longrightarrow>
   follows (case x of OpOr \<Rightarrow> f0 | OpXor \<Rightarrow> f1 | OpAnd \<Rightarrow> f2 | 
     OpEqual \<Rightarrow> f3 | OpNotEqual \<Rightarrow> f4 | OpLess \<Rightarrow> f5 | 
     OpLessEqual \<Rightarrow> f6 | OpGreater \<Rightarrow> f7 | 
     OpGreaterEqual \<Rightarrow> f8 | OpAdd \<Rightarrow> f9 | OpSub \<Rightarrow> f10 | 
     OpMul \<Rightarrow> f11 | OpDiv \<Rightarrow> f12 | OpMod \<Rightarrow> f13 | 
     OpPower \<Rightarrow> f14)
     (case x of OpOr \<Rightarrow> g0 | OpXor \<Rightarrow> g1 | OpAnd \<Rightarrow> g2 | 
     OpEqual \<Rightarrow> g3 | OpNotEqual \<Rightarrow> g4 | OpLess \<Rightarrow> g5 | 
     OpLessEqual \<Rightarrow> g6 | OpGreater \<Rightarrow> g7 | 
     OpGreaterEqual \<Rightarrow> g8 | OpAdd \<Rightarrow> g9 | OpSub \<Rightarrow> g10 | 
     OpMul \<Rightarrow> g11 | OpDiv \<Rightarrow> g12 | OpMod \<Rightarrow> g13 | 
     OpPower \<Rightarrow> g14)"
  by (cases x) auto

lemma follows_case_qualifier [follows_rules]:
  "follows f0 g0 \<Longrightarrow> follows f1 g1 \<Longrightarrow> follows f2 g2 \<Longrightarrow> 
   follows f3 g3 \<Longrightarrow> follows f4 g4 \<Longrightarrow> follows f5 g5 \<Longrightarrow> 
   follows f6 g6 \<Longrightarrow> follows f7 g7 \<Longrightarrow> follows f8 g8 \<Longrightarrow> 
   follows f9 g9 \<Longrightarrow>
   follows (case x of NonStored \<Rightarrow> f0 | SetStored \<Rightarrow> f1 | ResetStored \<Rightarrow> f2 | 
     Pulse \<Rightarrow> f3 | PulseFalling \<Rightarrow> f4 | TimeLimited \<Rightarrow> f5 | 
     TimeDelayed \<Rightarrow> f6 | StoredDelayed \<Rightarrow> f7 | 
     DelayedStored \<Rightarrow> f8 | StoredLimited \<Rightarrow> f9)
     (case x of NonStored \<Rightarrow> g0 | SetStored \<Rightarrow> g1 | ResetStored \<Rightarrow> g2 | 
     Pulse \<Rightarrow> g3 | PulseFalling \<Rightarrow> g4 | TimeLimited \<Rightarrow> g5 | 
     TimeDelayed \<Rightarrow> g6 | StoredDelayed \<Rightarrow> g7 | 
     DelayedStored \<Rightarrow> g8 | StoredLimited \<Rightarrow> g9)"
  by (cases x) auto

lemma follows_case_label [follows_rules]:
  "(\<And>x0. follows (f0 x0) (g0 x0)) \<Longrightarrow> 
   (\<And>x0 x1. follows (f1 x0 x1) (g1 x0 x1)) \<Longrightarrow>
   follows (case x of SingleLabel x0 \<Rightarrow> f0 x0 | RangeLabel x0 x1 \<Rightarrow> f1 x0 x1)
     (case x of SingleLabel x0 \<Rightarrow> g0 x0 | RangeLabel x0 x1 \<Rightarrow> g1 x0 x1)"
  by (cases x) auto

lemma follows_case_pou_kind [follows_rules]:
  "(\<And>x0. follows (f0 x0) (g0 x0)) \<Longrightarrow> follows f1 g1 \<Longrightarrow> 
   follows f2 g2 \<Longrightarrow>
   follows (case x of FunctionKind x0 \<Rightarrow> f0 x0 | FunctionBlockKind \<Rightarrow> f1 | 
     ProgramKind \<Rightarrow> f2)
     (case x of FunctionKind x0 \<Rightarrow> g0 x0 | FunctionBlockKind \<Rightarrow> g1 | 
     ProgramKind \<Rightarrow> g2)"
  by (cases x) auto

section \<open>Small steps\<close>

lemma follows_push [follows_rules]: "follows (push d) (push d)"
  unfolding push_def by (rule follows_modify) (simp add: extends_def)

lemma follows_env_insert [follows_rules]: "follows (env_insert k v) (env_insert k v)"
  unfolding env_insert_def by (rule follows_modify) (simp add: extends_def)

lemma follows_types_insert [follows_rules]: "follows (types_insert k t) (types_insert k t)"
  unfolding types_insert_def by (rule follows_modify) (simp add: extends_def)

lemma follows_accumulator [follows_rules]: "follows (set_accumulator v) (set_accumulator v)"
  unfolding set_accumulator_def by (rule follows_modify) (simp add: extends_def)

lemma follows_extend_diagnostics [follows_rules]:
  "follows (extend_diagnostics ds) (extend_diagnostics ds)"
  unfolding extend_diagnostics_def by (rule follows_modify) (simp add: extends_def)

lemma follows_empty:
  "follows (rmodify (\<lambda>s. s\<lparr>rt_env := [], rt_types := []\<rparr>)) (rmodify (\<lambda>s. s\<lparr>rt_env := [], rt_types := []\<rparr>))"
  by (rule follows_modify) (simp add: extends_def)

lemma follows_arithmetic [follows_rules]:
  "follows (add_i64 a b) (add_i64 a b)" "follows (add_i128 a b) (add_i128 a b)"
  "follows (add_usize m n) (add_usize m n)" "follows (mul_usize m n) (mul_usize m n)"
  "follows (extent_of r) (extent_of r)" "follows (element_count ranges) (element_count ranges)"
  unfolding add_i64_def [abs_def] add_i128_def [abs_def] add_usize_def [abs_def]
    mul_usize_def [abs_def] extent_of_def [abs_def] element_count_def [abs_def]
  by (rule follows_rules)+

lemma follows_fields [follows_rules]:
  "follows (set_field inst f v) (set_field inst f v)"
  "follows (get_field_bool inst f) (get_field_bool inst f)"
  "follows (get_field_i64 inst f) (get_field_i64 inst f)"
  "follows (get_field_time_ms inst f) (get_field_time_ms inst f)"
  "follows (env_get k) (env_get k)" "follows (resolve_named_spec t) (resolve_named_spec t)"
  "follows (push_overflow msg) (push_overflow msg)"
  unfolding set_field_def get_field_bool_def get_field_i64_def get_field_time_ms_def env_get_def
    resolve_named_spec_def push_overflow_def
  by (rule follows_rules)+

section \<open>Blocks and operators\<close>

lemma follows_advance [follows_rules]: "follows (advance_elapsed inst n) (advance_elapsed inst n)"
  unfolding advance_elapsed_def by (rule follows_rules)+

lemma follows_blocks [follows_rules]:
  "follows (execute_sr inst i) (execute_sr inst i)" "follows (execute_rs inst i) (execute_rs inst i)"
  "follows (execute_r_trig inst i) (execute_r_trig inst i)"
  "follows (execute_f_trig inst i) (execute_f_trig inst i)"
  "follows (execute_ctu inst i) (execute_ctu inst i)" "follows (execute_ctd inst i) (execute_ctd inst i)"
  "follows (execute_ctud inst i) (execute_ctud inst i)"
  "follows (execute_ton inst i) (execute_ton inst i)" "follows (execute_tof inst i) (execute_tof inst i)"
  "follows (execute_tp inst i) (execute_tp inst i)"
  unfolding execute_sr_def execute_rs_def execute_r_trig_def execute_f_trig_def execute_ctu_def
    execute_ctd_def execute_ctud_def execute_ton_def execute_tof_def execute_tp_def Let_def
  by (rule follows_rules)+

lemma follows_edge [follows_rules]:
  "follows (edge_qualified_input_value inst n e v) (edge_qualified_input_value inst n e v)"
  unfolding edge_qualified_input_value_def Let_def by (rule follows_rules)+

lemma follows_communication [follows_rules]:
  "follows (execute_communication_function_block inst n i) (execute_communication_function_block inst n i)"
  "follows (initialize_communication_function_block_fields inst)
     (initialize_communication_function_block_fields inst)"
  unfolding execute_communication_function_block_def initialize_communication_function_block_fields_def
  by (rule follows_rules)+

lemma follows_named_block: "execute_named_block n inst i = Some m \<Longrightarrow> follows m m"
  unfolding execute_named_block_def by (auto intro: follows_rules split: if_splits)

lemma follows_initial_block: "initialize_named_block inst n = Some m \<Longrightarrow> follows m m"
  unfolding initialize_named_block_def Let_def by (auto intro!: follows_rules split: if_splits)

lemma follows_operators [follows_rules]:
  "follows (checked_or_overflow msg r) (checked_or_overflow msg r)"
  "follows (numeric_binary a b msg f g) (numeric_binary a b msg f g)"
  "follows (time_or_numeric_binary a b msg h f g) (time_or_numeric_binary a b msg h f g)"
  "follows (eval_binary binop a b) (eval_binary binop a b)"
  "follows (eval_unary unop a) (eval_unary unop a)"
  "follows (apply_to_accumulator binop a) (apply_to_accumulator binop a)"
  unfolding apply_to_accumulator_def eval_binary_def eval_unary_def time_or_numeric_binary_def
    numeric_binary_def checked_or_overflow_def
  by (rule follows_rules)+

section \<open>Related calls\<close>

definition follows_calls :: "calls \<Rightarrow> calls \<Rightarrow> bool" where
  "follows_calls c d \<longleftrightarrow>
     (\<forall>e. follows (c_eval c e) (c_eval d e)) \<and>
     (\<forall>b. follows (c_statements c b) (c_statements d b)) \<and>
     (\<forall>b. follows (c_block c b) (c_block d b)) \<and>
     (\<forall>t i. follows (c_initial c t i) (c_initial d t i)) \<and>
     (\<forall>t. follows (c_default c t) (c_default d t)) \<and>
     (\<forall>k t. follows (c_init_block c k t) (c_init_block d k t)) \<and>
     (\<forall>v t es. follows (c_indices c v t es) (c_indices d v t es)) \<and>
     (\<forall>v t r n x. follows (c_assign_into c v t r n x) (c_assign_into d v t r n x)) \<and>
     (\<forall>v t es r n x. follows (c_assign_indexed c v t es r n x) (c_assign_indexed d v t es r n x)) \<and>
     (\<forall>t v. follows (c_constrain c t v) (c_constrain d t v)) \<and>
     (\<forall>s k l t. follows (c_copy_into c s k l t) (c_copy_into d s k l t)) \<and>
     (\<forall>s k l t. follows (c_copy_from c s k l t) (c_copy_from d s k l t))"

lemma follows_callsD [follows_rules]:
  assumes "follows_calls c d"
  shows "follows (c_eval c e) (c_eval d e)" "follows (c_statements c b) (c_statements d b)"
    "follows (c_block c b) (c_block d b)" "follows (c_initial c t i) (c_initial d t i)"
    "follows (c_default c t) (c_default d t)" "follows (c_init_block c k t) (c_init_block d k t)"
    "follows (c_indices c v t es) (c_indices d v t es)"
    "follows (c_assign_into c v t r n x) (c_assign_into d v t r n x)"
    "follows (c_assign_indexed c v t es r n x) (c_assign_indexed d v t es r n x)"
    "follows (c_constrain c t v) (c_constrain d t v)"
    "follows (c_copy_into c s k l t) (c_copy_into d s k l t)"
    "follows (c_copy_from c s k l t) (c_copy_from d s k l t)"
  using assms by (simp_all add: follows_calls_def)

section \<open>Variables\<close>

lemma follows_offset_loop [follows_rules]:
  "follows_calls c d \<Longrightarrow> follows (array_offset_loop c rs m n) (array_offset_loop d rs m n)"
proof (induction rs arbitrary: m n)
  case (Cons r rs)
  then show ?case
    by (cases r) (simp only: array_offset_loop.simps, (rule follows_rules Cons | assumption)+)
qed (simp add: follows_rules)

lemma follows_offset [follows_rules]:
  "follows_calls c d \<Longrightarrow> follows (array_offset c rs es) (array_offset d rs es)"
  unfolding array_offset_def by (rule follows_rules | assumption)+

lemma follows_indices [follows_rules]:
  "follows_calls c d \<Longrightarrow> follows (apply_indices_loop c v t es) (apply_indices_loop d v t es)"
  unfolding apply_indices_loop_def by (rule follows_rules | assumption)+

lemma follows_apply_indices [follows_rules]:
  "follows_calls c d \<Longrightarrow> follows (apply_indices_to_value c v t es) (apply_indices_to_value d v t es)"
  unfolding apply_indices_to_value_def by (rule follows_rules | assumption)+

lemma follows_segments [follows_rules]:
  "follows_calls c d \<Longrightarrow> follows (resolve_segments c r ps v t) (resolve_segments d r ps v t)"
proof (induction ps arbitrary: v t)
  case (Cons p ps)
  then show ?case
    by (cases p) (simp only: resolve_segments.simps, (rule follows_rules Cons | assumption)+)
qed (simp add: follows_rules)

lemma follows_resolve [follows_rules]:
  "follows_calls c d \<Longrightarrow> follows (resolve c r) (resolve d r)"
  unfolding resolve_def resolve_stored_def by (rule follows_rules | assumption)+

lemma follows_constrain_list [follows_rules]:
  "follows_calls c d \<Longrightarrow> follows (constrain_list c t vs) (constrain_list d t vs)"
  by (induction vs) (simp_all add: follows_rules)

lemma follows_constrain [follows_rules]:
  "follows_calls c d \<Longrightarrow> follows (constrain_field c f m) (constrain_field d f m)"
  "follows (range_report v a b k) (range_report v a b k)"
  "follows_calls c d \<Longrightarrow> follows (constrain_value c t v) (constrain_value d t v)"
  unfolding constrain_field_def range_report_def constrain_value_def by (rule follows_rules | assumption)+

lemma follows_assign_indexed [follows_rules]:
  "follows_calls c d \<Longrightarrow> follows (assign_into_indexed_value c v t es r n x) (assign_into_indexed_value d v t es r n x)"
  unfolding assign_into_indexed_value_def by (rule follows_rules | assumption)+

lemma follows_assign_into [follows_rules]:
  "follows_calls c d \<Longrightarrow> follows (assign_into_value c v t r n x) (assign_into_value d v t r n x)"
  unfolding assign_into_value_def Let_def by (rule follows_rules | assumption)+

lemma follows_assign [follows_rules]:
  "follows_calls c d \<Longrightarrow> follows (assign_stored c r i x) (assign_stored d r i x)"
  "follows_calls c d \<Longrightarrow> follows (assign c r x) (assign d r x)"
  unfolding assign_def assign_stored_def by (rule follows_rules | assumption)+

section \<open>Arguments and initial values\<close>

lemma follows_arguments [follows_rules]:
  "follows_calls c d \<Longrightarrow> follows (eval_optional c e) (eval_optional d e)"
  "follows_calls c d \<Longrightarrow> follows (function_call_enabled c args) (function_call_enabled d args)"
  "follows_calls c d \<Longrightarrow> follows (assign_function_eno c args b) (assign_function_eno d args b)"
  "follows_calls c d \<Longrightarrow> follows (standard_input c n a acc) (standard_input d n a acc)"
  "follows_calls c d \<Longrightarrow> follows (eval_standard_function_inputs c n args) (eval_standard_function_inputs d n args)"
  unfolding eval_standard_function_inputs_def standard_input_def assign_function_eno_def
    function_call_enabled_def eval_optional_def by (rule follows_rules | assumption)+

lemma follows_bind_inputs [follows_rules]: "follows (bind_inputs is vs m) (bind_inputs is vs m)"
proof (induction "is" arbitrary: vs)
  case (Cons i "is")
  show ?case
    unfolding bind_inputs.simps by (rule follows_rules Cons)+
qed (simp add: follows_rules)

lemma follows_bind_function_inputs [follows_rules]:
  "follows (bind_function_inputs vs m) (bind_function_inputs vs m)"
  unfolding bind_function_inputs_def by (rule follows_rules)+

lemma follows_repeat [follows_rules]: "follows m m' \<Longrightarrow> follows (repeat_value n m) (repeat_value n m')"
  by (induction n) (auto intro: follows_rules)

lemma follows_initial_elements [follows_rules]:
  "follows_calls c d \<Longrightarrow> follows (initial_elements c t es) (initial_elements d t es)"
  by (induction es) (auto intro: follows_rules)

lemma follows_field_value [follows_rules]:
  "(\<And>t i. follows (f t i) (f' t i)) \<Longrightarrow> follows (field_value f g x m) (field_value f' g x m)"
  unfolding field_value_def by (rule follows_rules | assumption)+

lemma follows_default [follows_rules]:
  "follows_calls c d \<Longrightarrow> follows (default_value c t) (default_value d t)"
  unfolding default_value_def by (rule follows_rules | assumption)+

lemma follows_initial_value [follows_rules]:
  "follows_calls c d \<Longrightarrow> follows (initial_value_for_spec c t i) (initial_value_for_spec d t i)"
  unfolding initial_value_for_spec_def by (rule follows_rules | assumption)+

lemma follows_user_fields [follows_rules]:
  "follows_calls c d \<Longrightarrow> follows (initialize_user_field c k v) (initialize_user_field d k v)"
  "follows_calls c d \<Longrightarrow> follows (initialize_user_function_block_fields c k n) (initialize_user_function_block_fields d k n)"
  unfolding initialize_user_function_block_fields_def initialize_user_field_def by (rule follows_rules | assumption)+

lemma follows_init_instance [follows_rules]:
  assumes "follows_calls c d"
  shows "follows (initialize_function_block_instance c k t) (initialize_function_block_instance d k t)"
proof (cases t)
  case (DtNamed n)
  show ?thesis
  proof (cases "initialize_named_block k (canonical n)")
    case None
    then show ?thesis
      using DtNamed follows_user_fields(2) [OF assms] by (simp add: initialize_function_block_instance_def)
  next
    case (Some m)
    then show ?thesis
      using DtNamed follows_initial_block [OF Some] by (simp add: initialize_function_block_instance_def)
  qed
qed (simp_all add: initialize_function_block_instance_def follows_rules)

lemma follows_init_fields [follows_rules]:
  "follows_calls c d \<Longrightarrow> follows (initialize_function_block_fields c v) (initialize_function_block_fields d v)"
  unfolding initialize_function_block_fields_def by (rule follows_rules | assumption)+

lemma follows_copies [follows_rules]:
  "follows_calls c d \<Longrightarrow> follows (copy_function_block_state_into_runtime c s k l t) (copy_function_block_state_into_runtime d s k l t)"
  "follows_calls c d \<Longrightarrow> follows (copy_function_block_state_from_runtime c s k l t) (copy_function_block_state_from_runtime d s k l t)"
  unfolding copy_function_block_state_into_runtime_def copy_function_block_state_from_runtime_def Let_def by (rule follows_rules | assumption)+

lemma follows_initialize [follows_rules]:
  "follows_calls c d \<Longrightarrow> follows (initialize_variable c w k v) (initialize_variable d w k v)"
  "follows (initialize_sfc_action_control key) (initialize_sfc_action_control key)"
  "follows (initialize_sfc_steps) (initialize_sfc_steps)"
  "follows_calls c d \<Longrightarrow> follows (initialize_result c w) (initialize_result d w)"
  "follows_calls c d \<Longrightarrow> follows (initialize c w) (initialize d w)"
  "follows_calls c d \<Longrightarrow> follows (reset_temp_variables c) (reset_temp_variables d)"
  unfolding initialize_variable_def initialize_sfc_steps_def
    initialize_result_def initialize_def reset_temp_variables_def initialize_sfc_action_control_def by (rule follows_rules follows_empty | assumption)+

section \<open>Calls\<close>

lemma follows_body [follows_rules]:
  "follows (report_control ctl) (report_control ctl)"
  "follows_calls c d \<Longrightarrow> follows (run_body c b) (run_body d b)"
  "follows_calls c d \<Longrightarrow> follows (user_argument c a acc) (user_argument d a acc)"
  unfolding run_body_def report_control_def user_argument_def by (rule follows_rules | assumption)+

lemma follows_user_function [follows_rules]:
  "follows_calls c d \<Longrightarrow> follows (call_user_function c u args) (call_user_function d u args)"
  "follows_calls c d \<Longrightarrow> follows (eval_user_function c n args) (eval_user_function d n args)"
  unfolding eval_user_function_def call_user_function_def Let_def by (rule follows_rules | assumption)+

lemma follows_call [follows_rules]:
  "follows_calls c d \<Longrightarrow> follows (call_disabled c n args) (call_disabled d n args)"
  "follows_calls c d \<Longrightarrow> follows (eval_call c n args) (eval_call d n args)"
  unfolding eval_call_def call_disabled_def by (rule follows_rules | assumption)+

lemma follows_void_call [follows_rules]:
  "follows_calls c d \<Longrightarrow> follows (execute_standard_void_call c n args) (execute_standard_void_call d n args)"
  unfolding execute_standard_void_call_def by (rule follows_rules | assumption)+

lemma follows_fb_inputs [follows_rules]:
  "follows_calls c d \<Longrightarrow> follows (fb_input c ns a acc) (fb_input d ns a acc)"
  "follows_calls c d \<Longrightarrow> follows (eval_fb_inputs c n args) (eval_fb_inputs d n args)"
  "follows_calls c d \<Longrightarrow> follows (assign_standard_function_block_outputs c k n args) (assign_standard_function_block_outputs d k n args)"
  unfolding eval_fb_inputs_def fb_input_def assign_standard_function_block_outputs_def Let_def by (rule follows_rules | assumption)+

lemma follows_block_fields [follows_rules]:
  "follows_calls c d \<Longrightarrow> follows (set_block_input c k u a n) (set_block_input d k u a n)"
  "follows_calls c d \<Longrightarrow> follows (load_block_field c s k v) (load_block_field d s k v)"
  "follows_calls c d \<Longrightarrow> follows (store_block_field c s k v) (store_block_field d s k v)"
  "follows_calls c d \<Longrightarrow> follows (store_in_out c k u a n) (store_in_out d k u a n)"
  "follows_calls c d \<Longrightarrow> follows (store_output c k a) (store_output d k a)"
  unfolding set_block_input_def load_block_field_def store_block_field_def store_in_out_def store_output_def by (rule follows_rules | assumption)+

lemma follows_user_block [follows_rules]:
  "follows_calls c d \<Longrightarrow> follows (execute_user_function_block c k u args) (execute_user_function_block d k u args)"
  unfolding execute_user_function_block_def by (rule follows_rules | assumption)+

lemma follows_block_type [follows_rules]:
  assumes "follows_calls c d"
  shows "follows (execute_block_type c k n i args) (execute_block_type d k n i args)"
proof (cases "execute_named_block (canonical n) k i")
  case None
  show ?thesis
    unfolding execute_block_type_def None option.case
    by (rule follows_rules assms)+
next
  case (Some m)
  show ?thesis
    unfolding execute_block_type_def Some option.case
    by (rule follows_rules follows_named_block [OF Some])+
qed

lemma follows_fb_call [follows_rules]:
  "follows_calls c d \<Longrightarrow> follows (execute_fb_call c r args) (execute_fb_call d r args)"
  unfolding execute_fb_call_def by (rule follows_rules | assumption)+

section \<open>Expressions and statements\<close>

lemma follows_eval_all [follows_rules]:
  "follows_calls c d \<Longrightarrow> follows (eval_all c es) (eval_all d es)"
  by (induction es) (auto intro!: follows_rules)

lemma follows_eval [follows_rules]:
  "follows_calls c d \<Longrightarrow> follows (struct_literal_field c f m) (struct_literal_field d f m)"
  "follows_calls c d \<Longrightarrow> follows (eval_expr c e) (eval_expr d e)"
  unfolding struct_literal_field_def eval_expr_def
  by (rule follows_rules | assumption)+

lemma follows_il [follows_rules]:
  "follows_calls c d \<Longrightarrow> follows (execute_il_call c e) (execute_il_call d e)"
  "follows_calls c d \<Longrightarrow> follows (execute_il_instruction c i e) (execute_il_instruction d i e)"
  unfolding execute_il_call_def execute_il_instruction_def Let_def
  by (rule follows_rules | assumption)+

lemma follows_for_loop [follows_rules]:
  assumes "follows body body'"
  shows "follows (for_loop m n stop step body v i) (for_loop m n stop step body' v i)"
proof (induction "Suc m - i" arbitrary: v i rule: less_induct)
  case less
  show ?case
    by (subst for_loop.simps, subst (2) for_loop.simps) (rule follows_rules assms less | assumption | linarith)+
qed

lemma follows_while_loop [follows_rules]:
  assumes "follows cond cond'" and "follows body body'"
  shows "follows (while_loop m cond body i) (while_loop m cond' body' i)"
proof (induction "Suc m - i" arbitrary: i rule: less_induct)
  case less
  show ?case
    by (subst while_loop.simps, subst (2) while_loop.simps) (rule follows_rules assms less | assumption | linarith)+
qed

lemma follows_repeat_loop [follows_rules]:
  assumes "follows body body'" and "follows cond cond'"
  shows "follows (repeat_loop m body cond i) (repeat_loop m body' cond' i)"
proof (induction "Suc m - i" arbitrary: i rule: less_induct)
  case less
  show ?case
    by (subst repeat_loop.simps, subst (2) repeat_loop.simps) (rule follows_rules assms less | assumption | linarith)+
qed

lemma follows_statements_loop [follows_rules]:
  assumes "\<And>st. follows (exec st) (exec' st)"
  shows "follows (statements_loop m sts labels exec ip i) (statements_loop m sts labels exec' ip i)"
proof (induction "Suc m - i" arbitrary: ip i rule: less_induct)
  case less
  show ?case
    by (subst statements_loop.simps, subst (2) statements_loop.simps) (rule follows_rules assms less | assumption | linarith)+
qed

lemma follows_conditions [follows_rules]:
  "follows_calls c d \<Longrightarrow> follows (condition c e) (condition d e)"
  "follows_calls c d \<Longrightarrow> follows (case_label_matches c l v) (case_label_matches d l v)"
  unfolding condition_def case_label_matches_def
  by (rule follows_rules | assumption)+

lemma follows_any_label [follows_rules]:
  "follows_calls c d \<Longrightarrow> follows (any_label_matches c ls v) (any_label_matches d ls v)"
  by (induction ls) (auto intro!: follows_rules)

lemma follows_branches [follows_rules]:
  "follows_calls c d \<Longrightarrow> follows (execute_branches c bs b) (execute_branches d bs b)"
  by (induction c bs b rule: execute_branches.induct) (auto intro!: follows_rules)

lemma follows_cases [follows_rules]:
  "follows_calls c d \<Longrightarrow> follows (execute_cases c v cs b) (execute_cases d v cs b)"
  by (induction c v cs b rule: execute_cases.induct) (auto intro!: follows_rules)

lemma follows_for_statement [follows_rules]:
  "follows_calls c d \<Longrightarrow> follows (execute_for c n a b s body) (execute_for d n a b s body)"
  unfolding execute_for_def
  by (rule follows_rules | assumption)+

lemma follows_statement [follows_rules]:
  "follows_calls c d \<Longrightarrow> follows (execute_statement c st) (execute_statement d st)"
  unfolding execute_statement_def
  by (rule follows_rules | assumption)+

lemma follows_block [follows_rules]:
  "follows_calls c d \<Longrightarrow> follows (execute_block c b) (execute_block d b)"
  by (induction b) (auto intro!: follows_rules)

lemma follows_statement_list [follows_rules]:
  "follows_calls c d \<Longrightarrow> follows (execute_statement_list c b) (execute_statement_list d b)"
  unfolding execute_statement_list_def
  by (rule follows_rules | assumption)+

section \<open>The knot\<close>

lemma follows_no_calls: "follows_calls no_calls d"
  by (simp add: follows_calls_def no_calls_def follows_out_of_fuel)

lemma follows_deeper: "follows_calls c d \<Longrightarrow> follows_calls (deeper c) (deeper d)"
  by (subst follows_calls_def) (simp add: deeper_def follows_rules)

lemma follows_interp: "m \<le> n \<Longrightarrow> follows_calls (interp m) (interp n)"
proof (induction m arbitrary: n)
  case (Suc m)
  then obtain k where "n = Suc k" "m \<le> k"
    by (cases n) auto
  then show ?case
    using Suc.IH by (simp add: follows_deeper)
qed (simp add: follows_no_calls)

section \<open>Charts and runs\<close>

lemma follows_action_control [follows_rules]:
  "follows (sfc_action_stored key) (sfc_action_stored key)"
  "follows (set_sfc_action_stored key b) (set_sfc_action_stored key b)"
  "follows (sfc_action_elapsed key) (sfc_action_elapsed key)"
  "follows (set_sfc_action_elapsed key n) (set_sfc_action_elapsed key n)"
  unfolding sfc_action_stored_def set_sfc_action_stored_def sfc_action_elapsed_def set_sfc_action_elapsed_def
  by (rule follows_rules | assumption)+

lemma follows_advance_action [follows_rules]:
  "follows (advance_sfc_action_elapsed key) (advance_sfc_action_elapsed key)"
  "follows (pulse_executes key is) (pulse_executes key is)"
  "follows (timed_executes key is) (timed_executes key is)"
  "follows (stored_executes key is b) (stored_executes key is b)"
  unfolding advance_sfc_action_elapsed_def pulse_executes_def timed_executes_def stored_executes_def Let_def
  by (rule follows_rules | assumption)+

lemma follows_should_execute [follows_rules]:
  "follows (sfc_action_should_execute key n is) (sfc_action_should_execute key n is)"
  unfolding sfc_action_should_execute_def Let_def
  by (rule follows_rules | assumption)+

lemma follows_transitions [follows_rules]:
  "follows_calls c d \<Longrightarrow> follows (transition_candidate c chart it cs) (transition_candidate d chart it cs)"
  "follows (fire_transition cand steps) (fire_transition cand steps)"
  "follows (fire_transitions cs) (fire_transitions cs)"
  unfolding fire_transitions_def transition_candidate_def fire_transition_def
  by (rule follows_rules | assumption)+

lemma follows_sfc_actions [follows_rules]:
  "follows_calls c d \<Longrightarrow> follows (execute_sfc_actions c chart steps as) (execute_sfc_actions d chart steps as)"
  by (induction as) (auto intro!: follows_rules)

lemma follows_program_cycle [follows_rules]:
  "follows_calls c d \<Longrightarrow> follows (execute_sfc c chart) (execute_sfc d chart)"
  "follows_calls c d \<Longrightarrow> follows (execute_program_cycle c) (execute_program_cycle d)"
  unfolding execute_program_cycle_def execute_sfc_def
  by (rule follows_rules | assumption)+

lemma follows_access [follows_rules]:
  "follows_calls c d \<Longrightarrow> follows (access_path_value c p) (access_path_value d p)"
  "follows_calls c d \<Longrightarrow> follows (access_snapshot c) (access_snapshot d)"
  "follows_calls c d \<Longrightarrow> follows (assign_access_target c n p v) (assign_access_target d n p v)"
  "follows_calls c d \<Longrightarrow> follows (apply_access_write c ds w) (apply_access_write d ds w)"
  "follows_calls c d \<Longrightarrow> follows (apply_access_writes c k ws) (apply_access_writes d k ws)"
  unfolding apply_access_writes_def apply_access_write_def assign_access_target_def
    access_snapshot_def access_path_value_def
  by (rule follows_rules | assumption)+

lemma follows_cycle [follows_rules]:
  "follows_calls c d \<Longrightarrow> follows (run_cycle c ws k) (run_cycle d ws k)"
  unfolding run_cycle_def
  by (rule follows_rules | assumption)+

lemma follows_cycles [follows_rules]:
  "follows_calls c d \<Longrightarrow> follows (run_cycles c ws ks acc) (run_cycles d ws ks acc)"
  by (induction ks arbitrary: acc) (auto intro!: follows_rules)

lemma follows_machine [follows_rules]:
  "follows_calls c d \<Longrightarrow> follows (run_machine c ws n) (run_machine d ws n)"
  unfolding run_machine_def
  by (rule follows_rules | assumption)+

end
