(* ===== verification/RtRunLaws.thy ===== *)
theory RtRunLaws
  imports RtFollows RtBlockLaws
begin

text \<open>
  What a run of a program promises (\<open>iec_runtime/src/lib.rs\<close>): the result does not depend on
  the fuel, a cycle changes nothing but the variables and adds diagnostics at the end, and a
  run ends with a trace exactly when nothing was reported.
\<close>

section \<open>A run\<close>

definition demo_platform :: platform where
  "demo_platform = \<lparr> overflow_checks = True, math = demo_libm \<rparr>"

text \<open>\<open>PROGRAM Main VAR X : INT; END_VAR X := X + 1; END_PROGRAM\<close>\<close>

definition demo_project :: project where
  "demo_project = (project_new Strict2003)\<lparr>prj_elements :=
     [PouElement \<lparr> pou_name = ident_new ''Main'', pou_kind = ProgramKind,
        pou_var_blocks = [\<lparr> vb_kind = VarLocal, vb_constant = False, vb_retain = None,
          vb_vars = [\<lparr> var_name = ident_new ''X'', var_location = None, var_access = None,
             var_edge = None, var_type = DtElementary EInt, var_initial = None \<rparr>] \<rparr>],
        pou_body = structured_text [AssignmentS (variable_named ''X'')
          (BinaryE OpAdd (VariableE (variable_named ''X'')) (LiteralE (LInt 1)))] \<rparr>]\<rparr>"

lemma demo_run:
  "run_program_with_runtime_services 3 demo_platform demo_project None 1 default_options no_communication_hooks [] =
     Some (Ret (Inr \<lparr> rtr_program = ''Main'', rtr_cycles =
       [\<lparr> ct_cycle = 0, ct_variables = [(''X'', VInt 1)], ct_access_paths = [] \<rparr>] \<rparr>))"
  by code_simp

section \<open>Fuel\<close>

lemma finish_follows:
  assumes "follows m m'" and "finish (m s) = Some r"
  shows "finish (m' s) = Some r"
  using followsD [OF assms(1), of s] assms(2) by (auto simp: finish_def)

text \<open>The fuel of a run only bounds how deep its calls may nest: once a run has a result, every
  larger fuel gives the same result, trace or diagnostics or panic alike.\<close>

theorem run_fuel_irrelevant:
  assumes "run_program_with_runtime_services m pf p name cycles options hooks writes = Some r"
    and "m \<le> n"
  shows "run_program_with_runtime_services n pf p name cycles options hooks writes = Some r"
proof -
  have "follows (run_machine (interp m) writes cycles) (run_machine (interp n) writes cycles)"
    by (rule follows_machine [OF follows_interp [OF assms(2)]])
  from finish_follows [OF this] show ?thesis
    using assms(1) unfolding run_program_with_runtime_services_def
    by (auto split: if_splits option.splits)
qed

theorem run_fuel_irrelevant_witness:
  "run_program_with_runtime_services 64 demo_platform demo_project None 1 default_options
     no_communication_hooks [] \<noteq> None"
  using run_fuel_irrelevant [OF demo_run, of 64] by simp

section \<open>Cycles\<close>

lemma follows_extends: "follows m m \<Longrightarrow> m s = Done x t \<Longrightarrow> extends s t"
  using followsD [of m m s] by auto

lemmas same_fuel = follows_interp [OF order_refl]

lemma run_cycle_extends:
  "run_cycle (interp n) writes k s = Done r t \<Longrightarrow> extends s t"
  by (rule follows_extends [OF follows_cycle [OF same_fuel]])

text \<open>C5: One cycle of a program changes no part of the interpreter but its variables, types and
  accumulator: the project, the program, the options, the call depth, the hooks and the
  platform stay, the diagnostics are extended at the end and never lost, and the maps of
  variables and of types stay sorted by name without duplicates.\<close>

theorem cycle_extends_state:
  assumes "run_cycle (interp n) writes k s = Done r t"
  shows "rt_project t = rt_project s \<and> rt_program t = rt_program s \<and> rt_options t = rt_options s \<and>
    rt_call_depth t = rt_call_depth s \<and> rt_communication t = rt_communication s \<and>
    rt_platform t = rt_platform s \<and> (\<exists>ds. rt_diagnostics t = rt_diagnostics s @ ds) \<and>
    (bt_ok (rt_env s) \<and> bt_ok (rt_types s) \<longrightarrow> bt_ok (rt_env t) \<and> bt_ok (rt_types t))"
  using run_cycle_extends [OF assms]
  by (simp add: extends_def)

theorem cycle_extends_state_witness:
  "\<exists>r t. run_cycle (interp 2) [] 0 (demo_runtime [EmptyS]) = Done r t \<and>
     rt_program t = rt_program (demo_runtime [EmptyS]) \<and> bt_ok (rt_env t)"
proof -
  have "case run_cycle (interp 2) [] 0 (demo_runtime [EmptyS]) of Done r t \<Rightarrow> True | _ \<Rightarrow> False"
    by code_simp
  then obtain r t where run: "run_cycle (interp 2) [] 0 (demo_runtime [EmptyS]) = Done r t"
    by (auto split: run.splits)
  moreover have "rt_types (demo_runtime [EmptyS]) = []"
    by (simp add: demo_runtime_def start_runtime_def)
  ultimately show ?thesis
    using cycle_extends_state [OF run] by auto
qed

lemma report_control_reports:
  "report_control ctl s = Done x t \<Longrightarrow> ctl \<noteq> Continue \<Longrightarrow> ctl \<noteq> Return \<Longrightarrow> rt_diagnostics t \<noteq> []"
  by (cases ctl) (auto simp: report_control_def push_def rmodify_def)

lemma seq_DoneE:
  assumes "rseq m n s = Done y t"
  obtains x u where "m s = Done x u" and "n u = Done y t"
  using assms by (auto simp: rseq_def rbind_eq_Done)

lemma bind_DoneE:
  assumes "rbind m f s = Done y t"
  obtains x u where "m s = Done x u" and "f x u = Done y t"
  using assms by (auto simp: rbind_eq_Done)


lemma run_cycle_result:
  assumes "run_cycle (interp n) writes k s = Done r t"
  shows "case r of
      None \<Rightarrow> rt_diagnostics t \<noteq> []
    | Some tr \<Rightarrow> ct_cycle tr = k \<and> (bt_ok (rt_env s) \<and> bt_ok (rt_types s) \<longrightarrow> bt_ok (ct_variables tr))"
proof -
  let ?c = "interp n"
  note frame = follows_extends
  from assms obtain u v where u: "(if k \<in> set (warm_restart_before_cycles (rt_options s))
        then initialize ?c Warm else ret ()) s = Done () u" "apply_access_writes ?c k writes u = Done () v"
    and rest: "(if rt_diagnostics v \<noteq> [] then ret None
        else rseq (reset_temp_variables ?c) (rbind (execute_program_cycle ?c) (\<lambda>ctl.
          rseq (report_control ctl)
            (if ctl = Continue \<or> ctl = Return then
               rbind (rget snapshot) (\<lambda>variables. rbind (access_snapshot ?c) (\<lambda>paths.
                 ret (Some \<lparr> ct_cycle = k, ct_variables = variables, ct_access_paths = paths \<rparr>)))
             else ret None)))) v = Done r t"
    unfolding run_cycle_def by (auto elim!: seq_DoneE)
  show ?thesis
  proof (cases "rt_diagnostics v = []")
    case True
    then obtain w x ctl y where steps: "reset_temp_variables ?c v = Done () w"
        "execute_program_cycle ?c w = Done ctl x" "report_control ctl x = Done () y"
      and last: "(if ctl = Continue \<or> ctl = Return then
          rbind (rget snapshot) (\<lambda>variables. rbind (access_snapshot ?c) (\<lambda>paths.
            ret (Some \<lparr> ct_cycle = k, ct_variables = variables, ct_access_paths = paths \<rparr>)))
        else ret None) y = Done r t"
      using rest by (auto elim!: seq_DoneE bind_DoneE)
    have "extends s u"
      using u(1) frame [OF follows_initialize(5) [OF same_fuel]]
      by (auto simp: ret_def split: if_splits)
    moreover have "extends u v" "extends v w" "extends w x" "extends x y"
      using frame [OF follows_access(5) [OF same_fuel] u(2)] frame [OF follows_initialize(6) [OF same_fuel] steps(1)]
        frame [OF follows_program_cycle(2) [OF same_fuel] steps(2)] frame [OF follows_body(1) steps(3)]
      by blast+
    ultimately have "extends s y"
      by (blast intro: extends_trans)
    then show ?thesis
      using last report_control_reports [OF steps(3)]
      by (auto simp: extends_def snapshot_def ret_def elim!: bind_DoneE split: if_splits)
  next
    case False
    then show ?thesis
      using rest by (simp add: ret_def)
  qed
qed


definition cycles_done :: "nat list \<Rightarrow> cycle_trace list \<Rightarrow> bool" where
  "cycles_done ks traces \<longleftrightarrow> map ct_cycle traces = ks \<and> (\<forall>tr \<in> set traces. bt_ok (ct_variables tr))"

lemma run_cycles_result:
  assumes "run_cycles (interp n) writes ks acc s = Done r t"
    and "bt_ok (rt_env s)" and "bt_ok (rt_types s)" and "cycles_done done acc"
  shows "case r of None \<Rightarrow> rt_diagnostics t \<noteq> [] | Some traces \<Rightarrow> cycles_done (done @ ks) traces"
  using assms
proof (induction ks arbitrary: acc s "done")
  case (Cons k ks)
  then obtain x u where step: "run_cycle (interp n) writes k s = Done x u"
      and rest: "(case x of None \<Rightarrow> ret None | Some tr \<Rightarrow> run_cycles (interp n) writes ks (acc @ [tr])) u = Done r t"
    by (auto simp: rtry_def elim!: bind_DoneE)
  show ?case
  proof (cases x)
    case None
    then show ?thesis
      using run_cycle_result [OF step] rest by (simp add: ret_def)
  next
    case (Some tr)
    have "cycles_done (done @ [k]) (acc @ [tr])"
      using run_cycle_result [OF step] Cons.prems Some by (simp add: cycles_done_def)
    moreover have "bt_ok (rt_env u)" "bt_ok (rt_types u)"
      using run_cycle_extends [OF step] Cons.prems by (auto simp: extends_def)
    ultimately show ?thesis
      using Cons.IH [of "acc @ [tr]" u "done @ [k]"] rest Some by (simp split: option.splits)
  qed
qed (auto simp: ret_def cycles_done_def)

lemma run_machine_result:
  assumes "run_machine (interp n) writes cycles s = Done r t"
    and "rt_env s = []" and "rt_types s = []"
  shows "case r of
      Inl ds \<Rightarrow> ds \<noteq> []
    | Inr tr \<Rightarrow> cycles_done [0..<cycles] (rtr_cycles tr) \<and> rt_diagnostics t = [] \<and>
        rtr_program tr = original (pou_name (rt_program s))"
proof -
  from assms(1) obtain u where u: "initialize (interp n) Cold s = Done () u"
      and rest: "(if rt_diagnostics u \<noteq> [] then ret (Inl (rt_diagnostics u))
        else rbind (run_cycles (interp n) writes [0..<cycles] []) (\<lambda>result. rget (\<lambda>s. case result of
            Some traces \<Rightarrow>
              (if rt_diagnostics s = []
               then Inr \<lparr> rtr_program = original (pou_name (rt_program s)), rtr_cycles = traces \<rparr>
               else Inl (rt_diagnostics s))
          | None \<Rightarrow> Inl (rt_diagnostics s)))) u = Done r t"
    unfolding run_machine_def by (auto elim!: seq_DoneE)
  have su: "extends s u"
    by (rule follows_extends [OF follows_initialize(5) [OF same_fuel] u])
  then have ok: "bt_ok (rt_env u)" "bt_ok (rt_types u)"
    using assms(2,3) by (simp_all add: extends_def)
  show ?thesis
  proof (cases "rt_diagnostics u = []")
    case True
    then obtain x where x: "run_cycles (interp n) writes [0..<cycles] [] u = Done x t"
        and r: "r = (case x of
            Some traces \<Rightarrow>
              (if rt_diagnostics t = []
               then Inr \<lparr> rtr_program = original (pou_name (rt_program t)), rtr_cycles = traces \<rparr>
               else Inl (rt_diagnostics t))
          | None \<Rightarrow> Inl (rt_diagnostics t))"
      using rest by (auto simp: rget_def elim!: bind_DoneE)
    have "extends u t"
      by (rule follows_extends [OF follows_cycles [OF same_fuel] x])
    then have "rt_program t = rt_program s"
      using su by (simp add: extends_def)
    then show ?thesis
      using run_cycles_result [OF x ok, of "[]"] r by (auto simp: cycles_done_def split: option.splits)
  next
    case False
    then show ?thesis
      using rest by (auto simp: ret_def)
  qed
qed

text \<open>C4: A run ends with a trace or with at least one diagnostic, never with an empty error. A
  trace holds every cycle that was asked for, in order, at most as many as the options allow,
  with the variables of each cycle in the order of their names, and nothing was reported
  anywhere in the run.\<close>

theorem run_result_complete:
  assumes "run_program_with_runtime_services n pf p name cycles options hooks writes = Some (Ret r)"
  shows "case r of
      Inl ds \<Rightarrow> ds \<noteq> []
    | Inr tr \<Rightarrow> cycles \<le> max_scan_cycles options \<and>
        (\<exists>u t. find_program p name = Some u \<and> rtr_program tr = original (pou_name u) \<and>
          run_machine (interp n) writes cycles (start_runtime pf p u options hooks) = Done r t \<and>
          rt_diagnostics t = []) \<and>
        map ct_cycle (rtr_cycles tr) = [0..<cycles] \<and>
        (\<forall>ct \<in> set (rtr_cycles tr). sorted_wrt (<) (map fst (ct_variables ct)))"
proof (cases "cycles > max_scan_cycles options \<or> find_program p name = None")
  case True
  then show ?thesis
    using assms by (auto simp: run_program_with_runtime_services_def split: if_splits)
next
  case False
  then obtain u t where u: "find_program p name = Some u"
      and run: "run_machine (interp n) writes cycles (start_runtime pf p u options hooks) = Done r t"
    using assms by (auto simp: run_program_with_runtime_services_def finish_def split: run.splits)
  have "case r of
      Inl ds \<Rightarrow> ds \<noteq> []
    | Inr tr \<Rightarrow> cycles_done [0..<cycles] (rtr_cycles tr) \<and> rt_diagnostics t = [] \<and>
        rtr_program tr = original (pou_name u)"
    using run_machine_result [OF run] by (cases r) (simp_all add: start_runtime_def)
  then show ?thesis
    using False u run by (auto simp: cycles_done_def bt_ok_def split: sum.splits)
qed

theorem run_result_complete_witness:
  "map ct_cycle [\<lparr> ct_cycle = 0, ct_variables = [(''X'', VInt 1)], ct_access_paths = [] :: access_path_trace list \<rparr>] = [0..<1]"
  using run_result_complete [OF demo_run] by simp

end
