(* ===== verification/RtArrayLaws.thy ===== *)
theory RtArrayLaws
  imports RtRunLaws
begin

text \<open>
  Arrays of the interpreter (\<open>array_offset\<close> of \<open>iec_runtime/src/runtime.rs\<close>): the offset of
  indices inside their bounds is their place in row-major order, it is below the number of
  elements that is allocated, and different indices have different places.
\<close>

section \<open>Row-major order\<close>

definition extent :: "subrange \<Rightarrow> nat" where
  "extent r = nat (sr_high r - sr_low r + 1)"

fun element_total :: "subrange list \<Rightarrow> nat" where
  "element_total [] = 1"
| "element_total (r # rs) = extent r * element_total rs"

definition inside :: "subrange \<Rightarrow> int \<Rightarrow> bool" where
  "inside r x \<longleftrightarrow> sr_low r \<le> x \<and> x \<le> sr_high r"

definition extent_ok :: "subrange \<Rightarrow> bool" where
  "extent_ok r \<longleftrightarrow> in_i64 (sr_high r - sr_low r) \<and> in_i64 (sr_high r - sr_low r + 1)"

text \<open>The place of indices, the last dimension first.\<close>

fun place :: "subrange list \<Rightarrow> int list \<Rightarrow> nat" where
  "place (r # rs) (x # xs) = nat (x - sr_low r) + extent r * place rs xs"
| "place _ _ = 0"

definition row_major :: "subrange list \<Rightarrow> int list \<Rightarrow> nat" where
  "row_major rs xs = place (rev rs) (rev xs)"

lemma digit_less: "inside r x \<Longrightarrow> nat (x - sr_low r) < extent r"
  by (auto simp: inside_def extent_def)

lemma digit_bound: "(d :: nat) < n \<Longrightarrow> q < m \<Longrightarrow> d + n * q < n * m"
proof -
  assume "d < n" "q < m"
  then have "d + n * q < n * Suc q" by simp
  also have "\<dots> \<le> n * m" using \<open>q < m\<close> by (intro mult_le_mono2) simp
  finally show ?thesis .
qed

lemma place_less: "list_all2 inside rs xs \<Longrightarrow> place rs xs < element_total rs"
  by (induction rs xs rule: list_all2_induct) (simp_all add: digit_less digit_bound)

lemma digit_unique:
  assumes "(d :: nat) + n * q = d' + n * q'" and "d < n" and "d' < n"
  shows "d = d' \<and> q = q'"
proof -
  have "d = (d + n * q) mod n" "d' = (d' + n * q') mod n"
    using assms(2,3) by simp_all
  then have "d = d'"
    using assms(1) by simp
  then show ?thesis
    using assms by simp
qed

lemma place_inj:
  "list_all2 inside rs xs \<Longrightarrow> list_all2 inside rs ys \<Longrightarrow> place rs xs = place rs ys \<Longrightarrow> xs = ys"
proof (induction rs xs arbitrary: ys rule: list_all2_induct)
  case (Cons r rs x xs)
  then obtain y ys' where ys: "ys = y # ys'" "inside r y" "list_all2 inside rs ys'"
    by (auto simp: list_all2_Cons1)
  then have "nat (x - sr_low r) = nat (y - sr_low r) \<and> place rs xs = place rs ys'"
    using Cons by (intro digit_unique) (auto simp: digit_less)
  moreover have "x = y" if "nat (x - sr_low r) = nat (y - sr_low r)"
    using that Cons.hyps(1) ys(2) by (simp add: inside_def nat_eq_iff2)
  ultimately show ?case
    using Cons.IH [OF ys(3)] ys(1) by simp
qed simp

lemma element_total_append: "element_total (rs @ qs) = element_total rs * element_total qs"
  by (induction rs) simp_all

lemma element_total_rev: "element_total (rev rs) = element_total rs"
  by (induction rs) (simp_all add: element_total_append)

lemma row_major_less: "list_all2 inside rs xs \<Longrightarrow> row_major rs xs < element_total rs"
  using place_less [of "rev rs" "rev xs"] by (simp add: row_major_def element_total_rev)

lemma row_major_inj:
  "list_all2 inside rs xs \<Longrightarrow> list_all2 inside rs ys \<Longrightarrow> row_major rs xs = row_major rs ys \<Longrightarrow> xs = ys"
  using place_inj [of "rev rs" "rev xs" "rev ys"] by (simp add: row_major_def)

section \<open>The count of elements\<close>

lemma range_extent_exact: "extent_ok r \<Longrightarrow> range_extent oc r = Ret (extent r)"
  by (cases "sr_high r - sr_low r + 1 \<le> 0")
    (simp_all add: range_extent_def extent_ok_def extent_def i64_arith_def)

lemma element_total_pos: "list_all2 inside rs xs \<Longrightarrow> 0 < element_total rs"
  using place_less [of rs xs] by simp

lemma element_count_exact:
  assumes "list_all extent_ok rs" and "acc * element_total rs \<le> usize_max" and "0 < element_total rs"
  shows "array_element_count_from oc acc rs = Ret (acc * element_total rs)"
  using assms
proof (induction rs arbitrary: acc)
  case (Cons r rs)
  then have pos: "0 < element_total rs" and total: "(acc * extent r) * element_total rs \<le> usize_max"
    by (simp_all add: mult.assoc)
  have "(acc * extent r) * 1 \<le> (acc * extent r) * element_total rs"
    using pos by (intro mult_le_mono2) simp
  also note total
  finally have "min usize_max (acc * extent r) = acc * extent r"
    by simp
  then show ?case
    using Cons.IH [OF _ total pos] Cons.prems(1) by (simp add: range_extent_exact mult.assoc)
qed simp

section \<open>The offset\<close>

text \<open>An expression that has an integer value and no effect.\<close>

definition index_value :: "calls \<Rightarrow> runtime \<Rightarrow> expr \<Rightarrow> int \<Rightarrow> bool" where
  "index_value c s e x \<longleftrightarrow> c_eval c e s = Done (Some (VInt x)) s"

definition with_diagnostics :: "runtime \<Rightarrow> diagnostic list \<Rightarrow> runtime" where
  "with_diagnostics s ds = s\<lparr>rt_diagnostics := rt_diagnostics s @ ds\<rparr>"

definition index_error :: "subrange \<Rightarrow> int \<Rightarrow> diagnostic" where
  "index_error r x = runtime_error (''array index '' @ show_int x @ '' is outside subrange '' @
     show_int (sr_low r) @ ''..'' @ show_int (sr_high r))"

lemma usize_exact:
  "m * n \<le> usize_max \<Longrightarrow> rbind (mul_usize m n) k s = k (m * n) s"
  "m + n \<le> usize_max \<Longrightarrow> rbind (add_usize m n) k s = k (m + n) s"
  "extent_ok r \<Longrightarrow> rbind (extent_of r) k s = k (extent r) s"
  by (simp_all add: rbind_def mul_usize_def add_usize_def extent_of_def rlift_def range_extent_exact)

lemma as_usize_exact: "0 \<le> d \<Longrightarrow> in_i64 d \<Longrightarrow> as_usize d = nat d"
  by (simp add: as_usize_def wrap_u64_def int_bounds)

lemma add_usize_exact: "m + n \<le> usize_max \<Longrightarrow> rbind (add_usize m n) k s = k (m + n) s"
  by (rule usize_exact)

lemma offset_step:
  assumes "inside r x" and "extent_ok r" and "offset < stride" and "stride * extent r \<le> usize_max"
    and "index_value c s e x"
  shows "array_offset_loop c ((r, e) # rest) offset stride s =
           array_offset_loop c rest (offset + stride * nat (x - sr_low r)) (stride * extent r) s"
proof -
  have d: "0 \<le> x - sr_low r" "in_i64 (x - sr_low r)" "in_i64 (x + - sr_low r)"
    using assms(1,2) by (auto simp: inside_def extent_ok_def int_bounds)
  have "offset + stride * nat (x - sr_low r) < stride * extent r"
    using digit_bound [OF assms(3) digit_less [OF assms(1)]] .
  then have sum: "offset + nat (x - sr_low r) * stride \<le> usize_max"
      and product: "nat (x - sr_low r) * stride \<le> usize_max"
    using assms(4) by (simp_all add: mult.commute)
  show ?thesis
    using assms(1,2,4,5) d sum product
    by (simp add: index_value_def inside_def rtry_def rmap_def rbind_assoc rbind_Done [of "c_eval c e"]
        as_i64_def add_i64_exact as_usize_exact usize_exact mult.commute not_less [symmetric])
qed

lemma offset_stop:
  assumes "\<not> inside r x" and "index_value c s e x"
  shows "array_offset_loop c ((r, e) # rest) offset stride s = Done None (with_diagnostics s [index_error r x])"
  using assms
  by (auto simp: index_value_def inside_def rtry_def rmap_def rbind_assoc rbind_Done [of "c_eval c e"]
      as_i64_def push_def rmodify_def rseq_def rbind_def ret_def with_diagnostics_def index_error_def not_le)

lemma offset_loop:
  assumes "length rs = length es" and "list_all2 (index_value c s) es xs" and "list_all extent_ok rs"
    and "offset < stride" and "stride * element_total rs \<le> usize_max" and "0 < element_total rs"
  shows "if list_all2 inside rs xs
         then array_offset_loop c (zip rs es) offset stride s = Done (Some (offset + stride * place rs xs)) s
         else \<exists>d. array_offset_loop c (zip rs es) offset stride s = Done None (with_diagnostics s [d])"
  using assms
proof (induction rs es arbitrary: xs offset stride rule: list_induct2)
  case (Cons r rs e es)
  then obtain x ys where xs: "xs = x # ys" "index_value c s e x" "list_all2 (index_value c s) es ys"
    by (auto simp: list_all2_Cons1)
  show ?case
  proof (cases "inside r x")
    case True
    have total: "stride * extent r * element_total rs \<le> usize_max" "0 < element_total rs"
      using Cons.prems by (simp_all add: mult.assoc)
    have "(stride * extent r) * 1 \<le> (stride * extent r) * element_total rs"
      using total by (intro mult_le_mono2) simp
    also note total(1)
    finally have step: "array_offset_loop c (zip (r # rs) (e # es)) offset stride s =
        array_offset_loop c (zip rs es) (offset + stride * nat (x - sr_low r)) (stride * extent r) s"
      unfolding zip_Cons_Cons using Cons.prems True xs by (intro offset_step) simp_all
    have "offset + stride * nat (x - sr_low r) < stride * extent r"
      using digit_bound [OF Cons.prems(3) digit_less [OF True]] .
    from Cons.IH [OF xs(3) _ this total] show ?thesis
      using Cons.prems(2) True xs(1) unfolding step by (simp add: algebra_simps)
  next
    case False
    then show ?thesis
      using xs offset_stop [OF False xs(2)] by auto
  qed
qed (simp add: ret_def)

lemma array_offset_exact:
  assumes "length rs = length es" and "list_all2 (index_value c s) es xs" and "list_all extent_ok rs"
    and "element_total rs \<le> usize_max" and "0 < element_total rs"
  shows "if list_all2 inside rs xs then array_offset c rs es s = Done (Some (row_major rs xs)) s
    else \<exists>d. array_offset c rs es s = Done None (with_diagnostics s [d])"
  using offset_loop [of "rev rs" "rev es" c s "rev xs" 0 1] assms
  by (simp add: array_offset_def row_major_def element_total_rev split: if_splits)

text \<open>C7: The offset of an array access is the place of its indices in row-major order. For
  indices without effects over dimensions that are not empty and fit into memory together, the
  access has an offset exactly when every index is inside its bounds; the offset is then below
  the number of elements the array is allocated with, and no other indices have it. An index
  outside its bounds gives one diagnostic and no offset.\<close>

theorem array_offset_row_major:
  assumes "length rs = length es" and "list_all2 (index_value c s) es xs" and "list_all extent_ok rs"
    and "element_total rs \<le> usize_max" and "0 < element_total rs"
  shows "array_element_count (checked s) rs = Ret (element_total rs) \<and>
    (if list_all2 inside rs xs
     then array_offset c rs es s = Done (Some (row_major rs xs)) s \<and> row_major rs xs < element_total rs \<and>
          (\<forall>ys. list_all2 inside rs ys \<and> row_major rs ys = row_major rs xs \<longrightarrow> ys = xs)
     else \<exists>d. array_offset c rs es s = Done None (with_diagnostics s [d]))"
proof -
  have "array_element_count (checked s) rs = Ret (element_total rs)"
    using element_count_exact [of rs 1] assms by (simp add: array_element_count_def)
  then show ?thesis
    using array_offset_exact [OF assms] row_major_less [of rs xs] row_major_inj [of rs _ xs] by auto
qed

text \<open>\<open>A[i, j]\<close> for \<open>ARRAY [1..2, 0..2]\<close>.\<close>

theorem array_offset_row_major_witness:
  "array_offset (interp 1) [\<lparr>sr_low = 1, sr_high = 2\<rparr>, \<lparr>sr_low = 0, sr_high = 2\<rparr>]
     [LiteralE (LInt 2), LiteralE (LInt 1)] (demo_runtime []) = Done (Some 4) (demo_runtime [])"
proof -
  have "index_value (interp 1) (demo_runtime []) (LiteralE (LInt n)) n" for n
    by (simp add: index_value_def deeper_def eval_expr_def literal_to_value_def rlift_def)
  then show ?thesis
    using array_offset_row_major [of "[\<lparr>sr_low = 1, sr_high = 2\<rparr>, \<lparr>sr_low = 0, sr_high = 2\<rparr>]"
        "[LiteralE (LInt 2), LiteralE (LInt 1)]" "interp 1" "demo_runtime []" "[2, 1]"]
    by (simp add: extent_ok_def extent_def inside_def row_major_def int_bounds usize_max_def)
qed

end
