(* ===== verification/RtAssignLaws.thy ===== *)
theory RtAssignLaws
  imports RtArrayLaws
begin

text \<open>
  Assignments to variables and elements of arrays (\<open>assign\<close> and \<open>resolve\<close> of
  \<open>iec_runtime/src/runtime.rs\<close>): what is assigned to an element is read back there and
  nowhere else; an assignment to a field of an element replaces the element.
\<close>

section \<open>Elements of arrays\<close>

definition element :: "ident \<Rightarrow> expr list \<Rightarrow> variable_ref" where
  "element r es = VariableRef [r] [es] None"

definition array_variable :: "runtime \<Rightarrow> ident \<Rightarrow> subrange list \<Rightarrow> data_type_spec \<Rightarrow> val list \<Rightarrow> bool" where
  "array_variable s r rs t vs \<longleftrightarrow>
     bt_get (rt_types s) (canonical r) = Some (DtArray rs t) \<and>
     bt_get (rt_env s) (canonical r) = Some (VArray vs) \<and>
     enum_ordinal_name (rt_project s) (canonical r) = None"

definition dims_ok :: "subrange list \<Rightarrow> val list \<Rightarrow> bool" where
  "dims_ok rs vs \<longleftrightarrow> rs \<noteq> [] \<and> list_all extent_ok rs \<and> element_total rs \<le> usize_max \<and>
     length vs = element_total rs"

lemma resolve_other [simp]:
  "resolve_project_spec p (DtArray rs t) = DtArray rs t"
  "resolve_project_spec p (DtStruct fs) = DtStruct fs"
  "resolve_project_spec p (DtElementary e) = DtElementary e"
  by (simp_all add: resolve_project_spec_def resolve_project_spec_inner.simps)

lemma deeper_simps [simp]:
  "c_eval (deeper c) = eval_expr c" "c_indices (deeper c) = apply_indices_loop c"
  "c_assign_into (deeper c) = assign_into_value c"
  "c_assign_indexed (deeper c) = assign_into_indexed_value c"
  "c_constrain (deeper c) = constrain_value c" "c_statements (deeper c) = execute_statement_list c"
  "c_block (deeper c) = execute_block c" "c_initial (deeper c) = initial_value_for_spec c"
  "c_default (deeper c) = default_value c"
  by (simp_all add: deeper_def)

lemma named_spec: "rbind (resolve_named_spec t) k s = k (resolve_project_spec (rt_project s) t) s"
  by (simp add: resolve_named_spec_def)

lemma offset_inside:
  assumes "dims_ok rs vs" and "list_all2 (index_value c s) es xs" and "list_all2 inside rs xs"
  shows "array_offset c rs es s = Done (Some (row_major rs xs)) s" and "row_major rs xs < length vs"
proof -
  have "length rs = length es"
    using assms(2,3) by (auto dest!: list_all2_lengthD)
  moreover have "0 < element_total rs"
    using element_total_pos [OF assms(3)] .
  ultimately show "array_offset c rs es s = Done (Some (row_major rs xs)) s" "row_major rs xs < length vs"
    using array_offset_exact [of rs es c s xs] assms row_major_less [OF assms(3)]
    by (auto simp: dims_ok_def)
qed

lemma es_not_Nil: "dims_ok rs vs \<Longrightarrow> list_all2 f es xs \<Longrightarrow> list_all2 g rs xs \<Longrightarrow> es \<noteq> [] \<and> length rs = length es"
  by (auto simp: dims_ok_def dest!: list_all2_lengthD)

lemma resolve_element:
  assumes "array_variable s r rs t vs" and "dims_ok rs vs"
    and "list_all2 (index_value (deeper c) s) es xs" and "list_all2 inside rs xs"
  shows "resolve (deeper c) (element r es) s = Done (Some (vs ! row_major rs xs)) s"
proof -
  note offset = offset_inside [OF assms(2,3,4)]
  have es: "es \<noteq> []" "length rs = length es"
    using es_not_Nil [OF assms(2,3,4)] by simp_all
  have step: "apply_indices_to_value (deeper c) (VArray vs) (DtArray rs t) es s =
      Done (Some (vs ! row_major rs xs, resolve_project_spec (rt_project s) t)) s"
    using es offset(2)
    by (simp add: apply_indices_to_value_def apply_indices_loop_def named_spec rtry_def
        rbind_Done [where m = "array_offset (deeper c) rs es" and s = s, OF offset(1)] ret_def)
  show ?thesis
    using assms(1)
    by (simp add: rbind_Done [where m = "apply_indices_to_value (deeper c) (VArray vs) (DtArray rs t) es"
          and s = s, OF step] resolve_def resolve_stored_def element_def array_variable_def root_name_def
        rtry_opt_def rtry_def flattened_field_key_def env_get_def indices_at_def ret_def)
qed

definition stored :: "ident \<Rightarrow> val \<Rightarrow> runtime \<Rightarrow> runtime" where
  "stored r v s = s\<lparr>rt_env := bt_insert (canonical r) v (rt_env s)\<rparr>"

lemma range_report_effect: "\<exists>ds. range_report v a b kind s = Done () (with_diagnostics s ds)"
proof (cases "\<exists>n. as_i64 v = Some n \<and> (n < a \<or> n > b)")
  case True
  then show ?thesis
    by (auto simp: range_report_def push_def rmodify_def with_diagnostics_def)
next
  case False
  then have "range_report v a b kind s = Done () (with_diagnostics s [])"
    by (auto simp: range_report_def ret_def with_diagnostics_def split: option.splits)
  then show ?thesis by blast
qed

lemma constrain_elementary:
  assumes "resolve_project_spec (rt_project s) t = DtElementary e"
  shows "\<exists>ds. constrain_value c t v s = Done v (with_diagnostics s ds)"
proof (cases "elementary_integer_range e")
  case None
  then have "constrain_value c t v s = Done v (with_diagnostics s [])"
    using assms by (simp add: constrain_value_def named_spec ret_def with_diagnostics_def)
  then show ?thesis by blast
next
  case (Some a)
  obtain name low high where a: "a = (name, low, high)" by (cases a)
  obtain ds where "range_report v low high (name @ '' range'') s = Done () (with_diagnostics s ds)"
    using range_report_effect by blast
  then have "constrain_value c t v s = Done v (with_diagnostics s ds)"
    using assms Some a by (simp add: constrain_value_def named_spec rseq_Done ret_def)
  then show ?thesis by blast
qed

lemma assign_element:
  assumes "array_variable s r rs t vs" and "dims_ok rs vs"
    and "list_all2 (index_value (deeper c) s) es xs" and "list_all2 inside rs xs"
    and "resolve_project_spec (rt_project s) t = DtElementary e"
  shows "\<exists>ds. assign (deeper c) (element r es) v s =
           Done () (stored r (VArray (vs[row_major rs xs := v])) (with_diagnostics s ds))"
proof -
  let ?i = "row_major rs xs" and ?c = "deeper c" and ?ref = "VariableRef [r] [es] None"
  note offset = offset_inside [OF assms(2,3,4)]
  have es: "es \<noteq> []" "length rs = length es"
    using es_not_Nil [OF assms(2,3,4)] by simp_all
  obtain ds where constrain: "constrain_value c t v s = Done v (with_diagnostics s ds)"
    using constrain_elementary [OF assms(5)] by blast
  have leaf: "assign_into_indexed_value c (vs ! ?i) t [] ?ref 0 v s =
      Done (True, v) (with_diagnostics s ds)"
    by (simp add: assign_into_indexed_value_def rmap_def ret_def
        rbind_Done [of "constrain_value c t v" s, OF constrain])
  have whole: "assign_into_value ?c (VArray vs) (DtArray rs t) ?ref 0 v s =
      Done (True, VArray (vs[?i := v])) (with_diagnostics s ds)"
    using es offset(2)
    by (simp add: assign_into_value_def assign_into_indexed_value_def [of "deeper c"] named_spec
        indices_at_def rbind_Done [of "array_offset ?c rs es" s, OF offset(1)]
        rmap_def ret_def rbind_Done [of "assign_into_indexed_value c (vs ! ?i) t [] ?ref 0 v" s, OF leaf])
  show ?thesis
    using assms(1)
    by (auto simp: assign_def assign_stored_def array_variable_def element_def [of r es] root_name_def
        flattened_field_key_def rbind_Done [of "assign_into_value ?c (VArray vs) (DtArray rs t) ?ref 0 v" s, OF whole] env_insert_def
        rmodify_def stored_def)
qed

lemma stored_simps [simp]:
  "rt_env (stored r v s) = bt_insert (canonical r) v (rt_env s)" "rt_types (stored r v s) = rt_types s"
  "rt_project (stored r v s) = rt_project s" "rt_env (with_diagnostics s ds) = rt_env s"
  "rt_types (with_diagnostics s ds) = rt_types s" "rt_project (with_diagnostics s ds) = rt_project s"
  by (simp_all add: stored_def with_diagnostics_def)

text \<open>C6: What is assigned to an element of an array is read back from it, and from nowhere else.
  For an array of any number of dimensions over an elementary type and indices inside their
  bounds, the assignment succeeds, an access with the same indices then gives the value, an
  access with other indices gives what was there before, and every other variable is left
  alone. A value outside the range of the type is reported, but stored all the same.\<close>

theorem element_assignment:
  assumes "array_variable s r rs t vs" and "dims_ok rs vs"
    and "list_all2 (index_value (interp (Suc n)) s) es xs" and "list_all2 inside rs xs"
    and "resolve_project_spec (rt_project s) t = DtElementary e"
  shows "\<exists>u. assign (interp (Suc n)) (element r es) v s = Done () u \<and>
    (\<forall>fs ys. list_all2 (index_value (interp (Suc n)) u) fs ys \<and> list_all2 inside rs ys \<longrightarrow>
       resolve (interp (Suc n)) (element r fs) u = Done (Some (if ys = xs then v else vs ! row_major rs ys)) u) \<and>
    (\<forall>k. k \<noteq> canonical r \<longrightarrow> bt_get (rt_env u) k = bt_get (rt_env s) k)"
proof -
  let ?vs = "vs[row_major rs xs := v]"
  obtain ds where assign: "assign (interp (Suc n)) (element r es) v s =
      Done () (stored r (VArray ?vs) (with_diagnostics s ds))"
    using assign_element [of s r rs t vs "interp n" es xs e v] assms by auto
  let ?u = "stored r (VArray ?vs) (with_diagnostics s ds)"
  have "array_variable ?u r rs t ?vs" and dims: "dims_ok rs ?vs"
    using assms(1,2) by (simp_all add: array_variable_def dims_ok_def)
  then have read: "resolve (interp (Suc n)) (element r fs) ?u = Done (Some (?vs ! row_major rs ys)) ?u"
    if "list_all2 (index_value (interp (Suc n)) ?u) fs ys" "list_all2 inside rs ys" for fs ys
    using resolve_element [of ?u r rs t ?vs "interp n" fs ys] that by simp
  have "?vs ! row_major rs ys = (if ys = xs then v else vs ! row_major rs ys)"
    if "list_all2 inside rs ys" for ys
    using row_major_inj [OF that assms(4)] row_major_less [OF assms(4)] assms(2)
    by (auto simp: dims_ok_def nth_list_update)
  with assign read show ?thesis
    by auto
qed

lemma literal_index: "index_value (deeper c) s (LiteralE (LInt n)) n"
  by (simp add: index_value_def eval_expr_def literal_to_value_def rlift_def)

text \<open>\<open>VAR A : ARRAY [1..2] OF INT; B : ARRAY [1..2] OF STRUCT X, Y : INT; END_STRUCT; END_VAR\<close>\<close>

definition demo_arrays :: runtime where
  "demo_arrays = (demo_runtime [])\<lparr>
     rt_env := [(''A'', VArray [VInt 0, VInt 0]),
       (''B'', VArray (replicate 2 (VStruct [(''X'', VInt 0), (''Y'', VInt 0)])))],
     rt_types := [(''A'', DtArray [\<lparr>sr_low = 1, sr_high = 2\<rparr>] (DtElementary EInt)),
       (''B'', DtArray [\<lparr>sr_low = 1, sr_high = 2\<rparr>] (DtStruct
          [StructField (ident_new ''X'') (DtElementary EInt) None,
           StructField (ident_new ''Y'') (DtElementary EInt) None]))]\<rparr>"

lemma demo_dims: "length vs = 2 \<Longrightarrow> dims_ok [\<lparr>sr_low = 1, sr_high = 2\<rparr>] vs"
  by (simp add: dims_ok_def extent_ok_def extent_def int_bounds usize_max_def)

lemma demo_project_empty: "enum_ordinal_name (rt_project demo_arrays) name = None"
  by (simp add: demo_arrays_def demo_runtime_def start_runtime_def project_new_def enum_ordinal_name_def
      data_types_def map_filter_simps)

lemma demo_names: "canonical (ident_new ''A'') = ''A''" "canonical (ident_new ''B'') = ''B''"
    "canonical (ident_new ''X'') = ''X''" "canonical (ident_new ''Y'') = ''Y''"
  by code_simp+

theorem element_assignment_witness:
  "\<exists>u. assign (interp 1) (element (ident_new ''A'') [LiteralE (LInt 2)]) (VInt 7) demo_arrays = Done () u \<and>
     resolve (interp 1) (element (ident_new ''A'') [LiteralE (LInt 2)]) u = Done (Some (VInt 7)) u \<and>
     resolve (interp 1) (element (ident_new ''A'') [LiteralE (LInt 1)]) u = Done (Some (VInt 0)) u"
proof -
  let ?r = "ident_new ''A''" and ?rg = "\<lparr>sr_low = 1, sr_high = 2\<rparr>"
  have A: "array_variable demo_arrays ?r [?rg] (DtElementary EInt) [VInt 0, VInt 0]"
    using demo_project_empty by (simp add: array_variable_def demo_names) (simp add: demo_arrays_def)
  have index: "list_all2 (index_value (interp (Suc 0)) u) [LiteralE (LInt n)] [n]" for u n
    by (simp add: literal_index)
  have inside: "list_all2 inside [?rg] [2]"
    by (simp add: inside_def)
  from element_assignment [OF A demo_dims index inside, of EInt "VInt 7"]
  obtain u where u: "assign (interp 1) (element ?r [LiteralE (LInt 2)]) (VInt 7) demo_arrays = Done () u"
    and read: "\<forall>fs ys. list_all2 (index_value (interp (Suc 0)) u) fs ys \<and> list_all2 inside [?rg] ys \<longrightarrow>
      resolve (interp (Suc 0)) (element ?r fs) u =
        Done (Some (if ys = [2] then VInt 7 else [VInt 0, VInt 0] ! row_major [?rg] ys)) u"
    by auto
  show ?thesis
    using u read [rule_format, OF conjI, OF index, of 2] read [rule_format, OF conjI, OF index, of 1]
    by (auto simp: inside_def row_major_def extent_def)
qed

section \<open>Fields of elements\<close>

definition field_of_element :: "ident \<Rightarrow> int \<Rightarrow> ident \<Rightarrow> variable_ref" where
  "field_of_element r x f = VariableRef [r, f] [[LiteralE (LInt x)], []] None"

text \<open>C13: An assignment to a field of an element of an array of structures replaces the whole
  element by the assigned value instead of the field: the other fields are lost, and the field
  that was assigned cannot be read back.\<close>

theorem element_field_assignment_overwrites:
  assumes "array_variable s r [rg] t vs" and "dims_ok [rg] vs" and "inside rg x"
    and "resolve_project_spec (rt_project s) t = DtStruct fds"
    and "find_field (canonical f) fds \<noteq> None" and "\<forall>m. v \<noteq> VStruct m"
  shows "\<exists>u. assign (interp (Suc (Suc n))) (field_of_element r x f) v s = Done () u \<and>
    bt_get (rt_env u) (canonical r) = Some (VArray (vs[row_major [rg] [x] := v])) \<and>
    resolve (interp (Suc (Suc n))) (field_of_element r x f) u = Done None u"
proof -
  let ?i = "row_major [rg] [x]"
  let ?ref = "VariableRef [r, f] [[LiteralE (LInt x)], []] None"
  let ?es = "[LiteralE (LInt x)]" and ?c = "deeper (deeper (interp n))"
  let ?u = "stored r (VArray (vs[?i := v])) s"
  have index: "list_all2 (index_value ?c w) ?es [x]" for w
    by (simp add: literal_index)
  have offset: "array_offset ?c [rg] ?es w = Done (Some ?i) w" "?i < length vs" for w
    using offset_inside [OF assms(2) index [of w]] assms(3) by simp_all
  have constrain: "constrain_value (interp n) (DtStruct fds) v w = Done v w" for w
    using assms(6) by (cases v) (auto simp: constrain_value_def named_spec ret_def)
  have leaf: "assign_into_value (interp n) (vs ! ?i) t ?ref 1 v s = Done (True, v) s"
    using assms(4)
    by (simp add: assign_into_value_def named_spec indices_at_def rmap_def ret_def
        rbind_Done [of "constrain_value (interp n) (DtStruct fds) v" s, OF constrain])
  have element: "assign_into_indexed_value (deeper (interp n)) (vs ! ?i) t [] ?ref 0 v s = Done (True, v) s"
    using leaf by (simp add: assign_into_indexed_value_def)
  have whole: "assign_into_value ?c (VArray vs) (DtArray [rg] t) ?ref 0 v s =
      Done (True, VArray (vs[?i := v])) s"
    using offset(2)
    by (simp add: assign_into_value_def assign_into_indexed_value_def [of ?c] named_spec indices_at_def
        rbind_Done [of "array_offset ?c [rg] ?es" s, OF offset(1)] rmap_def ret_def
        rbind_Done [of "assign_into_indexed_value (deeper (interp n)) (vs ! ?i) t [] ?ref 0 v" s, OF element])
  have "assign ?c (field_of_element r x f) v s = Done () ?u"
    using assms(1)
    by (simp add: assign_def assign_stored_def array_variable_def field_of_element_def root_name_def
        flattened_field_key_def env_insert_def rmodify_def stored_def
        rbind_Done [of "assign_into_value ?c (VArray vs) (DtArray [rg] t) ?ref 0 v" s, OF whole])
  moreover
  have read: "apply_indices_to_value ?c (VArray (vs[?i := v])) (DtArray [rg] t) ?es ?u = Done (Some (v, DtStruct fds)) ?u"
    using offset(2) assms(4)
    by (simp add: apply_indices_to_value_def apply_indices_loop_def named_spec rtry_def
        rbind_Done [of "array_offset ?c [rg] ?es" ?u, OF offset(1)] ret_def)
  have segments: "resolve_segments ?c ?ref [(Suc 0, f)] v (DtStruct fds) ?u = Done None ?u"
    using assms(5,6) by (cases v) (auto simp: named_spec ret_def)
  have "resolve ?c (field_of_element r x f) ?u = Done None ?u"
    using assms(1)
    by (simp add: segments resolve_def resolve_stored_def field_of_element_def array_variable_def root_name_def
        rtry_opt_def rtry_def flattened_field_key_def env_get_def indices_at_def named_spec
        rbind_Done [of "apply_indices_to_value ?c (VArray (vs[?i := v])) (DtArray [rg] t) ?es" ?u, OF read]
        del: resolve_segments.simps)
  ultimately show ?thesis
    by auto
qed

theorem element_field_assignment_overwrites_witness:
  "\<exists>u. assign (interp 2) (field_of_element (ident_new ''B'') 1 (ident_new ''X'')) (VInt 5) demo_arrays = Done () u \<and>
     bt_get (rt_env u) ''B'' = Some (VArray [VInt 5, VStruct [(''X'', VInt 0), (''Y'', VInt 0)]])"
proof -
  let ?rg = "\<lparr>sr_low = 1, sr_high = 2\<rparr>" and ?t = "DtStruct [StructField (ident_new ''X'') (DtElementary EInt) None,
      StructField (ident_new ''Y'') (DtElementary EInt) None]"
  have B: "array_variable demo_arrays (ident_new ''B'') [?rg] ?t
      (replicate 2 (VStruct [(''X'', VInt 0), (''Y'', VInt 0)]))"
    using demo_project_empty by (simp add: array_variable_def demo_names) (simp add: demo_arrays_def)
  show ?thesis
    using element_field_assignment_overwrites [OF B demo_dims, of 1 _ "ident_new ''X''" "VInt 5" 0]
    by (auto simp: inside_def find_field_def demo_names row_major_def numeral_2_eq_2)
qed

end
