(* ===== verification/RtSfcLaws.thy ===== *)
theory RtSfcLaws
  imports RtAssignLaws
begin

text \<open>
  Sequential function charts of the interpreter (\<open>execute_sfc\<close> of
  \<open>iec_runtime/src/runtime.rs\<close>): the transitions that fire in a cycle are a maximal choice by
  priority of transitions that leave different steps, and a scan of a chart without parallel
  branches keeps exactly one step active.
\<close>

section \<open>The marking\<close>

definition active :: "runtime \<Rightarrow> string set" where
  "active s = {n. Option.bind (bt_get (rt_env s) (''$SFC_STEP_'' @ n)) as_bool = Some True}"

definition step_names :: "ident list \<Rightarrow> string set" where
  "step_names ids = canonical ` set ids"

definition leaving :: "candidate \<Rightarrow> string set" where
  "leaving cand = (case cand of (_, _, from_steps, _) \<Rightarrow> step_names from_steps)"

definition entering :: "candidate \<Rightarrow> string set" where
  "entering cand = (case cand of (_, _, _, to_steps) \<Rightarrow> step_names to_steps)"

definition rank :: "candidate \<Rightarrow> int \<times> nat" where
  "rank cand = (case cand of (priority, index, _, _) \<Rightarrow> (priority, index))"

text \<open>One transition moves the tokens; the choice goes through the candidates in order and skips
  a transition that leaves a step an earlier one has left.\<close>

definition move :: "candidate \<Rightarrow> string set \<Rightarrow> string set" where
  "move cand marking = (marking - leaving cand) \<union> entering cand"

fun chosen :: "candidate list \<Rightarrow> string set \<Rightarrow> candidate list" where
  "chosen [] used = []"
| "chosen (cand # cands) used =
     (if leaving cand \<inter> used \<noteq> {} then chosen cands used
      else cand # chosen cands (leaving cand \<union> used))"

lemma chosen_subset: "set (chosen cands used) \<subseteq> set cands"
  by (induction cands arbitrary: used) auto

lemma chosen_unused: "cand \<in> set (chosen cands used) \<Longrightarrow> leaving cand \<inter> used = {}"
  by (induction cands arbitrary: used) (auto split: if_splits)

lemma chosen_disjoint: "sorted_wrt (\<lambda>a b. leaving a \<inter> leaving b = {}) (chosen cands used)"
proof (induction cands arbitrary: used)
  case (Cons cand cands)
  have "leaving cand \<inter> leaving d = {}" if "d \<in> set (chosen cands (leaving cand \<union> used))" for d
    using chosen_unused [OF that] by blast
  then show ?case
    using Cons.IH by simp
qed simp

lemma chosen_maximal:
  assumes "sorted (map rank cands)" and "cand \<in> set cands" and "cand \<notin> set (chosen cands used)"
    and "leaving cand \<inter> used = {}"
  shows "\<exists>d \<in> set (chosen cands used). leaving d \<inter> leaving cand \<noteq> {} \<and> rank d \<le> rank cand"
  using assms
proof (induction cands arbitrary: used)
  case (Cons d cands)
  show ?case
  proof (cases "leaving d \<inter> used = {}")
    case False
    then show ?thesis
      using Cons by auto
  next
    case True
    then have cand: "cand \<in> set cands" "cand \<notin> set (chosen cands (leaving d \<union> used))"
      using Cons.prems(2,3) by auto
    show ?thesis
    proof (cases "leaving d \<inter> leaving cand = {}")
      case True
      then have "leaving cand \<inter> (leaving d \<union> used) = {}"
        using Cons.prems(4) by auto
      from Cons.IH [OF _ cand this] show ?thesis
        using Cons.prems(1) \<open>leaving d \<inter> used = {}\<close> by auto
    next
      case False
      then show ?thesis
        using Cons.prems(1) cand(1) True by auto
    qed
  qed
qed simp

section \<open>Firing\<close>

text \<open>Two states that differ in step flags only.\<close>

definition steps_only :: "runtime \<Rightarrow> runtime \<Rightarrow> bool" where
  "steps_only s t \<longleftrightarrow> t\<lparr>rt_env := rt_env s\<rparr> = s \<and>
     (\<forall>k. (\<nexists>n. k = ''$SFC_STEP_'' @ n) \<longrightarrow> bt_get (rt_env t) k = bt_get (rt_env s) k)"

lemma steps_only_refl [simp]: "steps_only s s"
  by (simp add: steps_only_def)

lemma steps_only_trans: "steps_only s t \<Longrightarrow> steps_only t u \<Longrightarrow> steps_only s u"
  unfolding steps_only_def by (cases s; cases t; cases u) auto

lemma set_step:
  "env_insert (sfc_step_key step) (VBool b) s = Done () t \<Longrightarrow>
   steps_only s t \<and> active t = (if b then insert (canonical step) (active s) else active s - {canonical step})"
  by (auto simp: env_insert_def rmodify_def steps_only_def active_def sfc_step_key_def as_bool_def
      split: if_splits)

lemma set_steps:
  "\<exists>t. rfor steps (\<lambda>step. env_insert (sfc_step_key step) (VBool b)) s = Done () t \<and> steps_only s t \<and>
     active t = (if b then active s \<union> step_names steps else active s - step_names steps)"
proof (induction steps arbitrary: s)
  case (Cons step steps)
  obtain u where u: "env_insert (sfc_step_key step) (VBool b) s = Done () u"
    by (simp add: env_insert_def rmodify_def)
  obtain t where t: "rfor steps (\<lambda>step. env_insert (sfc_step_key step) (VBool b)) u = Done () t"
      "steps_only u t" "active t = (if b then active u \<union> step_names steps else active u - step_names steps)"
    using Cons.IH by blast
  have "active t = (if b then active s \<union> step_names (step # steps) else active s - step_names (step # steps))"
    using t(3) set_step [OF u] by (auto simp: step_names_def)
  then show ?case
    using t u set_step [OF u] by (auto simp: rseq_Done intro: steps_only_trans)
qed (simp add: ret_def step_names_def)

lemma consumed_names: "list_ex (\<lambda>step. canonical step \<in> set consumed) ids \<longleftrightarrow> step_names ids \<inter> set consumed \<noteq> {}"
  by (auto simp: list_ex_iff step_names_def)

lemma fire_chosen:
  "\<exists>used t. rfold cands fire_transition consumed s = Done used t \<and> steps_only s t \<and>
     active t = fold move (chosen cands (set consumed)) (active s)"
proof (induction cands arbitrary: consumed s)
  case (Cons cand cands)
  obtain priority index from_steps to_steps where cand: "cand = (priority, index, from_steps, to_steps)"
    by (cases cand)
  show ?case
  proof (cases "leaving cand \<inter> set consumed = {}")
    case False
    then have "fire_transition cand consumed s = Done consumed s"
      by (simp add: fire_transition_def cand leaving_def consumed_names ret_def)
    then show ?thesis
      using Cons.IH [of consumed s] False by (simp add: rbind_def)
  next
    case True
    obtain u where u: "rfor from_steps (\<lambda>step. env_insert (sfc_step_key step) (VBool False)) s = Done () u"
        "steps_only s u" "active u = active s - step_names from_steps"
      using set_steps [of from_steps False s] by auto
    obtain v where v: "rfor to_steps (\<lambda>step. env_insert (sfc_step_key step) (VBool True)) u = Done () v"
        "steps_only u v" "active v = active u \<union> step_names to_steps"
      using set_steps [of to_steps True u] by auto
    have fire: "fire_transition cand consumed s = Done (map canonical from_steps @ consumed) v"
      using True u(1) v(1)
      by (simp add: fire_transition_def cand leaving_def consumed_names rseq_Done ret_def)
    have "active v = move cand (active s)"
      using u(3) v(3) by (simp add: move_def cand leaving_def entering_def)
    moreover have "set (map canonical from_steps @ consumed) = leaving cand \<union> set consumed"
      by (simp add: cand leaving_def step_names_def)
    ultimately show ?thesis
      using Cons.IH [of "map canonical from_steps @ consumed" v] True fire steps_only_trans [OF u(2) v(2)]
      by (auto simp: rbind_def intro: steps_only_trans)
  qed
qed (simp add: ret_def)

definition by_rank :: "candidate list \<Rightarrow> candidate list" where
  "by_rank cands = sort_key rank cands"

lemma by_rank_eq: "sort_key (\<lambda>(priority, index, _, _). (priority, index)) cands = by_rank cands"
proof -
  have "rank = (\<lambda>(priority, index, _, _). (priority, index))"
    by (auto simp: rank_def fun_eq_iff)
  then show ?thesis
    by (simp add: by_rank_def)
qed

lemma sorted_rank: "sorted (map rank (by_rank cands))" and set_by_rank [simp]: "set (by_rank cands) = set cands"
  by (simp_all add: by_rank_def)

lemma fire_moves:
  obtains t where "fire_transitions cands s = Done () t" and "steps_only s t"
    and "active t = fold move (chosen (by_rank cands) {}) (active s)"
proof -
  obtain used t where "rfold (by_rank cands) fire_transition [] s = Done used t" "steps_only s t"
      "active t = fold move (chosen (by_rank cands) {}) (active s)"
    using fire_chosen [of "by_rank cands" "[]" s] by auto
  then show thesis
    by (intro that [of t]) (simp_all add: fire_transitions_def by_rank_eq rbind_def ret_def)
qed

text \<open>C8: The transitions that fire in a cycle are a greedy choice by priority. Firing the
  candidates always ends, changes step flags only, and moves the tokens along the chosen
  transitions, in the order of priority and then of position. No step is left by two chosen
  transitions, so no token is spent twice; and a candidate that is not chosen leaves a step
  that a chosen one of the same or a smaller priority number leaves.\<close>

theorem fire_transitions_greedy:
  "\<exists>t. fire_transitions cands s = Done () t \<and> steps_only s t \<and>
      active t = fold move (chosen (by_rank cands) {}) (active s) \<and>
      sorted_wrt (\<lambda>a b. leaving a \<inter> leaving b = {}) (chosen (by_rank cands) {}) \<and>
      (\<forall>cand \<in> set cands. cand \<in> set (chosen (by_rank cands) {}) \<or>
        (\<exists>d \<in> set (chosen (by_rank cands) {}). leaving d \<inter> leaving cand \<noteq> {} \<and> rank d \<le> rank cand))"
proof -
  obtain t where "fire_transitions cands s = Done () t" "steps_only s t"
      "active t = fold move (chosen (by_rank cands) {}) (active s)"
    by (rule fire_moves)
  moreover have "cand \<in> set (chosen (by_rank cands) {}) \<or>
      (\<exists>d \<in> set (chosen (by_rank cands) {}). leaving d \<inter> leaving cand \<noteq> {} \<and> rank d \<le> rank cand)"
    if "cand \<in> set cands" for cand
    using chosen_maximal [OF sorted_rank, of cand cands "{}"] that by auto
  ultimately show ?thesis
    using chosen_disjoint by blast
qed

theorem fire_transitions_greedy_witness:
  "\<exists>t. fire_transitions
       [(2, 0, [ident_new ''A''], [ident_new ''B'']), (1, 1, [ident_new ''A''], [ident_new ''C''])]
       ((demo_runtime [])\<lparr>rt_env := [(''$SFC_STEP_A'', VBool True)]\<rparr>) = Done () t \<and> active t = {''C''}"
proof -
  let ?cands = "[(2, 0, [ident_new ''A''], [ident_new ''B'']), (1, 1, [ident_new ''A''], [ident_new ''C''])]"
  let ?s = "(demo_runtime [])\<lparr>rt_env := [(''$SFC_STEP_A'', VBool True)]\<rparr>"
  have "active ?s = {''A''}"
    by (auto simp: active_def as_bool_def split: if_splits)
  moreover have "chosen (by_rank ?cands) {} = [(1, 1, [ident_new ''A''], [ident_new ''C''])]"
    by (simp add: by_rank_def rank_def leaving_def step_names_def demo_names)
  moreover have "move (1, 1, [ident_new ''A''], [ident_new ''C'']) {''A''} = {''C''}"
    by (simp add: move_def leaving_def entering_def step_names_def demo_names) code_simp
  ultimately show ?thesis
    using fire_transitions_greedy [of ?cands ?s] by auto
qed

section \<open>Sequential charts\<close>

text \<open>An operation that leaves the step flags alone.\<close>

definition keeps_steps :: "'a rt \<Rightarrow> bool" where
  "keeps_steps m \<longleftrightarrow> (\<forall>s r t. m s = Done r t \<longrightarrow> active t = active s)"

named_theorems keeps_rules

lemma keeps_bind [keeps_rules]:
  assumes "keeps_steps m" and "\<And>x. keeps_steps (f x)"
  shows "keeps_steps (rbind m f)"
  unfolding keeps_steps_def
proof (intro allI impI)
  fix s r t
  assume "rbind m f s = Done r t"
  then obtain x u where "m s = Done x u" and "f x u = Done r t"
    by (auto simp: rbind_def split: run.splits)
  then show "active t = active s"
    using assms by (metis keeps_steps_def)
qed

lemma keeps_ret [keeps_rules]: "keeps_steps (ret x)" and keeps_get [keeps_rules]: "keeps_steps (rget g)"
  by (simp_all add: keeps_steps_def ret_def rget_def)

lemma keeps_seq [keeps_rules]: "keeps_steps m \<Longrightarrow> keeps_steps n \<Longrightarrow> keeps_steps (rseq m n)"
  unfolding rseq_def by (rule keeps_bind)

lemma keeps_map [keeps_rules]: "keeps_steps m \<Longrightarrow> keeps_steps (rmap f m)"
  unfolding rmap_def by (rule keeps_rules | assumption)+

lemma keeps_if [keeps_rules]: "keeps_steps m \<Longrightarrow> keeps_steps n \<Longrightarrow> keeps_steps (if b then m else n)"
  by simp

lemma keeps_push [keeps_rules]: "keeps_steps (push d)"
  by (simp add: keeps_steps_def push_def rmodify_def active_def)

lemma keeps_add [keeps_rules]: "keeps_steps (add_i128 a b)"
  by (auto simp: keeps_steps_def add_i128_def rlift_def split: outcome.splits)

lemma keeps_insert:
  assumes "\<And>n. k \<noteq> ''$SFC_STEP_'' @ n"
  shows "keeps_steps (env_insert k v)"
  using assms by (auto simp: keeps_steps_def env_insert_def rmodify_def active_def)

text \<open>The flags of the actions have other keys.\<close>

lemma keeps_action_flags [keeps_rules]:
  "keeps_steps (env_insert (sfc_action_control_key_stored k) v)"
  "keeps_steps (env_insert (sfc_action_control_key_previous k) v)"
  "keeps_steps (env_insert (sfc_action_control_key_elapsed k) v)"
  by (rule keeps_insert, simp add: sfc_action_control_key_stored_def sfc_action_control_key_previous_def
      sfc_action_control_key_elapsed_def)+

lemma keeps_action_control [keeps_rules]:
  "keeps_steps (sfc_action_stored k)" "keeps_steps (set_sfc_action_stored k b)"
  "keeps_steps (set_sfc_action_elapsed k n)" "keeps_steps (advance_sfc_action_elapsed k)"
  unfolding sfc_action_stored_def set_sfc_action_stored_def advance_sfc_action_elapsed_def
    sfc_action_elapsed_def set_sfc_action_elapsed_def
  by (rule keeps_rules)+

lemma keeps_timed [keeps_rules]: "keeps_steps (timed_executes k inputs)"
proof (cases "List.find (\<lambda>i. ai_active i \<and> requires_duration (ai_qualifier i)) inputs")
  case None
  then show ?thesis
    unfolding timed_executes_def option.case by (simp only: option.case) (rule keeps_rules)+
next
  case (Some i)
  show ?thesis
    unfolding timed_executes_def Some option.case Let_def
    by (cases "ai_qualifier i"; simp only: sfc_action_qualifier.case; (rule keeps_rules)+)
qed

lemma keeps_should_execute [keeps_rules]: "keeps_steps (sfc_action_should_execute k name inputs)"
  unfolding sfc_action_should_execute_def stored_executes_def pulse_executes_def Let_def
  by (rule keeps_rules)+

lemma keeps_actions:
  assumes "\<forall>a \<in> set actions. keeps_steps (c_statements c (action_body a))"
  shows "keeps_steps (execute_sfc_actions c chart steps actions)"
  using assms by (induction actions) (simp_all, (rule keeps_rules | simp)+)

text \<open>What a candidate of a scan is: a transition of the chart whose steps are active and whose
  condition holds.\<close>

definition enabled_from :: "calls \<Rightarrow> sfc \<Rightarrow> string set \<Rightarrow> candidate \<Rightarrow> bool" where
  "enabled_from c chart marking cand \<longleftrightarrow>
     (case cand of (priority, index, from_steps, to_steps) \<Rightarrow>
        index < length (sfc_transitions chart) \<and>
        sfc_transition_steps chart (sfc_transitions chart ! index) index = Some (from_steps, to_steps) \<and>
        step_names from_steps \<subseteq> marking \<and>
        (\<exists>v b w. active v = marking \<and>
          eval_optional c (trans_condition (sfc_transitions chart ! index)) v = Done b w \<and>
          Option.bind b as_bool = Some True))"

lemma step_active_iff: "step_active s step \<longleftrightarrow> canonical step \<in> active s"
  by (simp add: step_active_def active_def sfc_step_key_def)

lemma candidate_enabled:
  assumes "transition_candidate c chart (i, sfc_transitions chart ! i) cands s = Done cands' t"
    and "i < length (sfc_transitions chart)"
    and "keeps_steps (eval_optional c (trans_condition (sfc_transitions chart ! i)))"
    and "\<forall>cand \<in> set cands. enabled_from c chart (active s) cand"
  shows "active t = active s \<and> (\<forall>cand \<in> set cands'. enabled_from c chart (active s) cand)"
proof (cases "sfc_transition_steps chart (sfc_transitions chart ! i) i")
  case None
  then show ?thesis
    using assms by (auto simp: transition_candidate_def ret_def)
next
  case (Some steps)
  then obtain fs ts where steps: "sfc_transition_steps chart (sfc_transitions chart ! i) i = Some (fs, ts)"
    by (cases steps) auto
  show ?thesis
  proof (cases "list_all (step_active s) fs")
    case False
    then show ?thesis
      using assms steps by (auto simp: transition_candidate_def rbind_def rget_def ret_def)
  next
    case True
    then have inside: "step_names fs \<subseteq> active s"
      by (auto simp: step_names_def list_all_iff step_active_iff)
    obtain b w where b: "eval_optional c (trans_condition (sfc_transitions chart ! i)) s = Done b w"
      using assms(1) steps True by (auto simp: transition_candidate_def rbind_def rget_def split: run.splits)
    then have same: "active w = active s"
      using assms(3) by (simp add: keeps_steps_def)
    have result: "t = w" "cands' = (if Option.bind b as_bool = Some True
        then cands @ [(case trans_priority (sfc_transitions chart ! i) of Some n \<Rightarrow> n | None \<Rightarrow> i64_max, i, fs, ts)]
        else cands)"
      using assms(1) steps True b
      by (simp_all add: transition_candidate_def rbind_def rget_def ret_def split: if_splits)
    have "enabled_from c chart (active s) (priority, i, fs, ts)" if "Option.bind b as_bool = Some True" for priority
      unfolding enabled_from_def prod.case using assms(2) steps inside b that by blast
    then show ?thesis
      using assms(4) same result by simp
  qed
qed

lemma candidates_enabled:
  assumes "rfold xs (transition_candidate c chart) cands s = Done cands' t"
    and "\<forall>(i, tr) \<in> set xs. i < length (sfc_transitions chart) \<and> tr = sfc_transitions chart ! i"
    and "\<forall>tr \<in> set (sfc_transitions chart). keeps_steps (eval_optional c (trans_condition tr))"
    and "\<forall>cand \<in> set cands. enabled_from c chart (active s) cand"
  shows "active t = active s \<and> (\<forall>cand \<in> set cands'. enabled_from c chart (active s) cand)"
  using assms
proof (induction xs arbitrary: cands s)
  case (Cons x xs)
  obtain i where x: "x = (i, sfc_transitions chart ! i)" "i < length (sfc_transitions chart)"
    using Cons.prems(2) by (cases x) auto
  obtain found u where one: "transition_candidate c chart x cands s = Done found u"
      and rest: "rfold xs (transition_candidate c chart) found u = Done cands' t"
    using Cons.prems(1) by (auto simp: rbind_def split: run.splits)
  have "active u = active s \<and> (\<forall>cand \<in> set found. enabled_from c chart (active s) cand)"
    using candidate_enabled [OF one [unfolded x(1)] x(2)] Cons.prems(3,4) x(2) by simp
  then show ?case
    using Cons.IH [OF rest] Cons.prems(2,3) by simp
qed (simp add: ret_def)

text \<open>C9: A sequential chart, whose transitions leave one step and enter one step, keeps exactly
  one step active over a whole scan. The token stays, or it moves along a transition of the
  chart that leaves the active step and whose condition was found true while that step was
  active. The bodies of the actions and the conditions may do whatever they like but write step
  flags, whose names no program text can spell.\<close>

theorem single_token:
  assumes sequential: "\<forall>i < length (sfc_transitions chart). \<forall>from_steps to_steps.
      sfc_transition_steps chart (sfc_transitions chart ! i) i = Some (from_steps, to_steps) \<longrightarrow>
      length from_steps = 1 \<and> length to_steps = 1"
    and bodies: "\<forall>a \<in> set (sfc_actions chart). keeps_steps (c_statements c (action_body a))"
    and conditions: "\<forall>tr \<in> set (sfc_transitions chart). keeps_steps (eval_optional c (trans_condition tr))"
    and token: "active s = {x}"
    and scan: "execute_sfc c chart s = Done ctl t"
  shows "\<exists>y. active t = {y} \<and>
    (y = x \<or> (\<exists>priority i a b. enabled_from c chart {x} (priority, i, [a], [b]) \<and>
       canonical a = x \<and> canonical b = y))"
proof -
  obtain ctl' u where actions: "execute_sfc_actions c chart (active_step_names chart s) (sfc_actions chart) s = Done ctl' u"
      and after: "(if ctl' \<noteq> Continue then ret ctl'
         else rbind (rfold (enumerate 0 (sfc_transitions chart)) (transition_candidate c chart) [])
           (\<lambda>candidates. rseq (fire_transitions candidates) (ret Continue))) u = Done ctl t"
    using scan by (auto simp: execute_sfc_def rbind_def rget_def split: run.splits)
  have u: "active u = {x}"
    using keeps_actions [OF bodies] actions token by (auto simp: keeps_steps_def)
  show ?thesis
  proof (cases "ctl' = Continue")
    case False
    then show ?thesis
      using after u by (simp add: ret_def)
  next
    case True
    then obtain cands v where collect: "rfold (enumerate 0 (sfc_transitions chart)) (transition_candidate c chart) [] u = Done cands v"
        and fire: "rseq (fire_transitions cands) (ret Continue) v = Done ctl t"
      using after by (auto simp: rbind_def split: run.splits)
    have places: "\<forall>(i, tr) \<in> set (enumerate 0 (sfc_transitions chart)).
        i < length (sfc_transitions chart) \<and> tr = sfc_transitions chart ! i"
      by (auto simp: in_set_enumerate_eq)
    have v: "active v = {x}" and enabled: "\<forall>cand \<in> set cands. enabled_from c chart {x} cand"
      using candidates_enabled [OF collect places conditions] u by simp_all
    have single: "\<exists>priority i a b. cand = (priority, i, [a], [b]) \<and> canonical a = x" if "cand \<in> set cands" for cand
    proof -
      obtain priority i fs ts where cand: "cand = (priority, i, fs, ts)"
        by (cases cand)
      have "enabled_from c chart {x} (priority, i, fs, ts)"
        using enabled that cand by blast
      then have "i < length (sfc_transitions chart)"
          "sfc_transition_steps chart (sfc_transitions chart ! i) i = Some (fs, ts)" "step_names fs \<subseteq> {x}"
        by (simp_all add: enabled_from_def)
      moreover obtain a b where "fs = [a]" "ts = [b]"
        using sequential calculation by (metis One_nat_def length_0_conv length_Suc_conv)
      ultimately show ?thesis
        using cand by (simp add: step_names_def)
    qed
    then have leave: "leaving cand = {x}" if "cand \<in> set cands" for cand
      using that by (fastforce simp: leaving_def step_names_def)
    obtain t' where "fire_transitions cands v = Done () t'" "active t' = fold move (chosen (by_rank cands) {}) (active v)"
      by (rule fire_moves)
    then have moved: "active t = fold move (chosen (by_rank cands) {}) {x}"
      using fire v by (simp add: rseq_def rbind_def ret_def)
    show ?thesis
    proof (cases "by_rank cands")
      case Nil
      then show ?thesis
        using moved by simp
    next
      case (Cons cand rest)
      have mem: "cand \<in> set cands" "set rest \<subseteq> set cands"
        using set_by_rank [of cands] Cons by auto
      have "chosen rest {x} = []"
        using mem(2) leave by (induction rest) auto
      moreover obtain priority i a b where cand: "cand = (priority, i, [a], [b])" "canonical a = x"
        using single [OF mem(1)] by blast
      ultimately have "active t = {canonical b}"
        using moved Cons leave [OF mem(1)] by (simp add: move_def entering_def step_names_def)
      then show ?thesis
        using enabled mem(1) cand by blast
    qed
  qed
qed

text \<open>A chart of two steps and a transition that is always true.\<close>

definition demo_chart :: sfc where
  "demo_chart = \<lparr> sfc_steps =
       [\<lparr> step_name = ident_new ''A'', step_initial = True, step_kind = PlainStep, step_actions = [] \<rparr>,
        \<lparr> step_name = ident_new ''B'', step_initial = False, step_kind = PlainStep, step_actions = [] \<rparr>],
     sfc_transitions =
       [\<lparr> trans_name = None, trans_from = [ident_new ''A''], trans_to = [ident_new ''B''],
          trans_condition = Some (LiteralE (LBool True)), trans_priority = None \<rparr>],
     sfc_actions = [] \<rparr>"

theorem single_token_witness:
  "\<exists>t y. execute_sfc (interp 2) demo_chart
       ((demo_runtime [])\<lparr>rt_env := [(''$SFC_STEP_A'', VBool True)]\<rparr>) = Done Continue t \<and> active t = {y}"
proof -
  let ?s = "(demo_runtime [])\<lparr>rt_env := [(''$SFC_STEP_A'', VBool True)]\<rparr>"
  have run: "case execute_sfc (interp 2) demo_chart ?s of Done ctl t \<Rightarrow> ctl = Continue | _ \<Rightarrow> False"
    by code_simp
  then obtain t where t: "execute_sfc (interp 2) demo_chart ?s = Done Continue t"
    by (auto split: run.splits)
  have keeps: "keeps_steps (c_eval (interp 2) (LiteralE (LBool True)))"
    by (simp add: keeps_steps_def numeral_2_eq_2 eval_expr_def literal_to_value_def rlift_def)
  have "active ?s = {''A''}"
    by (auto simp: active_def as_bool_def split: if_splits)
  then show ?thesis
    using single_token [OF _ _ _ _ t, of "''A''"] t keeps
    by (auto simp: demo_chart_def sfc_transition_steps_def eval_optional_def)
qed

end
