(* ===== verification/RtEnds.thy ===== *)
theory RtEnds
  imports RtSfcLaws
begin

text \<open>
  When an operation of the interpreter ends: \<open>ends A F\<close> says that from every state in \<open>A\<close>
  some fuel is enough for \<open>F\<close>, an operation over the recursive calls. Because more fuel never
  changes a result, the fuels of the parts of an operation add up to a fuel for the whole,
  and a loop that is bounded ends when its body does.
\<close>

named_theorems ends_rules \<open>operations that end when their parts do\<close>

section \<open>Ending\<close>

text \<open>The states of one activation: project, program and call depth never change in it.\<close>

definition here :: "project \<Rightarrow> pou \<Rightarrow> nat \<Rightarrow> runtime \<Rightarrow> bool" where
  "here p u k s \<longleftrightarrow> rt_project s = p \<and> rt_program s = u \<and> rt_call_depth s = k"

lemma here_extends: "extends s t \<Longrightarrow> here p u k s \<Longrightarrow> here p u k t"
  by (simp add: here_def extends_def)

definition monotone_calls :: "(calls \<Rightarrow> 'a rt) \<Rightarrow> bool" where
  "monotone_calls F \<longleftrightarrow> (\<forall>c d. follows_calls c d \<longrightarrow> follows (F c) (F d))"

definition activation :: "(runtime \<Rightarrow> bool) \<Rightarrow> bool" where
  "activation A \<longleftrightarrow> (\<forall>s t. extends s t \<longrightarrow> A s \<longrightarrow> A t)"

lemma here_activation: "activation (here p u k)"
  unfolding activation_def using here_extends by blast

definition ends :: "(runtime \<Rightarrow> bool) \<Rightarrow> (calls \<Rightarrow> 'a rt) \<Rightarrow> bool" where
  "ends A F \<longleftrightarrow> activation A \<and> monotone_calls F \<and> (\<forall>s. A s \<longrightarrow> (\<exists>n. F (interp n) s \<noteq> NoFuel))"

lemma more_fuel:
  assumes "monotone_calls F" and "F (interp m) s \<noteq> NoFuel" and "m \<le> n"
  shows "F (interp n) s = F (interp m) s"
proof -
  have "follows (F (interp m)) (F (interp n))"
    using assms(1) follows_interp [OF assms(3)] by (simp add: monotone_calls_def)
  then show ?thesis
    using followsD [of "F (interp m)" "F (interp n)" s] assms(2) by auto
qed

lemma ends_extends:
  assumes "monotone_calls F" and "F (interp n) s = Done x t"
  shows "extends s t"
proof -
  have "follows (F (interp n)) (F (interp n))"
    using assms(1) same_fuel [of n] unfolding monotone_calls_def by blast
  then show ?thesis
    using assms(2) by (rule follows_extends)
qed

lemma endsI:
  "activation A \<Longrightarrow> (\<And>c d. follows_calls c d \<Longrightarrow> follows (F c) (F d)) \<Longrightarrow>
   (\<And>s. A s \<Longrightarrow> \<exists>n. F (interp n) s \<noteq> NoFuel) \<Longrightarrow> ends A F"
  by (auto simp: ends_def monotone_calls_def)

lemma ends_bind:
  assumes F: "ends A F"
    and G: "\<And>n s x t. A s \<Longrightarrow> F (interp n) s = Done x t \<Longrightarrow> ends A (\<lambda>c. G c x)"
    and mono: "\<And>x. monotone_calls (\<lambda>c. G c x)"
  shows "ends A (\<lambda>c. rbind (F c) (G c))"
proof (rule endsI)
  show "activation A"
    using F by (simp add: ends_def)
next
  fix c d assume "follows_calls c d"
  then show "follows (rbind (F c) (G c)) (rbind (F d) (G d))"
    using F mono by (intro follows_bind) (auto simp: ends_def monotone_calls_def)
next
  fix s assume A: "A s"
  have monoF: "monotone_calls F"
    using F by (simp add: ends_def)
  obtain m where m: "F (interp m) s \<noteq> NoFuel"
    using F A by (auto simp: ends_def)
  show "\<exists>n. rbind (F (interp n)) (G (interp n)) s \<noteq> NoFuel"
  proof (cases "F (interp m) s")
    case (Done x t)
    have "A t"
      using F A ends_extends [OF monoF Done] by (auto simp: ends_def activation_def)
    then obtain n where n: "G (interp n) x t \<noteq> NoFuel"
      using G [OF A Done] by (auto simp: ends_def)
    have "F (interp (max m n)) s = Done x t"
      using more_fuel [OF monoF m, of "max m n"] Done by simp
    moreover have "G (interp (max m n)) x t = G (interp n) x t"
      using more_fuel [OF mono n, of "max m n"] by simp
    ultimately have "rbind (F (interp (max m n))) (G (interp (max m n))) s \<noteq> NoFuel"
      using n by (simp add: rbind_def)
    then show ?thesis by blast
  qed (use m in \<open>auto simp: rbind_def intro: exI [of _ m]\<close>)
qed

lemma ends_mono: "ends A F \<Longrightarrow> monotone_calls F"
  by (simp add: ends_def)

lemma monotone_callsI:
  "(\<And>c d. follows_calls c d \<Longrightarrow> follows (F c) (F d)) \<Longrightarrow> monotone_calls F"
  by (simp add: monotone_calls_def)

section \<open>Parts\<close>

text \<open>A step that ends in every state, whatever the calls are.\<close>

lemma ends_step:
  assumes "activation A" and "follows m m" and "\<And>s. m s \<noteq> NoFuel"
  shows "ends A (\<lambda>_. m)"
  using assms by (auto intro: endsI)

lemma ends_all [ends_rules]:
  "ends A F \<Longrightarrow> (\<And>x. ends A (\<lambda>c. G c x)) \<Longrightarrow> ends A (\<lambda>c. rbind (F c) (G c))"
  by (rule ends_bind) (auto dest: ends_mono)

lemma ends_seq [ends_rules]: "ends A F \<Longrightarrow> ends A G \<Longrightarrow> ends A (\<lambda>c. rseq (F c) (G c))"
  unfolding rseq_def by (rule ends_all)

lemma ends_ret [ends_rules]: "activation A \<Longrightarrow> ends A (\<lambda>_. ret x)"
  by (rule ends_step) (simp_all add: follows_rules ret_def)

lemma ends_activation: "ends A F \<Longrightarrow> activation A"
  by (simp add: ends_def)

lemma ends_map [ends_rules]: "ends A F \<Longrightarrow> ends A (\<lambda>c. rmap f (F c))"
  unfolding rmap_def by (rule ends_all, assumption, rule ends_ret, erule ends_activation)

lemma ends_get [ends_rules]: "activation A \<Longrightarrow> ends A (\<lambda>_. rget f)"
  by (rule ends_step) (simp_all add: follows_rules rget_def)

lemma ends_lift [ends_rules]: "activation A \<Longrightarrow> ends A (\<lambda>_ s. rlift (r s) s)"
  by (rule ends_step [OF _ follows_lift]) (auto simp: rlift_def split: outcome.splits)

text \<open>What is read from the state is what a state of the activation holds.\<close>

lemma ends_bind_get:
  assumes "activation A" and "\<And>s. A s \<Longrightarrow> ends A (\<lambda>c. G c (f s))" and "\<And>x. monotone_calls (\<lambda>c. G c x)"
  shows "ends A (\<lambda>c. rbind (rget f) (G c))"
proof (rule ends_bind)
  show "ends A (\<lambda>c. rget f)"
    using assms(1) by (rule ends_get)
  show "ends A (\<lambda>c. G c x)" if "A s" "rget f s = Done x t" for n :: nat and s x t
    using assms(2) [OF that(1)] that(2) unfolding rget_def run.inject by blast
qed (rule assms(3))

lemma ends_case_option [ends_rules]:
  "(x = None \<Longrightarrow> ends A F) \<Longrightarrow> (\<And>y. x = Some y \<Longrightarrow> ends A (\<lambda>c. G c y)) \<Longrightarrow>
   ends A (\<lambda>c. case x of None \<Rightarrow> F c | Some y \<Rightarrow> G c y)"
  by (cases x) auto

lemma ends_if [ends_rules]:
  "(b \<Longrightarrow> ends A F) \<Longrightarrow> (\<not> b \<Longrightarrow> ends A G) \<Longrightarrow> ends A (\<lambda>c. if b then F c else G c)"
  by (cases b) simp_all

lemma ends_case_prod [ends_rules]:
  "(\<And>a b. x = (a, b) \<Longrightarrow> ends A (\<lambda>c. G c a b)) \<Longrightarrow> ends A (\<lambda>c. case_prod (G c) x)"
  by (cases x) auto

lemma ends_case_list [ends_rules]:
  "(xs = [] \<Longrightarrow> ends A F) \<Longrightarrow> (\<And>y ys. xs = y # ys \<Longrightarrow> ends A (\<lambda>c. G c y ys)) \<Longrightarrow>
   ends A (\<lambda>c. case xs of [] \<Rightarrow> F c | y # ys \<Rightarrow> G c y ys)"
  by (cases xs) auto

lemma ends_case_sum [ends_rules]:
  "(\<And>a. x = Inl a \<Longrightarrow> ends A (\<lambda>c. F c a)) \<Longrightarrow> (\<And>b. x = Inr b \<Longrightarrow> ends A (\<lambda>c. G c b)) \<Longrightarrow>
   ends A (\<lambda>c. case_sum (F c) (G c) x)"
  by (cases x) auto

lemma ends_try [ends_rules]:
  "ends A F \<Longrightarrow> (\<And>x. ends A (\<lambda>c. G c x)) \<Longrightarrow> ends A (\<lambda>c. rtry (F c) (G c))"
  unfolding rtry_def by (rule ends_rules | assumption | erule ends_activation)+

lemma ends_try_opt [ends_rules]:
  "activation A \<Longrightarrow> (\<And>y. x = Some y \<Longrightarrow> ends A (\<lambda>c. G c y)) \<Longrightarrow> ends A (\<lambda>c. rtry_opt x (G c))"
  unfolding rtry_opt_def by (rule ends_rules | assumption)+

lemma ends_for [ends_rules]:
  "activation A \<Longrightarrow> (\<And>x. x \<in> set xs \<Longrightarrow> ends A (\<lambda>c. F c x)) \<Longrightarrow> ends A (\<lambda>c. rfor xs (F c))"
  by (induction xs) (auto intro!: ends_rules)

lemma ends_fold [ends_rules]:
  "activation A \<Longrightarrow> (\<And>x a. x \<in> set xs \<Longrightarrow> ends A (\<lambda>c. F c x a)) \<Longrightarrow> ends A (\<lambda>c. rfold xs (F c) acc)"
  by (induction xs arbitrary: acc) (auto intro!: ends_rules)

lemma ends_repeat [ends_rules]: "ends A F \<Longrightarrow> ends A (\<lambda>c. repeat_value n (F c))"
  by (induction n) (auto intro!: ends_rules dest: ends_activation)

lemma ends_case_bool [ends_rules]:
  "(x = True \<Longrightarrow> ends A F0) \<Longrightarrow> 
   (x = False \<Longrightarrow> ends A F1) \<Longrightarrow>
   ends A (\<lambda>c. case x of True \<Rightarrow> F0 c | False \<Rightarrow> F1 c)"
  by (cases x) auto

lemma ends_case_val [ends_rules]:
  "(\<And>x0. x = VBool x0 \<Longrightarrow> ends A (\<lambda>c. F0 c x0)) \<Longrightarrow> 
   (\<And>x0. x = VInt x0 \<Longrightarrow> ends A (\<lambda>c. F1 c x0)) \<Longrightarrow> 
   (\<And>x0. x = VReal x0 \<Longrightarrow> ends A (\<lambda>c. F2 c x0)) \<Longrightarrow> 
   (\<And>x0. x = VString x0 \<Longrightarrow> ends A (\<lambda>c. F3 c x0)) \<Longrightarrow> 
   (\<And>x0. x = VWString x0 \<Longrightarrow> ends A (\<lambda>c. F4 c x0)) \<Longrightarrow> 
   (\<And>x0. x = VTimeMs x0 \<Longrightarrow> ends A (\<lambda>c. F5 c x0)) \<Longrightarrow> 
   (\<And>x0. x = VArray x0 \<Longrightarrow> ends A (\<lambda>c. F6 c x0)) \<Longrightarrow> 
   (\<And>x0. x = VStruct x0 \<Longrightarrow> ends A (\<lambda>c. F7 c x0)) \<Longrightarrow> 
   (x = VUnit \<Longrightarrow> ends A F8) \<Longrightarrow>
   ends A (\<lambda>c. case x of VBool x0 \<Rightarrow> F0 c x0 | VInt x0 \<Rightarrow> F1 c x0 | 
     VReal x0 \<Rightarrow> F2 c x0 | VString x0 \<Rightarrow> F3 c x0 | 
     VWString x0 \<Rightarrow> F4 c x0 | VTimeMs x0 \<Rightarrow> F5 c x0 | 
     VArray x0 \<Rightarrow> F6 c x0 | VStruct x0 \<Rightarrow> F7 c x0 | 
     VUnit \<Rightarrow> F8 c)"
  by (cases x) auto

lemma ends_case_spec [ends_rules]:
  "(\<And>x0. x = DtElementary x0 \<Longrightarrow> ends A (\<lambda>c. F0 c x0)) \<Longrightarrow> 
   (\<And>x0. x = DtNamed x0 \<Longrightarrow> ends A (\<lambda>c. F1 c x0)) \<Longrightarrow> 
   (\<And>x0 x1. x = DtArray x0 x1 \<Longrightarrow> ends A (\<lambda>c. F2 c x0 x1)) \<Longrightarrow> 
   (\<And>x0. x = DtStruct x0 \<Longrightarrow> ends A (\<lambda>c. F3 c x0)) \<Longrightarrow> 
   (\<And>x0. x = DtEnum x0 \<Longrightarrow> ends A (\<lambda>c. F4 c x0)) \<Longrightarrow> 
   (\<And>x0 x1. x = DtSubrange x0 x1 \<Longrightarrow> ends A (\<lambda>c. F5 c x0 x1)) \<Longrightarrow> 
   (\<And>x0 x1. x = DtString x0 x1 \<Longrightarrow> ends A (\<lambda>c. F6 c x0 x1)) \<Longrightarrow>
   ends A (\<lambda>c. case x of DtElementary x0 \<Rightarrow> F0 c x0 | DtNamed x0 \<Rightarrow> F1 c x0 | 
     DtArray x0 x1 \<Rightarrow> F2 c x0 x1 | DtStruct x0 \<Rightarrow> F3 c x0 | 
     DtEnum x0 \<Rightarrow> F4 c x0 | DtSubrange x0 x1 \<Rightarrow> F5 c x0 x1 | 
     DtString x0 x1 \<Rightarrow> F6 c x0 x1)"
  by (cases x) auto

lemma ends_case_expr [ends_rules]:
  "(\<And>x0. x = LiteralE x0 \<Longrightarrow> ends A (\<lambda>c. F0 c x0)) \<Longrightarrow> 
   (\<And>x0. x = VariableE x0 \<Longrightarrow> ends A (\<lambda>c. F1 c x0)) \<Longrightarrow> 
   (\<And>x0 x1. x = UnaryE x0 x1 \<Longrightarrow> ends A (\<lambda>c. F2 c x0 x1)) \<Longrightarrow> 
   (\<And>x0 x1 x2. x = BinaryE x0 x1 x2 \<Longrightarrow> ends A (\<lambda>c. F3 c x0 x1 x2)) \<Longrightarrow> 
   (\<And>x0 x1. x = CallE x0 x1 \<Longrightarrow> ends A (\<lambda>c. F4 c x0 x1)) \<Longrightarrow> 
   (\<And>x0. x = ArrayLiteralE x0 \<Longrightarrow> ends A (\<lambda>c. F5 c x0)) \<Longrightarrow> 
   (\<And>x0. x = StructLiteralE x0 \<Longrightarrow> ends A (\<lambda>c. F6 c x0)) \<Longrightarrow>
   ends A (\<lambda>c. case x of LiteralE x0 \<Rightarrow> F0 c x0 | VariableE x0 \<Rightarrow> F1 c x0 | 
     UnaryE x0 x1 \<Rightarrow> F2 c x0 x1 | BinaryE x0 x1 x2 \<Rightarrow> F3 c x0 x1 x2 | 
     CallE x0 x1 \<Rightarrow> F4 c x0 x1 | ArrayLiteralE x0 \<Rightarrow> F5 c x0 | 
     StructLiteralE x0 \<Rightarrow> F6 c x0)"
  by (cases x) auto

lemma ends_case_statement [ends_rules]:
  "(x = EmptyS \<Longrightarrow> ends A F0) \<Longrightarrow> 
   (\<And>x0 x1. x = AssignmentS x0 x1 \<Longrightarrow> ends A (\<lambda>c. F1 c x0 x1)) \<Longrightarrow> 
   (\<And>x0 x1. x = FbCallS x0 x1 \<Longrightarrow> ends A (\<lambda>c. F2 c x0 x1)) \<Longrightarrow> 
   (\<And>x0 x1. x = IfS x0 x1 \<Longrightarrow> ends A (\<lambda>c. F3 c x0 x1)) \<Longrightarrow> 
   (\<And>x0 x1 x2. x = CaseS x0 x1 x2 \<Longrightarrow> ends A (\<lambda>c. F4 c x0 x1 x2)) \<Longrightarrow> 
   (\<And>x0 x1 x2 x3 x4. x = ForS x0 x1 x2 x3 x4 \<Longrightarrow> ends A (\<lambda>c. F5 c x0 x1 x2 x3 x4)) \<Longrightarrow> 
   (\<And>x0 x1. x = WhileS x0 x1 \<Longrightarrow> ends A (\<lambda>c. F6 c x0 x1)) \<Longrightarrow> 
   (\<And>x0 x1. x = RepeatS x0 x1 \<Longrightarrow> ends A (\<lambda>c. F7 c x0 x1)) \<Longrightarrow> 
   (\<And>x0 x1. x = IlInstrS x0 x1 \<Longrightarrow> ends A (\<lambda>c. F8 c x0 x1)) \<Longrightarrow> 
   (\<And>x0. x = IlLabelS x0 \<Longrightarrow> ends A (\<lambda>c. F9 c x0)) \<Longrightarrow> 
   (x = ExitS \<Longrightarrow> ends A F10) \<Longrightarrow> 
   (x = ReturnS \<Longrightarrow> ends A F11) \<Longrightarrow> 
   (\<And>x0. x = UnsupportedS x0 \<Longrightarrow> ends A (\<lambda>c. F12 c x0)) \<Longrightarrow>
   ends A (\<lambda>c. case x of EmptyS \<Rightarrow> F0 c | AssignmentS x0 x1 \<Rightarrow> F1 c x0 x1 | 
     FbCallS x0 x1 \<Rightarrow> F2 c x0 x1 | IfS x0 x1 \<Rightarrow> F3 c x0 x1 | 
     CaseS x0 x1 x2 \<Rightarrow> F4 c x0 x1 x2 | 
     ForS x0 x1 x2 x3 x4 \<Rightarrow> F5 c x0 x1 x2 x3 x4 | 
     WhileS x0 x1 \<Rightarrow> F6 c x0 x1 | RepeatS x0 x1 \<Rightarrow> F7 c x0 x1 | 
     IlInstrS x0 x1 \<Rightarrow> F8 c x0 x1 | IlLabelS x0 \<Rightarrow> F9 c x0 | 
     ExitS \<Rightarrow> F10 c | ReturnS \<Rightarrow> F11 c | 
     UnsupportedS x0 \<Rightarrow> F12 c x0)"
  by (cases x) auto

lemma ends_case_control [ends_rules]:
  "(x = Continue \<Longrightarrow> ends A F0) \<Longrightarrow> 
   (x = Exit \<Longrightarrow> ends A F1) \<Longrightarrow> 
   (x = Return \<Longrightarrow> ends A F2) \<Longrightarrow> 
   (\<And>x0. x = Jump x0 \<Longrightarrow> ends A (\<lambda>c. F3 c x0)) \<Longrightarrow>
   ends A (\<lambda>c. case x of Continue \<Rightarrow> F0 c | Exit \<Rightarrow> F1 c | Return \<Rightarrow> F2 c | 
     Jump x0 \<Rightarrow> F3 c x0)"
  by (cases x) auto

lemma ends_case_unary [ends_rules]:
  "(x = OpNeg \<Longrightarrow> ends A F0) \<Longrightarrow> 
   (x = OpNot \<Longrightarrow> ends A F1) \<Longrightarrow>
   ends A (\<lambda>c. case x of OpNeg \<Rightarrow> F0 c | OpNot \<Rightarrow> F1 c)"
  by (cases x) auto

lemma ends_case_binary [ends_rules]:
  "(x = OpOr \<Longrightarrow> ends A F0) \<Longrightarrow> 
   (x = OpXor \<Longrightarrow> ends A F1) \<Longrightarrow> 
   (x = OpAnd \<Longrightarrow> ends A F2) \<Longrightarrow> 
   (x = OpEqual \<Longrightarrow> ends A F3) \<Longrightarrow> 
   (x = OpNotEqual \<Longrightarrow> ends A F4) \<Longrightarrow> 
   (x = OpLess \<Longrightarrow> ends A F5) \<Longrightarrow> 
   (x = OpLessEqual \<Longrightarrow> ends A F6) \<Longrightarrow> 
   (x = OpGreater \<Longrightarrow> ends A F7) \<Longrightarrow> 
   (x = OpGreaterEqual \<Longrightarrow> ends A F8) \<Longrightarrow> 
   (x = OpAdd \<Longrightarrow> ends A F9) \<Longrightarrow> 
   (x = OpSub \<Longrightarrow> ends A F10) \<Longrightarrow> 
   (x = OpMul \<Longrightarrow> ends A F11) \<Longrightarrow> 
   (x = OpDiv \<Longrightarrow> ends A F12) \<Longrightarrow> 
   (x = OpMod \<Longrightarrow> ends A F13) \<Longrightarrow> 
   (x = OpPower \<Longrightarrow> ends A F14) \<Longrightarrow>
   ends A (\<lambda>c. case x of OpOr \<Rightarrow> F0 c | OpXor \<Rightarrow> F1 c | OpAnd \<Rightarrow> F2 c | 
     OpEqual \<Rightarrow> F3 c | OpNotEqual \<Rightarrow> F4 c | OpLess \<Rightarrow> F5 c | 
     OpLessEqual \<Rightarrow> F6 c | OpGreater \<Rightarrow> F7 c | 
     OpGreaterEqual \<Rightarrow> F8 c | OpAdd \<Rightarrow> F9 c | OpSub \<Rightarrow> F10 c | 
     OpMul \<Rightarrow> F11 c | OpDiv \<Rightarrow> F12 c | OpMod \<Rightarrow> F13 c | 
     OpPower \<Rightarrow> F14 c)"
  by (cases x) auto

lemma ends_case_qualifier [ends_rules]:
  "(x = NonStored \<Longrightarrow> ends A F0) \<Longrightarrow> 
   (x = SetStored \<Longrightarrow> ends A F1) \<Longrightarrow> 
   (x = ResetStored \<Longrightarrow> ends A F2) \<Longrightarrow> 
   (x = Pulse \<Longrightarrow> ends A F3) \<Longrightarrow> 
   (x = PulseFalling \<Longrightarrow> ends A F4) \<Longrightarrow> 
   (x = TimeLimited \<Longrightarrow> ends A F5) \<Longrightarrow> 
   (x = TimeDelayed \<Longrightarrow> ends A F6) \<Longrightarrow> 
   (x = StoredDelayed \<Longrightarrow> ends A F7) \<Longrightarrow> 
   (x = DelayedStored \<Longrightarrow> ends A F8) \<Longrightarrow> 
   (x = StoredLimited \<Longrightarrow> ends A F9) \<Longrightarrow>
   ends A (\<lambda>c. case x of NonStored \<Rightarrow> F0 c | SetStored \<Rightarrow> F1 c | 
     ResetStored \<Rightarrow> F2 c | Pulse \<Rightarrow> F3 c | 
     PulseFalling \<Rightarrow> F4 c | TimeLimited \<Rightarrow> F5 c | 
     TimeDelayed \<Rightarrow> F6 c | StoredDelayed \<Rightarrow> F7 c | 
     DelayedStored \<Rightarrow> F8 c | StoredLimited \<Rightarrow> F9 c)"
  by (cases x) auto

lemma ends_case_label [ends_rules]:
  "(\<And>x0. x = SingleLabel x0 \<Longrightarrow> ends A (\<lambda>c. F0 c x0)) \<Longrightarrow> 
   (\<And>x0 x1. x = RangeLabel x0 x1 \<Longrightarrow> ends A (\<lambda>c. F1 c x0 x1)) \<Longrightarrow>
   ends A (\<lambda>c. case x of SingleLabel x0 \<Rightarrow> F0 c x0 | RangeLabel x0 x1 \<Rightarrow> F1 c x0 x1)"
  by (cases x) auto

lemma ends_case_pou_kind [ends_rules]:
  "(\<And>x0. x = FunctionKind x0 \<Longrightarrow> ends A (\<lambda>c. F0 c x0)) \<Longrightarrow> 
   (x = FunctionBlockKind \<Longrightarrow> ends A F1) \<Longrightarrow> 
   (x = ProgramKind \<Longrightarrow> ends A F2) \<Longrightarrow>
   ends A (\<lambda>c. case x of FunctionKind x0 \<Rightarrow> F0 c x0 | FunctionBlockKind \<Rightarrow> F1 c | 
     ProgramKind \<Rightarrow> F2 c)"
  by (cases x) auto

section \<open>One level deeper\<close>

lemma ends_deeper:
  assumes "ends A F" and "monotone_calls G" and "\<And>c. G (deeper c) = F c"
  shows "ends A G"
proof -
  have "\<exists>n. G (interp n) s \<noteq> NoFuel" if "A s" for s
  proof -
    obtain n where "F (interp n) s \<noteq> NoFuel"
      using assms(1) \<open>A s\<close> by (auto simp: ends_def)
    then have "G (interp (Suc n)) s \<noteq> NoFuel"
      by (simp add: assms(3))
    then show ?thesis by blast
  qed
  then show ?thesis
    using assms(1,2) by (simp add: ends_def)
qed

lemma ends_calls:
  "ends A (\<lambda>c. eval_expr c e) \<Longrightarrow> ends A (\<lambda>c. c_eval c e)"
  "ends A (\<lambda>c. execute_statement_list c b) \<Longrightarrow> ends A (\<lambda>c. c_statements c b)"
  "ends A (\<lambda>c. execute_block c b) \<Longrightarrow> ends A (\<lambda>c. c_block c b)"
  "ends A (\<lambda>c. initial_value_for_spec c t i) \<Longrightarrow> ends A (\<lambda>c. c_initial c t i)"
  "ends A (\<lambda>c. default_value c t) \<Longrightarrow> ends A (\<lambda>c. c_default c t)"
  "ends A (\<lambda>c. apply_indices_loop c v t es) \<Longrightarrow> ends A (\<lambda>c. c_indices c v t es)"
  "ends A (\<lambda>c. assign_into_value c v t r n x) \<Longrightarrow> ends A (\<lambda>c. c_assign_into c v t r n x)"
  "ends A (\<lambda>c. assign_into_indexed_value c v t es r n x) \<Longrightarrow> ends A (\<lambda>c. c_assign_indexed c v t es r n x)"
  "ends A (\<lambda>c. constrain_value c t v) \<Longrightarrow> ends A (\<lambda>c. c_constrain c t v)"
  by (erule ends_deeper, rule monotone_callsI, rule follows_callsD, assumption, simp)+

section \<open>Small steps, blocks and operators\<close>

lemma ends_steps [ends_rules]:
  "activation A \<Longrightarrow> ends A (\<lambda>_. push d)" "activation A \<Longrightarrow> ends A (\<lambda>_. env_insert k v)"
  "activation A \<Longrightarrow> ends A (\<lambda>_. types_insert k t)" "activation A \<Longrightarrow> ends A (\<lambda>_. set_accumulator v)"
  "activation A \<Longrightarrow> ends A (\<lambda>_. extend_diagnostics ds)"
  by (rule ends_step; (rule follows_rules | simp add: push_def env_insert_def types_insert_def
      set_accumulator_def extend_diagnostics_def rmodify_def))+

lemma ends_empty:
  "activation A \<Longrightarrow> ends A (\<lambda>_. rmodify (\<lambda>s. s\<lparr>rt_env := [], rt_types := []\<rparr>))"
  by (rule ends_step [OF _ follows_empty]) (simp_all add: rmodify_def)

lemma ends_arithmetic [ends_rules]:
  "activation A \<Longrightarrow> ends A (\<lambda>_. add_i64 a b)"
  "activation A \<Longrightarrow> ends A (\<lambda>_. add_i128 a b)"
  "activation A \<Longrightarrow> ends A (\<lambda>_. add_usize m n)"
  "activation A \<Longrightarrow> ends A (\<lambda>_. mul_usize m n)"
  "activation A \<Longrightarrow> ends A (\<lambda>_. extent_of r)"
  "activation A \<Longrightarrow> ends A (\<lambda>_. element_count ranges)"
  unfolding add_i64_def [abs_def] add_i128_def [abs_def] add_usize_def [abs_def]
    mul_usize_def [abs_def] extent_of_def [abs_def] element_count_def [abs_def]
  by (rule ends_rules | assumption)+

lemma ends_fields [ends_rules]:
  "activation A \<Longrightarrow> ends A (\<lambda>_. set_field inst f v)"
  "activation A \<Longrightarrow> ends A (\<lambda>_. get_field_bool inst f)"
  "activation A \<Longrightarrow> ends A (\<lambda>_. get_field_i64 inst f)"
  "activation A \<Longrightarrow> ends A (\<lambda>_. get_field_time_ms inst f)"
  "activation A \<Longrightarrow> ends A (\<lambda>_. env_get k)"
  "activation A \<Longrightarrow> ends A (\<lambda>_. resolve_named_spec t)"
  "activation A \<Longrightarrow> ends A (\<lambda>_. push_overflow msg)"
  unfolding set_field_def get_field_bool_def get_field_i64_def get_field_time_ms_def env_get_def
    resolve_named_spec_def push_overflow_def
  by (rule ends_rules | assumption)+

lemma ends_advance [ends_rules]:
  "activation A \<Longrightarrow> ends A (\<lambda>_. advance_elapsed inst n)"
  unfolding advance_elapsed_def
  by (rule ends_rules | assumption)+

lemma ends_blocks [ends_rules]:
  "activation A \<Longrightarrow> ends A (\<lambda>_. execute_sr inst i)"
  "activation A \<Longrightarrow> ends A (\<lambda>_. execute_rs inst i)"
  "activation A \<Longrightarrow> ends A (\<lambda>_. execute_r_trig inst i)"
  "activation A \<Longrightarrow> ends A (\<lambda>_. execute_f_trig inst i)"
  "activation A \<Longrightarrow> ends A (\<lambda>_. execute_ctu inst i)"
  "activation A \<Longrightarrow> ends A (\<lambda>_. execute_ctd inst i)"
  "activation A \<Longrightarrow> ends A (\<lambda>_. execute_ctud inst i)"
  "activation A \<Longrightarrow> ends A (\<lambda>_. execute_ton inst i)"
  "activation A \<Longrightarrow> ends A (\<lambda>_. execute_tof inst i)"
  "activation A \<Longrightarrow> ends A (\<lambda>_. execute_tp inst i)"
  unfolding execute_sr_def execute_rs_def execute_r_trig_def execute_f_trig_def execute_ctu_def
    execute_ctd_def execute_ctud_def execute_ton_def execute_tof_def execute_tp_def Let_def
  by (rule ends_rules | assumption)+

lemma ends_communication [ends_rules]:
  "activation A \<Longrightarrow> ends A (\<lambda>_. execute_communication_function_block inst n i)"
  "activation A \<Longrightarrow> ends A (\<lambda>_. initialize_communication_function_block_fields inst)"
  unfolding execute_communication_function_block_def initialize_communication_function_block_fields_def
  by (rule ends_rules | assumption)+

lemma ends_named_block: "activation A \<Longrightarrow> execute_named_block n inst i = Some m \<Longrightarrow> ends A (\<lambda>_. m)"
  unfolding execute_named_block_def by (auto intro: ends_rules split: if_splits)

lemma ends_initial_block: "activation A \<Longrightarrow> initialize_named_block inst n = Some m \<Longrightarrow> ends A (\<lambda>_. m)"
  unfolding initialize_named_block_def Let_def by (auto intro!: ends_rules split: if_splits)

lemma ends_operators [ends_rules]:
  "activation A \<Longrightarrow> ends A (\<lambda>_. checked_or_overflow msg r)"
  "activation A \<Longrightarrow> ends A (\<lambda>_. numeric_binary a b msg f g)"
  "activation A \<Longrightarrow> ends A (\<lambda>_. time_or_numeric_binary a b msg h f g)"
  "activation A \<Longrightarrow> ends A (\<lambda>_. eval_binary binop a b)"
  "activation A \<Longrightarrow> ends A (\<lambda>_. eval_unary unop a)"
  "activation A \<Longrightarrow> ends A (\<lambda>_. apply_to_accumulator binop a)"
  unfolding apply_to_accumulator_def eval_binary_def eval_unary_def time_or_numeric_binary_def
    numeric_binary_def checked_or_overflow_def
  by (rule ends_rules | assumption)+

lemma ends_reports [ends_rules]:
  "activation A \<Longrightarrow> ends A (\<lambda>_. range_report v a b kind)"
  "activation A \<Longrightarrow> ends A (\<lambda>_. report_control ctl)"
  unfolding range_report_def report_control_def
  by (rule ends_rules | assumption)+

section \<open>Depth of values\<close>

primrec below :: "nat \<Rightarrow> val \<Rightarrow> bool" where
  "below 0 v = False"
| "below (Suc d) v = (case v of
      VArray vs \<Rightarrow> list_all (below d) vs
    | VStruct m \<Rightarrow> list_all (\<lambda>kv. below d (snd kv)) m
    | _ \<Rightarrow> True)"

lemma below_mono: "below d v \<Longrightarrow> d \<le> e \<Longrightarrow> below e v"
proof (induction d arbitrary: v e)
  case (Suc d)
  then obtain k where "e = Suc k" "d \<le> k"
    by (cases e) auto
  then show ?case
    using Suc by (auto simp: list_all_iff split: val.splits)
qed simp

lemma below_list: "(\<And>x. x \<in> set xs \<Longrightarrow> \<exists>d. below d (f x)) \<Longrightarrow> \<exists>d. list_all (\<lambda>x. below d (f x)) xs"
proof (induction xs)
  case (Cons x xs)
  then obtain d e where "below d (f x)" "list_all (\<lambda>x. below e (f x)) xs"
    by (meson list.set_intros)
  then have "below (max d e) (f x)" "list_all (\<lambda>x. below (max d e) (f x)) xs"
    by (auto simp: list_all_iff intro: below_mono)
  then show ?case
    by auto
qed simp

lemma below_exists: "\<exists>d. below d v"
proof (induction v)
  case (VArray vs)
  then obtain d where "list_all (below d) vs"
    using below_list [of vs "\<lambda>x. x"] by auto
  then have "below (Suc d) (VArray vs)"
    by simp
  then show ?case by blast
next
  case (VStruct m)
  have "\<exists>d. below d (snd kv)" if "kv \<in> set m" for kv
    using VStruct [OF that, of "snd kv"] by (cases kv) (simp add: snds.simps)
  then obtain d where "list_all (\<lambda>kv. below d (snd kv)) m"
    using below_list [of m snd] by blast
  then have "below (Suc d) (VStruct m)"
    by simp
  then show ?case by blast
qed (rule exI [of _ "Suc 0"], simp)+

lemma below_insert:
  "list_all (\<lambda>kv. below d (snd kv)) m \<Longrightarrow> below d v \<Longrightarrow> list_all (\<lambda>kv. below d (snd kv)) (bt_insert k v m)"
  by (induction m) auto

lemma below_remove:
  "list_all (\<lambda>kv. below d (snd kv)) m \<Longrightarrow> list_all (\<lambda>kv. below d (snd kv)) (bt_remove k m)"
  by (induction m) auto

lemma below_get: "list_all (\<lambda>kv. below d (snd kv)) m \<Longrightarrow> bt_get m k = Some v \<Longrightarrow> below d v"
  by (auto simp: list_all_iff dest!: bt_get_mem)

text \<open>What an operation returns, whatever the fuel.\<close>

definition yields :: "(calls \<Rightarrow> 'a rt) \<Rightarrow> ('a \<Rightarrow> bool) \<Rightarrow> bool" where
  "yields F P \<longleftrightarrow> (\<forall>n s x t. F (interp n) s = Done x t \<longrightarrow> P x)"

lemma yields_ret: "P x \<Longrightarrow> yields (\<lambda>_. ret x) P"
  by (simp add: yields_def ret_def)

lemma yields_bind:
  assumes "yields F P" and "\<And>x. P x \<Longrightarrow> yields (\<lambda>c. G c x) Q"
  shows "yields (\<lambda>c. rbind (F c) (G c)) Q"
  unfolding yields_def
proof (intro allI impI)
  fix n s y t assume "rbind (F (interp n)) (G (interp n)) s = Done y t"
  then obtain x u where "F (interp n) s = Done x u" "G (interp n) x u = Done y t"
    by (rule bind_DoneE)
  then show "Q y"
    using assms unfolding yields_def by blast
qed

lemma yields_any: "yields F (\<lambda>_. True)"
  by (simp add: yields_def)

lemma yields_map: "yields F P \<Longrightarrow> (\<And>x. P x \<Longrightarrow> Q (f x)) \<Longrightarrow> yields (\<lambda>c. rmap f (F c)) Q"
  unfolding rmap_def by (rule yields_bind, assumption, rule yields_ret) simp

lemma yields_seq: "yields G Q \<Longrightarrow> yields (\<lambda>c. rseq (F c) (G c)) Q"
  unfolding rseq_def by (rule yields_bind [OF yields_any]) simp

lemma yields_fold:
  "(\<And>x a. I a \<Longrightarrow> yields (\<lambda>c. F c x a) I) \<Longrightarrow> I acc \<Longrightarrow> yields (\<lambda>c. rfold xs (F c) acc) I"
proof (induction xs arbitrary: acc)
  case (Cons x xs)
  show ?case
    using yields_bind [of "\<lambda>c. F c x acc" I "\<lambda>c. rfold xs (F c)" I] Cons by simp
qed (simp add: yields_ret)

section \<open>Checks on stored values end\<close>

lemma yields_constrain_list:
  assumes "\<And>v. v \<in> set vs \<Longrightarrow> yields (\<lambda>c. c_constrain c t v) (below d)"
  shows "yields (\<lambda>c. constrain_list c t vs) (list_all (below d))"
  using assms
proof (induction vs)
  case (Cons v vs)
  have "yields (\<lambda>c. rmap ((#) x) (constrain_list c t vs)) (list_all (below d))" if "below d x" for x
    using Cons that by (intro yields_map [where P = "list_all (below d)"]) auto
  then show ?case
    using Cons.prems unfolding constrain_list.simps
    by (intro yields_bind [where P = "below d"]) auto
qed (simp add: yields_ret)

lemma yields_constrain_field:
  assumes "\<And>t v. below d v \<Longrightarrow> yields (\<lambda>c. c_constrain c t v) (below d)"
    and "list_all (\<lambda>kv. below d (snd kv)) m"
  shows "yields (\<lambda>c. constrain_field c f m) (list_all (\<lambda>kv. below d (snd kv)))"
proof (cases "bt_get m (canonical (sf_name f))")
  case None
  then show ?thesis
    using assms(2) by (simp add: constrain_field_def yields_ret)
next
  case (Some v)
  have "yields (\<lambda>c. c_constrain c (sf_spec f) v) (below d)"
    using assms(1) below_get [OF assms(2) Some] .
  then show ?thesis
    unfolding constrain_field_def Some option.case
    by (rule yields_map) (simp add: assms(2) below_insert below_remove)
qed

lemma yields_constrain:
  assumes "\<And>t v. below d v \<Longrightarrow> yields (\<lambda>c. c_constrain c t v) (below d)" and "below (Suc d) v"
  shows "yields (\<lambda>c. constrain_value c t v) (below (Suc d))"
proof -
  have array: "yields (\<lambda>c. rmap VArray (constrain_list c t vs)) (below (Suc d))" if "v = VArray vs" for t vs
    using assms that
    by (intro yields_map [where P = "list_all (below d)"] yields_constrain_list) (auto simp: list_all_iff)
  have struct: "yields (\<lambda>c. rmap VStruct (rfold fs (constrain_field c) m)) (below (Suc d))"
    if "v = VStruct m" for fs m
    using assms that
    by (intro yields_map [where P = "list_all (\<lambda>kv. below d (snd kv))"] yields_fold yields_constrain_field) auto
  have keep: "yields (\<lambda>c. ret v) (below (Suc d))" "yields (\<lambda>c. rseq (range_report v a b k) (ret v)) (below (Suc d))"
    for a b k
    by (intro yields_seq yields_ret assms(2))+
  show ?thesis
    unfolding constrain_value_def
  proof (rule yields_bind [OF yields_any])
    fix resolved :: data_type_spec
    show "yields (\<lambda>c. case resolved of
         DtElementary t \<Rightarrow>
           rseq (case elementary_integer_range t of
                   Some (type_name, low, high) \<Rightarrow> range_report v low high (type_name @ '' range'')
                 | None \<Rightarrow> ret ())
             (ret v)
       | DtSubrange base r \<Rightarrow> rseq (range_report v (sr_low r) (sr_high r) ''subrange'') (ret v)
       | DtString wide (Some n) \<Rightarrow>
           ret (case v of
                  VString s \<Rightarrow> VString (truncate_chars s n)
                | VWString s \<Rightarrow> VWString (truncate_chars s n)
                | _ \<Rightarrow> v)
       | DtString wide None \<Rightarrow> ret v
       | DtArray ranges t \<Rightarrow>
           (case v of VArray vs \<Rightarrow> rmap VArray (constrain_list c t vs) | _ \<Rightarrow> ret v)
       | DtStruct fs \<Rightarrow>
           (case v of VStruct values \<Rightarrow> rmap VStruct (rfold fs (constrain_field c) values) | _ \<Rightarrow> ret v)
       | _ \<Rightarrow> ret v) (below (Suc d))"
      using keep assms(2) array struct
      by (cases resolved)
        (auto intro!: yields_seq yields_ret split: val.splits option.splits)
  qed
qed

lemma yields_deeper:
  assumes "yields F P" and "\<And>c. G (deeper c) = F c" and "\<And>s. G no_calls s = NoFuel"
  shows "yields G P"
  unfolding yields_def
proof (intro allI impI)
  fix n s x t assume "G (interp n) s = Done x t"
  then show "P x"
    using assms unfolding yields_def by (cases n) auto
qed

lemma yields_c_constrain: "below d v \<Longrightarrow> yields (\<lambda>c. c_constrain c t v) (below d)"
proof (induction d arbitrary: t v)
  case (Suc d)
  show ?case
    by (rule yields_deeper [OF yields_constrain [OF Suc.IH Suc.prems]])
      (simp_all add: no_calls_def out_of_fuel_def)
qed simp

lemma ends_fold_inv:
  assumes "activation A" and "\<And>x a. I a \<Longrightarrow> ends A (\<lambda>c. F c x a)"
    and "\<And>x a. I a \<Longrightarrow> yields (\<lambda>c. F c x a) I"
    and "\<And>x a c d. follows_calls c d \<Longrightarrow> follows (F c x a) (F d x a)" and "I acc"
  shows "ends A (\<lambda>c. rfold xs (F c) acc)"
  using assms(5)
proof (induction xs arbitrary: acc)
  case (Cons x xs)
  show ?case
    unfolding rfold.simps
  proof (rule ends_bind)
    show "ends A (\<lambda>c. F c x acc)"
      using assms(2) Cons.prems .
    show "ends A (\<lambda>c. rfold xs (F c) y)" if "F (interp n) x acc s = Done y t" for n s y t
      using Cons.IH assms(3) [OF Cons.prems, of x] that unfolding yields_def by blast
    show "monotone_calls (\<lambda>c. rfold xs (F c) y)" for y
      by (rule monotone_callsI) (intro follows_fold assms(4))
  qed
qed (simp add: assms(1) ends_ret)

lemma ends_constrain_list:
  assumes "activation A" and "\<And>v. v \<in> set vs \<Longrightarrow> ends A (\<lambda>c. c_constrain c t v)"
  shows "ends A (\<lambda>c. constrain_list c t vs)"
  using assms(2) by (induction vs) (simp_all add: ends_rules assms(1))

lemma ends_constrain_field:
  assumes "activation A" and "\<And>t v. below d v \<Longrightarrow> ends A (\<lambda>c. c_constrain c t v)"
    and "list_all (\<lambda>kv. below d (snd kv)) m"
  shows "ends A (\<lambda>c. constrain_field c f m)"
  unfolding constrain_field_def
  by (rule ends_rules assms below_get [OF assms(3)] | assumption)+

lemma ends_constrain_below:
  assumes "activation A" and "below d v"
  shows "ends A (\<lambda>c. c_constrain c t v)"
  using assms(2)
proof (induction d arbitrary: t v)
  case (Suc d)
  have array: "ends A (\<lambda>c. constrain_list c t vs)" if "v = VArray vs" for t vs
    using Suc that by (intro ends_constrain_list assms(1)) (auto simp: list_all_iff)
  have struct: "ends A (\<lambda>c. rfold fs (constrain_field c) m)" if "v = VStruct m" for fs m
    using Suc that
    by (intro ends_fold_inv [where I = "list_all (\<lambda>kv. below d (snd kv))"] assms(1) ends_constrain_field
        yields_constrain_field yields_c_constrain follows_constrain) auto
  have "ends A (\<lambda>c. constrain_value c t v)"
    unfolding constrain_value_def
    by (rule ends_rules array struct assms(1) | assumption)+
  then show ?case
    by (rule ends_calls)
qed simp

lemma ends_c_constrain [ends_rules]: "activation A \<Longrightarrow> ends A (\<lambda>c. c_constrain c t v)"
  using below_exists [of v] ends_constrain_below by blast

lemma ends_constrain [ends_rules]: "activation A \<Longrightarrow> ends A (\<lambda>c. constrain_value c t v)"
  unfolding constrain_value_def constrain_field_def
  by (rule ends_rules ends_constrain_list | assumption)+

end
