(* ===== verification/RtTermination.thy ===== *)
theory RtTermination
  imports RtEnds
begin

text \<open>
  Runs end: in a project without recursive data types and without user function blocks every
  operation of the interpreter ends with enough fuel. Expressions end by induction on their
  syntax and, through user functions, on the call depth that is left; the loops are bounded by
  the options; values are finite.
\<close>

section \<open>Variables\<close>

definition evals :: "(runtime \<Rightarrow> bool) \<Rightarrow> expr list \<Rightarrow> bool" where
  "evals A es \<longleftrightarrow> (\<forall>e \<in> set es. ends A (\<lambda>c. c_eval c e))"

definition ref_evals :: "(runtime \<Rightarrow> bool) \<Rightarrow> variable_ref \<Rightarrow> bool" where
  "ref_evals A r \<longleftrightarrow> (\<forall>es \<in> set (vr_indices r). evals A es)"

lemma ends_offset_loop:
  assumes "activation A" and "\<forall>(r, e) \<in> set zs. ends A (\<lambda>c. c_eval c e)"
  shows "ends A (\<lambda>c. array_offset_loop c zs m n)"
  using assms(2)
proof (induction zs arbitrary: m n)
  case (Cons z zs)
  obtain r e where z: "z = (r, e)" by (cases z)
  then have eval: "ends A (\<lambda>c. c_eval c e)"
    using Cons.prems by auto
  have rest: "ends A (\<lambda>c. array_offset_loop c zs m n)" for m n
    using Cons by auto
  show ?case
    unfolding z array_offset_loop.simps
    by (rule ends_rules assms(1) eval rest)+
qed (simp add: assms(1) ends_ret)

lemma ends_offset:
  assumes "activation A" and "evals A es"
  shows "ends A (\<lambda>c. array_offset c rs es)"
proof -
  have zip: "\<forall>(r, e) \<in> set (zip (rev rs) (rev es)). ends A (\<lambda>c. c_eval c e)"
    using assms(2) by (auto simp: evals_def dest!: set_zip_rightD)
  show ?thesis
    unfolding array_offset_def
    by (rule ends_rules ends_offset_loop [OF _ zip] assms(1))+
qed

lemma evals_take: "evals A es \<Longrightarrow> evals A (take n es)" and evals_drop: "evals A es \<Longrightarrow> evals A (drop n es)"
  by (auto simp: evals_def dest: in_set_takeD in_set_dropD)

lemma below_nth: "below (Suc d) (VArray vs) \<Longrightarrow> i < length vs \<Longrightarrow> below d (vs ! i)"
  by (auto simp: list_all_iff)

lemma ends_indices_below:
  assumes "activation A" and "below d v" and "evals A es"
  shows "ends A (\<lambda>c. c_indices c v t es)"
  using assms(2,3)
proof (induction d arbitrary: v t es)
  case (Suc d)
  have deeper: "ends A (\<lambda>c. c_indices c (vs ! i) t (drop k es))" if "v = VArray vs" "i < length vs" for vs i t k
    using Suc.IH [OF below_nth evals_drop] Suc.prems that by simp
  have "ends A (\<lambda>c. apply_indices_loop c v t es)"
    unfolding apply_indices_loop_def
    by (rule ends_rules ends_offset evals_take [OF Suc.prems(2)] deeper assms(1) | assumption)+
  then show ?case
    by (rule ends_calls)
qed simp

lemma ends_c_indices: "activation A \<Longrightarrow> evals A es \<Longrightarrow> ends A (\<lambda>c. c_indices c v t es)"
  using below_exists [of v] ends_indices_below by blast

lemma ends_indices:
  assumes "activation A" and "evals A es"
  shows "ends A (\<lambda>c. apply_indices_to_value c v t es)"
  unfolding apply_indices_to_value_def apply_indices_loop_def
  by (rule ends_rules ends_offset evals_take [OF assms(2)] ends_c_indices evals_drop [OF assms(2)] assms(1))+

lemma evals_indices_at: "ref_evals A r \<Longrightarrow> evals A (indices_at r n)"
  by (auto simp: ref_evals_def indices_at_def evals_def)

lemma ends_segments:
  assumes "activation A" and "ref_evals A r"
  shows "ends A (\<lambda>c. resolve_segments c r ps v t)"
proof (induction ps arbitrary: v t)
  case (Cons p ps)
  obtain i x where p: "p = (i, x)" by (cases p)
  show ?case
    unfolding p resolve_segments.simps
    by (rule ends_rules ends_indices evals_indices_at assms Cons)+
qed (simp add: assms(1) ends_ret)

lemma ends_resolve:
  assumes "activation A" and "ref_evals A r"
  shows "ends A (\<lambda>c. resolve c r)"
  unfolding resolve_def resolve_stored_def
  by (rule ends_rules ends_indices ends_segments evals_indices_at assms)+

text \<open>An assignment goes down the path of the target, and at each part of it down the stored value.\<close>

lemma ends_assign_indexed:
  assumes "activation A" and "evals A es"
    and onward: "\<And>v t. \<not> length (vr_path r) \<le> n + 1 \<Longrightarrow> ends A (\<lambda>c. c_assign_into c v t r (n + 1) x)"
  shows "ends A (\<lambda>c. assign_into_indexed_value c v t es r n x)"
proof -
  obtain d where "below d v"
    using below_exists by blast
  then show ?thesis
    using assms(2)
  proof (induction d arbitrary: v t es)
    case (Suc d)
    have deeper: "ends A (\<lambda>c. c_assign_indexed c (vs ! i) t (drop k es) r n x)"
      if "v = VArray vs" "i < length vs" for vs i t k
      using Suc.IH [OF below_nth evals_drop] Suc.prems that by (intro ends_calls) simp
    show ?case
      unfolding assign_into_indexed_value_def
      by (rule ends_rules ends_offset evals_take [OF Suc.prems(2)] deeper onward assms(1) | assumption | force)+
  qed simp
qed

lemma ends_assign_into:
  assumes "activation A" and "ref_evals A r"
  shows "ends A (\<lambda>c. assign_into_value c v t r n x)"
proof (induction "length (vr_path r) - n" arbitrary: n v t rule: less_induct)
  case less
  have onward: "ends A (\<lambda>c. c_assign_into c v t r (n + 1) x)" if "\<not> length (vr_path r) \<le> n + 1" for v t
    using less [of "n + 1"] that by (intro ends_calls) simp
  show ?case
    unfolding assign_into_value_def Let_def
    by (rule ends_rules ends_assign_indexed evals_indices_at onward assms | assumption)+
qed

lemma ends_assign:
  assumes "activation A" and "ref_evals A r"
  shows "ends A (\<lambda>c. assign c r v)"
  unfolding assign_def assign_stored_def
  by (rule ends_rules ends_assign_into assms)+

section \<open>Types without recursion\<close>

text \<open>Expressions without calls, and types that do not contain themselves, whose fields start
  with such expressions.\<close>

primrec call_free :: "expr \<Rightarrow> bool" and ref_call_free :: "variable_ref \<Rightarrow> bool"
    and arg_call_free :: "param_assignment \<Rightarrow> bool" where
  "call_free (LiteralE l) = True"
| "call_free (VariableE r) = ref_call_free r"
| "call_free (UnaryE unop e) = call_free e"
| "call_free (BinaryE binop e1 e2) = (call_free e1 \<and> call_free e2)"
| "call_free (CallE n args) = False"
| "call_free (ArrayLiteralE es) = list_all id (map call_free es)"
| "call_free (StructLiteralE fs) = list_all id (map arg_call_free fs)"
| "ref_call_free (VariableRef path ixs direct) = list_all (list_all id) (map (map call_free) ixs)"
| "arg_call_free (ParamAssignment n out neg e v) =
     (pred_option id (map_option call_free e) \<and> pred_option id (map_option ref_call_free v))"

inductive grounded :: "project \<Rightarrow> data_type_spec \<Rightarrow> bool" for p where
  grounded_array: "resolve_project_spec p t = DtArray rs e \<Longrightarrow> grounded p e \<Longrightarrow> grounded p t"
| grounded_struct: "resolve_project_spec p t = DtStruct fs \<Longrightarrow>
    (\<And>f. f \<in> set fs \<Longrightarrow> grounded p (sf_spec f)) \<Longrightarrow>
    (\<And>f e. f \<in> set fs \<Longrightarrow> sf_initial f = Some e \<Longrightarrow> call_free e) \<Longrightarrow> grounded p t"
| grounded_flat: "(\<And>rs e. resolve_project_spec p t \<noteq> DtArray rs e) \<Longrightarrow>
    (\<And>fs. resolve_project_spec p t \<noteq> DtStruct fs) \<Longrightarrow> grounded p t"

text \<open>The length of the chain of names from a type to a type that is not a name.\<close>

fun leads :: "project \<Rightarrow> nat \<Rightarrow> data_type_spec \<Rightarrow> bool" where
  "leads p 0 t = (\<forall>n. t \<noteq> DtNamed n)"
| "leads p (Suc k) t = (case t of
      DtNamed n \<Rightarrow> (case find_data_type p (canonical n) of Some d \<Rightarrow> leads p k (dt_spec d) | None \<Rightarrow> False)
    | _ \<Rightarrow> False)"

lemma leads_unique: "leads p k t \<Longrightarrow> leads p j t \<Longrightarrow> k = j"
proof (induction k arbitrary: t j)
  case 0
  then show ?case
    by (cases j) (auto split: data_type_spec.splits)
next
  case (Suc k)
  then show ?case
    by (cases j) (auto split: data_type_spec.splits option.splits)
qed

lemma resolved_leads: "(\<And>n. resolve_project_spec_inner p t seen \<noteq> DtNamed n) \<Longrightarrow> \<exists>k. leads p k t"
proof (induction p t seen rule: resolve_project_spec_inner.induct)
  case (1 p spec seen)
  show ?case
  proof (cases spec)
    case (DtNamed name)
    then obtain d where d: "canonical name \<notin> set seen" "find_data_type p (canonical name) = Some d"
        "\<And>n. resolve_project_spec_inner p (dt_spec d) (canonical name # seen) \<noteq> DtNamed n"
      using 1(2) [of name] 1(2) resolve_project_spec_inner.simps [of p spec seen]
      by (auto split: if_splits option.splits)
    then obtain k where "leads p k (dt_spec d)"
      using 1(1) [OF DtNamed] by blast
    then have "leads p (Suc k) spec"
      using DtNamed d(2) by simp
    then show ?thesis by blast
  qed (auto intro: exI [of _ 0])
qed

lemma stuck_name:
  assumes "resolve_project_spec_inner p t seen = DtNamed n"
    and "\<And>m k. canonical m \<in> set seen \<Longrightarrow> leads p k (DtNamed m) \<Longrightarrow> \<exists>j < k. leads p j t"
  shows "\<not> leads p k (DtNamed n)"
  using assms
proof (induction p t seen arbitrary: k rule: resolve_project_spec_inner.induct)
  case (1 p spec seen)
  obtain name where name: "spec = DtNamed name"
    using 1(2) by (cases spec) (simp_all add: resolve_project_spec_inner.simps)
  consider (seen) "canonical name \<in> set seen" | (unknown) "canonical name \<notin> set seen" "find_data_type p (canonical name) = None"
    | (known) d where "canonical name \<notin> set seen" "find_data_type p (canonical name) = Some d"
    by (cases "find_data_type p (canonical name)") auto
  then show ?case
  proof cases
    case seen
    then have "n = name"
      using 1(2) name by (simp add: resolve_project_spec_inner.simps)
    then show ?thesis
      using 1(3) [OF seen] name leads_unique by blast
  next
    case unknown
    then have "n = name"
      using 1(2) name by (simp add: resolve_project_spec_inner.simps)
    then show ?thesis
      using unknown by (cases k) simp_all
  next
    case known
    have next_eq: "resolve_project_spec_inner p (dt_spec d) (canonical name # seen) = DtNamed n"
      using 1(2) name known by (simp add: resolve_project_spec_inner.simps)
    have "\<exists>i < j. leads p i (dt_spec d)" if mem: "canonical m \<in> set (canonical name # seen)" and lead: "leads p j (DtNamed m)" for m j
    proof (cases "canonical m = canonical name")
      case True
      then show ?thesis
        using lead known by (cases j) auto
    next
      case False
      then obtain i where "i < j" "leads p i spec"
        using 1(3) [of m j] mem lead by auto
      then show ?thesis
        using name known by (cases i) (auto intro: Suc_lessD)
    qed
    then show ?thesis
      using 1(1) [OF name known next_eq] by blast
  qed
qed

lemma resolve_twice:
  assumes "resolve_project_spec p t = DtNamed n"
  shows "\<exists>m. resolve_project_spec p (DtNamed n) = DtNamed m"
proof (rule ccontr)
  assume "\<not> ?thesis"
  then obtain k where "leads p k (DtNamed n)"
    using resolved_leads [of p "DtNamed n" "[]"] by (auto simp: resolve_project_spec_def)
  then show False
    using stuck_name [of p t "[]" n k] assms by (simp add: resolve_project_spec_def)
qed

section \<open>Initial values\<close>

text \<open>The states of an activation in a project, and the initial expressions that end in them.\<close>

definition initial_parts :: "(expr \<Rightarrow> bool) \<Rightarrow> bool" where
  "initial_parts X \<longleftrightarrow> (\<forall>e. call_free e \<longrightarrow> X e) \<and> (\<forall>es. X (ArrayLiteralE es) \<longrightarrow> (\<forall>e \<in> set es. X e)) \<and>
     (\<forall>fs a e. X (StructLiteralE fs) \<longrightarrow> a \<in> set fs \<longrightarrow> pa_expr a = Some e \<longrightarrow> X e)"

definition starts :: "(expr \<Rightarrow> bool) \<Rightarrow> (runtime \<Rightarrow> bool) \<Rightarrow> project \<Rightarrow> bool" where
  "starts X A p \<longleftrightarrow> activation A \<and> (\<forall>s. A s \<longrightarrow> rt_project s = p) \<and>
     (\<forall>e. X e \<longrightarrow> ends A (\<lambda>c. c_eval c e)) \<and> initial_parts X"

lemma starts_activation: "starts X A p \<Longrightarrow> activation A"
  and starts_project: "starts X A p \<Longrightarrow> A s \<Longrightarrow> rt_project s = p"
  and starts_eval: "starts X A p \<Longrightarrow> X e \<Longrightarrow> ends A (\<lambda>c. c_eval c e)"
  and starts_call_free: "starts X A p \<Longrightarrow> call_free e \<Longrightarrow> X e"
  and starts_array: "starts X A p \<Longrightarrow> X (ArrayLiteralE es) \<Longrightarrow> e \<in> set es \<Longrightarrow> X e"
  and starts_struct: "starts X A p \<Longrightarrow> X (StructLiteralE fs) \<Longrightarrow> a \<in> set fs \<Longrightarrow> pa_expr a = Some e \<Longrightarrow> X e"
  unfolding starts_def initial_parts_def by blast+

lemma ends_bind_named:
  assumes "starts X A p" and "ends A (\<lambda>c. G c (resolve_project_spec p t))" and "\<And>x. monotone_calls (\<lambda>c. G c x)"
  shows "ends A (\<lambda>c. rbind (resolve_named_spec t) (G c))"
  unfolding resolve_named_spec_def
proof (rule ends_bind_get)
  show "ends A (\<lambda>c. G c (resolve_project_spec (rt_project s) t))" if "A s" for s
    using assms(2) starts_project [OF assms(1) that] by simp
qed (use assms starts_activation in auto)

lemma ends_field_value:
  "ends A (\<lambda>c. f c (sf_spec x) (g x)) \<Longrightarrow> ends A (\<lambda>c. field_value (f c) g x m)"
  unfolding field_value_def by (rule ends_rules | assumption)+

lemma ends_initial_elements:
  assumes "activation A" and "\<And>e. e \<in> set es \<Longrightarrow> ends A (\<lambda>c. c_initial c t (Some e))"
  shows "ends A (\<lambda>c. initial_elements c t es)"
  using assms(2) by (induction es) (simp_all add: ends_rules assms(1))

lemma default_flat:
  assumes "starts X A p"
    and "\<And>rs e. resolve_project_spec p t \<noteq> DtArray rs e" and "\<And>fs. resolve_project_spec p t \<noteq> DtStruct fs"
  shows "ends A (\<lambda>c. default_value c t)"
  unfolding default_value_def
  by (rule ends_bind_named [OF assms(1)],
      (rule ends_rules starts_activation [OF assms(1)] | erule assms(2,3) [THEN notE])+,
      rule monotone_callsI, (rule follows_rules | assumption)+)

lemma ends_pair: "ends A (\<lambda>c. G c a b) \<Longrightarrow> ends A (\<lambda>c. case_prod (G c) (a, b))"
  by simp

lemma initial_flat:
  assumes "starts X A p" and "\<And>e. i = Some e \<Longrightarrow> X e"
    and "\<And>rs e. resolve_project_spec p t \<noteq> DtArray rs e" and "\<And>fs. resolve_project_spec p t \<noteq> DtStruct fs"
  shows "ends A (\<lambda>c. initial_value_for_spec c t i)"
proof -
  let ?r = "resolve_project_spec p t"
  have again: "resolve_project_spec p ?r \<noteq> DtArray rs e" "resolve_project_spec p ?r \<noteq> DtStruct fs" for rs e fs
    using assms(3,4) resolve_twice [of p t]
    by (cases ?r; force simp: resolve_project_spec_def resolve_project_spec_inner.simps)+
  have default: "ends A (\<lambda>c. default_value c ?r)"
    by (rule default_flat [OF assms(1)]) (rule again)+
  show ?thesis
    unfolding initial_value_for_spec_def
    by (rule ends_bind_named [OF assms(1)],
        (rule ends_pair ends_rules default starts_activation [OF assms(1)] starts_eval [OF assms(1) assms(2)]
          | erule assms(3,4) [THEN notE] | assumption)+,
        rule monotone_callsI, (rule follows_rules | assumption)+)
qed

lemma initializer_part:
  assumes "starts X A p" and "X (StructLiteralE fs)" and "initializer_of fs f = Some e"
    and "\<And>e. sf_initial f = Some e \<Longrightarrow> call_free e"
  shows "X e"
proof (cases "Option.bind (List.find (\<lambda>a. names a (canonical (sf_name f))) fs) pa_expr")
  case None
  then show ?thesis
    using assms by (auto simp: initializer_of_def or_else_def intro: starts_call_free)
next
  case (Some x)
  then obtain a where a: "List.find (\<lambda>a. names a (canonical (sf_name f))) fs = Some a" "pa_expr a = Some x"
    by (auto elim!: bind_eq_SomeE)
  then have "a \<in> set fs"
    by (auto simp: find_Some_iff)
  then show ?thesis
    using a(2) assms(3) Some starts_struct [OF assms(1,2)] by (simp add: initializer_of_def or_else_def)
qed

lemma ends_values:
  assumes "starts X A p" and "grounded p t"
  shows "ends A (\<lambda>c. default_value c t) \<and>
    (\<forall>i. (\<forall>e. i = Some e \<longrightarrow> X e) \<longrightarrow> ends A (\<lambda>c. initial_value_for_spec c t i))"
  using assms(2)
proof (induction rule: grounded.induct)
  case (grounded_array t rs e)
  then have parts: "ends A (\<lambda>c. c_default c e)" "ends A (\<lambda>c. c_initial c e None)"
      "X x \<Longrightarrow> ends A (\<lambda>c. c_initial c e (Some x))" for x
    by (auto intro: ends_calls)
  note rules = ends_rules parts ends_initial_elements starts_activation [OF assms(1)]
  have "ends A (\<lambda>c. default_value c t)"
    unfolding default_value_def
    by (rule ends_bind_named [OF assms(1)], simp only: grounded_array(1) data_type_spec.case, (rule rules)+,
        rule monotone_callsI, (rule follows_rules | assumption)+)
  moreover have "ends A (\<lambda>c. initial_value_for_spec c t i)" if i: "\<And>e. i = Some e \<Longrightarrow> X e" for i
    unfolding initial_value_for_spec_def
    by (rule ends_bind_named [OF assms(1)], simp only: grounded_array(1) data_type_spec.case prod.case,
        (rule rules starts_array [OF assms(1) i] | simp)+,
        rule monotone_callsI, (rule follows_rules | assumption)+)
  ultimately show ?case by blast
next
  case (grounded_struct t fs)
  then have parts: "f \<in> set fs \<Longrightarrow> ends A (\<lambda>c. c_default c (sf_spec f))"
      "f \<in> set fs \<Longrightarrow> ends A (\<lambda>c. c_initial c (sf_spec f) (sf_initial f))"
      "f \<in> set fs \<Longrightarrow> X x \<Longrightarrow> ends A (\<lambda>c. c_initial c (sf_spec f) (Some x))"
      "f \<in> set fs \<Longrightarrow> X (StructLiteralE as) \<Longrightarrow> ends A (\<lambda>c. c_initial c (sf_spec f) (initializer_of as f))"
    for f x as
    using initializer_part [OF assms(1), of as f] grounded_struct(3) starts_call_free [OF assms(1)]
    by (auto intro!: ends_calls grounded_struct.IH [THEN conjunct1] grounded_struct.IH [THEN conjunct2, rule_format])
  note rules = ends_rules ends_field_value parts starts_activation [OF assms(1)]
  have "ends A (\<lambda>c. default_value c t)"
    unfolding default_value_def
    by (rule ends_bind_named [OF assms(1)], simp only: grounded_struct(1) data_type_spec.case,
        (rule rules starts_call_free [OF assms(1)] grounded_struct(3) | assumption)+,
        rule monotone_callsI, (rule follows_rules | assumption)+)
  moreover have "ends A (\<lambda>c. initial_value_for_spec c t i)" if i: "\<And>e. i = Some e \<Longrightarrow> X e" for i
    unfolding initial_value_for_spec_def
    by (rule ends_bind_named [OF assms(1)], simp only: grounded_struct(1) data_type_spec.case prod.case,
        (rule rules i | assumption | simp)+,
        rule monotone_callsI, (rule follows_rules | assumption)+)
  ultimately show ?case by blast
next
  case (grounded_flat t)
  then show ?case
    using default_flat [OF assms(1)] initial_flat [OF assms(1)] by blast
qed

section \<open>Arguments\<close>

definition arg_ends :: "(runtime \<Rightarrow> bool) \<Rightarrow> param_assignment \<Rightarrow> bool" where
  "arg_ends A a \<longleftrightarrow> (\<forall>e. pa_expr a = Some e \<longrightarrow> ends A (\<lambda>c. c_eval c e)) \<and>
     (\<forall>r. pa_variable a = Some r \<longrightarrow> ref_evals A r)"

definition args_end :: "(runtime \<Rightarrow> bool) \<Rightarrow> param_assignment list \<Rightarrow> bool" where
  "args_end A args \<longleftrightarrow> activation A \<and> (\<forall>a \<in> set args. arg_ends A a)"

lemma args_activation: "args_end A args \<Longrightarrow> activation A"
  by (simp add: args_end_def)

lemma args_eval: "args_end A args \<Longrightarrow> a \<in> set args \<Longrightarrow> pa_expr a = Some e \<Longrightarrow> ends A (\<lambda>c. c_eval c e)"
  by (auto simp: args_end_def arg_ends_def)

lemma args_assign:
  "args_end A args \<Longrightarrow> a \<in> set args \<Longrightarrow> pa_variable a = Some r \<Longrightarrow> ends A (\<lambda>c. assign c r v)"
  by (auto simp: args_end_def arg_ends_def intro: ends_assign)

lemma args_find:
  assumes "args_end A args" and "Option.bind (List.find P args) pa_expr = Some e"
  shows "ends A (\<lambda>c. c_eval c e)"
proof -
  obtain a where a: "List.find P args = Some a" "pa_expr a = Some e"
    using assms(2) by (auto elim!: bind_eq_SomeE)
  then have "a \<in> set args"
    by (auto simp: find_Some_iff)
  then show ?thesis
    using args_eval assms(1) a(2) by blast
qed

lemma ends_optional:
  "activation A \<Longrightarrow> (\<And>x. e = Some x \<Longrightarrow> ends A (\<lambda>c. c_eval c x)) \<Longrightarrow> ends A (\<lambda>c. eval_optional c e)"
  unfolding eval_optional_def by (rule ends_rules | assumption)+

lemma ends_argument: "args_end A args \<Longrightarrow> a \<in> set args \<Longrightarrow> ends A (\<lambda>c. eval_optional c (pa_expr a))"
  using args_eval args_activation by (blast intro: ends_optional)

lemma ends_call_arguments:
  assumes "args_end A args"
  shows "ends A (\<lambda>c. function_call_enabled c args)"
    and "ends A (\<lambda>c. assign_function_eno c args b)"
    and "ends A (\<lambda>c. eval_standard_function_inputs c n args)"
    and "ends A (\<lambda>c. rfold args (user_argument c) acc)"
  unfolding eval_standard_function_inputs_def standard_input_def assign_function_eno_def
    function_call_enabled_def user_argument_def
  by (rule ends_rules args_find [OF assms] args_activation [OF assms] args_eval [OF assms]
      args_assign [OF assms] ends_argument [OF assms] | assumption)+

section \<open>Projects without recursive types and user function blocks\<close>

definition declared_blocks :: "project \<Rightarrow> var_block list" where
  "declared_blocks p = concat (map pou_var_blocks (pous p)) @
     concat (map (\<lambda>cf. conf_var_blocks cf @ concat (map res_var_blocks (conf_resources cf))) (configurations p))"

definition bounded_types :: "project \<Rightarrow> bool" where
  "bounded_types p \<longleftrightarrow> (\<forall>b \<in> set (declared_blocks p). \<forall>d \<in> set (vb_vars b). grounded p (var_type d)) \<and>
     (\<forall>u \<in> set (pous p). \<forall>t. pou_kind u = FunctionKind t \<longrightarrow> grounded p t)"

text \<open>The states of an activation in which every expression ends.\<close>

definition quiet :: "(runtime \<Rightarrow> bool) \<Rightarrow> project \<Rightarrow> bool" where
  "quiet A p \<longleftrightarrow> starts (\<lambda>_. True) A p \<and> (\<forall>s. A s \<longrightarrow> rt_program s \<in> set (pous p)) \<and>
     (\<forall>name. find_function_block p name = None) \<and> bounded_types p"

lemma quiet_activation: "quiet A p \<Longrightarrow> activation A"
  and quiet_eval: "quiet A p \<Longrightarrow> ends A (\<lambda>c. c_eval c e)"
  and quiet_project: "quiet A p \<Longrightarrow> A s \<Longrightarrow> rt_project s = p"
  and quiet_program: "quiet A p \<Longrightarrow> A s \<Longrightarrow> rt_program s \<in> set (pous p)"
  and quiet_blocks: "quiet A p \<Longrightarrow> find_function_block p name = None"
  and quiet_types: "quiet A p \<Longrightarrow> bounded_types p"
  by (simp_all add: quiet_def starts_def)

lemma quiet_ref: "quiet A p \<Longrightarrow> ref_evals A r"
  and quiet_args: "quiet A p \<Longrightarrow> args_end A args"
  and quiet_arg: "quiet A p \<Longrightarrow> args_end A [a]"
  by (simp_all add: ref_evals_def evals_def args_end_def arg_ends_def quiet_eval quiet_activation)

lemma ends_grounded:
  assumes "quiet A p" and "grounded p t"
  shows "ends A (\<lambda>c. default_value c t)" and "ends A (\<lambda>c. initial_value_for_spec c t i)"
proof -
  have "starts (\<lambda>_. True) A p"
    using assms(1) by (simp add: quiet_def)
  then show "ends A (\<lambda>c. default_value c t)" and "ends A (\<lambda>c. initial_value_for_spec c t i)"
    using ends_values [OF _ assms(2)] by auto
qed

lemma ends_quiet [ends_rules]:
  "quiet A p \<Longrightarrow> ends A (\<lambda>c. c_eval c e)"
  "quiet A p \<Longrightarrow> ends A (\<lambda>c. resolve c r)"
  "quiet A p \<Longrightarrow> ends A (\<lambda>c. assign c r v)"
  "quiet A p \<Longrightarrow> ends A (\<lambda>c. eval_optional c oe)"
  "quiet A p \<Longrightarrow> ends A (\<lambda>c. function_call_enabled c args)"
  "quiet A p \<Longrightarrow> ends A (\<lambda>c. assign_function_eno c args b)"
  by (blast intro: quiet_eval ends_resolve ends_assign ends_optional ends_call_arguments
      quiet_activation quiet_ref quiet_args)+

lemma ends_bind_inputs [ends_rules]: "activation A \<Longrightarrow> ends A (\<lambda>_. bind_inputs is vs m)"
proof (induction "is" arbitrary: vs)
  case (Cons i "is")
  show ?case
    unfolding bind_inputs.simps by (rule ends_rules Cons)+
qed (simp add: ends_rules)

lemma ends_bind_function_inputs [ends_rules]: "activation A \<Longrightarrow> ends A (\<lambda>_. bind_function_inputs vs m)"
  unfolding bind_function_inputs_def by (rule ends_rules | assumption)+

lemma ends_no_block:
  assumes "quiet A p" and "ends A (\<lambda>c. G c None)" and "\<And>x. monotone_calls (\<lambda>c. G c x)"
  shows "ends A (\<lambda>c. rbind (rget (\<lambda>s. find_function_block (rt_project s) name)) (G c))"
proof (rule ends_bind_get)
  show "ends A (\<lambda>c. G c (find_function_block (rt_project s) name))" if "A s" for s
    using assms(2) quiet_project [OF assms(1) that] quiet_blocks [OF assms(1)] by simp
qed (use assms quiet_activation in auto)

section \<open>The start of a program\<close>

lemma ends_instance [ends_rules]:
  assumes "quiet A p"
  shows "ends A (\<lambda>c. initialize_function_block_instance c k t)"
proof -
  have user: "ends A (\<lambda>c. initialize_user_function_block_fields c k n)" for n
    unfolding initialize_user_function_block_fields_def
    by (rule ends_no_block [OF assms], simp only: option.case, rule ends_rules, rule quiet_activation [OF assms],
        rule monotone_callsI, (rule follows_rules | assumption)+)
  show ?thesis
    unfolding initialize_function_block_instance_def
    by (rule ends_rules user ends_initial_block quiet_activation [OF assms] | assumption)+
qed

lemma ends_variable_start:
  assumes "quiet A p"
  shows "ends A (\<lambda>c. initialize_function_block_fields c d)"
    and "grounded p (var_type d) \<Longrightarrow> ends A (\<lambda>c. initialize_variable c w k d)"
    and "ends A (\<lambda>c. initialize_sfc_action_control key)"
    and "ends A (\<lambda>c. initialize_sfc_steps)"
  unfolding initialize_function_block_fields_def initialize_variable_def initialize_sfc_action_control_def
    initialize_sfc_steps_def
  by (rule ends_rules assms quiet_activation [OF assms] ends_grounded [OF assms] | assumption)+

lemma bounded_result: "bounded_types p \<Longrightarrow> u \<in> set (pous p) \<Longrightarrow> pou_kind u = FunctionKind t \<Longrightarrow> grounded p t"
  by (auto simp: bounded_types_def)

lemma bounded_local:
  "bounded_types p \<Longrightarrow> u \<in> set (pous p) \<Longrightarrow> b \<in> set (pou_var_blocks u) \<Longrightarrow> d \<in> set (vb_vars b) \<Longrightarrow>
   grounded p (var_type d)"
  by (auto simp: bounded_types_def declared_blocks_def)

lemma bounded_global:
  assumes "bounded_types p" and "(d, k) \<in> set (project_global_var_decls p name)"
  shows "grounded p (var_type d)"
proof -
  have "\<exists>b \<in> set (declared_blocks p). d \<in> set (vb_vars b)"
    using assms(2) by (fastforce simp: project_global_var_decls_def declared_blocks_def block_vars_def)
  then show ?thesis
    using assms(1) by (auto simp: bounded_types_def)
qed

lemma ends_result:
  assumes "quiet A p"
  shows "ends A (\<lambda>c. initialize_result c w)"
  unfolding initialize_result_def
proof (rule ends_bind_get)
  fix s assume "A s"
  then have "rt_program s \<in> set (pous p)"
    using assms by (rule quiet_program [rotated])
  then show "ends A (\<lambda>c. case pou_kind (rt_program s) of
         FunctionKind return_type \<Rightarrow>
           rseq (types_insert (canonical (pou_name (rt_program s))) return_type)
             (rbind (rget (\<lambda>s'. bt_contains (rt_env s') (canonical (pou_name (rt_program s))))) (\<lambda>present.
               if w = Cold \<or> \<not> present then
                 rbind (default_value c return_type) (\<lambda>v. env_insert (canonical (pou_name (rt_program s))) v)
               else ret ()))
       | _ \<Rightarrow> ret ())"
    by - (rule ends_rules quiet_activation [OF assms] ends_grounded [OF assms]
        bounded_result [OF quiet_types [OF assms]] | assumption)+
qed (use quiet_activation [OF assms] in \<open>auto intro!: monotone_callsI follows_rules\<close>)

lemma ends_initialize:
  assumes "quiet A p"
  shows "ends A (\<lambda>c. initialize c w)"
  unfolding initialize_def
proof (rule ends_seq [OF _ ends_seq [OF _ ends_seq [OF _ ends_bind_get]]])
  fix s assume A: "A s"
  have program: "rt_program s \<in> set (pous p)" and project: "rt_project s = p"
    using quiet_program [OF assms A] quiet_project [OF assms A] .
  show "ends A (\<lambda>c. case (project_global_var_decls (rt_project s) (canonical (pou_name (rt_program s))),
            pou_var_blocks (rt_program s)) of (globals, blocks) \<Rightarrow>
         rseq (rfor globals (\<lambda>(d, retain). initialize_variable c w retain d))
           (rseq (rfor (filter (\<lambda>b. vb_kind b \<notin> {VarAccess, VarExternal}) blocks) (\<lambda>b.
                   rfor (vb_vars b) (initialize_variable c w (vb_retain b))))
             (if w = Cold then initialize_sfc_steps else ret ())))"
    unfolding project prod.case
    using bounded_global [OF quiet_types [OF assms]] bounded_local [OF quiet_types [OF assms] program]
    by (intro ends_rules quiet_activation [OF assms] ends_variable_start [OF assms]) auto
next
  show "ends A (\<lambda>c. if w = Cold then rmodify (\<lambda>s. s\<lparr>rt_env := [], rt_types := []\<rparr>) else ret ())"
    by (rule ends_rules ends_empty quiet_activation [OF assms])+
next
  show "monotone_calls (\<lambda>c. case x of (globals, blocks) \<Rightarrow>
         rseq (rfor globals (\<lambda>(d, retain). initialize_variable c w retain d))
           (rseq (rfor (filter (\<lambda>b. vb_kind b \<notin> {VarAccess, VarExternal}) blocks) (\<lambda>b.
                   rfor (vb_vars b) (initialize_variable c w (vb_retain b))))
             (if w = Cold then initialize_sfc_steps else ret ())))" for x
    by (rule monotone_callsI, (rule follows_rules | assumption)+)
qed (rule ends_rules ends_result quiet_activation [OF assms] | rule assms)+

lemma ends_reset_temp:
  assumes "quiet A p"
  shows "ends A (\<lambda>c. reset_temp_variables c)"
  unfolding reset_temp_variables_def
proof (rule ends_bind_get)
  fix s assume "A s"
  then have "rt_program s \<in> set (pous p)"
    using assms by (rule quiet_program [rotated])
  then have types: "grounded p (var_type d)"
    if "d \<in> set (concat (map vb_vars (filter (\<lambda>b. vb_kind b = VarTemp) (pou_var_blocks (rt_program s)))))" for d
    using that bounded_local [OF quiet_types [OF assms]] by auto
  show "ends A (\<lambda>c. rfor (concat (map vb_vars (filter (\<lambda>b. vb_kind b = VarTemp) (pou_var_blocks (rt_program s)))))
     (\<lambda>d. rbind (initial_value_for_spec c (var_type d) (var_initial d)) (\<lambda>v.
           rseq (env_insert (canonical (var_name d)) v) (initialize_function_block_fields c d))))"
    by (rule ends_rules quiet_activation [OF assms] ends_grounded [OF assms types]
        ends_variable_start [OF assms] | assumption)+
qed (use quiet_activation [OF assms] in \<open>auto intro!: monotone_callsI follows_rules\<close>)

section \<open>Calls\<close>

lemma ends_void_call [ends_rules]:
  "quiet A p \<Longrightarrow> ends A (\<lambda>c. execute_standard_void_call c n args)"
  unfolding execute_standard_void_call_def
  by (rule ends_rules | assumption | erule quiet_activation)+

lemma ends_fb_inputs [ends_rules]:
  "quiet A p \<Longrightarrow> ends A (\<lambda>c. fb_input c ns a acc)"
  "quiet A p \<Longrightarrow> ends A (\<lambda>c. eval_fb_inputs c n args)"
  "quiet A p \<Longrightarrow> ends A (\<lambda>c. assign_standard_function_block_outputs c k n args)"
  unfolding eval_fb_inputs_def fb_input_def assign_standard_function_block_outputs_def Let_def
  by (rule ends_rules | assumption | erule quiet_activation)+

lemma ends_block_type [ends_rules]:
  assumes "quiet A p"
  shows "ends A (\<lambda>c. execute_block_type c k n i args)"
proof -
  have user: "ends A (\<lambda>c. rbind (rget (\<lambda>s. find_function_block (rt_project s) (original n))) (\<lambda>found.
       case found of
         Some u \<Rightarrow> rseq (execute_user_function_block c k u args) (ret True)
       | None \<Rightarrow>
           rseq (push (unsupported (''function block type '' @ quoted (original n) @
                  '' is not executable yet'')))
             (ret False)))"
    by (rule ends_no_block [OF assms], simp only: option.case, (rule ends_rules quiet_activation [OF assms])+,
        rule monotone_callsI, (rule follows_rules | assumption)+)
  show ?thesis
    unfolding execute_block_type_def
    by (rule user ends_rules ends_named_block quiet_activation [OF assms] | assumption)+
qed

lemma ends_fb_call [ends_rules]:
  "quiet A p \<Longrightarrow> ends A (\<lambda>c. execute_fb_call c r args)"
  unfolding execute_fb_call_def
  by (rule ends_rules | assumption | erule quiet_activation)+

section \<open>Statements\<close>

lemma ends_il [ends_rules]:
  "quiet A p \<Longrightarrow> ends A (\<lambda>c. execute_il_call c e)"
  "quiet A p \<Longrightarrow> ends A (\<lambda>c. execute_il_instruction c i e)"
  "quiet A p \<Longrightarrow> ends A (\<lambda>c. condition c e')"
  "quiet A p \<Longrightarrow> ends A (\<lambda>c. case_label_matches c l v)"
  unfolding execute_il_call_def execute_il_instruction_def condition_def case_label_matches_def Let_def
  by (rule ends_rules | assumption | erule quiet_activation)+

lemma ends_for_loop [ends_rules]:
  assumes "ends A body"
  shows "ends A (\<lambda>c. for_loop m n stop step (body c) v i)"
proof (induction "Suc m - i" arbitrary: v i rule: less_induct)
  case less
  show ?case
    by (subst for_loop.simps) (rule ends_rules assms less ends_activation [OF assms(1)] | assumption | linarith)+
qed

lemma ends_while_loop [ends_rules]:
  assumes "ends A cond" and "ends A body"
  shows "ends A (\<lambda>c. while_loop m (cond c) (body c) i)"
proof (induction "Suc m - i" arbitrary: i rule: less_induct)
  case less
  show ?case
    by (subst while_loop.simps) (rule ends_rules assms less ends_activation [OF assms(1)] | assumption | linarith)+
qed

lemma ends_repeat_loop [ends_rules]:
  assumes "ends A body" and "ends A cond"
  shows "ends A (\<lambda>c. repeat_loop m (body c) (cond c) i)"
proof (induction "Suc m - i" arbitrary: i rule: less_induct)
  case less
  show ?case
    by (subst repeat_loop.simps) (rule ends_rules assms less ends_activation [OF assms(1)] | assumption | linarith)+
qed

lemma ends_statements_loop [ends_rules]:
  assumes "activation A" and "\<And>st. st \<in> set sts \<Longrightarrow> ends A (\<lambda>c. exec c st)"
  shows "ends A (\<lambda>c. statements_loop m sts labels (exec c) ip i)"
proof (induction "Suc m - i" arbitrary: ip i rule: less_induct)
  case less
  have step: "ends A (\<lambda>c. exec c (sts ! ip))" if "\<not> length sts \<le> ip"
    using assms(2) that by simp
  show ?case
    by (subst statements_loop.simps) (rule ends_rules assms(1) step less | assumption | linarith)+
qed

lemma ends_any_label [ends_rules]: "quiet A p \<Longrightarrow> ends A (\<lambda>c. any_label_matches c ls v)"
  by (induction ls) (auto intro!: ends_rules dest: quiet_activation)

text \<open>Statements end by induction on their syntax: a block runs one call deeper.\<close>

lemma ends_branches:
  assumes "quiet A p" and "\<And>b. b \<in> insert e (snd ` set bs) \<Longrightarrow> ends A (\<lambda>c. c_block c b)"
  shows "ends A (\<lambda>c. execute_branches c bs e)"
  using assms(2)
proof (induction bs)
  case (Cons b bs)
  obtain cond body where b: "b = (cond, body)" by (cases b)
  have parts: "ends A (\<lambda>c. c_block c body)" "ends A (\<lambda>c. execute_branches c bs e)"
    using Cons b by auto
  show ?case
    unfolding b execute_branches.simps by (rule parts ends_rules assms(1))+
qed simp

lemma ends_cases:
  assumes "quiet A p" and "\<And>b. b \<in> insert e (snd ` set cs) \<Longrightarrow> ends A (\<lambda>c. c_block c b)"
  shows "ends A (\<lambda>c. execute_cases c v cs e)"
  using assms(2)
proof (induction cs)
  case (Cons b cs)
  obtain labels body where b: "b = (labels, body)" by (cases b)
  have parts: "ends A (\<lambda>c. c_block c body)" "ends A (\<lambda>c. execute_cases c v cs e)"
    using Cons b by auto
  show ?case
    unfolding b execute_cases.simps by (rule parts ends_rules assms(1))+
qed simp

lemma ends_execute_block:
  "activation A \<Longrightarrow> (\<And>st. st \<in> set b \<Longrightarrow> ends A (\<lambda>c. execute_statement c st)) \<Longrightarrow> ends A (\<lambda>c. execute_block c b)"
  by (induction b) (auto intro!: ends_rules)

lemma ends_statement:
  assumes "quiet A p"
  shows "ends A (\<lambda>c. execute_statement c st)"
proof (induction st)
  case (IfS bs e)
  have "ends A (\<lambda>c. c_block c b)" if "b \<in> insert e (snd ` set bs)" for b
    using that IfS quiet_activation [OF assms] by (intro ends_calls ends_execute_block) fastforce+
  then show ?case
    unfolding execute_statement_def statement.case by (rule ends_branches [OF assms])
next
  case (CaseS v cs e)
  have block: "ends A (\<lambda>c. c_block c b)" if "b \<in> insert e (snd ` set cs)" for b
    using that CaseS quiet_activation [OF assms] by (intro ends_calls ends_execute_block) fastforce+
  show ?case
    unfolding execute_statement_def statement.case
    by (rule ends_cases [OF assms] ends_rules quiet_eval [OF assms] block insertI1 | assumption)+
next
  case (ForS n a b s body)
  then have block: "ends A (\<lambda>c. c_block c body)"
    using quiet_activation [OF assms] by (intro ends_calls ends_execute_block)
  show ?case
    unfolding execute_statement_def statement.case execute_for_def
    by (rule block ends_rules assms quiet_activation [OF assms])+
next
  case (WhileS e body)
  then have block: "ends A (\<lambda>c. c_block c body)"
    using quiet_activation [OF assms] by (intro ends_calls ends_execute_block)
  show ?case
    unfolding execute_statement_def statement.case
    by (rule block ends_rules assms quiet_activation [OF assms])+
next
  case (RepeatS body e)
  then have block: "ends A (\<lambda>c. c_block c body)"
    using quiet_activation [OF assms] by (intro ends_calls ends_execute_block)
  show ?case
    unfolding execute_statement_def statement.case
    by (rule block ends_rules assms quiet_activation [OF assms])+
qed (unfold execute_statement_def statement.case,
     (rule ends_rules assms quiet_activation [OF assms])+)

lemma ends_statement_list:
  assumes "quiet A p"
  shows "ends A (\<lambda>c. execute_statement_list c b)" and "ends A (\<lambda>c. c_statements c b)"
    and "ends A (\<lambda>c. run_body c b)"
proof -
  show list: "ends A (\<lambda>c. execute_statement_list c b)"
    unfolding execute_statement_list_def
    by (rule ends_rules ends_statement [OF assms] quiet_activation [OF assms])+
  show called: "ends A (\<lambda>c. c_statements c b)"
    using list by (rule ends_calls)
  show "ends A (\<lambda>c. run_body c b)"
    unfolding run_body_def by (rule called ends_rules quiet_activation [OF assms])+
qed

section \<open>Charts and scan cycles\<close>

lemma ends_action_control [ends_rules]:
  "activation A \<Longrightarrow> ends A (\<lambda>_. sfc_action_stored key)"
  "activation A \<Longrightarrow> ends A (\<lambda>_. set_sfc_action_stored key b)"
  "activation A \<Longrightarrow> ends A (\<lambda>_. set_sfc_action_elapsed key n)"
  "activation A \<Longrightarrow> ends A (\<lambda>_. sfc_action_should_execute key name inputs)"
  unfolding sfc_action_should_execute_def stored_executes_def timed_executes_def pulse_executes_def
    advance_sfc_action_elapsed_def sfc_action_elapsed_def set_sfc_action_elapsed_def
    set_sfc_action_stored_def sfc_action_stored_def Let_def
  by (rule ends_rules | assumption)+

lemma ends_fire [ends_rules]: "activation A \<Longrightarrow> ends A (\<lambda>_. fire_transitions candidates)"
  unfolding fire_transitions_def fire_transition_def
  by (rule ends_rules | assumption)+

lemma ends_sfc_actions:
  assumes "quiet A p"
  shows "ends A (\<lambda>c. execute_sfc_actions c chart steps actions)"
proof (induction actions)
  case (Cons action actions)
  show ?case
    unfolding execute_sfc_actions.simps
    by (rule ends_rules Cons ends_statement_list [OF assms] quiet_activation [OF assms])+
qed (simp add: ends_ret quiet_activation [OF assms])

lemma ends_program_cycle:
  assumes "quiet A p"
  shows "ends A (\<lambda>c. execute_program_cycle c)"
  unfolding execute_program_cycle_def execute_sfc_def transition_candidate_def
  by (rule ends_rules ends_sfc_actions [OF assms] ends_statement_list [OF assms]
      quiet_activation [OF assms] assms | assumption)+

lemma ends_access:
  assumes "quiet A p"
  shows "ends A (\<lambda>c. access_snapshot c)" and "ends A (\<lambda>c. apply_access_writes c n writes)"
  unfolding access_snapshot_def access_path_value_def apply_access_writes_def apply_access_write_def
    assign_access_target_def
  by (rule ends_rules quiet_activation [OF assms] assms | assumption)+

lemma ends_run_cycle:
  assumes "quiet A p"
  shows "ends A (\<lambda>c. run_cycle c writes n)"
  unfolding run_cycle_def
  by (rule ends_rules ends_initialize [OF assms] ends_access [OF assms] ends_reset_temp [OF assms]
      ends_program_cycle [OF assms] quiet_activation [OF assms] | assumption)+

lemma ends_run_cycles:
  assumes "quiet A p"
  shows "ends A (\<lambda>c. run_cycles c writes ns acc)"
proof (induction ns arbitrary: acc)
  case (Cons n ns)
  show ?case
    unfolding run_cycles.simps
    by (rule ends_rules ends_run_cycle [OF assms] Cons)+
qed (simp add: ends_ret quiet_activation [OF assms])

lemma ends_run_machine:
  assumes "quiet A p"
  shows "ends A (\<lambda>c. run_machine c writes n)"
  unfolding run_machine_def
  by (rule ends_rules ends_initialize [OF assms] ends_run_cycles [OF assms] quiet_activation [OF assms])+

section \<open>Expressions\<close>

text \<open>Expressions end when they have no calls, or when calls end.\<close>

definition calls_end :: "(runtime \<Rightarrow> bool) \<Rightarrow> bool" where
  "calls_end A \<longleftrightarrow> (\<forall>name args. args_end A args \<longrightarrow> ends A (\<lambda>c. eval_call c name args))"

lemma ends_eval_all:
  assumes "activation A" and "\<And>e. e \<in> set es \<Longrightarrow> ends A (\<lambda>c. c_eval c e)"
  shows "ends A (\<lambda>c. eval_all c es)"
  using assms(2) by (induction es) (simp_all add: ends_rules assms(1))

lemma ends_struct_fields:
  assumes "args_end A args"
  shows "ends A (\<lambda>c. rfold args (struct_literal_field c) acc)"
  unfolding struct_literal_field_def
  by (rule ends_rules ends_argument [OF assms] args_activation [OF assms] | assumption)+

lemma ends_expr:
  assumes A: "activation A"
  shows "call_free e \<or> calls_end A \<Longrightarrow> ends A (\<lambda>c. c_eval c e)"
    and "ref_call_free r \<or> calls_end A \<Longrightarrow> ref_evals A r"
    and "arg_call_free a \<or> calls_end A \<Longrightarrow> arg_ends A a"
proof (induction e and r and a)
  case (LiteralE l)
  show ?case
    by (rule ends_calls, unfold eval_expr_def expr.case) (rule ends_rules A)+
next
  case (VariableE r)
  then have "ref_evals A r" by simp
  then show ?case
    by (intro ends_calls, unfold eval_expr_def expr.case) (rule ends_resolve [OF A])
next
  case (UnaryE unop e)
  then have part: "ends A (\<lambda>c. c_eval c e)" by simp
  show ?case
    by (rule ends_calls, unfold eval_expr_def expr.case) (rule part ends_rules A)+
next
  case (BinaryE binop l r)
  then have parts: "ends A (\<lambda>c. c_eval c l)" "ends A (\<lambda>c. c_eval c r)" by auto
  show ?case
    by (rule ends_calls, unfold eval_expr_def expr.case) (rule parts ends_rules A)+
next
  case (CallE name args)
  then have "args_end A args" and "calls_end A"
    by (auto simp: args_end_def A)
  then show ?case
    by (intro ends_calls, unfold eval_expr_def expr.case) (simp add: calls_end_def)
next
  case (ArrayLiteralE es)
  then have parts: "ends A (\<lambda>c. eval_all c es)"
    by (intro ends_eval_all A) (auto simp: list_all_iff)
  show ?case
    by (rule ends_calls, unfold eval_expr_def expr.case) (rule parts ends_rules A)+
next
  case (StructLiteralE fs)
  then have parts: "args_end A fs"
    by (auto simp: args_end_def A list_all_iff)
  show ?case
    by (rule ends_calls, unfold eval_expr_def expr.case) (rule ends_struct_fields [OF parts] ends_rules A)+
next
  case (VariableRef path ixs direct)
  then show ?case
    by (auto simp: ref_evals_def evals_def list_all_iff)
next
  case (ParamAssignment n out neg e v)
  then show ?case
    by (auto simp: arg_ends_def)
qed

lemma arg_call_free_expr: "arg_call_free a \<Longrightarrow> pa_expr a = Some e \<Longrightarrow> call_free e"
  by (cases a) auto

lemma starts_here: "starts call_free (here p u k) p"
  unfolding starts_def initial_parts_def
  using ends_expr(1) [OF here_activation]
  by (auto simp: here_activation here_def list_all_iff intro: arg_call_free_expr)

section \<open>User functions\<close>

lemma ends_in_child:
  assumes "activation A" and "ends B F" and "\<And>s. A s \<Longrightarrow> B (child s)"
  shows "ends A (\<lambda>c s. in_child (child s) (F c) s)"
proof (rule endsI)
  show "follows (\<lambda>s. in_child (child s) (F c) s) (\<lambda>s. in_child (child s) (F d) s)" if "follows_calls c d" for c d
    using ends_mono [OF assms(2)] that by (intro follows_in_child) (simp add: monotone_calls_def)
  show "\<exists>n. in_child (child s) (F (interp n)) s \<noteq> NoFuel" if "A s" for s
  proof -
    obtain n where "F (interp n) (child s) \<noteq> NoFuel"
      using assms(2,3) \<open>A s\<close> by (auto simp: ends_def)
    then have "in_child (child s) (F (interp n)) s \<noteq> NoFuel"
      by (auto simp: in_child_def split: run.splits)
    then show ?thesis by blast
  qed
qed (rule assms(1))

text \<open>A function runs one call deeper; the code refuses the 65th nested call.\<close>

definition terminating :: "project \<Rightarrow> bool" where
  "terminating p \<longleftrightarrow> (\<forall>u \<in> set (pous p). pou_kind u \<noteq> FunctionBlockKind) \<and> bounded_types p"

lemma terminating_blocks: "terminating p \<Longrightarrow> find_function_block p name = None"
  by (auto simp: terminating_def find_function_block_def find_pou_def find_Some_iff split: option.splits)

lemma quiet_here:
  "terminating p \<Longrightarrow> u \<in> set (pous p) \<Longrightarrow> calls_end (here p u k) \<Longrightarrow> quiet (here p u k) p"
  unfolding quiet_def starts_def initial_parts_def
  using ends_expr(1) [OF here_activation] here_activation terminating_blocks
  by (auto simp: here_def terminating_def)

lemma ends_call_user_function:
  assumes "args_end (here p u k) args" and "quiet (here p v (Suc k)) p"
  shows "ends (here p u k) (\<lambda>c. call_user_function c v args)"
proof -
  have child: "ends (here p u k) (\<lambda>c s. in_child (child_runtime s v)
      (rseq (initialize c Cold) (rseq (bind_function_inputs xs ys) (run_body c b))) s)" for xs ys b
    by (rule ends_in_child [where B = "here p v (Suc k)"],
        (rule ends_rules ends_initialize ends_statement_list quiet_activation here_activation assms(2))+)
      (simp add: here_def child_runtime_def)
  show ?thesis
    unfolding call_user_function_def Let_def
    by (rule child ends_rules ends_call_arguments [OF assms(1)] here_activation | assumption)+
qed

lemma ends_get_function:
  assumes "ends (here p u k) (\<lambda>c. G c None)"
    and "\<And>v. v \<in> set (pous p) \<Longrightarrow> ends (here p u k) (\<lambda>c. G c (Some v))"
    and "\<And>x. monotone_calls (\<lambda>c. G c x)"
  shows "ends (here p u k) (\<lambda>c. rbind (rget (\<lambda>s. find_function (rt_project s) name)) (G c))"
proof (rule ends_bind_get [OF here_activation])
  fix s assume "here p u k s"
  moreover have "v \<in> set (pous p)" if "find_function p name = Some v" for v
    using that by (auto simp: find_function_def find_pou_def find_Some_iff split: option.splits if_splits)
  ultimately show "ends (here p u k) (\<lambda>c. G c (find_function (rt_project s) name))"
    using assms(1,2) by (cases "find_function (rt_project s) name") (auto simp: here_def)
qed (rule assms(3))

lemma ends_default_here: "terminating p \<Longrightarrow> v \<in> set (pous p) \<Longrightarrow> pou_kind v = FunctionKind t \<Longrightarrow>
   ends (here p u k) (\<lambda>c. default_value c t)"
  using ends_values [OF starts_here] bounded_result by (auto simp: terminating_def)

lemma ends_eval_call:
  assumes p: "terminating p" and args: "args_end (here p u k) args"
    and onward: "\<And>v. k < 64 \<Longrightarrow> v \<in> set (pous p) \<Longrightarrow> quiet (here p v (Suc k)) p"
  shows "ends (here p u k) (\<lambda>c. eval_call c name args)"
proof -
  have call: "ends (here p u k) (\<lambda>c. rbind (rget rt_call_depth) (\<lambda>depth.
       if depth \<ge> 64 then rseq (push (msg name)) (ret None) else call_user_function c v args))"
    if v: "v \<in> set (pous p)" for v and msg :: "ident \<Rightarrow> diagnostic" and name
  proof (rule ends_bind_get [OF here_activation])
    fix s assume "here p u k s"
    then have depth: "rt_call_depth s = k"
      by (simp add: here_def)
    show "ends (here p u k) (\<lambda>c. if rt_call_depth s \<ge> 64 then rseq (push (msg name)) (ret None)
        else call_user_function c v args)"
      unfolding depth
      by (rule ends_rules here_activation ends_call_user_function [OF args onward] v | simp)+
  qed (rule monotone_callsI, (rule follows_rules | assumption)+)
  have user: "ends (here p u k) (\<lambda>c. eval_user_function c name args)"
    unfolding eval_user_function_def rtry_def
    by (rule ends_get_function, simp only: option.case, rule ends_rules here_activation, rule here_activation,
        simp only: option.case, (rule call ends_rules ends_call_arguments [OF args] here_activation ends_default_here [OF p] | assumption)+,
        rule monotone_callsI, (rule follows_rules | assumption)+)
  have disabled: "ends (here p u k) (\<lambda>c. rbind (rget (\<lambda>s. find_function (rt_project s) name)) (\<lambda>found.
            case found of
              Some v \<Rightarrow>
                (case pou_kind v of
                   FunctionKind return_type \<Rightarrow> rmap Some (default_value c return_type)
                 | _ \<Rightarrow> ret (Some (VInt 0)))
            | None \<Rightarrow> ret (Some (VInt 0))))" for name
    by (rule ends_get_function, simp only: option.case, rule ends_rules here_activation, rule here_activation,
        simp only: option.case, (rule ends_rules here_activation ends_default_here [OF p] | assumption)+,
        rule monotone_callsI, (rule follows_rules | assumption)+)
  show ?thesis
    unfolding eval_call_def call_disabled_def
    by (rule user disabled ends_rules ends_call_arguments [OF args] here_activation | assumption)+
qed

lemma quiet_program_state:
  assumes "terminating p" and "u \<in> set (pous p)"
  shows "quiet (here p u k) p"
  using assms(2)
proof (induction "64 - k" arbitrary: u k rule: less_induct)
  case less
  have "calls_end (here p u k)"
    unfolding calls_end_def
    by (auto intro!: ends_eval_call assms(1) less)
  then show ?case
    by (rule quiet_here [OF assms(1) less.prems])
qed

section \<open>Runs\<close>

lemma find_program_mem: "find_program p name = Some u \<Longrightarrow> u \<in> set (pous p)"
  by (auto simp: find_program_def find_pou_def first_program_def find_Some_iff split: option.splits if_splits)

text \<open>C3: A run ends whatever its loops, jumps and recursive functions do: with enough fuel it has a
  result, for every build, platform, number of cycles, options and access writes. The loops are
  bounded by the options and recursion by the call depth. The project must have no function
  blocks of its own, no data type that contains itself, and no field of a structure that starts
  with an expression that calls a function (\<open>bounded_types\<close>; a disabled call of a function
  returns the default value of its type, which may start with that call again).\<close>

theorem run_terminates:
  assumes "\<forall>u \<in> set (pous p). pou_kind u \<noteq> FunctionBlockKind" and "bounded_types p"
  shows "\<exists>n. run_program_with_runtime_services n pf p name cycles options hooks writes \<noteq> None"
proof (cases "cycles > max_scan_cycles options \<or> find_program p name = None")
  case False
  then obtain u where u: "find_program p name = Some u"
    by auto
  have "ends (here p u 0) (\<lambda>c. run_machine c writes cycles)"
    using assms find_program_mem [OF u]
    by (intro ends_run_machine [where p = p] quiet_program_state) (simp_all add: terminating_def)
  moreover have "here p u 0 (start_runtime pf p u options hooks)"
    by (simp add: here_def start_runtime_def)
  ultimately obtain n where "run_machine (interp n) writes cycles (start_runtime pf p u options hooks) \<noteq> NoFuel"
    by (auto simp: ends_def)
  then have "run_program_with_runtime_services n pf p name cycles options hooks writes \<noteq> None"
    using False u by (auto simp: run_program_with_runtime_services_def finish_def split: run.splits)
  then show ?thesis by blast
qed (auto simp: run_program_with_runtime_services_def)

text \<open>A function that calls itself, called in a loop that never stops by itself.\<close>

definition endless_project :: project where
  "endless_project = (project_new Strict2003)\<lparr>prj_elements :=
     [PouElement \<lparr> pou_name = ident_new ''F'', pou_kind = FunctionKind (DtElementary EInt), pou_var_blocks = [],
        pou_body = structured_text [AssignmentS (variable_named ''F'') (CallE (ident_new ''F'') [])] \<rparr>,
      PouElement \<lparr> pou_name = ident_new ''Main'', pou_kind = ProgramKind,
        pou_var_blocks = [\<lparr> vb_kind = VarLocal, vb_constant = False, vb_retain = None,
          vb_vars = [\<lparr> var_name = ident_new ''X'', var_location = None, var_access = None,
             var_edge = None, var_type = DtElementary EInt, var_initial = None \<rparr>] \<rparr>],
        pou_body = structured_text [WhileS (LiteralE (LBool True))
          [AssignmentS (variable_named ''X'') (CallE (ident_new ''F'') [])]] \<rparr>]\<rparr>"

theorem run_terminates_witness:
  "\<exists>n. run_program_with_runtime_services n demo_platform endless_project None 1 default_options
     no_communication_hooks [] \<noteq> None"
proof (rule run_terminates)
  show "\<forall>u \<in> set (pous endless_project). pou_kind u \<noteq> FunctionBlockKind"
    by code_simp
  have "grounded endless_project (DtElementary EInt)"
    by (rule grounded_flat) (simp_all add: resolve_project_spec_def resolve_project_spec_inner.simps)
  then show "bounded_types endless_project"
    by (simp add: bounded_types_def declared_blocks_def endless_project_def project_new_def pous_def configurations_def)
qed

section \<open>A run without end\<close>

text \<open>The condition on the first values of fields is not only a matter of the proof: here the
  default value of the structure \<open>S\<close> starts its field with a disabled call of \<open>F\<close>, whose value
  is the default value of \<open>S\<close>.\<close>

definition disabled_en :: param_assignment where
  "disabled_en = ParamAssignment (Some (ident_new ''EN'')) False False (Some (LiteralE (LBool False))) None"

definition endless_type :: data_type_spec where
  "endless_type = DtNamed (ident_new ''S'')"

definition endless_field :: struct_field where
  "endless_field =
     StructField (ident_new ''A'') (DtElementary EInt) (Some (CallE (ident_new ''F'') [disabled_en]))"

definition endless_start :: project where
  "endless_start = (project_new Strict2003)\<lparr>prj_elements :=
     [DataTypeElement \<lparr> dt_name = ident_new ''S'', dt_spec = DtStruct [endless_field] \<rparr>,
      PouElement \<lparr> pou_name = ident_new ''F'', pou_kind = FunctionKind endless_type,
        pou_var_blocks = [], pou_body = structured_text [] \<rparr>,
      PouElement \<lparr> pou_name = ident_new ''Main'', pou_kind = ProgramKind,
        pou_var_blocks = [\<lparr> vb_kind = VarLocal, vb_constant = False, vb_retain = None,
          vb_vars = [\<lparr> var_name = ident_new ''X'', var_location = None, var_access = None,
             var_edge = None, var_type = endless_type, var_initial = None \<rparr>] \<rparr>],
        pou_body = structured_text [] \<rparr>]\<rparr>"

lemma endless_types:
  "resolve_project_spec endless_start endless_type = DtStruct [endless_field]"
  "resolve_project_spec endless_start (DtElementary EInt) = DtElementary EInt"
  by code_simp+

lemma endless_function:
  "\<exists>u. find_function endless_start ''F'' = Some u \<and> pou_kind u = FunctionKind endless_type"
  "\<not> is_standard_function (original (ident_new ''F''))"
proof -
  have "map_option pou_kind (find_function endless_start ''F'') = Some (FunctionKind endless_type)"
    by code_simp
  then show "\<exists>u. find_function endless_start ''F'' = Some u \<and> pou_kind u = FunctionKind endless_type"
    by auto
qed code_simp

lemma disabled_en:
  "\<not> pa_output disabled_en" "names_en disabled_en" "pa_expr disabled_en = Some (LiteralE (LBool False))"
  by code_simp+

lemma endless_disabled_call:
  assumes "rt_project s = endless_start" and "default_value c endless_type s = NoFuel"
  shows "call_disabled c (ident_new ''F'') [disabled_en] s = NoFuel"
  using assms endless_function
  by (auto simp: call_disabled_def assign_function_eno_def disabled_en rseq_def ident_new_def rmap_def rbind_def rget_def ret_def)

lemma endless_call:
  assumes "rt_project s = endless_start"
    and "\<And>n. n < m \<Longrightarrow> default_value (interp n) endless_type s = NoFuel"
  shows "c_eval (interp m) (CallE (ident_new ''F'') [disabled_en]) s = NoFuel"
proof (cases m)
  case (Suc n)
  have "function_call_enabled (interp n) [disabled_en] s = (if n = 0 then NoFuel else Done False s)"
    by (cases n) (auto simp: function_call_enabled_def disabled_en no_calls_def deeper_def eval_expr_def
        literal_to_value_def as_bool_def rt_defs out_of_fuel_def)
  then show ?thesis
    using Suc assms endless_disabled_call [of s "interp n"]
    by (simp add: deeper_def eval_expr_def eval_call_def rbind_def)
qed (simp add: no_calls_def out_of_fuel_def)

lemma endless_field_start:
  assumes "rt_project s = endless_start"
    and "\<And>n. Suc n < m \<Longrightarrow> default_value (interp n) endless_type s = NoFuel"
  shows "c_initial (interp m) (DtElementary EInt) (sf_initial endless_field) s = NoFuel"
proof (cases m)
  case (Suc n)
  then have "c_eval (interp n) (CallE (ident_new ''F'') [disabled_en]) s = NoFuel"
    using assms by (intro endless_call) auto
  then show ?thesis
    using Suc assms(1) endless_types
    by (simp add: deeper_def initial_value_for_spec_def resolve_named_spec_def endless_field_def rbind_def rget_def)
qed (simp add: no_calls_def out_of_fuel_def)

lemma endless_default:
  "rt_project s = endless_start \<Longrightarrow> default_value (interp n) endless_type s = NoFuel"
proof (induction n arbitrary: s rule: less_induct)
  case (less n)
  then have "c_initial (interp n) (DtElementary EInt) (sf_initial endless_field) s = NoFuel"
    by (intro endless_field_start) auto
  then show ?case
    using less.prems endless_types
    by (simp add: default_value_def resolve_named_spec_def field_value_def rmap_def rbind_def rget_def endless_field_def)
qed

lemma endless_initial:
  assumes "rt_project s = endless_start"
  shows "initial_value_for_spec (interp n) endless_type None s = NoFuel"
  using assms endless_types endless_field_start [OF assms, of n] endless_default [OF assms]
  by (simp add: initial_value_for_spec_def resolve_named_spec_def field_value_def rmap_def rbind_def rget_def
    endless_field_def)

theorem disabled_start_never_ends:
  "run_program_with_runtime_services n pf endless_start None 1 default_options
     no_communication_hooks [] = None"
proof -
  have "map_option pou_var_blocks (find_program endless_start None) = Some
      [\<lparr> vb_kind = VarLocal, vb_constant = False, vb_retain = None,
          vb_vars = [\<lparr> var_name = ident_new ''X'', var_location = None, var_access = None,
             var_edge = None, var_type = endless_type, var_initial = None \<rparr>] \<rparr>] \<and>
     map_option pou_kind (find_program endless_start None) = Some ProgramKind"
    by code_simp
  then obtain u where u: "find_program endless_start None = Some u"
    "pou_kind u = ProgramKind" "pou_var_blocks u = 
      [\<lparr> vb_kind = VarLocal, vb_constant = False, vb_retain = None,
          vb_vars = [\<lparr> var_name = ident_new ''X'', var_location = None, var_access = None,
             var_edge = None, var_type = endless_type, var_initial = None \<rparr>] \<rparr>]"
    by auto
  have g: "project_global_var_decls endless_start k = []" for k
    by (simp add: project_global_var_decls_def endless_start_def pous_def configurations_def project_new_def List.map_filter_simps)
  show ?thesis
    using u g
    by (simp add: run_program_with_runtime_services_def default_options_def finish_def run_machine_def
      initialize_def initialize_result_def initialize_variable_def start_runtime_def set_accumulator_def
      types_insert_def endless_initial rbind_def rseq_def rmodify_def rget_def ret_def bt_contains_def)
qed

end
