(* ===== verification/SynLexer.thy ===== *)
theory SynLexer
  imports Diagnostics IrProgram
begin

text \<open>
  The tokens and the lexer (\<open>iec_syntax/src/token.rs\<close>, \<open>iec_syntax/src/lexer.rs\<close>). The
  lexer keeps the characters that remain and the byte position in the source; every
  position it reports is a position between characters, so that \<open>Span::new\<close> cannot panic
  (\<open>span_at\<close> is its result there). An error is a diagnostic and the lexer goes on.
\<close>

section \<open>Tokens\<close>

datatype symbol =
    SymColon | SymSemicolon | SymAssign | SymComma | SymLParen | SymRParen | SymLBracket | SymRBracket
  | SymDot | SymRange | SymPlus | SymMinus | SymStar | SymSlash | SymPower
  | SymEq | SymNe | SymLt | SymLe | SymGt | SymGe | SymAmp | SymArrow | SymHash

datatype token_kind =
    IdentT string
  | NumberT string
  | StringT string
  | WStringT string
  | HashT string
  | DirectT string
  | SymbolT symbol
  | EofT

record token =
  tk_kind :: token_kind
  tk_lexeme :: string
  tk_span :: span

text \<open>The parameters of the implementation (\<open>ImplementationParameters\<close> of \<open>iec_profile\<close>).\<close>

record implementation_parameters =
  max_source_bytes :: nat
  max_plcopen_xml_bytes :: nat
  max_plcopen_xml_nodes :: nat
  max_plcopen_xml_depth :: nat
  max_plcopen_xml_text_bytes :: nat
  max_plcopen_xml_attribute_bytes :: nat
  max_identifier_length :: nat
  max_comment_length :: nat
  max_expression_depth :: nat
  max_statement_depth :: nat
  max_array_elements :: nat
  max_structure_elements :: nat
  max_string_length :: nat
  max_pous :: nat
  max_variables :: nat
  max_symbols :: nat
  max_generated_c_bytes :: nat
  max_scan_cycles_parameter :: nat
  pragmas_enabled :: bool

section \<open>Characters\<close>

text \<open>A character is the string of its bytes; its code point.\<close>

definition code_point :: "string \<Rightarrow> nat" where
  "code_point ch = (case map byte ch of
       [a] \<Rightarrow> a
     | [a, b] \<Rightarrow> (a - 192) * 64 + (b - 128)
     | [a, b, c] \<Rightarrow> (a - 224) * 4096 + (b - 128) * 64 + (c - 128)
     | [a, b, c, d] \<Rightarrow> (a - 240) * 262144 + (b - 128) * 4096 + (c - 128) * 64 + (d - 128)
     | _ \<Rightarrow> 0)"

text \<open>\<open>char::from_u32\<close> below \<open>0x10000\<close>: no character has the code of a surrogate.\<close>

definition char_from_code :: "nat \<Rightarrow> string option" where
  "char_from_code n =
     (if n < 128 then Some [char_of n]
      else if n < 2048 then Some [char_of (192 + n div 64), char_of (128 + n mod 64)]
      else if 55296 \<le> n \<and> n < 57344 then None
      else Some [char_of (224 + n div 4096), char_of (128 + n div 64 mod 64), char_of (128 + n mod 64)])"

definition upper_hex_digit :: "nat \<Rightarrow> char" where
  "upper_hex_digit n = (if n < 10 then char_of (48 + n) else char_of (55 + n))"

fun upper_hex :: "nat \<Rightarrow> string" where
  "upper_hex n =
     (if n < 16 then [upper_hex_digit n] else upper_hex (n div 16) @ [upper_hex_digit (n mod 16)])"

declare upper_hex.simps [simp del]

definition control_char_label :: "string \<Rightarrow> string" where
  "control_char_label ch =
     (let digits = upper_hex (code_point ch)
      in ''U+'' @ replicate (4 - length digits) (CHR ''0'') @ digits)"

text \<open>A test of an ASCII character on the encoding of any character.\<close>

definition ascii :: "(char \<Rightarrow> bool) \<Rightarrow> string \<Rightarrow> bool" where
  "ascii P ch \<longleftrightarrow> (case ch of [c] \<Rightarrow> P c | _ \<Rightarrow> False)"

definition is_ident_start :: "string \<Rightarrow> bool" where
  "is_ident_start = ascii (\<lambda>c. is_ascii_alphabetic c \<or> c = CHR ''_'')"

definition is_ident_continue :: "string \<Rightarrow> bool" where
  "is_ident_continue = ascii (\<lambda>c. is_ascii_alphanumeric c \<or> c = CHR ''_'')"

definition is_digit_or_underscore :: "string \<Rightarrow> bool" where
  "is_digit_or_underscore = ascii (\<lambda>c. is_ascii_digit c \<or> c = CHR ''_'')"

definition is_ascii_hexdigit :: "string \<Rightarrow> bool" where
  "is_ascii_hexdigit = ascii (\<lambda>c. to_digit 16 c \<noteq> None)"

definition one_of :: "string \<Rightarrow> string \<Rightarrow> bool" where
  "one_of cs = ascii (\<lambda>c. c \<in> set cs)"

definition hash_literal_allows_colon :: "string \<Rightarrow> bool" where
  "hash_literal_allows_colon prefix \<longleftrightarrow>
     prefix \<in> {''TOD'', ''TIME_OF_DAY'', ''DT'', ''DATE_AND_TIME''}"

section \<open>The state\<close>

record lexer =
  lx_name :: string
  lx_source :: string
  lx_pos :: nat
  lx_rest :: "string list"
  lx_implementation :: implementation_parameters
  lx_diagnostics :: "diagnostic list"

definition lexer_new :: "string \<Rightarrow> string \<Rightarrow> implementation_parameters \<Rightarrow> lexer" where
  "lexer_new name source implementation =
     \<lparr> lx_name = name, lx_source = source, lx_pos = 0, lx_rest = chars source,
       lx_implementation = implementation, lx_diagnostics = [] \<rparr>"

definition lx_peek :: "lexer \<Rightarrow> string option" where
  "lx_peek lx = (case lx_rest lx of [] \<Rightarrow> None | ch # _ \<Rightarrow> Some ch)"

definition lx_peek_next :: "lexer \<Rightarrow> string option" where
  "lx_peek_next lx = (case lx_rest lx of _ # ch # _ \<Rightarrow> Some ch | _ \<Rightarrow> None)"

definition lx_advance :: "lexer \<Rightarrow> lexer" where
  "lx_advance lx = (case lx_rest lx of
       [] \<Rightarrow> lx
     | ch # rest \<Rightarrow> lx\<lparr>lx_pos := lx_pos lx + length ch, lx_rest := rest\<rparr>)"

definition lx_starts_with :: "lexer \<Rightarrow> string \<Rightarrow> bool" where
  "lx_starts_with lx s \<longleftrightarrow> take (length s) (lx_rest lx) = map (\<lambda>c. [c]) s"

definition lx_next_is :: "lexer \<Rightarrow> (string \<Rightarrow> bool) \<Rightarrow> bool" where
  "lx_next_is lx P \<longleftrightarrow> (case lx_peek lx of None \<Rightarrow> False | Some ch \<Rightarrow> P ch)"

text \<open>The loop \<open>while self.peek().is_some_and(P) { self.advance(); }\<close>.\<close>

definition lx_skip_while :: "(string \<Rightarrow> bool) \<Rightarrow> lexer \<Rightarrow> lexer" where
  "lx_skip_while P lx =
     lx\<lparr>lx_pos := lx_pos lx + length (concat (takeWhile P (lx_rest lx))),
        lx_rest := dropWhile P (lx_rest lx)\<rparr>"

definition span_at :: "string \<Rightarrow> nat \<Rightarrow> nat \<Rightarrow> string \<Rightarrow> span" where
  "span_at name start stop txt =
     (case fold advance_position (chars (take start txt)) (1, 1) of (line, column) \<Rightarrow>
        \<lparr> span_source = name, span_start = start, span_stop = stop, span_line = line, span_column = column \<rparr>)"

definition lx_error :: "diagnostic_code \<Rightarrow> string \<Rightarrow> nat \<Rightarrow> nat \<Rightarrow> lexer \<Rightarrow> lexer" where
  "lx_error code message start stop lx =
     lx\<lparr>lx_diagnostics := lx_diagnostics lx @
          [diagnostic_error code message (Some (span_at (lx_name lx) start stop (lx_source lx)))]\<rparr>"

text \<open>\<open>self.source[start..self.pos]\<close>.\<close>

definition lx_slice :: "nat \<Rightarrow> lexer \<Rightarrow> string" where
  "lx_slice start lx = take (lx_pos lx - start) (drop start (lx_source lx))"

definition lx_token :: "nat \<Rightarrow> token_kind \<Rightarrow> lexer \<Rightarrow> token" where
  "lx_token start kind lx =
     \<lparr> tk_kind = kind, tk_lexeme = lx_slice start lx,
       tk_span = span_at (lx_name lx) start (lx_pos lx) (lx_source lx) \<rparr>"

section \<open>Progress\<close>

text \<open>The lexer moves over characters and adds diagnostics; nothing else changes.\<close>

definition lx_moves :: "lexer \<Rightarrow> lexer \<Rightarrow> bool" where
  "lx_moves a b \<longleftrightarrow> lx_name b = lx_name a \<and> lx_source b = lx_source a \<and>
     lx_implementation b = lx_implementation a \<and>
     (\<exists>cs. lx_rest a = cs @ lx_rest b \<and> lx_pos b = lx_pos a + length (concat cs)) \<and>
     (\<exists>ds. lx_diagnostics b = lx_diagnostics a @ ds)"

named_theorems moves_rules \<open>steps of the lexer that move on\<close>

lemma moves_refl [moves_rules]: "lx_moves a a"
  by (auto simp: lx_moves_def)

lemma moves_trans: "lx_moves a b \<Longrightarrow> lx_moves b c \<Longrightarrow> lx_moves a c"
  by (force simp: lx_moves_def)

lemma moves_advance [moves_rules]: "lx_moves a b \<Longrightarrow> lx_moves a (lx_advance b)"
proof (erule moves_trans)
  show "lx_moves b (lx_advance b)"
    by (cases "lx_rest b") (auto simp: lx_moves_def lx_advance_def)
qed

lemma moves_skip [moves_rules]: "lx_moves a b \<Longrightarrow> lx_moves a (lx_skip_while P b)"
proof (erule moves_trans)
  show "lx_moves b (lx_skip_while P b)"
    unfolding lx_moves_def lx_skip_while_def by (auto intro: exI [of _ "takeWhile P (lx_rest b)"])
qed

lemma moves_error [moves_rules]: "lx_moves a b \<Longrightarrow> lx_moves a (lx_error code message start stop b)"
  by (erule moves_trans) (auto simp: lx_moves_def lx_error_def)

definition lx_left :: "lexer \<Rightarrow> nat" where
  "lx_left lx = length (lx_rest lx)"

lemma moves_left: "lx_moves a b \<Longrightarrow> lx_left b \<le> lx_left a"
  by (auto simp: lx_moves_def lx_left_def)

lemma lx_left_advance [simp]: "lx_left (lx_advance lx) = lx_left lx - 1"
  by (auto simp: lx_advance_def lx_left_def split: list.splits)

lemma lx_peek_left: "lx_peek lx = Some ch \<Longrightarrow> 0 < lx_left lx"
  by (auto simp: lx_peek_def lx_left_def split: list.splits)

lemma lx_starts_peek: "lx_starts_with lx (c # s) \<Longrightarrow> lx_peek lx = Some [c]"
  by (auto simp: lx_starts_with_def lx_peek_def take_Suc split: list.splits)

lemma moves_on: "lx_moves (lx_advance a) b \<Longrightarrow> lx_peek a = Some ch \<Longrightarrow> lx_left b < lx_left a"
  using moves_left [of "lx_advance a" b] lx_peek_left [of a ch] by simp

section \<open>White space, comments and pragmas\<close>

function lx_comment_body :: "bool \<Rightarrow> lexer \<Rightarrow> bool \<times> lexer" where
  "lx_comment_body nested lx =
     (if lx_peek lx = None \<or> lx_starts_with lx ''*)'' then (nested, lx)
      else lx_comment_body (nested \<or> lx_starts_with lx ''(*'') (lx_advance lx))"
  by pat_completeness auto
termination
  by (relation "measure (\<lambda>(_, lx). lx_left lx)") (auto dest: lx_peek_left)

function lx_pragma_body :: "lexer \<Rightarrow> lexer" where
  "lx_pragma_body lx =
     (if lx_peek lx = None \<or> lx_starts_with lx ''}'' then lx else lx_pragma_body (lx_advance lx))"
  by pat_completeness auto
termination
  by (relation "measure lx_left") (auto dest: lx_peek_left)

declare lx_comment_body.simps [simp del] lx_pragma_body.simps [simp del]

definition lx_comment :: "lexer \<Rightarrow> lexer" where
  "lx_comment lx =
     (let start = lx_pos lx;
          (nested, lx) = lx_comment_body False (lx_advance (lx_advance lx));
          lx = (if nested
                then lx_error CodeLexical ''nested comments are not allowed in IEC 61131-3:2003'' start (lx_pos lx) lx
                else lx);
          lx = (if lx_starts_with lx ''*)'' then lx_advance (lx_advance lx)
                else lx_error CodeLexical ''unterminated comment'' start (lx_pos lx) lx);
          len = lx_pos lx - start
      in if len > max_comment_length (lx_implementation lx)
         then lx_error CodeCompliance (''comment length '' @ show_nat len @ '' exceeds maximum '' @
                show_nat (max_comment_length (lx_implementation lx))) start (lx_pos lx) lx
         else lx)"

definition lx_pragma :: "lexer \<Rightarrow> lexer" where
  "lx_pragma lx =
     (let start = lx_pos lx;
          lx = lx_pragma_body (lx_advance lx);
          lx = (if lx_starts_with lx ''}'' then lx_advance lx
                else lx_error CodeLexical ''unterminated pragma'' start (lx_pos lx) lx)
      in if \<not> pragmas_enabled (lx_implementation lx)
         then lx_error CodeCompliance ''pragmas are disabled by implementation parameters'' start (lx_pos lx) lx
         else lx)"

lemma moves_comment_body [moves_rules]: "lx_moves a lx \<Longrightarrow> lx_moves a (snd (lx_comment_body nested lx))"
proof (induction nested lx rule: lx_comment_body.induct)
  case (1 nested lx)
  then show ?case
    using moves_advance [OF 1(2)] by (subst lx_comment_body.simps) simp
qed

lemma moves_pragma_body [moves_rules]: "lx_moves a lx \<Longrightarrow> lx_moves a (lx_pragma_body lx)"
proof (induction lx rule: lx_pragma_body.induct)
  case (1 lx)
  then show ?case
    using moves_advance [OF 1(2)] by (subst lx_pragma_body.simps) simp
qed

lemma moves_comment: "lx_moves (lx_advance lx) (lx_comment lx)"
  unfolding lx_comment_def Let_def case_prod_beta
  by (simp add: moves_rules)

lemma moves_pragma: "lx_moves (lx_advance lx) (lx_pragma lx)"
  by (auto simp: lx_pragma_def Let_def intro!: moves_rules)

function lx_skip_trivia :: "lexer \<Rightarrow> lexer" where
  "lx_skip_trivia lx =
     (let lx = lx_skip_while is_whitespace lx
      in if lx_starts_with lx ''(*'' then lx_skip_trivia (lx_comment lx)
         else if lx_starts_with lx ''{'' then lx_skip_trivia (lx_pragma lx)
         else lx)"
  by pat_completeness auto
termination
proof (relation "measure lx_left", goal_cases)
  case (2 lx x)
  then show ?case
    using moves_on [OF moves_comment lx_starts_peek] moves_left [OF moves_skip [OF moves_refl]]
    by (fastforce intro: less_le_trans)
next
  case (3 lx x)
  then show ?case
    using moves_on [OF moves_pragma lx_starts_peek] moves_left [OF moves_skip [OF moves_refl]]
    by (fastforce intro: less_le_trans)
qed simp

declare lx_skip_trivia.simps [simp del]

lemma moves_trivia [moves_rules]: "lx_moves a lx \<Longrightarrow> lx_moves a (lx_skip_trivia lx)"
proof (induction lx arbitrary: a rule: lx_skip_trivia.induct)
  case (1 lx)
  let ?lx = "lx_skip_while is_whitespace lx"
  have "lx_moves a (lx_comment ?lx)" "lx_moves a (lx_pragma ?lx)" "lx_moves a ?lx"
    using 1(3) by (auto intro!: moves_rules intro: moves_trans [OF _ moves_comment] moves_trans [OF _ moves_pragma])
  then show ?case
    using 1(1,2) by (subst lx_skip_trivia.simps) (simp add: Let_def)
qed

section \<open>Identifiers, numbers and typed literals\<close>

function lx_hash_tail :: "bool \<Rightarrow> lexer \<Rightarrow> lexer" where
  "lx_hash_tail allow_colon lx =
     (case lx_peek lx of
        None \<Rightarrow> lx
      | Some ch \<Rightarrow>
          (if is_whitespace ch \<or> one_of '';,)]([ '' ch \<or>
              (\<not> allow_colon \<and> ch = '':'' \<and>
                (case lx_peek_next lx of Some next_ch \<Rightarrow> \<not> ascii is_ascii_digit next_ch | None \<Rightarrow> True))
           then lx else lx_hash_tail allow_colon (lx_advance lx)))"
  by pat_completeness auto
termination
  by (relation "measure (\<lambda>(_, lx). lx_left lx)") (auto dest: lx_peek_left)

text \<open>After the opening quote: up to the closing one; \<open>$\<close> takes the next character with it.\<close>

function lx_typed_string_body :: "string \<Rightarrow> lexer \<Rightarrow> lexer" where
  "lx_typed_string_body quote_ch lx =
     (case lx_peek lx of
        None \<Rightarrow> lx
      | Some ch \<Rightarrow>
          (if ch = ''$'' then lx_typed_string_body quote_ch (lx_advance (lx_advance lx))
           else if ch = quote_ch then lx_advance lx
           else lx_typed_string_body quote_ch (lx_advance lx)))"
  by pat_completeness auto
termination
  by (relation "measure (\<lambda>(_, lx). lx_left lx)") (auto dest: lx_peek_left)

declare lx_hash_tail.simps [simp del] lx_typed_string_body.simps [simp del]

definition is_quote :: "string \<Rightarrow> bool" where
  "is_quote ch \<longleftrightarrow> ch = [CHR 0x27] \<or> ch = [CHR 0x22]"

definition lx_typed_string_tail :: "lexer \<Rightarrow> lexer" where
  "lx_typed_string_tail lx = (case lx_peek lx of
       Some ch \<Rightarrow>
         (if is_quote ch then lx_typed_string_body ch (lx_advance lx) else lx_advance lx)
     | None \<Rightarrow> lx)"

definition lex_identifier_or_hash_literal :: "nat \<Rightarrow> lexer \<Rightarrow> token \<times> lexer" where
  "lex_identifier_or_hash_literal start lx =
     (let lx = lx_skip_while is_ident_continue (lx_advance lx)
      in if lx_peek lx = Some ''#'' then
           let prefix = canonical_identifier (lx_slice start lx);
               lx = lx_advance lx;
               lx = (if prefix \<in> {''STRING'', ''WSTRING''} \<and> lx_next_is lx is_quote
                     then lx_typed_string_tail lx
                     else lx_hash_tail (hash_literal_allows_colon prefix) lx)
           in (lx_token start (HashT (lx_slice start lx)) lx, lx)
         else (lx_token start (IdentT (lx_slice start lx)) lx, lx))"

definition lx_fraction :: "lexer \<Rightarrow> lexer" where
  "lx_fraction lx =
     (if lx_peek lx = Some ''.'' \<and> \<not> lx_starts_with lx ''..''
      then lx_skip_while is_digit_or_underscore (lx_advance lx) else lx)"

definition lx_exponent :: "lexer \<Rightarrow> lexer" where
  "lx_exponent lx =
     (if lx_next_is lx (one_of ''eE'') then
        let lx = lx_advance lx;
            lx = (if lx_next_is lx (one_of ''+-'') then lx_advance lx else lx)
        in lx_skip_while is_digit_or_underscore lx
      else lx)"

definition lex_number_or_hash_literal :: "nat \<Rightarrow> lexer \<Rightarrow> token \<times> lexer" where
  "lex_number_or_hash_literal start lx =
     (let lx = lx_skip_while is_digit_or_underscore (lx_advance lx)
      in if lx_peek lx = Some ''#'' then
           let lx = lx_hash_tail False (lx_advance lx)
           in (lx_token start (HashT (lx_slice start lx)) lx, lx)
         else
           let lx = lx_exponent (lx_fraction lx)
           in (lx_token start (NumberT (lx_slice start lx)) lx, lx))"

definition lex_direct_variable :: "nat \<Rightarrow> lexer \<Rightarrow> token \<times> lexer" where
  "lex_direct_variable start lx =
     (let lx = lx_skip_while (\<lambda>ch. \<not> (is_whitespace ch \<or> one_of '';,)([]'' ch)) (lx_advance lx)
      in (lx_token start (DirectT (lx_slice start lx)) lx, lx))"

lemma moves_hash_tail [moves_rules]: "lx_moves a lx \<Longrightarrow> lx_moves a (lx_hash_tail allow lx)"
proof (induction allow lx rule: lx_hash_tail.induct)
  case (1 allow lx)
  then show ?case
    using moves_advance [OF 1(2)] by (subst lx_hash_tail.simps) (simp split: option.splits)
qed

lemma moves_typed_body [moves_rules]: "lx_moves a lx \<Longrightarrow> lx_moves a (lx_typed_string_body q lx)"
proof (induction q lx rule: lx_typed_string_body.induct)
  case (1 q lx)
  then show ?case
    using moves_advance [OF 1(3)] moves_advance [OF moves_advance [OF 1(3)]]
    by (subst lx_typed_string_body.simps) (simp split: option.splits)
qed

lemma moves_tails [moves_rules]:
  "lx_moves a lx \<Longrightarrow> lx_moves a (lx_typed_string_tail lx)"
  "lx_moves a lx \<Longrightarrow> lx_moves a (lx_fraction lx)"
  "lx_moves a lx \<Longrightarrow> lx_moves a (lx_exponent lx)"
  by (auto simp: lx_typed_string_tail_def lx_fraction_def lx_exponent_def Let_def intro!: moves_rules
      split: option.splits)

lemma moves_words:
  "lx_moves (lx_advance lx) (snd (lex_identifier_or_hash_literal start lx))"
  "lx_moves (lx_advance lx) (snd (lex_number_or_hash_literal start lx))"
  "lx_moves (lx_advance lx) (snd (lex_direct_variable start lx))"
  by (auto simp: lex_identifier_or_hash_literal_def lex_number_or_hash_literal_def lex_direct_variable_def Let_def
      intro!: moves_rules)

section \<open>Character strings\<close>

definition decoded_escape :: "string \<Rightarrow> string option" where
  "decoded_escape ch =
     (if ch = ''$'' then Some ''$''
      else if ch = [CHR 0x27] then Some [CHR 0x27]
      else if ch = [CHR 0x22] then Some [CHR 0x22]
      else if one_of ''LlNn'' ch then Some [CHR 0x0A]
      else if one_of ''Pp'' ch then Some [CHR 0x0C]
      else if one_of ''Rr'' ch then Some [CHR 0x0D]
      else if one_of ''Tt'' ch then Some [CHR 0x09]
      else None)"

fun lx_hex_digits :: "nat \<Rightarrow> lexer \<Rightarrow> string \<times> lexer" where
  "lx_hex_digits 0 lx = ([], lx)"
| "lx_hex_digits (Suc n) lx = (case lx_peek lx of
       None \<Rightarrow> ([], lx)
     | Some ch \<Rightarrow>
         (if \<not> is_ascii_hexdigit ch then ([], lx)
          else case lx_hex_digits n (lx_advance lx) of (digits, lx') \<Rightarrow> (ch @ digits, lx')))"

definition lex_hex_string_escape :: "nat \<Rightarrow> string \<Rightarrow> string \<Rightarrow> lexer \<Rightarrow> string \<times> lexer" where
  "lex_hex_string_escape escape_start quote_ch value lx =
     (let required = (if quote_ch = [CHR 0x27] then 2 else 4);
          (digits, lx) = lx_hex_digits required lx
      in if length digits \<noteq> required then
           (value,
            lx_error CodeLexical (''invalid character string hex escape '' @ [CHR 0x27] @ ''$'' @ digits @ [CHR 0x27] @
              '': expected '' @ show_nat required @ '' hexadecimal digit(s)'') escape_start (lx_pos lx) lx)
         else case char_from_code (case digits_value 16 0 digits of Some n \<Rightarrow> n | None \<Rightarrow> 0) of
           Some ch \<Rightarrow> (value @ ch, lx)
         | None \<Rightarrow>
             (value,
              lx_error CodeLexical (''invalid character code '' @ [CHR 0x27] @ ''$'' @ digits @ [CHR 0x27] @
                '' in character string literal'') escape_start (lx_pos lx) lx))"

definition lex_string_escape :: "nat \<Rightarrow> string \<Rightarrow> string \<Rightarrow> lexer \<Rightarrow> string \<times> lexer" where
  "lex_string_escape escape_start quote_ch value lx =
     (case lx_peek lx of
        None \<Rightarrow>
          (value, lx_error CodeLexical ''unterminated character string escape'' escape_start (lx_pos lx) lx)
      | Some escaped \<Rightarrow>
          (case decoded_escape escaped of
             Some decoded \<Rightarrow> (value @ decoded, lx_advance lx)
           | None \<Rightarrow>
               (if is_ascii_hexdigit escaped then lex_hex_string_escape escape_start quote_ch value lx
                else
                  (value,
                   lx_advance (lx_error CodeLexical
                     (''invalid character string escape '' @ [CHR 0x27] @ ''$'' @ escaped @ [CHR 0x27])
                     escape_start (lx_pos lx + length escaped) lx)))))"

text \<open>A character that is not escaped: the checks of its code.\<close>

definition lex_string_char :: "string \<Rightarrow> string \<Rightarrow> lexer \<Rightarrow> lexer" where
  "lex_string_char quote_ch ch lx =
     (let stop = lx_pos lx + length ch;
          lx = (if is_control ch
                then lx_error CodeLexical (''unescaped control character '' @ control_char_label ch @
                       '' in character string literal'') (lx_pos lx) stop lx
                else lx);
          lx = (if quote_ch = [CHR 0x27] \<and> code_point ch > 255
                then lx_error CodeLexical (''character '' @ control_char_label ch @
                       '' exceeds single-byte STRING range in character string literal'') (lx_pos lx) stop lx
                else lx)
      in lx_advance lx)"

definition string_kind :: "string \<Rightarrow> string \<Rightarrow> token_kind" where
  "string_kind quote_ch value = (if quote_ch = [CHR 0x22] then WStringT value else StringT value)"

lemma moves_hex_digits [moves_rules]: "lx_moves a lx \<Longrightarrow> lx_moves a (snd (lx_hex_digits n lx))"
proof (induction n arbitrary: lx)
  case (Suc n)
  then show ?case
    using Suc.IH [OF moves_advance [OF Suc.prems]] by (simp add: case_prod_beta split: option.splits)
qed simp

lemma moves_string_escape [moves_rules]:
  "lx_moves a lx \<Longrightarrow> lx_moves a (snd (lex_hex_string_escape start q value lx))"
  "lx_moves a lx \<Longrightarrow> lx_moves a (snd (lex_string_escape start q value lx))"
  unfolding lex_string_escape_def lex_hex_string_escape_def Let_def case_prod_beta
  by (simp_all add: moves_rules split: option.splits)

lemma advance_error: "lx_advance (lx_error code message start stop lx) = lx_error code message start stop (lx_advance lx)"
  by (simp add: lx_advance_def lx_error_def split: list.splits)

lemma moves_string_char: "lx_moves (lx_advance lx) (lex_string_char q ch lx)"
  unfolding lex_string_char_def Let_def
  by (simp add: advance_error moves_rules)

lemma left_string_escape:
  "lx_peek lx = Some ch \<Longrightarrow> (v', lx') = lex_string_escape s q v (lx_advance lx) \<Longrightarrow> lx_left lx' < lx_left lx"
  using moves_string_escape(2) [OF moves_refl, of "lx_advance lx" s q v] moves_on [of lx lx'] by (metis snd_conv)

lemma left_string_char: "lx_peek lx = Some ch \<Longrightarrow> lx_left (lex_string_char q ch' lx) < lx_left lx"
  by (rule moves_on [OF moves_string_char])

function lex_string_body :: "nat \<Rightarrow> string \<Rightarrow> string \<Rightarrow> lexer \<Rightarrow> token \<times> lexer" where
  "lex_string_body start quote_ch value lx =
     (case lx_peek lx of
        None \<Rightarrow>
          (let lx = lx_error CodeLexical ''unterminated string literal'' start (lx_pos lx) lx
           in (lx_token start (string_kind quote_ch value) lx, lx))
      | Some ch \<Rightarrow>
          (if ch = quote_ch then
             let lx = lx_advance lx in (lx_token start (string_kind quote_ch value) lx, lx)
           else if ch = ''$'' then
             (case lex_string_escape (lx_pos lx) quote_ch value (lx_advance lx) of
                (value', lx') \<Rightarrow> lex_string_body start quote_ch value' lx')
           else lex_string_body start quote_ch (value @ ch) (lex_string_char quote_ch ch lx)))"
  by pat_completeness auto
termination
  by (relation "measure (\<lambda>(_, _, _, lx). lx_left lx)")
    (auto simp: left_string_char split: prod.splits intro: left_string_escape [OF _ sym])

declare lex_string_body.simps [simp del]

definition lex_string :: "nat \<Rightarrow> string \<Rightarrow> lexer \<Rightarrow> token \<times> lexer" where
  "lex_string start quote_ch lx = lex_string_body start quote_ch [] (lx_advance lx)"

lemma moves_string_body: "lx_moves a lx \<Longrightarrow> lx_moves a (snd (lex_string_body start q v lx))"
proof (induction start q v lx arbitrary: a rule: lex_string_body.induct)
  case (1 start q v lx)
  have "lx_moves a (lex_string_char q ch lx)" for ch
    using moves_trans [OF moves_advance [OF 1(3)] moves_string_char] .
  moreover have "lx_moves a (snd (lex_string_escape (lx_pos lx) q v (lx_advance lx)))"
    using 1(3) by (intro moves_rules)
  then have "lex_string_escape (lx_pos lx) q v (lx_advance lx) = (v', lx') \<Longrightarrow> lx_moves a lx'" for v' lx'
    by simp
  ultimately show ?case
    using 1 by (subst lex_string_body.simps) (auto simp: Let_def moves_rules split: option.splits prod.splits)
qed

section \<open>The lexer\<close>

text \<open>The symbols: of one character, or of two when the second one follows.\<close>

definition two_symbols :: "string \<Rightarrow> (string \<times> symbol) list \<times> symbol \<Rightarrow> lexer \<Rightarrow> symbol \<times> lexer" where
  "two_symbols ch choice lx =
     (let lx = lx_advance lx in
      case List.find (\<lambda>(second, symb). lx_peek lx = Some second) (fst choice) of
        Some (second, symb) \<Rightarrow> (symb, lx_advance lx)
      | None \<Rightarrow> (snd choice, lx))"

definition symbol_choice :: "string \<Rightarrow> ((string \<times> symbol) list \<times> symbol) option" where
  "symbol_choice ch =
     (if ch = '':'' then Some ([(''='', SymAssign)], SymColon)
      else if ch = ''='' then Some ([(''>'', SymArrow)], SymEq)
      else if ch = '';'' then Some ([], SymSemicolon)
      else if ch = '','' then Some ([], SymComma)
      else if ch = ''('' then Some ([], SymLParen)
      else if ch = '')'' then Some ([], SymRParen)
      else if ch = ''['' then Some ([], SymLBracket)
      else if ch = '']'' then Some ([], SymRBracket)
      else if ch = ''.'' then Some ([(''.'', SymRange)], SymDot)
      else if ch = ''+'' then Some ([], SymPlus)
      else if ch = ''-'' then Some ([], SymMinus)
      else if ch = ''*'' then Some ([(''*'', SymPower)], SymStar)
      else if ch = ''/'' then Some ([], SymSlash)
      else if ch = ''<'' then Some ([(''='', SymLe), (''>'', SymNe)], SymLt)
      else if ch = ''>'' then Some ([(''='', SymGe)], SymGt)
      else if ch = ''&'' then Some ([], SymAmp)
      else if ch = ''#'' then Some ([], SymHash)
      else None)"

text \<open>The token that starts with a character, or none when the character is reported.\<close>

definition lex_token :: "string \<Rightarrow> lexer \<Rightarrow> token option \<times> lexer" where
  "lex_token ch lx =
     (let start = lx_pos lx in
      if is_ident_start ch then apfst Some (lex_identifier_or_hash_literal start lx)
      else if ascii is_ascii_digit ch then apfst Some (lex_number_or_hash_literal start lx)
      else if is_quote ch then apfst Some (lex_string start ch lx)
      else if ch = ''%'' then apfst Some (lex_direct_variable start lx)
      else case symbol_choice ch of
        Some choice \<Rightarrow>
          (case two_symbols ch choice lx of
             (symb, lx) \<Rightarrow> (Some (lx_token start (SymbolT symb) lx), lx))
      | None \<Rightarrow>
          (let lx = lx_advance lx
           in (None, lx_error CodeLexical (''unexpected character '' @ [CHR 0x27] @ ch @ [CHR 0x27])
                       start (lx_pos lx) lx)))"

lemma moves_token: "lx_moves (lx_advance lx) (snd (lex_token ch lx))"
  unfolding lex_token_def two_symbols_def Let_def case_prod_beta
  by (auto simp: moves_words lex_string_def moves_rules moves_string_body split: option.splits)

lemma left_token:
  "lx_peek (lx_skip_trivia lx) = Some ch \<Longrightarrow> (found, lx') = lex_token ch (lx_skip_trivia lx) \<Longrightarrow>
   lx_left lx' < lx_left lx"
  using moves_on [OF moves_token, of "lx_skip_trivia lx" ch ch] moves_left [OF moves_trivia [OF moves_refl], of lx]
  by (metis less_le_trans snd_conv)

function lex_tokens :: "lexer \<Rightarrow> token list \<times> lexer" where
  "lex_tokens lx =
     (let lx = lx_skip_trivia lx in
      case lx_peek lx of
        None \<Rightarrow> ([], lx)
      | Some ch \<Rightarrow>
          (case lex_token ch lx of (found, lx') \<Rightarrow>
             case lex_tokens lx' of (tokens, lx'') \<Rightarrow>
               (case found of None \<Rightarrow> tokens | Some t \<Rightarrow> t # tokens, lx'')))"
  by pat_completeness auto
termination
  by (relation "measure lx_left") (simp_all add: left_token)

declare lex_tokens.simps [simp del]

definition lex :: "lexer \<Rightarrow> token list \<times> lexer" where
  "lex lx =
     (case lex_tokens lx of (tokens, lx') \<Rightarrow>
        (tokens @ [\<lparr> tk_kind = EofT, tk_lexeme = [],
                     tk_span = span_at (lx_name lx') (lx_pos lx') (lx_pos lx') (lx_source lx') \<rparr>], lx'))"

lemma moves_tokens: "lx_moves a lx \<Longrightarrow> lx_moves a (snd (lex_tokens lx))"
proof (induction lx arbitrary: a rule: lex_tokens.induct)
  case (1 lx)
  show ?case
  proof (cases "lx_peek (lx_skip_trivia lx)")
    case None
    then show ?thesis
      using moves_trivia [OF 1(2)] by (subst lex_tokens.simps) simp
  next
    case (Some ch)
    obtain found lx' where token: "lex_token ch (lx_skip_trivia lx) = (found, lx')"
      by force
    then have "lx_moves a lx'"
      using moves_trans [OF moves_advance [OF moves_trivia [OF 1(2)]] moves_token] by (metis snd_conv)
    then have "lx_moves a (snd (lex_tokens lx'))"
      by (rule 1(1) [OF refl Some token [symmetric]])
    then show ?thesis
      using Some token by (subst lex_tokens.simps) (simp add: case_prod_beta)
  qed
qed

end
