(* ===== verification/SynLiteral.thy ===== *)
theory SynLiteral
  imports SynLexer RtSupport
begin

text \<open>
  The literals of the source text (\<open>iec_syntax/src/literal.rs\<close>) and the names of the
  operators of instruction lists (\<open>iec_syntax/src/il.rs\<close>). A literal that is not well
  formed gives a value and the messages the parser reports. The calendar arithmetic of date
  literals overflows on years near the ends of \<open>i64\<close>: there the result is \<open>Panic\<close> when
  the build checks overflow.
\<close>

section \<open>Numbers\<close>

definition valid_underscore_placement :: "string \<Rightarrow> bool" where
  "valid_underscore_placement raw \<longleftrightarrow>
     \<not> (raw \<noteq> [] \<and> (hd raw = CHR ''_'' \<or> last raw = CHR ''_'')) \<and> \<not> double_underscore raw"

definition quoted :: "string \<Rightarrow> string" where
  "quoted s = [CHR 0x27] @ s @ [CHR 0x27]"

definition parse_number_literal_checked :: "string \<Rightarrow> expr \<times> string list" where
  "parse_number_literal_checked raw =
     (let diagnostics = (if valid_underscore_placement raw then []
                         else [''invalid underscore placement in numeric literal '' @ quoted raw]);
          normalized = without_underscores raw
      in if CHR ''.'' \<in> set normalized \<or> CHR ''e'' \<in> set normalized \<or> CHR ''E'' \<in> set normalized then
           (case parse_f64 normalized of
              Some x \<Rightarrow>
                (if f64_is_finite x then (LiteralE (LReal x), diagnostics)
                 else (LiteralE (LReal (f64_of_int 0)), diagnostics @ [''invalid real literal '' @ quoted raw]))
            | None \<Rightarrow> (LiteralE (LReal (f64_of_int 0)), diagnostics @ [''invalid real literal '' @ quoted raw]))
         else
           (case parse_i64 normalized of
              Some n \<Rightarrow> (LiteralE (LInt n), diagnostics)
            | None \<Rightarrow> (LiteralE (LInt 0), diagnostics @ [''invalid integer literal '' @ quoted raw])))"

definition parse_based_i128 :: "string \<Rightarrow> nat \<Rightarrow> string + int" where
  "parse_based_i128 raw base =
     (if \<not> valid_underscore_placement raw
      then Inl (''invalid underscore placement in based literal '' @ quoted raw)
      else let digits = without_underscores raw in
        if digits = [] then Inl ''empty based literal''
        else if list_ex (\<lambda>c. to_digit base c = None) digits
        then Inl (''invalid base-'' @ show_nat base @ '' digit sequence '' @ quoted raw)
        else case from_str_radix_signed base i128_min i128_max digits of
          Some n \<Rightarrow> Inr n
        | None \<Rightarrow> Inl (''based literal '' @ quoted raw @ '' is too large''))"

definition parse_based_i64 :: "string \<Rightarrow> nat \<Rightarrow> string + int" where
  "parse_based_i64 raw base = (case parse_based_i128 raw base of
       Inl message \<Rightarrow> Inl message
     | Inr n \<Rightarrow> (if in_i64 n then Inr n else Inl (''based literal '' @ quoted raw @ '' is outside LINT range'')))"

definition parse_based_int_literal :: "string \<Rightarrow> nat \<Rightarrow> string \<Rightarrow> literal \<times> string list" where
  "parse_based_int_literal raw base full_raw = (case parse_based_i64 raw base of
       Inr n \<Rightarrow> (LInt n, [])
     | Inl message \<Rightarrow> (LInt 0, [message @ '' in literal '' @ quoted full_raw]))"

definition parse_integer_text_i128 :: "string \<Rightarrow> string + int" where
  "parse_integer_text_i128 raw =
     (case split_once (CHR ''#'') raw of
        Some (base, digits) \<Rightarrow>
          (let b = canonical_identifier base in
           if b = ''2'' then parse_based_i128 digits 2
           else if b = ''8'' then parse_based_i128 digits 8
           else if b = ''16'' then parse_based_i128 digits 16
           else Inl (''unsupported integer base '' @ quoted b))
      | None \<Rightarrow>
          (if \<not> valid_underscore_placement raw
           then Inl (''invalid underscore placement in integer literal '' @ quoted raw)
           else case parse_i128 (without_underscores raw) of
             Some n \<Rightarrow> Inr n
           | None \<Rightarrow> Inl (''invalid integer literal '' @ quoted raw)))"

definition parse_bool_literal_value :: "string \<Rightarrow> bool option" where
  "parse_bool_literal_value raw =
     (let c = canonical_identifier raw in
      if c = ''1'' \<or> c = ''TRUE'' then Some True
      else if c = ''0'' \<or> c = ''FALSE'' then Some False
      else None)"

section \<open>Durations\<close>

definition valid_duration_number :: "string \<Rightarrow> bool" where
  "valid_duration_number raw \<longleftrightarrow>
     valid_underscore_placement raw \<and>
     length (filter (\<lambda>c. c = CHR ''.'') raw) \<le> 1 \<and>
     list_all (\<lambda>c. c = CHR ''.'' \<or> is_ascii_digit c \<or> c = CHR ''_'') raw \<and>
     list_ex is_ascii_digit raw"

text \<open>The unit at the start: factor, length, rank and name.\<close>

definition duration_unit :: "string \<Rightarrow> (int \<times> nat \<times> nat \<times> string) option" where
  "duration_unit rest =
     (if starts_with rest ''ms'' then Some (1, 2, 1, ''ms'')
      else if starts_with rest ''d'' then Some (86400000, 1, 5, ''d'')
      else if starts_with rest ''h'' then Some (3600000, 1, 4, ''h'')
      else if starts_with rest ''m'' then Some (60000, 1, 3, ''m'')
      else if starts_with rest ''s'' then Some (1000, 1, 2, ''s'')
      else None)"

text \<open>The check of a component that is not the only one.\<close>

definition duration_excess :: "string \<Rightarrow> f64 \<Rightarrow> string \<Rightarrow> string option" where
  "duration_excess unit number number_text =
     (if unit = ''h'' \<and> f64_ge number (f64_of_int 24)
      then Some (''duration hours component '' @ number_text @ '' exceeds 23'')
      else if unit \<in> {''m'', ''s''} \<and> f64_ge number (f64_of_int 60)
      then Some (''duration '' @ unit @ '' component '' @ number_text @ '' exceeds 59'')
      else if unit = ''ms'' \<and> f64_ge number (f64_of_int 1000)
      then Some (''duration milliseconds component '' @ number_text @ '' exceeds 999'')
      else None)"

lemma duration_unit_pos: "duration_unit rest = Some (f, k, r, u) \<Longrightarrow> 0 < k"
  by (auto simp: duration_unit_def split: if_splits)

function duration_sum :: "string \<Rightarrow> string \<Rightarrow> f64 \<Rightarrow> nat \<Rightarrow> bool \<Rightarrow> string + f64 \<times> bool" where
  "duration_sum raw rest sum_ms previous_rank saw =
     (if rest = [] then Inr (sum_ms, saw)
      else
        let number_text = takeWhile is_number_char rest;
            rest' = dropWhile is_number_char rest
        in
        if number_text = [] then Inl (''invalid duration literal '' @ quoted (''T#'' @ raw))
        else if \<not> valid_duration_number number_text
        then Inl (''invalid duration component '' @ quoted number_text)
        else case parse_f64 number_text of
          None \<Rightarrow> Inl (''invalid duration component '' @ quoted number_text)
        | Some number \<Rightarrow>
            (case duration_unit rest' of
               None \<Rightarrow> Inl (''invalid duration unit in '' @ quoted (''T#'' @ raw))
             | Some (factor, consumed, rank, unit) \<Rightarrow>
                 (let has_more = drop consumed rest' \<noteq> [] in
                  if rank \<ge> previous_rank
                  then Inl (''duration components must be ordered largest to smallest in '' @ quoted (''T#'' @ raw))
                  else if has_more \<and> CHR ''.'' \<in> set number_text
                  then Inl (''fractional duration component '' @ quoted (number_text @ unit) @ '' must be last'')
                  else case (if has_more \<or> previous_rank \<noteq> 6 then duration_excess unit number number_text else None) of
                    Some message \<Rightarrow> Inl message
                  | None \<Rightarrow>
                      duration_sum raw (drop consumed rest')
                        (f64_add sum_ms (f64_mul number (f64_of_int factor))) rank True)))"
  by pat_completeness auto
termination
proof (relation "measure (\<lambda>(_, rest, _). length rest)", goal_cases)
  case (2 raw rest)
  then have "length (dropWhile is_number_char rest) < length rest"
    by (cases rest) (auto simp: length_dropWhile_le le_imp_less_Suc split: if_splits)
  then show ?case using 2 by simp
qed simp

declare duration_sum.simps [simp del]

definition parse_duration_literal :: "string \<Rightarrow> string + int" where
  "parse_duration_literal raw =
     (let cs = to_ascii_lowercase (without_underscores raw);
          neg = starts_with cs ''-'';
          rest = (if neg then drop 1 cs else cs)
      in if rest = [] then Inl (''invalid duration literal '' @ quoted (''T#'' @ raw))
         else case duration_sum raw rest (f64_of_int 0) 6 False of
           Inl message \<Rightarrow> Inl message
         | Inr (sum_ms, saw) \<Rightarrow>
             (if \<not> saw then Inl (''invalid duration literal '' @ quoted (''T#'' @ raw))
              else Inr ((if neg then - 1 else 1) * f64_to_i128 (f64_round sum_ms))))"

section \<open>Typed character strings\<close>

text \<open>The hexadecimal digits at the start, at most \<open>n\<close>.\<close>

definition hex_run :: "nat \<Rightarrow> string list \<Rightarrow> string list" where
  "hex_run n cs = takeWhile is_ascii_hexdigit (take n cs)"

function decode_character_string_body :: "string \<Rightarrow> bool \<Rightarrow> string list \<Rightarrow> string \<times> string list" where
  "decode_character_string_body full_raw wide [] = ([], [])"
| "decode_character_string_body full_raw wide (ch # cs) =
     (if ch \<noteq> ''$'' then
        (case decode_character_string_body full_raw wide cs of (value, messages) \<Rightarrow>
           (ch @ value,
            (if is_control ch
             then [''unescaped control character '' @ control_char_label ch @
                   '' in character string literal '' @ quoted full_raw] else []) @
            (if \<not> wide \<and> code_point ch > 255
             then [''character '' @ control_char_label ch @
                   '' exceeds single-byte STRING range in literal '' @ quoted full_raw] else []) @
            messages))
      else case cs of
        [] \<Rightarrow> ([], [''unterminated character string escape in literal '' @ quoted full_raw])
      | escaped # rest \<Rightarrow>
          (case decoded_escape escaped of
             Some decoded \<Rightarrow> apfst ((@) decoded) (decode_character_string_body full_raw wide rest)
           | None \<Rightarrow>
               (if is_ascii_hexdigit escaped then
                  let required = (if wide then 4 else 2);
                      run = hex_run required cs;
                      digits = concat run;
                      (value, messages) = decode_character_string_body full_raw wide (drop (length run) cs)
                  in if length digits \<noteq> required then
                       (value, (''invalid character string hex escape '' @ quoted (''$'' @ digits) @ '' in literal '' @
                          quoted full_raw @ '': expected '' @ show_nat required @ '' hexadecimal digit(s)'') # messages)
                     else case char_from_code (case digits_value 16 0 digits of Some n \<Rightarrow> n | None \<Rightarrow> 0) of
                       Some decoded \<Rightarrow> (decoded @ value, messages)
                     | None \<Rightarrow> (value, (''invalid character code '' @ quoted (''$'' @ digits) @ '' in literal '' @
                          quoted full_raw) # messages)
                else
                  apsnd ((#) (''invalid character string escape '' @ quoted (''$'' @ escaped) @ '' in literal '' @
                      quoted full_raw)) (decode_character_string_body full_raw wide rest))))"
  by pat_completeness auto
termination
  by (relation "measure (\<lambda>(_, _, cs). length cs)") auto

declare decode_character_string_body.simps(2) [simp del]

definition trim_matches :: "char \<Rightarrow> string \<Rightarrow> string" where
  "trim_matches c s = rev (dropWhile ((=) c) (rev (dropWhile ((=) c) s)))"

definition decode_typed_character_string :: "string \<Rightarrow> string \<Rightarrow> bool \<Rightarrow> string \<times> string list" where
  "decode_typed_character_string full_raw raw wide =
     (case raw of
        [] \<Rightarrow> (raw, [''invalid typed string literal '' @ quoted full_raw])
      | quote_ch # _ \<Rightarrow>
          (if \<not> is_quote [quote_ch] then (raw, [''invalid typed string literal '' @ quoted full_raw])
           else if last raw \<noteq> quote_ch \<or> length raw = 1
           then (trim_matches quote_ch raw, [''unterminated typed string literal '' @ quoted full_raw])
           else decode_character_string_body full_raw wide (chars (butlast (tl raw)))))"

section \<open>Typed literals\<close>

text \<open>The normal form of the value of a literal with a type name, when there is one.\<close>

definition normalize_typed_literal_value :: "string \<Rightarrow> string \<Rightarrow> string option \<times> string list" where
  "normalize_typed_literal_value type_name raw =
     (case elementary_parse type_name of
        None \<Rightarrow> (None, [])
      | Some elementary \<Rightarrow>
          (if elementary = EBool
           then (map_option (\<lambda>b. if b then ''1'' else ''0'') (parse_bool_literal_value raw), [])
           else if elementary_is_integer elementary \<or> elementary \<in> {EByte, EWord, EDword, ELword} then
             (case parse_integer_text_i128 raw of
                Inr n \<Rightarrow> (Some (show_int n), [])
              | Inl message \<Rightarrow>
                  (Some ''0'', [message @ '' in typed literal '' @ quoted (type_name @ ''#'' @ raw)]))
           else if elementary \<in> {EReal, ELreal} then
             (let normalized = without_underscores raw in
              if \<not> valid_underscore_placement raw \<or> parse_f64 normalized = None
              then (Some ''0.0'', [''invalid real typed literal '' @ quoted (type_name @ ''#'' @ raw)])
              else (Some normalized, []))
           else if elementary = ETime then
             (case parse_duration_literal raw of
                Inr n \<Rightarrow> (Some (show_int n), [])
              | Inl message \<Rightarrow> (None, [message]))
           else (None, [])))"

definition checked_text :: "'a option \<Rightarrow> string \<Rightarrow> string list" where
  "checked_text parsed message = (if parsed = None then [message] else [])"

definition parse_hash_literal_checked :: "bool \<Rightarrow> string \<Rightarrow> (literal \<times> string list) outcome" where
  "parse_hash_literal_checked oc raw =
     (case split_once (CHR ''#'') raw of
        None \<Rightarrow> Ret (LTyped (ident_new ''<literal>'') raw, [''invalid typed literal '' @ quoted raw])
      | Some (prefix, value) \<Rightarrow>
          (let p = canonical_identifier prefix in
           if p = ''TRUE'' then Ret (LBool True, [])
           else if p = ''FALSE'' then Ret (LBool False, [])
           else if p = ''BOOL'' then
             Ret (case parse_bool_literal_value value of
                    Some b \<Rightarrow> (LBool b, [])
                  | None \<Rightarrow> (LBool False, [''invalid BOOL literal value '' @ quoted value]))
           else if p \<in> {''T'', ''TIME''} then
             Ret (case parse_duration_literal value of
                    Inr n \<Rightarrow> (LDurationMs n, [])
                  | Inl message \<Rightarrow> (LDurationMs 0, [message]))
           else if p \<in> {''D'', ''DATE''} then
             omap (\<lambda>parsed. (LDate value, checked_text parsed (''invalid DATE literal '' @ quoted raw)))
               (parse_date_days oc value)
           else if p \<in> {''TOD'', ''TIME_OF_DAY''} then
             Ret (LTimeOfDay value,
                  checked_text (parse_time_of_day_ms value) (''invalid TIME_OF_DAY literal '' @ quoted raw))
           else if p \<in> {''DT'', ''DATE_AND_TIME''} then
             omap (\<lambda>parsed. (LDateAndTime value, checked_text parsed (''invalid DATE_AND_TIME literal '' @ quoted raw)))
               (parse_date_time_ms oc value)
           else if p = ''STRING'' then Ret (apfst LString (decode_typed_character_string raw value False))
           else if p = ''WSTRING'' then Ret (apfst LWString (decode_typed_character_string raw value True))
           else if p = ''2'' then Ret (parse_based_int_literal value 2 raw)
           else if p = ''8'' then Ret (parse_based_int_literal value 8 raw)
           else if p = ''16'' then Ret (parse_based_int_literal value 16 raw)
           else Ret (case normalize_typed_literal_value prefix value of (normal, messages) \<Rightarrow>
             (LTyped (ident_new prefix) (case normal of Some s \<Rightarrow> s | None \<Rightarrow> value), messages))))"

section \<open>Operators of instruction lists\<close>

definition il_ops :: "(string \<times> il_op) list" where
  "il_ops =
     [(''LD'', IlLd), (''LDN'', IlLdn), (''ST'', IlSt), (''STN'', IlStn), (''S'', IlS), (''R'', IlR),
      (''AND'', IlAnd), (''ANDN'', IlAndn), (''OR'', IlOr), (''ORN'', IlOrn), (''XOR'', IlXor), (''XORN'', IlXorn),
      (''NOT'', IlNot), (''ADD'', IlAdd), (''SUB'', IlSub), (''MUL'', IlMul), (''DIV'', IlDiv), (''MOD'', IlMod),
      (''GT'', IlGt), (''GE'', IlGe), (''EQ'', IlEq), (''NE'', IlNe), (''LE'', IlLe), (''LT'', IlLt),
      (''JMP'', IlJmp), (''JMPC'', IlJmpc), (''JMPCN'', IlJmpcn), (''CAL'', IlCal), (''CALC'', IlCalc),
      (''CALCN'', IlCalcn), (''RET'', IlRet), (''RETC'', IlRetc), (''RETCN'', IlRetcn)]"

definition is_il_type_suffix :: "string \<Rightarrow> bool" where
  "is_il_type_suffix suffix \<longleftrightarrow>
     suffix \<in> {''BOOL'', ''SINT'', ''INT'', ''DINT'', ''LINT'', ''USINT'', ''UINT'', ''UDINT'', ''ULINT'', ''REAL'',
       ''LREAL'', ''BYTE'', ''WORD'', ''DWORD'', ''LWORD'', ''STRING'', ''WSTRING'', ''TIME'', ''DATE'', ''TOD'',
       ''TIME_OF_DAY'', ''DT'', ''DATE_AND_TIME''}"

definition typed_il_base_op :: "string \<Rightarrow> string" where
  "typed_il_base_op v =
     (case split_once (CHR ''_'') v of
        None \<Rightarrow> v
      | Some (base, suffix) \<Rightarrow> (if suffix = [] \<or> \<not> is_il_type_suffix suffix then v else base))"

definition il_op_from_upper :: "string \<Rightarrow> il_op option" where
  "il_op_from_upper v = map_of il_ops (typed_il_base_op v)"

definition il_op_needs_operand :: "il_op \<Rightarrow> bool" where
  "il_op_needs_operand v \<longleftrightarrow> v \<notin> {IlNot, IlRet, IlRetc, IlRetcn}"

primrec il_op_name :: "il_op \<Rightarrow> string" where
  "il_op_name IlLd = ''LD''"
| "il_op_name IlLdn = ''LDN''"
| "il_op_name IlSt = ''ST''"
| "il_op_name IlStn = ''STN''"
| "il_op_name IlS = ''S''"
| "il_op_name IlR = ''R''"
| "il_op_name IlAnd = ''AND''"
| "il_op_name IlAndn = ''ANDN''"
| "il_op_name IlOr = ''OR''"
| "il_op_name IlOrn = ''ORN''"
| "il_op_name IlXor = ''XOR''"
| "il_op_name IlXorn = ''XORN''"
| "il_op_name IlNot = ''NOT''"
| "il_op_name IlAdd = ''ADD''"
| "il_op_name IlSub = ''SUB''"
| "il_op_name IlMul = ''MUL''"
| "il_op_name IlDiv = ''DIV''"
| "il_op_name IlMod = ''MOD''"
| "il_op_name IlGt = ''GT''"
| "il_op_name IlGe = ''GE''"
| "il_op_name IlEq = ''EQ''"
| "il_op_name IlNe = ''NE''"
| "il_op_name IlLe = ''LE''"
| "il_op_name IlLt = ''LT''"
| "il_op_name IlJmp = ''JMP''"
| "il_op_name IlJmpc = ''JMPC''"
| "il_op_name IlJmpcn = ''JMPCN''"
| "il_op_name IlCal = ''CAL''"
| "il_op_name IlCalc = ''CALC''"
| "il_op_name IlCalcn = ''CALCN''"
| "il_op_name IlRet = ''RET''"
| "il_op_name IlRetc = ''RETC''"
| "il_op_name IlRetcn = ''RETCN''"

lemma il_op_name_from_upper: "il_op_from_upper (il_op_name v) = Some v"
  by (cases v) (simp_all add: il_op_from_upper_def typed_il_base_op_def il_ops_def)

end
