(* ===== verification/SynLexerLaws.thy ===== *)
theory SynLexerLaws
  imports SynLexer
begin

text \<open>
  What the lexer promises to the parser and to the reader of a diagnostic: its tokens are
  pieces of the source in their order, up to its end; every position is one between
  characters, so that computing a span does not panic; one end marker closes the tokens.
\<close>

section \<open>Positions\<close>

definition lx_at :: "string \<Rightarrow> string \<Rightarrow> lexer \<Rightarrow> bool" where
  "lx_at name source lx \<longleftrightarrow> lx_name lx = name \<and> lx_source lx = source \<and>
     (\<exists>cs. chars source = cs @ lx_rest lx \<and> lx_pos lx = length (concat cs))"

lemma lx_at_new: "lx_at name source (lexer_new name source impl)"
  by (simp add: lx_at_def lexer_new_def)

lemma lx_at_moves: "lx_at name source a \<Longrightarrow> lx_moves a b \<Longrightarrow> lx_at name source b"
  by (force simp: lx_at_def lx_moves_def)

lemma char_nonempty: "c \<in> set (chars s) \<Longrightarrow> c \<noteq> []"
  using chars_ok_chars [of s] by (auto simp: chars_ok_def char_ok_def)

lemma lx_at_pos_le: "lx_at name source lx \<Longrightarrow> lx_pos lx + length (concat (lx_rest lx)) = length source"
proof -
  assume "lx_at name source lx"
  then obtain cs where "chars source = cs @ lx_rest lx" "lx_pos lx = length (concat cs)"
    by (auto simp: lx_at_def)
  then show ?thesis
    by (metis concat_append concat_chars length_append)
qed

lemma lx_at_boundary:
  assumes "lx_at name source lx"
  shows "is_char_boundary source (lx_pos lx)"
proof -
  obtain cs where cs: "chars source = cs @ lx_rest lx" "lx_pos lx = length (concat cs)"
    using assms by (auto simp: lx_at_def)
  have source: "source = concat cs @ concat (lx_rest lx)"
    using cs(1) by (metis concat_append concat_chars)
  show ?thesis
  proof (cases "lx_rest lx")
    case Nil
    then show ?thesis
      using source cs(2) by (simp add: is_char_boundary_def)
  next
    case (Cons c rest)
    then obtain b bs where "c = b # bs"
      using char_nonempty [of c source] cs(1) by (cases c) auto
    moreover have "cs \<noteq> [] \<Longrightarrow> \<not> is_cont (hd c)"
      using chars_ok_chars [of source] cs(1) Cons by (cases cs) (auto simp: chars_ok_def)
    ultimately show ?thesis
      using source cs(2) Cons by (cases "cs = []") (auto simp: is_char_boundary_def nth_append)
  qed
qed

lemma span_at_new:
  assumes "is_char_boundary txt start" and "start \<le> length txt"
  shows "span_new name start stop txt = Ret (span_at name start stop txt)"
  using assms by (simp add: span_new_def span_at_def get_to_def min_absorb1 split: prod.splits)

section \<open>One token\<close>

text \<open>A token of the piece of the source between two positions.\<close>

definition token_ok :: "string \<Rightarrow> string \<Rightarrow> token \<Rightarrow> bool" where
  "token_ok name source t \<longleftrightarrow>
     (let start = span_start (tk_span t); stop = span_stop (tk_span t) in
      start \<le> stop \<and> stop \<le> length source \<and> tk_lexeme t = take (stop - start) (drop start source) \<and>
      span_new name start stop source = Ret (tk_span t))"

lemma token_ok_token:
  assumes "lx_at name source a" and "lx_moves a b"
  shows "token_ok name source (lx_token (lx_pos a) kind b)"
proof -
  have b: "lx_at name source b"
    using assms by (rule lx_at_moves)
  have "lx_pos a \<le> lx_pos b" "lx_pos b \<le> length source" "lx_pos a \<le> length source"
    using assms lx_at_pos_le [OF assms(1)] lx_at_pos_le [OF b] by (auto simp: lx_moves_def)
  moreover have "span_start (span_at n s p t) = s" "span_stop (span_at n s p t) = p" for n s p t
    by (simp_all add: span_at_def split: prod.splits)
  ultimately show ?thesis
    using b span_at_new [OF lx_at_boundary [OF assms(1)]]
    by (simp add: token_ok_def lx_token_def Let_def lx_slice_def lx_at_def)
qed

lemma span_start_token: "span_start (tk_span (lx_token start kind lx)) = start"
  and span_stop_token: "span_stop (tk_span (lx_token start kind lx)) = lx_pos lx"
  and kind_token: "tk_kind (lx_token start kind lx) = kind"
  by (simp_all add: lx_token_def span_at_def split: prod.splits)

lemma string_body_token:
  "\<exists>v'. fst (lex_string_body start q v lx) =
     lx_token start (string_kind q v') (snd (lex_string_body start q v lx))"
proof (induction start q v lx rule: lex_string_body.induct)
  case (1 start q v lx)
  then show ?case
    by (subst (1 2) lex_string_body.simps) (auto simp: Let_def split: option.splits prod.splits)
qed

lemma lex_token_shape:
  assumes "lex_token ch lx = (Some t, lx')"
  shows "\<exists>kind. kind \<noteq> EofT \<and> t = lx_token (lx_pos lx) kind lx'"
proof -
  have "\<exists>kind. kind \<noteq> EofT \<and> fst (lex_string (lx_pos lx) ch lx) =
      lx_token (lx_pos lx) kind (snd (lex_string (lx_pos lx) ch lx))"
    unfolding lex_string_def using string_body_token [of "lx_pos lx" ch "[]" "lx_advance lx"]
    by (auto simp: string_kind_def)
  moreover have "is_quote ch \<Longrightarrow> \<not> is_ident_start ch \<Longrightarrow> \<not> ascii is_ascii_digit ch \<Longrightarrow>
      t = fst (lex_string (lx_pos lx) ch lx) \<and> lx' = snd (lex_string (lx_pos lx) ch lx)"
    using assms by (cases "lex_string (lx_pos lx) ch lx") (simp add: lex_token_def)
  ultimately show ?thesis
    using assms
    by (auto simp: lex_token_def Let_def lex_identifier_or_hash_literal_def lex_number_or_hash_literal_def
        lex_direct_variable_def split: if_splits option.splits prod.splits)
qed

lemma moves_pos_less:
  assumes "lx_at name source a" and "lx_moves (lx_advance a) b" and "lx_peek a = Some ch"
  shows "lx_pos a < lx_pos b"
proof -
  obtain rest where "lx_rest a = ch # rest"
    using assms(3) by (auto simp: lx_peek_def split: list.splits)
  moreover have "ch \<noteq> []"
    using assms(1) calculation char_nonempty [of ch source] by (auto simp: lx_at_def)
  ultimately show ?thesis
    using assms(2) by (auto simp: lx_moves_def lx_advance_def)
qed

section \<open>All tokens\<close>

definition follows_on :: "token \<Rightarrow> token \<Rightarrow> bool" where
  "follows_on a b \<longleftrightarrow> span_stop (tk_span a) \<le> span_start (tk_span b)"

lemma lex_tokens_cover:
  assumes "lx_at name source lx"
  shows "case lex_tokens lx of (ts, lx') \<Rightarrow>
     lx_rest lx' = [] \<and> lx_moves lx lx' \<and> sorted_wrt follows_on ts \<and>
     (\<forall>t \<in> set ts. token_ok name source t \<and> tk_kind t \<noteq> EofT \<and> lx_pos lx \<le> span_start (tk_span t) \<and>
        span_start (tk_span t) < span_stop (tk_span t) \<and> span_stop (tk_span t) \<le> lx_pos lx')"
  using assms
proof (induction lx rule: lex_tokens.induct)
  case (1 lx)
  let ?lx = "lx_skip_trivia lx"
  have moved: "lx_moves lx ?lx"
    by (rule moves_trivia [OF moves_refl])
  then have at: "lx_at name source ?lx" and pos: "lx_pos lx \<le> lx_pos ?lx"
    using lx_at_moves [OF 1(2)] by (auto simp: lx_moves_def)
  show ?case
  proof (cases "lx_peek ?lx")
    case None
    then have "lx_rest ?lx = []"
      by (simp add: lx_peek_def split: list.splits)
    then show ?thesis
      using None moved by (subst lex_tokens.simps) simp
  next
    case (Some ch)
    obtain found lx' where token: "lex_token ch ?lx = (found, lx')"
      by force
    obtain ts lx'' where rest: "lex_tokens lx' = (ts, lx'')"
      by force
    have step: "lx_moves (lx_advance ?lx) lx'"
      using moves_token [of ?lx ch] token by simp
    have on: "lx_moves ?lx lx'"
      using moves_trans [OF moves_advance [OF moves_refl] step] .
    have at': "lx_at name source lx'" and less: "lx_pos ?lx < lx_pos lx'"
      using lx_at_moves [OF at on] moves_pos_less [OF at step Some] .
    have IH: "lx_rest lx'' = []" "lx_moves lx' lx''" "sorted_wrt follows_on ts"
        "\<And>t. t \<in> set ts \<Longrightarrow> token_ok name source t \<and> tk_kind t \<noteq> EofT \<and> lx_pos lx' \<le> span_start (tk_span t) \<and>
           span_start (tk_span t) < span_stop (tk_span t) \<and> span_stop (tk_span t) \<le> lx_pos lx''"
      using 1(1) [OF refl Some token [symmetric] at'] rest by auto
    have end_pos: "lx_pos lx' \<le> lx_pos lx''"
      using IH(2) by (auto simp: lx_moves_def)
    have result: "lex_tokens lx = ((case found of None \<Rightarrow> ts | Some t \<Rightarrow> t # ts), lx'')"
      using Some token rest by (subst lex_tokens.simps) simp
    have all: "lx_moves lx lx''"
      using moves_trans [OF moved moves_trans [OF on IH(2)]] .
    show ?thesis
    proof (cases found)
      case None
      then show ?thesis
        using result all IH pos less by (auto dest: IH(4))
    next
      case (Some t)
      then obtain kind where "kind \<noteq> EofT" "t = lx_token (lx_pos ?lx) kind lx'"
        using lex_token_shape token by blast
      then have "token_ok name source t" "tk_kind t \<noteq> EofT" "span_start (tk_span t) = lx_pos ?lx"
          "span_stop (tk_span t) = lx_pos lx'"
        using token_ok_token [OF at on] by (simp_all add: kind_token span_start_token span_stop_token)
      moreover from this have "\<forall>u \<in> set ts. follows_on t u"
        using IH(4) by (simp add: follows_on_def)
      ultimately show ?thesis
        using Some result all IH pos less end_pos by (auto dest: IH(4))
    qed
  qed
qed

definition eof_token :: "string \<Rightarrow> string \<Rightarrow> token" where
  "eof_token name source =
     \<lparr> tk_kind = EofT, tk_lexeme = [],
       tk_span = span_at name (length source) (length source) source \<rparr>"

text \<open>C2: Lexing always ends. It reads the source up to its end and gives a list of tokens
  and one end marker after them. Each token is the piece of the source between the positions
  of its span (its lexeme is exactly that piece), the span is the one \<open>Span::new\<close> computes
  and computing it does not panic (its positions are between characters); the tokens are not
  empty, come in the order of the source and do not overlap, and no other token is an end
  marker.\<close>

theorem tokens_cover_source:
  "case lex (lexer_new name source impl) of (tokens, lx') \<Rightarrow>
     \<exists>body. tokens = body @ [eof_token name source] \<and> lx_pos lx' = length source \<and>
       list_all (\<lambda>t. token_ok name source t \<and> tk_kind t \<noteq> EofT \<and>
          span_start (tk_span t) < span_stop (tk_span t)) body \<and>
       token_ok name source (eof_token name source) \<and>
       sorted_wrt follows_on tokens"
proof -
  let ?lx = "lexer_new name source impl"
  obtain body lx' where body: "lex_tokens ?lx = (body, lx')"
    by force
  note cover = lex_tokens_cover [OF lx_at_new, of name source impl, unfolded body, simplified]
  have at: "lx_at name source lx'"
    using lx_at_moves [OF lx_at_new] cover by blast
  then have stop: "lx_pos lx' = length source" "lx_name lx' = name" "lx_source lx' = source"
    using lx_at_pos_le [OF at] cover by (simp_all add: lx_at_def)
  then have "is_char_boundary source (length source)"
    using lx_at_boundary [OF at] by simp
  then have "token_ok name source (eof_token name source)"
    using span_at_new [of source "length source"]
    by (simp add: token_ok_def eof_token_def span_at_def Let_def split: prod.splits)
  moreover have "sorted_wrt follows_on (body @ [eof_token name source])"
    using cover stop by (auto simp: sorted_wrt_append follows_on_def eof_token_def span_at_def split: prod.splits)
  ultimately show ?thesis
    using cover stop body by (auto simp: lex_def eof_token_def list_all_iff)
qed

end
