(* ===== verification/SynParse.thy ===== *)
theory SynParse
  imports SynLiteral SynLexerLaws
begin

text \<open>
  The state of the parser (\<open>Parser\<close> of \<open>iec_syntax/src/parser.rs\<close>), its steps on tokens, and
  the way its operations are written. An operation takes the state and returns
  \<open>Parsed x ps\<close> (its value and the new state), \<open>Aborted\<close> (the code panics) or
  \<open>OutOfFuel\<close>. The operations that call each other recursively are definitions over a record
  \<open>parse_calls\<close> of the recursive ones, which also bounds the turns of a loop;
  \<open>parser n\<close> (theory \<open>SynUnits\<close>) is the record whose calls may nest \<open>n\<close> deep.
\<close>

section \<open>State\<close>

record parser_state =
  ps_tokens :: "token list"
  ps_pos :: nat
  ps_source :: string
  ps_implementation :: implementation_parameters
  ps_expression_stop :: "nat option"
  ps_expression_depth :: nat
  ps_diagnostics :: "diagnostic list"
  ps_overflow_checks :: bool

definition parser_new :: "bool \<Rightarrow> string \<Rightarrow> token list \<Rightarrow> implementation_parameters \<Rightarrow> parser_state" where
  "parser_new oc source tokens implementation =
     \<lparr> ps_tokens = tokens, ps_pos = 0, ps_source = source, ps_implementation = implementation,
       ps_expression_stop = None, ps_expression_depth = 0, ps_diagnostics = [], ps_overflow_checks = oc \<rparr>"

section \<open>Operations\<close>

datatype 'a parsed = OutOfFuel | Aborted | Parsed 'a parser_state

type_synonym 'a parser = "parser_state \<Rightarrow> 'a parsed"

definition pret :: "'a \<Rightarrow> 'a parser" where
  "pret x ps = Parsed x ps"

definition pbind :: "'a parser \<Rightarrow> ('a \<Rightarrow> 'b parser) \<Rightarrow> 'b parser" where
  "pbind m f ps = (case m ps of OutOfFuel \<Rightarrow> OutOfFuel | Aborted \<Rightarrow> Aborted | Parsed x ps' \<Rightarrow> f x ps')"

definition pseq :: "'a parser \<Rightarrow> 'b parser \<Rightarrow> 'b parser" where
  "pseq m n = pbind m (\<lambda>_. n)"

definition pmap :: "('a \<Rightarrow> 'b) \<Rightarrow> 'a parser \<Rightarrow> 'b parser" where
  "pmap f m = pbind m (\<lambda>x. pret (f x))"

definition pget :: "(parser_state \<Rightarrow> 'a) \<Rightarrow> 'a parser" where
  "pget f ps = Parsed (f ps) ps"

definition pmodify :: "(parser_state \<Rightarrow> parser_state) \<Rightarrow> unit parser" where
  "pmodify f ps = Parsed () (f ps)"

definition plift :: "(parser_state \<Rightarrow> 'a outcome) \<Rightarrow> 'a parser" where
  "plift f ps = (case f ps of Panic \<Rightarrow> Aborted | Ret x \<Rightarrow> Parsed x ps)"

definition out_of_fuel :: "'a parser" where
  "out_of_fuel ps = OutOfFuel"

text \<open>A loop: \<open>Inl\<close> is another turn, \<open>Inr\<close> the result. At most \<open>n\<close> turns.\<close>

fun ploop :: "nat \<Rightarrow> ('a \<Rightarrow> ('a + 'b) parser) \<Rightarrow> 'a \<Rightarrow> 'b parser" where
  "ploop 0 body acc = out_of_fuel"
| "ploop (Suc n) body acc =
     pbind (body acc) (\<lambda>r. case r of Inl acc' \<Rightarrow> ploop n body acc' | Inr x \<Rightarrow> pret x)"

fun pfor :: "'a list \<Rightarrow> ('a \<Rightarrow> unit parser) \<Rightarrow> unit parser" where
  "pfor [] f = pret ()"
| "pfor (x # xs) f = pseq (f x) (pfor xs f)"

section \<open>Tokens\<close>

definition current :: "parser_state \<Rightarrow> token" where
  "current ps = ps_tokens ps ! ps_pos ps"

definition previous :: "parser_state \<Rightarrow> token" where
  "previous ps = ps_tokens ps ! (ps_pos ps - 1)"

definition is_eof :: "parser_state \<Rightarrow> bool" where
  "is_eof ps \<longleftrightarrow> tk_kind (current ps) = EofT"

definition p_advance :: "unit parser" where
  "p_advance = pmodify (\<lambda>ps. if is_eof ps then ps else ps\<lparr>ps_pos := ps_pos ps + 1\<rparr>)"

definition token_at :: "nat \<Rightarrow> parser_state \<Rightarrow> token option" where
  "token_at k ps =
     (if ps_pos ps + k < length (ps_tokens ps) then Some (ps_tokens ps ! (ps_pos ps + k)) else None)"

definition ident_of :: "token \<Rightarrow> string option" where
  "ident_of t = (case tk_kind t of IdentT v \<Rightarrow> Some v | _ \<Rightarrow> None)"

definition current_identifier :: "parser_state \<Rightarrow> ident option" where
  "current_identifier ps = map_option ident_new (ident_of (current ps))"

definition current_ident_upper :: "parser_state \<Rightarrow> string option" where
  "current_ident_upper ps = map_option canonical_identifier (ident_of (current ps))"

definition check_keyword :: "string \<Rightarrow> parser_state \<Rightarrow> bool" where
  "check_keyword keyword ps \<longleftrightarrow> current_ident_upper ps = Some keyword"

definition check_any_keyword :: "string list \<Rightarrow> parser_state \<Rightarrow> bool" where
  "check_any_keyword keywords ps \<longleftrightarrow> list_ex (\<lambda>keyword. check_keyword keyword ps) keywords"

definition check_symbol :: "symbol \<Rightarrow> parser_state \<Rightarrow> bool" where
  "check_symbol symb ps \<longleftrightarrow> tk_kind (current ps) = SymbolT symb"

definition peek_symbol :: "symbol \<Rightarrow> parser_state \<Rightarrow> bool" where
  "peek_symbol symb ps \<longleftrightarrow> map_option tk_kind (token_at 1 ps) = Some (SymbolT symb)"

definition peek_attached_lparen :: "parser_state \<Rightarrow> bool" where
  "peek_attached_lparen ps \<longleftrightarrow> (case token_at 1 ps of
       None \<Rightarrow> False
     | Some t \<Rightarrow> tk_kind t = SymbolT SymLParen \<and> span_stop (tk_span (current ps)) = span_start (tk_span t))"

text \<open>The token \<open>k\<close> further on is an identifier with one of the names.\<close>

definition keyword_at :: "nat \<Rightarrow> string list \<Rightarrow> parser_state \<Rightarrow> bool" where
  "keyword_at k keywords ps \<longleftrightarrow>
     (case Option.bind (token_at k ps) ident_of of
        None \<Rightarrow> False
      | Some v \<Rightarrow> canonical_identifier v \<in> set keywords)"

definition error_at :: "token \<Rightarrow> string \<Rightarrow> unit parser" where
  "error_at t message =
     pmodify (\<lambda>ps. ps\<lparr>ps_diagnostics := ps_diagnostics ps @ [diagnostic_error CodeSyntax message (Some (tk_span t))]\<rparr>)"

definition limit_error_at :: "token \<Rightarrow> string \<Rightarrow> unit parser" where
  "limit_error_at t message =
     pmodify (\<lambda>ps. ps\<lparr>ps_diagnostics := ps_diagnostics ps @
       [diagnostic_error CodeCompliance message (Some (tk_span t))]\<rparr>)"

text \<open>An error at the current token and at the one before it.\<close>

definition error_here :: "string \<Rightarrow> unit parser" where
  "error_here message = pbind (pget current) (\<lambda>t. error_at t message)"

definition error_before :: "string \<Rightarrow> unit parser" where
  "error_before message = pbind (pget previous) (\<lambda>t. error_at t message)"

definition limit_error_before :: "string \<Rightarrow> unit parser" where
  "limit_error_before message = pbind (pget previous) (\<lambda>t. limit_error_at t message)"

text \<open>A token that passes a test is taken.\<close>

definition take_if :: "(parser_state \<Rightarrow> bool) \<Rightarrow> bool parser" where
  "take_if P = pbind (pget P) (\<lambda>b. if b then pseq p_advance (pret True) else pret False)"

definition match_keyword :: "string \<Rightarrow> bool parser" where
  "match_keyword keyword = take_if (check_keyword keyword)"

definition match_symbol :: "symbol \<Rightarrow> bool parser" where
  "match_symbol symb = take_if (check_symbol symb)"

definition expect_keyword :: "string \<Rightarrow> string \<Rightarrow> bool parser" where
  "expect_keyword keyword message =
     pbind (match_keyword keyword) (\<lambda>b. if b then pret True else pseq (error_here message) (pret False))"

definition expect_symbol :: "symbol \<Rightarrow> string \<Rightarrow> bool parser" where
  "expect_symbol symb message =
     pbind (match_symbol symb) (\<lambda>b. if b then pret True else pseq (error_here message) (pret False))"

definition expect_identifier :: "string \<Rightarrow> ident option parser" where
  "expect_identifier message =
     pbind (pget current_identifier) (\<lambda>found. case found of
       Some name \<Rightarrow> pseq p_advance (pret (Some name))
     | None \<Rightarrow> pseq (error_here message) (pret None))"

text \<open>\<open>expect_identifier(...).unwrap_or_else(|| Identifier::new("<error>"))\<close>.\<close>

definition expect_name :: "string \<Rightarrow> ident parser" where
  "expect_name message =
     pmap (\<lambda>found. case found of Some name \<Rightarrow> name | None \<Rightarrow> ident_new ''<error>'') (expect_identifier message)"

definition number_here :: "parser_state \<Rightarrow> string option" where
  "number_here ps = (case tk_kind (current ps) of NumberT v \<Rightarrow> Some v | _ \<Rightarrow> None)"

definition expect_signed_integer :: "string \<Rightarrow> int parser" where
  "expect_signed_integer message =
     pbind (match_symbol SymMinus) (\<lambda>negative.
     pbind (pget current) (\<lambda>t.
     pbind (pget number_here) (\<lambda>found. case found of
       None \<Rightarrow> pseq (error_at t message) (pret 0)
     | Some v \<Rightarrow>
         pseq p_advance
           (pbind
             (case parse_i64 (without_underscores v) of
                Some n \<Rightarrow> pret n
              | None \<Rightarrow> pseq (error_at t ''invalid integer literal'') (pret 0))
             (\<lambda>parsed. pret (if negative then - parsed else parsed))))))"

definition expect_unsigned_integer :: "string \<Rightarrow> nat parser" where
  "expect_unsigned_integer message =
     pbind (pget current) (\<lambda>t.
     pbind (pget number_here) (\<lambda>found. case found of
       None \<Rightarrow> pseq (error_at t message) (pret 0)
     | Some v \<Rightarrow>
         pseq p_advance
           (case parse_usize (without_underscores v) of
              Some n \<Rightarrow> pret n
            | None \<Rightarrow> pseq (error_at t ''invalid unsigned integer literal'') (pret 0))))"

definition parse_integer_token :: "string \<Rightarrow> int option parser" where
  "parse_integer_token message =
     pbind (pget number_here) (\<lambda>found. case found of
       Some v \<Rightarrow> pseq p_advance (pret (parse_i64 v))
     | None \<Rightarrow> pseq (error_here message) (pret None))"

section \<open>Loops of the parser\<close>

record parse_calls =
  pc_turns :: nat
  pc_expression :: "expr parser"
  pc_unary :: "expr parser"
  pc_il_operand :: "expr parser"
  pc_statement :: "statement parser"
  pc_statements :: "string list \<Rightarrow> statement list parser"
  pc_type :: "data_type_spec parser"

text \<open>\<open>while cond \<open>body\<close>\<close>; the same up to a keyword that is taken, and a list with commas.\<close>

definition pwhile :: "parse_calls \<Rightarrow> (parser_state \<Rightarrow> bool) \<Rightarrow> ('a \<Rightarrow> 'a parser) \<Rightarrow> 'a \<Rightarrow> 'a parser" where
  "pwhile c cond body =
     ploop (pc_turns c) (\<lambda>acc. pbind (pget cond) (\<lambda>b. if b then pmap Inl (body acc) else pret (Inr acc)))"

definition puntil_keyword :: "parse_calls \<Rightarrow> string \<Rightarrow> ('a \<Rightarrow> 'a parser) \<Rightarrow> 'a \<Rightarrow> 'a parser" where
  "puntil_keyword c keyword body =
     ploop (pc_turns c) (\<lambda>acc. pbind (pget is_eof) (\<lambda>e.
       if e then pret (Inr acc)
       else pbind (match_keyword keyword) (\<lambda>b. if b then pret (Inr acc) else pmap Inl (body acc))))"

definition pcommas :: "parse_calls \<Rightarrow> ('a \<Rightarrow> 'a parser) \<Rightarrow> 'a \<Rightarrow> 'a parser" where
  "pcommas c body =
     ploop (pc_turns c) (\<lambda>acc. pbind (body acc) (\<lambda>acc'.
       pbind (match_symbol SymComma) (\<lambda>more. pret (if more then Inl acc' else Inr acc'))))"

text \<open>Tokens are passed over up to the end or one that passes a test.\<close>

definition skip_until :: "parse_calls \<Rightarrow> (parser_state \<Rightarrow> bool) \<Rightarrow> unit parser" where
  "skip_until c stop = pwhile c (\<lambda>ps. \<not> is_eof ps \<and> \<not> stop ps) (\<lambda>_. p_advance) ()"

definition synchronize_to_semicolon :: "parse_calls \<Rightarrow> unit parser" where
  "synchronize_to_semicolon c =
     pseq (skip_until c (check_symbol SymSemicolon)) (pmap (\<lambda>_. ()) (match_symbol SymSemicolon))"

definition synchronize_to_keyword :: "parse_calls \<Rightarrow> string \<Rightarrow> unit parser" where
  "synchronize_to_keyword c keyword = skip_until c (check_keyword keyword)"

definition synchronize_to_il_expression_boundary :: "parse_calls \<Rightarrow> unit parser" where
  "synchronize_to_il_expression_boundary c =
     pseq (skip_until c (\<lambda>ps. check_symbol SymSemicolon ps \<or> check_symbol SymRParen ps))
       (pmap (\<lambda>_. ()) (match_symbol SymSemicolon))"

definition synchronize_to_sfc_action_association_boundary :: "parse_calls \<Rightarrow> unit parser" where
  "synchronize_to_sfc_action_association_boundary c =
     pseq (skip_until c (\<lambda>ps. check_keyword ''END_STEP'' ps \<or> check_symbol SymSemicolon ps))
       (pmap (\<lambda>_. ()) (match_symbol SymSemicolon))"

section \<open>The depth and the end of an expression\<close>

definition enter_expression_depth :: "bool parser" where
  "enter_expression_depth =
     pbind (pget (\<lambda>ps. max_expression_depth (ps_implementation ps))) (\<lambda>limit_depth.
     pbind (pget ps_expression_depth) (\<lambda>depth.
       if depth \<ge> limit_depth then
         pbind (pget current) (\<lambda>t.
         pseq (limit_error_at t (''expression depth exceeds maximum '' @ show_nat limit_depth))
         (pseq p_advance (pret False)))
       else pseq (pmodify (\<lambda>ps. ps\<lparr>ps_expression_depth := depth + 1\<rparr>)) (pret True)))"

definition leave_expression_depth :: "unit parser" where
  "leave_expression_depth = pmodify (\<lambda>ps. ps\<lparr>ps_expression_depth := ps_expression_depth ps - 1\<rparr>)"

text \<open>An operation one level deeper, or the literal \<open>0\<close> at the limit.\<close>

definition one_deeper :: "(expr \<Rightarrow> expr) \<Rightarrow> expr parser \<Rightarrow> expr parser" where
  "one_deeper f m =
     pbind enter_expression_depth (\<lambda>entered.
       if entered then pbind m (\<lambda>e. pseq leave_expression_depth (pret (f e)))
       else pret (LiteralE (LInt 0)))"

definition at_expression_stop :: "parser_state \<Rightarrow> bool" where
  "at_expression_stop ps \<longleftrightarrow> (case ps_expression_stop ps of
       None \<Rightarrow> False
     | Some stop \<Rightarrow> span_start (tk_span (current ps)) \<ge> stop)"

text \<open>The end of the line; \<open>self.source[offset..]\<close> panics inside a character.\<close>

definition line_end_after :: "nat \<Rightarrow> parser_state \<Rightarrow> nat outcome" where
  "line_end_after offset ps =
     (case get_from (ps_source ps) offset of
        None \<Rightarrow> Panic
      | Some rest \<Rightarrow>
          (if CHR 0x0A \<in> set rest then Ret (offset + length (takeWhile (\<lambda>c. c \<noteq> CHR 0x0A) rest))
           else Ret (length (ps_source ps))))"

definition line_end_here :: "nat parser" where
  "line_end_here = plift (\<lambda>ps. line_end_after (span_start (tk_span (current ps))) ps)"

text \<open>\<open>parse_expression_until\<close>, for the operation that parses the expression.\<close>

definition parse_expression_until :: "nat \<Rightarrow> expr parser \<Rightarrow> expr parser" where
  "parse_expression_until stop expression =
     pbind (pget ps_expression_stop) (\<lambda>before.
     pseq (pmodify (\<lambda>ps. ps\<lparr>ps_expression_stop :=
         Some (case before of Some existing \<Rightarrow> min existing stop | None \<Rightarrow> stop)\<rparr>))
     (pbind expression (\<lambda>e.
     pseq (pmodify (\<lambda>ps. ps\<lparr>ps_expression_stop := before\<rparr>)) (pret e))))"

end
