(* ===== verification/SynExpr.thy ===== *)
theory SynExpr
  imports SynParse
begin

text \<open>
  Expressions (\<open>parse_expression\<close> to \<open>parse_index_suffix\<close> and \<open>expr_tree_cost\<close> of
  \<open>iec_syntax/src/parser.rs\<close>). The levels of binary operators bind from \<open>OR\<close> (weakest)
  to \<open>**\<close>; all but the last associate to the left, and the right side of \<open>**\<close> is a
  unary expression.
\<close>

section \<open>Levels of binary operators\<close>

text \<open>The operator of the first test that takes a token.\<close>

fun first_match :: "(bool parser \<times> binary_op) list \<Rightarrow> binary_op option parser" where
  "first_match [] = pret None"
| "first_match ((m, binop) # ms) = pbind m (\<lambda>b. if b then pret (Some binop) else first_match ms)"

definition binary_level :: "parse_calls \<Rightarrow> (bool parser \<times> binary_op) list \<Rightarrow> expr parser \<Rightarrow> expr parser" where
  "binary_level c operators operand =
     pbind operand (ploop (pc_turns c) (\<lambda>left.
       pbind (pget at_expression_stop) (\<lambda>stop.
         if stop then pret (Inr left)
         else pbind (first_match operators) (\<lambda>found. case found of
             None \<Rightarrow> pret (Inr left)
           | Some binop \<Rightarrow> pbind operand (\<lambda>right. pret (Inl (BinaryE binop left right)))))))"

definition or_operators :: "(bool parser \<times> binary_op) list" where
  "or_operators = [(match_keyword ''OR'', OpOr)]"

definition xor_operators :: "(bool parser \<times> binary_op) list" where
  "xor_operators = [(match_keyword ''XOR'', OpXor)]"

definition and_operators :: "(bool parser \<times> binary_op) list" where
  "and_operators = [(match_keyword ''AND'', OpAnd), (match_symbol SymAmp, OpAnd)]"

definition equality_operators :: "(bool parser \<times> binary_op) list" where
  "equality_operators = [(match_symbol SymEq, OpEqual), (match_symbol SymNe, OpNotEqual)]"

definition comparison_operators :: "(bool parser \<times> binary_op) list" where
  "comparison_operators =
     [(match_symbol SymLt, OpLess), (match_symbol SymLe, OpLessEqual),
      (match_symbol SymGt, OpGreater), (match_symbol SymGe, OpGreaterEqual)]"

definition add_operators :: "(bool parser \<times> binary_op) list" where
  "add_operators = [(match_symbol SymPlus, OpAdd), (match_symbol SymMinus, OpSub)]"

definition term_operators :: "(bool parser \<times> binary_op) list" where
  "term_operators =
     [(match_symbol SymStar, OpMul), (match_symbol SymSlash, OpDiv), (match_keyword ''MOD'', OpMod)]"

section \<open>Variables\<close>

text \<open>The indices in brackets after a name; empty brackets give none.\<close>

definition index_list :: "parse_calls \<Rightarrow> expr list \<Rightarrow> expr list parser" where
  "index_list c indices =
     pbind (pcommas c (\<lambda>acc. pmap (\<lambda>e. acc @ [e]) (pc_expression c)) indices) (\<lambda>indices'.
       pseq (expect_symbol SymRBracket (''expected '' @ quoted '']'' @ '' after array index'')) (pret indices'))"

definition parse_index_suffix :: "parse_calls \<Rightarrow> expr list parser" where
  "parse_index_suffix c =
     ploop (pc_turns c) (\<lambda>indices.
       pbind (match_symbol SymLBracket) (\<lambda>b.
         if \<not> b then pret (Inr indices)
         else pbind (match_symbol SymRBracket) (\<lambda>closed.
           if closed then pret (Inl indices) else pmap Inl (index_list c indices)))) []"

definition finish_variable_ref :: "parse_calls \<Rightarrow> ident \<Rightarrow> variable_ref parser" where
  "finish_variable_ref c first =
     pbind (parse_index_suffix c) (\<lambda>first_indices.
     pmap (\<lambda>(path, indices). VariableRef path indices None)
       (ploop (pc_turns c) (\<lambda>(path, indices).
         pbind (match_symbol SymDot) (\<lambda>b.
           if \<not> b then pret (Inr (path, indices))
           else pbind (expect_identifier (''expected field name after '' @ quoted ''.'')) (\<lambda>found. case found of
               None \<Rightarrow> pret (Inr (path, indices))
             | Some part \<Rightarrow>
                 pmap (\<lambda>ixs. Inl (path @ [part], indices @ [ixs])) (parse_index_suffix c))))
        ([first], [first_indices])))"

definition parse_variable_ref :: "parse_calls \<Rightarrow> variable_ref parser" where
  "parse_variable_ref c =
     pbind (pget current) (\<lambda>t. case tk_kind t of
       DirectT v \<Rightarrow> pseq p_advance (pret (variable_direct v))
     | IdentT v \<Rightarrow> pseq p_advance (finish_variable_ref c (ident_new v))
     | _ \<Rightarrow>
         pseq (error_at t ''expected variable reference'')
           (pseq p_advance (pret (variable_named ''<error>''))))"

section \<open>Literals\<close>

definition parse_number_literal_token :: "token \<Rightarrow> string \<Rightarrow> expr parser" where
  "parse_number_literal_token t raw =
     (case parse_number_literal_checked raw of (e, messages) \<Rightarrow> pseq (pfor messages (error_at t)) (pret e))"

definition parse_hash_literal_token :: "token \<Rightarrow> string \<Rightarrow> literal parser" where
  "parse_hash_literal_token t raw =
     pbind (plift (\<lambda>ps. parse_hash_literal_checked (ps_overflow_checks ps) raw)) (\<lambda>(l, messages).
       pseq (pfor messages (error_at t)) (pret l))"

text \<open>The nodes of an expression, counted up to one more than the limit.\<close>

definition add_capped_cost :: "nat \<Rightarrow> nat \<Rightarrow> nat \<Rightarrow> nat" where
  "add_capped_cost limit_cost sum_cost add =
     min (min usize_max (sum_cost + add)) (min usize_max (limit_cost + 1))"

fun expr_tree_cost :: "nat \<Rightarrow> expr \<Rightarrow> nat"
and variable_ref_tree_cost :: "nat \<Rightarrow> variable_ref \<Rightarrow> nat"
and param_assignment_tree_cost :: "nat \<Rightarrow> param_assignment \<Rightarrow> nat" where
  "expr_tree_cost m (LiteralE l) = 1"
| "expr_tree_cost m (VariableE v) = add_capped_cost m 1 (variable_ref_tree_cost m v)"
| "expr_tree_cost m (UnaryE u e) = add_capped_cost m 1 (expr_tree_cost m e)"
| "expr_tree_cost m (BinaryE b l r) =
     add_capped_cost m (add_capped_cost m 1 (expr_tree_cost m l)) (expr_tree_cost m r)"
| "expr_tree_cost m (CallE name args) =
     foldl (add_capped_cost m) 1 (map (param_assignment_tree_cost m) args)"
| "expr_tree_cost m (ArrayLiteralE es) = foldl (add_capped_cost m) 1 (map (expr_tree_cost m) es)"
| "expr_tree_cost m (StructLiteralE fs) =
     foldl (add_capped_cost m) 1 (map (param_assignment_tree_cost m) fs)"
| "variable_ref_tree_cost m (VariableRef path indices direct) =
     foldl (add_capped_cost m) 0 (concat (map (map (expr_tree_cost m)) indices))"
| "param_assignment_tree_cost m (ParamAssignment name output negated e v) =
     (let cost = (case e of None \<Rightarrow> 0 | Some e \<Rightarrow> add_capped_cost m 0 (expr_tree_cost m e))
      in case v of None \<Rightarrow> cost | Some v \<Rightarrow> add_capped_cost m cost (variable_ref_tree_cost m v))"

text \<open>The elements of an array literal so far and the cost of their nodes.\<close>

type_synonym array_elements = "expr list \<times> nat"

definition limit_array_elements :: "nat parser" where
  "limit_array_elements = pget (\<lambda>ps. max_array_elements (ps_implementation ps))"

definition beyond_nodes :: "nat \<Rightarrow> string" where
  "beyond_nodes m = ''array literal expands beyond maximum '' @ show_nat m @ '' expression nodes''"

definition exceeding_nodes :: "nat \<Rightarrow> nat \<Rightarrow> string" where
  "exceeding_nodes cost m =
     ''array literal expands to '' @ show_nat cost @ '' expression nodes, exceeding maximum '' @ show_nat m"

definition push_array_literal_element :: "array_elements \<Rightarrow> expr \<Rightarrow> array_elements parser" where
  "push_array_literal_element acc e =
     (case acc of (elements, cost) \<Rightarrow>
      pbind limit_array_elements (\<lambda>m.
        if length elements \<ge> m then
          pseq (limit_error_before (''array literal has more than '' @ show_nat m @ '' elements'')) (pret acc)
        else let new_cost = cost + expr_tree_cost m e in
          if new_cost > usize_max then pseq (limit_error_before (beyond_nodes m)) (pret acc)
          else if new_cost > m then pseq (limit_error_before (exceeding_nodes new_cost m)) (pret acc)
          else pret (elements @ [e], new_cost)))"

definition extend_array_literal :: "array_elements \<Rightarrow> nat \<Rightarrow> expr \<Rightarrow> token \<Rightarrow> array_elements parser" where
  "extend_array_literal acc count value_expr count_token =
     (case acc of (elements, cost) \<Rightarrow>
      pbind limit_array_elements (\<lambda>m.
        let new_len = length elements + count;
            additional_cost = expr_tree_cost m value_expr * count;
            new_cost = cost + additional_cost;
            repetition = ''array literal repetition count '' @ show_nat count @ '' exceeds maximum '' @ show_nat m
        in
        if count > m then pseq (limit_error_at count_token repetition) (pret acc)
        else if new_len > usize_max then pseq (limit_error_at count_token repetition) (pret acc)
        else if new_len > m then
          pseq (limit_error_at count_token (''array literal has '' @ show_nat new_len @
            '' elements, exceeding maximum '' @ show_nat m)) (pret acc)
        else if additional_cost > usize_max then pseq (limit_error_at count_token (beyond_nodes m)) (pret acc)
        else if new_cost > usize_max then pseq (limit_error_at count_token (beyond_nodes m)) (pret acc)
        else if new_cost > m then pseq (limit_error_at count_token (exceeding_nodes new_cost m)) (pret acc)
        else pret (elements @ replicate count value_expr, new_cost)))"

definition parse_array_literal_element :: "parse_calls \<Rightarrow> array_elements \<Rightarrow> array_elements parser" where
  "parse_array_literal_element c acc =
     pbind (pget (\<lambda>ps. number_here ps \<noteq> None \<and> peek_symbol SymLParen ps)) (\<lambda>repeated.
       if repeated then
         pbind (pget current) (\<lambda>count_token.
         pbind (expect_unsigned_integer ''expected array repetition count'') (\<lambda>count.
         pseq (expect_symbol SymLParen (''expected '' @ quoted ''('' @ '' after array repetition count''))
         (pbind (pc_expression c) (\<lambda>value_expr.
         pseq (expect_symbol SymRParen (''expected '' @ quoted '')'' @ '' after array repetition value''))
         (extend_array_literal acc count value_expr count_token)))))
       else pbind (pc_expression c) (push_array_literal_element acc))"

definition parse_array_literal :: "parse_calls \<Rightarrow> expr parser" where
  "parse_array_literal c =
     pseq (expect_symbol SymLBracket (''expected '' @ quoted ''['' @ '' in array literal''))
     (pbind (match_symbol SymRBracket) (\<lambda>closed.
       if closed then pret (ArrayLiteralE [])
       else
         pbind (pcommas c (parse_array_literal_element c) ([], 0)) (\<lambda>(elements, cost).
         pseq (expect_symbol SymRBracket (''expected '' @ quoted '']'' @ '' after array literal''))
         (pret (ArrayLiteralE elements)))))"

section \<open>Structures and arguments\<close>

definition struct_literal_fields :: "parse_calls \<Rightarrow> param_assignment list parser" where
  "struct_literal_fields c =
     ploop (pc_turns c) (\<lambda>fs.
       pbind (expect_identifier ''expected structure initializer field name'') (\<lambda>found. case found of
           None \<Rightarrow> pseq (synchronize_to_semicolon c) (pret (Inr fs))
         | Some name \<Rightarrow>
             pseq (expect_symbol SymAssign (''expected '' @ quoted '':='' @ '' in structure initializer''))
             (pbind (pc_expression c) (\<lambda>e.
               let fs' = fs @ [ParamAssignment (Some name) False False (Some e) None] in
               pbind (match_symbol SymComma) (\<lambda>more. pret (if more then Inl fs' else Inr fs')))))) []"

definition parse_struct_literal :: "parse_calls \<Rightarrow> expr parser" where
  "parse_struct_literal c =
     pbind (match_symbol SymRParen) (\<lambda>closed.
       if closed then pret (StructLiteralE [])
       else pbind (struct_literal_fields c) (\<lambda>fs.
         pseq (expect_symbol SymRParen (''expected '' @ quoted '')'' @ '' after structure initializer''))
         (pret (StructLiteralE fs))))"

definition parse_param_assignment :: "parse_calls \<Rightarrow> param_assignment parser" where
  "parse_param_assignment c =
     pbind (match_keyword ''NOT'') (\<lambda>negated.
     pbind (pget current_identifier) (\<lambda>name.
     pbind (pget (peek_symbol SymAssign)) (\<lambda>assign.
     pbind (pget (peek_symbol SymArrow)) (\<lambda>arrow.
       if name \<noteq> None \<and> assign then
         pseq p_advance (pseq p_advance
           (pmap (\<lambda>e. ParamAssignment name False negated (Some e) None) (pc_expression c)))
       else if name \<noteq> None \<and> arrow then
         pseq p_advance (pseq p_advance
           (pmap (\<lambda>v. ParamAssignment name True negated None (Some v)) (parse_variable_ref c)))
       else
         pmap (\<lambda>e. ParamAssignment None False negated (Some e) None) (pc_expression c)))))"

definition parse_param_assignment_list :: "parse_calls \<Rightarrow> symbol \<Rightarrow> param_assignment list parser" where
  "parse_param_assignment_list c end_symbol =
     pbind (pget (check_symbol end_symbol)) (\<lambda>closed.
       if closed then pret []
       else pcommas c (\<lambda>args. pmap (\<lambda>a. args @ [a]) (parse_param_assignment c)) [])"

section \<open>Primary, unary and binary expressions\<close>

definition parse_identifier_expression :: "parse_calls \<Rightarrow> string \<Rightarrow> expr parser" where
  "parse_identifier_expression c v =
     pseq p_advance
       (let upper = canonical_identifier v in
        if upper = ''TRUE'' \<or> upper = ''FALSE'' then pret (LiteralE (LBool (upper = ''TRUE'')))
        else
          pbind (match_symbol SymLParen) (\<lambda>call.
            if call then
              pbind (parse_param_assignment_list c SymRParen) (\<lambda>args.
              pseq (expect_symbol SymRParen (''expected '' @ quoted '')'' @ '' after function call''))
              (pret (CallE (ident_new v) args)))
            else pmap VariableE (finish_variable_ref c (ident_new v))))"

definition parse_parenthesized :: "parse_calls \<Rightarrow> expr parser" where
  "parse_parenthesized c =
     pseq p_advance
       (pbind (pget (\<lambda>ps. current_identifier ps \<noteq> None \<and> peek_symbol SymAssign ps)) (\<lambda>struct.
         if struct then parse_struct_literal c
         else pbind (pc_expression c) (\<lambda>e.
           pseq (expect_symbol SymRParen (''expected '' @ quoted '')'' @ '' after expression'')) (pret e))))"

definition parse_primary :: "parse_calls \<Rightarrow> expr parser" where
  "parse_primary c =
     pbind (pget current) (\<lambda>t. case tk_kind t of
       NumberT v \<Rightarrow> pseq p_advance (parse_number_literal_token t v)
     | StringT v \<Rightarrow> pseq p_advance (pret (LiteralE (LString v)))
     | WStringT v \<Rightarrow> pseq p_advance (pret (LiteralE (LWString v)))
     | HashT v \<Rightarrow> pseq p_advance (pmap LiteralE (parse_hash_literal_token t v))
     | DirectT v \<Rightarrow> pmap VariableE (parse_variable_ref c)
     | IdentT v \<Rightarrow> parse_identifier_expression c v
     | SymbolT symb \<Rightarrow>
         (if symb = SymLParen then parse_parenthesized c
          else if symb = SymLBracket then parse_array_literal c
          else pseq (error_at t (''expected expression, found '' @ quoted (tk_lexeme t)))
            (pseq p_advance (pret (LiteralE (LInt 0)))))
     | EofT \<Rightarrow>
         pseq (error_at t (''expected expression, found '' @ quoted (tk_lexeme t)))
           (pseq p_advance (pret (LiteralE (LInt 0)))))"

definition parse_power :: "parse_calls \<Rightarrow> expr parser" where
  "parse_power c =
     pbind (parse_primary c) (\<lambda>left.
     pbind (pget at_expression_stop) (\<lambda>stop.
       if stop then pret left
       else pbind (match_symbol SymPower) (\<lambda>b.
         if b then pmap (BinaryE OpPower left) (one_deeper (\<lambda>e. e) (pc_unary c))
         else pret left)))"

definition parse_unary :: "parse_calls \<Rightarrow> expr parser" where
  "parse_unary c =
     pbind (match_symbol SymPlus) (\<lambda>plus.
       if plus then one_deeper (\<lambda>e. e) (pc_unary c)
       else pbind (match_symbol SymMinus) (\<lambda>minus.
         if minus then one_deeper (UnaryE OpNeg) (pc_unary c)
         else pbind (match_keyword ''NOT'') (\<lambda>negated.
           if negated then one_deeper (UnaryE OpNot) (pc_unary c)
           else parse_power c)))"

definition parse_term :: "parse_calls \<Rightarrow> expr parser" where
  "parse_term c = binary_level c term_operators (parse_unary c)"

definition parse_add :: "parse_calls \<Rightarrow> expr parser" where
  "parse_add c = binary_level c add_operators (parse_term c)"

definition parse_comparison :: "parse_calls \<Rightarrow> expr parser" where
  "parse_comparison c = binary_level c comparison_operators (parse_add c)"

definition parse_equality :: "parse_calls \<Rightarrow> expr parser" where
  "parse_equality c = binary_level c equality_operators (parse_comparison c)"

definition parse_and :: "parse_calls \<Rightarrow> expr parser" where
  "parse_and c = binary_level c and_operators (parse_equality c)"

definition parse_xor :: "parse_calls \<Rightarrow> expr parser" where
  "parse_xor c = binary_level c xor_operators (parse_and c)"

definition parse_or :: "parse_calls \<Rightarrow> expr parser" where
  "parse_or c = binary_level c or_operators (parse_xor c)"

definition parse_expression :: "parse_calls \<Rightarrow> expr parser" where
  "parse_expression c = one_deeper (\<lambda>e. e) (parse_or c)"

end
