(* ===== verification/SynStatement.thy ===== *)
theory SynStatement
  imports SynExpr
begin

text \<open>
  Statements of structured text and of instruction lists (\<open>parse_statement_list\<close> to
  \<open>parse_for_statement\<close> of \<open>iec_syntax/src/parser.rs\<close>).
\<close>

section \<open>Instruction lists\<close>

definition current_il_op :: "parser_state \<Rightarrow> il_op option" where
  "current_il_op ps = Option.bind (current_ident_upper ps) il_op_from_upper"

definition next_token_is_il_op :: "parser_state \<Rightarrow> bool" where
  "next_token_is_il_op ps \<longleftrightarrow>
     Option.bind (Option.bind (token_at 1 ps) ident_of) (\<lambda>v. il_op_from_upper (canonical_identifier v)) \<noteq> None"

definition next_token_starts_statement :: "parser_state \<Rightarrow> bool" where
  "next_token_starts_statement ps \<longleftrightarrow>
     check_symbol SymSemicolon ps \<or>
     (case current_ident_upper ps of
        None \<Rightarrow> False
      | Some keyword \<Rightarrow>
          keyword \<in> {''IF'', ''CASE'', ''FOR'', ''WHILE'', ''REPEAT'', ''EXIT'', ''RETURN'', ''END_IF'', ''END_CASE'',
            ''END_FOR'', ''END_WHILE'', ''END_REPEAT'', ''END_PROGRAM'', ''END_FUNCTION'', ''END_FUNCTION_BLOCK''} \<or>
          current_il_op ps \<noteq> None)"

definition il_required_accumulator :: "expr option \<Rightarrow> token \<Rightarrow> expr option parser" where
  "il_required_accumulator accumulator t =
     (if accumulator = None
      then pseq (error_at t ''IL parenthesized expression operator requires a preceding accumulator'') (pret None)
      else pret accumulator)"

definition il_required_operand :: "il_op \<Rightarrow> expr option \<Rightarrow> token \<Rightarrow> expr option parser" where
  "il_required_operand v operand t =
     (if operand = None
      then pseq (error_at t (''IL '' @ il_op_name v @ '' instruction requires an operand'')) (pret None)
      else pret operand)"

definition ptry :: "'a option parser \<Rightarrow> ('a \<Rightarrow> 'b option parser) \<Rightarrow> 'b option parser" where
  "ptry m f = pbind m (\<lambda>found. case found of None \<Rightarrow> pret None | Some x \<Rightarrow> f x)"

text \<open>The operator an instruction applies to the accumulator, and whether it negates its operand.\<close>

definition il_fold_op :: "il_op \<Rightarrow> (binary_op \<times> bool) option" where
  "il_fold_op v = (case v of
       IlAnd \<Rightarrow> Some (OpAnd, False) | IlAndn \<Rightarrow> Some (OpAnd, True)
     | IlOr \<Rightarrow> Some (OpOr, False) | IlOrn \<Rightarrow> Some (OpOr, True)
     | IlXor \<Rightarrow> Some (OpXor, False) | IlXorn \<Rightarrow> Some (OpXor, True)
     | IlAdd \<Rightarrow> Some (OpAdd, False) | IlSub \<Rightarrow> Some (OpSub, False) | IlMul \<Rightarrow> Some (OpMul, False)
     | IlDiv \<Rightarrow> Some (OpDiv, False) | IlMod \<Rightarrow> Some (OpMod, False)
     | IlGt \<Rightarrow> Some (OpGreater, False) | IlGe \<Rightarrow> Some (OpGreaterEqual, False)
     | IlEq \<Rightarrow> Some (OpEqual, False) | IlNe \<Rightarrow> Some (OpNotEqual, False)
     | IlLe \<Rightarrow> Some (OpLessEqual, False) | IlLt \<Rightarrow> Some (OpLess, False)
     | _ \<Rightarrow> None)"

definition fold_il_expression :: "expr option \<Rightarrow> il_op \<Rightarrow> expr option \<Rightarrow> token \<Rightarrow> expr option parser" where
  "fold_il_expression accumulator v operand t =
     (if v = IlLd then il_required_operand v operand t
      else if v = IlLdn then pmap (map_option (UnaryE OpNot)) (il_required_operand v operand t)
      else if v = IlNot then pret (map_option (UnaryE OpNot) accumulator)
      else case il_fold_op v of
        Some (binop, negated) \<Rightarrow>
          ptry (il_required_accumulator accumulator t) (\<lambda>left.
          ptry (il_required_operand v operand t) (\<lambda>right.
            pret (Some (BinaryE binop left (if negated then UnaryE OpNot right else right)))))
      | None \<Rightarrow>
          pseq (error_at t (''IL '' @ il_op_name v @ '' instruction is not valid inside a parenthesized expression''))
            (pret accumulator))"

text \<open>One instruction inside parentheses or in a transition body; the operand is missing
  when the operator has none or one of the stops follows.\<close>

definition il_fold_step ::
    "parse_calls \<Rightarrow> (parser_state \<Rightarrow> bool) \<Rightarrow> (parse_calls \<Rightarrow> expr parser) \<Rightarrow> token \<Rightarrow> il_op \<Rightarrow> expr option \<Rightarrow> expr option parser" where
  "il_fold_step c stop operand t v accumulator =
     pseq p_advance
       (pbind (pget (\<lambda>ps. il_op_needs_operand v \<and> \<not> stop ps)) (\<lambda>needed.
        pbind (if needed then pmap Some (operand c) else pret None) (\<lambda>found.
        pbind (fold_il_expression accumulator v found t) (\<lambda>accumulator'.
        pseq (match_symbol SymSemicolon) (pret accumulator')))))"

definition il_parenthesized_turn :: "parse_calls \<Rightarrow> expr option \<Rightarrow> expr option parser" where
  "il_parenthesized_turn c accumulator =
     pbind (match_symbol SymSemicolon) (\<lambda>empty.
       if empty then pret accumulator
       else pbind (pget current) (\<lambda>t. pbind (pget current_il_op) (\<lambda>found. case found of
         None \<Rightarrow>
           pseq (error_at t (''expected IL instruction inside parenthesized expression, found '' @
             quoted (tk_lexeme t)))
           (pseq (synchronize_to_il_expression_boundary c) (pret accumulator))
       | Some v \<Rightarrow>
           il_fold_step c (\<lambda>ps. check_symbol SymSemicolon ps \<or> check_symbol SymRParen ps)
             pc_il_operand t v accumulator)))"

definition parse_il_parenthesized_expression :: "parse_calls \<Rightarrow> expr parser" where
  "parse_il_parenthesized_expression c =
     pseq (expect_symbol SymLParen (''expected '' @ quoted ''('' @ '' in IL parenthesized expression''))
     (pbind (pwhile c (\<lambda>ps. \<not> is_eof ps \<and> \<not> check_symbol SymRParen ps) (il_parenthesized_turn c) None)
       (\<lambda>accumulator.
     pseq (expect_symbol SymRParen (''expected '' @ quoted '')'' @ '' after IL parenthesized expression''))
     (case accumulator of
        Some e \<Rightarrow> pret e
      | None \<Rightarrow> pseq (error_before ''empty IL parenthesized expression'') (pret (LiteralE (LInt 0))))))"

definition parse_il_operand :: "parse_calls \<Rightarrow> expr parser" where
  "parse_il_operand c =
     pbind (pget (\<lambda>ps. check_symbol SymLParen ps \<and> next_token_is_il_op ps)) (\<lambda>nested.
       if nested then parse_il_parenthesized_expression c
       else pbind line_end_here (\<lambda>stop. parse_expression_until stop (parse_expression c)))"

definition parse_il_instruction :: "parse_calls \<Rightarrow> statement parser" where
  "parse_il_instruction c =
     pbind (pget current) (\<lambda>t. pbind (pget current_il_op) (\<lambda>found. case found of
         None \<Rightarrow>
           pseq (error_at t ''expected IL operator'') (pseq p_advance (pret (UnsupportedS (tk_lexeme t))))
       | Some v \<Rightarrow>
           pseq p_advance
             (pbind (pget (\<lambda>ps. v \<notin> {IlNot, IlRet, IlRetc, IlRetcn} \<and> \<not> is_eof ps \<and> \<not> next_token_starts_statement ps))
               (\<lambda>needed.
                 if needed then pmap (\<lambda>e. IlInstrS v (Some e)) (parse_il_operand c)
                 else pret (IlInstrS v None)))))"

section \<open>Lists of statements\<close>

text \<open>\<open>statement\<close> is the operation that parses one statement.\<close>

definition statement_list :: "parse_calls \<Rightarrow> (parser_state \<Rightarrow> bool) \<Rightarrow> statement parser \<Rightarrow> statement list parser" where
  "statement_list c stop statement =
     pwhile c (\<lambda>ps. \<not> is_eof ps \<and> \<not> stop ps) (\<lambda>statements.
       pbind statement (\<lambda>st. pseq (match_symbol SymSemicolon) (pret (statements @ [st])))) []"

section \<open>Control statements\<close>

definition else_statements :: "parse_calls \<Rightarrow> string list \<Rightarrow> statement list parser" where
  "else_statements c stops =
     pbind (match_keyword ''ELSE'') (\<lambda>b. if b then pc_statements c stops else pret [])"

definition parse_if_branch :: "parse_calls \<Rightarrow> string \<Rightarrow> (expr \<times> statement list) parser" where
  "parse_if_branch c message =
     pbind (parse_expression c) (\<lambda>condition.
     pseq (expect_keyword ''THEN'' message)
     (pmap (Pair condition) (pc_statements c [''ELSIF'', ''ELSE'', ''END_IF''])))"

definition parse_if_statement :: "parse_calls \<Rightarrow> statement parser" where
  "parse_if_statement c =
     pbind (parse_if_branch c ''expected THEN in IF statement'') (\<lambda>first.
     pbind (ploop (pc_turns c) (\<lambda>branches.
         pbind (match_keyword ''ELSIF'') (\<lambda>b.
           if b then pmap (\<lambda>branch. Inl (branches @ [branch])) (parse_if_branch c ''expected THEN after ELSIF'')
           else pret (Inr branches))) [first]) (\<lambda>branches.
     pbind (else_statements c [''END_IF'']) (\<lambda>else_branch.
     pseq (expect_keyword ''END_IF'' ''expected END_IF'') (pret (IfS branches else_branch)))))"

definition current_starts_case_clause :: "parser_state \<Rightarrow> bool" where
  "current_starts_case_clause ps =
     (let stops = (\<lambda>t. case tk_kind t of
           SymbolT symb \<Rightarrow> symb \<in> {SymColon, SymAssign, SymSemicolon}
         | EofT \<Rightarrow> True
         | IdentT v \<Rightarrow> canonical_identifier v \<in>
             {''ELSE'', ''END_CASE'', ''IF'', ''CASE'', ''FOR'', ''WHILE'', ''REPEAT'', ''EXIT'', ''RETURN''}
         | _ \<Rightarrow> False)
      in case dropWhile (\<lambda>t. \<not> stops t) (drop (ps_pos ps) (ps_tokens ps)) of
           [] \<Rightarrow> False
         | t # _ \<Rightarrow> tk_kind t = SymbolT SymColon)"

definition parse_case_label :: "parse_calls \<Rightarrow> case_label parser" where
  "parse_case_label c =
     pbind (parse_expression c) (\<lambda>low.
     pbind (match_symbol SymRange) (\<lambda>b.
       if b then pmap (RangeLabel low) (parse_expression c) else pret (SingleLabel low)))"

definition parse_case_body :: "parse_calls \<Rightarrow> statement parser \<Rightarrow> statement list parser" where
  "parse_case_body c statement =
     statement_list c (\<lambda>ps. check_any_keyword [''ELSE'', ''END_CASE''] ps \<or> current_starts_case_clause ps) statement"

definition parse_case_clause ::
    "parse_calls \<Rightarrow> (case_label list \<times> statement list) list \<Rightarrow> (case_label list \<times> statement list) list parser" where
  "parse_case_clause c cases =
     pbind (pcommas c (\<lambda>labels. pmap (\<lambda>l. labels @ [l]) (parse_case_label c)) []) (\<lambda>labels.
     pseq (expect_symbol SymColon (''expected '' @ quoted '':'' @ '' after CASE labels''))
     (pmap (\<lambda>body. cases @ [(labels, body)]) (parse_case_body c (pc_statement c))))"

definition parse_case_statement :: "parse_calls \<Rightarrow> statement parser" where
  "parse_case_statement c =
     pbind (parse_expression c) (\<lambda>selector.
     pseq (expect_keyword ''OF'' ''expected OF in CASE statement'')
     (pbind (pwhile c (\<lambda>ps. \<not> is_eof ps \<and> \<not> check_any_keyword [''ELSE'', ''END_CASE''] ps) (parse_case_clause c) [])
       (\<lambda>cases.
     pbind (else_statements c [''END_CASE'']) (\<lambda>else_branch.
     pseq (expect_keyword ''END_CASE'' ''expected END_CASE'') (pret (CaseS selector cases else_branch))))))"

definition parse_for_statement :: "parse_calls \<Rightarrow> statement parser" where
  "parse_for_statement c =
     pbind (expect_name ''expected FOR control variable'') (\<lambda>control.
     pseq (expect_symbol SymAssign (''expected '' @ quoted '':='' @ '' in FOR statement''))
     (pbind (parse_expression c) (\<lambda>from_expr.
     pseq (expect_keyword ''TO'' ''expected TO in FOR statement'')
     (pbind (parse_expression c) (\<lambda>to_expr.
     pbind (match_keyword ''BY'') (\<lambda>stepped.
     pbind (if stepped then pmap Some (parse_expression c) else pret None) (\<lambda>by_expr.
     pseq (expect_keyword ''DO'' ''expected DO in FOR statement'')
     (pbind (pc_statements c [''END_FOR'']) (\<lambda>body.
     pseq (expect_keyword ''END_FOR'' ''expected END_FOR'')
     (pret (ForS control from_expr to_expr by_expr body)))))))))))"

definition parse_while_statement :: "parse_calls \<Rightarrow> statement parser" where
  "parse_while_statement c =
     pbind (parse_expression c) (\<lambda>condition.
     pseq (expect_keyword ''DO'' ''expected DO in WHILE statement'')
     (pbind (pc_statements c [''END_WHILE'']) (\<lambda>body.
     pseq (expect_keyword ''END_WHILE'' ''expected END_WHILE'') (pret (WhileS condition body)))))"

definition parse_repeat_statement :: "parse_calls \<Rightarrow> statement parser" where
  "parse_repeat_statement c =
     pbind (pc_statements c [''UNTIL'']) (\<lambda>body.
     pseq (expect_keyword ''UNTIL'' ''expected UNTIL in REPEAT statement'')
     (pbind (parse_expression c) (\<lambda>until_expr.
     pseq (expect_keyword ''END_REPEAT'' ''expected END_REPEAT'') (pret (RepeatS body until_expr)))))"

section \<open>Statements\<close>

definition unsupported_statement :: "parse_calls \<Rightarrow> statement parser" where
  "unsupported_statement c =
     pbind (pget current) (\<lambda>t.
       pseq (error_at t (''unsupported or invalid statement '' @ quoted (tk_lexeme t)))
       (pseq (synchronize_to_semicolon c) (pret (UnsupportedS (tk_lexeme t)))))"

definition parse_variable_statement :: "parse_calls \<Rightarrow> statement parser" where
  "parse_variable_statement c =
     pbind (parse_variable_ref c) (\<lambda>target.
     pbind (match_symbol SymAssign) (\<lambda>assign.
       if assign then pmap (AssignmentS target) (parse_expression c)
       else pbind (match_symbol SymLParen) (\<lambda>call.
         if call then
           pbind (parse_param_assignment_list c SymRParen) (\<lambda>args.
           pseq (expect_symbol SymRParen (''expected '' @ quoted '')'' @ '' after function block call''))
           (pret (FbCallS target args)))
         else unsupported_statement c)))"

text \<open>The first keyword that is there chooses the statement.\<close>

fun first_keyword :: "(string \<times> 'a parser) list \<Rightarrow> 'a parser \<Rightarrow> 'a parser" where
  "first_keyword [] otherwise = otherwise"
| "first_keyword ((keyword, m) # ms) otherwise =
     pbind (match_keyword keyword) (\<lambda>b. if b then m else first_keyword ms otherwise)"

definition is_variable_start :: "parser_state \<Rightarrow> bool" where
  "is_variable_start ps \<longleftrightarrow> (case tk_kind (current ps) of IdentT _ \<Rightarrow> True | DirectT _ \<Rightarrow> True | _ \<Rightarrow> False)"

definition parse_statement :: "parse_calls \<Rightarrow> statement parser" where
  "parse_statement c =
     pbind (match_symbol SymSemicolon) (\<lambda>empty.
       if empty then pret EmptyS
       else
         pbind (pget current_identifier) (\<lambda>label.
         pbind (pget (peek_symbol SymColon)) (\<lambda>colon.
         case (label, colon) of
           (Some name, True) \<Rightarrow>
             pseq p_advance
             (pseq (expect_symbol SymColon (''expected '' @ quoted '':'' @ '' after IL label''))
             (pret (IlLabelS name)))
         | _ \<Rightarrow>
             pbind (pget (\<lambda>ps. current_il_op ps \<noteq> None \<and> \<not> peek_symbol SymAssign ps \<and> \<not> peek_attached_lparen ps))
               (\<lambda>instruction.
                 if instruction then parse_il_instruction c
                 else
                   first_keyword
                     [(''IF'', parse_if_statement c), (''CASE'', parse_case_statement c),
                      (''FOR'', parse_for_statement c), (''WHILE'', parse_while_statement c),
                      (''REPEAT'', parse_repeat_statement c), (''EXIT'', pret ExitS), (''RETURN'', pret ReturnS)]
                     (pbind (pget is_variable_start) (\<lambda>variable.
                       if variable then parse_variable_statement c else unsupported_statement c))))))"

definition parse_statement_list :: "parse_calls \<Rightarrow> string list \<Rightarrow> statement list parser" where
  "parse_statement_list c stops = statement_list c (check_any_keyword stops) (parse_statement c)"

end
