(* ===== verification/SynUnits.thy ===== *)
theory SynUnits
  imports SynStatement
begin

text \<open>
  Types, variable blocks, program organisation units, configurations and projects
  (\<open>parse_project\<close> to \<open>parse_program_instance\<close> of \<open>iec_syntax/src/parser.rs\<close>) without
  charts and networks, which are in the theory \<open>SynCharts\<close>.
\<close>

section \<open>Types\<close>

definition parse_subrange :: "string \<Rightarrow> string \<Rightarrow> string \<Rightarrow> subrange parser" where
  "parse_subrange low_message range_message high_message =
     pbind (expect_signed_integer low_message) (\<lambda>low.
     pseq (expect_symbol SymRange range_message)
     (pmap (\<lambda>high. \<lparr> sr_low = low, sr_high = high \<rparr>) (expect_signed_integer high_message)))"

definition parse_array_type :: "parse_calls \<Rightarrow> data_type_spec parser" where
  "parse_array_type c =
     pseq (expect_symbol SymLBracket (''expected '' @ quoted ''['' @ '' after ARRAY''))
     (pbind (pcommas c (\<lambda>ranges. pmap (\<lambda>r. ranges @ [r])
         (parse_subrange ''expected array lower bound'' (''expected '' @ quoted ''..'' @ '' in array range'')
           ''expected array upper bound'')) []) (\<lambda>ranges.
     pseq (expect_symbol SymRBracket (''expected '' @ quoted '']'' @ '' after array ranges''))
     (pseq (expect_keyword ''OF'' ''expected OF after ARRAY range'')
     (pmap (DtArray ranges) (pc_type c)))))"

definition optional_initial :: "parse_calls \<Rightarrow> expr option parser" where
  "optional_initial c =
     pbind (match_symbol SymAssign) (\<lambda>b. if b then pmap Some (parse_expression c) else pret None)"

definition parse_struct_type :: "parse_calls \<Rightarrow> data_type_spec parser" where
  "parse_struct_type c =
     pmap DtStruct (puntil_keyword c ''END_STRUCT'' (\<lambda>fs.
       pbind (expect_identifier ''expected structure field name'') (\<lambda>found. case found of
           None \<Rightarrow> pseq (synchronize_to_semicolon c) (pret fs)
         | Some name \<Rightarrow>
             pseq (expect_symbol SymColon (''expected '' @ quoted '':'' @ '' after field name''))
             (pbind (pc_type c) (\<lambda>spec.
             pbind (optional_initial c) (\<lambda>initial.
             pseq (expect_symbol SymSemicolon (''expected '' @ quoted '';'' @ '' after structure field''))
             (pret (fs @ [StructField name spec initial]))))))) [])"

definition parse_enum_type :: "parse_calls \<Rightarrow> data_type_spec parser" where
  "parse_enum_type c =
     pbind (pcommas c (\<lambda>values. pmap (\<lambda>found. case found of Some v \<Rightarrow> values @ [v] | None \<Rightarrow> values)
         (expect_identifier ''expected enumerated value'')) []) (\<lambda>values.
     pseq (expect_symbol SymRParen (''expected '' @ quoted '')'' @ '' after enumerated values''))
     (pret (DtEnum values)))"

text \<open>The rest of a type that starts with a name: the length of a string, an elementary type
  or a type by name.\<close>

definition parse_named_type_tail :: "ident \<Rightarrow> data_type_spec parser" where
  "parse_named_type_tail name =
     (let upper = canonical_identifier (original name) in
      if upper = ''STRING'' \<or> upper = ''WSTRING'' then
        pbind (match_symbol SymLBracket) (\<lambda>b.
          if b then
            pbind (expect_unsigned_integer ''expected string length'') (\<lambda>n.
            pseq (expect_symbol SymRBracket (''expected '' @ quoted '']'' @ '' after string length''))
            (pret (DtString (upper = ''WSTRING'') (Some n))))
          else pret (DtString (upper = ''WSTRING'') None))
      else case elementary_parse (original name) of
        Some elementary \<Rightarrow> pret (DtElementary elementary)
      | None \<Rightarrow> pret (DtNamed name))"

definition parse_named_type :: "data_type_spec parser" where
  "parse_named_type =
     pbind (expect_identifier ''expected type specification'') (\<lambda>found. case found of
       None \<Rightarrow> pret (DtNamed (ident_new ''<error>''))
     | Some name \<Rightarrow>
         pbind (match_symbol SymLParen) (\<lambda>b.
           case (if b then elementary_parse (original name) else None) of
             Some base \<Rightarrow>
               pbind (parse_subrange ''expected subrange lower bound''
                   (''expected '' @ quoted ''..'' @ '' in subrange'') ''expected subrange upper bound'') (\<lambda>r.
               pseq (expect_symbol SymRParen (''expected '' @ quoted '')'' @ '' after subrange''))
               (pret (DtSubrange base r)))
           | None \<Rightarrow> parse_named_type_tail name))"

definition parse_type_spec :: "parse_calls \<Rightarrow> data_type_spec parser" where
  "parse_type_spec c =
     first_keyword [(''ARRAY'', parse_array_type c), (''STRUCT'', parse_struct_type c)]
       (pbind (match_symbol SymLParen) (\<lambda>b. if b then parse_enum_type c else parse_named_type))"

definition parse_type_section :: "parse_calls \<Rightarrow> data_type_declaration list parser" where
  "parse_type_section c =
     puntil_keyword c ''END_TYPE'' (\<lambda>declarations.
       pbind (expect_identifier ''expected type name'') (\<lambda>found. case found of
           None \<Rightarrow> pseq (synchronize_to_semicolon c) (pret declarations)
         | Some name \<Rightarrow>
             pseq (expect_symbol SymColon (''expected '' @ quoted '':'' @ '' after type name''))
             (pbind (parse_type_spec c) (\<lambda>spec.
             pseq (optional_initial c)
             (pseq (expect_symbol SymSemicolon (''expected '' @ quoted '';'' @ '' after type declaration''))
             (pret (declarations @ [\<lparr> dt_name = name, dt_spec = spec \<rparr>]))))))) []"

section \<open>Variables\<close>

definition var_block_starts :: "(string \<times> var_block_kind) list" where
  "var_block_starts =
     [(''VAR'', VarLocal), (''VAR_INPUT'', VarInput), (''VAR_OUTPUT'', VarOutput), (''VAR_IN_OUT'', VarInOut),
      (''VAR_EXTERNAL'', VarExternal), (''VAR_GLOBAL'', VarGlobal), (''VAR_TEMP'', VarTemp),
      (''VAR_ACCESS'', VarAccess), (''VAR_CONFIG'', VarConfig)]"

definition is_var_block_start :: "parser_state \<Rightarrow> bool" where
  "is_var_block_start ps \<longleftrightarrow> Option.bind (current_ident_upper ps) (map_of var_block_starts) \<noteq> None"

definition var_block_kind_here :: "parser_state \<Rightarrow> var_block_kind" where
  "var_block_kind_here ps =
     (case Option.bind (current_ident_upper ps) (map_of var_block_starts) of Some k \<Rightarrow> k | None \<Rightarrow> VarLocal)"

definition location_here :: "parser_state \<Rightarrow> string option" where
  "location_here ps = (case tk_kind (current ps) of
       DirectT v \<Rightarrow> Some v | IdentT v \<Rightarrow> Some v | HashT v \<Rightarrow> Some v | _ \<Rightarrow> None)"

definition parse_location :: "string option parser" where
  "parse_location =
     pbind (match_keyword ''AT'') (\<lambda>located.
       if \<not> located then pret None
       else pbind (pget location_here) (\<lambda>found. case found of
           Some v \<Rightarrow> pseq p_advance (pret (Some v))
         | None \<Rightarrow> pseq (error_here ''expected location after AT'') (pret None)))"

text \<open>The names with their locations, or none when a name is missing.\<close>

definition parse_var_names :: "parse_calls \<Rightarrow> (ident \<times> string option) list option parser" where
  "parse_var_names c =
     ploop (pc_turns c) (\<lambda>vars.
       pbind (expect_identifier ''expected variable name'') (\<lambda>found. case found of
           None \<Rightarrow> pseq (synchronize_to_semicolon c) (pret (Inr None))
         | Some name \<Rightarrow>
             pbind parse_location (\<lambda>location.
             pbind (match_symbol SymComma) (\<lambda>more.
               let vars' = vars @ [(name, location)] in
               pret (if more then Inl vars' else Inr (Some vars')))))) []"

definition parse_edge :: "edge_qualifier option parser" where
  "parse_edge =
     first_keyword [(''R_EDGE'', pret (Some RisingEdge)), (''F_EDGE'', pret (Some FallingEdge))] (pret None)"

definition parse_var_decl :: "parse_calls \<Rightarrow> var_decl list parser" where
  "parse_var_decl c =
     pbind (parse_var_names c) (\<lambda>found. case found of
       None \<Rightarrow> pret []
     | Some vars \<Rightarrow>
         pseq (expect_symbol SymColon (''expected '' @ quoted '':'' @ '' in variable declaration''))
         (pbind (parse_type_spec c) (\<lambda>spec.
         pbind parse_edge (\<lambda>edge.
         pbind (optional_initial c) (\<lambda>initial.
         pseq (expect_symbol SymSemicolon (''expected '' @ quoted '';'' @ '' after variable declaration''))
         (pret (map (\<lambda>(name, location).
            \<lparr> var_name = name, var_location = location, var_access = None, var_edge = edge,
              var_type = spec, var_initial = initial \<rparr>) vars)))))))"

definition parse_access_direction :: "access_direction parser" where
  "parse_access_direction =
     first_keyword [(''READ_WRITE'', pret ReadWrite), (''READ_ONLY'', pret ReadOnly)] (pret ReadOnly)"

definition parse_access_path :: "parse_calls \<Rightarrow> string parser" where
  "parse_access_path c =
     pwhile c (\<lambda>ps. \<not> is_eof ps \<and> \<not> check_symbol SymColon ps) (\<lambda>path.
       pbind (pget current) (\<lambda>t. pseq p_advance (pret (path @ tk_lexeme t)))) []"

definition parse_access_type :: "parse_calls \<Rightarrow> ident \<Rightarrow> string \<Rightarrow> var_decl parser" where
  "parse_access_type c name path =
     pseq (if path = [] then error_here ''expected access path target'' else pret ())
     (pseq (expect_symbol SymColon (''expected '' @ quoted '':'' @ '' after access path target''))
     (pbind (parse_type_spec c) (\<lambda>spec.
     pbind parse_access_direction (\<lambda>direction.
     pseq (expect_symbol SymSemicolon (''expected '' @ quoted '';'' @ '' after access declaration''))
     (pret \<lparr> var_name = name, var_location = None,
       var_access = Some \<lparr> access_path = path, access_dir = direction \<rparr>, var_edge = None,
       var_type = spec, var_initial = None \<rparr>)))))"

definition parse_access_decl :: "parse_calls \<Rightarrow> var_decl parser" where
  "parse_access_decl c =
     pbind (expect_name ''expected access path name'') (\<lambda>name.
     pseq (expect_symbol SymColon (''expected '' @ quoted '':'' @ '' after access path name''))
     (pbind (parse_access_path c) (parse_access_type c name)))"

text \<open>The qualifiers of a block: constant and retained, the last one counts.\<close>

definition parse_var_qualifiers :: "parse_calls \<Rightarrow> (bool \<times> retain_kind option) parser" where
  "parse_var_qualifiers c =
     ploop (pc_turns c) (\<lambda>(constant, retain).
       first_keyword
         [(''CONSTANT'', pret (Inl (True, retain))), (''RETAIN'', pret (Inl (constant, Some Retain))),
          (''NON_RETAIN'', pret (Inl (constant, Some NonRetain)))]
         (pret (Inr (constant, retain)))) (False, None)"

definition parse_var_block :: "parse_calls \<Rightarrow> var_block parser" where
  "parse_var_block c =
     pbind (pget var_block_kind_here) (\<lambda>k.
     pseq p_advance
     (pbind (parse_var_qualifiers c) (\<lambda>(constant, retain).
     pbind (puntil_keyword c ''END_VAR'' (\<lambda>vars.
         pbind (pget (\<lambda>ps. k = VarAccess \<and> peek_symbol SymColon ps)) (\<lambda>access.
           if access then pmap (\<lambda>v. vars @ [v]) (parse_access_decl c)
           else pmap (\<lambda>vs. vars @ vs) (parse_var_decl c))) []) (\<lambda>vars.
     pret \<lparr> vb_kind = k, vb_constant = constant, vb_retain = retain, vb_vars = vars \<rparr>))))"

definition parse_var_blocks :: "parse_calls \<Rightarrow> var_block list parser" where
  "parse_var_blocks c =
     pwhile c is_var_block_start (\<lambda>blocks. pmap (\<lambda>b. blocks @ [b]) (parse_var_block c)) []"

section \<open>Configurations\<close>

definition task_parameter :: "string \<Rightarrow> expr \<Rightarrow> task \<Rightarrow> task" where
  "task_parameter param v t =
     (if param = ''SINGLE'' then t\<lparr>task_single := Some v\<rparr>
      else if param = ''INTERVAL'' then t\<lparr>task_interval := Some v\<rparr>
      else if param = ''PRIORITY'' then t\<lparr>task_prio := Some v\<rparr>
      else t)"

definition parse_task_parameters :: "parse_calls \<Rightarrow> task \<Rightarrow> task parser" where
  "parse_task_parameters c =
     ploop (pc_turns c) (\<lambda>t.
       pbind (pget (\<lambda>ps. \<not> is_eof ps \<and> \<not> check_symbol SymRParen ps)) (\<lambda>go.
         if \<not> go then pret (Inr t)
         else
           pbind (expect_name ''expected task parameter'') (\<lambda>param.
           pseq (expect_symbol SymAssign (''expected '' @ quoted '':='' @ '' in task parameter''))
           (pbind (parse_expression c) (\<lambda>v.
           pbind (match_symbol SymComma) (\<lambda>more.
             let t' = task_parameter (canonical param) v t in pret (if more then Inl t' else Inr t')))))))"

definition parse_task :: "parse_calls \<Rightarrow> task parser" where
  "parse_task c =
     pbind (expect_name ''expected task name'') (\<lambda>name.
     let t = \<lparr> task_name = name, task_single = None, task_interval = None, task_prio = None \<rparr> in
     pbind (match_symbol SymLParen) (\<lambda>b.
     pbind (if b then
         pbind (parse_task_parameters c t) (\<lambda>t'.
         pseq (expect_symbol SymRParen (''expected '' @ quoted '')'' @ '' after task parameters'')) (pret t'))
       else pret t) (\<lambda>t'.
     pseq (expect_symbol SymSemicolon (''expected '' @ quoted '';'' @ '' after TASK declaration'')) (pret t'))))"

definition parse_program_instance :: "parse_calls \<Rightarrow> program_instance parser" where
  "parse_program_instance c =
     pbind (expect_name ''expected program instance name'') (\<lambda>name.
     pbind (match_keyword ''WITH'') (\<lambda>scheduled.
     pbind (if scheduled then expect_identifier ''expected task name after WITH'' else pret None) (\<lambda>t.
     pseq (expect_symbol SymColon (''expected '' @ quoted '':'' @ '' in program instance declaration''))
     (pbind (expect_name ''expected program type name'') (\<lambda>program_type.
     pbind (match_symbol SymLParen) (\<lambda>b.
     pbind (if b then
         pbind (parse_param_assignment_list c SymRParen) (\<lambda>args.
         pseq (expect_symbol SymRParen (''expected '' @ quoted '')'' @ '' after PROGRAM instance parameters''))
         (pret args))
       else pret []) (\<lambda>args.
     pseq (expect_symbol SymSemicolon (''expected '' @ quoted '';'' @ '' after PROGRAM instance declaration''))
     (pret \<lparr> inst_name = name, inst_program = program_type, inst_task = t, inst_args = args \<rparr>))))))))"

definition parse_resource_item :: "parse_calls \<Rightarrow> resource \<Rightarrow> resource parser" where
  "parse_resource_item c r =
     first_keyword
       [(''TASK'', pmap (\<lambda>t. r\<lparr>res_tasks := res_tasks r @ [t]\<rparr>) (parse_task c)),
        (''PROGRAM'', pmap (\<lambda>i. r\<lparr>res_instances := res_instances r @ [i]\<rparr>) (parse_program_instance c))]
       (pbind (pget is_var_block_start) (\<lambda>b.
          if b then pmap (\<lambda>v. r\<lparr>res_var_blocks := res_var_blocks r @ [v]\<rparr>) (parse_var_block c)
          else pseq p_advance (pret r)))"

definition parse_resource :: "parse_calls \<Rightarrow> resource parser" where
  "parse_resource c =
     pbind (expect_name ''expected resource name'') (\<lambda>name.
     pbind (match_keyword ''ON'') (\<lambda>b.
     pseq (if b then expect_identifier ''expected resource type after ON'' else pret None)
     (puntil_keyword c ''END_RESOURCE'' (parse_resource_item c)
       \<lparr> res_name = name, res_var_blocks = [], res_tasks = [], res_instances = [] \<rparr>)))"

definition parse_configuration_item :: "parse_calls \<Rightarrow> configuration \<Rightarrow> configuration parser" where
  "parse_configuration_item c conf =
     first_keyword
       [(''RESOURCE'', pmap (\<lambda>r. conf\<lparr>conf_resources := conf_resources conf @ [r]\<rparr>) (parse_resource c))]
       (pbind (pget is_var_block_start) (\<lambda>b.
          if b then pmap (\<lambda>v. conf\<lparr>conf_var_blocks := conf_var_blocks conf @ [v]\<rparr>) (parse_var_block c)
          else pseq p_advance (pret conf)))"

definition parse_configuration :: "parse_calls \<Rightarrow> configuration parser" where
  "parse_configuration c =
     pbind (expect_name ''expected configuration name'') (\<lambda>name.
     puntil_keyword c ''END_CONFIGURATION'' (parse_configuration_item c)
       \<lparr> conf_name = name, conf_var_blocks = [], conf_resources = [] \<rparr>)"

end
