(* ===== verification/SynCharts.thy ===== *)
theory SynCharts
  imports SynUnits
begin

text \<open>
  Sequential function charts, textual ladder and function block diagrams, program
  organisation units and projects (\<open>parse_pou\<close> to \<open>parse_sfc_action_qualifier\<close> and
  \<open>parse_project\<close> of \<open>iec_syntax/src/parser.rs\<close>), the knot \<open>parser n\<close> that ties the
  recursive operations together, and the front end \<open>parse_project_with_options\<close> of
  \<open>iec_syntax/src/lib.rs\<close>.
\<close>

section \<open>Networks\<close>

definition textual_network_node :: "string \<Rightarrow> nat \<Rightarrow> (string \<times> string) list \<Rightarrow> network_node" where
  "textual_network_node k index attributes =
     \<lparr> node_id = show_nat index, node_kind = k,
       node_attributes = fold (\<lambda>(name, v). bt_insert name v) attributes (bt_insert ''localId'' (show_nat index) []) \<rparr>"

definition expr_variable_name :: "expr \<Rightarrow> string option" where
  "expr_variable_name e = (case e of VariableE v \<Rightarrow> Some (display_variable v) | _ \<Rightarrow> None)"

definition and_expr :: "expr \<Rightarrow> expr \<Rightarrow> expr" where
  "and_expr left right = BinaryE OpAnd left right"

definition and_exprs :: "expr list \<Rightarrow> expr option" where
  "and_exprs es = (case es of [] \<Rightarrow> None | e # es \<Rightarrow> Some (foldl and_expr e es))"

definition or_exprs :: "expr list \<Rightarrow> expr option" where
  "or_exprs es = (case es of [] \<Rightarrow> None | e # es \<Rightarrow> Some (foldl (BinaryE OpOr) e es))"

text \<open>One of some keywords is taken.\<close>

fun match_any_keyword :: "string list \<Rightarrow> bool parser" where
  "match_any_keyword [] = pret False"
| "match_any_keyword (keyword # keywords) =
     pbind (match_keyword keyword) (\<lambda>b. if b then pret True else match_any_keyword keywords)"

definition parse_optional_network_label :: "string option parser" where
  "parse_optional_network_label =
     pbind (pget current_identifier) (\<lambda>found.
     pbind (pget (peek_symbol SymColon)) (\<lambda>colon.
       case found of
         None \<Rightarrow> pret None
       | Some label \<Rightarrow>
           (if colon then
              pseq p_advance
              (pseq (expect_symbol SymColon (''expected '' @ quoted '':'' @ '' after network label''))
              (pret (Some (original label))))
            else pret None)))"

definition network_label_after :: "string list \<Rightarrow> string option parser" where
  "network_label_after keywords =
     pbind (match_any_keyword keywords) (\<lambda>b. if b then parse_optional_network_label else pret None)"

definition end_of_network :: "string list \<Rightarrow> unit parser" where
  "end_of_network keywords =
     pbind (match_any_keyword keywords) (\<lambda>b. if b then pmap (\<lambda>_. ()) (match_symbol SymSemicolon) else pret ())"

section \<open>Ladder diagrams\<close>

text \<open>A rung: the condition so far, the statements of its coils and its nodes.\<close>

record ladder_rung =
  rung_label :: "string option"
  rung_condition :: expr
  rung_statements :: "statement list"
  rung_nodes :: "network_node list"
  rung_index :: nat
  rung_last :: string

definition ladder_contact :: "parse_calls \<Rightarrow> bool \<Rightarrow> ladder_rung \<Rightarrow> ladder_rung parser" where
  "ladder_contact c negated rung =
     pbind (parse_expression c) (\<lambda>raw.
     pseq (expect_symbol SymSemicolon (''expected '' @ quoted '';'' @ '' after LD CONTACT'' @
       (if negated then ''_NOT'' else [])))
     (let index = rung_index rung + 1;
          attributes = (''connectionRefs'', rung_last rung) # (if negated then [(''negated'', ''true'')] else []) @
            [case expr_variable_name raw of Some v \<Rightarrow> (''variable'', v) | None \<Rightarrow> (''expression'', display_expr raw)]
      in pret (rung\<lparr>rung_condition := and_expr (rung_condition rung) (if negated then UnaryE OpNot raw else raw),
           rung_index := index,
           rung_nodes := rung_nodes rung @ [textual_network_node ''contact'' index attributes],
           rung_last := show_nat index\<rparr>)))"

definition ladder_coil_node :: "ladder_rung \<Rightarrow> statement \<Rightarrow> variable_ref \<Rightarrow> (string \<times> string) list \<Rightarrow> ladder_rung" where
  "ladder_coil_node rung st target attributes =
     rung\<lparr>rung_statements := rung_statements rung @ [st],
          rung_index := rung_index rung + 1,
          rung_nodes := rung_nodes rung @ [textual_network_node ''coil'' (rung_index rung + 1)
            ([(''connectionRefs'', rung_last rung), (''variable'', display_variable target)] @ attributes)]\<rparr>"

text \<open>The keyword that was just taken.\<close>

definition previous_is :: "string \<Rightarrow> parser_state \<Rightarrow> bool" where
  "previous_is keyword ps \<longleftrightarrow> canonical_identifier (tk_lexeme (previous ps)) = keyword"

definition ladder_coil :: "parse_calls \<Rightarrow> ladder_rung \<Rightarrow> ladder_rung parser" where
  "ladder_coil c rung =
     pbind (pget (previous_is ''COIL_NOT'')) (\<lambda>negated.
     pbind (parse_variable_ref c) (\<lambda>target.
     pseq (expect_symbol SymSemicolon (''expected '' @ quoted '';'' @ '' after LD COIL''))
     (let v = (if negated then UnaryE OpNot (rung_condition rung) else rung_condition rung)
      in pret (ladder_coil_node rung (AssignmentS target v) target []))))"

definition ladder_latch :: "parse_calls \<Rightarrow> ladder_rung \<Rightarrow> ladder_rung parser" where
  "ladder_latch c rung =
     pbind (pget (previous_is ''SET'')) (\<lambda>set_coil.
     pbind (parse_variable_ref c) (\<lambda>target.
     pseq (expect_symbol SymSemicolon (''expected '' @ quoted '';'' @ '' after LD SET/RESET coil''))
     (pret (ladder_coil_node rung
        (IfS [(rung_condition rung, [AssignmentS target (LiteralE (LBool set_coil))])] [])
        target [(''storage'', if set_coil then ''set'' else ''reset'')]))))"

definition unsupported_ladder_element :: "parse_calls \<Rightarrow> ladder_rung \<Rightarrow> ladder_rung parser" where
  "unsupported_ladder_element c rung =
     pbind (pget current) (\<lambda>t.
     pseq (error_at t (''unsupported or invalid textual LD element '' @ quoted (tk_lexeme t)))
     (pseq (synchronize_to_semicolon c) (pret rung)))"

definition ladder_element :: "parse_calls \<Rightarrow> ladder_rung \<Rightarrow> ladder_rung parser" where
  "ladder_element c rung =
     pbind (match_symbol SymSemicolon) (\<lambda>empty.
       if empty then pret rung
       else first_keyword
         [(''CONTACT'', ladder_contact c False rung), (''CONTACT_NOT'', ladder_contact c True rung),
          (''CONTACTN'', ladder_contact c True rung), (''COIL'', ladder_coil c rung), (''COIL_NOT'', ladder_coil c rung),
          (''SET'', ladder_latch c rung), (''RESET'', ladder_latch c rung)]
         (unsupported_ladder_element c rung))"

definition parse_textual_ladder_rung :: "parse_calls \<Rightarrow> string list \<Rightarrow> ladder_rung parser" where
  "parse_textual_ladder_rung c stops =
     pbind parse_optional_network_label (\<lambda>label.
     pwhile c (\<lambda>ps. \<not> is_eof ps \<and> \<not> check_any_keyword stops ps) (ladder_element c)
       \<lparr> rung_label = label, rung_condition = LiteralE (LBool True), rung_statements = [],
         rung_nodes = [textual_network_node ''leftPowerRail'' 1 []], rung_index = 1, rung_last = ''1'' \<rparr>)"

text \<open>The rungs up to a keyword, each added to what came before.\<close>

definition ladder_rungs_turn :: "parse_calls \<Rightarrow> string \<Rightarrow> (string option \<Rightarrow> ladder_rung \<Rightarrow> 'a \<Rightarrow> 'a) \<Rightarrow> 'a \<Rightarrow> 'a parser" where
  "ladder_rungs_turn c end_keyword add acc =
     pbind (match_symbol SymSemicolon) (\<lambda>empty.
       if empty then pret acc
       else
         pbind (network_label_after [''RUNG'', ''NETWORK'']) (\<lambda>label.
         pbind (parse_textual_ladder_rung c [''END_RUNG'', ''END_NETWORK'', end_keyword]) (\<lambda>rung.
         pseq (end_of_network [''END_RUNG'', ''END_NETWORK'']) (pret (add label rung acc)))))"

definition ladder_rungs :: "parse_calls \<Rightarrow> string \<Rightarrow> (string option \<Rightarrow> ladder_rung \<Rightarrow> 'a \<Rightarrow> 'a) \<Rightarrow> 'a \<Rightarrow> 'a parser" where
  "ladder_rungs c end_keyword add start =
     pbind (pwhile c (\<lambda>ps. \<not> is_eof ps \<and> \<not> check_keyword end_keyword ps) (ladder_rungs_turn c end_keyword add) start)
       (\<lambda>acc.
     pseq (expect_keyword end_keyword (''expected '' @ end_keyword))
     (pseq (match_symbol SymSemicolon) (pret acc)))"

definition or_label :: "string option \<Rightarrow> string option \<Rightarrow> string option" where
  "or_label a b = (case a of None \<Rightarrow> b | Some _ \<Rightarrow> a)"

definition network_body :: "implementation_language \<Rightarrow> statement list \<times> network list \<Rightarrow> pou_body" where
  "network_body language parts =
     \<lparr> body_language = language, body_statements = fst parts, body_networks = snd parts, body_sfc = None \<rparr>"

definition parse_textual_ladder_body :: "parse_calls \<Rightarrow> string \<Rightarrow> pou_body parser" where
  "parse_textual_ladder_body c end_keyword =
     pmap (network_body LadderDiagram)
       (ladder_rungs c end_keyword (\<lambda>label rung (statements, networks).
          (statements @ rung_statements rung,
           networks @ [\<lparr> net_label = or_label label (rung_label rung), net_language = LadderDiagram,
             net_nodes = rung_nodes rung \<rparr>])) ([], []))"

definition parse_textual_ladder_transition_condition :: "parse_calls \<Rightarrow> string \<Rightarrow> expr option parser" where
  "parse_textual_ladder_transition_condition c end_keyword =
     pmap or_exprs (ladder_rungs c end_keyword (\<lambda>label rung conditions. conditions @ [rung_condition rung]) [])"

section \<open>Function block diagrams\<close>

type_synonym fbd_network = "statement list \<times> network_node list \<times> nat"

definition fbd_output :: "parse_calls \<Rightarrow> fbd_network \<Rightarrow> fbd_network parser" where
  "fbd_output c network =
     (case network of (statements, nodes, index) \<Rightarrow>
      pbind (parse_variable_ref c) (\<lambda>target.
      pseq (expect_symbol SymAssign (''expected '' @ quoted '':='' @ '' after FBD output target''))
      (pbind (parse_expression c) (\<lambda>v.
      pseq (expect_symbol SymSemicolon (''expected '' @ quoted '';'' @ '' after FBD output''))
      (pret (statements @ [AssignmentS target v],
        nodes @ [textual_network_node ''outVariable'' (index + 1)
          [(''expression'', display_variable target), (''value'', display_expr v)]], index + 1))))))"

definition fbd_element :: "parse_calls \<Rightarrow> fbd_network \<Rightarrow> fbd_network parser" where
  "fbd_element c network =
     pbind (match_symbol SymSemicolon) (\<lambda>empty.
       if empty then pret network
       else pbind (match_any_keyword [''OUT'', ''BLOCK'']) (\<lambda>output.
         if output then fbd_output c network
         else case network of (statements, nodes, index) \<Rightarrow>
           pbind (parse_statement c) (\<lambda>st.
           pseq (match_symbol SymSemicolon) (pret (statements @ [st], nodes, index)))))"

definition parse_textual_fbd_network :: "parse_calls \<Rightarrow> string list \<Rightarrow> (string option \<times> fbd_network) parser" where
  "parse_textual_fbd_network c stops =
     pbind parse_optional_network_label (\<lambda>label.
     pmap (Pair label) (pwhile c (\<lambda>ps. \<not> is_eof ps \<and> \<not> check_any_keyword stops ps) (fbd_element c) ([], [], 0)))"

text \<open>The networks up to a keyword: \<open>network\<close> parses one, given the label before it.\<close>

definition fbd_networks_turn :: "(string option \<Rightarrow> 'a \<Rightarrow> 'a parser) \<Rightarrow> 'a \<Rightarrow> 'a parser" where
  "fbd_networks_turn network acc =
     pbind (match_symbol SymSemicolon) (\<lambda>empty.
       if empty then pret acc
       else
         pbind (network_label_after [''NETWORK'']) (\<lambda>label.
         pbind (network label acc) (\<lambda>acc'. pseq (end_of_network [''END_NETWORK'']) (pret acc'))))"

definition fbd_networks :: "parse_calls \<Rightarrow> string \<Rightarrow> (string option \<Rightarrow> 'a \<Rightarrow> 'a parser) \<Rightarrow> 'a \<Rightarrow> 'a parser" where
  "fbd_networks c end_keyword network start =
     pbind (pwhile c (\<lambda>ps. \<not> is_eof ps \<and> \<not> check_keyword end_keyword ps) (fbd_networks_turn network) start) (\<lambda>acc.
     pseq (expect_keyword end_keyword (''expected '' @ end_keyword))
     (pseq (match_symbol SymSemicolon) (pret acc)))"

definition parse_textual_fbd_body :: "parse_calls \<Rightarrow> string \<Rightarrow> pou_body parser" where
  "parse_textual_fbd_body c end_keyword =
     pmap (network_body FunctionBlockDiagram)
       (fbd_networks c end_keyword (\<lambda>label (statements, networks).
          pmap (\<lambda>(label', sts, nodes, index).
              (statements @ sts,
               networks @ [\<lparr> net_label = or_label label label', net_language = FunctionBlockDiagram, net_nodes = nodes \<rparr>]))
            (parse_textual_fbd_network c [''END_NETWORK'', end_keyword])) ([], []))"

definition fbd_condition :: "parse_calls \<Rightarrow> expr list \<Rightarrow> expr list parser" where
  "fbd_condition c conditions =
     pbind (match_symbol SymSemicolon) (\<lambda>empty.
       if empty then pret conditions
       else pbind (match_any_keyword [''OUT'', ''CONDITION'']) (\<lambda>output.
         if output then
           pseq (expect_symbol SymAssign (''expected '' @ quoted '':='' @ '' after FBD transition OUT''))
           (pbind (parse_expression c) (\<lambda>e.
           pseq (expect_symbol SymSemicolon (''expected '' @ quoted '';'' @ '' after FBD transition output''))
           (pret (conditions @ [e]))))
         else
           pbind line_end_here (\<lambda>stop.
           pbind (parse_expression_until stop (parse_expression c)) (\<lambda>e.
           pseq (expect_symbol SymSemicolon (''expected '' @ quoted '';'' @ '' after FBD transition expression''))
           (pret (conditions @ [e]))))))"

definition parse_textual_fbd_transition_condition :: "parse_calls \<Rightarrow> string \<Rightarrow> expr option parser" where
  "parse_textual_fbd_transition_condition c end_keyword =
     pmap and_exprs
       (fbd_networks c end_keyword (\<lambda>label.
          pwhile c (\<lambda>ps. \<not> is_eof ps \<and> \<not> check_any_keyword [''END_NETWORK'', end_keyword] ps) (fbd_condition c)) [])"

section \<open>Sequential function charts\<close>

definition parse_qualifier_name :: "sfc_action_qualifier parser" where
  "parse_qualifier_name =
     pbind (expect_identifier ''expected SFC action qualifier'') (\<lambda>found. case found of
       None \<Rightarrow> pret NonStored
     | Some name \<Rightarrow>
         (case qualifier_parse (original name) of
            Some q \<Rightarrow> pret q
          | None \<Rightarrow>
              pseq (error_before (''unknown SFC action qualifier '' @ quoted (original name))) (pret NonStored)))"

definition parse_qualifier_duration :: "parse_calls \<Rightarrow> literal option parser" where
  "parse_qualifier_duration c =
     pbind (match_symbol SymComma) (\<lambda>b.
       if \<not> b then pret None
       else pbind (parse_expression c) (\<lambda>e. case e of
           LiteralE l \<Rightarrow> pret (Some l)
         | _ \<Rightarrow> pseq (error_before ''expected literal duration in SFC action qualifier'') (pret None)))"

definition parse_sfc_action_qualifier :: "parse_calls \<Rightarrow> (sfc_action_qualifier \<times> literal option) parser" where
  "parse_sfc_action_qualifier c =
     pbind (match_symbol SymLParen) (\<lambda>b.
       if \<not> b then pret (NonStored, None)
       else
         pbind parse_qualifier_name (\<lambda>q.
         pbind (parse_qualifier_duration c) (\<lambda>duration.
         pseq (expect_symbol SymRParen (''expected '' @ quoted '')'' @ '' after SFC action qualifier''))
         (pret (q, duration)))))"

definition name_or_expect :: "ident option \<Rightarrow> string \<Rightarrow> ident parser" where
  "name_or_expect labeled message = (case labeled of Some name \<Rightarrow> pret name | None \<Rightarrow> expect_name message)"

definition parse_sfc_action :: "parse_calls \<Rightarrow> ident option \<Rightarrow> sfc_action parser" where
  "parse_sfc_action c labeled =
     pbind (name_or_expect labeled ''expected action name'') (\<lambda>name.
     pbind (parse_sfc_action_qualifier c) (\<lambda>(q, duration).
     pseq (if labeled \<noteq> None then match_symbol SymColon
       else expect_symbol SymColon (''expected '' @ quoted '':'' @ '' after action name''))
     (pbind (parse_statement_list c [''END_ACTION'']) (\<lambda>body.
     pseq (expect_keyword ''END_ACTION'' ''expected END_ACTION'')
     (pseq (match_symbol SymSemicolon)
     (pret \<lparr> action_name = name, action_qualifier = q, action_duration = duration, action_body = body \<rparr>))))))"

text \<open>One association; when nothing was taken a token is passed over.\<close>

definition parse_sfc_action_association ::
    "parse_calls \<Rightarrow> sfc_action_association list \<Rightarrow> sfc_action_association list parser" where
  "parse_sfc_action_association c actions =
     pbind (pget ps_pos) (\<lambda>start_pos.
     pbind (expect_identifier ''expected SFC action association name'') (\<lambda>found.
     pbind (case found of
         None \<Rightarrow> pseq (synchronize_to_sfc_action_association_boundary c) (pret actions)
       | Some name \<Rightarrow>
           pbind (parse_sfc_action_qualifier c) (\<lambda>(q, duration).
           pseq (expect_symbol SymSemicolon (''expected '' @ quoted '';'' @ '' after SFC action association''))
           (pret (actions @ [\<lparr> assoc_name = name, assoc_qualifier = Some q, assoc_duration = duration \<rparr>]))))
       (\<lambda>actions'.
     pbind (pget (\<lambda>ps. ps_pos ps = start_pos \<and> \<not> is_eof ps)) (\<lambda>stuck.
     pseq (if stuck then p_advance else pret ()) (pret actions')))))"

definition parse_sfc_action_associations :: "parse_calls \<Rightarrow> sfc_action_association list parser" where
  "parse_sfc_action_associations c =
     pwhile c (\<lambda>ps. \<not> is_eof ps \<and> \<not> check_keyword ''END_STEP'' ps) (parse_sfc_action_association c) []"

definition parse_sfc_step :: "parse_calls \<Rightarrow> bool \<Rightarrow> ident option \<Rightarrow> sfc_step parser" where
  "parse_sfc_step c initial labeled =
     pbind (name_or_expect labeled (if initial then ''expected initial step name'' else ''expected step name'')) (\<lambda>name.
     pbind (match_symbol SymColon) (\<lambda>colon.
     pbind (pget (\<lambda>ps. colon \<or> labeled \<noteq> None \<and> \<not> check_symbol SymSemicolon ps)) (\<lambda>long_form.
     pbind (if long_form then
         pbind (parse_sfc_action_associations c) (\<lambda>actions.
         pseq (expect_keyword ''END_STEP'' ''expected END_STEP after SFC step actions'')
         (pseq (match_symbol SymSemicolon) (pret actions)))
       else
         pseq (expect_symbol SymSemicolon (''expected '' @ quoted '';'' @
           (if initial then '' after initial step'' else '' after step''))) (pret [])) (\<lambda>actions.
     pret \<lparr> step_name = name, step_initial = initial, step_kind = PlainStep, step_actions = actions \<rparr>))))"

definition parse_sfc_step_list :: "parse_calls \<Rightarrow> string \<Rightarrow> ident list parser" where
  "parse_sfc_step_list c message =
     pbind (match_symbol SymLParen) (\<lambda>b.
       if b then
         pbind (ploop (pc_turns c) (\<lambda>steps.
             pbind (pget (\<lambda>ps. \<not> is_eof ps \<and> \<not> check_symbol SymRParen ps)) (\<lambda>go.
               if \<not> go then pret (Inr steps)
               else pbind (expect_identifier message) (\<lambda>found.
                 let steps' = (case found of Some s \<Rightarrow> steps @ [s] | None \<Rightarrow> steps) in
                 pbind (match_symbol SymComma) (\<lambda>more. pret (if more then Inl steps' else Inr steps'))))) [])
           (\<lambda>steps.
         pseq (expect_symbol SymRParen (''expected '' @ quoted '')'' @ '' after SFC step list'')) (pret steps))
       else pmap (\<lambda>found. case found of Some s \<Rightarrow> [s] | None \<Rightarrow> []) (expect_identifier message))"

definition at_transition_end :: "parser_state \<Rightarrow> bool" where
  "at_transition_end ps \<longleftrightarrow> check_keyword ''END_TRANSITION'' ps"

definition transition_body_turn :: "parse_calls \<Rightarrow> expr option \<Rightarrow> (expr option + expr option) parser" where
  "transition_body_turn c accumulator =
     pbind (pget (\<lambda>ps. \<not> is_eof ps \<and> \<not> at_transition_end ps)) (\<lambda>go.
       if \<not> go then pret (Inr accumulator)
       else pbind (match_symbol SymSemicolon) (\<lambda>empty.
         if empty then pret (Inl accumulator)
         else pbind (pget current) (\<lambda>t. pbind (pget current_il_op) (\<lambda>found. case found of
             Some v \<Rightarrow>
               pmap Inl (il_fold_step c (\<lambda>ps. at_transition_end ps \<or> check_symbol SymSemicolon ps)
                 parse_il_operand t v accumulator)
           | None \<Rightarrow>
               (if accumulator \<noteq> None then
                  pseq (error_at t (''expected IL instruction or END_TRANSITION in SFC transition body, found '' @
                    quoted (tk_lexeme t)))
                  (pseq (synchronize_to_keyword c ''END_TRANSITION'') (pret (Inr accumulator)))
                else
                  pbind line_end_here (\<lambda>stop.
                  pbind (parse_expression_until stop (parse_expression c)) (\<lambda>e.
                  pseq (match_symbol SymSemicolon) (pret (Inl (Some e))))))))))"

definition parse_sfc_transition_body_condition :: "parse_calls \<Rightarrow> expr option parser" where
  "parse_sfc_transition_body_condition c =
     first_keyword
       [(''LADDER'', parse_textual_ladder_transition_condition c ''END_LADDER''),
        (''FBD'', parse_textual_fbd_transition_condition c ''END_FBD'')]
       (pbind (ploop (pc_turns c) (transition_body_turn c) None) (\<lambda>accumulator.
        pseq (if accumulator = None
          then error_here ''SFC transition body requires an expression or IL accumulator body'' else pret ())
        (pret accumulator)))"

definition transition_name :: "ident option \<Rightarrow> ident option parser" where
  "transition_name prefixed =
     (if prefixed \<noteq> None then pret prefixed
      else
        pbind (pget (\<lambda>ps. current_identifier ps \<noteq> None \<and> \<not> check_keyword ''FROM'' ps \<and>
            (peek_symbol SymAssign ps \<or> keyword_at 1 [''FROM''] ps \<or> peek_symbol SymLParen ps))) (\<lambda>named.
          if named then pbind (pget current_identifier) (\<lambda>name. pseq p_advance (pret name))
          else pret None))"

definition transition_priority :: "parse_calls \<Rightarrow> int option parser" where
  "transition_priority c =
     pbind (match_symbol SymLParen) (\<lambda>b.
       if \<not> b then pret None
       else
         pbind (match_keyword ''PRIORITY'') (\<lambda>p.
         pbind (if p then
             pseq (expect_symbol SymAssign (''expected '' @ quoted '':='' @ '' in SFC transition priority''))
               (parse_integer_token ''expected integer SFC transition priority'')
           else pret None) (\<lambda>priority.
         pseq (skip_until c (check_symbol SymRParen))
         (pseq (expect_symbol SymRParen (''expected '' @ quoted '')'' @ '' after SFC transition options''))
         (pret priority)))))"

definition transition_condition :: "parse_calls \<Rightarrow> expr option parser" where
  "transition_condition c =
     pbind (match_symbol SymAssign) (\<lambda>assign.
       if assign then
         pbind (parse_expression c) (\<lambda>e.
         pseq (expect_symbol SymSemicolon (''expected '' @ quoted '';'' @ '' after transition condition'')) (pret (Some e)))
       else pbind (match_symbol SymColon) (\<lambda>colon.
         if colon then parse_sfc_transition_body_condition c
         else
           pseq (error_here (''expected '' @ quoted '':='' @ '' or '' @ quoted '':'' @ '' in SFC transition'')) (pret None)))"

definition parse_sfc_transition :: "parse_calls \<Rightarrow> ident option \<Rightarrow> sfc_transition parser" where
  "parse_sfc_transition c prefixed =
     pbind (transition_name prefixed) (\<lambda>name.
     pbind (transition_priority c) (\<lambda>priority.
     pbind (match_keyword ''FROM'') (\<lambda>b.
       if b then
         pbind (parse_sfc_step_list c ''expected SFC transition predecessor step'') (\<lambda>from_steps.
         pseq (expect_keyword ''TO'' ''expected TO in SFC transition'')
         (pbind (parse_sfc_step_list c ''expected SFC transition successor step'') (\<lambda>to_steps.
         pbind (transition_condition c) (\<lambda>condition.
         pseq (expect_keyword ''END_TRANSITION'' ''expected END_TRANSITION'')
         (pseq (match_symbol SymSemicolon)
         (pret \<lparr> trans_name = name, trans_from = from_steps, trans_to = to_steps, trans_condition = condition,
           trans_priority = priority \<rparr>))))))
       else
         pseq (expect_symbol SymAssign (''expected '' @ quoted '':='' @ '' in transition''))
         (pbind (parse_expression c) (\<lambda>e.
         pseq (expect_symbol SymSemicolon (''expected '' @ quoted '';'' @ '' after transition''))
         (pret \<lparr> trans_name = name, trans_from = [], trans_to = [], trans_condition = Some e,
           trans_priority = priority \<rparr>))))))"

text \<open>\<open>name : KEYWORD\<close> from the current token on.\<close>

definition is_labeled :: "string list \<Rightarrow> parser_state \<Rightarrow> bool" where
  "is_labeled keywords ps \<longleftrightarrow>
     current_identifier ps \<noteq> None \<and> peek_symbol SymColon ps \<and> keyword_at 2 keywords ps"

definition is_labeled_sfc_step :: "parser_state \<Rightarrow> bool" where
  "is_labeled_sfc_step = is_labeled [''STEP'', ''INITIAL_STEP'']"

definition is_labeled_sfc_transition :: "parser_state \<Rightarrow> bool" where
  "is_labeled_sfc_transition = is_labeled [''TRANSITION'']"

definition is_labeled_sfc_action :: "parser_state \<Rightarrow> bool" where
  "is_labeled_sfc_action = is_labeled [''ACTION'']"

definition is_sfc_statement_start :: "parser_state \<Rightarrow> bool" where
  "is_sfc_statement_start ps \<longleftrightarrow>
     check_any_keyword [''INITIAL_STEP'', ''STEP'', ''TRANSITION'', ''ACTION''] ps \<or>
     is_labeled_sfc_step ps \<or> is_labeled_sfc_transition ps \<or> is_labeled_sfc_action ps"

text \<open>The label and its colon are taken.\<close>

definition take_label :: "string \<Rightarrow> (ident option \<Rightarrow> 'a parser) \<Rightarrow> 'a parser" where
  "take_label what m =
     pbind (pget current_identifier) (\<lambda>name.
     pseq p_advance
     (pseq (expect_symbol SymColon (''expected '' @ quoted '':'' @ '' after SFC '' @ what @ '' label'')) (m name)))"

definition labeled_sfc_step :: "parse_calls \<Rightarrow> ident option \<Rightarrow> sfc_step parser" where
  "labeled_sfc_step c name =
     pbind (match_keyword ''INITIAL_STEP'') (\<lambda>initial.
       if initial then parse_sfc_step c True name
       else
         pseq (expect_keyword ''STEP'' ''expected STEP or INITIAL_STEP after SFC label'')
           (parse_sfc_step c False name))"

definition add_step :: "sfc \<Rightarrow> sfc_step \<Rightarrow> sfc" where
  "add_step chart s = chart\<lparr>sfc_steps := sfc_steps chart @ [s]\<rparr>"

definition add_transition :: "sfc \<Rightarrow> sfc_transition \<Rightarrow> sfc" where
  "add_transition chart t = chart\<lparr>sfc_transitions := sfc_transitions chart @ [t]\<rparr>"

definition add_action :: "sfc \<Rightarrow> sfc_action \<Rightarrow> sfc" where
  "add_action chart a = chart\<lparr>sfc_actions := sfc_actions chart @ [a]\<rparr>"

definition unsupported_sfc_element :: "parse_calls \<Rightarrow> sfc \<Rightarrow> sfc parser" where
  "unsupported_sfc_element c chart =
     pbind (pget current) (\<lambda>t.
     pseq (error_at t (''unsupported or invalid SFC element '' @ quoted (tk_lexeme t)))
     (pseq (synchronize_to_semicolon c) (pseq (match_symbol SymSemicolon) (pret chart))))"

definition sfc_element :: "parse_calls \<Rightarrow> sfc \<Rightarrow> sfc parser" where
  "sfc_element c chart =
     first_keyword
       [(''INITIAL_STEP'', pmap (add_step chart) (parse_sfc_step c True None)),
        (''STEP'', pmap (add_step chart) (parse_sfc_step c False None))]
     (pbind (pget is_labeled_sfc_step) (\<lambda>step.
        if step then pmap (add_step chart) (take_label ''step'' (labeled_sfc_step c))
        else first_keyword [(''TRANSITION'', pmap (add_transition chart) (parse_sfc_transition c None))]
     (pbind (pget is_labeled_sfc_transition) (\<lambda>transition.
        if transition then
          pmap (add_transition chart) (take_label ''transition'' (\<lambda>name.
            pseq (expect_keyword ''TRANSITION'' ''expected TRANSITION after SFC label'') (parse_sfc_transition c name)))
        else first_keyword [(''ACTION'', pmap (add_action chart) (parse_sfc_action c None))]
     (pbind (pget is_labeled_sfc_action) (\<lambda>action.
        if action then
          pmap (add_action chart) (take_label ''action'' (\<lambda>name.
            pseq (expect_keyword ''ACTION'' ''expected ACTION after SFC label'') (parse_sfc_action c name)))
        else unsupported_sfc_element c chart))))))"

definition parse_sfc_body :: "parse_calls \<Rightarrow> string \<Rightarrow> sfc parser" where
  "parse_sfc_body c end_keyword =
     pwhile c (\<lambda>ps. \<not> is_eof ps \<and> \<not> check_keyword end_keyword ps) (sfc_element c)
       \<lparr> sfc_steps = [], sfc_transitions = [], sfc_actions = [] \<rparr>"

section \<open>Program organisation units\<close>

datatype pou_start = FunctionStart | FunctionBlockStart | ProgramStart

primrec end_keyword_of :: "pou_start \<Rightarrow> string" where
  "end_keyword_of FunctionStart = ''END_FUNCTION''"
| "end_keyword_of FunctionBlockStart = ''END_FUNCTION_BLOCK''"
| "end_keyword_of ProgramStart = ''END_PROGRAM''"

definition parse_pou_kind :: "parse_calls \<Rightarrow> pou_start \<Rightarrow> pou_kind parser" where
  "parse_pou_kind c start = (case start of
       FunctionStart \<Rightarrow>
         pseq (expect_symbol SymColon (''expected '' @ quoted '':'' @ '' after function name''))
           (pmap FunctionKind (parse_type_spec c))
     | FunctionBlockStart \<Rightarrow> pret FunctionBlockKind
     | ProgramStart \<Rightarrow> pret ProgramKind)"

definition parse_pou_body :: "parse_calls \<Rightarrow> string \<Rightarrow> pou_body parser" where
  "parse_pou_body c end_keyword =
     pbind (first_keyword
         [(''LADDER'', parse_textual_ladder_body c ''END_LADDER''), (''FBD'', parse_textual_fbd_body c ''END_FBD'')]
         (pbind (pget is_sfc_statement_start) (\<lambda>chart.
           if chart then
             pmap (\<lambda>s. \<lparr> body_language = SequentialFunctionChart, body_statements = [], body_networks = [],
                 body_sfc = Some s \<rparr>) (parse_sfc_body c end_keyword)
           else pmap structured_text (parse_statement_list c [end_keyword])))) (\<lambda>body.
     pseq (expect_keyword end_keyword (''expected '' @ end_keyword)) (pret body))"

definition parse_pou :: "parse_calls \<Rightarrow> pou_start \<Rightarrow> pou parser" where
  "parse_pou c start =
     pbind (expect_name ''expected POU name'') (\<lambda>name.
     pbind (parse_pou_kind c start) (\<lambda>k.
     pbind (parse_var_blocks c) (\<lambda>blocks.
     pbind (parse_pou_body c (end_keyword_of start)) (\<lambda>body.
     pret \<lparr> pou_name = name, pou_kind = k, pou_var_blocks = blocks, pou_body = body \<rparr>))))"

section \<open>Projects\<close>

definition unexpected_element :: "unit parser" where
  "unexpected_element =
     pbind (pget current) (\<lambda>t.
     pseq (error_at t (''expected TYPE, FUNCTION, FUNCTION_BLOCK, PROGRAM, or CONFIGURATION; found '' @
       quoted (tk_lexeme t))) p_advance)"

text \<open>The elements that one turn of the loop adds.\<close>

definition parse_library_elements :: "parse_calls \<Rightarrow> library_element list parser" where
  "parse_library_elements c =
     first_keyword
       [(''TYPE'', pmap (map DataTypeElement) (parse_type_section c)),
        (''FUNCTION'', pmap (\<lambda>p. [PouElement p]) (parse_pou c FunctionStart)),
        (''FUNCTION_BLOCK'', pmap (\<lambda>p. [PouElement p]) (parse_pou c FunctionBlockStart)),
        (''PROGRAM'', pmap (\<lambda>p. [PouElement p]) (parse_pou c ProgramStart)),
        (''CONFIGURATION'', pmap (\<lambda>f. [ConfigurationElement f]) (parse_configuration c))]
       (pbind (match_symbol SymSemicolon) (\<lambda>b.
          if b then pret [] else pseq unexpected_element (pret [])))"

definition parse_project :: "parse_calls \<Rightarrow> project parser" where
  "parse_project c =
     pwhile c (\<lambda>ps. \<not> is_eof ps) (\<lambda>p.
       pmap (\<lambda>es. p\<lparr>prj_elements := prj_elements p @ es\<rparr>) (parse_library_elements c)) (project_new Strict2003)"

section \<open>The knot\<close>

primrec parser :: "nat \<Rightarrow> parse_calls" where
  "parser 0 =
     \<lparr> pc_turns = 1, pc_expression = out_of_fuel, pc_unary = out_of_fuel, pc_il_operand = out_of_fuel,
       pc_statement = out_of_fuel, pc_statements = (\<lambda>_. out_of_fuel), pc_type = out_of_fuel \<rparr>"
| "parser (Suc n) =
     (let c = parser n in
      \<lparr> pc_turns = Suc (Suc n), pc_expression = parse_expression c, pc_unary = parse_unary c,
        pc_il_operand = parse_il_operand c, pc_statement = parse_statement c,
        pc_statements = parse_statement_list c, pc_type = parse_type_spec c \<rparr>)"

section \<open>The front end\<close>

text \<open>What \<open>parse_project_with_options\<close> returns, or that it panics.\<close>

datatype parse_output =
    NoOutput
  | Panics
  | ParseOutput (po_project: project) (po_diagnostics: "diagnostic list")

definition parse_project_with_options ::
    "nat \<Rightarrow> bool \<Rightarrow> string \<Rightarrow> string \<Rightarrow> implementation_parameters \<Rightarrow> parse_output" where
  "parse_project_with_options fuel oc source_name source implementation =
     (if length source > max_source_bytes implementation then
        ParseOutput (project_new Strict2003)
          [diagnostic_error CodeCompliance (''source size '' @ show_nat (length source) @ '' bytes exceeds maximum '' @
             show_nat (max_source_bytes implementation)) None]
      else
        (case lex (lexer_new source_name source implementation) of (tokens, lx) \<Rightarrow>
           case parse_project (parser fuel) (parser_new oc source tokens implementation) of
             OutOfFuel \<Rightarrow> NoOutput
           | Aborted \<Rightarrow> Panics
           | Parsed p ps \<Rightarrow> ParseOutput p (lx_diagnostics lx @ ps_diagnostics ps)))"

end
