(* ===== verification/SynReads.thy ===== *)
theory SynReads
  imports SynCharts
begin

text \<open>
  When an operation of the parser ends: \<open>reads k P m m'\<close> says that from every state with
  fewer than \<open>k\<close> tokens left the operation \<open>m\<close> (over some record of calls) has a result,
  that \<open>m'\<close> (the operation over another record of calls) has the same, that the parser stays
  on its tokens, and that a result \<open>x\<close> with \<open>P\<close> has taken at least one token. The
  recursive calls happen after a token was taken, so records of calls that are good below
  \<open>k\<close> make operations that are good below \<open>k + 1\<close>.
\<close>

named_theorems reads_rules \<open>operations of the parser that end\<close>
named_theorems reads_tokens \<open>operations of the parser that take a token, if there is one\<close>

section \<open>States\<close>

definition parser_ok :: "parser_state \<Rightarrow> bool" where
  "parser_ok ps \<longleftrightarrow> ps_pos ps < length (ps_tokens ps) \<and>
     (\<forall>i < length (ps_tokens ps). (tk_kind (ps_tokens ps ! i) = EofT) = (i = length (ps_tokens ps) - 1)) \<and>
     (\<forall>t \<in> set (ps_tokens ps). get_from (ps_source ps) (span_start (tk_span t)) \<noteq> None)"

definition tokens_left :: "parser_state \<Rightarrow> nat" where
  "tokens_left ps = length (ps_tokens ps) - 1 - ps_pos ps"

definition same_input :: "parser_state \<Rightarrow> parser_state \<Rightarrow> bool" where
  "same_input ps ps' \<longleftrightarrow> ps_tokens ps' = ps_tokens ps \<and> ps_source ps' = ps_source ps \<and>
     ps_implementation ps' = ps_implementation ps \<and> ps_overflow_checks ps' = ps_overflow_checks ps \<and>
     ps_expression_stop ps' = ps_expression_stop ps \<and> ps_expression_depth ps' = ps_expression_depth ps \<and>
     (\<exists>ds. ps_diagnostics ps' = ps_diagnostics ps @ ds)"

lemma same_input_refl [simp]: "same_input ps ps"
  by (simp add: same_input_def)

lemma same_input_trans: "same_input a b \<Longrightarrow> same_input b d \<Longrightarrow> same_input a d"
  by (auto simp: same_input_def)

lemma eof_left: "parser_ok ps \<Longrightarrow> is_eof ps \<longleftrightarrow> tokens_left ps = 0"
  by (auto simp: parser_ok_def is_eof_def current_def tokens_left_def)

section \<open>Ending\<close>

definition reads :: "nat \<Rightarrow> (bool \<Rightarrow> 'a \<Rightarrow> bool) \<Rightarrow> 'a parser \<Rightarrow> 'a parser \<Rightarrow> bool" where
  "reads k P m m' \<longleftrightarrow> (\<forall>ps. parser_ok ps \<and> tokens_left ps < k \<longrightarrow> m' ps = m ps \<and>
     (case m ps of
        OutOfFuel \<Rightarrow> False
      | Aborted \<Rightarrow> ps_overflow_checks ps
      | Parsed x ps' \<Rightarrow> parser_ok ps' \<and> same_input ps ps' \<and> tokens_left ps' \<le> tokens_left ps \<and>
          (P (0 < tokens_left ps) x \<longrightarrow> tokens_left ps' < tokens_left ps)))"

abbreviation anything :: "bool \<Rightarrow> 'a \<Rightarrow> bool" where "anything \<equiv> \<lambda>_ _. False"
abbreviation token_if_any :: "bool \<Rightarrow> 'a \<Rightarrow> bool" where "token_if_any \<equiv> \<lambda>more _. more"

lemma readsI:
  assumes "\<And>ps. parser_ok ps \<Longrightarrow> tokens_left ps < k \<Longrightarrow> m' ps = m ps"
    and "\<And>ps. parser_ok ps \<Longrightarrow> tokens_left ps < k \<Longrightarrow> m ps \<noteq> OutOfFuel"
    and "\<And>ps. parser_ok ps \<Longrightarrow> tokens_left ps < k \<Longrightarrow> m ps = Aborted \<Longrightarrow> ps_overflow_checks ps"
    and "\<And>ps x ps'. parser_ok ps \<Longrightarrow> tokens_left ps < k \<Longrightarrow> m ps = Parsed x ps' \<Longrightarrow>
      parser_ok ps' \<and> same_input ps ps' \<and> tokens_left ps' \<le> tokens_left ps \<and>
      (P (0 < tokens_left ps) x \<longrightarrow> tokens_left ps' < tokens_left ps)"
  shows "reads k P m m'"
  unfolding reads_def
proof (intro allI impI conjI)
  fix ps assume "parser_ok ps \<and> tokens_left ps < k"
  then show "m' ps = m ps"
    and "case m ps of OutOfFuel \<Rightarrow> False | Aborted \<Rightarrow> ps_overflow_checks ps
      | Parsed x ps' \<Rightarrow> parser_ok ps' \<and> same_input ps ps' \<and> tokens_left ps' \<le> tokens_left ps \<and>
          (P (0 < tokens_left ps) x \<longrightarrow> tokens_left ps' < tokens_left ps)"
    using assms [of ps] by (auto split: parsed.splits)
qed

lemma readsD:
  assumes "reads k P m m'" and "parser_ok ps" and "tokens_left ps < k"
  shows "m' ps = m ps" and "m ps \<noteq> OutOfFuel" and "m ps = Aborted \<Longrightarrow> ps_overflow_checks ps"
    and "m ps = Parsed x ps' \<Longrightarrow> parser_ok ps' \<and> same_input ps ps' \<and> tokens_left ps' \<le> tokens_left ps \<and>
      (P (0 < tokens_left ps) x \<longrightarrow> tokens_left ps' < tokens_left ps)"
proof -
  have all: "m' ps = m ps \<and>
     (case m ps of
        OutOfFuel \<Rightarrow> False
      | Aborted \<Rightarrow> ps_overflow_checks ps
      | Parsed x ps' \<Rightarrow> parser_ok ps' \<and> same_input ps ps' \<and> tokens_left ps' \<le> tokens_left ps \<and>
          (P (0 < tokens_left ps) x \<longrightarrow> tokens_left ps' < tokens_left ps))"
    using assms(1) [unfolded reads_def, rule_format, of ps] assms(2,3) by blast
  show "m' ps = m ps" "m ps \<noteq> OutOfFuel" "m ps = Aborted \<Longrightarrow> ps_overflow_checks ps"
    using all by (auto split: parsed.splits)
  show "m ps = Parsed x ps' \<Longrightarrow> parser_ok ps' \<and> same_input ps ps' \<and> tokens_left ps' \<le> tokens_left ps \<and>
      (P (0 < tokens_left ps) x \<longrightarrow> tokens_left ps' < tokens_left ps)"
    using all by simp
qed

lemma reads_weaken:
  assumes "reads k P m m'" and "j \<le> k" and "\<And>more x. Q more x \<Longrightarrow> P more x"
  shows "reads j Q m m'"
proof (rule readsI)
  fix ps assume "parser_ok ps" and "tokens_left ps < j"
  note ok = readsD [OF assms(1) this(1) less_le_trans [OF this(2) assms(2)]]
  show "m' ps = m ps" "m ps \<noteq> OutOfFuel"
    using ok(1,2) .
  show "m ps = Aborted \<Longrightarrow> ps_overflow_checks ps"
    by (rule ok(3))
  show "m ps = Parsed x ps' \<Longrightarrow> parser_ok ps' \<and> same_input ps ps' \<and> tokens_left ps' \<le> tokens_left ps \<and>
      (Q (0 < tokens_left ps) x \<longrightarrow> tokens_left ps' < tokens_left ps)" for x ps'
    using ok(4) [of x ps'] assms(3) by blast
qed

lemma reads_any: "reads k P m m' \<Longrightarrow> reads k anything m m'"
  by (erule reads_weaken) simp_all

lemma reads_Suc: "reads (Suc k) P m m' \<Longrightarrow> reads k P m m'"
  by (erule reads_weaken) simp_all

lemma reads_both:
  assumes "reads k P m m'" and "reads k Q m m'"
  shows "reads k (\<lambda>more x. P more x \<or> Q more x) m m'"
proof (rule readsI)
  fix ps assume ok: "parser_ok ps" "tokens_left ps < k"
  note p = readsD [OF assms(1) ok] and q = readsD [OF assms(2) ok]
  show "m' ps = m ps" "m ps \<noteq> OutOfFuel"
    using p(1,2) .
  show "m ps = Aborted \<Longrightarrow> ps_overflow_checks ps"
    by (rule p(3))
  show "m ps = Parsed x ps' \<Longrightarrow> parser_ok ps' \<and> same_input ps ps' \<and> tokens_left ps' \<le> tokens_left ps \<and>
      (P (0 < tokens_left ps) x \<or> Q (0 < tokens_left ps) x \<longrightarrow> tokens_left ps' < tokens_left ps)" for x ps'
    using p(4) [of x ps'] q(4) [of x ps'] by blast
qed

section \<open>Sequences\<close>

text \<open>After a result that has taken a token the rest has fewer tokens left and takes as many
  as it likes; after another it has to take the token itself.\<close>

lemma reads_bind:
  assumes m: "reads j P m m'"
    and taken: "\<And>x. (\<And>more. P more x) \<Longrightarrow> reads (j - 1) anything (f x) (f' x)"
    and left: "\<And>x more. \<not> P more x \<Longrightarrow> reads j (\<lambda>more y. Q more y \<and> \<not> P more x) (f x) (f' x)"
  shows "reads j Q (pbind m f) (pbind m' f')"
proof (rule readsI)
  fix ps assume ok: "parser_ok ps" "tokens_left ps < j"
  note m' = readsD [OF m ok]
  have rest: "f' x ps' = f x ps' \<and> f x ps' \<noteq> OutOfFuel \<and> (f x ps' = Aborted \<longrightarrow> ps_overflow_checks ps) \<and>
      (\<forall>y ps''. f x ps' = Parsed y ps'' \<longrightarrow> parser_ok ps'' \<and> same_input ps ps'' \<and> tokens_left ps'' \<le> tokens_left ps \<and>
        (Q (0 < tokens_left ps) y \<longrightarrow> tokens_left ps'' < tokens_left ps))"
    if "m ps = Parsed x ps'" for x ps'
  proof -
    note m'' = m'(4) [OF that]
    have step: "same_input ps ps'" "parser_ok ps'" "tokens_left ps' \<le> tokens_left ps"
      and checks: "ps_overflow_checks ps' = ps_overflow_checks ps"
      using m'' by (simp_all add: same_input_def)
    show ?thesis
    proof (cases "\<forall>more. P more x")
      case True
      then have "tokens_left ps' < j - 1" and less: "tokens_left ps' < tokens_left ps"
        using m'' ok(2) by auto
      note f = readsD [OF taken [OF True [rule_format]] step(2) this(1)]
      show ?thesis
        using f(1,2,3) f(4) same_input_trans [OF step(1)] less checks by (auto dest: le_less_trans)
    next
      case False
      then obtain more where "\<not> P more x" by blast
      note f = readsD [OF left [OF this] step(2) le_less_trans [OF step(3) ok(2)]]
      show ?thesis
        using f(1,2,3) f(4) same_input_trans [OF step(1)] m'' checks
        by (cases "tokens_left ps' = tokens_left ps") (auto dest: le_less_trans)
    qed
  qed
  then show "pbind m' f' ps = pbind m f ps" "pbind m f ps \<noteq> OutOfFuel"
      "pbind m f ps = Aborted \<Longrightarrow> ps_overflow_checks ps"
    using m'(1-3) by (auto simp: pbind_def split: parsed.splits)
  fix y ps'' assume "pbind m f ps = Parsed y ps''"
  then show "parser_ok ps'' \<and> same_input ps ps'' \<and> tokens_left ps'' \<le> tokens_left ps \<and>
      (Q (0 < tokens_left ps) y \<longrightarrow> tokens_left ps'' < tokens_left ps)"
    using rest by (auto simp: pbind_def split: parsed.splits)
qed


text \<open>The cases: the first part takes a token, or nothing is known of it.\<close>

lemma reads_bind_any [reads_rules]:
  "reads j anything m m' \<Longrightarrow> (\<And>x. reads j Q (f x) (f' x)) \<Longrightarrow> reads j Q (pbind m f) (pbind m' f')"
  by (rule reads_bind [where P = anything]) simp_all

lemma reads_bind_token:
  "reads j token_if_any m m' \<Longrightarrow> (\<And>x. reads j anything (f x) (f' x)) \<Longrightarrow>
   reads j token_if_any (pbind m f) (pbind m' f')"
  by (rule reads_bind [where P = token_if_any]) simp_all

lemma reads_seq_any [reads_rules]:
  "reads j anything m m' \<Longrightarrow> reads j Q n n' \<Longrightarrow> reads j Q (pseq m n) (pseq m' n')"
  unfolding pseq_def by (rule reads_bind_any)

lemma reads_seq_token:
  "reads j token_if_any m m' \<Longrightarrow> reads j anything n n' \<Longrightarrow> reads j token_if_any (pseq m n) (pseq m' n')"
  unfolding pseq_def by (rule reads_bind_token)

lemma reads_pret [reads_rules]: "(\<And>more. \<not> Q more x) \<Longrightarrow> reads j Q (pret x) (pret x)"
  by (simp add: reads_def pret_def)

lemma reads_map_any [reads_rules]: "reads j anything m m' \<Longrightarrow> reads j anything (pmap f m) (pmap f m')"
  unfolding pmap_def by (rule reads_rules | assumption | simp)+

lemma reads_map_token: "reads j token_if_any m m' \<Longrightarrow> reads j token_if_any (pmap f m) (pmap f m')"
  unfolding pmap_def by (rule reads_bind_token, assumption, rule reads_pret, simp)

section \<open>Parts\<close>

lemma reads_get [reads_rules]: "reads j anything (pget g) (pget g)"
  by (simp add: reads_def pget_def)

lemma reads_errors [reads_rules]:
  "reads j anything (error_at t message) (error_at t message)"
  "reads j anything (limit_error_at t message) (limit_error_at t message)"
  by (auto simp: reads_def error_at_def limit_error_at_def pmodify_def parser_ok_def same_input_def tokens_left_def)

lemma reads_errors_here [reads_rules]:
  "reads j anything (error_here message) (error_here message)"
  "reads j anything (error_before message) (error_before message)"
  "reads j anything (limit_error_before message) (limit_error_before message)"
  unfolding error_here_def error_before_def limit_error_before_def by (rule reads_rules)+

lemma reads_advance [reads_tokens]: "reads j token_if_any p_advance p_advance"
  unfolding reads_def p_advance_def pmodify_def
  by (auto simp: parser_ok_def is_eof_def current_def tokens_left_def same_input_def)

lemma reads_advance_any [reads_rules]: "reads j anything p_advance p_advance"
  using reads_advance by (rule reads_any)

text \<open>A test that only a token before the end passes.\<close>

definition before_eof :: "(parser_state \<Rightarrow> bool) \<Rightarrow> bool" where
  "before_eof P \<longleftrightarrow> (\<forall>ps. P ps \<longrightarrow> \<not> is_eof ps)"

lemma before_eof_tests [simp]:
  "before_eof (check_keyword keyword)" "before_eof (check_symbol symb)"
  by (auto simp: before_eof_def check_keyword_def current_ident_upper_def ident_of_def check_symbol_def is_eof_def
      split: token_kind.splits)

lemma reads_token_kind [reads_rules]:
  "(\<And>v. x = IdentT v \<Longrightarrow> reads j Q (f1 v) (g1 v)) \<Longrightarrow> (\<And>v. x = NumberT v \<Longrightarrow> reads j Q (f2 v) (g2 v)) \<Longrightarrow>
   (\<And>v. x = StringT v \<Longrightarrow> reads j Q (f3 v) (g3 v)) \<Longrightarrow> (\<And>v. x = WStringT v \<Longrightarrow> reads j Q (f4 v) (g4 v)) \<Longrightarrow>
   (\<And>v. x = HashT v \<Longrightarrow> reads j Q (f5 v) (g5 v)) \<Longrightarrow> (\<And>v. x = DirectT v \<Longrightarrow> reads j Q (f6 v) (g6 v)) \<Longrightarrow>
   (\<And>v. x = SymbolT v \<Longrightarrow> reads j Q (f7 v) (g7 v)) \<Longrightarrow> (x = EofT \<Longrightarrow> reads j Q f8 g8) \<Longrightarrow>
   reads j Q
     (case x of IdentT v \<Rightarrow> f1 v | NumberT v \<Rightarrow> f2 v | StringT v \<Rightarrow> f3 v | WStringT v \<Rightarrow> f4 v | HashT v \<Rightarrow> f5 v
      | DirectT v \<Rightarrow> f6 v | SymbolT v \<Rightarrow> f7 v | EofT \<Rightarrow> f8)
     (case x of IdentT v \<Rightarrow> g1 v | NumberT v \<Rightarrow> g2 v | StringT v \<Rightarrow> g3 v | WStringT v \<Rightarrow> g4 v | HashT v \<Rightarrow> g5 v
      | DirectT v \<Rightarrow> g6 v | SymbolT v \<Rightarrow> g7 v | EofT \<Rightarrow> g8)"
  by (cases x) auto

text \<open>Under a test that only a token before the end passes, a token is there to take.\<close>

lemma reads_test:
  assumes "before_eof P" and m: "reads j token_if_any m m'" and n: "reads j Q n n'"
  shows "reads j Q (pbind (pget P) (\<lambda>b. if b then m else n)) (pbind (pget P) (\<lambda>b. if b then m' else n'))"
proof (rule readsI)
  fix ps assume ok: "parser_ok ps" "tokens_left ps < j"
  have more: "P ps \<Longrightarrow> 0 < tokens_left ps"
    using assms(1) ok(1) by (auto simp: before_eof_def eof_left)
  note m' = readsD [OF m ok] and n' = readsD [OF n ok]
  show "pbind (pget P) (\<lambda>b. if b then m' else n') ps = pbind (pget P) (\<lambda>b. if b then m else n) ps"
    "pbind (pget P) (\<lambda>b. if b then m else n) ps \<noteq> OutOfFuel"
    using m'(1,2) n'(1,2) by (simp_all add: pbind_def pget_def)
  show "pbind (pget P) (\<lambda>b. if b then m else n) ps = Aborted \<Longrightarrow> ps_overflow_checks ps"
    using m'(3) n'(3) by (simp add: pbind_def pget_def split: if_splits)
  show "pbind (pget P) (\<lambda>b. if b then m else n) ps = Parsed x ps' \<Longrightarrow>
      parser_ok ps' \<and> same_input ps ps' \<and> tokens_left ps' \<le> tokens_left ps \<and>
      (Q (0 < tokens_left ps) x \<longrightarrow> tokens_left ps' < tokens_left ps)" for x ps'
    using m'(4) n'(4) more by (cases "P ps") (simp_all add: pbind_def pget_def)
qed

lemma reads_take:
  assumes "before_eof P"
  shows "reads j (\<lambda>_ b. b) (take_if P) (take_if P)"
  unfolding take_if_def using assms
  by (rule reads_test) (rule reads_seq_token reads_advance reads_pret | simp)+

lemma reads_bind_take:
  assumes "before_eof P" and "reads (j - 1) anything (f True) (f' True)" and "reads j Q (f False) (f' False)"
  shows "reads j Q (pbind (take_if P) f) (pbind (take_if P) f')"
proof (rule reads_bind [OF reads_take [OF assms(1)]])
  show "reads (j - 1) anything (f b) (f' b)" if "\<And>more. b" for b
    using that assms(2) by simp
  show "reads j (\<lambda>more y. Q more y \<and> \<not> b) (f b) (f' b)" if "\<not> b" for b and more :: bool
    using that assms(3) by simp
qed

lemma reads_bind_match [reads_rules]:
  "reads (j - 1) anything (f True) (f' True) \<Longrightarrow> reads j Q (f False) (f' False) \<Longrightarrow>
   reads j Q (pbind (match_symbol symb) f) (pbind (match_symbol symb) f')"
  "reads (j - 1) anything (f True) (f' True) \<Longrightarrow> reads j Q (f False) (f' False) \<Longrightarrow>
   reads j Q (pbind (match_keyword keyword) f) (pbind (match_keyword keyword) f')"
  unfolding match_symbol_def match_keyword_def by (rule reads_bind_take; simp)+

lemma reads_match_any [reads_rules]:
  "reads j anything (match_symbol symb) (match_symbol symb)"
  "reads j anything (match_keyword keyword) (match_keyword keyword)"
  unfolding match_symbol_def match_keyword_def by (rule reads_any, rule reads_take, simp)+

lemma reads_expect_symbol [reads_rules]:
  "reads j anything (expect_symbol symb message) (expect_symbol symb message)"
  unfolding expect_symbol_def by (rule reads_rules | simp)+

lemma reads_expect_keyword [reads_rules]:
  "reads j anything (expect_keyword keyword message) (expect_keyword keyword message)"
  unfolding expect_keyword_def by (rule reads_rules | simp)+

lemma reads_if [reads_rules]:
  "(b \<Longrightarrow> reads j Q m m') \<Longrightarrow> (\<not> b \<Longrightarrow> reads j Q n n') \<Longrightarrow>
   reads j Q (if b then m else n) (if b then m' else n')"
  by simp

lemma reads_option [reads_rules]:
  "(x = None \<Longrightarrow> reads j Q m m') \<Longrightarrow> (\<And>y. x = Some y \<Longrightarrow> reads j Q (f y) (f' y)) \<Longrightarrow>
   reads j Q (case x of None \<Rightarrow> m | Some y \<Rightarrow> f y) (case x of None \<Rightarrow> m' | Some y \<Rightarrow> f' y)"
  by (cases x) auto

lemma reads_prod [reads_rules]:
  "(\<And>a b. x = (a, b) \<Longrightarrow> reads j Q (f a b) (f' a b)) \<Longrightarrow> reads j Q (case_prod f x) (case_prod f' x)"
  by (cases x) auto

section \<open>Loops\<close>

lemma reads_loop_turns:
  assumes body: "\<And>acc. reads j (\<lambda>_ r. isl r) (body acc) (body' acc)"
    and "parser_ok ps" and "tokens_left ps < j" and "tokens_left ps < n" and "tokens_left ps < n'"
  shows "ploop n' body' acc ps = ploop n body acc ps \<and>
     (case ploop n body acc ps of
        OutOfFuel \<Rightarrow> False
      | Aborted \<Rightarrow> ps_overflow_checks ps
      | Parsed x ps' \<Rightarrow> parser_ok ps' \<and> same_input ps ps' \<and> tokens_left ps' \<le> tokens_left ps)"
  using assms(2-)
proof (induction n arbitrary: n' acc ps)
  case (Suc n)
  then obtain i where n': "n' = Suc i"
    by (cases n') auto
  note turn = readsD [OF body Suc.prems(1,2), of acc]
  show ?case
  proof (cases "body acc ps")
    case (Parsed r ps')
    note on = turn(4) [OF Parsed]
    show ?thesis
    proof (cases r)
      case (Inl acc')
      then have "tokens_left ps' < tokens_left ps"
        using on by simp
      then have "ploop i body' acc' ps' = ploop n body acc' ps' \<and>
          (case ploop n body acc' ps' of OutOfFuel \<Rightarrow> False | Aborted \<Rightarrow> ps_overflow_checks ps'
           | Parsed x ps'' \<Rightarrow> parser_ok ps'' \<and> same_input ps' ps'' \<and> tokens_left ps'' \<le> tokens_left ps')"
        using Suc.prems on n' by (intro Suc.IH) auto
      then show ?thesis
        using turn(1) Parsed Inl on n'
        by (auto simp: pbind_def same_input_def split: parsed.splits)
    qed (use turn(1) Parsed on n' in \<open>simp add: pbind_def pret_def\<close>)
  qed (use turn n' in \<open>simp_all add: pbind_def\<close>)
qed simp

lemma reads_loop:
  assumes "j \<le> n" and "j \<le> n'" and "\<And>acc. reads j (\<lambda>_ r. isl r) (body acc) (body' acc)"
  shows "reads j anything (ploop n body acc) (ploop n' body' acc)"
proof (rule readsI)
  fix ps assume ok: "parser_ok ps" "tokens_left ps < j"
  note all = reads_loop_turns [where body = body and body' = body', OF assms(3) ok, of n n' acc]
  show "ploop n' body' acc ps = ploop n body acc ps" "ploop n body acc ps \<noteq> OutOfFuel"
    "ploop n body acc ps = Aborted \<Longrightarrow> ps_overflow_checks ps"
    using all ok(2) assms(1,2) by (auto split: parsed.splits)
  show "ploop n body acc ps = Parsed x ps' \<Longrightarrow> parser_ok ps' \<and> same_input ps ps' \<and> tokens_left ps' \<le> tokens_left ps \<and>
      (False \<longrightarrow> tokens_left ps' < tokens_left ps)" for x ps'
    using all ok(2) assms(1,2) by simp
qed

lemma before_eof_more [simp]:
  "before_eof (\<lambda>ps. \<not> is_eof ps \<and> R ps)" "before_eof (\<lambda>ps. \<not> is_eof ps)"
  by (simp_all add: before_eof_def)

lemma reads_while:
  assumes "j \<le> pc_turns c" and "j \<le> pc_turns d" and "before_eof cond"
    and body: "\<And>acc. reads j token_if_any (body acc) (body' acc)"
  shows "reads j anything (pwhile c cond body acc) (pwhile d cond body' acc)"
  unfolding pwhile_def using assms(1,2)
  by (rule reads_loop) (rule reads_test [OF assms(3)] reads_map_token body reads_pret | simp)+

lemma test_not_eof:
  "pbind (pget is_eof) (\<lambda>e. if e then m else n) = pbind (pget (\<lambda>ps. \<not> is_eof ps)) (\<lambda>b. if b then n else m)"
  by (simp add: fun_eq_iff pbind_def pget_def)

lemma reads_until_keyword:
  assumes "j \<le> pc_turns c" and "j \<le> pc_turns d"
    and body: "\<And>acc. reads j token_if_any (body acc) (body' acc)"
  shows "reads j anything (puntil_keyword c keyword body acc) (puntil_keyword d keyword body' acc)"
  unfolding puntil_keyword_def test_not_eof using assms(1,2)
  by (rule reads_loop) (rule reads_test reads_bind_match reads_map_token body reads_pret | simp)+

lemma reads_commas:
  assumes "j \<le> pc_turns c" and "j \<le> pc_turns d"
    and body: "\<And>acc. reads j anything (body acc) (body' acc)"
  shows "reads j anything (pcommas c body acc) (pcommas d body' acc)"
  unfolding pcommas_def using assms(1,2)
  by (rule reads_loop) (rule reads_bind_match reads_bind_any body reads_pret | simp)+

lemma reads_skip:
  "j \<le> pc_turns c \<Longrightarrow> j \<le> pc_turns d \<Longrightarrow> reads j anything (skip_until c stop) (skip_until d stop)"
  unfolding skip_until_def by (rule reads_while | rule reads_advance | simp)+

lemma reads_synchronize:
  assumes "j \<le> pc_turns c" and "j \<le> pc_turns d"
  shows "reads j anything (synchronize_to_semicolon c) (synchronize_to_semicolon d)"
    and "reads j anything (synchronize_to_keyword c keyword) (synchronize_to_keyword d keyword)"
    and "reads j anything (synchronize_to_il_expression_boundary c) (synchronize_to_il_expression_boundary d)"
    and "reads j anything (synchronize_to_sfc_action_association_boundary c)
      (synchronize_to_sfc_action_association_boundary d)"
  unfolding synchronize_to_semicolon_def synchronize_to_keyword_def synchronize_to_il_expression_boundary_def
    synchronize_to_sfc_action_association_boundary_def
  using assms by - (rule reads_rules reads_skip | assumption)+

lemma reads_identifier: "reads j (\<lambda>_ found. found \<noteq> None) (expect_identifier message) (expect_identifier message)"
  unfolding expect_identifier_def
proof (rule readsI, goal_cases)
  case (4 ps x ps')
  then show ?case
    by (auto simp: pbind_def pget_def pseq_def pret_def p_advance_def pmodify_def error_here_def error_at_def
        current_identifier_def ident_of_def is_eof_def eof_left [symmetric] parser_ok_def tokens_left_def current_def
        same_input_def split: token_kind.splits if_splits)
qed (auto simp: pbind_def pget_def pseq_def pret_def p_advance_def pmodify_def error_here_def error_at_def
    split: option.splits)

lemma reads_bind_identifier [reads_rules]:
  assumes "\<And>name. reads (j - 1) anything (f (Some name)) (f' (Some name))" and "reads j Q (f None) (f' None)"
  shows "reads j Q (pbind (expect_identifier message) f) (pbind (expect_identifier message) f')"
proof (rule reads_bind [OF reads_identifier])
  show "reads (j - 1) anything (f found) (f' found)" if "\<And>more. found \<noteq> None" for found
    using that assms(1) by (cases found) auto
  show "reads j (\<lambda>more y. Q more y \<and> \<not> found \<noteq> None) (f found) (f' found)" if "\<not> found \<noteq> None"
    for found and more :: bool
    using that assms(2) by simp
qed

lemma reads_identifier_any [reads_rules]:
  "reads j anything (expect_identifier message) (expect_identifier message)"
  using reads_identifier by (rule reads_any)

lemma reads_name [reads_rules]: "reads j anything (expect_name message) (expect_name message)"
  unfolding expect_name_def by (rule reads_rules)+

lemma reads_numbers [reads_rules]:
  "reads j anything (expect_signed_integer message) (expect_signed_integer message)"
  "reads j anything (expect_unsigned_integer message) (expect_unsigned_integer message)"
  "reads j anything (parse_integer_token message) (parse_integer_token message)"
  unfolding expect_signed_integer_def expect_unsigned_integer_def parse_integer_token_def
  by - (rule reads_rules | simp)+

lemma reads_for [reads_rules]: "(\<And>x. reads j anything (f x) (f' x)) \<Longrightarrow> reads j anything (pfor xs f) (pfor xs f')"
  by (induction xs) (simp_all add: reads_pret reads_seq_any)

text \<open>Passing over tokens up to a semicolon takes at least one.\<close>

lemma reads_sync_semicolon:
  assumes "j \<le> pc_turns c" and "j \<le> pc_turns d"
  shows "reads j token_if_any (synchronize_to_semicolon c) (synchronize_to_semicolon d)"
proof (cases j)
  case 0
  then show ?thesis by (simp add: reads_def)
next
  case (Suc i)
  have weak: "reads j anything (synchronize_to_semicolon c) (synchronize_to_semicolon d)"
    using assms by (rule reads_synchronize)
  obtain n where n: "pc_turns c = Suc n" "i \<le> n"
    using assms(1) Suc by (cases "pc_turns c") auto
  define body where "body = (\<lambda>acc::unit. pbind (pget (\<lambda>ps. \<not> is_eof ps \<and> \<not> check_symbol SymSemicolon ps))
      (\<lambda>b. if b then pmap Inl p_advance else pret (Inr acc)))"
  define rest where "rest = pseq (ploop n body ()) (pmap (\<lambda>_. ()) (match_symbol SymSemicolon))"
  have rest: "reads i anything rest rest"
    unfolding rest_def body_def using n(2)
    by - (rule reads_rules reads_loop reads_test reads_map_token reads_tokens | assumption | simp)+
  have skip: "skip_until c (check_symbol SymSemicolon) =
      pbind (body ()) (\<lambda>r. case r of Inl u \<Rightarrow> ploop n body u | Inr u \<Rightarrow> pret u)"
    by (simp only: skip_until_def pwhile_def n(1) body_def ploop.simps)
  have one: "synchronize_to_semicolon c ps =
      (if check_symbol SymSemicolon ps then p_advance ps
       else if is_eof ps then Parsed () ps
       else pbind p_advance (\<lambda>_. rest) ps)" for ps
    by (cases "check_symbol SymSemicolon ps"; cases "is_eof ps")
      (simp_all add: synchronize_to_semicolon_def skip body_def [abs_def] rest_def pbind_def pget_def pseq_def pmap_def
        pret_def match_symbol_def take_if_def p_advance_def pmodify_def)
  show ?thesis
  proof (rule readsI)
    fix ps x ps' assume ok: "parser_ok ps" "tokens_left ps < j" and run: "synchronize_to_semicolon c ps = Parsed x ps'"
    note weak' = readsD(4) [OF weak ok run]
    have "0 < tokens_left ps \<Longrightarrow> tokens_left ps' < tokens_left ps"
    proof -
      assume more: "0 < tokens_left ps"
      then have eof: "\<not> is_eof ps"
        using eof_left [OF ok(1)] by simp
      obtain ps1 where ps1: "p_advance ps = Parsed () ps1" "parser_ok ps1" "tokens_left ps1 < tokens_left ps"
        using readsD(4) [OF reads_advance ok] more by (auto simp: p_advance_def pmodify_def)
      then show ?thesis
        using run one [of ps] eof readsD(4) [OF rest, of ps1 x ps'] ok(2) Suc by (auto simp: pbind_def split: if_splits)
    qed
    then show "parser_ok ps' \<and> same_input ps ps' \<and> tokens_left ps' \<le> tokens_left ps \<and>
        (0 < tokens_left ps \<longrightarrow> tokens_left ps' < tokens_left ps)"
      using weak' by blast
  qed (use readsD [OF weak] in auto)
qed

section \<open>Depth, lines and stops\<close>

lemma reads_line_end [reads_rules]: "reads j anything line_end_here line_end_here"
  unfolding line_end_here_def
proof (rule readsI, goal_cases)
  case (2 ps) then show ?case by (simp add: plift_def split: outcome.splits)
next
  case (3 ps)
  have "current ps \<in> set (ps_tokens ps)"
    using 3(1) by (simp add: parser_ok_def current_def)
  then show ?case
    using 3 by (auto simp: plift_def line_end_after_def parser_ok_def split: option.splits if_splits)
next
  case (4 ps x ps') then show ?case by (auto simp: plift_def split: outcome.splits)
qed simp

definition at_depth :: "nat \<Rightarrow> parser_state \<Rightarrow> parser_state" where
  "at_depth n ps = ps\<lparr>ps_expression_depth := n\<rparr>"

lemma at_depth_state [simp]:
  "parser_ok (at_depth n ps) = parser_ok ps" "tokens_left (at_depth n ps) = tokens_left ps"
  "ps_overflow_checks (at_depth n ps) = ps_overflow_checks ps"
  by (simp_all add: at_depth_def parser_ok_def tokens_left_def)

lemma one_deeper_run:
  "one_deeper f m ps =
     (if max_expression_depth (ps_implementation ps) \<le> ps_expression_depth ps
      then pbind (pget current) (\<lambda>t. pseq (limit_error_at t (''expression depth exceeds maximum '' @
             show_nat (max_expression_depth (ps_implementation ps))))
             (pseq p_advance (pret (LiteralE (LInt 0))))) ps
      else case m (at_depth (ps_expression_depth ps + 1) ps) of
          OutOfFuel \<Rightarrow> OutOfFuel | Aborted \<Rightarrow> Aborted
        | Parsed e ps' \<Rightarrow> Parsed (f e) (at_depth (ps_expression_depth ps' - 1) ps'))"
  by (simp add: one_deeper_def enter_expression_depth_def leave_expression_depth_def pbind_def pget_def pseq_def
      pret_def limit_error_at_def pmodify_def p_advance_def at_depth_def split: parsed.splits)

lemma same_at_depth:
  "same_input (at_depth (ps_expression_depth ps + 1) ps) ps' \<Longrightarrow>
   same_input ps (at_depth (ps_expression_depth ps' - 1) ps')"
  by (simp add: same_input_def at_depth_def)

lemma reads_deeper:
  assumes m: "reads j (\<lambda>more _. more \<and> taken) m m'"
  shows "reads j (\<lambda>more _. more \<and> taken) (one_deeper f m) (one_deeper f m')"
proof -
  have limit: "reads j token_if_any
      (pbind (pget current) (\<lambda>t. pseq (limit_error_at t message) (pseq p_advance (pret (LiteralE (LInt 0))))))
      (pbind (pget current) (\<lambda>t. pseq (limit_error_at t message) (pseq p_advance (pret (LiteralE (LInt 0))))))" for message
    by (rule reads_bind_any, rule reads_get, rule reads_seq_any, rule reads_errors) (rule reads_seq_token reads_advance reads_pret | simp)+
  show ?thesis
  proof (rule readsI, goal_cases)
    case (1 ps)
    then show ?case
      using readsD(1) [OF m, of "at_depth (ps_expression_depth ps + 1) ps"] by (simp add: one_deeper_run)
  next
    case (2 ps)
    then show ?case
      using readsD(2) [OF m, of "at_depth (ps_expression_depth ps + 1) ps"] readsD(2) [OF limit 2]
      by (simp add: one_deeper_run split: parsed.splits)
  next
    case (3 ps)
    then show ?case
      using readsD(3) [OF m, of "at_depth (ps_expression_depth ps + 1) ps"] readsD(3) [OF limit 3(1,2)]
      by (auto simp: one_deeper_run split: parsed.splits if_splits)
  next
    case (4 ps x ps')
    show ?case
    proof (cases "max_expression_depth (ps_implementation ps) \<le> ps_expression_depth ps")
      case True
      then show ?thesis
        using readsD(4) [OF limit 4(1,2)] 4(3) by (auto simp: one_deeper_run)
    next
      case False
      then obtain e ps1 where e: "m (at_depth (ps_expression_depth ps + 1) ps) = Parsed e ps1"
          "ps' = at_depth (ps_expression_depth ps1 - 1) ps1"
        using 4(3) by (auto simp: one_deeper_run split: parsed.splits)
      show ?thesis
        using readsD(4) [OF m _ _ e(1)] 4(1,2) e(2) same_at_depth [of ps ps1] by simp
    qed
  qed
qed

lemma reads_deeper_token [reads_tokens]:
  "reads j token_if_any m m' \<Longrightarrow> reads j token_if_any (one_deeper f m) (one_deeper f m')"
  using reads_deeper [of j True m m' f] by simp

lemma reads_deeper_any [reads_rules]:
  "reads j anything m m' \<Longrightarrow> reads j anything (one_deeper f m) (one_deeper f m')"
  using reads_deeper [of j False m m' f] by simp

definition at_stop :: "nat option \<Rightarrow> parser_state \<Rightarrow> parser_state" where
  "at_stop stop ps = ps\<lparr>ps_expression_stop := stop\<rparr>"

lemma at_stop_state [simp]:
  "parser_ok (at_stop stop ps) = parser_ok ps" "tokens_left (at_stop stop ps) = tokens_left ps"
  "ps_overflow_checks (at_stop stop ps) = ps_overflow_checks ps"
  by (simp_all add: at_stop_def parser_ok_def tokens_left_def)

lemma same_at_stop:
  "same_input (at_stop stop ps) ps' \<Longrightarrow> same_input ps (at_stop (ps_expression_stop ps) ps')"
  by (simp add: same_input_def at_stop_def)

lemma parse_expression_until_run:
  "parse_expression_until stop m ps =
     (case m (at_stop (Some (case ps_expression_stop ps of Some existing \<Rightarrow> min existing stop | None \<Rightarrow> stop)) ps) of
        OutOfFuel \<Rightarrow> OutOfFuel | Aborted \<Rightarrow> Aborted
      | Parsed e ps' \<Rightarrow> Parsed e (at_stop (ps_expression_stop ps) ps'))"
  by (simp add: parse_expression_until_def pbind_def pget_def pseq_def pret_def pmodify_def at_stop_def
      split: parsed.splits)

lemma reads_until [reads_tokens]:
  assumes m: "reads j token_if_any m m'"
  shows "reads j token_if_any (parse_expression_until stop m) (parse_expression_until stop m')"
proof (rule readsI)
  fix ps assume ok: "parser_ok ps" "tokens_left ps < j"
  let ?ps = "at_stop (Some (case ps_expression_stop ps of Some existing \<Rightarrow> min existing stop | None \<Rightarrow> stop)) ps"
  note m' = readsD [OF m, of ?ps]
  show "parse_expression_until stop m' ps = parse_expression_until stop m ps"
    "parse_expression_until stop m ps \<noteq> OutOfFuel"
    using m'(1,2) ok by (simp_all add: parse_expression_until_run split: parsed.splits)
  show "parse_expression_until stop m ps = Aborted \<Longrightarrow> ps_overflow_checks ps"
    using m'(3) ok by (simp add: parse_expression_until_run split: parsed.splits)
  fix x ps'
  assume "parse_expression_until stop m ps = Parsed x ps'"
  then obtain ps1 where "m ?ps = Parsed x ps1" "ps' = at_stop (ps_expression_stop ps) ps1"
    by (auto simp: parse_expression_until_run split: parsed.splits)
  then show "parser_ok ps' \<and> same_input ps ps' \<and> tokens_left ps' \<le> tokens_left ps \<and>
      (0 < tokens_left ps \<longrightarrow> tokens_left ps' < tokens_left ps)"
    using m'(4) [of x ps1] ok same_at_stop by auto
qed

section \<open>Choices by keyword\<close>

lemma reads_first_match:
  assumes "\<forall>p \<in> set ms. reads j (\<lambda>_ b. b) (fst p) (fst p)"
  shows "reads j (\<lambda>_ found. found \<noteq> None) (first_match ms) (first_match ms)"
  using assms
proof (induction ms)
  case (Cons p ms)
  obtain m binop where p: "p = (m, binop)" by force
  have m: "reads j (\<lambda>_ b. b) m m"
    using Cons.prems p by simp
  have rest: "reads j (\<lambda>_ found. found \<noteq> None) (first_match ms) (first_match ms)"
    using Cons by simp
  show ?case
    unfolding p first_match.simps
  proof (rule reads_bind [OF m])
    show "reads (j - 1) anything (if b then pret (Some binop) else first_match ms) (if b then pret (Some binop) else first_match ms)"
      if "\<And>more. b" for b
      using that by (simp add: reads_pret)
    show "reads j (\<lambda>more y. y \<noteq> None \<and> \<not> b) (if b then pret (Some binop) else first_match ms)
        (if b then pret (Some binop) else first_match ms)" if "\<not> b" for b and more :: bool
      using that rest by simp
  qed
qed (simp add: reads_pret)

text \<open>After a keyword fewer tokens are left.\<close>

lemma reads_first_keyword_Nil [reads_rules]:
  "reads j Q n n' \<Longrightarrow> reads j Q (first_keyword [] n) (first_keyword [] n')"
  by simp

lemma reads_first_keyword [reads_rules]:
  "reads (j - 1) anything m m' \<Longrightarrow> reads j Q (first_keyword ms n) (first_keyword ms' n') \<Longrightarrow>
   reads j Q (first_keyword ((keyword, m) # ms) n) (first_keyword ((keyword, m') # ms') n')"
  unfolding first_keyword.simps by (rule reads_bind_match) simp_all

lemma reads_match_any_keyword [reads_rules]: "reads j anything (match_any_keyword ks) (match_any_keyword ks)"
  by (induction ks) (auto intro!: reads_pret reads_bind_match)

section \<open>What a test has shown\<close>

text \<open>The same from the states that pass a test.\<close>

definition ends_well :: "(bool \<Rightarrow> 'a \<Rightarrow> bool) \<Rightarrow> 'a parser \<Rightarrow> 'a parser \<Rightarrow> parser_state \<Rightarrow> bool" where
  "ends_well P m m' ps \<longleftrightarrow> m' ps = m ps \<and>
     (case m ps of
        OutOfFuel \<Rightarrow> False
      | Aborted \<Rightarrow> ps_overflow_checks ps
      | Parsed x ps' \<Rightarrow> parser_ok ps' \<and> same_input ps ps' \<and> tokens_left ps' \<le> tokens_left ps \<and>
          (P (0 < tokens_left ps) x \<longrightarrow> tokens_left ps' < tokens_left ps))"

definition reads_from ::
    "(parser_state \<Rightarrow> bool) \<Rightarrow> nat \<Rightarrow> (bool \<Rightarrow> 'a \<Rightarrow> bool) \<Rightarrow> 'a parser \<Rightarrow> 'a parser \<Rightarrow> bool" where
  "reads_from A k P m m' \<longleftrightarrow> (\<forall>ps. A ps \<and> parser_ok ps \<and> tokens_left ps < k \<longrightarrow> ends_well P m m' ps)"

lemma reads_iff: "reads k P m m' \<longleftrightarrow> (\<forall>ps. parser_ok ps \<and> tokens_left ps < k \<longrightarrow> ends_well P m m' ps)"
  by (simp add: reads_def ends_well_def)

lemma reads_from_reads: "reads k P m m' \<Longrightarrow> reads_from A k P m m'"
  by (simp add: reads_from_def reads_iff)

lemma reads_from_get:
  "(\<And>x. reads_from (\<lambda>ps. A ps \<and> g ps = x) k P (f x) (f' x)) \<Longrightarrow>
   reads_from A k P (pbind (pget g) f) (pbind (pget g) f')"
  by (simp add: reads_from_def ends_well_def pbind_def pget_def)

lemma reads_get_facts:
  "(\<And>x. reads_from (\<lambda>ps. g ps = x) k P (f x) (f' x)) \<Longrightarrow> reads k P (pbind (pget g) f) (pbind (pget g) f')"
  by (simp add: reads_from_def reads_iff ends_well_def pbind_def pget_def)

lemma reads_from_advance:
  assumes "\<And>ps. A ps \<Longrightarrow> \<not> is_eof ps" and m: "reads (k - 1) anything m m'"
  shows "reads_from A k P (pseq p_advance m) (pseq p_advance m')"
  unfolding reads_from_def
proof (intro allI impI)
  fix ps assume ps: "A ps \<and> parser_ok ps \<and> tokens_left ps < k"
  then have more: "0 < tokens_left ps"
    using assms(1) [of ps] eof_left [of ps] by simp
  obtain ps1 where ps1: "p_advance ps = Parsed () ps1" "parser_ok ps1" "same_input ps ps1" "tokens_left ps1 < tokens_left ps"
    using readsD(4) [OF reads_advance, of ps k] ps more by (auto simp: p_advance_def pmodify_def)
  then have "tokens_left ps1 < k - 1"
    using ps by linarith
  note m' = readsD [OF m ps1(2) this]
  show "ends_well P (pseq p_advance m) (pseq p_advance m') ps"
    using m'(1-3) m'(4) ps1 same_input_trans [OF ps1(3)]
    by (cases "m ps1") (auto simp: ends_well_def pseq_def pbind_def same_input_def dest: le_less_trans)
qed

lemma reads_from_expect:
  assumes "\<And>ps. A ps \<Longrightarrow> check_symbol symb ps" and "reads (k - 1) anything m m'"
  shows "reads_from A k P (pseq (expect_symbol symb message) m) (pseq (expect_symbol symb message) m')"
proof -
  have "pseq (expect_symbol symb message) n ps = pseq p_advance n ps" if "A ps" for n :: "'a parser" and ps
    using assms(1) [OF that]
    by (simp add: expect_symbol_def match_symbol_def take_if_def pseq_def pbind_def pget_def pret_def p_advance_def pmodify_def)
  moreover have "\<not> is_eof ps" if "A ps" for ps
    using assms(1) [OF that] by (simp add: check_symbol_def is_eof_def)
  then have "reads_from A k P (pseq p_advance m) (pseq p_advance m')"
    using assms(2) by (rule reads_from_advance)
  ultimately show ?thesis
    by (simp add: reads_from_def ends_well_def)
qed

lemma reads_from_if:
  "(b \<Longrightarrow> reads_from A k P m m') \<Longrightarrow> (\<not> b \<Longrightarrow> reads_from A k P n n') \<Longrightarrow>
   reads_from A k P (if b then m else n) (if b then m' else n')"
  by simp

lemma reads_from_option:
  "(x = None \<Longrightarrow> reads_from A k P m m') \<Longrightarrow> (\<And>y. x = Some y \<Longrightarrow> reads_from A k P (f y) (f' y)) \<Longrightarrow>
   reads_from A k P (case x of None \<Rightarrow> m | Some y \<Rightarrow> f y) (case x of None \<Rightarrow> m' | Some y \<Rightarrow> f' y)"
  by (cases x) auto

lemma reads_from_token_kind:
  "(\<And>v. x = IdentT v \<Longrightarrow> reads_from A j Q (f1 v) (g1 v)) \<Longrightarrow> (\<And>v. x = NumberT v \<Longrightarrow> reads_from A j Q (f2 v) (g2 v)) \<Longrightarrow>
   (\<And>v. x = StringT v \<Longrightarrow> reads_from A j Q (f3 v) (g3 v)) \<Longrightarrow> (\<And>v. x = WStringT v \<Longrightarrow> reads_from A j Q (f4 v) (g4 v)) \<Longrightarrow>
   (\<And>v. x = HashT v \<Longrightarrow> reads_from A j Q (f5 v) (g5 v)) \<Longrightarrow> (\<And>v. x = DirectT v \<Longrightarrow> reads_from A j Q (f6 v) (g6 v)) \<Longrightarrow>
   (\<And>v. x = SymbolT v \<Longrightarrow> reads_from A j Q (f7 v) (g7 v)) \<Longrightarrow> (x = EofT \<Longrightarrow> reads_from A j Q f8 g8) \<Longrightarrow>
   reads_from A j Q
     (case x of IdentT v \<Rightarrow> f1 v | NumberT v \<Rightarrow> f2 v | StringT v \<Rightarrow> f3 v | WStringT v \<Rightarrow> f4 v | HashT v \<Rightarrow> f5 v
      | DirectT v \<Rightarrow> f6 v | SymbolT v \<Rightarrow> f7 v | EofT \<Rightarrow> f8)
     (case x of IdentT v \<Rightarrow> g1 v | NumberT v \<Rightarrow> g2 v | StringT v \<Rightarrow> g3 v | WStringT v \<Rightarrow> g4 v | HashT v \<Rightarrow> g5 v
      | DirectT v \<Rightarrow> g6 v | SymbolT v \<Rightarrow> g7 v | EofT \<Rightarrow> g8)"
  by (cases x) auto

lemma reads_from_weaken: "reads_from A k P m m' \<Longrightarrow> (\<And>ps. B ps \<Longrightarrow> A ps) \<Longrightarrow> reads_from B k P m m'"
  by (auto simp: reads_from_def)

text \<open>Tests that show the end is not reached.\<close>

lemma not_eof_tests:
  "tk_kind (current ps) \<noteq> EofT \<Longrightarrow> \<not> is_eof ps" "number_here ps = Some v \<Longrightarrow> \<not> is_eof ps"
  "current_identifier ps = Some name \<Longrightarrow> \<not> is_eof ps" "current_ident_upper ps = Some v \<Longrightarrow> \<not> is_eof ps"
  "check_symbol symb ps \<Longrightarrow> \<not> is_eof ps"
  by (auto simp: is_eof_def number_here_def current_identifier_def current_ident_upper_def ident_of_def
      check_symbol_def split: token_kind.splits)

section \<open>Literals\<close>

text \<open>Without overflow checks a literal never panics.\<close>

lemma obind_returns: "m \<noteq> Panic \<Longrightarrow> (\<And>x. f x \<noteq> Panic) \<Longrightarrow> obind m f \<noteq> Panic"
  by (cases m) auto

lemma otry_returns: "(\<And>a. f a \<noteq> Panic) \<Longrightarrow> otry x f \<noteq> Panic"
  by (cases x) simp_all

lemma if_returns: "m \<noteq> Panic \<Longrightarrow> n \<noteq> Panic \<Longrightarrow> (if b then m else n) \<noteq> Panic"
  by simp

lemma date_returns: "days_from_civil False year month day \<noteq> Panic"
  unfolding days_from_civil_def Let_def
  by (rule obind_returns | simp add: i64_arith_def)+

lemma omap_Panic: "omap f m = Panic \<longleftrightarrow> m = Panic"
  by (cases m) simp_all

lemma parse_date_returns: "parse_date_days False s \<noteq> Panic"
  by (simp add: parse_date_days_def otry_def omap_Panic date_returns split: list.splits option.splits)

lemma parse_date_time_returns: "parse_date_time_ms False s \<noteq> Panic"
  unfolding parse_date_time_ms_def Let_def
  by (rule if_returns otry_returns obind_returns parse_date_returns | simp)+

lemma hash_literal_panics: "parse_hash_literal_checked oc raw = Panic \<Longrightarrow> oc"
  using parse_date_returns parse_date_time_returns
  by (cases oc) (auto simp: parse_hash_literal_checked_def Let_def omap_Panic split: option.splits if_splits prod.splits)

end
