(* ===== verification/SynStays.thy ===== *)
theory SynStays
  imports SynReads
begin

text \<open>
  Operations that take a token or leave the tokens as they are: \<open>stays j B m m'\<close> is
  \<open>reads\<close> with the addition that, when no token was taken, the state differs in its
  diagnostics only and \<open>B\<close> holds of the result and the state. What a test has shown of the
  tokens (a \<open>stable\<close> fact) then still holds, which is how a loop whose body takes a token
  only under its condition is seen to end.
\<close>

definition same_place :: "parser_state \<Rightarrow> parser_state \<Rightarrow> bool" where
  "same_place ps ps' \<longleftrightarrow> (\<exists>ds. ps' = ps\<lparr>ps_diagnostics := ds\<rparr>)"

lemma same_place_refl [simp]: "same_place ps ps"
  by (auto simp: same_place_def intro: exI [of _ "ps_diagnostics ps"])

lemma same_place_diagnostics [simp]: "same_place ps (ps\<lparr>ps_diagnostics := ds\<rparr>)"
  by (auto simp: same_place_def)

lemma same_place_trans: "same_place a b \<Longrightarrow> same_place b e \<Longrightarrow> same_place a e"
  by (auto simp: same_place_def)

lemma same_place_left: "same_place ps ps' \<Longrightarrow> tokens_left ps' = tokens_left ps"
  by (auto simp: same_place_def tokens_left_def)

definition stable :: "(parser_state \<Rightarrow> bool) \<Rightarrow> bool" where
  "stable A \<longleftrightarrow> (\<forall>ps ps'. same_place ps ps' \<longrightarrow> A ps' = A ps)"

definition stays :: "nat \<Rightarrow> ('a \<Rightarrow> parser_state \<Rightarrow> bool) \<Rightarrow> 'a parser \<Rightarrow> 'a parser \<Rightarrow> bool" where
  "stays j B m m' \<longleftrightarrow> reads j anything m m' \<and>
     (\<forall>ps x ps'. parser_ok ps \<and> tokens_left ps < j \<and> m ps = Parsed x ps' \<longrightarrow>
        tokens_left ps' < tokens_left ps \<or> same_place ps ps' \<and> B x ps)"

named_theorems stays_rules \<open>operations that take a token or leave the tokens\<close>

lemma stays_reads: "stays j B m m' \<Longrightarrow> reads j anything m m'"
  by (simp add: stays_def)

lemma staysD:
  "stays j B m m' \<Longrightarrow> parser_ok ps \<Longrightarrow> tokens_left ps < j \<Longrightarrow> m ps = Parsed x ps' \<Longrightarrow>
   tokens_left ps' < tokens_left ps \<or> same_place ps ps' \<and> B x ps"
  unfolding stays_def by blast

lemma current_diagnostics [simp]:
  "current (ps\<lparr>ps_diagnostics := ds\<rparr>) = current ps" "token_at i (ps\<lparr>ps_diagnostics := ds\<rparr>) = token_at i ps"
  by (simp_all add: current_def token_at_def)

lemma tests_diagnostics [simp]:
  "is_eof (ps\<lparr>ps_diagnostics := ds\<rparr>) = is_eof ps"
  "check_symbol symb (ps\<lparr>ps_diagnostics := ds\<rparr>) = check_symbol symb ps"
  "check_keyword keyword (ps\<lparr>ps_diagnostics := ds\<rparr>) = check_keyword keyword ps"
  "check_any_keyword keywords (ps\<lparr>ps_diagnostics := ds\<rparr>) = check_any_keyword keywords ps"
  "current_identifier (ps\<lparr>ps_diagnostics := ds\<rparr>) = current_identifier ps"
  "peek_symbol symb (ps\<lparr>ps_diagnostics := ds\<rparr>) = peek_symbol symb ps"
  by (simp_all add: is_eof_def check_symbol_def check_any_keyword_def check_keyword_def current_ident_upper_def
      current_identifier_def peek_symbol_def)

lemma ends_well_bind:
  assumes m: "m' ps = m ps" "m ps = Parsed x ps1" "same_input ps ps1" "tokens_left ps1 \<le> tokens_left ps"
    and f: "ends_well R (f x) (f' x) ps1"
    and Q: "\<And>y. Q (0 < tokens_left ps) y \<Longrightarrow> tokens_left ps1 < tokens_left ps \<or> R (0 < tokens_left ps1) y"
  shows "ends_well Q (pbind m f) (pbind m' f') ps"
proof (cases "f x ps1")
  case (Parsed y ps2)
  then have two: "parser_ok ps2" "same_input ps1 ps2" "tokens_left ps2 \<le> tokens_left ps1"
      "R (0 < tokens_left ps1) y \<Longrightarrow> tokens_left ps2 < tokens_left ps1" "f' x ps1 = Parsed y ps2"
    using f by (simp_all add: ends_well_def)
  have "same_input ps ps2" "tokens_left ps2 \<le> tokens_left ps"
    using same_input_trans [OF m(3) two(2)] two(3) m(4) by simp_all
  moreover have "Q (0 < tokens_left ps) y \<Longrightarrow> tokens_left ps2 < tokens_left ps"
    using Q [of y] two(3,4) m(4) by linarith
  ultimately show ?thesis
    using m(1,2) Parsed two(1,5) by (simp add: ends_well_def pbind_def)
qed (use f m in \<open>simp_all add: ends_well_def pbind_def same_input_def\<close>)

lemma reads_from_bind_stay:
  assumes A: "stable A" and m: "stays j B m m'"
    and taken: "\<And>x. reads (j - 1) anything (f x) (f' x)"
    and left: "\<And>x. reads_from (\<lambda>ps. A ps \<and> B x ps) j Q (f x) (f' x)"
    and B: "\<And>x. stable (B x)"
  shows "reads_from A j Q (pbind m f) (pbind m' f')"
  unfolding reads_from_def
proof (intro allI impI)
  fix ps assume ps: "A ps \<and> parser_ok ps \<and> tokens_left ps < j"
  note reads = readsD [OF stays_reads [OF m], of ps]
  show "ends_well Q (pbind m f) (pbind m' f') ps"
  proof (cases "m ps")
    case (Parsed x ps1)
    have ok1: "parser_ok ps1" "same_input ps ps1"
      using reads(4) [OF _ _ Parsed] ps by simp_all
    have "tokens_left ps1 < tokens_left ps \<or> same_place ps ps1 \<and> B x ps"
      using staysD [OF m _ _ Parsed] ps by simp
    then show ?thesis
    proof
      assume less: "tokens_left ps1 < tokens_left ps"
      then have "tokens_left ps1 < j - 1"
        using ps by linarith
      have "ends_well anything (f x) (f' x) ps1"
        using taken [of x] ok1(1) \<open>tokens_left ps1 < j - 1\<close> by (simp add: reads_iff)
      then show ?thesis
        using reads(1) ps Parsed ok1(2) less by (intro ends_well_bind [where R = anything]) simp_all
    next
      assume same: "same_place ps ps1 \<and> B x ps"
      then have "A ps1 \<and> B x ps1"
        using ps A B [of x] by (auto simp: stable_def)
      moreover have equal: "tokens_left ps1 = tokens_left ps"
        using same same_place_left by blast
      ultimately have "ends_well Q (f x) (f' x) ps1"
        using left [of x] ok1(1) ps by (simp add: reads_from_def)
      then show ?thesis
        using reads(1) ps Parsed ok1(2) equal by (intro ends_well_bind [where R = Q]) auto
    qed
  qed (use reads(1-3) ps in \<open>simp_all add: ends_well_def pbind_def\<close>)
qed

lemma reads_from_stay_token:
  assumes m: "stays j B m m'" and "\<And>x ps. A ps \<Longrightarrow> B x ps \<Longrightarrow> is_eof ps"
  shows "reads_from A j token_if_any m m'"
  unfolding reads_from_def
proof (intro allI impI)
  fix ps assume ps: "A ps \<and> parser_ok ps \<and> tokens_left ps < j"
  note reads = readsD [OF stays_reads [OF m], of ps]
  show "ends_well token_if_any m m' ps"
  proof (cases "m ps")
    case (Parsed x ps1)
    have "tokens_left ps1 < tokens_left ps \<or> is_eof ps"
      using ps assms(2) [of ps x] staysD [OF m _ _ Parsed] by blast
    then show ?thesis
      using reads(1) reads(4) [OF _ _ Parsed] ps Parsed eof_left [of ps] by (auto simp: ends_well_def)
  qed (use reads(1-3) ps in \<open>simp_all add: ends_well_def\<close>)
qed

lemma reads_from_token:
  "reads j token_if_any m m' \<Longrightarrow> (\<And>ps. A ps \<Longrightarrow> \<not> is_eof ps) \<Longrightarrow> reads_from A j Q m m'"
  unfolding reads_from_def
proof (intro allI impI)
  fix ps assume token: "reads j token_if_any m m'" and A: "\<And>ps. A ps \<Longrightarrow> \<not> is_eof ps"
    and ps: "A ps \<and> parser_ok ps \<and> tokens_left ps < j"
  note reads = readsD [OF token, of ps]
  have "0 < tokens_left ps"
    using A [of ps] ps eof_left [of ps] by simp
  then show "ends_well Q m m' ps"
    using reads(1-3) reads(4) ps by (cases "m ps") (auto simp: ends_well_def)
qed

lemma reads_from_all: "reads_from (\<lambda>_. True) j Q m m' \<Longrightarrow> reads j Q m m'"
  by (simp add: reads_from_def reads_iff)

lemma reads_test_from:
  assumes "before_eof P" and m: "reads_from P j token_if_any m m'" and n: "reads j Q n n'"
  shows "reads j Q (pbind (pget P) (\<lambda>b. if b then m else n)) (pbind (pget P) (\<lambda>b. if b then m' else n'))"
proof (rule reads_get_facts)
  fix b
  show "reads_from (\<lambda>ps. P ps = b) j Q (if b then m else n) (if b then m' else n')"
  proof (cases b)
    case True
    have "ends_well Q m m' ps" if "P ps" "parser_ok ps" "tokens_left ps < j" for ps
      using m that assms(1) eof_left [OF that(2)]
      by (cases "m ps") (auto simp: reads_from_def ends_well_def before_eof_def)
    then show ?thesis
      using True by (simp add: reads_from_def)
  qed (use n in \<open>simp add: reads_from_def reads_iff\<close>)
qed

lemma reads_from_map: "reads_from A j token_if_any m m' \<Longrightarrow> reads_from A j token_if_any (pmap f m) (pmap f m')"
  unfolding reads_from_def
proof (intro allI impI)
  fix ps assume m: "\<forall>ps. A ps \<and> parser_ok ps \<and> tokens_left ps < j \<longrightarrow> ends_well token_if_any m m' ps"
    and ps: "A ps \<and> parser_ok ps \<and> tokens_left ps < j"
  then have "ends_well token_if_any m m' ps"
    by blast
  then show "ends_well token_if_any (pmap f m) (pmap f m') ps"
    by (cases "m ps") (simp_all add: ends_well_def pmap_def pbind_def pret_def)
qed

section \<open>Steps\<close>

lemma stays_weaken: "stays j B m m' \<Longrightarrow> (\<And>x ps. B x ps \<Longrightarrow> C x ps) \<Longrightarrow> stays j C m m'"
  unfolding stays_def by blast

lemma stays_take: "before_eof P \<Longrightarrow> stays j (\<lambda>b ps. \<not> b \<and> \<not> P ps) (take_if P) (take_if P)"
  unfolding stays_def
proof (intro conjI allI impI, goal_cases)
  case 1 then show ?case using reads_take reads_any by blast
next
  case (2 ps b ps')
  then show ?case
    using readsD(4) [OF reads_take, of P ps j b ps']
    by (cases "P ps") (auto simp: take_if_def pbind_def pget_def pseq_def pret_def p_advance_def pmodify_def)
qed

lemma stays_match [stays_rules]:
  "stays j (\<lambda>b ps. \<not> b \<and> \<not> check_symbol symb ps) (match_symbol symb) (match_symbol symb)"
  "stays j (\<lambda>b ps. \<not> b \<and> \<not> check_keyword keyword ps) (match_keyword keyword) (match_keyword keyword)"
  unfolding match_symbol_def match_keyword_def by (rule stays_take, simp)+

lemma stays_get [stays_rules]: "stays j (\<lambda>x ps. g ps = x) (pget g) (pget g)"
  by (auto simp: stays_def reads_get pget_def)

lemma stays_pret [stays_rules]: "stays j (\<lambda>x ps. x = y) (pret y) (pret y)"
  by (auto simp: stays_def reads_pret pret_def)

lemma stays_bind:
  assumes m: "stays j B m m'" and f: "\<And>x. stays j (C x) (f x) (f' x)"
    and C: "\<And>x y. stable (C x y)"
  shows "stays j (\<lambda>y ps. \<exists>x. B x ps \<and> C x y ps) (pbind m f) (pbind m' f')"
  unfolding stays_def
proof (intro conjI allI impI)
  show "reads j anything (pbind m f) (pbind m' f')"
    using stays_reads [OF m] stays_reads [OF f] by (rule reads_bind_any)
  fix ps y ps2 assume ps: "parser_ok ps \<and> tokens_left ps < j \<and> pbind m f ps = Parsed y ps2"
  then obtain x ps1 where x: "m ps = Parsed x ps1" "f x ps1 = Parsed y ps2"
    by (auto simp: pbind_def split: parsed.splits)
  have ok1: "parser_ok ps1" "tokens_left ps1 \<le> tokens_left ps"
    using readsD(4) [OF stays_reads [OF m] _ _ x(1)] ps by simp_all
  have ok2: "tokens_left ps2 \<le> tokens_left ps1"
    using readsD(4) [OF stays_reads [OF f] ok1(1) _ x(2)] ok1(2) ps by simp
  show "tokens_left ps2 < tokens_left ps \<or> same_place ps ps2 \<and> (\<exists>x. B x ps \<and> C x y ps)"
  proof (cases "tokens_left ps2 < tokens_left ps")
    case False
    then have first: "same_place ps ps1" "B x ps"
      using staysD [OF m _ _ x(1)] ps ok2 by auto
    have second: "same_place ps1 ps2" "C x y ps1"
      using staysD [OF f ok1(1) _ x(2)] False ps same_place_left [OF first(1)] by auto
    have "C x y ps"
      using second(2) first(1) C [of x y] by (simp add: stable_def)
    then show ?thesis
      using first same_place_trans [OF first(1) second(1)] by blast
  qed simp
qed

lemma stays_seq:
  "stays j B m m' \<Longrightarrow> stays j C n n' \<Longrightarrow> (\<And>y. stable (C y)) \<Longrightarrow>
   stays j (\<lambda>y ps. \<exists>x. B x ps \<and> C y ps) (pseq m n) (pseq m' n')"
  unfolding pseq_def by (rule stays_bind)

lemma stays_map: "stays j B m m' \<Longrightarrow> stays j (\<lambda>_ ps. \<exists>x. B x ps) (pmap f m) (pmap f m')"
  unfolding pmap_def
  by (rule stays_weaken, erule stays_bind, rule stays_pret) (auto simp: stable_def)

lemma stays_if:
  "(b \<Longrightarrow> stays j B m m') \<Longrightarrow> (\<not> b \<Longrightarrow> stays j C n n') \<Longrightarrow>
   stays j (\<lambda>x ps. if b then B x ps else C x ps) (if b then m else n) (if b then m' else n')"
  by simp

lemma stays_option:
  "(x = None \<Longrightarrow> stays j B m m') \<Longrightarrow> (\<And>y. x = Some y \<Longrightarrow> stays j (C y) (f y) (f' y)) \<Longrightarrow>
   stays j (\<lambda>z ps. case x of None \<Rightarrow> B z ps | Some y \<Rightarrow> C y z ps)
     (case x of None \<Rightarrow> m | Some y \<Rightarrow> f y) (case x of None \<Rightarrow> m' | Some y \<Rightarrow> f' y)"
  by (cases x) simp_all

text \<open>An operation that always takes a token if there is one leaves the tokens at the end only.\<close>

lemma stays_errors [stays_rules]:
  "stays j (\<lambda>_ _. True) (error_at t message) (error_at t message)"
  "stays j (\<lambda>_ _. True) (limit_error_at t message) (limit_error_at t message)"
  unfolding stays_def using reads_errors [of j t message]
  by (simp_all add: error_at_def limit_error_at_def pmodify_def)

lemma stays_errors_here [stays_rules]:
  "stays j (\<lambda>_ _. True) (error_here message) (error_here message)"
  "stays j (\<lambda>_ _. True) (error_before message) (error_before message)"
  unfolding stays_def using reads_errors_here [of j message]
  by (simp_all add: error_here_def error_before_def error_at_def pmodify_def pbind_def pget_def)

lemma stays_identifier [stays_rules]:
  "stays j (\<lambda>found ps. found = None \<and> current_identifier ps = None) (expect_identifier message) (expect_identifier message)"
  unfolding stays_def
proof (intro conjI allI impI, goal_cases)
  case 1 show ?case by (rule reads_identifier_any)
next
  case (2 ps found ps')
  then have "found \<noteq> None \<Longrightarrow> tokens_left ps' < tokens_left ps"
    using readsD(4) [OF reads_identifier, of ps j message found ps'] by simp
  moreover have "found = current_identifier ps" "found = None \<Longrightarrow> same_place ps ps'"
    using 2 by (auto simp: expect_identifier_def pbind_def pget_def pseq_def pret_def p_advance_def pmodify_def
        error_here_def error_at_def split: option.splits)
  ultimately show ?case
    by (cases "current_identifier ps") auto
qed

lemma stays_name [stays_rules]:
  "stays j (\<lambda>_ ps. current_identifier ps = None) (expect_name message) (expect_name message)"
  unfolding expect_name_def by (rule stays_weaken, rule stays_map, rule stays_identifier) auto

lemma stable_simps [simp]:
  "stable (\<lambda>_. b)" "stable is_eof" "stable (check_symbol symb)" "stable (check_keyword keyword)"
  "stable (check_any_keyword keywords)" "stable (\<lambda>ps. current_identifier ps = x)"
  "stable (\<lambda>ps. current ps = t)"
  "stable A \<Longrightarrow> stable (\<lambda>ps. \<not> A ps)"
  "stable A \<Longrightarrow> stable B \<Longrightarrow> stable (\<lambda>ps. A ps \<and> B ps)"
  "stable A \<Longrightarrow> stable B \<Longrightarrow> stable (\<lambda>ps. A ps \<or> B ps)"
  "(\<And>x. stable (D x)) \<Longrightarrow> stable (\<lambda>ps. \<exists>x. D x ps)"
  by (auto simp: stable_def same_place_def)

lemma stays_expect_symbol [stays_rules]:
  "stays j (\<lambda>_ ps. \<not> check_symbol symb ps) (expect_symbol symb message) (expect_symbol symb message)"
  unfolding expect_symbol_def
  by (rule stays_weaken, rule stays_bind, rule stays_match, rule stays_if, rule stays_pret, rule stays_seq,
      rule stays_errors_here, rule stays_pret) (auto simp: stable_def)

text \<open>A loop that takes a token in every turn leaves the tokens only when its condition does
  not hold.\<close>

lemma stays_while:
  fixes body body' :: "'a \<Rightarrow> 'a parser"
  assumes "j \<le> pc_turns c" and "j \<le> pc_turns d" and "before_eof cond"
    and body: "\<And>acc. reads_from cond j token_if_any (body acc) (body' acc)"
  shows "stays j (\<lambda>_ ps. \<not> cond ps) (pwhile c cond body acc) (pwhile d cond body' acc)"
proof -
  define turn where "turn = (\<lambda>(body :: 'a \<Rightarrow> 'a parser) acc. pbind (pget cond) (\<lambda>b. if b then pmap Inl (body acc) else pret (Inr acc)))"
  have turns: "reads j (\<lambda>_ r. isl r) (turn body acc) (turn body' acc)" for acc
    unfolding turn_def using assms(3) reads_from_map [OF body]
    by (rule reads_test_from) (rule reads_pret, simp)
  have loop: "reads j anything (pwhile c cond body acc) (pwhile d cond body' acc)"
    unfolding pwhile_def using assms(1,2) turns [unfolded turn_def] by (rule reads_loop)
  moreover have "tokens_left ps' < tokens_left ps \<or> same_place ps ps' \<and> \<not> cond ps"
    if ps: "parser_ok ps" "tokens_left ps < j" "pwhile c cond body acc ps = Parsed x ps'" for ps x ps'
  proof (cases "cond ps")
    case True
    obtain n where n: "pc_turns c = Suc n"
      using ps(2) assms(1) by (cases "pc_turns c") auto
    have run: "ploop (Suc n) (turn body) acc ps = Parsed x ps'"
      using ps(3) n by (simp add: pwhile_def turn_def)
    then obtain acc' ps1 where first: "body acc ps = Parsed acc' ps1" "ploop n (turn body) acc' ps1 = Parsed x ps'"
      using True by (auto simp: turn_def pbind_def pget_def pmap_def pret_def split: parsed.splits)
    have "ends_well token_if_any (body acc) (body' acc) ps" "0 < tokens_left ps"
      using body [of acc] True ps assms(3) eof_left [OF ps(1)] by (auto simp: reads_from_def before_eof_def)
    then have ps1: "parser_ok ps1" "tokens_left ps1 < tokens_left ps"
      using first(1) by (simp_all add: ends_well_def)
    have "tokens_left ps' \<le> tokens_left ps1"
      using reads_loop_turns [where body = "turn body" and body' = "turn body'" and n = n and n' = n, OF turns ps1(1), of acc']
        ps1(2) ps(2) assms(1) n first(2) by simp
    then show ?thesis
      using ps1(2) by simp
  next
    case False
    then have "x = acc \<and> ps' = ps"
      using ps assms(1) by (cases "pc_turns c") (simp_all add: pwhile_def pbind_def pget_def pret_def)
    then show ?thesis
      using False by simp
  qed
  ultimately show ?thesis
    by (simp add: stays_def)
qed

end
