(* ===== verification/SynEnds.thy ===== *)
theory SynEnds
  imports SynStays
begin

text \<open>
  Every operation of the parser ends, whatever the tokens are: with records of calls that are
  good below \<open>k\<close> it is good below \<open>k + 1\<close>, so \<open>parser n\<close> is good below \<open>n\<close> and the
  front end has a result with one call more than there are tokens.
\<close>

definition good_calls :: "nat \<Rightarrow> parse_calls \<Rightarrow> parse_calls \<Rightarrow> bool" where
  "good_calls k c d \<longleftrightarrow> Suc k \<le> pc_turns c \<and> Suc k \<le> pc_turns d \<and>
     reads k token_if_any (pc_expression c) (pc_expression d) \<and>
     reads k token_if_any (pc_unary c) (pc_unary d) \<and>
     reads k token_if_any (pc_il_operand c) (pc_il_operand d) \<and>
     reads k token_if_any (pc_statement c) (pc_statement d) \<and>
     (\<forall>stops. reads k anything (pc_statements c stops) (pc_statements d stops)) \<and>
     reads k anything (pc_type c) (pc_type d)"

lemma good_turns:
  "good_calls k c d \<Longrightarrow> j \<le> Suc k \<Longrightarrow> j \<le> pc_turns c"
  "good_calls k c d \<Longrightarrow> j \<le> Suc k \<Longrightarrow> j \<le> pc_turns d"
  by (simp_all add: good_calls_def)

lemma good_reads:
  assumes "good_calls k c d" and "j \<le> k"
  shows "reads j token_if_any (pc_expression c) (pc_expression d)"
    and "reads j token_if_any (pc_unary c) (pc_unary d)"
    and "reads j token_if_any (pc_il_operand c) (pc_il_operand d)"
    and "reads j token_if_any (pc_statement c) (pc_statement d)"
    and "reads j anything (pc_statements c stops) (pc_statements d stops)"
    and "reads j anything (pc_type c) (pc_type d)"
  using assms by (auto simp: good_calls_def intro: reads_weaken)

lemmas good_any [reads_rules] = good_reads(1-4) [THEN reads_any] good_reads(5,6)
lemmas good_tokens [reads_tokens] = good_reads(1-4)
lemmas good_loops [reads_rules] =
  reads_loop [OF good_turns] reads_while [OF good_turns] reads_until_keyword [OF good_turns] reads_commas [OF good_turns]
  reads_skip [OF good_turns] reads_synchronize [OF good_turns]

section \<open>Expressions\<close>

lemma reads_index_list [reads_rules]:
  "good_calls k c d \<Longrightarrow> j \<le> k \<Longrightarrow> reads j anything (index_list c ixs) (index_list d ixs)"
  unfolding index_list_def by (rule  reads_rules | rule reads_tokens | assumption | simp)+

lemma reads_parse_index_suffix [reads_rules]:
  "good_calls k c d \<Longrightarrow> j \<le> Suc k \<Longrightarrow> reads j anything (parse_index_suffix c) (parse_index_suffix d)"
  unfolding parse_index_suffix_def by (rule  reads_rules | rule reads_tokens | assumption | simp)+

lemma reads_finish_variable_ref [reads_rules]:
  "good_calls k c d \<Longrightarrow> j \<le> Suc k \<Longrightarrow> reads j anything (finish_variable_ref c first) (finish_variable_ref d first)"
  unfolding finish_variable_ref_def by (rule  reads_rules | rule reads_tokens | assumption | simp)+

lemma reads_parse_variable_ref [reads_tokens]:
  "good_calls k c d \<Longrightarrow> j \<le> Suc k \<Longrightarrow> reads j token_if_any (parse_variable_ref c) (parse_variable_ref d)"
  unfolding parse_variable_ref_def
  by (rule reads_bind_any [OF reads_get] | (rule reads_seq_token, rule reads_tokens) | (rule reads_bind_token, rule reads_tokens) |
      (rule reads_map_token, rule reads_tokens) | (rule reads_seq_any, rule reads_errors) | rule reads_rules | rule reads_tokens |
      assumption | simp)+

lemmas reads_parse_variable_ref_any [reads_rules] = reads_parse_variable_ref [THEN reads_any]

lemma reads_literal_tokens [reads_rules]:
  "reads j anything (parse_number_literal_token t raw) (parse_number_literal_token t raw)"
  "reads j anything (parse_hash_literal_token t raw) (parse_hash_literal_token t raw)"
proof -
  show "reads j anything (parse_number_literal_token t raw) (parse_number_literal_token t raw)"
    unfolding parse_number_literal_token_def by (rule reads_rules | simp)+
  have lift: "reads j anything (plift (\<lambda>ps. parse_hash_literal_checked (ps_overflow_checks ps) raw))
      (plift (\<lambda>ps. parse_hash_literal_checked (ps_overflow_checks ps) raw))"
    using hash_literal_panics [of _ raw]
    by (intro readsI) (auto simp: plift_def split: outcome.splits)
  show "reads j anything (parse_hash_literal_token t raw) (parse_hash_literal_token t raw)"
    unfolding parse_hash_literal_token_def by (rule lift reads_rules | simp)+
qed

lemma reads_array_elements [reads_rules]:
  "reads j anything (push_array_literal_element acc e) (push_array_literal_element acc e)"
  "reads j anything (extend_array_literal acc n e t) (extend_array_literal acc n e t)"
  unfolding push_array_literal_element_def extend_array_literal_def limit_array_elements_def Let_def
  by - (rule reads_rules | simp)+

lemma reads_parse_array_literal_element [reads_rules]:
  "good_calls k c d \<Longrightarrow> j \<le> k \<Longrightarrow> reads j anything (parse_array_literal_element c acc) (parse_array_literal_element d acc)"
  unfolding parse_array_literal_element_def by (rule  reads_rules | rule reads_tokens | assumption | simp)+

lemma reads_parse_array_literal:
  "good_calls k c d \<Longrightarrow> j \<le> Suc k \<Longrightarrow> reads_from (check_symbol SymLBracket) j Q (parse_array_literal c) (parse_array_literal d)"
  unfolding parse_array_literal_def
  by (rule reads_from_expect | rule reads_rules | assumption | simp)+

lemma reads_struct_literal_fields [reads_rules]:
  "good_calls k c d \<Longrightarrow> j \<le> Suc k \<Longrightarrow> reads j anything (struct_literal_fields c) (struct_literal_fields d)"
  unfolding struct_literal_fields_def by (rule  reads_rules | rule reads_tokens | assumption | simp add: Let_def)+

lemma reads_parse_struct_literal [reads_rules]:
  "good_calls k c d \<Longrightarrow> j \<le> Suc k \<Longrightarrow> reads j anything (parse_struct_literal c) (parse_struct_literal d)"
  unfolding parse_struct_literal_def by (rule  reads_rules | rule reads_tokens | assumption | simp)+

lemma reads_parse_param_assignment [reads_rules]:
  "good_calls k c d \<Longrightarrow> j \<le> k \<Longrightarrow> reads j anything (parse_param_assignment c) (parse_param_assignment d)"
  unfolding parse_param_assignment_def by (rule  reads_rules | rule reads_tokens | assumption | simp)+

lemma reads_parse_param_assignment_list [reads_rules]:
  "good_calls k c d \<Longrightarrow> j \<le> k \<Longrightarrow> reads j anything (parse_param_assignment_list c s) (parse_param_assignment_list d s)"
  unfolding parse_param_assignment_list_def by (rule  reads_rules | rule reads_tokens | assumption | simp)+

lemma reads_parse_identifier_expression [reads_tokens]:
  "good_calls k c d \<Longrightarrow> j \<le> Suc k \<Longrightarrow> reads j token_if_any (parse_identifier_expression c v) (parse_identifier_expression d v)"
  unfolding parse_identifier_expression_def Let_def
  by (rule reads_bind_any [OF reads_get] | (rule reads_seq_token, rule reads_tokens) | (rule reads_bind_token, rule reads_tokens) |
      (rule reads_map_token, rule reads_tokens) | (rule reads_seq_any, rule reads_errors) | rule reads_rules | rule reads_tokens |
      assumption | simp)+

lemmas reads_parse_identifier_expression_any [reads_rules] = reads_parse_identifier_expression [THEN reads_any]

lemma reads_parse_parenthesized:
  "good_calls k c d \<Longrightarrow> j \<le> Suc k \<Longrightarrow> reads_from (\<lambda>ps. \<not> is_eof ps) j Q (parse_parenthesized c) (parse_parenthesized d)"
  unfolding parse_parenthesized_def
  by (rule reads_from_advance | rule reads_rules | assumption | simp)+

lemma reads_parse_primary [reads_tokens]:
  assumes "good_calls k c d" and "j \<le> Suc k"
  shows "reads j token_if_any (parse_primary c) (parse_primary d)"
  unfolding parse_primary_def
proof (rule reads_get_facts)
  fix t
  let ?error = "\<lambda>e :: expr. pseq (error_at t (''expected expression, found '' @ quoted (tk_lexeme t))) (pseq p_advance (pret e))"
  let ?body = "\<lambda>c. case tk_kind t of
        NumberT v \<Rightarrow> pseq p_advance (parse_number_literal_token t v)
      | StringT v \<Rightarrow> pseq p_advance (pret (LiteralE (LString v)))
      | WStringT v \<Rightarrow> pseq p_advance (pret (LiteralE (LWString v)))
      | HashT v \<Rightarrow> pseq p_advance (pmap LiteralE (parse_hash_literal_token t v))
      | DirectT v \<Rightarrow> pmap VariableE (parse_variable_ref c)
      | IdentT v \<Rightarrow> parse_identifier_expression c v
      | SymbolT symb \<Rightarrow> if symb = SymLParen then parse_parenthesized c
          else if symb = SymLBracket then parse_array_literal c else ?error (LiteralE (LInt 0))
      | EofT \<Rightarrow> ?error (LiteralE (LInt 0))"
  have error: "reads j token_if_any (?error e) (?error e)" for e
    by (rule reads_seq_any, rule reads_errors) (rule reads_seq_token reads_advance reads_pret | simp)+
  have paren: "tk_kind t = SymbolT symb \<Longrightarrow> symb = SymLParen \<Longrightarrow>
      reads_from (\<lambda>ps. current ps = t) j token_if_any (parse_parenthesized c) (parse_parenthesized d)"
    and array: "tk_kind t = SymbolT symb \<Longrightarrow> symb = SymLBracket \<Longrightarrow>
      reads_from (\<lambda>ps. current ps = t) j token_if_any (parse_array_literal c) (parse_array_literal d)" for symb
    by (auto simp: check_symbol_def is_eof_def
        intro!: reads_from_weaken [OF reads_parse_parenthesized [OF assms]] reads_from_weaken [OF reads_parse_array_literal [OF assms]])
  show "reads_from (\<lambda>ps. current ps = t) j token_if_any (?body c) (?body d)"
    by (rule reads_from_token_kind)
      (rule reads_from_if paren array reads_from_reads [OF error] reads_from_reads [OF reads_parse_identifier_expression [OF assms]]
          reads_from_reads [OF reads_map_token [OF reads_parse_variable_ref [OF assms]]]
          reads_from_reads [OF reads_seq_token [OF reads_advance]] reads_rules | assumption | simp)+
qed

lemmas reads_parse_primary_any [reads_rules] = reads_parse_primary [THEN reads_any]

lemma reads_bind_first:
  assumes "\<forall>p \<in> set ms. reads j (\<lambda>_ b. b) (fst p) (fst p)"
    and "\<And>binop. reads (j - 1) anything (f (Some binop)) (f' (Some binop))" and "reads j Q (f None) (f' None)"
  shows "reads j Q (pbind (first_match ms) f) (pbind (first_match ms) f')"
proof (rule reads_bind [OF reads_first_match [OF assms(1)]])
  show "reads (j - 1) anything (f found) (f' found)" if "\<And>more. found \<noteq> None" for found
    using that assms(2) by (cases found) auto
  show "reads j (\<lambda>more y. Q more y \<and> \<not> found \<noteq> None) (f found) (f' found)" if "\<not> found \<noteq> None"
    for found and more :: bool
    using that assms(3) by simp
qed

lemma reads_binary_level:
  assumes "good_calls k c d" and "j \<le> Suc k" and operators: "\<forall>p \<in> set ms. reads j (\<lambda>_ b. b) (fst p) (fst p)"
    and m: "reads j token_if_any m m'"
  shows "reads j token_if_any (binary_level c ms m) (binary_level d ms m')"
proof -
  have "reads (j - 1) anything m m'"
    using m by (rule reads_weaken) simp_all
  then show ?thesis
    unfolding binary_level_def using assms
    by - (rule reads_bind_token [OF m] reads_loop [OF good_turns] reads_bind_first reads_rules | assumption | simp)+
qed

lemma reads_matches: "reads j (\<lambda>_ b. b) (match_symbol symb) (match_symbol symb)"
  "reads j (\<lambda>_ b. b) (match_keyword keyword) (match_keyword keyword)"
  unfolding match_symbol_def match_keyword_def by (rule reads_take, simp)+

lemma reads_operators:
  "\<forall>p \<in> set or_operators. reads j (\<lambda>_ b. b) (fst p) (fst p)"
  "\<forall>p \<in> set xor_operators. reads j (\<lambda>_ b. b) (fst p) (fst p)"
  "\<forall>p \<in> set and_operators. reads j (\<lambda>_ b. b) (fst p) (fst p)"
  "\<forall>p \<in> set equality_operators. reads j (\<lambda>_ b. b) (fst p) (fst p)"
  "\<forall>p \<in> set comparison_operators. reads j (\<lambda>_ b. b) (fst p) (fst p)"
  "\<forall>p \<in> set add_operators. reads j (\<lambda>_ b. b) (fst p) (fst p)"
  "\<forall>p \<in> set term_operators. reads j (\<lambda>_ b. b) (fst p) (fst p)"
  by (simp_all add: or_operators_def xor_operators_def and_operators_def equality_operators_def
      comparison_operators_def add_operators_def term_operators_def reads_matches)

lemma reads_parse_power [reads_tokens]:
  "good_calls k c d \<Longrightarrow> j \<le> Suc k \<Longrightarrow> reads j token_if_any (parse_power c) (parse_power d)"
  unfolding parse_power_def
  by (rule reads_bind_any [OF reads_get] | (rule reads_seq_token, rule reads_tokens) | (rule reads_bind_token, rule reads_tokens) |
      (rule reads_map_token, rule reads_tokens) | (rule reads_seq_any, rule reads_errors) | rule reads_rules | rule reads_tokens |
      assumption | simp)+

lemmas reads_parse_power_any [reads_rules] = reads_parse_power [THEN reads_any]

lemma reads_parse_unary [reads_tokens]:
  "good_calls k c d \<Longrightarrow> j \<le> Suc k \<Longrightarrow> reads j token_if_any (parse_unary c) (parse_unary d)"
  unfolding parse_unary_def
  by (rule reads_bind_any [OF reads_get] | (rule reads_seq_token, rule reads_tokens) | (rule reads_bind_token, rule reads_tokens) |
      (rule reads_map_token, rule reads_tokens) | (rule reads_seq_any, rule reads_errors) | rule reads_rules | rule reads_tokens |
      assumption | simp)+

lemmas reads_parse_unary_any [reads_rules] = reads_parse_unary [THEN reads_any]

lemma reads_parse_term [reads_tokens]:
  "good_calls k c d \<Longrightarrow> j \<le> Suc k \<Longrightarrow> reads j token_if_any (parse_term c) (parse_term d)"
  unfolding parse_term_def by (rule reads_binary_level reads_operators reads_tokens | assumption)+

lemmas reads_parse_term_any [reads_rules] = reads_parse_term [THEN reads_any]

lemma reads_parse_add [reads_tokens]:
  "good_calls k c d \<Longrightarrow> j \<le> Suc k \<Longrightarrow> reads j token_if_any (parse_add c) (parse_add d)"
  unfolding parse_add_def by (rule reads_binary_level reads_operators reads_tokens | assumption)+

lemmas reads_parse_add_any [reads_rules] = reads_parse_add [THEN reads_any]

lemma reads_parse_comparison [reads_tokens]:
  "good_calls k c d \<Longrightarrow> j \<le> Suc k \<Longrightarrow> reads j token_if_any (parse_comparison c) (parse_comparison d)"
  unfolding parse_comparison_def by (rule reads_binary_level reads_operators reads_tokens | assumption)+

lemmas reads_parse_comparison_any [reads_rules] = reads_parse_comparison [THEN reads_any]

lemma reads_parse_equality [reads_tokens]:
  "good_calls k c d \<Longrightarrow> j \<le> Suc k \<Longrightarrow> reads j token_if_any (parse_equality c) (parse_equality d)"
  unfolding parse_equality_def by (rule reads_binary_level reads_operators reads_tokens | assumption)+

lemmas reads_parse_equality_any [reads_rules] = reads_parse_equality [THEN reads_any]

lemma reads_parse_and [reads_tokens]:
  "good_calls k c d \<Longrightarrow> j \<le> Suc k \<Longrightarrow> reads j token_if_any (parse_and c) (parse_and d)"
  unfolding parse_and_def by (rule reads_binary_level reads_operators reads_tokens | assumption)+

lemmas reads_parse_and_any [reads_rules] = reads_parse_and [THEN reads_any]

lemma reads_parse_xor [reads_tokens]:
  "good_calls k c d \<Longrightarrow> j \<le> Suc k \<Longrightarrow> reads j token_if_any (parse_xor c) (parse_xor d)"
  unfolding parse_xor_def by (rule reads_binary_level reads_operators reads_tokens | assumption)+

lemmas reads_parse_xor_any [reads_rules] = reads_parse_xor [THEN reads_any]

lemma reads_parse_or [reads_tokens]:
  "good_calls k c d \<Longrightarrow> j \<le> Suc k \<Longrightarrow> reads j token_if_any (parse_or c) (parse_or d)"
  unfolding parse_or_def by (rule reads_binary_level reads_operators reads_tokens | assumption)+

lemmas reads_parse_or_any [reads_rules] = reads_parse_or [THEN reads_any]

lemma reads_parse_expression [reads_tokens]:
  "good_calls k c d \<Longrightarrow> j \<le> Suc k \<Longrightarrow> reads j token_if_any (parse_expression c) (parse_expression d)"
  unfolding parse_expression_def
  by (rule reads_bind_any [OF reads_get] | (rule reads_seq_token, rule reads_tokens) | (rule reads_bind_token, rule reads_tokens) |
      (rule reads_map_token, rule reads_tokens) | (rule reads_seq_any, rule reads_errors) | rule reads_rules | rule reads_tokens |
      assumption | simp)+

lemmas reads_parse_expression_any [reads_rules] = reads_parse_expression [THEN reads_any]

section \<open>Statements\<close>

lemma reads_try [reads_rules]:
  "reads j anything m m' \<Longrightarrow> (\<And>x. reads j anything (f x) (f' x)) \<Longrightarrow> reads j anything (ptry m f) (ptry m' f')"
  unfolding ptry_def by (rule reads_rules | assumption | simp)+

lemma reads_fold_il [reads_rules]:
  "reads j anything (il_required_accumulator a t) (il_required_accumulator a t)"
  "reads j anything (il_required_operand v e t) (il_required_operand v e t)"
  "reads j anything (fold_il_expression a v e t) (fold_il_expression a v e t)"
  unfolding fold_il_expression_def il_required_accumulator_def il_required_operand_def
  by - (rule reads_rules | simp)+

lemma reads_il_fold_step:
  assumes "\<And>ps. A ps \<Longrightarrow> \<not> is_eof ps" and "reads (j - 1) anything (operand c) (operand d)"
  shows "reads_from A j Q (il_fold_step c stop operand t v a) (il_fold_step d stop operand t v a)"
  unfolding il_fold_step_def
  by (rule reads_from_advance [OF assms(1)] | rule reads_rules assms(2) | simp)+

lemma current_il_op_eof: "current_il_op ps = Some v \<Longrightarrow> \<not> is_eof ps"
  by (auto simp: current_il_op_def bind_eq_Some_conv not_eof_tests(4))

text \<open>Passing over tokens takes one when the first does not stop it.\<close>

lemma stays_skip [stays_rules]:
  assumes "j \<le> pc_turns c" and "j \<le> pc_turns d"
  shows "stays j (\<lambda>_ ps. is_eof ps \<or> stop ps) (skip_until c stop) (skip_until d stop)"
  unfolding skip_until_def
  by (rule stays_weaken, rule stays_while [OF assms])
    (auto intro: reads_from_reads reads_advance)

lemma stays_sync_il:
  assumes "good_calls k c d" and "j \<le> Suc k"
  shows "stays j (\<lambda>_ ps. is_eof ps \<or> check_symbol SymSemicolon ps \<or> check_symbol SymRParen ps)
      (synchronize_to_il_expression_boundary c) (synchronize_to_il_expression_boundary d)"
  unfolding synchronize_to_il_expression_boundary_def
  by (rule stays_weaken, rule stays_seq, rule stays_skip [OF good_turns], (rule assms)+, rule stays_map, rule stays_match) auto

lemma il_instruction_or_skip:
  assumes "good_calls k c d" and "j \<le> Suc k"
  shows "reads_from A j anything
      (pbind (pget current_il_op) (\<lambda>found. case found of
         None \<Rightarrow> pseq (error_at t message) (pseq (synchronize_to_il_expression_boundary c) (pret a))
       | Some v \<Rightarrow> il_fold_step c stop pc_il_operand t v a))
      (pbind (pget current_il_op) (\<lambda>found. case found of
         None \<Rightarrow> pseq (error_at t message) (pseq (synchronize_to_il_expression_boundary d) (pret a))
       | Some v \<Rightarrow> il_fold_step d stop pc_il_operand t v a))"
    and "(\<And>ps. A ps \<Longrightarrow> \<not> is_eof ps \<and> \<not> check_symbol SymSemicolon ps \<and> \<not> check_symbol SymRParen ps) \<Longrightarrow> stable A \<Longrightarrow>
      reads_from A j token_if_any
      (pbind (pget current_il_op) (\<lambda>found. case found of
         None \<Rightarrow> pseq (error_at t message) (pseq (synchronize_to_il_expression_boundary c) (pret a))
       | Some v \<Rightarrow> il_fold_step c stop pc_il_operand t v a))
      (pbind (pget current_il_op) (\<lambda>found. case found of
         None \<Rightarrow> pseq (error_at t message) (pseq (synchronize_to_il_expression_boundary d) (pret a))
       | Some v \<Rightarrow> il_fold_step d stop pc_il_operand t v a))"
proof -
  have calls: "reads (j - 1) anything (pc_il_operand c) (pc_il_operand d)"
    using assms(2) by (intro good_any(3) [OF assms(1)]) simp
  have step: "reads_from (\<lambda>ps. A ps \<and> current_il_op ps = Some v) j Q
      (il_fold_step c stop pc_il_operand t v a) (il_fold_step d stop pc_il_operand t v a)" for Q v
    by (rule reads_il_fold_step [OF _ calls]) (use current_il_op_eof in blast)
  show "reads_from A j anything
      (pbind (pget current_il_op) (\<lambda>found. case found of
         None \<Rightarrow> pseq (error_at t message) (pseq (synchronize_to_il_expression_boundary c) (pret a))
       | Some v \<Rightarrow> il_fold_step c stop pc_il_operand t v a))
      (pbind (pget current_il_op) (\<lambda>found. case found of
         None \<Rightarrow> pseq (error_at t message) (pseq (synchronize_to_il_expression_boundary d) (pret a))
       | Some v \<Rightarrow> il_fold_step d stop pc_il_operand t v a))"
    by (rule reads_from_get, rule reads_from_option)
      (rule reads_from_reads reads_rules assms step [THEN reads_from_weaken] | simp)+
  assume A: "\<And>ps. A ps \<Longrightarrow> \<not> is_eof ps \<and> \<not> check_symbol SymSemicolon ps \<and> \<not> check_symbol SymRParen ps" "stable A"
  have "reads_from A j token_if_any
      (pseq (error_at t message) (pseq (synchronize_to_il_expression_boundary c) (pret a)))
      (pseq (error_at t message) (pseq (synchronize_to_il_expression_boundary d) (pret a)))"
    by (rule reads_from_stay_token, rule stays_seq, rule stays_errors, rule stays_seq,
        rule stays_sync_il [OF assms], rule stays_pret) (use A in auto)
  then show "reads_from A j token_if_any
      (pbind (pget current_il_op) (\<lambda>found. case found of
         None \<Rightarrow> pseq (error_at t message) (pseq (synchronize_to_il_expression_boundary c) (pret a))
       | Some v \<Rightarrow> il_fold_step c stop pc_il_operand t v a))
      (pbind (pget current_il_op) (\<lambda>found. case found of
         None \<Rightarrow> pseq (error_at t message) (pseq (synchronize_to_il_expression_boundary d) (pret a))
       | Some v \<Rightarrow> il_fold_step d stop pc_il_operand t v a))"
    by (intro reads_from_get reads_from_option) (use step in \<open>auto elim: reads_from_weaken\<close>)
qed

lemma reads_il_parenthesized_turn:
  assumes "good_calls k c d" and "j \<le> Suc k"
  shows "reads_from (\<lambda>ps. \<not> is_eof ps \<and> \<not> check_symbol SymRParen ps) j token_if_any
      (il_parenthesized_turn c a) (il_parenthesized_turn d a)"
  unfolding il_parenthesized_turn_def
proof (rule reads_from_bind_stay [OF _ stays_match(1)], goal_cases)
  case (2 empty)
  show ?case
    using assms(2)
    by - (rule reads_if reads_pret reads_bind_any reads_get
        reads_from_all il_instruction_or_skip(1) [OF assms(1)] | simp)+
next
  case (3 empty)
  show ?case
  proof (cases empty)
    case True
    then show ?thesis by (simp add: reads_from_def)
  next
    case False
    then show ?thesis
      by (simp, intro reads_from_get il_instruction_or_skip(2) [OF assms]) auto
  qed
qed auto

lemma reads_while_from:
  "good_calls k c d \<Longrightarrow> j \<le> Suc k \<Longrightarrow> before_eof cond \<Longrightarrow>
   (\<And>acc. reads_from cond j token_if_any (body acc) (body' acc)) \<Longrightarrow>
   reads j anything (pwhile c cond body acc) (pwhile d cond body' acc)"
  by (rule stays_reads, rule stays_while) (auto dest: good_turns)

lemma reads_parse_il_parenthesized:
  assumes "good_calls k c d" and "j \<le> Suc k"
  shows "reads_from (check_symbol SymLParen) j Q (parse_il_parenthesized_expression c) (parse_il_parenthesized_expression d)"
  unfolding parse_il_parenthesized_expression_def using assms(2)
  by - (rule reads_from_expect reads_while_from [OF assms(1)] reads_il_parenthesized_turn [OF assms(1)] reads_rules |
      assumption | simp)+

lemma reads_parse_il_operand [reads_tokens]:
  assumes "good_calls k c d" and "j \<le> Suc k"
  shows "reads j token_if_any (parse_il_operand c) (parse_il_operand d)"
  unfolding parse_il_operand_def
proof (rule reads_get_facts, rule reads_from_if)
  show "reads_from (\<lambda>ps. (check_symbol SymLParen ps \<and> next_token_is_il_op ps) = nested) j token_if_any
      (parse_il_parenthesized_expression c) (parse_il_parenthesized_expression d)" if nested for nested
    using that by (intro reads_from_weaken [OF reads_parse_il_parenthesized [OF assms]]) simp
  show "reads_from A j token_if_any (pbind line_end_here (\<lambda>stop. parse_expression_until stop (parse_expression c)))
      (pbind line_end_here (\<lambda>stop. parse_expression_until stop (parse_expression d)))" for A
    by (rule reads_from_reads, rule reads_bind_any, rule reads_line_end, rule reads_until, rule reads_parse_expression)
      (rule assms)+
qed

lemmas reads_parse_il_operand_any [reads_rules] = reads_parse_il_operand [THEN reads_any]

lemma reads_parse_il_instruction [reads_tokens]:
  "good_calls k c d \<Longrightarrow> j \<le> Suc k \<Longrightarrow> reads j token_if_any (parse_il_instruction c) (parse_il_instruction d)"
  unfolding parse_il_instruction_def
  by (rule reads_bind_any [OF reads_get] | (rule reads_seq_token, rule reads_tokens) | (rule reads_bind_token, rule reads_tokens) |
      (rule reads_map_token, rule reads_tokens) | (rule reads_seq_any, rule reads_errors) | rule reads_rules | rule reads_tokens |
      assumption | simp)+

lemmas reads_parse_il_instruction_any [reads_rules] = reads_parse_il_instruction [THEN reads_any]

lemma reads_statement_list [reads_rules]:
  "good_calls k c d \<Longrightarrow> j \<le> Suc k \<Longrightarrow> reads j token_if_any st st' \<Longrightarrow>
   reads j anything (statement_list c stop st) (statement_list d stop st')"
  unfolding statement_list_def
  by (rule reads_bind_token reads_rules | assumption | simp)+

lemma reads_loop_token:
  assumes "j \<le> n" and "j \<le> n'" and "\<And>acc. reads j (\<lambda>_ r. isl r) (body acc) (body' acc)"
    and first: "reads j token_if_any (body acc) (body' acc)"
  shows "reads j token_if_any (ploop n body acc) (ploop n' body' acc)"
proof (cases j)
  case (Suc i)
  then obtain m m' where n: "n = Suc m" "n' = Suc m'" "i \<le> m" "i \<le> m'"
    using assms(1,2) by (cases n; cases n') auto
  have rest: "reads i anything (ploop m body x) (ploop m' body' x)" for x
    using n(3,4) assms(3) [unfolded Suc, THEN reads_Suc] by (rule reads_loop)
  show ?thesis
    unfolding n(1,2) ploop.simps
  proof (rule reads_bind [where P = "\<lambda>more r. more \<or> isl r"])
    show "reads j (\<lambda>more r. more \<or> isl r) (body acc) (body' acc)"
      using reads_both [OF first assms(3)] .
    show "reads (j - 1) anything (case r of Inl x \<Rightarrow> ploop m body x | Inr x \<Rightarrow> pret x)
        (case r of Inl x \<Rightarrow> ploop m' body' x | Inr x \<Rightarrow> pret x)" for r
      using rest Suc by (cases r) (simp_all add: reads_pret)
    show "reads j (\<lambda>more y. more \<and> \<not> (more \<or> isl r)) (case r of Inl x \<Rightarrow> ploop m body x | Inr x \<Rightarrow> pret x)
        (case r of Inl x \<Rightarrow> ploop m' body' x | Inr x \<Rightarrow> pret x)" if "\<not> (more \<or> isl r)" for r more
      using that by (cases r) (simp_all add: reads_pret)
  qed
qed (simp add: reads_def)

lemma reads_commas_token [reads_tokens]:
  assumes "good_calls k c d" and "j \<le> Suc k" and body: "\<And>acc. reads j token_if_any (body acc) (body' acc)"
  shows "reads j token_if_any (pcommas c body acc) (pcommas d body' acc)"
  unfolding pcommas_def using assms(1,2)
  by - ((rule reads_loop_token [OF good_turns]; (rule reads_bind_token [OF body])?) |
      rule reads_bind_any [OF reads_any [OF body]] reads_rules | assumption | simp)+

lemmas reads_sync_token [reads_tokens] = reads_sync_semicolon [OF good_turns]

lemma reads_case_bool [reads_rules]:
  "(b \<Longrightarrow> reads j Q m m') \<Longrightarrow> (\<not> b \<Longrightarrow> reads j Q n n') \<Longrightarrow>
   reads j Q (case b of True \<Rightarrow> m | False \<Rightarrow> n) (case b of True \<Rightarrow> m' | False \<Rightarrow> n')"
  by (cases b) auto

lemma reads_else_statements [reads_rules]:
  "good_calls k c d \<Longrightarrow> j \<le> Suc k \<Longrightarrow> reads j anything (else_statements c stops) (else_statements d stops)"
  unfolding else_statements_def by (rule  reads_rules | rule reads_tokens | assumption | simp)+

lemma reads_parse_if_branch [reads_rules]:
  "good_calls k c d \<Longrightarrow> j \<le> k \<Longrightarrow> reads j anything (parse_if_branch c message) (parse_if_branch d message)"
  unfolding parse_if_branch_def by (rule  reads_rules | rule reads_tokens | assumption | simp)+

lemma reads_parse_if_statement [reads_rules]:
  "good_calls k c d \<Longrightarrow> j \<le> k \<Longrightarrow> reads j anything (parse_if_statement c) (parse_if_statement d)"
  unfolding parse_if_statement_def by (rule  reads_rules | rule reads_tokens | assumption | simp)+

lemma reads_parse_case_label [reads_tokens]:
  "good_calls k c d \<Longrightarrow> j \<le> Suc k \<Longrightarrow> reads j token_if_any (parse_case_label c) (parse_case_label d)"
  unfolding parse_case_label_def
  by (rule reads_bind_any [OF reads_get] | (rule reads_seq_token, rule reads_tokens) | (rule reads_bind_token, rule reads_tokens) |
      (rule reads_map_token, rule reads_tokens) | (rule reads_seq_any, rule reads_errors) | rule reads_rules | rule reads_tokens |
      assumption | simp)+

lemmas reads_parse_case_label_any [reads_rules] = reads_parse_case_label [THEN reads_any]

lemma reads_parse_case_clause [reads_tokens]:
  "good_calls k c d \<Longrightarrow> j \<le> k \<Longrightarrow> reads j token_if_any (parse_case_clause c cases) (parse_case_clause d cases)"
  unfolding parse_case_clause_def parse_case_body_def
  by (rule reads_bind_any [OF reads_get] | (rule reads_seq_token, rule reads_tokens) | (rule reads_bind_token, rule reads_tokens) |
      (rule reads_map_token, rule reads_tokens) | (rule reads_seq_any, rule reads_errors) | rule reads_rules | rule reads_tokens |
      assumption | simp)+

lemmas reads_parse_case_clause_any [reads_rules] = reads_parse_case_clause [THEN reads_any]

lemma reads_parse_case_statement [reads_rules]:
  "good_calls k c d \<Longrightarrow> j \<le> k \<Longrightarrow> reads j anything (parse_case_statement c) (parse_case_statement d)"
  unfolding parse_case_statement_def by (rule  reads_rules | rule reads_tokens | assumption | simp)+

lemma reads_parse_for_statement [reads_rules]:
  "good_calls k c d \<Longrightarrow> j \<le> k \<Longrightarrow> reads j anything (parse_for_statement c) (parse_for_statement d)"
  unfolding parse_for_statement_def by (rule  reads_rules | rule reads_tokens | assumption | simp)+

lemma reads_parse_while_statement [reads_rules]:
  "good_calls k c d \<Longrightarrow> j \<le> k \<Longrightarrow> reads j anything (parse_while_statement c) (parse_while_statement d)"
  unfolding parse_while_statement_def by (rule  reads_rules | rule reads_tokens | assumption | simp)+

lemma reads_parse_repeat_statement [reads_rules]:
  "good_calls k c d \<Longrightarrow> j \<le> k \<Longrightarrow> reads j anything (parse_repeat_statement c) (parse_repeat_statement d)"
  unfolding parse_repeat_statement_def by (rule  reads_rules | rule reads_tokens | assumption | simp)+

lemma reads_unsupported_statement [reads_tokens]:
  "good_calls k c d \<Longrightarrow> j \<le> Suc k \<Longrightarrow> reads j token_if_any (unsupported_statement c) (unsupported_statement d)"
  unfolding unsupported_statement_def
  by (rule reads_bind_any [OF reads_get] | (rule reads_seq_token, rule reads_tokens) | (rule reads_bind_token, rule reads_tokens) |
      (rule reads_map_token, rule reads_tokens) | (rule reads_seq_any, rule reads_errors) | rule reads_rules | rule reads_tokens |
      assumption | simp)+

lemmas reads_unsupported_statement_any [reads_rules] = reads_unsupported_statement [THEN reads_any]

lemma reads_parse_variable_statement [reads_tokens]:
  "good_calls k c d \<Longrightarrow> j \<le> Suc k \<Longrightarrow> reads j token_if_any (parse_variable_statement c) (parse_variable_statement d)"
  unfolding parse_variable_statement_def
  by (rule reads_bind_any [OF reads_get] | (rule reads_seq_token, rule reads_tokens) | (rule reads_bind_token, rule reads_tokens) |
      (rule reads_map_token, rule reads_tokens) | (rule reads_seq_any, rule reads_errors) | rule reads_rules | rule reads_tokens |
      assumption | simp)+

lemmas reads_parse_variable_statement_any [reads_rules] = reads_parse_variable_statement [THEN reads_any]

lemma reads_parse_statement [reads_tokens]:
  "good_calls k c d \<Longrightarrow> j \<le> Suc k \<Longrightarrow> reads j token_if_any (parse_statement c) (parse_statement d)"
  unfolding parse_statement_def
  by (rule reads_bind_any [OF reads_get] | (rule reads_seq_token, rule reads_tokens) | (rule reads_bind_token, rule reads_tokens) |
      (rule reads_map_token, rule reads_tokens) | (rule reads_seq_any, rule reads_errors) | rule reads_rules | rule reads_tokens |
      assumption | simp)+

lemmas reads_parse_statement_any [reads_rules] = reads_parse_statement [THEN reads_any]

lemma reads_parse_statement_list [reads_rules]:
  "good_calls k c d \<Longrightarrow> j \<le> Suc k \<Longrightarrow> reads j anything (parse_statement_list c stops) (parse_statement_list d stops)"
  unfolding parse_statement_list_def by (rule reads_parse_statement reads_rules | rule reads_tokens | assumption | simp)+

section \<open>Types, variables and configurations\<close>

lemma reads_parse_subrange [reads_rules]:
  "reads j anything (parse_subrange a b e) (parse_subrange a b e)"
  unfolding parse_subrange_def
  by (rule reads_bind_any [OF reads_get] | (rule reads_seq_token, rule reads_tokens) | (rule reads_bind_token, rule reads_tokens) |
      (rule reads_map_token, rule reads_tokens) | (rule reads_seq_any, rule reads_errors) | rule reads_rules | rule reads_tokens |
      assumption | simp)+

lemma reads_parse_array_type [reads_rules]:
  "good_calls k c d \<Longrightarrow> j \<le> k \<Longrightarrow> reads j anything (parse_array_type c) (parse_array_type d)"
  unfolding parse_array_type_def
  by (rule reads_bind_any [OF reads_get] | (rule reads_seq_token, rule reads_tokens) | (rule reads_bind_token, rule reads_tokens) |
      (rule reads_map_token, rule reads_tokens) | (rule reads_seq_any, rule reads_errors) | rule reads_rules | rule reads_tokens |
      assumption | simp)+

lemma reads_optional_initial [reads_rules]:
  "good_calls k c d \<Longrightarrow> j \<le> Suc k \<Longrightarrow> reads j anything (optional_initial c) (optional_initial d)"
  unfolding optional_initial_def
  by (rule reads_bind_any [OF reads_get] | (rule reads_seq_token, rule reads_tokens) | (rule reads_bind_token, rule reads_tokens) |
      (rule reads_map_token, rule reads_tokens) | (rule reads_seq_any, rule reads_errors) | rule reads_rules | rule reads_tokens |
      assumption | simp)+

lemma reads_parse_struct_type [reads_rules]:
  "good_calls k c d \<Longrightarrow> j \<le> Suc k \<Longrightarrow> reads j anything (parse_struct_type c) (parse_struct_type d)"
  unfolding parse_struct_type_def
  by (rule reads_bind_any [OF reads_get] | (rule reads_seq_token, rule reads_tokens) | (rule reads_bind_token, rule reads_tokens) |
      (rule reads_map_token, rule reads_tokens) | (rule reads_seq_any, rule reads_errors) | rule reads_rules | rule reads_tokens |
      assumption | simp)+

lemma reads_parse_enum_type [reads_rules]:
  "good_calls k c d \<Longrightarrow> j \<le> Suc k \<Longrightarrow> reads j anything (parse_enum_type c) (parse_enum_type d)"
  unfolding parse_enum_type_def
  by (rule reads_bind_any [OF reads_get] | (rule reads_seq_token, rule reads_tokens) | (rule reads_bind_token, rule reads_tokens) |
      (rule reads_map_token, rule reads_tokens) | (rule reads_seq_any, rule reads_errors) | rule reads_rules | rule reads_tokens |
      assumption | simp)+

lemma reads_parse_named_type_tail [reads_rules]:
  "reads j anything (parse_named_type_tail name) (parse_named_type_tail name)"
  unfolding parse_named_type_tail_def Let_def
  by (rule reads_bind_any [OF reads_get] | (rule reads_seq_token, rule reads_tokens) | (rule reads_bind_token, rule reads_tokens) |
      (rule reads_map_token, rule reads_tokens) | (rule reads_seq_any, rule reads_errors) | rule reads_rules | rule reads_tokens |
      assumption | simp)+

lemma reads_parse_named_type [reads_rules]:
  "reads j anything parse_named_type parse_named_type"
  unfolding parse_named_type_def
  by (rule reads_bind_any [OF reads_get] | (rule reads_seq_token, rule reads_tokens) | (rule reads_bind_token, rule reads_tokens) |
      (rule reads_map_token, rule reads_tokens) | (rule reads_seq_any, rule reads_errors) | rule reads_rules | rule reads_tokens |
      assumption | simp)+

lemma reads_parse_type_spec [reads_rules]:
  "good_calls k c d \<Longrightarrow> j \<le> Suc k \<Longrightarrow> reads j anything (parse_type_spec c) (parse_type_spec d)"
  unfolding parse_type_spec_def
  by (rule reads_bind_any [OF reads_get] | (rule reads_seq_token, rule reads_tokens) | (rule reads_bind_token, rule reads_tokens) |
      (rule reads_map_token, rule reads_tokens) | (rule reads_seq_any, rule reads_errors) | rule reads_rules | rule reads_tokens |
      assumption | simp)+

lemma reads_parse_type_section [reads_rules]:
  "good_calls k c d \<Longrightarrow> j \<le> Suc k \<Longrightarrow> reads j anything (parse_type_section c) (parse_type_section d)"
  unfolding parse_type_section_def
  by (rule reads_bind_any [OF reads_get] | (rule reads_seq_token, rule reads_tokens) | (rule reads_bind_token, rule reads_tokens) |
      (rule reads_map_token, rule reads_tokens) | (rule reads_seq_any, rule reads_errors) | rule reads_rules | rule reads_tokens |
      assumption | simp)+

lemma reads_parse_location [reads_rules]:
  "reads j anything parse_location parse_location"
  unfolding parse_location_def
  by (rule reads_bind_any [OF reads_get] | (rule reads_seq_token, rule reads_tokens) | (rule reads_bind_token, rule reads_tokens) |
      (rule reads_map_token, rule reads_tokens) | (rule reads_seq_any, rule reads_errors) | rule reads_rules | rule reads_tokens |
      assumption | simp)+

lemma reads_parse_var_names [reads_tokens]:
  assumes "good_calls k c d" and "j \<le> Suc k"
  shows "reads j token_if_any (parse_var_names c) (parse_var_names d)"
  unfolding parse_var_names_def using assms
  by - (rule reads_loop_token [OF good_turns] | (rule reads_seq_token, rule reads_tokens) | rule reads_rules | assumption |
      simp add: Let_def)+

lemma reads_parse_edge [reads_rules]:
  "reads j anything parse_edge parse_edge"
  unfolding parse_edge_def
  by (rule reads_bind_any [OF reads_get] | (rule reads_seq_token, rule reads_tokens) | (rule reads_bind_token, rule reads_tokens) |
      (rule reads_map_token, rule reads_tokens) | (rule reads_seq_any, rule reads_errors) | rule reads_rules | rule reads_tokens |
      assumption | simp)+

lemma reads_parse_var_decl [reads_tokens]:
  "good_calls k c d \<Longrightarrow> j \<le> Suc k \<Longrightarrow> reads j token_if_any (parse_var_decl c) (parse_var_decl d)"
  unfolding parse_var_decl_def
  by (rule reads_bind_any [OF reads_get] | (rule reads_seq_token, rule reads_tokens) | (rule reads_bind_token, rule reads_tokens) |
      (rule reads_map_token, rule reads_tokens) | (rule reads_seq_any, rule reads_errors) | rule reads_rules | rule reads_tokens |
      assumption | simp)+

lemmas reads_parse_var_decl_any [reads_rules] = reads_parse_var_decl [THEN reads_any]

lemma reads_parse_access_direction [reads_rules]:
  "reads j anything parse_access_direction parse_access_direction"
  unfolding parse_access_direction_def
  by (rule reads_bind_any [OF reads_get] | (rule reads_seq_token, rule reads_tokens) | (rule reads_bind_token, rule reads_tokens) |
      (rule reads_map_token, rule reads_tokens) | (rule reads_seq_any, rule reads_errors) | rule reads_rules | rule reads_tokens |
      assumption | simp)+

lemma reads_parse_var_qualifiers [reads_rules]:
  "good_calls k c d \<Longrightarrow> j \<le> Suc k \<Longrightarrow> reads j anything (parse_var_qualifiers c) (parse_var_qualifiers d)"
  unfolding parse_var_qualifiers_def
  by (rule reads_bind_any [OF reads_get] | (rule reads_seq_token, rule reads_tokens) | (rule reads_bind_token, rule reads_tokens) |
      (rule reads_map_token, rule reads_tokens) | (rule reads_seq_any, rule reads_errors) | rule reads_rules | rule reads_tokens |
      assumption | simp)+

lemma reads_parse_access_type [reads_rules]:
  "good_calls k c d \<Longrightarrow> j \<le> Suc k \<Longrightarrow> reads j anything (parse_access_type c name path) (parse_access_type d name path)"
  unfolding parse_access_type_def
  by (rule reads_bind_any [OF reads_get] | (rule reads_seq_token, rule reads_tokens) | (rule reads_bind_token, rule reads_tokens) |
      (rule reads_map_token, rule reads_tokens) | (rule reads_seq_any, rule reads_errors) | rule reads_rules | rule reads_tokens |
      assumption | simp)+

lemma stays_parse_access_path:
  assumes "good_calls k c d" and "j \<le> Suc k"
  shows "stays j (\<lambda>_ ps. is_eof ps \<or> check_symbol SymColon ps) (parse_access_path c) (parse_access_path d)"
  unfolding parse_access_path_def
  by (rule stays_weaken, rule stays_while)
    (auto intro: good_turns [OF assms] intro!: reads_from_reads reads_bind_any reads_get reads_seq_token reads_advance reads_pret)

lemma reads_from_eof:
  assumes m: "reads j anything m m'" and A: "\<And>ps. A ps \<Longrightarrow> is_eof ps"
  shows "reads_from A j token_if_any m m'"
  unfolding reads_from_def
proof (intro allI impI)
  fix ps assume ps: "A ps \<and> parser_ok ps \<and> tokens_left ps < j"
  then have "tokens_left ps = 0"
    using A [of ps] eof_left [of ps] by simp
  moreover have "ends_well anything m m' ps"
    using m ps by (simp add: reads_iff)
  ultimately show "ends_well token_if_any m m' ps"
    by (cases "m ps") (simp_all add: ends_well_def)
qed

text \<open>A name, a colon or a token of the path is taken.\<close>

lemma reads_parse_access_decl [reads_tokens]:
  assumes good: "good_calls k c d" and "j \<le> Suc k"
  shows "reads j token_if_any (parse_access_decl c) (parse_access_decl d)"
proof -
  have path: "reads i anything (pbind (parse_access_path c) (parse_access_type c name))
      (pbind (parse_access_path d) (parse_access_type d name))" if "i \<le> Suc k" for i name
    by (rule reads_bind_any, rule stays_reads, rule stays_parse_access_path [OF good that])
      (rule reads_parse_access_type [OF good that])
  have "reads_from (\<lambda>ps. A ps \<and> \<not> check_symbol SymColon ps) j token_if_any
      (pbind (parse_access_path c) (parse_access_type c name)) (pbind (parse_access_path d) (parse_access_type d name))"
    if "stable A" for A name
  proof (rule reads_from_bind_stay [OF _ stays_parse_access_path [OF assms]])
    show "reads (j - 1) anything (parse_access_type c name path) (parse_access_type d name path)" for path
      using assms(2) by (intro reads_parse_access_type [OF good]) simp
    show "reads_from (\<lambda>ps. (A ps \<and> \<not> check_symbol SymColon ps) \<and> (is_eof ps \<or> check_symbol SymColon ps)) j token_if_any
        (parse_access_type c name path) (parse_access_type d name path)" for path
      by (rule reads_from_eof, rule reads_parse_access_type [OF assms]) auto
  qed (use that in auto)
  then have colon: "reads_from A j token_if_any
      (pseq (expect_symbol SymColon m) (pbind (parse_access_path c) (parse_access_type c name)))
      (pseq (expect_symbol SymColon m) (pbind (parse_access_path d) (parse_access_type d name)))"
    if "stable A" for A name m
    unfolding pseq_def using that path assms(2)
    by (intro reads_from_bind_stay [OF _ stays_expect_symbol]) auto
  show ?thesis
    unfolding parse_access_decl_def
    by (rule reads_from_all, rule reads_from_bind_stay [OF _ stays_name])
      (use colon path assms(2) in \<open>auto intro!: reads_seq_any reads_expect_symbol\<close>)
qed

lemma reads_parse_var_block [reads_tokens]:
  "good_calls k c d \<Longrightarrow> j \<le> Suc k \<Longrightarrow> reads j token_if_any (parse_var_block c) (parse_var_block d)"
  unfolding parse_var_block_def
  by (rule reads_bind_any [OF reads_get] | (rule reads_seq_token, rule reads_tokens) | (rule reads_bind_token, rule reads_tokens) |
      (rule reads_map_token, rule reads_tokens) | (rule reads_seq_any, rule reads_errors) | rule reads_rules | rule reads_tokens |
      assumption | simp)+

lemmas reads_parse_var_block_any [reads_rules] = reads_parse_var_block [THEN reads_any]

lemma before_eof_var_block [simp]: "before_eof is_var_block_start"
  by (auto simp: before_eof_def is_var_block_start_def bind_eq_Some_conv dest: not_eof_tests(4))

lemma reads_parse_var_blocks [reads_rules]:
  "good_calls k c d \<Longrightarrow> j \<le> Suc k \<Longrightarrow> reads j anything (parse_var_blocks c) (parse_var_blocks d)"
  unfolding parse_var_blocks_def
  by (rule reads_bind_any [OF reads_get] | (rule reads_seq_token, rule reads_tokens) | (rule reads_bind_token, rule reads_tokens) |
      (rule reads_map_token, rule reads_tokens) | (rule reads_seq_any, rule reads_errors) | rule reads_rules | rule reads_tokens |
      assumption | simp)+

lemma reads_parse_task_parameters [reads_rules]:
  "good_calls k c d \<Longrightarrow> j \<le> Suc k \<Longrightarrow> reads j anything (parse_task_parameters c t) (parse_task_parameters d t)"
  unfolding parse_task_parameters_def
  by (rule reads_bind_any [OF reads_get] | (rule reads_seq_token, rule reads_tokens) | (rule reads_bind_token, rule reads_tokens) |
      (rule reads_map_token, rule reads_tokens) | (rule reads_seq_any, rule reads_errors) | rule reads_rules | rule reads_tokens |
      assumption | simp)+

lemma reads_parse_task [reads_rules]:
  "good_calls k c d \<Longrightarrow> j \<le> Suc k \<Longrightarrow> reads j anything (parse_task c) (parse_task d)"
  unfolding parse_task_def Let_def
  by (rule reads_bind_any [OF reads_get] | (rule reads_seq_token, rule reads_tokens) | (rule reads_bind_token, rule reads_tokens) |
      (rule reads_map_token, rule reads_tokens) | (rule reads_seq_any, rule reads_errors) | rule reads_rules | rule reads_tokens |
      assumption | simp)+

lemma reads_parse_program_instance [reads_rules]:
  "good_calls k c d \<Longrightarrow> j \<le> Suc k \<Longrightarrow> reads j anything (parse_program_instance c) (parse_program_instance d)"
  unfolding parse_program_instance_def
  by (rule reads_bind_any [OF reads_get] | (rule reads_seq_token, rule reads_tokens) | (rule reads_bind_token, rule reads_tokens) |
      (rule reads_map_token, rule reads_tokens) | (rule reads_seq_any, rule reads_errors) | rule reads_rules | rule reads_tokens |
      assumption | simp)+

lemma reads_parse_resource_item [reads_tokens]:
  "good_calls k c d \<Longrightarrow> j \<le> Suc k \<Longrightarrow> reads j token_if_any (parse_resource_item c r) (parse_resource_item d r)"
  unfolding parse_resource_item_def
  by (rule reads_bind_any [OF reads_get] | (rule reads_seq_token, rule reads_tokens) | (rule reads_bind_token, rule reads_tokens) |
      (rule reads_map_token, rule reads_tokens) | (rule reads_seq_any, rule reads_errors) | rule reads_rules | rule reads_tokens |
      assumption | simp)+

lemmas reads_parse_resource_item_any [reads_rules] = reads_parse_resource_item [THEN reads_any]

lemma reads_parse_resource [reads_rules]:
  "good_calls k c d \<Longrightarrow> j \<le> Suc k \<Longrightarrow> reads j anything (parse_resource c) (parse_resource d)"
  unfolding parse_resource_def
  by (rule reads_bind_any [OF reads_get] | (rule reads_seq_token, rule reads_tokens) | (rule reads_bind_token, rule reads_tokens) |
      (rule reads_map_token, rule reads_tokens) | (rule reads_seq_any, rule reads_errors) | rule reads_rules | rule reads_tokens |
      assumption | simp)+

lemma reads_parse_configuration_item [reads_tokens]:
  "good_calls k c d \<Longrightarrow> j \<le> Suc k \<Longrightarrow> reads j token_if_any (parse_configuration_item c conf) (parse_configuration_item d conf)"
  unfolding parse_configuration_item_def
  by (rule reads_bind_any [OF reads_get] | (rule reads_seq_token, rule reads_tokens) | (rule reads_bind_token, rule reads_tokens) |
      (rule reads_map_token, rule reads_tokens) | (rule reads_seq_any, rule reads_errors) | rule reads_rules | rule reads_tokens |
      assumption | simp)+

lemmas reads_parse_configuration_item_any [reads_rules] = reads_parse_configuration_item [THEN reads_any]

lemma reads_parse_configuration [reads_rules]:
  "good_calls k c d \<Longrightarrow> j \<le> Suc k \<Longrightarrow> reads j anything (parse_configuration c) (parse_configuration d)"
  unfolding parse_configuration_def
  by (rule reads_bind_any [OF reads_get] | (rule reads_seq_token, rule reads_tokens) | (rule reads_bind_token, rule reads_tokens) |
      (rule reads_map_token, rule reads_tokens) | (rule reads_seq_any, rule reads_errors) | rule reads_rules | rule reads_tokens |
      assumption | simp)+

end
