(* ===== verification/SynChartEnds.thy ===== *)
theory SynChartEnds
  imports SynEnds
begin

text \<open>
  Ladder and function block diagrams, sequential function charts, program organisation units
  and whole projects end as well.
\<close>

section \<open>Networks\<close>

lemma reads_any_keyword: "reads j (\<lambda>_ b. b) (match_any_keyword ks) (match_any_keyword ks)"
  by (induction ks) (auto intro!: reads_pret reads_bind_match)

lemma reads_bind_any_keyword [reads_rules]:
  assumes "reads (j - 1) anything (f True) (f' True)" and "reads j Q (f False) (f' False)"
  shows "reads j Q (pbind (match_any_keyword ks) f) (pbind (match_any_keyword ks) f')"
  by (rule reads_bind [OF reads_any_keyword]) (use assms in auto)

lemma stays_any_keyword [stays_rules]:
  "stays j (\<lambda>b ps. \<not> check_any_keyword ks ps) (match_any_keyword ks) (match_any_keyword ks)"
proof (induction ks)
  case (Cons keyword ks)
  have "stays j (\<lambda>b ps. \<exists>x. (\<not> x \<and> \<not> check_keyword keyword ps) \<and> (if x then True else \<not> check_any_keyword ks ps))
      (match_any_keyword (keyword # ks)) (match_any_keyword (keyword # ks))"
    unfolding match_any_keyword.simps
    by (rule stays_bind, rule stays_match, rule stays_if, rule stays_weaken, rule stays_pret)
      (use Cons in \<open>auto simp: stable_def same_place_def\<close>)
  then show ?case
    by (rule stays_weaken) (auto simp: check_any_keyword_def)
qed (simp, rule stays_weaken, rule stays_pret, simp add: check_any_keyword_def)

lemma stays_advance [stays_rules]: "stays j (\<lambda>_. is_eof) p_advance p_advance"
  unfolding stays_def
proof (intro conjI allI impI)
  show "tokens_left ps' < tokens_left ps \<or> same_place ps ps' \<and> is_eof ps"
    if "parser_ok ps \<and> tokens_left ps < j \<and> p_advance ps = Parsed x ps'" for ps x ps'
    using that readsD(4) [OF reads_advance, of ps j x ps'] eof_left [of ps] by (auto simp: p_advance_def pmodify_def)
qed (rule reads_advance_any)

lemma stays_network_label [stays_rules]:
  "stays j (\<lambda>_ _. True) parse_optional_network_label parse_optional_network_label"
proof -
  have taken: "stays j (\<lambda>_ _. True)
      (pseq p_advance (pseq (expect_symbol SymColon message) (pret label)))
      (pseq p_advance (pseq (expect_symbol SymColon message) (pret label)))" for message and label :: "string option"
    by (rule stays_weaken, rule stays_seq, rule stays_advance, rule stays_seq, rule stays_expect_symbol, rule stays_pret) auto
  have none: "stays j (\<lambda>_ _. True) (pret None) (pret None)" for label :: "string option"
    by (rule stays_weaken, rule stays_pret) simp
  have choice: "stays j (\<lambda>_ _. True)
      (case found of None \<Rightarrow> pret None | Some label \<Rightarrow> if colon then pseq p_advance
         (pseq (expect_symbol SymColon message) (pret (Some (original label)))) else pret None)
      (case found of None \<Rightarrow> pret None | Some label \<Rightarrow> if colon then pseq p_advance
         (pseq (expect_symbol SymColon message) (pret (Some (original label)))) else pret None)" for found colon message
    using taken none by (auto split: option.splits)
  show ?thesis
    unfolding parse_optional_network_label_def
    by (rule stays_weaken, rule stays_bind, rule stays_get, rule stays_bind, rule stays_get, rule choice) auto
qed

lemmas reads_network_label [reads_rules] = stays_network_label [THEN stays_reads]

lemma stays_label_after [stays_rules]:
  "stays j (\<lambda>_ _. True) (network_label_after ks) (network_label_after ks)"
  unfolding network_label_after_def
  by (rule stays_weaken, rule stays_bind, rule stays_any_keyword, rule stays_if, rule stays_network_label, rule stays_pret)
    (auto simp: stable_def same_place_def)

lemmas reads_label_after [reads_rules] = stays_label_after [THEN stays_reads]

lemma stays_end_of_network [stays_rules]:
  "stays j (\<lambda>_ ps. \<not> check_any_keyword ks ps) (end_of_network ks) (end_of_network ks)"
  unfolding end_of_network_def
  by (rule stays_weaken, rule stays_bind, rule stays_any_keyword, rule stays_if, rule stays_map, rule stays_match, rule stays_pret)
    (auto simp: stable_def same_place_def check_symbol_def)

lemmas reads_end_of_network [reads_rules] = stays_end_of_network [THEN stays_reads]

text \<open>One network: what comes after its label stops at an end keyword only, and then that
  keyword is taken.\<close>

lemma reads_network_turn:
  assumes network: "\<And>label. stays j (\<lambda>_ ps. is_eof ps \<or> check_any_keyword (ends @ [keyword]) ps) (m label) (m' label)"
  shows "reads_from (\<lambda>ps. \<not> is_eof ps \<and> \<not> check_keyword keyword ps) j token_if_any
      (pbind (match_symbol SymSemicolon) (\<lambda>empty. if empty then pret acc
         else pbind (network_label_after starts) (\<lambda>label. pbind (m label) (\<lambda>x. pseq (end_of_network ends) (pret (f label x))))))
      (pbind (match_symbol SymSemicolon) (\<lambda>empty. if empty then pret acc
         else pbind (network_label_after starts) (\<lambda>label. pbind (m' label) (\<lambda>x. pseq (end_of_network ends) (pret (f label x))))))"
proof -
  note m = stays_reads [OF network]
  have m1: "reads (j - 1) anything (m label) (m' label)" for label
    using m by (rule reads_weaken) simp_all
  have rest: "reads i anything (pseq (end_of_network ends) (pret (f label x))) (pseq (end_of_network ends) (pret (f label x)))"
    for i label x by (rule reads_rules | simp)+
  have net: "reads_from A j token_if_any
      (pbind (m label) (\<lambda>x. pseq (end_of_network ends) (pret (f label x))))
      (pbind (m' label) (\<lambda>x. pseq (end_of_network ends) (pret (f label x))))"
    if A: "stable A" "\<And>ps. A ps \<Longrightarrow> \<not> is_eof ps \<and> \<not> check_keyword keyword ps" for A label
  proof (rule reads_from_bind_stay [OF A(1) network rest])
    show "reads_from (\<lambda>ps. A ps \<and> (is_eof ps \<or> check_any_keyword (ends @ [keyword]) ps)) j token_if_any
        (pseq (end_of_network ends) (pret (f label x))) (pseq (end_of_network ends) (pret (f label x)))" for x
      by (rule reads_from_stay_token, rule stays_seq, rule stays_end_of_network, rule stays_pret)
        (use A in \<open>auto simp: stable_def same_place_def check_any_keyword_def\<close>)
  qed simp
  have labels: "reads_from A j token_if_any
      (pbind (network_label_after starts) (\<lambda>label. pbind (m label) (\<lambda>x. pseq (end_of_network ends) (pret (f label x)))))
      (pbind (network_label_after starts) (\<lambda>label. pbind (m' label) (\<lambda>x. pseq (end_of_network ends) (pret (f label x)))))"
    if "stable A" "\<And>ps. A ps \<Longrightarrow> \<not> is_eof ps \<and> \<not> check_keyword keyword ps" for A
    by (rule reads_from_bind_stay [OF that(1) stays_label_after reads_bind_any [OF m1 rest]]) (use net that in auto)
  show ?thesis
    by (rule reads_from_bind_stay [OF _ stays_match(1)])
      (use m1 rest in \<open>auto intro!: labels reads_pret reads_bind_any reads_label_after simp: reads_from_def [where A = "\<lambda>_. False"]\<close>)
qed

lemma before_eof_and [simp]: "before_eof (\<lambda>ps. \<not> is_eof ps \<and> \<not> check_keyword keyword ps)"
  by simp

section \<open>Ladder diagrams\<close>

lemma reads_ladder_contact [reads_rules]:
  "good_calls k c d \<Longrightarrow> j \<le> Suc k \<Longrightarrow> reads j anything (ladder_contact c negated rung) (ladder_contact d negated rung)"
  unfolding ladder_contact_def Let_def
  by (rule reads_bind_any [OF reads_get] | (rule reads_seq_token, rule reads_tokens) | (rule reads_bind_token, rule reads_tokens) |
      (rule reads_map_token, rule reads_tokens) | (rule reads_seq_any, rule reads_errors) | rule reads_rules | rule reads_tokens |
      assumption | simp)+

lemma reads_ladder_coil [reads_rules]:
  "good_calls k c d \<Longrightarrow> j \<le> Suc k \<Longrightarrow> reads j anything (ladder_coil c rung) (ladder_coil d rung)"
  unfolding ladder_coil_def Let_def
  by (rule reads_bind_any [OF reads_get] | (rule reads_seq_token, rule reads_tokens) | (rule reads_bind_token, rule reads_tokens) |
      (rule reads_map_token, rule reads_tokens) | (rule reads_seq_any, rule reads_errors) | rule reads_rules | rule reads_tokens |
      assumption | simp)+

lemma reads_ladder_latch [reads_rules]:
  "good_calls k c d \<Longrightarrow> j \<le> Suc k \<Longrightarrow> reads j anything (ladder_latch c rung) (ladder_latch d rung)"
  unfolding ladder_latch_def Let_def
  by (rule reads_bind_any [OF reads_get] | (rule reads_seq_token, rule reads_tokens) | (rule reads_bind_token, rule reads_tokens) |
      (rule reads_map_token, rule reads_tokens) | (rule reads_seq_any, rule reads_errors) | rule reads_rules | rule reads_tokens |
      assumption | simp)+

lemma reads_sync_statement [reads_tokens]:
  "good_calls k c d \<Longrightarrow> j \<le> Suc k \<Longrightarrow> reads j token_if_any (synchronize_to_semicolon c) (synchronize_to_semicolon d)"
  by (rule reads_sync_semicolon) (auto dest: good_turns)

lemma reads_unsupported_ladder_element [reads_tokens]:
  "good_calls k c d \<Longrightarrow> j \<le> Suc k \<Longrightarrow> reads j token_if_any (unsupported_ladder_element c rung) (unsupported_ladder_element d rung)"
  unfolding unsupported_ladder_element_def
  by (rule reads_bind_any [OF reads_get] | (rule reads_seq_token, rule reads_tokens) | (rule reads_bind_token, rule reads_tokens) |
      (rule reads_map_token, rule reads_tokens) | (rule reads_seq_any, rule reads_errors) | rule reads_rules | rule reads_tokens |
      assumption | simp)+

lemmas reads_unsupported_ladder_element_any [reads_rules] = reads_unsupported_ladder_element [THEN reads_any]

lemma reads_ladder_element [reads_tokens]:
  "good_calls k c d \<Longrightarrow> j \<le> Suc k \<Longrightarrow> reads j token_if_any (ladder_element c rung) (ladder_element d rung)"
  unfolding ladder_element_def
  by (rule reads_bind_any [OF reads_get] | (rule reads_seq_token, rule reads_tokens) | (rule reads_bind_token, rule reads_tokens) |
      (rule reads_map_token, rule reads_tokens) | (rule reads_seq_any, rule reads_errors) | rule reads_rules | rule reads_tokens |
      assumption | simp)+

lemmas reads_ladder_element_any [reads_rules] = reads_ladder_element [THEN reads_any]

lemma stays_rung:
  assumes "good_calls k c d" and "j \<le> Suc k"
  shows "stays j (\<lambda>_ ps. is_eof ps \<or> check_any_keyword stops ps) (parse_textual_ladder_rung c stops)
      (parse_textual_ladder_rung d stops)"
  unfolding parse_textual_ladder_rung_def
  by (rule stays_weaken, rule stays_bind, rule stays_network_label, rule stays_while [OF good_turns])
    (use assms in \<open>auto intro: reads_from_reads reads_ladder_element\<close>)

lemma reads_ladder_rungs [reads_rules]:
  assumes "good_calls k c d" and "j \<le> Suc k"
  shows "reads j anything (ladder_rungs c end_keyword add start) (ladder_rungs d end_keyword add start)"
proof -
  have "reads_from (\<lambda>ps. \<not> is_eof ps \<and> \<not> check_keyword end_keyword ps) j token_if_any
      (ladder_rungs_turn c end_keyword add acc) (ladder_rungs_turn d end_keyword add acc)" for acc
    unfolding ladder_rungs_turn_def
    by (rule reads_network_turn) (use stays_rung [OF assms] in simp)
  then show ?thesis
    unfolding ladder_rungs_def
    by - (rule reads_bind_any reads_while_from [OF assms] before_eof_and reads_rules | simp)+
qed

lemma reads_parse_textual_ladder_body [reads_rules]:
  "good_calls k c d \<Longrightarrow> j \<le> Suc k \<Longrightarrow> reads j anything (parse_textual_ladder_body c end_keyword) (parse_textual_ladder_body d end_keyword)"
  unfolding parse_textual_ladder_body_def
  by (rule reads_bind_any [OF reads_get] | (rule reads_seq_token, rule reads_tokens) | (rule reads_bind_token, rule reads_tokens) |
      (rule reads_map_token, rule reads_tokens) | (rule reads_seq_any, rule reads_errors) | rule reads_rules | rule reads_tokens |
      assumption | simp)+

lemma reads_parse_textual_ladder_transition_condition [reads_rules]:
  "good_calls k c d \<Longrightarrow> j \<le> Suc k \<Longrightarrow> reads j anything (parse_textual_ladder_transition_condition c end_keyword) (parse_textual_ladder_transition_condition d end_keyword)"
  unfolding parse_textual_ladder_transition_condition_def
  by (rule reads_bind_any [OF reads_get] | (rule reads_seq_token, rule reads_tokens) | (rule reads_bind_token, rule reads_tokens) |
      (rule reads_map_token, rule reads_tokens) | (rule reads_seq_any, rule reads_errors) | rule reads_rules | rule reads_tokens |
      assumption | simp)+

section \<open>Function block diagrams\<close>

lemma reads_fbd_output [reads_rules]:
  "good_calls k c d \<Longrightarrow> j \<le> Suc k \<Longrightarrow> reads j anything (fbd_output c network) (fbd_output d network)"
  unfolding fbd_output_def
  by (rule reads_bind_any [OF reads_get] | (rule reads_seq_token, rule reads_tokens) | (rule reads_bind_token, rule reads_tokens) |
      (rule reads_map_token, rule reads_tokens) | (rule reads_seq_any, rule reads_errors) | rule reads_rules | rule reads_tokens |
      assumption | simp)+

lemma reads_fbd_element [reads_tokens]:
  "good_calls k c d \<Longrightarrow> j \<le> Suc k \<Longrightarrow> reads j token_if_any (fbd_element c network) (fbd_element d network)"
  unfolding fbd_element_def
  by (rule reads_bind_any [OF reads_get] | (rule reads_seq_token, rule reads_tokens) | (rule reads_bind_token, rule reads_tokens) |
      (rule reads_map_token, rule reads_tokens) | (rule reads_seq_any, rule reads_errors) | rule reads_rules | rule reads_tokens |
      assumption | simp)+

lemmas reads_fbd_element_any [reads_rules] = reads_fbd_element [THEN reads_any]

lemma stays_fbd_network:
  assumes "good_calls k c d" and "j \<le> Suc k"
  shows "stays j (\<lambda>_ ps. is_eof ps \<or> check_any_keyword stops ps) (parse_textual_fbd_network c stops)
      (parse_textual_fbd_network d stops)"
  unfolding parse_textual_fbd_network_def
  by (rule stays_weaken, rule stays_bind, rule stays_network_label, rule stays_map, rule stays_while [OF good_turns])
    (use assms in \<open>auto intro: reads_from_reads reads_fbd_element\<close>)

lemma reads_fbd_networks:
  assumes "good_calls k c d" and "j \<le> Suc k"
    and "\<And>label acc. stays j (\<lambda>_ ps. is_eof ps \<or> check_any_keyword [''END_NETWORK'', end_keyword] ps) (network label acc) (network' label acc)"
  shows "reads j anything (fbd_networks c end_keyword network start) (fbd_networks d end_keyword network' start)"
proof -
  have "reads_from (\<lambda>ps. \<not> is_eof ps \<and> \<not> check_keyword end_keyword ps) j token_if_any
      (fbd_networks_turn network acc) (fbd_networks_turn network' acc)" for acc
    unfolding fbd_networks_turn_def
    by (rule reads_network_turn) (use assms(3) in simp)
  then show ?thesis
    unfolding fbd_networks_def
    by - (rule reads_bind_any reads_while_from [OF assms(1,2)] before_eof_and reads_rules | simp)+
qed

lemma reads_parse_textual_fbd_body [reads_rules]:
  assumes "good_calls k c d" and "j \<le> Suc k"
  shows "reads j anything (parse_textual_fbd_body c end_keyword) (parse_textual_fbd_body d end_keyword)"
  unfolding parse_textual_fbd_body_def
  by (rule reads_map_any, rule reads_fbd_networks [OF assms])
    (auto split: prod.splits intro: stays_weaken [OF stays_map [OF stays_fbd_network [OF assms]]])

lemma reads_fbd_condition [reads_tokens]:
  "good_calls k c d \<Longrightarrow> j \<le> Suc k \<Longrightarrow> reads j token_if_any (fbd_condition c conditions) (fbd_condition d conditions)"
  unfolding fbd_condition_def
  by (rule reads_bind_any [OF reads_get] | (rule reads_seq_token, rule reads_tokens) | (rule reads_bind_token, rule reads_tokens) |
      (rule reads_map_token, rule reads_tokens) | (rule reads_seq_any, rule reads_errors) | rule reads_rules | rule reads_tokens |
      assumption | simp)+

lemmas reads_fbd_condition_any [reads_rules] = reads_fbd_condition [THEN reads_any]

lemma reads_parse_textual_fbd_transition_condition [reads_rules]:
  assumes "good_calls k c d" and "j \<le> Suc k"
  shows "reads j anything (parse_textual_fbd_transition_condition c end_keyword)
      (parse_textual_fbd_transition_condition d end_keyword)"
  unfolding parse_textual_fbd_transition_condition_def
  by (rule reads_map_any, rule reads_fbd_networks [OF assms], rule stays_weaken, rule stays_while [OF good_turns])
    (use assms in \<open>auto intro: reads_from_reads reads_fbd_condition\<close>)

section \<open>Sequential function charts\<close>

lemma reads_parse_qualifier_name [reads_rules]:
  "reads j anything parse_qualifier_name parse_qualifier_name"
  unfolding parse_qualifier_name_def
  by (rule reads_bind_any [OF reads_get] | (rule reads_seq_token, rule reads_tokens) | (rule reads_bind_token, rule reads_tokens) |
      (rule reads_map_token, rule reads_tokens) | (rule reads_seq_any, rule reads_errors) | rule reads_rules | rule reads_tokens |
      assumption | simp)+

lemma reads_parse_qualifier_duration [reads_rules]:
  assumes "good_calls k c d" and "j \<le> Suc k"
  shows "reads j anything (parse_qualifier_duration c) (parse_qualifier_duration d)"
proof -
  have "reads i anything
      (case e of LiteralE l \<Rightarrow> pret (Some l) | _ \<Rightarrow> pseq (error_before message) (pret None))
      (case e of LiteralE l \<Rightarrow> pret (Some l) | _ \<Rightarrow> pseq (error_before message) (pret None))" for i e message
    by (cases e) (auto intro!: reads_pret reads_seq_any reads_errors_here)
  then show ?thesis
    unfolding parse_qualifier_duration_def using assms
    by - (rule reads_rules | assumption | simp)+
qed

lemma reads_parse_sfc_action_qualifier [reads_rules]:
  "good_calls k c d \<Longrightarrow> j \<le> Suc k \<Longrightarrow> reads j anything (parse_sfc_action_qualifier c) (parse_sfc_action_qualifier d)"
  unfolding parse_sfc_action_qualifier_def
  by (rule reads_bind_any [OF reads_get] | (rule reads_seq_token, rule reads_tokens) | (rule reads_bind_token, rule reads_tokens) |
      (rule reads_map_token, rule reads_tokens) | (rule reads_seq_any, rule reads_errors) | rule reads_rules | rule reads_tokens |
      assumption | simp)+

lemma reads_name_or_expect [reads_rules]:
  "reads j anything (name_or_expect labeled message) (name_or_expect labeled message)"
  unfolding name_or_expect_def
  by (rule reads_bind_any [OF reads_get] | (rule reads_seq_token, rule reads_tokens) | (rule reads_bind_token, rule reads_tokens) |
      (rule reads_map_token, rule reads_tokens) | (rule reads_seq_any, rule reads_errors) | rule reads_rules | rule reads_tokens |
      assumption | simp)+

lemma reads_parse_sfc_action [reads_rules]:
  "good_calls k c d \<Longrightarrow> j \<le> Suc k \<Longrightarrow> reads j anything (parse_sfc_action c labeled) (parse_sfc_action d labeled)"
  unfolding parse_sfc_action_def
  by (rule reads_bind_any [OF reads_get] | (rule reads_seq_token, rule reads_tokens) | (rule reads_bind_token, rule reads_tokens) |
      (rule reads_map_token, rule reads_tokens) | (rule reads_seq_any, rule reads_errors) | rule reads_rules | rule reads_tokens |
      assumption | simp)+

text \<open>An operation that has taken nothing is followed by an advance.\<close>

lemma reads_unstuck:
  assumes m: "reads j anything m m'"
  shows "reads j token_if_any
     (pbind (pget ps_pos) (\<lambda>start. pbind m (\<lambda>x. pbind (pget (\<lambda>ps. ps_pos ps = start \<and> \<not> is_eof ps)) (\<lambda>stuck.
        pseq (if stuck then p_advance else pret ()) (pret x)))))
     (pbind (pget ps_pos) (\<lambda>start. pbind m' (\<lambda>x. pbind (pget (\<lambda>ps. ps_pos ps = start \<and> \<not> is_eof ps)) (\<lambda>stuck.
        pseq (if stuck then p_advance else pret ()) (pret x)))))"
    (is "reads j token_if_any ?loop ?loop'")
  unfolding reads_iff
proof (intro allI impI)
  fix ps assume ok: "parser_ok ps \<and> tokens_left ps < j"
  note m' = readsD [OF m conjunct1 [OF ok] conjunct2 [OF ok]]
  show "ends_well token_if_any ?loop ?loop' ps"
  proof (cases "m ps")
    case (Parsed x ps1)
    note ps1 = m'(4) [OF Parsed]
    show ?thesis
    proof (cases "ps_pos ps1 = ps_pos ps \<and> \<not> is_eof ps1")
      case True
      obtain ps2 where "p_advance ps1 = Parsed () ps2" "parser_ok ps2" "same_input ps1 ps2" "tokens_left ps2 < tokens_left ps1"
        using readsD(4) [OF reads_advance, of ps1 "Suc (tokens_left ps1)"] ps1 True eof_left [of ps1]
        by (auto simp: p_advance_def pmodify_def)
      then show ?thesis
        using m'(1) Parsed ps1 True same_input_trans [of ps ps1 ps2]
        by (auto simp: ends_well_def pbind_def pget_def pseq_def pret_def)
    next
      case False
      have "0 < tokens_left ps \<Longrightarrow> tokens_left ps1 < tokens_left ps"
        using False ps1 ok eof_left [of ps1] by (auto simp: tokens_left_def same_input_def parser_ok_def)
      then show ?thesis
        using m'(1) Parsed ps1 False by (auto simp: ends_well_def pbind_def pget_def pseq_def pret_def)
    qed
  qed (use m' in \<open>simp_all add: ends_well_def pbind_def pget_def\<close>)
qed

lemma pbind_assoc: "pbind m (\<lambda>x. pbind (f x) g) = pbind (pbind m f) g"
  by (simp add: fun_eq_iff pbind_def split: parsed.splits)

lemma reads_parse_sfc_action_association [reads_tokens]:
  assumes "good_calls k c d" and "j \<le> Suc k"
  shows "reads j token_if_any (parse_sfc_action_association c actions) (parse_sfc_action_association d actions)"
  unfolding parse_sfc_action_association_def
  unfolding pbind_assoc [of "expect_identifier _"] using assms
  by - (rule reads_unstuck, (rule reads_rules | assumption | simp)+)

lemmas reads_association_any [reads_rules] = reads_parse_sfc_action_association [THEN reads_any]

lemma reads_parse_sfc_action_associations [reads_rules]:
  "good_calls k c d \<Longrightarrow> j \<le> Suc k \<Longrightarrow> reads j anything (parse_sfc_action_associations c) (parse_sfc_action_associations d)"
  unfolding parse_sfc_action_associations_def
  by (rule reads_bind_any [OF reads_get] | (rule reads_seq_token, rule reads_tokens) | (rule reads_bind_token, rule reads_tokens) |
      (rule reads_map_token, rule reads_tokens) | (rule reads_seq_any, rule reads_errors) | rule reads_rules | rule reads_tokens |
      assumption | simp)+

lemma reads_parse_sfc_step [reads_rules]:
  "good_calls k c d \<Longrightarrow> j \<le> Suc k \<Longrightarrow> reads j anything (parse_sfc_step c initial labeled) (parse_sfc_step d initial labeled)"
  unfolding parse_sfc_step_def
  by (rule reads_bind_any [OF reads_get] | (rule reads_seq_token, rule reads_tokens) | (rule reads_bind_token, rule reads_tokens) |
      (rule reads_map_token, rule reads_tokens) | (rule reads_seq_any, rule reads_errors) | rule reads_rules | rule reads_tokens |
      assumption | simp)+

lemma reads_parse_sfc_step_list [reads_rules]:
  "good_calls k c d \<Longrightarrow> j \<le> Suc k \<Longrightarrow> reads j anything (parse_sfc_step_list c message) (parse_sfc_step_list d message)"
  unfolding parse_sfc_step_list_def Let_def
  by (rule reads_bind_any [OF reads_get] | (rule reads_seq_token, rule reads_tokens) | (rule reads_bind_token, rule reads_tokens) |
      (rule reads_map_token, rule reads_tokens) | (rule reads_seq_any, rule reads_errors) | rule reads_rules | rule reads_tokens |
      assumption | simp)+

lemma reads_test_more:
  assumes "before_eof P" and m: "reads j (\<lambda>more x. more \<and> Q more x) m m'" and n: "reads j Q n n'"
  shows "reads j Q (pbind (pget P) (\<lambda>go. if \<not> go then n else m)) (pbind (pget P) (\<lambda>go. if \<not> go then n' else m'))"
proof (rule reads_get_facts, rule reads_from_if)
  show "reads_from (\<lambda>ps. P ps = go) j Q m m'" if "\<not> \<not> go" for go
    unfolding reads_from_def
  proof (intro allI impI)
    fix ps assume ps: "P ps = go \<and> parser_ok ps \<and> tokens_left ps < j"
    then have "0 < tokens_left ps"
      using that assms(1) eof_left [of ps] by (auto simp: before_eof_def)
    then show "ends_well Q m m' ps"
      using m [unfolded reads_iff, rule_format, of ps] ps by (cases "m ps") (simp_all add: ends_well_def)
  qed
qed (rule reads_from_reads [OF n])

lemma pmap_seq: "pmap f (pseq m n) = pseq m (pmap f n)"
  by (simp add: fun_eq_iff pmap_def pseq_def pbind_def split: parsed.splits)

lemma reads_transition_turn:
  assumes "good_calls k c d" and "j \<le> Suc k"
  shows "reads j (\<lambda>_ r. isl r) (transition_body_turn c accumulator) (transition_body_turn d accumulator)"
proof -
  let ?Q = "\<lambda>more (r :: expr option + expr option). more \<and> isl r"
  let ?step = "\<lambda>c t v. pmap Inl (il_fold_step c (\<lambda>ps. at_transition_end ps \<or> check_symbol SymSemicolon ps) parse_il_operand t v accumulator)"
  let ?expression = "\<lambda>c. pbind line_end_here (\<lambda>stop. pbind (parse_expression_until stop (parse_expression c)) (\<lambda>e.
      pseq (match_symbol SymSemicolon) (pret (Inl (Some e)))))"
  have step: "reads_from (\<lambda>ps. current_il_op ps = Some v) j Q (?step c t v) (?step d t v)" for Q t v
    unfolding il_fold_step_def pmap_seq using assms
    by - (rule reads_from_advance [OF current_il_op_eof] | rule reads_rules | assumption | simp)+
  have expression: "reads j ?Q (?expression c) (?expression d)"
    by (rule reads_weaken [where P = token_if_any], rule reads_bind_any, rule reads_line_end, rule reads_bind_token,
        rule reads_until, rule reads_parse_expression [OF assms]) (auto intro!: reads_seq_any reads_match_any reads_pret)
  show ?thesis
    unfolding transition_body_turn_def
    using assms
    by - (rule reads_test_more | rule reads_bind_match(1) | rule reads_from_get | rule reads_get_facts |
        rule reads_from_option | rule step [THEN reads_from_weaken] | rule reads_from_reads | rule expression |
        rule reads_rules | assumption | simp)+
qed

lemma reads_parse_sfc_transition_body_condition [reads_rules]:
  "good_calls k c d \<Longrightarrow> j \<le> Suc k \<Longrightarrow>
   reads j anything (parse_sfc_transition_body_condition c) (parse_sfc_transition_body_condition d)"
  unfolding parse_sfc_transition_body_condition_def
  by (rule reads_loop [OF good_turns] reads_transition_turn reads_rules | assumption | simp)+

lemma reads_transition_name [reads_rules]:
  "reads j anything (transition_name prefixed) (transition_name prefixed)"
  unfolding transition_name_def
  by (rule reads_bind_any [OF reads_get] | (rule reads_seq_token, rule reads_tokens) | (rule reads_bind_token, rule reads_tokens) |
      (rule reads_map_token, rule reads_tokens) | (rule reads_seq_any, rule reads_errors) | rule reads_rules | rule reads_tokens |
      assumption | simp)+

lemma reads_transition_priority [reads_rules]:
  "good_calls k c d \<Longrightarrow> j \<le> Suc k \<Longrightarrow> reads j anything (transition_priority c) (transition_priority d)"
  unfolding transition_priority_def
  by (rule reads_bind_any [OF reads_get] | (rule reads_seq_token, rule reads_tokens) | (rule reads_bind_token, rule reads_tokens) |
      (rule reads_map_token, rule reads_tokens) | (rule reads_seq_any, rule reads_errors) | rule reads_rules | rule reads_tokens |
      assumption | simp)+

lemma reads_transition_condition [reads_rules]:
  "good_calls k c d \<Longrightarrow> j \<le> Suc k \<Longrightarrow> reads j anything (transition_condition c) (transition_condition d)"
  unfolding transition_condition_def
  by (rule reads_bind_any [OF reads_get] | (rule reads_seq_token, rule reads_tokens) | (rule reads_bind_token, rule reads_tokens) |
      (rule reads_map_token, rule reads_tokens) | (rule reads_seq_any, rule reads_errors) | rule reads_rules | rule reads_tokens |
      assumption | simp)+

lemma reads_parse_sfc_transition [reads_rules]:
  "good_calls k c d \<Longrightarrow> j \<le> Suc k \<Longrightarrow> reads j anything (parse_sfc_transition c prefixed) (parse_sfc_transition d prefixed)"
  unfolding parse_sfc_transition_def
  by (rule reads_bind_any [OF reads_get] | (rule reads_seq_token, rule reads_tokens) | (rule reads_bind_token, rule reads_tokens) |
      (rule reads_map_token, rule reads_tokens) | (rule reads_seq_any, rule reads_errors) | rule reads_rules | rule reads_tokens |
      assumption | simp)+

lemma reads_unsupported_sfc_element [reads_tokens]:
  "good_calls k c d \<Longrightarrow> j \<le> Suc k \<Longrightarrow> reads j token_if_any (unsupported_sfc_element c chart) (unsupported_sfc_element d chart)"
  unfolding unsupported_sfc_element_def
  by (rule reads_bind_any [OF reads_get] | (rule reads_seq_token, rule reads_tokens) | (rule reads_bind_token, rule reads_tokens) |
      (rule reads_map_token, rule reads_tokens) | (rule reads_seq_any, rule reads_errors) | rule reads_rules | rule reads_tokens |
      assumption | simp)+

lemmas reads_unsupported_sfc_element_any [reads_rules] = reads_unsupported_sfc_element [THEN reads_any]

lemma reads_take_label [reads_tokens]:
  "(\<And>name. reads j anything (m name) (m' name)) \<Longrightarrow> reads j token_if_any (take_label what m) (take_label what m')"
  unfolding take_label_def
  by (rule reads_bind_any [OF reads_get] reads_seq_token reads_tokens reads_rules | assumption | simp)+

lemma reads_labeled_sfc_step [reads_rules]:
  "good_calls k c d \<Longrightarrow> j \<le> Suc k \<Longrightarrow> reads j anything (labeled_sfc_step c name) (labeled_sfc_step d name)"
  unfolding labeled_sfc_step_def
  by (rule reads_bind_any [OF reads_get] | (rule reads_seq_token, rule reads_tokens) | (rule reads_bind_token, rule reads_tokens) |
      (rule reads_map_token, rule reads_tokens) | (rule reads_seq_any, rule reads_errors) | rule reads_rules | rule reads_tokens |
      assumption | simp)+

lemma reads_sfc_element [reads_tokens]:
  "good_calls k c d \<Longrightarrow> j \<le> Suc k \<Longrightarrow> reads j token_if_any (sfc_element c chart) (sfc_element d chart)"
  unfolding sfc_element_def
  by (rule reads_bind_any [OF reads_get] | (rule reads_seq_token, rule reads_tokens) | (rule reads_bind_token, rule reads_tokens) |
      (rule reads_map_token, rule reads_tokens) | (rule reads_seq_any, rule reads_errors) | rule reads_rules | rule reads_tokens |
      assumption | simp)+

lemmas reads_sfc_element_any [reads_rules] = reads_sfc_element [THEN reads_any]

lemma reads_parse_sfc_body [reads_rules]:
  "good_calls k c d \<Longrightarrow> j \<le> Suc k \<Longrightarrow> reads j anything (parse_sfc_body c end_keyword) (parse_sfc_body d end_keyword)"
  unfolding parse_sfc_body_def
  by (rule reads_bind_any [OF reads_get] | (rule reads_seq_token, rule reads_tokens) | (rule reads_bind_token, rule reads_tokens) |
      (rule reads_map_token, rule reads_tokens) | (rule reads_seq_any, rule reads_errors) | rule reads_rules | rule reads_tokens |
      assumption | simp)+

section \<open>Program organisation units and projects\<close>

lemma reads_parse_pou_kind [reads_rules]:
  "good_calls k c d \<Longrightarrow> j \<le> Suc k \<Longrightarrow> reads j anything (parse_pou_kind c start) (parse_pou_kind d start)"
  unfolding parse_pou_kind_def
  by (cases start) (simp_all, (rule reads_rules | assumption | simp)+)

lemma reads_parse_pou_body [reads_rules]:
  "good_calls k c d \<Longrightarrow> j \<le> Suc k \<Longrightarrow> reads j anything (parse_pou_body c end_keyword) (parse_pou_body d end_keyword)"
  unfolding parse_pou_body_def
  by (rule reads_bind_any [OF reads_get] | (rule reads_seq_token, rule reads_tokens) | (rule reads_bind_token, rule reads_tokens) |
      (rule reads_map_token, rule reads_tokens) | (rule reads_seq_any, rule reads_errors) | rule reads_rules | rule reads_tokens |
      assumption | simp)+

lemma reads_parse_pou [reads_rules]:
  "good_calls k c d \<Longrightarrow> j \<le> Suc k \<Longrightarrow> reads j anything (parse_pou c start) (parse_pou d start)"
  unfolding parse_pou_def
  by (rule reads_bind_any [OF reads_get] | (rule reads_seq_token, rule reads_tokens) | (rule reads_bind_token, rule reads_tokens) |
      (rule reads_map_token, rule reads_tokens) | (rule reads_seq_any, rule reads_errors) | rule reads_rules | rule reads_tokens |
      assumption | simp)+

lemma reads_unexpected_element [reads_tokens]:
  "reads j token_if_any unexpected_element unexpected_element"
  unfolding unexpected_element_def
  by (rule reads_bind_any [OF reads_get] | (rule reads_seq_token, rule reads_tokens) | (rule reads_bind_token, rule reads_tokens) |
      (rule reads_map_token, rule reads_tokens) | (rule reads_seq_any, rule reads_errors) | rule reads_rules | rule reads_tokens |
      assumption | simp)+

lemmas reads_unexpected_element_any [reads_rules] = reads_unexpected_element [THEN reads_any]

lemma reads_parse_library_elements [reads_tokens]:
  "good_calls k c d \<Longrightarrow> j \<le> Suc k \<Longrightarrow> reads j token_if_any (parse_library_elements c) (parse_library_elements d)"
  unfolding parse_library_elements_def
  by (rule reads_bind_any [OF reads_get] | (rule reads_seq_token, rule reads_tokens) | (rule reads_bind_token, rule reads_tokens) |
      (rule reads_map_token, rule reads_tokens) | (rule reads_seq_any, rule reads_errors) | rule reads_rules | rule reads_tokens |
      assumption | simp)+

lemmas reads_parse_library_elements_any [reads_rules] = reads_parse_library_elements [THEN reads_any]

lemma reads_parse_project [reads_rules]:
  "good_calls k c d \<Longrightarrow> j \<le> Suc k \<Longrightarrow> reads j anything (parse_project c) (parse_project d)"
  unfolding parse_project_def
  by (rule reads_bind_any [OF reads_get] | (rule reads_seq_token, rule reads_tokens) | (rule reads_bind_token, rule reads_tokens) |
      (rule reads_map_token, rule reads_tokens) | (rule reads_seq_any, rule reads_errors) | rule reads_rules | rule reads_tokens |
      assumption | simp)+

end
