(* ===== verification/SynTermination.thy ===== *)
theory SynTermination
  imports SynChartEnds
begin

text \<open>
  The front end ends: \<open>parser n\<close> is good below \<open>n\<close>, and a source of \<open>n\<close> bytes has at most
  \<open>n\<close> tokens before its end marker.
\<close>

section \<open>The knot\<close>

lemma parser_turns [simp]: "pc_turns (parser n) = Suc n"
  by (cases n) (simp_all add: Let_def)

lemma good_parser: "k \<le> m \<Longrightarrow> k \<le> n \<Longrightarrow> good_calls k (parser m) (parser n)"
proof (induction k arbitrary: m n)
  case 0
  then show ?case by (simp add: good_calls_def reads_def)
next
  case (Suc k)
  then obtain m' n' where mn: "m = Suc m'" "n = Suc n'" "k \<le> m'" "k \<le> n'"
    by (metis Suc_le_D Suc_le_mono)
  have good: "good_calls k (parser m') (parser n')"
    using mn by (intro Suc.IH)
  show ?case
    using Suc.prems mn(1,2) reads_parse_expression [OF good] reads_parse_unary [OF good] reads_parse_il_operand [OF good]
      reads_parse_statement [OF good] reads_parse_statement_list [OF good] reads_parse_type_spec [OF good]
    by (simp add: good_calls_def Let_def)
qed

section \<open>The tokens of a source\<close>

lemma token_start:
  assumes "token_ok name source t"
  shows "get_from source (span_start (tk_span t)) \<noteq> None"
  using assms by (auto simp: token_ok_def Let_def span_new_def get_from_def get_to_def split: if_splits option.splits)

lemma tokens_apart:
  "sorted_wrt follows_on ts \<Longrightarrow>
   list_all (\<lambda>t. p \<le> span_start (tk_span t) \<and> span_start (tk_span t) < span_stop (tk_span t) \<and> span_stop (tk_span t) \<le> q) ts \<Longrightarrow>
   p \<le> q \<Longrightarrow> p + length ts \<le> q"
proof (induction ts arbitrary: p)
  case (Cons t ts)
  have "list_all (\<lambda>u. span_stop (tk_span t) \<le> span_start (tk_span u) \<and> span_start (tk_span u) < span_stop (tk_span u) \<and>
      span_stop (tk_span u) \<le> q) ts"
    using Cons.prems(1,2) by (auto simp: list_all_iff follows_on_def)
  then show ?case
    using Cons.IH [of "span_stop (tk_span t)"] Cons.prems by (auto simp: less_imp_le)
qed simp

lemma lexed:
  obtains body lx' where "lex (lexer_new name source impl) = (body @ [eof_token name source], lx')"
    and "length body \<le> length source" and "\<forall>t \<in> set body. tk_kind t \<noteq> EofT \<and> get_from source (span_start (tk_span t)) \<noteq> None"
proof -
  let ?lx = "lexer_new name source impl"
  obtain body lx' where body: "lex_tokens ?lx = (body, lx')"
    by force
  note cover = lex_tokens_cover [OF lx_at_new, of name source impl, unfolded body, simplified]
  have at: "lx_at name source lx'"
    using lx_at_moves [OF lx_at_new] cover by blast
  then have stop: "lx_pos lx' = length source" "lx_name lx' = name" "lx_source lx' = source"
    using lx_at_pos_le [OF at] cover by (simp_all add: lx_at_def)
  then have "lex ?lx = (body @ [eof_token name source], lx')"
    using body by (simp add: lex_def eof_token_def)
  moreover have "length body \<le> length source"
    using tokens_apart [of body 0 "length source"] cover stop by (auto simp: list_all_iff)
  moreover have "\<forall>t \<in> set body. tk_kind t \<noteq> EofT \<and> get_from source (span_start (tk_span t)) \<noteq> None"
    using cover token_start by blast
  ultimately show ?thesis
    by (rule that)
qed

lemma parser_new_ok:
  assumes "\<forall>t \<in> set body. tk_kind t \<noteq> EofT \<and> get_from source (span_start (tk_span t)) \<noteq> None"
  shows "parser_ok (parser_new oc source (body @ [eof_token name source]) impl)"
    and "tokens_left (parser_new oc source (body @ [eof_token name source]) impl) = length body"
proof -
  have "get_from source (span_start (tk_span (eof_token name source))) \<noteq> None"
    by (simp add: eof_token_def span_at_def get_from_def is_char_boundary_def split: prod.splits)
  then show "parser_ok (parser_new oc source (body @ [eof_token name source]) impl)"
    using assms by (auto simp: parser_ok_def parser_new_def nth_append eof_token_def)
qed (simp add: tokens_left_def parser_new_def)

section \<open>The front end\<close>

lemma front_end_result:
  assumes "length source \<le> m" and "length source \<le> n"
  shows "parse_project_with_options m oc name source impl = parse_project_with_options n oc name source impl"
    and "parse_project_with_options m oc name source impl \<noteq> NoOutput"
    and "parse_project_with_options m oc name source impl = Panics \<Longrightarrow> oc"
proof -
  obtain body lx' where lexed: "lex (lexer_new name source impl) = (body @ [eof_token name source], lx')"
      "length body \<le> length source" "\<forall>t \<in> set body. tk_kind t \<noteq> EofT \<and> get_from source (span_start (tk_span t)) \<noteq> None"
    by (rule lexed)
  let ?ps = "parser_new oc source (body @ [eof_token name source]) impl"
  note ok = parser_new_ok [OF lexed(3), of oc name impl]
  have reads: "reads (Suc (length source)) anything (parse_project (parser m)) (parse_project (parser n))"
    by (rule reads_parse_project [OF good_parser [OF assms]]) simp
  have less: "tokens_left ?ps < Suc (length source)"
    using ok(2) lexed(2) by simp
  note result = readsD [OF reads ok(1) less]
  have checks: "ps_overflow_checks ?ps = oc"
    by (simp add: parser_new_def)
  show "parse_project_with_options m oc name source impl = parse_project_with_options n oc name source impl"
    and "parse_project_with_options m oc name source impl \<noteq> NoOutput"
    and "parse_project_with_options m oc name source impl = Panics \<Longrightarrow> oc"
    using result(1-3) lexed(1) checks
    by (auto simp: parse_project_with_options_def split: parsed.splits if_splits)
qed

text \<open>C1: The front end always returns. Whatever the bytes of the source are, the lexer and
  the recursive descent parser end: with calls that may nest as deep as the source has bytes
  there is a result, more room for the calls does not change it, and it is a project with its
  diagnostics. Only a build with overflow checks may panic instead (a date literal beyond the
  range of \<open>i64\<close> days).\<close>

theorem front_end_returns:
  "parse_project_with_options (length source + room) oc name source impl =
     parse_project_with_options (length source) oc name source impl \<and>
   parse_project_with_options (length source) oc name source impl \<noteq> NoOutput \<and>
   parse_project_with_options (length source) False name source impl \<noteq> Panics"
  using front_end_result [of source "length source + room" "length source" oc name impl]
    front_end_result [of source "length source" "length source" False name impl] by auto

end
