(* ===== verification/Spec2Isabelle.thy ===== *)
theory Spec2Isabelle
  imports TargetEtherCat TargetSupervisor StdTimeText StdLaws RtSchedule RtBlockLaws RtFollows RtTermination SynTermination
begin

text \<open>
  A verification development for robocpp, an implementation of the IEC 61131-3 languages in Rust:
  a front end that reads the textual languages (\<open>crates/iec_syntax\<close>), an intermediate
  representation (\<open>iec_ir\<close>), the standard library (\<open>iec_stdlib\<close>), an interpreter that runs
  programs cycle by cycle (\<open>iec_runtime\<close>), and the runtime of a target that connects variables
  to field buses and guards the outputs (\<open>rbcpp_target\<close>). The definitions are translated from the
  Rust sources below \<open>src/crates\<close>, function by function and under the same names; where a name
  clashes it has a suffix. \<open>PROJECT.json\<close> maps each definition to its lines.

  The parts and how they interact. \<open>lex\<close> turns a source text into tokens, \<open>parse_project\<close> turns
  the tokens into a \<open>project\<close> and a list of diagnostics. The interpreter takes a project, the name
  of a program and options; it keeps the variables, the active steps of charts and the state of
  function block instances in a record \<open>runtime\<close>, evaluates standard functions with
  \<open>eval_standard_function\<close> and returns one trace per cycle or diagnostics. Around it, a scheduler
  picks the programs of a configuration that are due, and binds them to global variables. The
  target runtime is below: an adapter (\<open>TargetHal\<close>) reads and writes symbols, access paths name
  them, a watchdog and a safety gate decide whether outputs may be written, and a supervisor
  composes them around each cycle.

  How the code is represented.
  - A struct is a record or a datatype with selectors, an enum a datatype; \<open>i64\<close> is an \<open>int\<close>
    within bounds that every operation checks or wraps (\<open>RustInt\<close>), \<open>u64\<close> and \<open>usize\<close>
    likewise. The argument \<open>oc\<close> says whether overflow checks are compiled in: with them an overflow
    is \<open>Panic\<close>, without them it wraps.
  - A function that can panic returns an \<open>outcome\<close> (\<open>Ret\<close> or \<open>Panic\<close>, \<open>Prelude\<close>), one that
    can fail a sum or an option, one that works on \<open>&mut self\<close> is a state function.
  - \<open>f64\<close> is a sign, a significand and a binary exponent, an infinity or a NaN, with rounding to
    the nearest, ties to even (\<open>RustF64\<close>); the transcendental functions of the platform are the
    fields of a parameter (\<open>libm\<close>).
  - A string is the list of its UTF-8 bytes; \<open>chars\<close> cuts it into characters (\<open>RustStr\<close>,
    \<open>RustText\<close>). \<open>BTreeMap\<close> and \<open>BTreeSet\<close> are sorted lists (\<open>BTree\<close>).
  - Clocks, files, bus transports and hooks are what the code takes them for: explicit readings, a
    map from paths to contents with injected faults, records of operations.
  - Recursion that the code leaves unbounded takes a number of nested calls as fuel. The
    interpreter is \<open>interp n\<close>, whose calls nest at most \<open>n\<close> deep and are \<open>NoFuel\<close> beyond; the
    parser is \<open>parser n\<close>. Neither hides anything: more fuel never changes a result
    (\<open>RtRunLaws.run_fuel_irrelevant\<close>), in a project without recursive data types, without user
    function blocks and without fields of structures that start with a function call some fuel
    always suffices (\<open>RtTermination.run_terminates\<close>; \<open>RtTermination.disabled_start_never_ends\<close>
    is a run without end that the last condition excludes), and for the parser
    as many nested calls as the source has bytes suffice for every source
    (\<open>SynTermination.front_end_returns\<close>).

  The theories.
  - \<open>Prelude\<close>, \<open>RustInt\<close>, \<open>RustStr\<close>, \<open>RustText\<close>, \<open>RustF64\<close>, \<open>BTree\<close>: outcomes, integers,
    strings, floating point and ordered maps of Rust; the locale \<open>ordered_map\<close> has the laws of a
    map and is interpreted on the operations of \<open>BTree\<close>.
  - \<open>Ir\<close>, \<open>IrProgram\<close> (\<open>iec_ir/src/lib.rs\<close>): identifiers, types, values, expressions; statements,
    program organisation units, charts, configurations, projects and their look-ups.
    \<open>Diagnostics\<close> (\<open>iec_diagnostics/src/lib.rs\<close>).
  - \<open>SynLexer\<close>, \<open>SynLiteral\<close> (\<open>iec_syntax/src/{token,lexer,literal,il}.rs\<close>), \<open>SynParse\<close>,
    \<open>SynExpr\<close>, \<open>SynStatement\<close>, \<open>SynUnits\<close>, \<open>SynCharts\<close> (\<open>iec_syntax/src/{parser,lib}.rs\<close>): the
    front end. \<open>SynLexerLaws\<close> shows that the tokens are pieces of the source in its order;
    \<open>SynReads\<close>, \<open>SynStays\<close>, \<open>SynEnds\<close>, \<open>SynChartEnds\<close> and \<open>SynTermination\<close> show that every
    operation of the parser ends: a calculus of operations that consume tokens, leave them, or
    may call the next operation only after they consumed one.
  - \<open>StdNames\<close>, \<open>StdDates\<close>, \<open>StdTime\<close>, \<open>StdEval\<close> (\<open>iec_stdlib/src/lib.rs\<close>): names and
    evaluation of the standard functions. \<open>StdTyping\<close>: what they return is well formed.
    \<open>StdCalendar\<close>, \<open>StdTimeText\<close>, \<open>StdBcd\<close>, \<open>StdLaws\<close>: the calendar as a refinement of counting
    days, round trips of dates and texts, decimal codes, division, shifts, strings.
  - \<open>RtSupport\<close>, \<open>RtMachine\<close>, \<open>RtValues\<close>, \<open>RtOps\<close>, \<open>RtBlocks\<close>, \<open>RtInit\<close>, \<open>RtCall\<close>,
    \<open>RtExec\<close>, \<open>RtSfc\<close>, \<open>RtRun\<close>, \<open>RtGlobals\<close>, \<open>RtConfig\<close>, \<open>RtSchedule\<close>
    (\<open>iec_runtime/src/{support,state,runtime,configuration,lib}.rs\<close>): the interpreter, from literals to
    the scheduler. \<open>RtArrayLaws\<close> and \<open>RtAssignLaws\<close>: places of elements, what an assignment
    changes. \<open>RtBlockLaws\<close>: each standard block is an automaton over its fields (locale
    \<open>field_block\<close>, interpreted on all ten), and what timers and counters do over many cycles.
    \<open>RtSfcLaws\<close>: transitions and tokens of charts. \<open>RtRunLaws\<close>: what a run and a cycle keep.
    \<open>RtFollows\<close>: runs with different fuel agree. \<open>RtEnds\<close>, \<open>RtTermination\<close>: runs end.
  - \<open>TargetIo\<close>, \<open>TargetHal\<close>, \<open>TargetModbus\<close>, \<open>TargetEtherCat\<close>, \<open>TargetRos2\<close>,
    \<open>TargetSafety\<close>, \<open>TargetAccess\<close>, \<open>TargetSupervisor\<close> (\<open>rbcpp_target/src/lib.rs\<close>): the target. The
    interface \<open>TargetHal\<close> of the code is the locale \<open>target_hal\<close>, interpreted on every adapter of
    the code; the transports are locales of their own with the image as an interpretation, and the
    safety adapter is a \<open>sublocale\<close>: it keeps the laws of the adapter behind it.

  Not modelled.
  - The failure of allocations (\<open>try_reserve\<close> in the parser always succeeds), the depth of the
    machine stack, and memory at all: arrays are as large as the program says.
  - \<open>iec_semantics\<close>, the static checks: they only report diagnostics and change no program. The
    interpreter is therefore modelled on every project, checked or not.
  - \<open>iec_c\<close>: it prints C text, whose meaning needs a semantics of C that the repository does not
    have. \<open>iec_plcopen\<close>: it works on the tree of an XML library that is not part of the
    repository. \<open>iec_language_service\<close>: editor services. The command line, the target bridge and the
    build tasks: input and output of processes and files around the parts above.
  - The tables of \<open>iec_profile\<close> apart from the edition profiles and the implementation parameters:
    data.
\<close>

end
